(* ===== verification/Prelude.thy ===== *)
theory Prelude
  imports Main
begin

text \<open>
  Shared vocabulary of the development: the error values every service raises, the
  programs that read the environment, change the platform state and may fail without
  rolling back, and the generic lemmas on lists of table rows that the components use.

  A NestJS service method is an asynchronous function that reads and writes tables and
  may throw. It is modelled as a function from the environment and the state to a result
  (\<open>Inl\<close> the error thrown, \<open>Inr\<close> the value returned) and the state it leaves behind. The
  state is returned in the error case too, because a method that throws after a write
  does not undo the write (only \<open>prisma.$transaction\<close> blocks do).
\<close>

named_theorems prog_simps \<open>how a program step acts on the state\<close>
named_theorems row_simps \<open>lookups and updates of table rows\<close>
named_theorems frame_simps \<open>parts of the state an operation leaves alone\<close>

section \<open>Errors\<close>

text \<open>
  The HTTP exceptions of the services, the errors of the pure packages, and the errors
  the database raises. Messages are abridged to the words that identify the throw site.
\<close>

datatype err =
    NotFound string
  | BadRequest string
  | BadRequestReasons string "string list"
  | Forbidden string
  | Conflict string
  | Unauthorized string
  | TooManyRequests int
  | PlainError string
  | CurrencyMismatchError string string
  | UnbalancedJournalError int int
  | InvalidPostingError string
  | SyntaxError
  | UniqueViolation string
  | ForeignKeyViolation string
  | RecordNotFound string

type_synonym 'a res = "err + 'a"

section \<open>Pure computations that may throw\<close>

definition bind_r :: "'a res \<Rightarrow> ('a \<Rightarrow> 'b res) \<Rightarrow> 'b res" where
  "bind_r r f = (case r of Inl x \<Rightarrow> Inl x | Inr a \<Rightarrow> f a)"

lemma bind_r_simps [simp]:
  "bind_r (Inl x) f = Inl x"
  "bind_r (Inr a) f = f a"
  by (simp_all add: bind_r_def)

lemma bind_r_eq_Inr: "bind_r r f = Inr b \<longleftrightarrow> (\<exists>a. r = Inr a \<and> f a = Inr b)"
  by (cases r) simp_all

lemma bind_r_cong [fundef_cong]:
  "r = r' \<Longrightarrow> (\<And>a. r' = Inr a \<Longrightarrow> f a = f' a) \<Longrightarrow> bind_r r f = bind_r r' f'"
  by (cases r') simp_all

definition check_r :: "bool \<Rightarrow> err \<Rightarrow> unit res" where
  "check_r b x = (if b then Inr () else Inl x)"

lemma bind_check_r [simp]: "bind_r (check_r b x) f = (if b then f () else Inl x)"
  by (simp add: check_r_def)

fun map_r :: "('a \<Rightarrow> 'b res) \<Rightarrow> 'a list \<Rightarrow> 'b list res" where
  "map_r f [] = Inr []"
| "map_r f (x # xs) = bind_r (f x) (\<lambda>y. bind_r (map_r f xs) (\<lambda>ys. Inr (y # ys)))"

definition is_ok :: "'a res \<Rightarrow> bool" where
  "is_ok r = (case r of Inl _ \<Rightarrow> False | Inr _ \<Rightarrow> True)"

lemma is_ok_simps [simp]: "is_ok (Inr a)" "\<not> is_ok (Inl x)"
  by (simp_all add: is_ok_def)

lemma is_ok_iff: "is_ok r \<longleftrightarrow> (\<exists>a. r = Inr a)"
  by (cases r) simp_all

section \<open>Programs over an environment and a state\<close>

type_synonym ('e, 's, 'a) prog = "'e \<Rightarrow> 's \<Rightarrow> 'a res \<times> 's"

definition ret :: "'a \<Rightarrow> ('e, 's, 'a) prog" where
  "ret a e s = (Inr a, s)"

definition raise :: "err \<Rightarrow> ('e, 's, 'a) prog" where
  "raise x e s = (Inl x, s)"

definition bnd :: "('e, 's, 'a) prog \<Rightarrow> ('a \<Rightarrow> ('e, 's, 'b) prog) \<Rightarrow> ('e, 's, 'b) prog" where
  "bnd m f e s = (case m e s of (Inl x, s') \<Rightarrow> (Inl x, s') | (Inr a, s') \<Rightarrow> f a e s')"

definition seq :: "('e, 's, 'a) prog \<Rightarrow> ('e, 's, 'b) prog \<Rightarrow> ('e, 's, 'b) prog" where
  "seq m n = bnd m (\<lambda>_. n)"

definition check :: "bool \<Rightarrow> err \<Rightarrow> ('e, 's, unit) prog" where
  "check b x e s = (if b then Inr () else Inl x, s)"

definition lift_r :: "'a res \<Rightarrow> ('e, 's, 'a) prog" where
  "lift_r r e s = (r, s)"

definition asks :: "('e \<Rightarrow> 'a) \<Rightarrow> ('e, 's, 'a) prog" where
  "asks g e s = (Inr (g e), s)"

definition gets :: "('s \<Rightarrow> 'a) \<Rightarrow> ('e, 's, 'a) prog" where
  "gets g e s = (Inr (g s), s)"

definition modify :: "('s \<Rightarrow> 's) \<Rightarrow> ('e, 's, unit) prog" where
  "modify g e s = (Inr (), g s)"

definition require :: "'a option \<Rightarrow> err \<Rightarrow> 'a res" where
  "require x er = (case x of None \<Rightarrow> Inl er | Some a \<Rightarrow> Inr a)"

text \<open>\<open>find_or\<close> is the ubiquitous "look the row up, throw when it is missing".\<close>

definition find_or :: "('s \<Rightarrow> 'a option) \<Rightarrow> err \<Rightarrow> ('e, 's, 'a) prog" where
  "find_or g x e s = (case g s of None \<Rightarrow> (Inl x, s) | Some a \<Rightarrow> (Inr a, s))"

definition try_modify :: "('s \<Rightarrow> 's res) \<Rightarrow> ('e, 's, unit) prog" where
  "try_modify g e s = (case g s of Inl x \<Rightarrow> (Inl x, s) | Inr s' \<Rightarrow> (Inr (), s'))"

text \<open>A read that looks at both the environment and the state and may throw.\<close>

definition reads :: "('e \<Rightarrow> 's \<Rightarrow> 'a res) \<Rightarrow> ('e, 's, 'a) prog" where
  "reads g e s = (g e s, s)"

lemma reads_apply [prog_simps]: "reads g e s = (g e s, s)"
  by (simp add: reads_def)

lemma bnd_reads [prog_simps]:
  "bnd (reads g) f e s = (case g e s of Inl x \<Rightarrow> (Inl x, s) | Inr a \<Rightarrow> f a e s)"
  by (simp add: bnd_def reads_def split: sum.split)

lemma ret_apply [prog_simps]: "ret a e s = (Inr a, s)"
  by (simp add: ret_def)

lemma raise_apply [prog_simps]: "raise x e s = (Inl x, s)"
  by (simp add: raise_def)

lemma check_apply [prog_simps]: "check b x e s = (if b then (Inr (), s) else (Inl x, s))"
  by (simp add: check_def)

lemma lift_r_apply [prog_simps]: "lift_r r e s = (r, s)"
  by (simp add: lift_r_def)

lemma bnd_ret [prog_simps]: "bnd (ret a) f e s = f a e s"
  by (simp add: bnd_def ret_def)

lemma bnd_raise [prog_simps]: "bnd (raise x) f e s = (Inl x, s)"
  by (simp add: bnd_def raise_def)

lemma bnd_check [prog_simps]:
  "bnd (check b x) f e s = (if b then f () e s else (Inl x, s))"
  by (simp add: bnd_def check_def)

lemma bnd_lift_r [prog_simps]:
  "bnd (lift_r r) f e s = (case r of Inl x \<Rightarrow> (Inl x, s) | Inr a \<Rightarrow> f a e s)"
  by (simp add: bnd_def lift_r_def split: sum.split)

lemma bnd_asks [prog_simps]: "bnd (asks g) f e s = f (g e) e s"
  by (simp add: bnd_def asks_def)

lemma bnd_gets [prog_simps]: "bnd (gets g) f e s = f (g s) e s"
  by (simp add: bnd_def gets_def)

lemma bnd_modify [prog_simps]: "bnd (modify g) f e s = f () e (g s)"
  by (simp add: bnd_def modify_def)

lemma bnd_find_or [prog_simps]:
  "bnd (find_or g x) f e s = (case g s of None \<Rightarrow> (Inl x, s) | Some a \<Rightarrow> f a e s)"
  by (simp add: bnd_def find_or_def split: option.split)

lemma bnd_try_modify [prog_simps]:
  "bnd (try_modify g) f e s = (case g s of Inl x \<Rightarrow> (Inl x, s) | Inr s' \<Rightarrow> f () e s')"
  by (simp add: bnd_def try_modify_def split: sum.split)

lemma bnd_bnd [prog_simps]: "bnd (bnd m f) g e s = bnd m (\<lambda>a. bnd (f a) g) e s"
  by (auto simp: bnd_def split: prod.splits sum.splits)

lemma bnd_seq [prog_simps]: "bnd (seq m n) f e s = bnd m (\<lambda>_. bnd n f) e s"
  by (simp add: seq_def bnd_bnd)

lemma seq_apply [prog_simps]: "seq m n e s = bnd m (\<lambda>_. n) e s"
  by (simp add: seq_def)

lemma bnd_if [prog_simps]:
  "bnd (if b then m else n) f e s = (if b then bnd m f e s else bnd n f e s)"
  by simp

lemma if_apply [prog_simps]:
  "(if b then m else n) e s = (if b then m e s else n e s)"
  by simp

lemma case_option_apply [prog_simps]:
  "(case x of None \<Rightarrow> m | Some y \<Rightarrow> n y) e s = (case x of None \<Rightarrow> m e s | Some y \<Rightarrow> n y e s)"
  by (simp split: option.split)

lemma bnd_case_option [prog_simps]:
  "bnd (case x of None \<Rightarrow> m | Some y \<Rightarrow> n y) f e s =
     (case x of None \<Rightarrow> bnd m f e s | Some y \<Rightarrow> bnd (n y) f e s)"
  by (simp split: option.split)

lemma bnd_eq_Inr:
  "bnd m f e s = (Inr b, s'') \<longleftrightarrow> (\<exists>a s'. m e s = (Inr a, s') \<and> f a e s' = (Inr b, s''))"
  by (auto simp: bnd_def split: prod.splits sum.splits)

section \<open>What a program keeps\<close>

text \<open>
  \<open>keeps P m\<close>: from a state with \<open>P\<close> the program ends in one with \<open>P\<close>, whether it returns
  or throws. \<open>leaves f m\<close>: the program does not change the part \<open>f\<close> of the state.
\<close>

definition keeps :: "('s \<Rightarrow> bool) \<Rightarrow> ('e, 's, 'a) prog \<Rightarrow> bool" where
  "keeps P m \<longleftrightarrow> (\<forall>e s. P s \<longrightarrow> P (snd (m e s)))"

definition leaves :: "('s \<Rightarrow> 'b) \<Rightarrow> ('e, 's, 'a) prog \<Rightarrow> bool" where
  "leaves g m \<longleftrightarrow> (\<forall>e s. g (snd (m e s)) = g s)"

named_theorems keeps_intros \<open>programs that keep a state predicate\<close>

lemma keepsD: "keeps P m \<Longrightarrow> P s \<Longrightarrow> P (snd (m e s))"
  by (simp add: keeps_def)

lemma keeps_result: "keeps P m \<Longrightarrow> P s \<Longrightarrow> m e s = (r, s') \<Longrightarrow> P s'"
  by (metis keepsD snd_conv)

lemma keeps_bnd [keeps_intros]:
  assumes "keeps P m" and "\<And>a. keeps P (f a)"
  shows "keeps P (bnd m f)"
  unfolding keeps_def
proof (intro allI impI)
  fix e s assume "P s"
  with assms(1) have "P (snd (m e s))" by (rule keepsD)
  then show "P (snd (bnd m f e s))"
    using assms(2) by (auto simp: bnd_def keeps_def split: prod.splits sum.splits)
qed

lemma keeps_seq [keeps_intros]: "keeps P m \<Longrightarrow> keeps P n \<Longrightarrow> keeps P (seq m n)"
  by (simp add: seq_def keeps_bnd)

lemma keeps_ret [keeps_intros]: "keeps P (ret a)"
  by (simp add: keeps_def ret_def)

lemma keeps_raise [keeps_intros]: "keeps P (raise x)"
  by (simp add: keeps_def raise_def)

lemma keeps_check [keeps_intros]: "keeps P (check b x)"
  by (simp add: keeps_def check_def)

lemma keeps_lift_r [keeps_intros]: "keeps P (lift_r r)"
  by (simp add: keeps_def lift_r_def)

lemma keeps_asks [keeps_intros]: "keeps P (asks g)"
  by (simp add: keeps_def asks_def)

lemma keeps_gets [keeps_intros]: "keeps P (gets g)"
  by (simp add: keeps_def gets_def)

lemma keeps_find_or [keeps_intros]: "keeps P (find_or g x)"
  by (simp add: keeps_def find_or_def split: option.split)

lemma keeps_reads [keeps_intros]: "keeps P (reads g)"
  by (simp add: keeps_def reads_def)

lemma keeps_modify: "(\<And>s. P s \<Longrightarrow> P (g s)) \<Longrightarrow> keeps P (modify g)"
  by (simp add: keeps_def modify_def)

lemma keeps_try_modify: "(\<And>s s'. P s \<Longrightarrow> g s = Inr s' \<Longrightarrow> P s') \<Longrightarrow> keeps P (try_modify g)"
  by (auto simp: keeps_def try_modify_def split: sum.split)

lemma keeps_if [keeps_intros]: "keeps P m \<Longrightarrow> keeps P n \<Longrightarrow> keeps P (if b then m else n)"
  by simp

lemma keeps_case_option [keeps_intros]:
  "keeps P m \<Longrightarrow> (\<And>y. keeps P (n y)) \<Longrightarrow> keeps P (case x of None \<Rightarrow> m | Some y \<Rightarrow> n y)"
  by (simp split: option.split)

lemma leaves_iff_keeps: "leaves g m \<longleftrightarrow> (\<forall>c. keeps (\<lambda>s. g s = c) m)"
  by (auto simp: leaves_def keeps_def)

named_theorems leaves_intros \<open>programs that leave a part of the state alone\<close>

lemma leavesD: "leaves g m \<Longrightarrow> g (snd (m e s)) = g s"
  by (simp add: leaves_def)

lemma leaves_bnd [leaves_intros]: "leaves g m \<Longrightarrow> (\<And>a. leaves g (f a)) \<Longrightarrow> leaves g (bnd m f)"
  by (simp add: leaves_iff_keeps keeps_bnd)

lemma leaves_seq [leaves_intros]: "leaves g m \<Longrightarrow> leaves g n \<Longrightarrow> leaves g (seq m n)"
  by (simp add: leaves_iff_keeps keeps_seq)

lemma leaves_basic [leaves_intros]:
  "leaves g (ret a)" "leaves g (raise x)" "leaves g (check b x)" "leaves g (lift_r r)"
  "leaves g (asks h)" "leaves g (gets k)" "leaves g (find_or l x)" "leaves g (reads v)"
  by (simp_all add: leaves_iff_keeps keeps_intros)

lemma leaves_modify [leaves_intros]: "(\<And>s. g (f s) = g s) \<Longrightarrow> leaves g (modify f)"
  by (simp add: leaves_def modify_def)

lemma leaves_try_modify [leaves_intros]:
  "(\<And>s s'. f s = Inr s' \<Longrightarrow> g s' = g s) \<Longrightarrow> leaves g (try_modify f)"
  by (auto simp: leaves_def try_modify_def split: sum.split)

lemma leaves_if [leaves_intros]: "leaves g m \<Longrightarrow> leaves g n \<Longrightarrow> leaves g (if b then m else n)"
  by simp

lemma leaves_case_option [leaves_intros]:
  "leaves g m \<Longrightarrow> (\<And>y. leaves g (n y)) \<Longrightarrow> leaves g (case x of None \<Rightarrow> m | Some y \<Rightarrow> n y)"
  by (simp split: option.split)

lemma leaves_case_prod [leaves_intros]:
  "(\<And>a b. leaves g (n a b)) \<Longrightarrow> leaves g (case x of (a, b) \<Rightarrow> n a b)"
  by (simp split: prod.split)

section \<open>Tables as lists of rows\<close>

text \<open>
  A table is the list of its rows in the order they were created. Each table has a key
  function; \<open>find_row\<close> is \<open>findUnique\<close>, \<open>add_row\<close> is \<open>create\<close> (the database refuses a
  second row with the same unique value), \<open>set_row\<close> is \<open>update\<close> by key.
\<close>

definition find_row :: "('r \<Rightarrow> 'k) \<Rightarrow> 'k \<Rightarrow> 'r list \<Rightarrow> 'r option" where
  "find_row key k rs = find (\<lambda>r. key r = k) rs"

definition set_row :: "('r \<Rightarrow> 'k) \<Rightarrow> 'k \<Rightarrow> ('r \<Rightarrow> 'r) \<Rightarrow> 'r list \<Rightarrow> 'r list" where
  "set_row key k f rs = map (\<lambda>r. if key r = k then f r else r) rs"

definition has_row :: "('r \<Rightarrow> 'k) \<Rightarrow> 'k \<Rightarrow> 'r list \<Rightarrow> bool" where
  "has_row key k rs = list_ex (\<lambda>r. key r = k) rs"

definition uniq :: "('r \<Rightarrow> 'k) \<Rightarrow> 'r list \<Rightarrow> bool" where
  "uniq key rs = distinct (map key rs)"

text \<open>\<open>findFirst\<close> with \<open>orderBy createdAt desc\<close>: the last matching row.\<close>

definition find_last :: "('r \<Rightarrow> bool) \<Rightarrow> 'r list \<Rightarrow> 'r option" where
  "find_last p rs = find p (rev rs)"

lemma find_row_Nil [simp]: "find_row key k [] = None"
  by (simp add: find_row_def)

lemma find_row_Cons: "find_row key k (r # rs) = (if key r = k then Some r else find_row key k rs)"
  by (simp add: find_row_def)

lemma find_row_Some: "find_row key k rs = Some r \<Longrightarrow> r \<in> set rs \<and> key r = k"
  by (auto simp: find_row_def find_Some_iff)

lemma find_row_None: "find_row key k rs = None \<longleftrightarrow> k \<notin> key ` set rs"
  by (auto simp: find_row_def find_None_iff)

lemma has_row_iff: "has_row key k rs \<longleftrightarrow> k \<in> key ` set rs"
  by (auto simp: has_row_def list_ex_iff)

lemma has_row_find: "has_row key k rs \<longleftrightarrow> find_row key k rs \<noteq> None"
  by (simp add: has_row_iff find_row_None)

lemma find_row_append:
  "find_row key k (rs @ ss) = (case find_row key k rs of None \<Rightarrow> find_row key k ss | Some r \<Rightarrow> Some r)"
  by (induction rs) (simp_all add: find_row_Cons)

lemma find_row_uniq: "uniq key rs \<Longrightarrow> r \<in> set rs \<Longrightarrow> find_row key (key r) rs = Some r"
  by (induction rs) (auto simp: uniq_def find_row_Cons rev_image_eqI)

lemma uniq_append_row: "uniq key (rs @ [r]) \<longleftrightarrow> uniq key rs \<and> \<not> has_row key (key r) rs"
  by (auto simp: uniq_def has_row_iff)

lemma set_row_Nil [simp]: "set_row key k f [] = []"
  by (simp add: set_row_def)

lemma set_row_Cons: "set_row key k f (r # rs) = (if key r = k then f r else r) # set_row key k f rs"
  by (simp add: set_row_def)

lemma set_row_keys: "(\<And>r. key r = k \<Longrightarrow> key' (f r) = key' r) \<Longrightarrow> map key' (set_row key k f rs) = map key' rs"
  by (induction rs) (auto simp: set_row_def)

lemma uniq_set_row: "(\<And>r. key r = k \<Longrightarrow> key' (f r) = key' r) \<Longrightarrow> uniq key' (set_row key k f rs) = uniq key' rs"
  by (simp add: uniq_def set_row_keys)

lemma find_row_set_row:
  assumes "\<And>r. key r = k \<Longrightarrow> key (f r) = key r"
  shows "find_row key k' (set_row key k f rs) =
    (if k' = k then map_option f (find_row key k rs) else find_row key k' rs)"
  using assms by (induction rs) (auto simp: set_row_def find_row_Cons)

lemma has_row_set_row:
  assumes "\<And>r. key r = k \<Longrightarrow> key (f r) = key r"
  shows "has_row key k' (set_row key k f rs) = has_row key k' rs"
  using assms by (simp add: has_row_find find_row_set_row)

lemma mem_set_row:
  "r \<in> set (set_row key k f rs) \<longleftrightarrow>
     (\<exists>q \<in> set rs. if key q = k then r = f q else r = q)"
  unfolding set_row_def set_map image_iff by (intro bex_cong) auto

lemma set_row_cases:
  assumes "r \<in> set (set_row key k f rs)"
  obtains (changed) q where "q \<in> set rs" "key q = k" "r = f q"
    | (same) "r \<in> set rs" "key r \<noteq> k"
proof -
  from assms obtain q where "q \<in> set rs" and r: "if key q = k then r = f q else r = q"
    by (auto simp: mem_set_row)
  with that show thesis by (cases "key q = k") auto
qed

lemma set_row_absent: "\<not> has_row key k rs \<Longrightarrow> set_row key k f rs = rs"
  by (induction rs) (auto simp: set_row_def has_row_def)

text \<open>A row found by one unique column can be updated through another.\<close>

lemma set_row_other_key:
  assumes "uniq key rs" and "uniq key' rs" and "find_row key' k rs = Some p"
  shows "set_row key (key p) g rs = set_row key' k g rs"
  unfolding set_row_def
proof (rule map_cong [OF refl])
  fix r assume r: "r \<in> set rs"
  from find_row_Some [OF assms(3)] have p: "p \<in> set rs" "key' p = k" by simp_all
  from r p assms(1) have "key r = key p \<longleftrightarrow> r = p"
    by (auto simp: uniq_def distinct_map dest: inj_onD)
  moreover from r p assms(2) have "key' r = k \<longleftrightarrow> r = p"
    by (auto simp: uniq_def distinct_map dest: inj_onD)
  ultimately show "(if key r = key p then g r else r) = (if key' r = k then g r else r)" by simp
qed

lemma find_row_set_other:
  assumes "uniq key rs" and "uniq key' rs" and "find_row key' k rs = Some p"
    and "\<And>r. key' (g r) = key' r"
  shows "find_row key' x (set_row key (key p) g rs) = (if x = k then Some (g p) else find_row key' x rs)"
  using assms by (simp add: set_row_other_key [OF assms(1-3)] find_row_set_row)

lemma find_row_snoc:
  "find_row key k (rs @ [r]) = (case find_row key k rs of None \<Rightarrow> if key r = k then Some r else None | Some q \<Rightarrow> Some q)"
  by (simp add: find_row_append find_row_Cons split: option.split)

text \<open>
  The arithmetic behind every earmark invariant: replacing one row changes a sum over the
  table by the difference of the two rows' contributions.
\<close>

lemma sum_set_row:
  fixes w :: "'r \<Rightarrow> int"
  assumes "uniq key rs" and "find_row key k rs = Some r"
  shows "(\<Sum>x\<leftarrow>set_row key k f rs. w x) = (\<Sum>x\<leftarrow>rs. w x) - w r + w (f r)"
  using assms
proof (induction rs)
  case (Cons q rs)
  show ?case
  proof (cases "key q = k")
    case True
    with Cons.prems have "\<not> has_row key k rs" by (auto simp: uniq_def has_row_iff)
    then have "set_row key k f rs = rs" by (rule set_row_absent)
    with True Cons.prems show ?thesis
      by (simp add: set_row_Cons find_row_Cons)
  next
    case False
    with Cons show ?thesis by (simp add: set_row_Cons find_row_Cons uniq_def)
  qed
qed simp

lemma sum_list_nonneg_int:
  fixes w :: "'r \<Rightarrow> int"
  shows "(\<And>x. x \<in> set rs \<Longrightarrow> 0 \<le> w x) \<Longrightarrow> 0 \<le> (\<Sum>x\<leftarrow>rs. w x)"
  by (induction rs) (auto simp: add_nonneg_nonneg)

lemma find_last_append_row: "find_last p (rs @ [r]) = (if p r then Some r else find_last p rs)"
  by (simp add: find_last_def)

lemma find_in_set: "find p rs = Some r \<Longrightarrow> r \<in> set rs \<and> p r"
  by (auto simp: find_Some_iff)

lemma find_last_Some: "find_last p rs = Some r \<Longrightarrow> r \<in> set rs \<and> p r"
  by (auto simp: find_last_def dest: find_in_set)

section \<open>Creating and updating rows\<close>

text \<open>
  \<open>prisma.<table>.create\<close> and \<open>update\<close> on the table with selector \<open>get\<close> and updater \<open>upd\<close>.
  \<open>clash\<close> says when two rows share a unique column.
\<close>

definition create_row :: "('s \<Rightarrow> 'r list) \<Rightarrow> (('r list \<Rightarrow> 'r list) \<Rightarrow> 's \<Rightarrow> 's) \<Rightarrow> ('r \<Rightarrow> 'r \<Rightarrow> bool) \<Rightarrow> string
    \<Rightarrow> 'r \<Rightarrow> ('e, 's, unit) prog" where
  "create_row get upd clash name row = try_modify (\<lambda>s.
     if list_ex (clash row) (get s) then Inl (UniqueViolation name)
     else Inr (upd (\<lambda>_. get s @ [row]) s))"

definition update_row :: "('s \<Rightarrow> 'r list) \<Rightarrow> (('r list \<Rightarrow> 'r list) \<Rightarrow> 's \<Rightarrow> 's) \<Rightarrow> ('r \<Rightarrow> 'k) \<Rightarrow> string
    \<Rightarrow> 'k \<Rightarrow> ('r \<Rightarrow> 'r) \<Rightarrow> ('e, 's, unit) prog" where
  "update_row get upd key name k f = try_modify (\<lambda>s.
     if has_row key k (get s) then Inr (upd (\<lambda>_. set_row key k f (get s)) s)
     else Inl (RecordNotFound name))"

lemma bnd_create_row [prog_simps]:
  "bnd (create_row get upd clash name row) f e s =
     (if list_ex (clash row) (get s) then (Inl (UniqueViolation name), s)
      else f () e (upd (\<lambda>_. get s @ [row]) s))"
  by (simp add: create_row_def prog_simps)

lemma bnd_update_row [prog_simps]:
  "bnd (update_row get upd key name k f) g e s =
     (if has_row key k (get s) then g () e (upd (\<lambda>_. set_row key k f (get s)) s)
      else (Inl (RecordNotFound name), s))"
  by (simp add: update_row_def prog_simps)

lemma leaves_create_row [leaves_intros]:
  "(\<And>s x. g (upd (\<lambda>_. x) s) = g s) \<Longrightarrow> leaves g (create_row get upd clash name row)"
  by (auto simp: create_row_def split: if_splits intro!: leaves_try_modify)

lemma leaves_update_row [leaves_intros]:
  "(\<And>s x. g (upd (\<lambda>_. x) s) = g s) \<Longrightarrow> leaves g (update_row get upd key name k f)"
  by (auto simp: update_row_def split: if_splits intro!: leaves_try_modify)

lemma keeps_create_row:
  "(\<And>s. P s \<Longrightarrow> \<not> list_ex (clash row) (get s) \<Longrightarrow> P (upd (\<lambda>_. get s @ [row]) s)) \<Longrightarrow>
   keeps P (create_row get upd clash name row)"
  by (auto simp: create_row_def split: if_splits intro!: keeps_try_modify)

lemma keeps_update_row:
  "(\<And>s. P s \<Longrightarrow> has_row key k (get s) \<Longrightarrow> P (upd (\<lambda>_. set_row key k f (get s)) s)) \<Longrightarrow>
   keeps P (update_row get upd key name k f)"
  by (auto simp: update_row_def split: if_splits intro!: keeps_try_modify)

lemma has_row_found [simp]: "find_row key k rs = Some r \<Longrightarrow> has_row key k rs"
  by (simp add: has_row_find)

text \<open>The row with the greatest value of a column: \<open>findFirst\<close> with \<open>orderBy desc\<close>.\<close>

fun find_max :: "('r \<Rightarrow> int) \<Rightarrow> 'r list \<Rightarrow> 'r option" where
  "find_max f [] = None"
| "find_max f (r # rs) = (case find_max f rs of None \<Rightarrow> Some r
     | Some q \<Rightarrow> if f q \<le> f r then Some r else Some q)"

lemma find_max_None [simp]: "find_max f rs = None \<longleftrightarrow> rs = []"
  by (cases rs) (auto split: option.splits)

lemma find_max_Some: "find_max f rs = Some r \<Longrightarrow> r \<in> set rs \<and> (\<forall>q \<in> set rs. f q \<le> f r)"
proof (induction rs arbitrary: r)
  case (Cons a rs)
  show ?case
  proof (cases "find_max f rs")
    case None
    with Cons.prems show ?thesis by simp
  next
    case (Some q)
    with Cons.IH have "q \<in> set rs" and "\<forall>x \<in> set rs. f x \<le> f q" by blast+
    with Some Cons.prems show ?thesis by (auto split: if_splits intro: order_trans)
  qed
qed simp

section \<open>Sequences of calls\<close>

text \<open>
  The contract of a dispatcher: \<open>run\<close> executes calls one after the other, each in its own
  environment, failing calls included. What every call keeps or leaves alone, a run does.
\<close>

locale call_run =
  fixes step :: "'c \<Rightarrow> ('e, 's, unit) prog"
    and run :: "('e \<times> 'c) list \<Rightarrow> 's \<Rightarrow> 's"
  assumes run_Nil: "run [] s = s"
    and run_Cons: "run ((e, c) # cs) s = run cs (snd (step c e s))"
begin

lemma keep: "(\<And>c. keeps P (step c)) \<Longrightarrow> P s \<Longrightarrow> P (run cs s)"
proof (induction cs arbitrary: s)
  case (Cons x cs)
  then show ?case by (cases x) (simp add: run_Cons keepsD)
qed (simp add: run_Nil)

lemma leave: "(\<And>c. leaves f (step c)) \<Longrightarrow> f (run cs s) = f s"
proof (induction cs arbitrary: s)
  case (Cons x cs)
  then show ?case by (cases x) (simp add: run_Cons leavesD)
qed (simp add: run_Nil)

end

end
