(* ===== verification/Js_Values.thy ===== *)
theory Js_Values
  imports Prelude Complex_Main "HOL-Library.Signed_Division"
begin

text \<open>
  The parts of JavaScript's standard library the platform relies on: \<open>toUpperCase\<close>,
  \<open>split\<close>, \<open>BigInt(string)\<close>, \<open>BigInt.prototype.toString\<close>, \<open>Math.trunc\<close> and the
  truncating \<open>/\<close> and \<open>%\<close> of \<open>bigint\<close>. Strings are lists of 8-bit characters; the case
  mapping is the ASCII one, which is what currency codes and account codes use. A
  \<open>bigint\<close> is an \<open>int\<close>, a finite \<open>number\<close> a rational.
\<close>

section \<open>Strings\<close>

definition upper_char :: "char \<Rightarrow> char" where
  "upper_char c = (let n = (of_char c :: nat) in if 97 \<le> n \<and> n \<le> 122 then char_of (n - 32) else c)"

definition toUpperCase :: "string \<Rightarrow> string" where
  "toUpperCase s = map upper_char s"

lemma upper_char_idem [simp]: "upper_char (upper_char c) = upper_char c"
proof -
  have "(of_char c :: nat) < 256" by simp
  then show ?thesis by (auto simp: upper_char_def Let_def)
qed

lemma toUpperCase_idem [simp]: "toUpperCase (toUpperCase s) = toUpperCase s"
  by (simp add: toUpperCase_def comp_def)

text \<open>\<open>s.split(d)[0]\<close>: the text before the first delimiter.\<close>

definition split_first :: "char \<Rightarrow> string \<Rightarrow> string" where
  "split_first d s = takeWhile (\<lambda>c. c \<noteq> d) s"

definition is_white :: "char \<Rightarrow> bool" where
  "is_white c = ((of_char c :: nat) \<in> {9, 10, 11, 12, 13, 32, 160})"

definition trim :: "string \<Rightarrow> string" where
  "trim s = rev (dropWhile is_white (rev (dropWhile is_white s)))"

text \<open>A string is truthy in a condition when it is not empty; so is a nullable one.\<close>

definition truthy :: "string option \<Rightarrow> bool" where
  "truthy s = (case s of None \<Rightarrow> False | Some t \<Rightarrow> t \<noteq> [])"

section \<open>Printing a bigint\<close>

definition digit_char :: "nat \<Rightarrow> char" where
  "digit_char d = char_of (48 + d)"

fun nat_str :: "nat \<Rightarrow> string" where
  "nat_str n = (if n < 10 then [digit_char n] else nat_str (n div 10) @ [digit_char (n mod 10)])"

declare nat_str.simps [simp del]

definition bigint_toString :: "int \<Rightarrow> string" where
  "bigint_toString i = (if i < 0 then CHR ''-'' # nat_str (nat (- i)) else nat_str (nat i))"

section \<open>Parsing a bigint\<close>

text \<open>The value of a digit in a radix up to sixteen, or nothing.\<close>

definition digit_val :: "nat \<Rightarrow> char \<Rightarrow> nat option" where
  "digit_val radix c = (let n = (of_char c :: nat);
      v = (if 48 \<le> n \<and> n \<le> 57 then n - 48
           else if 97 \<le> n \<and> n \<le> 102 then n - 87
           else if 65 \<le> n \<and> n \<le> 70 then n - 55
           else 99)
    in if v < radix then Some v else None)"

fun digits_acc :: "nat \<Rightarrow> nat \<Rightarrow> string \<Rightarrow> nat option" where
  "digits_acc radix acc [] = Some acc"
| "digits_acc radix acc (c # cs) =
     (case digit_val radix c of None \<Rightarrow> None | Some v \<Rightarrow> digits_acc radix (acc * radix + v) cs)"

text \<open>One or more digits.\<close>

definition digits :: "nat \<Rightarrow> string \<Rightarrow> nat option" where
  "digits radix cs = (if cs = [] then None else digits_acc radix 0 cs)"

text \<open>
  \<open>BigInt(s)\<close>: white space is trimmed, an empty string is zero, \<open>0x\<close>, \<open>0o\<close> and \<open>0b\<close>
  introduce unsigned literals, anything else is an optionally signed decimal; every other
  string raises \<open>SyntaxError\<close>.
\<close>

definition radix_of :: "char \<Rightarrow> nat option" where
  "radix_of c = (if c = CHR ''x'' \<or> c = CHR ''X'' then Some 16
     else if c = CHR ''o'' \<or> c = CHR ''O'' then Some 8
     else if c = CHR ''b'' \<or> c = CHR ''B'' then Some 2 else None)"

definition signed_decimal :: "string \<Rightarrow> int option" where
  "signed_decimal s = (case s of
       [] \<Rightarrow> None
     | c # cs \<Rightarrow> (if c = CHR ''-'' then map_option (\<lambda>n. - int n) (digits 10 cs)
                else if c = CHR ''+'' then map_option int (digits 10 cs)
                else map_option int (digits 10 s)))"

definition int_literal :: "string \<Rightarrow> int option" where
  "int_literal s = (case s of
       z # p # cs \<Rightarrow> (if z = CHR ''0''
          then (case radix_of p of Some r \<Rightarrow> map_option int (digits r cs) | None \<Rightarrow> signed_decimal s)
          else signed_decimal s)
     | _ \<Rightarrow> signed_decimal s)"

definition BigInt :: "string \<Rightarrow> int res" where
  "BigInt s = (let t = trim s in if t = [] then Inr 0
     else (case int_literal t of None \<Rightarrow> Inl SyntaxError | Some i \<Rightarrow> Inr i))"

section \<open>Printing and parsing agree\<close>

lemma of_char_digit [simp]: "d < 10 \<Longrightarrow> (of_char (digit_char d) :: nat) = 48 + d"
  by (simp add: digit_char_def)

lemma digit_val_digit_char [simp]: "d < 10 \<Longrightarrow> digit_val 10 (digit_char d) = Some d"
  by (simp add: digit_val_def Let_def)

lemma digits_acc_append:
  "digits_acc r acc (xs @ ys) = (case digits_acc r acc xs of None \<Rightarrow> None | Some a \<Rightarrow> digits_acc r a ys)"
  by (induction xs arbitrary: acc) (simp_all split: option.split)

lemma nat_str_nonempty [simp]: "nat_str n \<noteq> []"
  by (subst nat_str.simps) simp

lemma digits_acc_nat_str: "digits_acc 10 0 (nat_str n) = Some n"
proof (induction n rule: nat_str.induct)
  case (1 n)
  then show ?case
    by (subst nat_str.simps) (auto simp: digits_acc_append)
qed

lemma nat_str_digits: "c \<in> set (nat_str n) \<Longrightarrow> \<exists>d < 10. c = digit_char d"
proof (induction n rule: nat_str.induct)
  case (1 n)
  show ?case
  proof (cases "n < 10")
    case True
    with 1(2) show ?thesis by (auto simp: nat_str.simps [of n])
  next
    case False
    with 1(2) have "c \<in> set (nat_str (n div 10)) \<or> c = digit_char (n mod 10)"
      by (auto simp: nat_str.simps [of n])
    moreover have "n mod 10 < 10" by simp
    ultimately show ?thesis using 1(1) False by blast
  qed
qed

lemma not_white_nat_str: "c \<in> set (nat_str n) \<Longrightarrow> \<not> is_white c"
  by (drule nat_str_digits) (auto simp: is_white_def)

lemma dropWhile_no_white: "\<forall>c \<in> set s. \<not> is_white c \<Longrightarrow> dropWhile is_white s = s"
  by (cases s) simp_all

lemma trim_no_white: "\<forall>c \<in> set s. \<not> is_white c \<Longrightarrow> trim s = s"
  by (simp add: trim_def dropWhile_no_white)

lemma nat_str_hd: "nat_str n = c # cs \<Longrightarrow> c \<noteq> CHR ''-'' \<and> c \<noteq> CHR ''+''"
proof -
  assume "nat_str n = c # cs"
  then have "c \<in> set (nat_str n)" by simp
  then obtain d where "d < 10" and "c = digit_char d" using nat_str_digits by blast
  then have "(of_char c :: nat) = 48 + d" by simp
  then show ?thesis by auto
qed

lemma radix_of_digit: "d < 10 \<Longrightarrow> radix_of (digit_char d) = None"
proof -
  assume "d < 10"
  then have "(of_char (digit_char d) :: nat) < 58" by simp
  then have "digit_char d \<noteq> c" if "58 \<le> (of_char c :: nat)" for c using that by auto
  then show ?thesis by (simp add: radix_of_def)
qed

lemma signed_decimal_nat_str: "signed_decimal (nat_str n) = Some (int n)"
  using nat_str_hd [of n] digits_acc_nat_str [of n]
  by (cases "nat_str n") (auto simp: signed_decimal_def digits_def)

lemma int_literal_nat_str: "int_literal (nat_str n) = Some (int n)"
proof (cases "nat_str n")
  case (Cons z t)
  show ?thesis
  proof (cases t)
    case (Cons p cs)
    with \<open>nat_str n = z # t\<close> have "p \<in> set (nat_str n)" by simp
    then obtain d where "d < 10" and "p = digit_char d" using nat_str_digits by blast
    then have "radix_of p = None" using radix_of_digit by simp
    with Cons \<open>nat_str n = z # t\<close> show ?thesis
      using signed_decimal_nat_str [of n] by (auto simp: int_literal_def)
  qed (use \<open>nat_str n = z # t\<close> signed_decimal_nat_str [of n] in \<open>simp add: int_literal_def\<close>)
qed simp

lemma int_literal_minus: "int_literal (CHR ''-'' # nat_str n) = Some (- int n)"
  using digits_acc_nat_str [of n]
  by (cases "nat_str n") (auto simp: int_literal_def signed_decimal_def digits_def split: list.split)

lemma BigInt_toString: "BigInt (bigint_toString i) = Inr i"
proof -
  have w: "\<not> is_white (CHR ''-'')" by (simp add: is_white_def)
  have "trim (bigint_toString i) = bigint_toString i"
    using w by (intro trim_no_white) (auto simp: bigint_toString_def not_white_nat_str split: if_splits)
  moreover have "int_literal (bigint_toString i) = Some i"
    by (simp add: bigint_toString_def int_literal_nat_str int_literal_minus)
  moreover have "bigint_toString i \<noteq> []" by (simp add: bigint_toString_def)
  ultimately show ?thesis by (simp add: BigInt_def)
qed

lemma bigint_toString_inj: "bigint_toString i = bigint_toString j \<Longrightarrow> i = j"
  by (metis BigInt_toString sum.inject(2))

section \<open>Numbers\<close>

type_synonym js_number = rat

definition Math_trunc :: "js_number \<Rightarrow> int" where
  "Math_trunc q = (if q < 0 then \<lceil>q\<rceil> else \<lfloor>q\<rfloor>)"

definition Number_isInteger :: "js_number \<Rightarrow> bool" where
  "Number_isInteger q = (of_int \<lfloor>q\<rfloor> = q)"

lemma Math_trunc_of_int [simp]: "Math_trunc (of_int i) = i"
  by (simp add: Math_trunc_def)

lemma Math_trunc_numeral [simp]: "Math_trunc (numeral n) = numeral n"
  by (simp add: Math_trunc_def)

lemma Number_isInteger_of_int [simp]: "Number_isInteger (of_int i)"
  by (simp add: Number_isInteger_def)

text \<open>Facts on the truncating division of \<open>bigint\<close>.\<close>

lemma sdiv_nonneg: "0 \<le> (a::int) \<Longrightarrow> 0 < b \<Longrightarrow> a sdiv b = a div b"
  by (simp add: signed_divide_int_def sgn_if)

lemma sdiv_ge_0: "0 \<le> (a::int) \<Longrightarrow> 0 < b \<Longrightarrow> 0 \<le> a sdiv b"
  by (simp add: sdiv_nonneg pos_imp_zdiv_nonneg_iff)

end
