(* ===== verification/Json.thy ===== *)
theory Json
  imports Js_Values
begin

text \<open>
  JSON values as the services build them for audit states, event payloads and signed
  artifacts: \<open>JSON.stringify\<close>, the replacer that prints \<open>bigint\<close>s as decimal strings
  (\<open>events.service.ts\<close>, \<open>audit.service.ts\<close>) and the canonical form with sorted keys that
  is signed (\<open>packages/cryptography/src/signing.ts\<close>, \<open>infra/idempotency.service.ts\<close>).
  Numbers are integers (all numbers the platform serialises are). The lemmas show that
  the canonical form does not depend on the order in which the keys were written.
\<close>

section \<open>Values\<close>

datatype json =
    JNull
  | JUndef
  | JBool bool
  | JNum int
  | JBig int
  | JStr string
  | JArr "json list"
  | JObj "(string \<times> json) list"

definition jopt :: "string option \<Rightarrow> json" where
  "jopt s = (case s of None \<Rightarrow> JNull | Some t \<Rightarrow> JStr t)"

section \<open>Printing\<close>

definition hex_digit :: "nat \<Rightarrow> char" where
  "hex_digit n = (if n < 10 then char_of (48 + n) else char_of (87 + n))"

definition quote_char :: "char \<Rightarrow> string" where
  "quote_char c = (let n = (of_char c :: nat) in
     if n = 34 then [char_of (92::nat), char_of (34::nat)]
     else if n = 92 then [char_of (92::nat), char_of (92::nat)]
     else if n = 8 then char_of (92::nat) # ''b''
     else if n = 9 then char_of (92::nat) # ''t''
     else if n = 10 then char_of (92::nat) # ''n''
     else if n = 12 then char_of (92::nat) # ''f''
     else if n = 13 then char_of (92::nat) # ''r''
     else if n < 32 then char_of (92::nat) # ''u00'' @ [hex_digit (n div 16), hex_digit (n mod 16)]
     else [c])"

definition quote :: "string \<Rightarrow> string" where
  "quote s = char_of (34::nat) # concat (map quote_char s) @ [char_of (34::nat)]"

fun join :: "string \<Rightarrow> string list \<Rightarrow> string" where
  "join d [] = []"
| "join d [x] = x"
| "join d (x # xs) = x @ d @ join d xs"

text \<open>
  \<open>JSON.stringify\<close> of a value without bigints: a member whose value is \<open>undefined\<close> is left
  out of an object and printed as \<open>null\<close> in an array.
\<close>

fun stringify :: "json \<Rightarrow> string" where
  "stringify JNull = ''null''"
| "stringify JUndef = ''null''"
| "stringify (JBool b) = (if b then ''true'' else ''false'')"
| "stringify (JNum i) = bigint_toString i"
| "stringify (JBig i) = bigint_toString i"
| "stringify (JStr s) = quote s"
| "stringify (JArr vs) = ''['' @ join '','' (map stringify vs) @ '']''"
| "stringify (JObj kvs) = ''{'' @ join '','' (map (\<lambda>(k, s). quote k @ '':'' @ s)
     (map (\<lambda>(k, v). (k, stringify v)) (filter (\<lambda>(k, v). v \<noteq> JUndef) kvs))) @ ''}''"

section \<open>The replacer and the canonical form\<close>

text \<open>
  \<open>JSON.parse(JSON.stringify(v, replacer))\<close>: bigints become decimal strings, undefined
  members disappear.
\<close>

fun to_plain :: "json \<Rightarrow> json" where
  "to_plain (JBig i) = JStr (bigint_toString i)"
| "to_plain (JArr vs) = JArr (map (\<lambda>v. if v = JUndef then JNull else to_plain v) vs)"
| "to_plain (JObj kvs) = JObj (map (\<lambda>(k, v). (k, to_plain v)) (filter (\<lambda>(k, v). v \<noteq> JUndef) kvs))"
| "to_plain v = v"

text \<open>Keys are compared by character code, as \<open>Array.prototype.sort\<close> does.\<close>

fun str_le :: "string \<Rightarrow> string \<Rightarrow> bool" where
  "str_le [] t = True"
| "str_le (c # cs) [] = False"
| "str_le (c # cs) (d # ds) =
     ((of_char c :: nat) < of_char d \<or> c = d \<and> str_le cs ds)"

fun insert_member :: "string \<times> 'v \<Rightarrow> (string \<times> 'v) list \<Rightarrow> (string \<times> 'v) list" where
  "insert_member m [] = [m]"
| "insert_member m (n # ns) = (if str_le (fst m) (fst n) then m # n # ns else n # insert_member m ns)"

definition sort_members :: "(string \<times> 'v) list \<Rightarrow> (string \<times> 'v) list" where
  "sort_members ms = foldr insert_member ms []"

fun sortValue :: "json \<Rightarrow> json" where
  "sortValue (JBig i) = JStr (bigint_toString i)"
| "sortValue (JArr vs) = JArr (map sortValue vs)"
| "sortValue (JObj kvs) = JObj (sort_members (map (\<lambda>(k, v). (k, sortValue v)) kvs))"
| "sortValue v = v"

definition canonicalize :: "json \<Rightarrow> string" where
  "canonicalize v = stringify (sortValue v)"

section \<open>The canonical form is independent of key order\<close>

lemma str_le_refl [simp]: "str_le s s"
  by (induction s) simp_all

lemma str_le_total: "str_le s t \<or> str_le t s"
  by (induction s t rule: str_le.induct) auto

lemma str_le_Nil [simp]: "str_le t [] \<longleftrightarrow> t = []"
  by (cases t) simp_all

lemma str_le_antisym: "str_le s t \<Longrightarrow> str_le t s \<Longrightarrow> s = t"
  by (induction s t rule: str_le.induct) auto

lemma str_le_trans: "str_le s t \<Longrightarrow> str_le t u \<Longrightarrow> str_le s u"
proof (induction s arbitrary: t u)
  case (Cons c cs)
  from Cons.prems obtain d ds where t: "t = d # ds" by (cases t) auto
  with Cons.prems obtain f fs where u: "u = f # fs" by (cases u) auto
  from Cons t u show ?case by auto
qed simp

lemma insert_member_keys: "set (map fst (insert_member m ms)) = insert (fst m) (set (map fst ms))"
  by (induction ms) auto

text \<open>With distinct keys, inserting two members commutes, so the order of writing is forgotten.\<close>

lemma insert_member_commute:
  assumes "fst m \<noteq> fst n"
  shows "insert_member m (insert_member n ms) = insert_member n (insert_member m ms)"
proof (induction ms)
  case Nil
  then show ?case using assms str_le_total str_le_antisym by auto
next
  case (Cons q qs)
  then show ?case using assms
    by simp (metis str_le_total str_le_antisym str_le_trans)
qed

lemma sort_members_swap:
  assumes "fst m \<noteq> fst n"
  shows "sort_members (xs @ m # n # ys) = sort_members (xs @ n # m # ys)"
  using assms by (simp add: sort_members_def insert_member_commute)

lemma canonicalize_swap:
  assumes "k \<noteq> l"
  shows "canonicalize (JObj (xs @ (k, v) # (l, w) # ys)) = canonicalize (JObj (xs @ (l, w) # (k, v) # ys))"
  using sort_members_swap [of "(k, sortValue v)" "(l, sortValue w)"] assms
  by (simp add: canonicalize_def)

end
