(* ===== verification/Enums.thy ===== *)
theory Enums
  imports Js_Values
begin

text \<open>
  \<open>packages/domain/src/enums.ts\<close> and \<open>fund-classification.ts\<close>: the status enumerations
  of the life cycles, with the strings they are stored and published as, and the backing
  policy of each fund classification. Constructors shared by several enumerations are
  written with the enumeration's name, as in the source.
\<close>

section \<open>Life-cycle statuses\<close>

datatype DepositStatus =
    EXPECTED
  | DETECTED
  | UNMATCHED
  | MATCHED
  | PENDING_CLEARANCE
  | CLEARED
  | HELD
  | REJECTED
  | RETURNED
  | ALLOCATED_TO_RESERVE
  | AVAILABLE_FOR_MINT
  | CONSUMED_BY_MINT
  | REFUNDED
  | MANUAL_REVIEW

primrec DepositStatus_str :: "DepositStatus \<Rightarrow> string" where
  "DepositStatus_str DepositStatus.EXPECTED = ''EXPECTED''"
| "DepositStatus_str DepositStatus.DETECTED = ''DETECTED''"
| "DepositStatus_str DepositStatus.UNMATCHED = ''UNMATCHED''"
| "DepositStatus_str DepositStatus.MATCHED = ''MATCHED''"
| "DepositStatus_str DepositStatus.PENDING_CLEARANCE = ''PENDING_CLEARANCE''"
| "DepositStatus_str DepositStatus.CLEARED = ''CLEARED''"
| "DepositStatus_str DepositStatus.HELD = ''HELD''"
| "DepositStatus_str DepositStatus.REJECTED = ''REJECTED''"
| "DepositStatus_str DepositStatus.RETURNED = ''RETURNED''"
| "DepositStatus_str DepositStatus.ALLOCATED_TO_RESERVE = ''ALLOCATED_TO_RESERVE''"
| "DepositStatus_str DepositStatus.AVAILABLE_FOR_MINT = ''AVAILABLE_FOR_MINT''"
| "DepositStatus_str DepositStatus.CONSUMED_BY_MINT = ''CONSUMED_BY_MINT''"
| "DepositStatus_str DepositStatus.REFUNDED = ''REFUNDED''"
| "DepositStatus_str DepositStatus.MANUAL_REVIEW = ''MANUAL_REVIEW''"

definition MINT_ELIGIBLE_DEPOSIT_STATUSES :: "DepositStatus list" where
  "MINT_ELIGIBLE_DEPOSIT_STATUSES =
     [DepositStatus.CLEARED, DepositStatus.ALLOCATED_TO_RESERVE, DepositStatus.AVAILABLE_FOR_MINT]"

datatype MintAuthorizationStatus =
    DRAFT
  | PENDING_MAKER
  | PENDING_CHECKER
  | APPROVED
  | ISSUED
  | CONSUMED
  | EXPIRED
  | REVOKED
  | REJECTED

primrec MintAuthorizationStatus_str :: "MintAuthorizationStatus \<Rightarrow> string" where
  "MintAuthorizationStatus_str MintAuthorizationStatus.DRAFT = ''DRAFT''"
| "MintAuthorizationStatus_str MintAuthorizationStatus.PENDING_MAKER = ''PENDING_MAKER''"
| "MintAuthorizationStatus_str MintAuthorizationStatus.PENDING_CHECKER = ''PENDING_CHECKER''"
| "MintAuthorizationStatus_str MintAuthorizationStatus.APPROVED = ''APPROVED''"
| "MintAuthorizationStatus_str MintAuthorizationStatus.ISSUED = ''ISSUED''"
| "MintAuthorizationStatus_str MintAuthorizationStatus.CONSUMED = ''CONSUMED''"
| "MintAuthorizationStatus_str MintAuthorizationStatus.EXPIRED = ''EXPIRED''"
| "MintAuthorizationStatus_str MintAuthorizationStatus.REVOKED = ''REVOKED''"
| "MintAuthorizationStatus_str MintAuthorizationStatus.REJECTED = ''REJECTED''"

datatype RedemptionStatus =
    REQUESTED
  | VALIDATING
  | COMPLIANCE_REVIEW
  | AWAITING_APPROVAL
  | APPROVED
  | ASSET_LOCK_PENDING
  | ASSET_LOCKED
  | BURN_PENDING
  | BURN_CONFIRMED
  | PAYOUT_PENDING
  | PAYOUT_SUBMITTED
  | PAYOUT_CONFIRMED
  | COMPLETED
  | REJECTED
  | FAILED
  | RETURNED
  | MANUAL_REVIEW

primrec RedemptionStatus_str :: "RedemptionStatus \<Rightarrow> string" where
  "RedemptionStatus_str RedemptionStatus.REQUESTED = ''REQUESTED''"
| "RedemptionStatus_str RedemptionStatus.VALIDATING = ''VALIDATING''"
| "RedemptionStatus_str RedemptionStatus.COMPLIANCE_REVIEW = ''COMPLIANCE_REVIEW''"
| "RedemptionStatus_str RedemptionStatus.AWAITING_APPROVAL = ''AWAITING_APPROVAL''"
| "RedemptionStatus_str RedemptionStatus.APPROVED = ''APPROVED''"
| "RedemptionStatus_str RedemptionStatus.ASSET_LOCK_PENDING = ''ASSET_LOCK_PENDING''"
| "RedemptionStatus_str RedemptionStatus.ASSET_LOCKED = ''ASSET_LOCKED''"
| "RedemptionStatus_str RedemptionStatus.BURN_PENDING = ''BURN_PENDING''"
| "RedemptionStatus_str RedemptionStatus.BURN_CONFIRMED = ''BURN_CONFIRMED''"
| "RedemptionStatus_str RedemptionStatus.PAYOUT_PENDING = ''PAYOUT_PENDING''"
| "RedemptionStatus_str RedemptionStatus.PAYOUT_SUBMITTED = ''PAYOUT_SUBMITTED''"
| "RedemptionStatus_str RedemptionStatus.PAYOUT_CONFIRMED = ''PAYOUT_CONFIRMED''"
| "RedemptionStatus_str RedemptionStatus.COMPLETED = ''COMPLETED''"
| "RedemptionStatus_str RedemptionStatus.REJECTED = ''REJECTED''"
| "RedemptionStatus_str RedemptionStatus.FAILED = ''FAILED''"
| "RedemptionStatus_str RedemptionStatus.RETURNED = ''RETURNED''"
| "RedemptionStatus_str RedemptionStatus.MANUAL_REVIEW = ''MANUAL_REVIEW''"

section \<open>Client platforms\<close>

datatype ClientPlatform =
    PAYCHAIN
  | PAYKH
  | TRUSTEE_BANK_PORTAL
  | AUDITOR_PORTAL
  | REGULATOR_PORTAL

section \<open>Fund classification\<close>

datatype FundClassification =
    NON_MONETARY_PROMOTIONAL_POINT
  | CLOSED_LOOP_LOYALTY_VALUE
  | BACKED_LOYALTY_STABLECOIN
  | MERCHANT_FUNDED_REWARD
  | PLATFORM_FUNDED_REWARD
  | CASHBACK_LIABILITY
  | GIFT_CARD_LIABILITY
  | CUSTOMER_SAFEGUARDED_FUNDS
  | MERCHANT_SETTLEMENT_PAYABLE
  | STABLE_VALUE_LIABILITY
  | FIAT_BACKED_STABLECOIN_LIABILITY
  | TOKENIZED_DEPOSIT_LIABILITY

primrec FundClassification_str :: "FundClassification \<Rightarrow> string" where
  "FundClassification_str FundClassification.NON_MONETARY_PROMOTIONAL_POINT = ''NON_MONETARY_PROMOTIONAL_POINT''"
| "FundClassification_str FundClassification.CLOSED_LOOP_LOYALTY_VALUE = ''CLOSED_LOOP_LOYALTY_VALUE''"
| "FundClassification_str FundClassification.BACKED_LOYALTY_STABLECOIN = ''BACKED_LOYALTY_STABLECOIN''"
| "FundClassification_str FundClassification.MERCHANT_FUNDED_REWARD = ''MERCHANT_FUNDED_REWARD''"
| "FundClassification_str FundClassification.PLATFORM_FUNDED_REWARD = ''PLATFORM_FUNDED_REWARD''"
| "FundClassification_str FundClassification.CASHBACK_LIABILITY = ''CASHBACK_LIABILITY''"
| "FundClassification_str FundClassification.GIFT_CARD_LIABILITY = ''GIFT_CARD_LIABILITY''"
| "FundClassification_str FundClassification.CUSTOMER_SAFEGUARDED_FUNDS = ''CUSTOMER_SAFEGUARDED_FUNDS''"
| "FundClassification_str FundClassification.MERCHANT_SETTLEMENT_PAYABLE = ''MERCHANT_SETTLEMENT_PAYABLE''"
| "FundClassification_str FundClassification.STABLE_VALUE_LIABILITY = ''STABLE_VALUE_LIABILITY''"
| "FundClassification_str FundClassification.FIAT_BACKED_STABLECOIN_LIABILITY = ''FIAT_BACKED_STABLECOIN_LIABILITY''"
| "FundClassification_str FundClassification.TOKENIZED_DEPOSIT_LIABILITY = ''TOKENIZED_DEPOSIT_LIABILITY''"

record FundBackingPolicy =
  fp_classification :: FundClassification
  fp_fiatBackingRequired :: bool
  fp_requiredBackingBps :: int
  fp_redeemable :: bool
  fp_transferable :: bool
  fp_authorizationRequired :: bool

definition policy :: "FundClassification \<Rightarrow> bool \<Rightarrow> int \<Rightarrow> bool \<Rightarrow> bool \<Rightarrow> bool \<Rightarrow> FundBackingPolicy" where
  "policy classification fiatBackingRequired requiredBackingBps redeemable transferable authorizationRequired =
     \<lparr>fp_classification = classification, fp_fiatBackingRequired = fiatBackingRequired,
      fp_requiredBackingBps = requiredBackingBps, fp_redeemable = redeemable,
      fp_transferable = transferable, fp_authorizationRequired = authorizationRequired\<rparr>"

primrec POLICIES :: "FundClassification \<Rightarrow> FundBackingPolicy" where
  "POLICIES NON_MONETARY_PROMOTIONAL_POINT =
     policy NON_MONETARY_PROMOTIONAL_POINT False 0 False False False"
| "POLICIES CLOSED_LOOP_LOYALTY_VALUE =
     policy CLOSED_LOOP_LOYALTY_VALUE False 0 True False False"
| "POLICIES BACKED_LOYALTY_STABLECOIN =
     policy BACKED_LOYALTY_STABLECOIN True 10000 True True True"
| "POLICIES MERCHANT_FUNDED_REWARD =
     policy MERCHANT_FUNDED_REWARD True 10000 True False True"
| "POLICIES PLATFORM_FUNDED_REWARD =
     policy PLATFORM_FUNDED_REWARD True 10000 True False True"
| "POLICIES CASHBACK_LIABILITY =
     policy CASHBACK_LIABILITY True 10000 True False True"
| "POLICIES GIFT_CARD_LIABILITY =
     policy GIFT_CARD_LIABILITY True 10000 True True True"
| "POLICIES CUSTOMER_SAFEGUARDED_FUNDS =
     policy CUSTOMER_SAFEGUARDED_FUNDS True 10000 True True True"
| "POLICIES MERCHANT_SETTLEMENT_PAYABLE =
     policy MERCHANT_SETTLEMENT_PAYABLE True 10000 False False True"
| "POLICIES STABLE_VALUE_LIABILITY =
     policy STABLE_VALUE_LIABILITY True 10000 True True True"
| "POLICIES FIAT_BACKED_STABLECOIN_LIABILITY =
     policy FIAT_BACKED_STABLECOIN_LIABILITY True 10000 True True True"
| "POLICIES TOKENIZED_DEPOSIT_LIABILITY =
     policy TOKENIZED_DEPOSIT_LIABILITY True 10000 True True True"

definition all_classifications :: "FundClassification list" where
  "all_classifications = [NON_MONETARY_PROMOTIONAL_POINT,
     CLOSED_LOOP_LOYALTY_VALUE,
     BACKED_LOYALTY_STABLECOIN,
     MERCHANT_FUNDED_REWARD,
     PLATFORM_FUNDED_REWARD,
     CASHBACK_LIABILITY,
     GIFT_CARD_LIABILITY,
     CUSTOMER_SAFEGUARDED_FUNDS,
     MERCHANT_SETTLEMENT_PAYABLE,
     STABLE_VALUE_LIABILITY,
     FIAT_BACKED_STABLECOIN_LIABILITY,
     TOKENIZED_DEPOSIT_LIABILITY]"

text \<open>
  The classification column is a string; \<open>POLICIES[s]\<close> is \<open>undefined\<close> for a string that
  is not a classification.
\<close>

definition classification_of :: "string \<Rightarrow> FundClassification option" where
  "classification_of s = find (\<lambda>c. FundClassification_str c = s) all_classifications"

definition backingPolicyFor :: "string \<Rightarrow> FundBackingPolicy option" where
  "backingPolicyFor s = map_option POLICIES (classification_of s)"

definition requiresFiatBacking :: "FundClassification \<Rightarrow> bool" where
  "requiresFiatBacking c = fp_fiatBackingRequired (POLICIES c)"

section \<open>Lemmas\<close>

lemma all_classifications_complete: "c \<in> set all_classifications"
  by (cases c) (simp_all add: all_classifications_def)

lemma classification_of_str: "classification_of (FundClassification_str c) = Some c"
  by (cases c) (simp_all add: classification_of_def all_classifications_def)

lemma backingPolicyFor_str: "backingPolicyFor (FundClassification_str c) = Some (POLICIES c)"
  by (simp add: backingPolicyFor_def classification_of_str)

lemma MINT_ELIGIBLE_iff:
  "st \<in> set MINT_ELIGIBLE_DEPOSIT_STATUSES \<longleftrightarrow>
   st = DepositStatus.CLEARED \<or> st = DepositStatus.ALLOCATED_TO_RESERVE \<or> st = DepositStatus.AVAILABLE_FOR_MINT"
  by (simp add: MINT_ELIGIBLE_DEPOSIT_STATUSES_def)

end
