(* ===== verification/Money.thy ===== *)
theory Money
  imports Js_Values
begin

text \<open>
  \<open>packages/domain/src/money.ts\<close> and \<open>peg.ts\<close>: money in integer minor units with a
  currency, the operations that refuse to mix currencies, and the peg of a backed token.
  The lemmas give the group laws that hold within a currency, the order, the JSON round
  trip, and the exact inverse pair \<open>backingForUnits\<close> / \<open>unitsForBacking\<close>.
\<close>

section \<open>Money\<close>

record Money =
  minor :: int
  currency :: string

text \<open>The argument \<open>bigint | number\<close> of \<open>money\<close>; \<open>NotFinite\<close> is NaN and the infinities.\<close>

datatype minor_arg = BigIntArg int | NumberArg js_number | NotFinite

definition money :: "minor_arg \<Rightarrow> string \<Rightarrow> Money res" where
  "money m cur = (case m of
       BigIntArg i \<Rightarrow> Inr \<lparr>minor = i, currency = toUpperCase cur\<rparr>
     | NumberArg q \<Rightarrow> (let value = Math_trunc q in
         if \<not> Number_isInteger q then Inl (PlainError ''Money minor units must be integers'')
         else Inr \<lparr>minor = value, currency = toUpperCase cur\<rparr>)
     | NotFinite \<Rightarrow> Inl (PlainError ''RangeError: cannot be converted to a BigInt''))"

text \<open>The only form the services use: a \<open>bigint\<close> amount, which cannot throw.\<close>

definition money_big :: "int \<Rightarrow> string \<Rightarrow> Money" where
  "money_big i cur = \<lparr>minor = i, currency = toUpperCase cur\<rparr>"

definition zero_money :: "string \<Rightarrow> Money" where
  "zero_money cur = \<lparr>minor = 0, currency = toUpperCase cur\<rparr>"

definition assertSameCurrency :: "Money \<Rightarrow> Money \<Rightarrow> unit res" where
  "assertSameCurrency a b =
     check_r (currency a = currency b) (CurrencyMismatchError (currency a) (currency b))"

definition add :: "Money \<Rightarrow> Money \<Rightarrow> Money res" where
  "add a b = bind_r (assertSameCurrency a b) (\<lambda>_.
     Inr \<lparr>minor = minor a + minor b, currency = currency a\<rparr>)"

definition subtract :: "Money \<Rightarrow> Money \<Rightarrow> Money res" where
  "subtract a b = bind_r (assertSameCurrency a b) (\<lambda>_.
     Inr \<lparr>minor = minor a - minor b, currency = currency a\<rparr>)"

fun reduce_add :: "Money \<Rightarrow> Money list \<Rightarrow> Money res" where
  "reduce_add acc [] = Inr acc"
| "reduce_add acc (m # ms) = bind_r (add acc m) (\<lambda>acc'. reduce_add acc' ms)"

definition sum_money :: "Money list \<Rightarrow> Money res" where
  "sum_money values = (case values of
       [] \<Rightarrow> Inl (PlainError ''Cannot sum an empty list of Money without a currency'')
     | first # rest \<Rightarrow> reduce_add first rest)"

definition negate :: "Money \<Rightarrow> Money" where
  "negate a = \<lparr>minor = - minor a, currency = currency a\<rparr>"

definition isZero :: "Money \<Rightarrow> bool" where
  "isZero a = (minor a = 0)"

definition isNegative :: "Money \<Rightarrow> bool" where
  "isNegative a = (minor a < 0)"

definition isPositive :: "Money \<Rightarrow> bool" where
  "isPositive a = (minor a > 0)"

definition compare :: "Money \<Rightarrow> Money \<Rightarrow> int res" where
  "compare a b = bind_r (assertSameCurrency a b) (\<lambda>_.
     Inr (if minor a < minor b then -1 else if minor a > minor b then 1 else 0))"

definition gte :: "Money \<Rightarrow> Money \<Rightarrow> bool res" where
  "gte a b = bind_r (compare a b) (\<lambda>c. Inr (c \<ge> 0))"

definition gt :: "Money \<Rightarrow> Money \<Rightarrow> bool res" where
  "gt a b = bind_r (compare a b) (\<lambda>c. Inr (c > 0))"

definition max_money :: "Money \<Rightarrow> Money \<Rightarrow> Money res" where
  "max_money a b = bind_r (gte a b) (\<lambda>g. Inr (if g then a else b))"

definition min_money :: "Money \<Rightarrow> Money \<Rightarrow> Money res" where
  "min_money a b = bind_r (gte a b) (\<lambda>g. Inr (if g then b else a))"

definition equals :: "Money \<Rightarrow> Money \<Rightarrow> bool" where
  "equals a b = (currency a = currency b \<and> minor a = minor b)"

record MoneyJson =
  mj_minor :: string
  mj_currency :: string

definition toJSON :: "Money \<Rightarrow> MoneyJson" where
  "toJSON a = \<lparr>mj_minor = bigint_toString (minor a), mj_currency = currency a\<rparr>"

definition fromJSON :: "MoneyJson \<Rightarrow> Money res" where
  "fromJSON v = bind_r (BigInt (mj_minor v)) (\<lambda>m.
     Inr \<lparr>minor = m, currency = toUpperCase (mj_currency v)\<rparr>)"

section \<open>Peg\<close>

record Peg =
  pegCurrency :: string
  denominationMinor :: int

definition makePeg :: "string \<Rightarrow> int \<Rightarrow> Peg res" where
  "makePeg cur d = bind_r (check_r (\<not> d \<le> 0) (PlainError ''Peg denomination must be positive''))
     (\<lambda>_. Inr \<lparr>pegCurrency = toUpperCase cur, denominationMinor = d\<rparr>)"

definition backingForUnits :: "int \<Rightarrow> Peg \<Rightarrow> Money res" where
  "backingForUnits units peg =
     bind_r (check_r (\<not> units < 0) (PlainError ''Token units cannot be negative''))
     (\<lambda>_. money (BigIntArg (units * denominationMinor peg)) (pegCurrency peg))"

definition unitsForBacking :: "Money \<Rightarrow> Peg \<Rightarrow> int option res" where
  "unitsForBacking backing peg =
     bind_r (check_r (currency backing = pegCurrency peg)
       (PlainError ''Backing currency does not match peg currency''))
     (\<lambda>_. Inr (if minor backing smod denominationMinor peg \<noteq> 0 then None
              else Some (minor backing sdiv denominationMinor peg)))"

section \<open>Laws\<close>

lemma money_BigInt [simp]: "money (BigIntArg i) cur = Inr (money_big i cur)"
  by (simp add: money_def money_big_def)

lemma money_big_sel [simp]:
  "minor (money_big i cur) = i" "currency (money_big i cur) = toUpperCase cur"
  by (simp_all add: money_big_def)

lemma zero_money_sel [simp]:
  "minor (zero_money cur) = 0" "currency (zero_money cur) = toUpperCase cur"
  by (simp_all add: zero_money_def)

lemma money_eqI: "minor a = minor b \<Longrightarrow> currency a = currency b \<Longrightarrow> a = (b :: Money)"
  by simp

lemma money_big_same: "money_big i (toUpperCase c) = money_big i c"
  by (simp add: money_big_def)

text \<open>Within one currency every operation succeeds; across currencies every one throws.\<close>

lemma add_cases:
  "add a b = (if currency a = currency b then Inr \<lparr>minor = minor a + minor b, currency = currency a\<rparr>
              else Inl (CurrencyMismatchError (currency a) (currency b)))"
  by (simp add: add_def assertSameCurrency_def)

lemma subtract_cases:
  "subtract a b = (if currency a = currency b then Inr \<lparr>minor = minor a - minor b, currency = currency a\<rparr>
              else Inl (CurrencyMismatchError (currency a) (currency b)))"
  by (simp add: subtract_def assertSameCurrency_def)

lemma gte_cases:
  "gte a b = (if currency a = currency b then Inr (minor b \<le> minor a)
              else Inl (CurrencyMismatchError (currency a) (currency b)))"
  by (auto simp: gte_def compare_def assertSameCurrency_def)

lemma gt_cases:
  "gt a b = (if currency a = currency b then Inr (minor b < minor a)
              else Inl (CurrencyMismatchError (currency a) (currency b)))"
  by (auto simp: gt_def compare_def assertSameCurrency_def)

lemma max_money_cases:
  "max_money a b = (if currency a = currency b then Inr (if minor b \<le> minor a then a else b)
              else Inl (CurrencyMismatchError (currency a) (currency b)))"
  by (simp add: max_money_def gte_cases)

lemma min_money_cases:
  "min_money a b = (if currency a = currency b then Inr (if minor b \<le> minor a then b else a)
              else Inl (CurrencyMismatchError (currency a) (currency b)))"
  by (simp add: min_money_def gte_cases)

lemmas money_cases = add_cases subtract_cases gte_cases gt_cases max_money_cases min_money_cases

lemma reduce_add_same:
  "\<forall>m \<in> set ms. currency m = currency acc \<Longrightarrow>
   reduce_add acc ms = Inr \<lparr>minor = minor acc + (\<Sum>m\<leftarrow>ms. minor m), currency = currency acc\<rparr>"
  by (induction ms arbitrary: acc) (simp_all add: add_cases)

lemma reduce_add_mixed:
  "\<exists>m \<in> set ms. currency m \<noteq> currency acc \<Longrightarrow> \<exists>x. reduce_add acc ms = Inl x"
proof (induction ms arbitrary: acc)
  case (Cons m ms)
  show ?case
  proof (cases "currency acc = currency m")
    case True
    with Cons.prems have "\<exists>n \<in> set ms. currency n \<noteq> currency m" by auto
    then show ?thesis using Cons.IH True by (simp add: add_cases)
  qed (simp add: add_cases)
qed simp

lemma sum_money_same:
  "ms \<noteq> [] \<Longrightarrow> \<forall>m \<in> set ms. currency m = cur \<Longrightarrow>
   sum_money ms = Inr \<lparr>minor = (\<Sum>m\<leftarrow>ms. minor m), currency = cur\<rparr>"
  by (cases ms) (simp_all add: sum_money_def reduce_add_same)

text \<open>A sum exists exactly when the list is not empty and has one currency.\<close>

lemma sum_money_ok_iff:
  "is_ok (sum_money ms) \<longleftrightarrow> ms \<noteq> [] \<and> (\<forall>m \<in> set ms. currency m = currency (hd ms))"
proof (cases ms)
  case (Cons m ns)
  show ?thesis
  proof (cases "\<forall>n \<in> set ns. currency n = currency m")
    case True
    with Cons show ?thesis by (simp add: sum_money_def reduce_add_same)
  next
    case False
    then obtain x where "reduce_add m ns = Inl x" using reduce_add_mixed by blast
    with False Cons show ?thesis by (auto simp: sum_money_def)
  qed
qed (simp add: sum_money_def)

lemma fromJSON_toJSON:
  "fromJSON (toJSON a) = Inr \<lparr>minor = minor a, currency = toUpperCase (currency a)\<rparr>"
  by (simp add: fromJSON_def toJSON_def BigInt_toString)

lemma sdiv_mult_exact: "(d::int) \<noteq> 0 \<Longrightarrow> (a * d) sdiv d = a"
proof -
  assume "d \<noteq> 0"
  then have "\<bar>a * d\<bar> div \<bar>d\<bar> = \<bar>a\<bar>" by (simp add: abs_mult)
  moreover have "sgn (a * d) * sgn d = sgn a"
    using \<open>d \<noteq> 0\<close> by (simp add: sgn_mult mult.assoc)
  ultimately show ?thesis by (simp add: signed_divide_int_def sgn_mult_abs)
qed

lemma smod_mult_exact: "(d::int) \<noteq> 0 \<Longrightarrow> (a * d) smod d = 0"
  using sdiv_mult_exact [of d a] sdiv_mult_smod_eq [of "a * d" d] by simp

text \<open>
  Units to backing and back is the identity, and backing to units succeeds exactly on
  the multiples of the denomination, with the backing recovered from the units.
\<close>

lemma units_of_backing:
  assumes "makePeg cur d = Inr peg" and "0 \<le> n"
  shows "\<exists>b. backingForUnits n peg = Inr b \<and> minor b = n * d \<and> unitsForBacking b peg = Inr (Some n)"
  using assms
  by (auto simp: makePeg_def backingForUnits_def unitsForBacking_def sdiv_mult_exact smod_mult_exact
      split: if_splits)

lemma backing_of_units:
  assumes "makePeg cur d = Inr peg" and "unitsForBacking b peg = Inr (Some n)"
  shows "minor b = n * d"
proof -
  from assms have d: "denominationMinor peg = d"
    and "minor b smod d = 0" and n: "minor b sdiv d = n"
    by (auto simp: makePeg_def unitsForBacking_def split: if_splits)
  then show ?thesis using sdiv_mult_smod_eq [of "minor b" d] by simp
qed

end
