(* ===== verification/Accounts.thy ===== *)
theory Accounts
  imports Money
begin

text \<open>
  \<open>packages/ledger/src/accounts.ts\<close>: the chart of accounts and the account type a code's
  prefix denotes, with the facts that the codes the templates post to are distinct and
  which type each has.
\<close>

section \<open>Chart of accounts\<close>

datatype LedgerAccountType = ASSET | LIABILITY | INCOME | EXPENSE | SUSPENSE

definition ASSET_TRUSTEE_BANK_CASH :: string where
  "ASSET_TRUSTEE_BANK_CASH = ''ASSET:TRUSTEE_BANK_CASH''"

definition ASSET_PAYCHAIN_RESERVE_CASH :: string where
  "ASSET_PAYCHAIN_RESERVE_CASH = ''ASSET:PAYCHAIN_RESERVE_CASH''"

definition ASSET_SETTLEMENT_RECEIVABLE :: string where
  "ASSET_SETTLEMENT_RECEIVABLE = ''ASSET:SETTLEMENT_RECEIVABLE''"

definition ASSET_REDEMPTION_RECEIVABLE :: string where
  "ASSET_REDEMPTION_RECEIVABLE = ''ASSET:REDEMPTION_RECEIVABLE''"

definition LIABILITY_PAYCHAIN_RESERVE_OBLIGATION :: string where
  "LIABILITY_PAYCHAIN_RESERVE_OBLIGATION = ''LIABILITY:PAYCHAIN_RESERVE_OBLIGATION''"

definition LIABILITY_PENDING_MINT :: string where
  "LIABILITY_PENDING_MINT = ''LIABILITY:PENDING_MINT''"

definition LIABILITY_PENDING_REDEMPTION :: string where
  "LIABILITY_PENDING_REDEMPTION = ''LIABILITY:PENDING_REDEMPTION''"

definition LIABILITY_UNMATCHED_DEPOSIT :: string where
  "LIABILITY_UNMATCHED_DEPOSIT = ''LIABILITY:UNMATCHED_DEPOSIT''"

definition LIABILITY_PAYKH_MERCHANT_PAYABLE :: string where
  "LIABILITY_PAYKH_MERCHANT_PAYABLE = ''LIABILITY:PAYKH_MERCHANT_PAYABLE''"

definition LIABILITY_PAYKH_CASHBACK_PROGRAM :: string where
  "LIABILITY_PAYKH_CASHBACK_PROGRAM = ''LIABILITY:PAYKH_CASHBACK_PROGRAM''"

definition LIABILITY_PAYKH_GIFT_CARD_FLOAT :: string where
  "LIABILITY_PAYKH_GIFT_CARD_FLOAT = ''LIABILITY:PAYKH_GIFT_CARD_FLOAT''"

definition LIABILITY_PAYKH_CUSTOMER_SAFEGUARDING :: string where
  "LIABILITY_PAYKH_CUSTOMER_SAFEGUARDING = ''LIABILITY:PAYKH_CUSTOMER_SAFEGUARDING''"

definition LIABILITY_PAYKH_PROGRAM_FUND :: string where
  "LIABILITY_PAYKH_PROGRAM_FUND = ''LIABILITY:PAYKH_PROGRAM_FUND''"

definition LIABILITY_PAYKH_LOYALTY_STABLECOIN :: string where
  "LIABILITY_PAYKH_LOYALTY_STABLECOIN = ''LIABILITY:PAYKH_LOYALTY_STABLECOIN''"

definition INCOME_TRUSTEE_FEE :: string where
  "INCOME_TRUSTEE_FEE = ''INCOME:TRUSTEE_FEE''"

definition EXPENSE_BANK_CHARGE :: string where
  "EXPENSE_BANK_CHARGE = ''EXPENSE:BANK_CHARGE''"

definition SUSPENSE_UNRECONCILED_ITEM :: string where
  "SUSPENSE_UNRECONCILED_ITEM = ''SUSPENSE:UNRECONCILED_ITEM''"

definition ledgerAccountTypeOf :: "string \<Rightarrow> LedgerAccountType res" where
  "ledgerAccountTypeOf code = (let prefix = split_first CHR '':'' code in
     if prefix = ''ASSET'' then Inr ASSET
     else if prefix = ''LIABILITY'' then Inr LIABILITY
     else if prefix = ''INCOME'' then Inr INCOME
     else if prefix = ''EXPENSE'' then Inr EXPENSE
     else if prefix = ''SUSPENSE'' then Inr SUSPENSE
     else Inl (PlainError ''Unknown ledger account prefix''))"

lemmas account_code_defs =
  ASSET_TRUSTEE_BANK_CASH_def ASSET_PAYCHAIN_RESERVE_CASH_def ASSET_SETTLEMENT_RECEIVABLE_def
  ASSET_REDEMPTION_RECEIVABLE_def LIABILITY_PAYCHAIN_RESERVE_OBLIGATION_def
  LIABILITY_PENDING_MINT_def LIABILITY_PENDING_REDEMPTION_def LIABILITY_UNMATCHED_DEPOSIT_def
  LIABILITY_PAYKH_MERCHANT_PAYABLE_def LIABILITY_PAYKH_CASHBACK_PROGRAM_def
  LIABILITY_PAYKH_GIFT_CARD_FLOAT_def LIABILITY_PAYKH_CUSTOMER_SAFEGUARDING_def
  LIABILITY_PAYKH_PROGRAM_FUND_def LIABILITY_PAYKH_LOYALTY_STABLECOIN_def
  INCOME_TRUSTEE_FEE_def EXPENSE_BANK_CHARGE_def SUSPENSE_UNRECONCILED_ITEM_def

definition posted_accounts :: "string list" where
  "posted_accounts = [ASSET_TRUSTEE_BANK_CASH, LIABILITY_PAYCHAIN_RESERVE_OBLIGATION,
     LIABILITY_PENDING_MINT, LIABILITY_PENDING_REDEMPTION, LIABILITY_UNMATCHED_DEPOSIT,
     LIABILITY_PAYKH_MERCHANT_PAYABLE, LIABILITY_PAYKH_PROGRAM_FUND,
     LIABILITY_PAYKH_LOYALTY_STABLECOIN]"

lemma posted_accounts_distinct: "distinct posted_accounts"
  by (simp add: posted_accounts_def account_code_defs)

lemma account_neqs [simp]:
  "ASSET_TRUSTEE_BANK_CASH \<noteq> LIABILITY_PAYCHAIN_RESERVE_OBLIGATION"
  "ASSET_TRUSTEE_BANK_CASH \<noteq> LIABILITY_PENDING_MINT"
  "ASSET_TRUSTEE_BANK_CASH \<noteq> LIABILITY_PENDING_REDEMPTION"
  "ASSET_TRUSTEE_BANK_CASH \<noteq> LIABILITY_UNMATCHED_DEPOSIT"
  "ASSET_TRUSTEE_BANK_CASH \<noteq> LIABILITY_PAYKH_MERCHANT_PAYABLE"
  "ASSET_TRUSTEE_BANK_CASH \<noteq> LIABILITY_PAYKH_PROGRAM_FUND"
  "ASSET_TRUSTEE_BANK_CASH \<noteq> LIABILITY_PAYKH_LOYALTY_STABLECOIN"
  "LIABILITY_PAYCHAIN_RESERVE_OBLIGATION \<noteq> LIABILITY_PENDING_MINT"
  "LIABILITY_PAYCHAIN_RESERVE_OBLIGATION \<noteq> LIABILITY_PENDING_REDEMPTION"
  "LIABILITY_PAYCHAIN_RESERVE_OBLIGATION \<noteq> LIABILITY_UNMATCHED_DEPOSIT"
  "LIABILITY_PAYCHAIN_RESERVE_OBLIGATION \<noteq> LIABILITY_PAYKH_MERCHANT_PAYABLE"
  "LIABILITY_PAYCHAIN_RESERVE_OBLIGATION \<noteq> LIABILITY_PAYKH_PROGRAM_FUND"
  "LIABILITY_PAYCHAIN_RESERVE_OBLIGATION \<noteq> LIABILITY_PAYKH_LOYALTY_STABLECOIN"
  "LIABILITY_PENDING_MINT \<noteq> LIABILITY_PENDING_REDEMPTION"
  "LIABILITY_PENDING_MINT \<noteq> LIABILITY_UNMATCHED_DEPOSIT"
  "LIABILITY_PENDING_MINT \<noteq> LIABILITY_PAYKH_MERCHANT_PAYABLE"
  "LIABILITY_PENDING_MINT \<noteq> LIABILITY_PAYKH_PROGRAM_FUND"
  "LIABILITY_PENDING_MINT \<noteq> LIABILITY_PAYKH_LOYALTY_STABLECOIN"
  "LIABILITY_PENDING_REDEMPTION \<noteq> LIABILITY_UNMATCHED_DEPOSIT"
  "LIABILITY_PENDING_REDEMPTION \<noteq> LIABILITY_PAYKH_MERCHANT_PAYABLE"
  "LIABILITY_PENDING_REDEMPTION \<noteq> LIABILITY_PAYKH_PROGRAM_FUND"
  "LIABILITY_PENDING_REDEMPTION \<noteq> LIABILITY_PAYKH_LOYALTY_STABLECOIN"
  "LIABILITY_UNMATCHED_DEPOSIT \<noteq> LIABILITY_PAYKH_MERCHANT_PAYABLE"
  "LIABILITY_UNMATCHED_DEPOSIT \<noteq> LIABILITY_PAYKH_PROGRAM_FUND"
  "LIABILITY_UNMATCHED_DEPOSIT \<noteq> LIABILITY_PAYKH_LOYALTY_STABLECOIN"
  "LIABILITY_PAYKH_MERCHANT_PAYABLE \<noteq> LIABILITY_PAYKH_PROGRAM_FUND"
  "LIABILITY_PAYKH_MERCHANT_PAYABLE \<noteq> LIABILITY_PAYKH_LOYALTY_STABLECOIN"
  "LIABILITY_PAYKH_PROGRAM_FUND \<noteq> LIABILITY_PAYKH_LOYALTY_STABLECOIN"
  using posted_accounts_distinct by (simp_all add: posted_accounts_def)

lemma account_neqs_sym [simp]:
  "LIABILITY_PAYCHAIN_RESERVE_OBLIGATION \<noteq> ASSET_TRUSTEE_BANK_CASH"
  "LIABILITY_PENDING_MINT \<noteq> ASSET_TRUSTEE_BANK_CASH"
  "LIABILITY_PENDING_REDEMPTION \<noteq> ASSET_TRUSTEE_BANK_CASH"
  "LIABILITY_UNMATCHED_DEPOSIT \<noteq> ASSET_TRUSTEE_BANK_CASH"
  "LIABILITY_PAYKH_MERCHANT_PAYABLE \<noteq> ASSET_TRUSTEE_BANK_CASH"
  "LIABILITY_PAYKH_PROGRAM_FUND \<noteq> ASSET_TRUSTEE_BANK_CASH"
  "LIABILITY_PAYKH_LOYALTY_STABLECOIN \<noteq> ASSET_TRUSTEE_BANK_CASH"
  "LIABILITY_PENDING_MINT \<noteq> LIABILITY_PAYCHAIN_RESERVE_OBLIGATION"
  "LIABILITY_PENDING_REDEMPTION \<noteq> LIABILITY_PAYCHAIN_RESERVE_OBLIGATION"
  "LIABILITY_UNMATCHED_DEPOSIT \<noteq> LIABILITY_PAYCHAIN_RESERVE_OBLIGATION"
  "LIABILITY_PAYKH_MERCHANT_PAYABLE \<noteq> LIABILITY_PAYCHAIN_RESERVE_OBLIGATION"
  "LIABILITY_PAYKH_PROGRAM_FUND \<noteq> LIABILITY_PAYCHAIN_RESERVE_OBLIGATION"
  "LIABILITY_PAYKH_LOYALTY_STABLECOIN \<noteq> LIABILITY_PAYCHAIN_RESERVE_OBLIGATION"
  "LIABILITY_PENDING_REDEMPTION \<noteq> LIABILITY_PENDING_MINT"
  "LIABILITY_UNMATCHED_DEPOSIT \<noteq> LIABILITY_PENDING_MINT"
  "LIABILITY_PAYKH_MERCHANT_PAYABLE \<noteq> LIABILITY_PENDING_MINT"
  "LIABILITY_PAYKH_PROGRAM_FUND \<noteq> LIABILITY_PENDING_MINT"
  "LIABILITY_PAYKH_LOYALTY_STABLECOIN \<noteq> LIABILITY_PENDING_MINT"
  "LIABILITY_UNMATCHED_DEPOSIT \<noteq> LIABILITY_PENDING_REDEMPTION"
  "LIABILITY_PAYKH_MERCHANT_PAYABLE \<noteq> LIABILITY_PENDING_REDEMPTION"
  "LIABILITY_PAYKH_PROGRAM_FUND \<noteq> LIABILITY_PENDING_REDEMPTION"
  "LIABILITY_PAYKH_LOYALTY_STABLECOIN \<noteq> LIABILITY_PENDING_REDEMPTION"
  "LIABILITY_PAYKH_MERCHANT_PAYABLE \<noteq> LIABILITY_UNMATCHED_DEPOSIT"
  "LIABILITY_PAYKH_PROGRAM_FUND \<noteq> LIABILITY_UNMATCHED_DEPOSIT"
  "LIABILITY_PAYKH_LOYALTY_STABLECOIN \<noteq> LIABILITY_UNMATCHED_DEPOSIT"
  "LIABILITY_PAYKH_PROGRAM_FUND \<noteq> LIABILITY_PAYKH_MERCHANT_PAYABLE"
  "LIABILITY_PAYKH_LOYALTY_STABLECOIN \<noteq> LIABILITY_PAYKH_MERCHANT_PAYABLE"
  "LIABILITY_PAYKH_LOYALTY_STABLECOIN \<noteq> LIABILITY_PAYKH_PROGRAM_FUND"
  using account_neqs by metis+

lemma account_types [simp]:
  "ledgerAccountTypeOf ASSET_TRUSTEE_BANK_CASH = Inr ASSET"
  "ledgerAccountTypeOf LIABILITY_PAYCHAIN_RESERVE_OBLIGATION = Inr LIABILITY"
  "ledgerAccountTypeOf LIABILITY_PENDING_MINT = Inr LIABILITY"
  "ledgerAccountTypeOf LIABILITY_PENDING_REDEMPTION = Inr LIABILITY"
  "ledgerAccountTypeOf LIABILITY_UNMATCHED_DEPOSIT = Inr LIABILITY"
  "ledgerAccountTypeOf LIABILITY_PAYKH_MERCHANT_PAYABLE = Inr LIABILITY"
  "ledgerAccountTypeOf LIABILITY_PAYKH_PROGRAM_FUND = Inr LIABILITY"
  "ledgerAccountTypeOf LIABILITY_PAYKH_LOYALTY_STABLECOIN = Inr LIABILITY"
  by (simp_all add: ledgerAccountTypeOf_def account_code_defs split_first_def)

end
