(* ===== verification/Journal.thy ===== *)
theory Journal
  imports Accounts
begin

text \<open>
  \<open>packages/ledger/src/journal.ts\<close>: the double-entry journal. The lemmas characterise
  exactly which inputs \<open>buildJournalEntry\<close> accepts, show that a built entry balances,
  that \<open>reverse\<close> never fails on one, and that it cancels its effect on every account.
\<close>

section \<open>Data\<close>

record Posting =
  p_account :: string
  p_debit :: Money
  p_credit :: Money
  p_memo :: "string option"

record JournalReferences =
  ref_source :: string
  ref_programId :: string
  ref_assetId :: string
  ref_actor :: string
  ref_approvalRef :: "string option"
  ref_correlationId :: "string option"

record JournalEntryInput =
  je_currency :: string
  je_description :: string
  je_postings :: "Posting list"
  je_references :: JournalReferences

record JournalEntry = JournalEntryInput +
  je_totalDebit :: Money
  je_totalCredit :: Money
  je_reversalOf :: "string option"

section \<open>Building and reversing entries\<close>

definition assertPostingWellFormed :: "Posting \<Rightarrow> string \<Rightarrow> unit res" where
  "assertPostingWellFormed p cur =
     bind_r (check_r (\<not> (currency (p_debit p) \<noteq> cur \<or> currency (p_credit p) \<noteq> cur))
       (InvalidPostingError ''currency other than journal currency'')) (\<lambda>_.
     bind_r (check_r (\<not> (minor (p_debit p) < 0 \<or> minor (p_credit p) < 0))
       (InvalidPostingError ''negative amount'')) (\<lambda>_.
     bind_r (check_r (\<not> (minor (p_debit p) > 0 \<and> minor (p_credit p) > 0))
       (InvalidPostingError ''both debit and credit amounts'')) (\<lambda>_.
     bind_r (check_r (\<not> (minor (p_debit p) = 0 \<and> minor (p_credit p) = 0))
       (InvalidPostingError ''empty'')) (\<lambda>_.
     bind_r (ledgerAccountTypeOf (p_account p)) (\<lambda>_. Inr ())))))"

text \<open>The loop of \<open>buildJournalEntry\<close>: validate each posting and add up both sides.\<close>

fun total_postings :: "string \<Rightarrow> Posting list \<Rightarrow> Money \<times> Money \<Rightarrow> (Money \<times> Money) res" where
  "total_postings cur [] (td, tc) = Inr (td, tc)"
| "total_postings cur (p # ps) (td, tc) =
     bind_r (assertPostingWellFormed p cur) (\<lambda>_.
     bind_r (add td (p_debit p)) (\<lambda>td'.
     bind_r (add tc (p_credit p)) (\<lambda>tc'.
     total_postings cur ps (td', tc'))))"

definition buildJournalEntry :: "JournalEntryInput \<Rightarrow> JournalEntry res" where
  "buildJournalEntry input =
     bind_r (check_r (\<not> length (je_postings input) < 2)
       (InvalidPostingError ''A journal entry requires at least two postings'')) (\<lambda>_.
     bind_r (total_postings (je_currency input) (je_postings input)
       (zero_money (je_currency input), zero_money (je_currency input))) (\<lambda>(totalDebit, totalCredit).
     bind_r (subtract totalDebit totalCredit) (\<lambda>diff.
     if \<not> isZero diff then Inl (UnbalancedJournalError (minor totalDebit) (minor totalCredit))
     else Inr \<lparr>je_currency = je_currency input, je_description = je_description input,
       je_postings = je_postings input, je_references = je_references input,
       je_totalDebit = totalDebit, je_totalCredit = totalCredit, je_reversalOf = None\<rparr>)))"

definition swap_posting :: "Posting \<Rightarrow> Posting" where
  "swap_posting p = \<lparr>p_account = p_account p, p_debit = p_credit p, p_credit = p_debit p,
     p_memo = p_memo p\<rparr>"

definition reverse :: "JournalEntry \<Rightarrow> string \<Rightarrow> string \<Rightarrow> string \<Rightarrow> JournalEntry res" where
  "reverse entry reversalRef actor reason =
     bind_r (buildJournalEntry \<lparr>je_currency = je_currency entry,
         je_description = ''REVERSAL: '' @ je_description entry @ '' - '' @ reason,
         je_postings = map swap_posting (je_postings entry),
         je_references = (je_references entry)\<lparr>ref_source := reversalRef, ref_actor := actor\<rparr>\<rparr>)
     (\<lambda>reversed. Inr (reversed\<lparr>je_reversalOf := Some (ref_source (je_references entry))\<rparr>))"

section \<open>Effect on an account\<close>

fun effect_loop :: "bool \<Rightarrow> string \<Rightarrow> Posting list \<Rightarrow> Money \<Rightarrow> Money res" where
  "effect_loop debitPositive acc [] net = Inr net"
| "effect_loop debitPositive acc (p # ps) net =
     (if p_account p \<noteq> acc then effect_loop debitPositive acc ps net
      else bind_r (if debitPositive then subtract (p_debit p) (p_credit p)
                   else subtract (p_credit p) (p_debit p)) (\<lambda>delta.
           bind_r (add net delta) (\<lambda>net'. effect_loop debitPositive acc ps net')))"

definition accountEffect :: "JournalEntry \<Rightarrow> string \<Rightarrow> Money res" where
  "accountEffect entry acc =
     bind_r (ledgerAccountTypeOf acc) (\<lambda>type.
     effect_loop (type = ASSET \<or> type = EXPENSE) acc (je_postings entry)
       (zero_money (je_currency entry)))"

section \<open>Which inputs are accepted\<close>

text \<open>
  The specification of a valid entry, with no order of checks: every posting is in the
  entry's currency, on one side only, with a positive amount, on a known account; there
  are at least two; the sides have the same total; the currency code is upper case.
\<close>

definition posting_ok :: "string \<Rightarrow> Posting \<Rightarrow> bool" where
  "posting_ok cur p \<longleftrightarrow> currency (p_debit p) = cur \<and> currency (p_credit p) = cur
     \<and> (minor (p_debit p) = 0 \<and> minor (p_credit p) > 0 \<or> minor (p_debit p) > 0 \<and> minor (p_credit p) = 0)
     \<and> is_ok (ledgerAccountTypeOf (p_account p))"

definition debits :: "Posting list \<Rightarrow> int" where
  "debits ps = (\<Sum>p\<leftarrow>ps. minor (p_debit p))"

definition credits :: "Posting list \<Rightarrow> int" where
  "credits ps = (\<Sum>p\<leftarrow>ps. minor (p_credit p))"

definition valid_input :: "('a) JournalEntryInput_scheme \<Rightarrow> bool" where
  "valid_input i \<longleftrightarrow> 2 \<le> length (je_postings i)
     \<and> toUpperCase (je_currency i) = je_currency i
     \<and> (\<forall>p \<in> set (je_postings i). posting_ok (je_currency i) p)
     \<and> debits (je_postings i) = credits (je_postings i)"

lemma assertPostingWellFormed_iff: "assertPostingWellFormed p cur = Inr () \<longleftrightarrow> posting_ok cur p"
  by (cases "ledgerAccountTypeOf (p_account p)")
     (auto simp: assertPostingWellFormed_def posting_ok_def split: if_splits)

lemma total_postings_ok:
  assumes "\<forall>p \<in> set ps. posting_ok cur p" and "currency td = cur" and "currency tc = cur"
  shows "total_postings cur ps (td, tc) =
    Inr (\<lparr>minor = minor td + debits ps, currency = cur\<rparr>,
         \<lparr>minor = minor tc + credits ps, currency = cur\<rparr>)"
  using assms
proof (induction ps arbitrary: td tc)
  case (Cons p ps)
  then have "assertPostingWellFormed p cur = Inr ()" and "currency (p_debit p) = cur"
    and "currency (p_credit p) = cur"
    by (simp_all add: assertPostingWellFormed_iff posting_ok_def)
  with Cons show ?case by (simp add: add_cases debits_def credits_def)
qed (simp add: debits_def credits_def)

lemma total_postings_Inr:
  assumes "total_postings cur ps (td, tc) = Inr r" and "ps \<noteq> []"
  shows "currency td = cur \<and> currency tc = cur \<and> (\<forall>p \<in> set ps. posting_ok cur p)"
  using assms
proof (induction ps arbitrary: td tc)
  case (Cons p ps)
  from Cons.prems(1) have p: "posting_ok cur p"
    by (auto simp: bind_r_eq_Inr simp flip: assertPostingWellFormed_iff)
  then have c: "currency (p_debit p) = cur" "currency (p_credit p) = cur"
    by (simp_all add: posting_ok_def)
  from Cons.prems(1) c have t: "currency td = cur" "currency tc = cur"
    by (auto simp: bind_r_eq_Inr add_cases split: if_splits)
  show ?case
  proof (cases "ps = []")
    case False
    from Cons.prems(1) obtain td' tc' where "total_postings cur ps (td', tc') = Inr r"
      by (auto simp: bind_r_eq_Inr)
    with Cons.IH False have "\<forall>p \<in> set ps. posting_ok cur p" by blast
    with p t show ?thesis by simp
  qed (use p t in simp)
qed simp

definition built :: "JournalEntryInput \<Rightarrow> JournalEntry" where
  "built i = \<lparr>je_currency = je_currency i, je_description = je_description i,
     je_postings = je_postings i, je_references = je_references i,
     je_totalDebit = \<lparr>minor = debits (je_postings i), currency = je_currency i\<rparr>,
     je_totalCredit = \<lparr>minor = credits (je_postings i), currency = je_currency i\<rparr>,
     je_reversalOf = None\<rparr>"

lemma buildJournalEntry_valid: "valid_input i \<Longrightarrow> buildJournalEntry i = Inr (built i)"
  by (simp add: valid_input_def buildJournalEntry_def total_postings_ok subtract_cases isZero_def
      built_def)

lemma buildJournalEntry_Inr: "buildJournalEntry i = Inr e \<Longrightarrow> valid_input i \<and> e = built i"
proof -
  assume b: "buildJournalEntry i = Inr e"
  then obtain td tc where len: "2 \<le> length (je_postings i)"
    and t: "total_postings (je_currency i) (je_postings i)
      (zero_money (je_currency i), zero_money (je_currency i)) = Inr (td, tc)"
    and s: "bind_r (subtract td tc) (\<lambda>diff. if \<not> isZero diff
      then Inl (UnbalancedJournalError (minor td) (minor tc)) else Inr ()) = Inr ()"
    by (auto simp: buildJournalEntry_def bind_r_eq_Inr split: if_splits)
  from len have "je_postings i \<noteq> []" by auto
  with total_postings_Inr [OF t] have u: "toUpperCase (je_currency i) = je_currency i"
    and ok: "\<forall>p \<in> set (je_postings i). posting_ok (je_currency i) p" by simp_all
  from total_postings_ok [OF ok] u t
  have "td = \<lparr>minor = debits (je_postings i), currency = je_currency i\<rparr>"
    and "tc = \<lparr>minor = credits (je_postings i), currency = je_currency i\<rparr>" by simp_all
  with s have "debits (je_postings i) = credits (je_postings i)"
    by (auto simp: subtract_cases isZero_def split: if_splits)
  with len u ok have "valid_input i" by (simp add: valid_input_def)
  with b show ?thesis by (simp add: buildJournalEntry_valid)
qed

lemma buildJournalEntry_iff: "buildJournalEntry i = Inr e \<longleftrightarrow> valid_input i \<and> e = built i"
  using buildJournalEntry_Inr buildJournalEntry_valid by blast

lemma valid_built [simp]: "valid_input (built i) \<longleftrightarrow> valid_input i"
  by (simp add: valid_input_def built_def)

section \<open>Effects as signed sums\<close>

definition debit_positive :: "LedgerAccountType \<Rightarrow> bool" where
  "debit_positive t \<longleftrightarrow> t = ASSET \<or> t = EXPENSE"

definition signed_amount :: "bool \<Rightarrow> Posting \<Rightarrow> int" where
  "signed_amount dp p = (if dp then minor (p_debit p) - minor (p_credit p)
     else minor (p_credit p) - minor (p_debit p))"

definition net_effect :: "bool \<Rightarrow> string \<Rightarrow> Posting list \<Rightarrow> int" where
  "net_effect dp acc ps = (\<Sum>p\<leftarrow>ps. if p_account p = acc then signed_amount dp p else 0)"

lemma effect_loop_ok:
  assumes "\<forall>p \<in> set ps. posting_ok cur p" and "currency net = cur"
  shows "effect_loop dp acc ps net = Inr \<lparr>minor = minor net + net_effect dp acc ps, currency = cur\<rparr>"
  using assms
  by (induction ps arbitrary: net)
     (auto simp: money_cases posting_ok_def net_effect_def signed_amount_def)

lemma accountEffect_valid:
  assumes "valid_input e" and "ledgerAccountTypeOf acc = Inr t"
  shows "accountEffect e acc =
    Inr \<lparr>minor = net_effect (debit_positive t) acc (je_postings e), currency = je_currency e\<rparr>"
  using assms effect_loop_ok [of "je_postings e" "je_currency e"]
  by (simp add: accountEffect_def valid_input_def debit_positive_def)

lemma posting_ok_swap [simp]: "posting_ok cur (swap_posting p) \<longleftrightarrow> posting_ok cur p"
  by (auto simp: posting_ok_def swap_posting_def)

lemma swap_totals [simp]:
  "debits (map swap_posting ps) = credits ps" "credits (map swap_posting ps) = debits ps"
  by (simp_all add: debits_def credits_def swap_posting_def comp_def)

lemma net_effect_swap: "net_effect dp acc (map swap_posting ps) = - net_effect dp acc ps"
  by (induction ps) (simp_all add: net_effect_def signed_amount_def swap_posting_def)

text \<open>A valid entry can always be reversed, and the reversal is valid again.\<close>

lemma reverse_valid:
  assumes "valid_input e"
  shows "\<exists>r. reverse e ref act reason = Inr r \<and> valid_input r
    \<and> je_postings r = map swap_posting (je_postings e) \<and> je_currency r = je_currency e
    \<and> je_reversalOf r = Some (ref_source (je_references e))"
proof -
  let ?i = "\<lparr>je_currency = je_currency e,
    je_description = ''REVERSAL: '' @ je_description e @ '' - '' @ reason,
    je_postings = map swap_posting (je_postings e),
    je_references = (je_references e)\<lparr>ref_source := ref, ref_actor := act\<rparr>\<rparr>"
  have v: "valid_input ?i" using assms by (auto simp: valid_input_def)
  then show ?thesis
    by (auto simp: reverse_def buildJournalEntry_valid built_def valid_input_def)
qed

lemma reverse_cancels_effect:
  assumes "valid_input e" and "reverse e ref act reason = Inr r" and "ledgerAccountTypeOf acc = Inr t"
  shows "\<exists>m n. accountEffect e acc = Inr m \<and> accountEffect r acc = Inr n
    \<and> minor n = - minor m \<and> currency n = currency m"
proof -
  from reverse_valid [OF assms(1)] assms(2) have "valid_input r"
    and "je_postings r = map swap_posting (je_postings e)" and "je_currency r = je_currency e"
    by (metis sum.inject(2))+
  with assms show ?thesis by (simp add: accountEffect_valid net_effect_swap)
qed

end
