(* ===== verification/Database.thy ===== *)
theory Database
  imports Json Enums Journal
begin

text \<open>
  The tables of \<open>packages/database/prisma/schema.prisma\<close> the services work on, as lists of
  rows in creation order, the platform state that holds them, and the environment of one
  operation: the clock reading, the identifiers the database and \<open>randomUUID\<close> hand out, the
  configuration read from process variables, and the outside systems (hash and signature
  primitives, the core-banking read, PayChain's issuance service, Horizon).

  A row has the columns the modelled code reads or writes; the surrogate identifiers of
  ledger entries, audit records and outbox events, which no code reads, are left out.
  Dates are milliseconds since the epoch.
\<close>

section \<open>Enumerated columns\<close>

datatype ProgramStatus = DRAFT | ACTIVE | SUSPENDED | EXPIRED | CLOSED

datatype AccountStatus = PENDING_ACTIVATION | ACTIVE | RESTRICTED | ON_HOLD | CLOSED

datatype FundingInstructionStatus = ISSUED | PARTIALLY_FUNDED | FUNDED | EXPIRED | CANCELLED

datatype ApprovalDecision = PENDING | APPROVED | REJECTED

datatype PaymentProfileStatus = SUBMITTED | VERIFYING | APPROVED | ACTIVE | SUSPENDED | REJECTED

datatype PaymentOrderStatus =
    CREATED | AWAITING_PAYMENT | PAYMENT_DETECTED | CONFIRMED | DUPLICATE | REJECTED | REFUNDED
  | EXPIRED | CANCELLED

datatype SettlementStatus = REQUESTED | APPROVED | SUBMITTED | CONFIRMED | CANCELLED | FAILED

section \<open>Rows\<close>

record User =
  u_id :: string
  u_email :: string
  u_displayName :: string
  u_institution :: string
  u_roles :: "string list"
  u_disabled :: bool

record Program =
  pg_id :: string
  pg_code :: string
  pg_issuerId :: string
  pg_assetId :: string
  pg_referenceCurrency :: string
  pg_requiredRatioBps :: int
  pg_safetyBufferBps :: int
  pg_status :: ProgramStatus

record TrusteeAccount =
  ta_id :: string
  ta_programId :: string
  ta_maskedAccountNumber :: string
  ta_coreBankingRef :: string
  ta_accountName :: string
  ta_bankLegalEntity :: string
  ta_currency :: string
  ta_classification :: string
  ta_supportedAssetId :: string
  ta_status :: AccountStatus
  ta_bankId :: "string option"
  ta_mockClearedMinor :: int

record FundingInstruction =
  fi_id :: string
  fi_programId :: string
  fi_paychainRequestId :: string
  fi_assetId :: string
  fi_depositor :: string
  fi_expectedPayer :: "string option"
  fi_beneficiaryAccountId :: string
  fi_amountMinor :: int
  fi_currency :: string
  fi_uniqueReference :: string
  fi_permittedMethod :: string
  fi_expiresAt :: int
  fi_status :: FundingInstructionStatus

record Deposit =
  dp_id :: string
  dp_programId :: string
  dp_fundingInstructionId :: "string option"
  dp_trusteeAccountId :: string
  dp_bankTransactionId :: string
  dp_payerName :: "string option"
  dp_amountMinor :: int
  dp_currency :: string
  dp_paymentReference :: "string option"
  dp_transactionDate :: int
  dp_status :: DepositStatus
  dp_clearedAt :: "int option"

record LedgerPosting =
  lp_account :: string
  lp_debitMinor :: int
  lp_creditMinor :: int
  lp_memo :: "string option"

record LedgerEntry =
  le_programId :: string
  le_assetId :: string
  le_currency :: string
  le_description :: string
  le_source :: string
  le_actor :: string
  le_approvalRef :: "string option"
  le_correlationId :: "string option"
  le_reversalOf :: "string option"
  le_totalDebitMinor :: int
  le_totalCreditMinor :: int
  le_postings :: "LedgerPosting list"

record LiabilitySnapshot =
  ls_id :: string
  ls_programId :: string
  ls_assetId :: string
  ls_assetCode :: string
  ls_blockchainNetwork :: string
  ls_issuerAccount :: string
  ls_circulatingMinor :: int
  ls_treasuryHeldMinor :: int
  ls_lockedMinor :: int
  ls_pendingMintMinor :: int
  ls_pendingBurnMinor :: int
  ls_pendingRedemptionMinor :: int
  ls_confirmedBurnMinor :: int
  ls_effectiveLiabilityMinor :: int
  ls_currency :: string
  ls_ledgerReference :: string
  ls_sourceVersion :: string
  ls_sequence :: int
  ls_snapshotTimestamp :: int
  ls_signatureKeyId :: string
  ls_signatureValue :: string
  ls_signatureVerified :: bool

record BankConnection =
  bc_id :: string
  bc_bankId :: string
  bc_bankLegalName :: string
  bc_country :: "string option"
  bc_integrationMode :: string
  bc_baseUrl :: "string option"
  bc_authTokenEnv :: "string option"
  bc_status :: string
  bc_createdBy :: "string option"

record ReserveAdjustment =
  ra_id :: string
  ra_programId :: string
  ra_currency :: string
  ra_kind :: string
  ra_amountMinor :: int
  ra_active :: bool
  ra_reason :: "string option"
  ra_createdBy :: string
  ra_liftedBy :: "string option"

record ReserveSnapshot =
  rs_id :: string
  rs_programId :: string
  rs_assetId :: string
  rs_referenceCurrency :: string
  rs_eligibleReserveMinor :: int
  rs_excludedAmountMinor :: int
  rs_circulatingLiabilityMinor :: int
  rs_pendingRedemptionMinor :: int
  rs_requiredReserveMinor :: int
  rs_reserveRatioBps :: "int option"
  rs_surplusMinor :: int
  rs_reconciliationStatus :: string
  rs_dataSources :: "string list"
  rs_signatureKeyId :: string
  rs_signatureValue :: string
  rs_contentHash :: string
  rs_createdAt :: int

record MintAuthorization =
  ma_id :: string
  ma_programId :: string
  ma_paychainRequestId :: string
  ma_assetId :: string
  ma_amountMinor :: int
  ma_currency :: string
  ma_tenantId :: "string option"
  ma_destination :: "string option"
  ma_fundingDepositIds :: "string list"
  ma_status :: MintAuthorizationStatus
  ma_nonce :: string
  ma_signingKeyId :: "string option"
  ma_signatureValue :: "string option"
  ma_maxMintAmountMinor :: int
  ma_singleUse :: bool
  ma_issuedAt :: "int option"
  ma_expiresAt :: "int option"

record MintConfirmation =
  mf_id :: string
  mf_mintAuthorizationId :: string
  mf_paychainTransactionId :: string
  mf_blockchainTxHash :: string
  mf_amountMinor :: int
  mf_currency :: string
  mf_destination :: string
  mf_ledgerHeight :: "int option"
  mf_confirmedAt :: int
  mf_paychainSignature :: string
  mf_verified :: bool

record Approval =
  ap_id :: string
  ap_subjectType :: string
  ap_mintAuthorizationId :: string
  ap_makerId :: string
  ap_checkerId :: "string option"
  ap_checkerActedAt :: "int option"
  ap_decision :: ApprovalDecision
  ap_reason :: "string option"

record Redemption =
  rd_id :: string
  rd_programId :: string
  rd_paychainRedemptionId :: string
  rd_assetId :: string
  rd_amountMinor :: int
  rd_currency :: string
  rd_beneficiaryName :: string
  rd_beneficiaryAccountMasked :: string
  rd_status :: RedemptionStatus
  rd_correlationId :: "string option"
  rd_burnTxHash :: "string option"
  rd_burnConfirmedAt :: "int option"
  rd_approvedById :: "string option"
  rd_payoutReference :: "string option"
  rd_payoutSubmittedAt :: "int option"
  rd_payoutConfirmedAt :: "int option"
  rd_completedAt :: "int option"

record AuditLog =
  al_actor :: string
  al_actorRole :: "string option"
  al_action :: string
  al_subjectType :: string
  al_subjectId :: "string option"
  al_beforeState :: "json option"
  al_afterState :: "json option"
  al_reason :: "string option"
  al_approvalRef :: "string option"
  al_correlationId :: "string option"
  al_ip :: "string option"
  al_device :: "string option"
  al_sourceSystem :: "string option"

record FeatureFlag =
  ff_key :: string
  ff_enabled :: bool
  ff_updatedBy :: "string option"

record PlatformControl =
  pc_key :: string
  pc_value :: bool

record IdempotencyKey =
  ik_key :: string
  ik_route :: string
  ik_requestHash :: string
  ik_responseCode :: int
  ik_responseBody :: json

record OutboxEvent =
  ob_eventType :: string
  ob_targetPlatform :: string
  ob_payload :: json
  ob_artifact :: "string option"
  ob_signatureKeyId :: string
  ob_signatureValue :: string
  ob_deliveredAt :: "int option"
  ob_attempts :: int
  ob_deadLettered :: bool

record ReconciliationException =
  rx_type :: string
  rx_detail :: json
  rx_resolved :: bool

record ReconciliationRun =
  rr_id :: string
  rr_scope :: string
  rr_programId :: "string option"
  rr_tenantId :: "string option"
  rr_status :: string
  rr_summary :: json
  rr_createdBy :: "string option"
  rr_exceptions :: "ReconciliationException list"

record Attestation =
  at_id :: string
  at_programId :: "string option"
  at_period :: string
  at_scope :: string
  at_methodology :: "string option"
  at_reserveAmountMinor :: "int option"
  at_liabilityAmountMinor :: "int option"
  at_currency :: "string option"
  at_opinion :: "string option"
  at_auditor :: string
  at_documentHash :: "string option"
  at_status :: string
  at_issueDate :: "int option"
  at_createdBy :: "string option"
  at_approvedBy :: "string option"

record PaykhPaymentProfile =
  pp_id :: string
  pp_tenantId :: string
  pp_recipientName :: string
  pp_recipientAccountMasked :: string
  pp_bankName :: string
  pp_currency :: string
  pp_khqrPayload :: string
  pp_status :: PaymentProfileStatus
  pp_verifiedAt :: "int option"

record PaykhPaymentOrder =
  po_id :: string
  po_tenantId :: string
  po_profileId :: string
  po_amountMinor :: int
  po_currency :: string
  po_paymentReference :: string
  po_khqrString :: "string option"
  po_status :: PaymentOrderStatus
  po_matchedBankTransactionId :: "string option"
  po_confirmedAt :: "int option"
  po_expiresAt :: int

record PaykhProgramFund =
  pf_id :: string
  pf_tenantId :: string
  pf_paykhProgramId :: string
  pf_classification :: string
  pf_currency :: string
  pf_reserveAccountId :: string
  pf_fundedMinor :: int
  pf_reservedMinor :: int
  pf_status :: string

record PaykhLoyaltyLiability =
  ll_id :: string
  ll_tenantId :: string
  ll_paykhProgramId :: string
  ll_programFundId :: string
  ll_classification :: string
  ll_currency :: string
  ll_pegCurrency :: string
  ll_denominationMinor :: int
  ll_decimals :: int
  ll_stellarAssetCode :: "string option"
  ll_stellarIssuer :: "string option"
  ll_stellarDistributor :: "string option"
  ll_outstandingMinor :: int
  ll_issuedTotalMinor :: int
  ll_redeemedTotalMinor :: int
  ll_onChainSupplyMinor :: int
  ll_reconciliationStatus :: string
  ll_lastReconciledAt :: "int option"
  ll_status :: string

record PaykhLoyaltyIssuance =
  li_id :: string
  li_loyaltyLiabilityId :: string
  li_customerRef :: string
  li_units :: "int option"
  li_amountMinor :: int
  li_currency :: string
  li_status :: string
  li_paychainReference :: "string option"
  li_onChainTxHash :: "string option"
  li_actor :: string

record PaykhLoyaltyRedemption =
  lr_id :: string
  lr_loyaltyLiabilityId :: string
  lr_tenantId :: string
  lr_merchantId :: string
  lr_customerRef :: string
  lr_amountMinor :: int
  lr_currency :: string
  lr_status :: string
  lr_paychainReference :: "string option"
  lr_onChainTxHash :: "string option"
  lr_actor :: string
  lr_confirmedAt :: "int option"

record PaykhSettlement =
  sm_id :: string
  sm_tenantId :: string
  sm_merchantId :: string
  sm_amountMinor :: int
  sm_currency :: string
  sm_status :: SettlementStatus
  sm_approvedById :: "string option"
  sm_confirmedAt :: "int option"

record PaykhMerchant =
  me_id :: string
  me_tenantId :: string
  me_merchantCode :: string
  me_paykhMerchantRef :: "string option"
  me_legalName :: string
  me_country :: "string option"
  me_kycStatus :: string
  me_status :: string
  me_riskLevel :: string
  me_source :: string
  me_lastReportedAt :: int

section \<open>The platform state\<close>

text \<open>
  \<open>lastSuccessfulCheck\<close> is the field of the in-process \<open>BankBalanceService\<close>; everything else
  is in the database.
\<close>

record st =
  users :: "User list"
  programs :: "Program list"
  accounts :: "TrusteeAccount list"
  banks :: "BankConnection list"
  flags :: "FeatureFlag list"
  controls :: "PlatformControl list"
  fundings :: "FundingInstruction list"
  deposits :: "Deposit list"
  entries :: "LedgerEntry list"
  liabilities :: "LiabilitySnapshot list"
  adjustments :: "ReserveAdjustment list"
  snapshots :: "ReserveSnapshot list"
  mintAuths :: "MintAuthorization list"
  mintConfs :: "MintConfirmation list"
  approvals :: "Approval list"
  redemptions :: "Redemption list"
  reconRuns :: "ReconciliationRun list"
  attestations :: "Attestation list"
  profiles :: "PaykhPaymentProfile list"
  orders :: "PaykhPaymentOrder list"
  funds :: "PaykhProgramFund list"
  loyalties :: "PaykhLoyaltyLiability list"
  loyIssuances :: "PaykhLoyaltyIssuance list"
  loyRedemptions :: "PaykhLoyaltyRedemption list"
  settlements :: "PaykhSettlement list"
  merchants :: "PaykhMerchant list"
  idemKeys :: "IdempotencyKey list"
  audits :: "AuditLog list"
  outbox :: "OutboxEvent list"
  lastSuccessfulCheck :: "int option"

section \<open>The environment of an operation\<close>

datatype SigningPurpose =
    API_AUTH | REQUEST_SIGNING | RESPONSE_SIGNING | MINT_AUTHORIZATION | RESERVE_SNAPSHOT
  | ATTESTATION | WEBHOOK | DOCUMENT_HASH

record SigningKey =
  sk_keyId :: string
  sk_purpose :: SigningPurpose
  sk_privateKeyPem :: string
  sk_publicKeyPem :: string

record Signature =
  sg_keyId :: string
  sg_algorithm :: string
  sg_value :: string

text \<open>What the core-banking adapter and PayChain's issuance service answer.\<close>

record BankBalanceResponse =
  br_clearedMinor :: string
  br_currency :: string

record IssuanceExecutionRequest =
  ir_operation :: string
  ir_authorizationId :: string
  ir_assetCode :: string
  ir_destination :: string
  ir_amountMinor :: string
  ir_decimals :: int
  ir_currency :: string
  ir_reference :: string
  ir_signature :: Signature

record IssuanceExecutionResult =
  ix_accepted :: bool
  ix_status :: string
  ix_paychainReference :: "string option"
  ix_onChainTxHash :: "string option"

record env =
  now :: int
  newId :: string
  newId2 :: string
  randomUUID :: string
  parseDate :: "string \<Rightarrow> int option"
  sha256Hex :: "string \<Rightarrow> string"
  nodeSign :: "string \<Rightarrow> string \<Rightarrow> string"
  nodeVerify :: "string \<Rightarrow> string \<Rightarrow> string \<Rightarrow> bool"
  signingKeys :: "SigningPurpose \<Rightarrow> SigningKey"
  previousKeys :: "SigningPurpose \<Rightarrow> SigningKey list"
  paychainPublicKey :: "string option"
  processEnv :: "string \<Rightarrow> string option"
  MAX_RESERVE_SNAPSHOT_AGE_S :: int
  MAX_BANK_CONNECTIVITY_AGE_S :: int
  MAX_LIABILITY_FEED_AGE_S :: int
  MAX_PROOF_OF_RESERVE_AGE_S :: "int option"
  MINT_AUTH_TTL_S :: int
  getAccountBalance :: "string \<Rightarrow> string option \<Rightarrow> string \<Rightarrow> BankBalanceResponse res"
  paychainExecute :: "(IssuanceExecutionRequest \<Rightarrow> IssuanceExecutionResult res) option"
  horizonSupply :: "(string \<Rightarrow> string \<Rightarrow> int \<Rightarrow> string option res) option"

type_synonym 'a op = "(env, st, 'a) prog"

end
