(* ===== verification/Infra.thy ===== *)
theory Infra
  imports Database
begin

text \<open>
  The cross-cutting services of \<open>apps/trustee-api/src/infra\<close> and \<open>events\<close>: clock, audit
  trail, feature flags, signing, the signed outbox, the multi-bank balance service, the
  issuance gateway and idempotency. Each is a program over the platform state; the frame
  lemmas say which tables it can touch.
\<close>

section \<open>Clock\<close>

definition pad :: "nat \<Rightarrow> nat \<Rightarrow> string" where
  "pad w n = replicate (w - length (nat_str n)) CHR ''0'' @ nat_str n"

text \<open>The Gregorian calendar date of a day number (days since 1 January 1970).\<close>

definition civil :: "int \<Rightarrow> int \<times> int \<times> int" where
  "civil days = (let z = days + 719468; era = z div 146097; doe = z mod 146097;
     yoe = (doe - doe div 1460 + doe div 36524 - doe div 146096) div 365;
     doy = doe - (365 * yoe + yoe div 4 - yoe div 100);
     mp = (5 * doy + 2) div 153;
     d = doy - (153 * mp + 2) div 5 + 1;
     m = (if mp < 10 then mp + 3 else mp - 9);
     y = yoe + era * 400 + (if m \<le> 2 then 1 else 0)
   in (y, m, d))"

definition year_str :: "int \<Rightarrow> string" where
  "year_str y = (if 0 \<le> y \<and> y \<le> 9999 then pad 4 (nat y)
     else if y < 0 then CHR ''-'' # pad 6 (nat (- y)) else CHR ''+'' # pad 6 (nat y))"

definition toISOString :: "int \<Rightarrow> string" where
  "toISOString ms = (let (y, m, d) = civil (ms div 86400000); t = ms mod 86400000 in
     year_str y @ ''-'' @ pad 2 (nat m) @ ''-'' @ pad 2 (nat d) @ ''T''
     @ pad 2 (nat (t div 3600000)) @ '':'' @ pad 2 (nat (t div 60000 mod 60)) @ '':''
     @ pad 2 (nat (t div 1000 mod 60)) @ ''.'' @ pad 3 (nat (t mod 1000)) @ ''Z'')"

definition nowIso :: "env \<Rightarrow> string" where
  "nowIso e = toISOString (now e)"

definition ageSeconds :: "env \<Rightarrow> int \<Rightarrow> int" where
  "ageSeconds e since = max 0 ((now e - since) div 1000)"

text \<open>\<open>new Date(s)\<close>; the database refuses an invalid date.\<close>

definition date_of :: "env \<Rightarrow> string \<Rightarrow> int res" where
  "date_of e s = require (parseDate e s) (PlainError ''Invalid Date'')"

section \<open>Audit trail\<close>

record AuditRecord =
  ar_actor :: string
  ar_actorRole :: "string option"
  ar_action :: string
  ar_subjectType :: string
  ar_subjectId :: "string option"
  ar_beforeState :: "json option"
  ar_afterState :: "json option"
  ar_reason :: "string option"
  ar_approvalRef :: "string option"
  ar_correlationId :: "string option"
  ar_ip :: "string option"
  ar_device :: "string option"

definition audit_rec :: "string \<Rightarrow> string \<Rightarrow> string \<Rightarrow> string \<Rightarrow> AuditRecord" where
  "audit_rec actor action subjectType subjectId = \<lparr>ar_actor = actor, ar_actorRole = None,
     ar_action = action, ar_subjectType = subjectType, ar_subjectId = Some subjectId,
     ar_beforeState = None, ar_afterState = None, ar_reason = None, ar_approvalRef = None,
     ar_correlationId = None, ar_ip = None, ar_device = None\<rparr>"

definition toJson :: "json option \<Rightarrow> json option" where
  "toJson v = (case v of None \<Rightarrow> None | Some JNull \<Rightarrow> None | Some JUndef \<Rightarrow> None | Some w \<Rightarrow> Some (to_plain w))"

definition audit_row :: "AuditRecord \<Rightarrow> AuditLog" where
  "audit_row entry = \<lparr>al_actor = ar_actor entry, al_actorRole = ar_actorRole entry,
     al_action = ar_action entry, al_subjectType = ar_subjectType entry,
     al_subjectId = ar_subjectId entry, al_beforeState = toJson (ar_beforeState entry),
     al_afterState = toJson (ar_afterState entry), al_reason = ar_reason entry,
     al_approvalRef = ar_approvalRef entry, al_correlationId = ar_correlationId entry,
     al_ip = ar_ip entry, al_device = ar_device entry, al_sourceSystem = Some ''trustee-api''\<rparr>"

definition audit :: "AuditRecord \<Rightarrow> unit op" where
  "audit entry = modify (\<lambda>s. s\<lparr>audits := audits s @ [audit_row entry]\<rparr>)"

section \<open>Feature flags\<close>

definition isEnabled :: "string \<Rightarrow> st \<Rightarrow> bool" where
  "isEnabled key s = (case find_row ff_key key (flags s) of Some f \<Rightarrow> ff_enabled f | None \<Rightarrow> False)"

definition requireEnabled :: "string \<Rightarrow> unit op" where
  "requireEnabled key = bnd (gets (isEnabled key)) (\<lambda>on. check on (PlainError ''Feature is disabled''))"

definition set_flag :: "string \<Rightarrow> bool \<Rightarrow> string \<Rightarrow> unit op" where
  "set_flag key enabled updatedBy = modify (\<lambda>s.
     if has_row ff_key key (flags s)
     then s\<lparr>flags := set_row ff_key key (\<lambda>f. f\<lparr>ff_enabled := enabled, ff_updatedBy := Some updatedBy\<rparr>) (flags s)\<rparr>
     else s\<lparr>flags := flags s @ [\<lparr>ff_key = key, ff_enabled = enabled, ff_updatedBy = Some updatedBy\<rparr>]\<rparr>)"

section \<open>Signing\<close>

definition signPayload :: "env \<Rightarrow> SigningKey \<Rightarrow> json \<Rightarrow> Signature" where
  "signPayload e key payload = \<lparr>sg_keyId = sk_keyId key, sg_algorithm = ''ed25519'',
     sg_value = nodeSign e (sk_privateKeyPem key) (canonicalize payload)\<rparr>"

definition verifyPayload :: "env \<Rightarrow> string \<Rightarrow> json \<Rightarrow> Signature \<Rightarrow> bool" where
  "verifyPayload e publicKeyPem payload signature =
     (if sg_algorithm signature \<noteq> ''ed25519'' then False
      else nodeVerify e publicKeyPem (canonicalize payload) (sg_value signature))"

definition sign :: "env \<Rightarrow> SigningPurpose \<Rightarrow> json \<Rightarrow> Signature" where
  "sign e purpose payload = signPayload e (signingKeys e purpose) payload"

definition verify :: "env \<Rightarrow> SigningPurpose \<Rightarrow> json \<Rightarrow> Signature \<Rightarrow> bool" where
  "verify e purpose payload signature =
     list_ex (\<lambda>k. (sg_keyId signature = sk_keyId k \<or> sg_keyId signature = [])
                  \<and> verifyPayload e (sk_publicKeyPem k) payload signature)
       (signingKeys e purpose # previousKeys e purpose)"

section \<open>Outbox\<close>

definition webhook_event :: "env \<Rightarrow> string \<Rightarrow> string \<Rightarrow> json \<Rightarrow> OutboxEvent" where
  "webhook_event e targetPlatform eventType payload =
     (let signature = sign e WEBHOOK (JObj [(''eventType'', JStr eventType),
           (''targetPlatform'', JStr targetPlatform), (''payload'', payload)])
      in \<lparr>ob_eventType = eventType, ob_targetPlatform = targetPlatform,
          ob_payload = to_plain payload, ob_artifact = None,
          ob_signatureKeyId = sg_keyId signature, ob_signatureValue = sg_value signature,
          ob_deliveredAt = None, ob_attempts = 0, ob_deadLettered = False\<rparr>)"

definition publish_to :: "string \<Rightarrow> string \<Rightarrow> json \<Rightarrow> unit op" where
  "publish_to targetPlatform eventType payload = bnd (asks id) (\<lambda>e.
     modify (\<lambda>s. s\<lparr>outbox := outbox s @ [webhook_event e targetPlatform eventType payload]\<rparr>))"

definition publish :: "string \<Rightarrow> json \<Rightarrow> unit op" where
  "publish = publish_to ''PAYCHAIN''"

definition publishToPaykh :: "string \<Rightarrow> json \<Rightarrow> unit op" where
  "publishToPaykh = publish_to ''PAYKH''"

definition artifact_event :: "env \<Rightarrow> string \<Rightarrow> json \<Rightarrow> json \<Rightarrow> SigningPurpose \<Rightarrow> OutboxEvent" where
  "artifact_event e eventType payload artifact purpose =
     (let artifactStr = canonicalize artifact; signature = sign e purpose artifact
      in \<lparr>ob_eventType = eventType, ob_targetPlatform = ''PAYCHAIN'',
          ob_payload = to_plain payload, ob_artifact = Some artifactStr,
          ob_signatureKeyId = sg_keyId signature, ob_signatureValue = sg_value signature,
          ob_deliveredAt = None, ob_attempts = 0, ob_deadLettered = False\<rparr>)"

definition publishWithArtifact :: "string \<Rightarrow> json \<Rightarrow> json \<Rightarrow> SigningPurpose \<Rightarrow> unit op" where
  "publishWithArtifact eventType payload artifact purpose = bnd (asks id) (\<lambda>e.
     modify (\<lambda>s. s\<lparr>outbox := outbox s @ [artifact_event e eventType payload artifact purpose]\<rparr>))"

section \<open>Bank balances\<close>

record BankBalanceResult =
  bb_minor :: int
  bb_currency :: string
  bb_source :: string
  bb_bankId :: "string option"

definition clearedBalanceForAccount :: "TrusteeAccount \<Rightarrow> BankBalanceResult option op" where
  "clearedBalanceForAccount account = bnd (asks id) (\<lambda>e.
     bnd (gets (\<lambda>s. if truthy (ta_bankId account)
                    then find_row bc_bankId (the (ta_bankId account)) (banks s) else None)) (\<lambda>conn.
     let mode = (case conn of Some c \<Rightarrow> bc_integrationMode c | None \<Rightarrow> ''MOCK'');
         baseUrl = (case conn of Some c \<Rightarrow> bc_baseUrl c | None \<Rightarrow> None) in
     if mode = ''API'' \<and> truthy baseUrl then
       let authEnv = (case conn of Some c \<Rightarrow> bc_authTokenEnv c | None \<Rightarrow> None);
           token = (if truthy authEnv then processEnv e (the authEnv) else None) in
       bnd (lift_r (getAccountBalance e (the baseUrl) token (ta_coreBankingRef account))) (\<lambda>r.
       seq (modify (\<lambda>s. s\<lparr>lastSuccessfulCheck := Some (now e)\<rparr>))
       (bnd (lift_r (BigInt (br_clearedMinor r))) (\<lambda>m.
       ret (Some \<lparr>bb_minor = m,
         bb_currency = (if br_currency r = [] then ta_currency account else br_currency r),
         bb_source = ''api'', bb_bankId = ta_bankId account\<rparr>))))
     else if mode = ''MOCK'' then
       ret (Some \<lparr>bb_minor = ta_mockClearedMinor account, bb_currency = ta_currency account,
         bb_source = ''mock'', bb_bankId = ta_bankId account\<rparr>)
     else ret None))"

definition lastCheckAgeSeconds :: "env \<Rightarrow> st \<Rightarrow> int option" where
  "lastCheckAgeSeconds e s = map_option (\<lambda>t. max 0 ((now e - t) div 1000)) (lastSuccessfulCheck s)"

section \<open>Issuance gateway\<close>

record IssuanceOutcome = IssuanceExecutionResult +
  ix_simulated :: bool

definition execute :: "env \<Rightarrow> IssuanceExecutionRequest \<Rightarrow> IssuanceOutcome res" where
  "execute e req = (case paychainExecute e of
     None \<Rightarrow> Inr \<lparr>ix_accepted = True, ix_status = ''SIMULATED'',
       ix_paychainReference = Some (''sim:'' @ take 40 (sha256Hex e
         (ir_operation req @ '':'' @ ir_reference req @ '':'' @ ir_amountMinor req))),
       ix_onChainTxHash = None, ix_simulated = True\<rparr>
   | Some call \<Rightarrow> bind_r (call req) (\<lambda>res. Inr \<lparr>ix_accepted = ix_accepted res,
       ix_status = ix_status res, ix_paychainReference = ix_paychainReference res,
       ix_onChainTxHash = ix_onChainTxHash res, ix_simulated = False\<rparr>))"

definition readOnChainSupply :: "env \<Rightarrow> string \<Rightarrow> string \<Rightarrow> int \<Rightarrow> string option res" where
  "readOnChainSupply e assetCode issuer decs = (case horizonSupply e of
     None \<Rightarrow> Inr None | Some getSupply \<Rightarrow> getSupply assetCode issuer decs)"

section \<open>Idempotency\<close>

text \<open>\<open>run\<close> around an operation that returns a JSON body: the flag says whether it was replayed.\<close>

definition idempotent :: "string option \<Rightarrow> string \<Rightarrow> json \<Rightarrow> json op \<Rightarrow> (bool \<times> json) op" where
  "idempotent key route body fn =
     (if \<not> truthy key then bnd fn (\<lambda>v. ret (False, v))
      else bnd (asks id) (\<lambda>e. let requestHash = sha256Hex e (canonicalize body) in
       bnd (gets (\<lambda>s. find_row ik_key (the key) (idemKeys s))) (\<lambda>existing.
       case existing of
         Some k \<Rightarrow> if ik_requestHash k \<noteq> requestHash then raise (Conflict ''Idempotency key reused'')
                   else ret (True, ik_responseBody k)
       | None \<Rightarrow> bnd fn (\<lambda>v. seq (try_modify (\<lambda>s.
           if has_row ik_key (the key) (idemKeys s) then Inl (UniqueViolation ''IdempotencyKey.key'')
           else Inr (s\<lparr>idemKeys := idemKeys s @ [\<lparr>ik_key = the key, ik_route = route,
             ik_requestHash = requestHash, ik_responseCode = 200, ik_responseBody = to_plain v\<rparr>]\<rparr>)))
           (ret (False, v))))))"

section \<open>How the services act on the state\<close>

lemma audit_apply [prog_simps]:
  "audit r e s = (Inr (), s\<lparr>audits := audits s @ [audit_row r]\<rparr>)"
  "bnd (audit r) f e s = f () e (s\<lparr>audits := audits s @ [audit_row r]\<rparr>)"
  by (simp_all add: audit_def modify_def bnd_modify)

lemma publish_apply [prog_simps]:
  "publish ty p e s = (Inr (), s\<lparr>outbox := outbox s @ [webhook_event e ''PAYCHAIN'' ty p]\<rparr>)"
  "bnd (publish ty p) f e s = f () e (s\<lparr>outbox := outbox s @ [webhook_event e ''PAYCHAIN'' ty p]\<rparr>)"
  by (simp_all add: publish_def publish_to_def prog_simps modify_def)

lemma publishToPaykh_apply [prog_simps]:
  "publishToPaykh ty p e s = (Inr (), s\<lparr>outbox := outbox s @ [webhook_event e ''PAYKH'' ty p]\<rparr>)"
  "bnd (publishToPaykh ty p) f e s = f () e (s\<lparr>outbox := outbox s @ [webhook_event e ''PAYKH'' ty p]\<rparr>)"
  by (simp_all add: publishToPaykh_def publish_to_def prog_simps modify_def)

lemma publishWithArtifact_apply [prog_simps]:
  "publishWithArtifact ty p a q e s = (Inr (), s\<lparr>outbox := outbox s @ [artifact_event e ty p a q]\<rparr>)"
  "bnd (publishWithArtifact ty p a q) f e s = f () e (s\<lparr>outbox := outbox s @ [artifact_event e ty p a q]\<rparr>)"
  by (simp_all add: publishWithArtifact_def prog_simps modify_def)

lemma requireEnabled_apply [prog_simps]:
  "requireEnabled k e s = (if isEnabled k s then (Inr (), s) else (Inl (PlainError ''Feature is disabled''), s))"
  "bnd (requireEnabled k) f e s =
     (if isEnabled k s then f () e s else (Inl (PlainError ''Feature is disabled''), s))"
  by (simp_all add: requireEnabled_def prog_simps)

text \<open>A published event is addressed, typed and signed with the key of its purpose.\<close>

lemma webhook_event_sel [simp]:
  "ob_targetPlatform (webhook_event e t ty p) = t" "ob_eventType (webhook_event e t ty p) = ty"
  "ob_artifact (webhook_event e t ty p) = None" "ob_deliveredAt (webhook_event e t ty p) = None"
  by (simp_all add: webhook_event_def Let_def)

lemma leaves_audit [leaves_intros]:
  "(\<And>s x. g (s\<lparr>audits := x\<rparr>) = g s) \<Longrightarrow> leaves g (audit r)"
  by (simp add: audit_def leaves_modify)

lemma leaves_publish_to [leaves_intros]:
  "(\<And>s x. g (s\<lparr>outbox := x\<rparr>) = g s) \<Longrightarrow> leaves g (publish_to t ty p)"
  by (simp add: publish_to_def leaves_intros Let_def)

lemma leaves_publish [leaves_intros]:
  "(\<And>s x. g (s\<lparr>outbox := x\<rparr>) = g s) \<Longrightarrow> leaves g (publish ty p)"
  by (simp add: publish_def leaves_publish_to)

lemma leaves_publishToPaykh [leaves_intros]:
  "(\<And>s x. g (s\<lparr>outbox := x\<rparr>) = g s) \<Longrightarrow> leaves g (publishToPaykh ty p)"
  by (simp add: publishToPaykh_def leaves_publish_to)

lemma leaves_publishWithArtifact [leaves_intros]:
  "(\<And>s x. g (s\<lparr>outbox := x\<rparr>) = g s) \<Longrightarrow> leaves g (publishWithArtifact ty p a q)"
  by (simp add: publishWithArtifact_def leaves_intros Let_def)

lemma leaves_requireEnabled [leaves_intros]: "leaves g (requireEnabled k)"
  by (simp add: requireEnabled_def leaves_intros)

lemma leaves_clearedBalanceForAccount [leaves_intros]:
  "(\<And>s x. g (s\<lparr>lastSuccessfulCheck := x\<rparr>) = g s) \<Longrightarrow> leaves g (clearedBalanceForAccount a)"
  by (simp add: clearedBalanceForAccount_def leaves_intros Let_def)

end
