(* ===== verification/Entries.thy ===== *)
theory Entries
  imports Journal
begin

text \<open>
  \<open>packages/ledger/src/entries.ts\<close>: the journal templates the services post. All of them
  move one amount from a debit account to a credit account, so one lemma, \<open>two_sided\<close>,
  says when such an entry is accepted and what it is; each template is an instance.
\<close>

section \<open>Templates\<close>

definition debit :: "string \<Rightarrow> Money \<Rightarrow> Posting" where
  "debit acc amount = \<lparr>p_account = acc, p_debit = amount, p_credit = zero_money (currency amount),
     p_memo = None\<rparr>"

definition credit :: "string \<Rightarrow> Money \<Rightarrow> Posting" where
  "credit acc amount = \<lparr>p_account = acc, p_debit = zero_money (currency amount), p_credit = amount,
     p_memo = None\<rparr>"

definition clearedDepositEntry :: "Money \<Rightarrow> JournalReferences \<Rightarrow> JournalEntry res" where
  "clearedDepositEntry amount references = buildJournalEntry
     \<lparr>je_currency = currency amount,
      je_description = ''Cleared reserve deposit allocated to PayChain obligation'',
      je_postings = [debit ASSET_TRUSTEE_BANK_CASH amount,
                     credit LIABILITY_PAYCHAIN_RESERVE_OBLIGATION amount],
      je_references = references\<rparr>"

definition mintReservationEntry :: "Money \<Rightarrow> JournalReferences \<Rightarrow> JournalEntry res" where
  "mintReservationEntry amount references = buildJournalEntry
     \<lparr>je_currency = currency amount,
      je_description = ''Reserve earmarked for pending mint authorization'',
      je_postings = [debit LIABILITY_PAYCHAIN_RESERVE_OBLIGATION amount,
                     credit LIABILITY_PENDING_MINT amount],
      je_references = references\<rparr>"

definition mintReleaseEntry :: "Money \<Rightarrow> JournalReferences \<Rightarrow> JournalEntry res" where
  "mintReleaseEntry amount references = buildJournalEntry
     \<lparr>je_currency = currency amount,
      je_description = ''Pending mint reservation released to reserve obligation'',
      je_postings = [debit LIABILITY_PENDING_MINT amount,
                     credit LIABILITY_PAYCHAIN_RESERVE_OBLIGATION amount],
      je_references = references\<rparr>"

definition redemptionObligationEntry :: "Money \<Rightarrow> JournalReferences \<Rightarrow> JournalEntry res" where
  "redemptionObligationEntry amount references = buildJournalEntry
     \<lparr>je_currency = currency amount,
      je_description = ''Reserve obligation moved to pending redemption'',
      je_postings = [debit LIABILITY_PAYCHAIN_RESERVE_OBLIGATION amount,
                     credit LIABILITY_PENDING_REDEMPTION amount],
      je_references = references\<rparr>"

definition payoutConfirmedEntry :: "Money \<Rightarrow> JournalReferences \<Rightarrow> JournalEntry res" where
  "payoutConfirmedEntry amount references = buildJournalEntry
     \<lparr>je_currency = currency amount,
      je_description = ''Fiat payout confirmed; pending redemption discharged'',
      je_postings = [debit LIABILITY_PENDING_REDEMPTION amount,
                     credit ASSET_TRUSTEE_BANK_CASH amount],
      je_references = references\<rparr>"

definition paykhPaymentCollectionEntry :: "Money \<Rightarrow> JournalReferences \<Rightarrow> JournalEntry res" where
  "paykhPaymentCollectionEntry amount references = buildJournalEntry
     \<lparr>je_currency = currency amount,
      je_description = ''PayKH customer payment collected'',
      je_postings = [debit ASSET_TRUSTEE_BANK_CASH amount,
                     credit LIABILITY_PAYKH_MERCHANT_PAYABLE amount],
      je_references = references\<rparr>"

definition paykhMerchantSettlementEntry :: "Money \<Rightarrow> JournalReferences \<Rightarrow> JournalEntry res" where
  "paykhMerchantSettlementEntry amount references = buildJournalEntry
     \<lparr>je_currency = currency amount,
      je_description = ''PayKH merchant settlement executed'',
      je_postings = [debit LIABILITY_PAYKH_MERCHANT_PAYABLE amount,
                     credit ASSET_TRUSTEE_BANK_CASH amount],
      je_references = references\<rparr>"

definition paykhProgramFundingEntry :: "Money \<Rightarrow> JournalReferences \<Rightarrow> JournalEntry res" where
  "paykhProgramFundingEntry amount references = buildJournalEntry
     \<lparr>je_currency = currency amount,
      je_description = ''PayKH program fund safeguarded'',
      je_postings = [debit ASSET_TRUSTEE_BANK_CASH amount,
                     credit LIABILITY_PAYKH_PROGRAM_FUND amount],
      je_references = references\<rparr>"

definition paykhLoyaltyIssuanceEntry :: "Money \<Rightarrow> JournalReferences \<Rightarrow> JournalEntry res" where
  "paykhLoyaltyIssuanceEntry amount references = buildJournalEntry
     \<lparr>je_currency = currency amount,
      je_description = ''PayKH backed loyalty stablecoin issued (program fund earmarked)'',
      je_postings = [debit LIABILITY_PAYKH_PROGRAM_FUND amount,
                     credit LIABILITY_PAYKH_LOYALTY_STABLECOIN amount],
      je_references = references\<rparr>"

definition paykhLoyaltyRedemptionEntry :: "Money \<Rightarrow> JournalReferences \<Rightarrow> JournalEntry res" where
  "paykhLoyaltyRedemptionEntry amount references = buildJournalEntry
     \<lparr>je_currency = currency amount,
      je_description = ''PayKH loyalty stablecoin redeemed to merchant payable'',
      je_postings = [debit LIABILITY_PAYKH_LOYALTY_STABLECOIN amount,
                     credit LIABILITY_PAYKH_MERCHANT_PAYABLE amount],
      je_references = references\<rparr>"

section \<open>The shape of a two-sided entry\<close>

definition two_sided :: "string \<Rightarrow> string \<Rightarrow> string \<Rightarrow> Money \<Rightarrow> JournalReferences \<Rightarrow> JournalEntryInput" where
  "two_sided d dr cr amount references = \<lparr>je_currency = currency amount, je_description = d,
     je_postings = [debit dr amount, credit cr amount], je_references = references\<rparr>"

lemma valid_two_sided:
  assumes "is_ok (ledgerAccountTypeOf dr)" and "is_ok (ledgerAccountTypeOf cr)"
  shows "valid_input (two_sided d dr cr amount references) \<longleftrightarrow>
    0 < minor amount \<and> toUpperCase (currency amount) = currency amount"
  using assms
  by (auto simp: valid_input_def two_sided_def posting_ok_def debit_def credit_def debits_def credits_def)

lemma net_effect_two_sided:
  assumes "dr \<noteq> cr"
  shows "net_effect dp acc [debit dr amount, credit cr amount] =
    (if acc = dr then (if dp then minor amount else - minor amount)
     else if acc = cr then (if dp then - minor amount else minor amount) else 0)"
  using assms by (auto simp: net_effect_def signed_amount_def debit_def credit_def)

lemma template_two_sided:
  "clearedDepositEntry a refs = buildJournalEntry (two_sided
     ''Cleared reserve deposit allocated to PayChain obligation''
     ASSET_TRUSTEE_BANK_CASH LIABILITY_PAYCHAIN_RESERVE_OBLIGATION a refs)"
  "mintReservationEntry a refs = buildJournalEntry (two_sided
     ''Reserve earmarked for pending mint authorization''
     LIABILITY_PAYCHAIN_RESERVE_OBLIGATION LIABILITY_PENDING_MINT a refs)"
  "mintReleaseEntry a refs = buildJournalEntry (two_sided
     ''Pending mint reservation released to reserve obligation''
     LIABILITY_PENDING_MINT LIABILITY_PAYCHAIN_RESERVE_OBLIGATION a refs)"
  "redemptionObligationEntry a refs = buildJournalEntry (two_sided
     ''Reserve obligation moved to pending redemption''
     LIABILITY_PAYCHAIN_RESERVE_OBLIGATION LIABILITY_PENDING_REDEMPTION a refs)"
  "payoutConfirmedEntry a refs = buildJournalEntry (two_sided
     ''Fiat payout confirmed; pending redemption discharged''
     LIABILITY_PENDING_REDEMPTION ASSET_TRUSTEE_BANK_CASH a refs)"
  "paykhPaymentCollectionEntry a refs = buildJournalEntry (two_sided
     ''PayKH customer payment collected''
     ASSET_TRUSTEE_BANK_CASH LIABILITY_PAYKH_MERCHANT_PAYABLE a refs)"
  "paykhMerchantSettlementEntry a refs = buildJournalEntry (two_sided
     ''PayKH merchant settlement executed''
     LIABILITY_PAYKH_MERCHANT_PAYABLE ASSET_TRUSTEE_BANK_CASH a refs)"
  "paykhProgramFundingEntry a refs = buildJournalEntry (two_sided
     ''PayKH program fund safeguarded''
     ASSET_TRUSTEE_BANK_CASH LIABILITY_PAYKH_PROGRAM_FUND a refs)"
  "paykhLoyaltyIssuanceEntry a refs = buildJournalEntry (two_sided
     ''PayKH backed loyalty stablecoin issued (program fund earmarked)''
     LIABILITY_PAYKH_PROGRAM_FUND LIABILITY_PAYKH_LOYALTY_STABLECOIN a refs)"
  "paykhLoyaltyRedemptionEntry a refs = buildJournalEntry (two_sided
     ''PayKH loyalty stablecoin redeemed to merchant payable''
     LIABILITY_PAYKH_LOYALTY_STABLECOIN LIABILITY_PAYKH_MERCHANT_PAYABLE a refs)"
  by (simp_all add: two_sided_def clearedDepositEntry_def
    mintReservationEntry_def
    mintReleaseEntry_def
    redemptionObligationEntry_def
    payoutConfirmedEntry_def
    paykhPaymentCollectionEntry_def
    paykhMerchantSettlementEntry_def
    paykhProgramFundingEntry_def
    paykhLoyaltyIssuanceEntry_def
    paykhLoyaltyRedemptionEntry_def)

text \<open>
  A template succeeds exactly on a positive amount in an upper-case currency; the entry
  then debits the first account and credits the second by that amount.
\<close>

lemma two_sided_Inr:
  assumes "buildJournalEntry (two_sided d dr cr a refs) = Inr e"
  shows "valid_input e \<and> je_postings e = [debit dr a, credit cr a] \<and> je_currency e = currency a
    \<and> je_references e = refs \<and> je_description e = d \<and> 0 < minor a \<and> toUpperCase (currency a) = currency a"
  using assms
  by (auto simp: buildJournalEntry_iff built_def valid_input_def two_sided_def posting_ok_def
      debit_def credit_def)

lemma two_sided_ok:
  assumes "is_ok (ledgerAccountTypeOf dr)" and "is_ok (ledgerAccountTypeOf cr)"
    and "0 < minor a" and "toUpperCase (currency a) = currency a"
  shows "buildJournalEntry (two_sided d dr cr a refs) = Inr (built (two_sided d dr cr a refs))"
  using assms by (simp add: buildJournalEntry_valid valid_two_sided)

lemma two_sided_fails:
  assumes "\<not> (0 < minor a \<and> toUpperCase (currency a) = currency a)"
  shows "\<exists>x. buildJournalEntry (two_sided d dr cr a refs) = Inl x"
proof (cases "buildJournalEntry (two_sided d dr cr a refs)")
  case (Inr e)
  with two_sided_Inr [OF this] assms show ?thesis by simp
qed simp

end
