(* ===== verification/Reserve_Ledger.thy ===== *)
theory Reserve_Ledger
  imports Infra Entries
begin

text \<open>
  \<open>modules/reserve/reserve-ledger.service.ts\<close>: journals are persisted once and never
  edited; a balance is the sum of an account's postings within a scope and currency.

  The interface the money-moving services rely on is the locale \<open>earmark_ledger\<close>: posting
  a transfer changes the balance of its two accounts by the amount and nothing else. Its
  client lemmas (a reservation followed by a release restores every balance, transfers
  conserve value) are proved once there and interpreted on the persisted journal.
\<close>

section \<open>Operations\<close>

definition ledger_posting :: "Posting \<Rightarrow> LedgerPosting" where
  "ledger_posting p = \<lparr>lp_account = p_account p, lp_debitMinor = minor (p_debit p),
     lp_creditMinor = minor (p_credit p), lp_memo = p_memo p\<rparr>"

definition ledger_row :: "JournalEntry \<Rightarrow> LedgerEntry" where
  "ledger_row entry = \<lparr>le_programId = ref_programId (je_references entry),
     le_assetId = ref_assetId (je_references entry), le_currency = je_currency entry,
     le_description = je_description entry, le_source = ref_source (je_references entry),
     le_actor = ref_actor (je_references entry), le_approvalRef = ref_approvalRef (je_references entry),
     le_correlationId = ref_correlationId (je_references entry), le_reversalOf = je_reversalOf entry,
     le_totalDebitMinor = minor (je_totalDebit entry), le_totalCreditMinor = minor (je_totalCredit entry),
     le_postings = map ledger_posting (je_postings entry)\<rparr>"

definition post :: "JournalEntry \<Rightarrow> unit op" where
  "post entry = modify (\<lambda>s. s\<lparr>entries := entries s @ [ledger_row entry]\<rparr>)"

text \<open>\<open>await this.ledger.post(someEntry(...))\<close>: a template that throws posts nothing.\<close>

definition post_res :: "JournalEntry res \<Rightarrow> unit op" where
  "post_res r = bnd (lift_r r) post"

definition posting_rows :: "st \<Rightarrow> string \<Rightarrow> string \<Rightarrow> string \<Rightarrow> LedgerPosting list" where
  "posting_rows s programId account cur =
     filter (\<lambda>p. lp_account p = account) (concat (map le_postings
       (filter (\<lambda>en. le_programId en = programId \<and> le_currency en = cur) (entries s))))"

fun net_loop :: "bool \<Rightarrow> LedgerPosting list \<Rightarrow> int \<Rightarrow> int" where
  "net_loop debitPositive [] net = net"
| "net_loop debitPositive (r # rs) net = net_loop debitPositive rs
     (net + (if debitPositive then lp_debitMinor r - lp_creditMinor r
             else lp_creditMinor r - lp_debitMinor r))"

definition accountBalance :: "st \<Rightarrow> string \<Rightarrow> string \<Rightarrow> string \<Rightarrow> Money res" where
  "accountBalance s programId account cur =
     bind_r (ledgerAccountTypeOf account) (\<lambda>type.
     money (BigIntArg (net_loop (type = ASSET \<or> type = EXPENSE)
       (posting_rows s programId account cur) 0)) cur)"

definition subledgerBalances :: "st \<Rightarrow> string \<Rightarrow> bool \<times> int" where
  "subledgerBalances s programId = (let rows = concat (map le_postings
       (filter (\<lambda>en. le_programId en = programId) (entries s)));
     net = fold (\<lambda>r n. n + (lp_debitMinor r - lp_creditMinor r)) rows 0
   in (net = 0, net))"

section \<open>Balances as sums\<close>

definition acc_net :: "bool \<Rightarrow> string \<Rightarrow> LedgerPosting list \<Rightarrow> int" where
  "acc_net dp acc ps = (\<Sum>p\<leftarrow>ps. if lp_account p = acc
     then (if dp then lp_debitMinor p - lp_creditMinor p else lp_creditMinor p - lp_debitMinor p) else 0)"

definition bal :: "bool \<Rightarrow> string \<Rightarrow> string \<Rightarrow> string \<Rightarrow> LedgerEntry list \<Rightarrow> int" where
  "bal dp scope cur acc es =
     (\<Sum>en\<leftarrow>es. if le_programId en = scope \<and> le_currency en = cur then acc_net dp acc (le_postings en) else 0)"

text \<open>The two kinds of account the services ask for.\<close>

abbreviation cash :: "string \<Rightarrow> string \<Rightarrow> LedgerEntry list \<Rightarrow> int" where
  "cash scope cur \<equiv> bal True scope cur ASSET_TRUSTEE_BANK_CASH"

abbreviation liab :: "string \<Rightarrow> string \<Rightarrow> string \<Rightarrow> LedgerEntry list \<Rightarrow> int" where
  "liab acc scope cur \<equiv> bal False scope cur acc"

lemma net_loop_sum:
  "net_loop dp rs n = n + (\<Sum>r\<leftarrow>rs. if dp then lp_debitMinor r - lp_creditMinor r
     else lp_creditMinor r - lp_debitMinor r)"
  by (induction rs arbitrary: n) simp_all

lemma sum_filter_account:
  "(\<Sum>r\<leftarrow>filter (\<lambda>p. lp_account p = acc) ps. if dp then lp_debitMinor r - lp_creditMinor r
     else lp_creditMinor r - lp_debitMinor r) = acc_net dp acc ps"
  by (induction ps) (simp_all add: acc_net_def)

lemma acc_net_append: "acc_net dp acc (ps @ qs) = acc_net dp acc ps + acc_net dp acc qs"
  by (simp add: acc_net_def)

lemma net_loop_rows:
  "net_loop dp (posting_rows s scope acc cur) 0 = bal dp scope cur acc (entries s)"
proof -
  have "(\<Sum>r\<leftarrow>filter (\<lambda>p. lp_account p = acc) (concat (map le_postings
       (filter (\<lambda>en. le_programId en = scope \<and> le_currency en = cur) es))).
       if dp then lp_debitMinor r - lp_creditMinor r else lp_creditMinor r - lp_debitMinor r)
     = bal dp scope cur acc es" for es
    by (induction es) (simp_all add: bal_def sum_filter_account acc_net_append acc_net_def)
  then show ?thesis by (simp add: net_loop_sum posting_rows_def)
qed

lemma accountBalance_value:
  "ledgerAccountTypeOf acc = Inr t \<Longrightarrow>
   accountBalance s scope acc cur = Inr (money_big (bal (debit_positive t) scope cur acc (entries s)) cur)"
  by (simp add: accountBalance_def net_loop_rows debit_positive_def)

lemma bal_Nil [simp]: "bal dp scope cur acc [] = 0"
  by (simp add: bal_def)

lemma bal_append: "bal dp scope cur acc (es @ fs) = bal dp scope cur acc es + bal dp scope cur acc fs"
  by (simp add: bal_def)

lemma bal_snoc:
  "bal dp scope cur acc (es @ [en]) = bal dp scope cur acc es
     + (if le_programId en = scope \<and> le_currency en = cur then acc_net dp acc (le_postings en) else 0)"
  by (simp add: bal_def)

text \<open>A stored entry changes a balance by exactly the journal's \<open>accountEffect\<close>.\<close>

lemma acc_net_posted: "acc_net dp acc (map ledger_posting ps) = net_effect dp acc ps"
  by (induction ps) (simp_all add: acc_net_def net_effect_def ledger_posting_def signed_amount_def)

section \<open>Posting a transfer\<close>

definition postable :: "Money \<Rightarrow> bool" where
  "postable a \<longleftrightarrow> 0 < minor a \<and> toUpperCase (currency a) = currency a"

definition transfer_error :: "Money \<Rightarrow> err" where
  "transfer_error a =
     (if toUpperCase (currency a) \<noteq> currency a then InvalidPostingError ''currency other than journal currency''
      else if minor a < 0 then InvalidPostingError ''negative amount''
      else InvalidPostingError ''empty'')"

definition transfer_row :: "string \<Rightarrow> string \<Rightarrow> string \<Rightarrow> Money \<Rightarrow> JournalReferences \<Rightarrow> LedgerEntry" where
  "transfer_row d dr cr a refs = ledger_row (built (two_sided d dr cr a refs))"

lemma transfer_row_sel [simp]:
  "le_programId (transfer_row d dr cr a refs) = ref_programId refs"
  "le_currency (transfer_row d dr cr a refs) = currency a"
  "le_source (transfer_row d dr cr a refs) = ref_source refs"
  "le_postings (transfer_row d dr cr a refs) = map ledger_posting [debit dr a, credit cr a]"
  by (simp_all add: transfer_row_def ledger_row_def built_def two_sided_def)

lemma acc_net_transfer:
  assumes "dr \<noteq> cr"
  shows "acc_net dp acc (le_postings (transfer_row d dr cr a refs)) =
    (if acc = dr then (if dp then minor a else - minor a)
     else if acc = cr then (if dp then - minor a else minor a) else 0)"
  using acc_net_posted [of dp acc "[debit dr a, credit cr a]"] net_effect_two_sided [OF assms]
  by simp

lemma bal_transfer:
  assumes "dr \<noteq> cr"
  shows "bal dp scope cur acc (es @ [transfer_row d dr cr a refs]) = bal dp scope cur acc es
    + (if ref_programId refs = scope \<and> currency a = cur
       then (if acc = dr then (if dp then minor a else - minor a)
             else if acc = cr then (if dp then - minor a else minor a) else 0) else 0)"
  by (simp only: bal_snoc transfer_row_sel(1,2) acc_net_transfer [OF assms])

lemma two_sided_error:
  assumes "\<not> postable a" and "ledgerAccountTypeOf dr = Inr t" and "ledgerAccountTypeOf cr = Inr u"
  shows "buildJournalEntry (two_sided d dr cr a refs) = Inl (transfer_error a)"
  using assms
  by (auto simp: buildJournalEntry_def two_sided_def assertPostingWellFormed_def debit_def credit_def
      transfer_error_def postable_def money_cases)

lemma post_two_sided:
  assumes "ledgerAccountTypeOf dr = Inr t" and "ledgerAccountTypeOf cr = Inr u"
  shows "bnd (post_res (buildJournalEntry (two_sided d dr cr a refs))) f e s =
    (if postable a then f () e (s\<lparr>entries := entries s @ [transfer_row d dr cr a refs]\<rparr>)
     else (Inl (transfer_error a), s))"
proof (cases "postable a")
  case True
  then have "buildJournalEntry (two_sided d dr cr a refs) = Inr (built (two_sided d dr cr a refs))"
    using assms by (intro two_sided_ok) (simp_all add: postable_def)
  with True show ?thesis by (simp add: post_res_def post_def prog_simps transfer_row_def)
next
  case False
  then show ?thesis using two_sided_error [OF False assms] by (simp add: post_res_def prog_simps)
qed

lemma postable_money_big [simp]: "postable (money_big i cur) \<longleftrightarrow> 0 < i"
  by (simp add: postable_def)

text \<open>What each template posts, in the form the service proofs rewrite with.\<close>

lemma post_templates [prog_simps]:
  "bnd (post_res (clearedDepositEntry a r)) f e s = (if postable a then f () e (s\<lparr>entries := entries s @
     [transfer_row ''Cleared reserve deposit allocated to PayChain obligation''
       ASSET_TRUSTEE_BANK_CASH LIABILITY_PAYCHAIN_RESERVE_OBLIGATION a r]\<rparr>) else (Inl (transfer_error a), s))"
  "bnd (post_res (mintReservationEntry a r)) f e s = (if postable a then f () e (s\<lparr>entries := entries s @
     [transfer_row ''Reserve earmarked for pending mint authorization''
       LIABILITY_PAYCHAIN_RESERVE_OBLIGATION LIABILITY_PENDING_MINT a r]\<rparr>) else (Inl (transfer_error a), s))"
  "bnd (post_res (mintReleaseEntry a r)) f e s = (if postable a then f () e (s\<lparr>entries := entries s @
     [transfer_row ''Pending mint reservation released to reserve obligation''
       LIABILITY_PENDING_MINT LIABILITY_PAYCHAIN_RESERVE_OBLIGATION a r]\<rparr>) else (Inl (transfer_error a), s))"
  "bnd (post_res (redemptionObligationEntry a r)) f e s = (if postable a then f () e (s\<lparr>entries := entries s @
     [transfer_row ''Reserve obligation moved to pending redemption''
       LIABILITY_PAYCHAIN_RESERVE_OBLIGATION LIABILITY_PENDING_REDEMPTION a r]\<rparr>) else (Inl (transfer_error a), s))"
  "bnd (post_res (payoutConfirmedEntry a r)) f e s = (if postable a then f () e (s\<lparr>entries := entries s @
     [transfer_row ''Fiat payout confirmed; pending redemption discharged''
       LIABILITY_PENDING_REDEMPTION ASSET_TRUSTEE_BANK_CASH a r]\<rparr>) else (Inl (transfer_error a), s))"
  "bnd (post_res (paykhPaymentCollectionEntry a r)) f e s = (if postable a then f () e (s\<lparr>entries := entries s @
     [transfer_row ''PayKH customer payment collected''
       ASSET_TRUSTEE_BANK_CASH LIABILITY_PAYKH_MERCHANT_PAYABLE a r]\<rparr>) else (Inl (transfer_error a), s))"
  "bnd (post_res (paykhMerchantSettlementEntry a r)) f e s = (if postable a then f () e (s\<lparr>entries := entries s @
     [transfer_row ''PayKH merchant settlement executed''
       LIABILITY_PAYKH_MERCHANT_PAYABLE ASSET_TRUSTEE_BANK_CASH a r]\<rparr>) else (Inl (transfer_error a), s))"
  "bnd (post_res (paykhProgramFundingEntry a r)) f e s = (if postable a then f () e (s\<lparr>entries := entries s @
     [transfer_row ''PayKH program fund safeguarded''
       ASSET_TRUSTEE_BANK_CASH LIABILITY_PAYKH_PROGRAM_FUND a r]\<rparr>) else (Inl (transfer_error a), s))"
  "bnd (post_res (paykhLoyaltyIssuanceEntry a r)) f e s = (if postable a then f () e (s\<lparr>entries := entries s @
     [transfer_row ''PayKH backed loyalty stablecoin issued (program fund earmarked)''
       LIABILITY_PAYKH_PROGRAM_FUND LIABILITY_PAYKH_LOYALTY_STABLECOIN a r]\<rparr>) else (Inl (transfer_error a), s))"
  "bnd (post_res (paykhLoyaltyRedemptionEntry a r)) f e s = (if postable a then f () e (s\<lparr>entries := entries s @
     [transfer_row ''PayKH loyalty stablecoin redeemed to merchant payable''
       LIABILITY_PAYKH_LOYALTY_STABLECOIN LIABILITY_PAYKH_MERCHANT_PAYABLE a r]\<rparr>) else (Inl (transfer_error a), s))"
  by (simp_all only: template_two_sided, (rule post_two_sided, simp, simp)+)

lemma leaves_post_res [leaves_intros]:
  "(\<And>s x. g (s\<lparr>entries := x\<rparr>) = g s) \<Longrightarrow> leaves g (post_res r)"
  by (simp add: post_res_def post_def leaves_intros)

section \<open>Well-formed subledger\<close>

definition lposting_ok :: "LedgerPosting \<Rightarrow> bool" where
  "lposting_ok p \<longleftrightarrow> (lp_debitMinor p = 0 \<and> 0 < lp_creditMinor p \<or> 0 < lp_debitMinor p \<and> lp_creditMinor p = 0)
     \<and> is_ok (ledgerAccountTypeOf (lp_account p))"

definition entry_ok :: "LedgerEntry \<Rightarrow> bool" where
  "entry_ok en \<longleftrightarrow> 2 \<le> length (le_postings en) \<and> list_all lposting_ok (le_postings en)
     \<and> toUpperCase (le_currency en) = le_currency en
     \<and> le_totalDebitMinor en = (\<Sum>p\<leftarrow>le_postings en. lp_debitMinor p)
     \<and> le_totalCreditMinor en = (\<Sum>p\<leftarrow>le_postings en. lp_creditMinor p)
     \<and> le_totalDebitMinor en = le_totalCreditMinor en"

definition ledger_ok :: "st \<Rightarrow> bool" where
  "ledger_ok s \<longleftrightarrow> list_all entry_ok (entries s)"

definition journal_ok :: "JournalEntry \<Rightarrow> bool" where
  "journal_ok j \<longleftrightarrow> valid_input j \<and> minor (je_totalDebit j) = debits (je_postings j)
     \<and> minor (je_totalCredit j) = credits (je_postings j)"

lemma built_journal_ok: "buildJournalEntry i = Inr j \<Longrightarrow> journal_ok j"
  by (auto simp: buildJournalEntry_iff journal_ok_def) (simp_all add: built_def)

lemma reverse_journal_ok: "reverse j0 ref act reason = Inr j \<Longrightarrow> journal_ok j"
  by (auto simp: reverse_def bind_r_eq_Inr dest!: built_journal_ok)
     (simp add: journal_ok_def valid_input_def)

lemma entry_ok_ledger_row: "journal_ok j \<Longrightarrow> entry_ok (ledger_row j)"
  by (auto simp: journal_ok_def entry_ok_def ledger_row_def valid_input_def list_all_iff lposting_ok_def
      posting_ok_def ledger_posting_def debits_def credits_def comp_def)

lemma ledger_ok_frame [simp]:
  "ledger_ok (s\<lparr>entries := es\<rparr>) \<longleftrightarrow> list_all entry_ok es"
  by (simp add: ledger_ok_def)

lemma keeps_ledger_post_res:
  "(\<And>j. r = Inr j \<Longrightarrow> journal_ok j) \<Longrightarrow> keeps ledger_ok (post_res r)"
  by (cases r) (auto simp: keeps_def post_res_def post_def prog_simps modify_def ledger_ok_def
      intro: entry_ok_ledger_row)

text \<open>In a well-formed subledger every scope nets to zero.\<close>

lemma postings_net_zero:
  "entry_ok en \<Longrightarrow> (\<Sum>p\<leftarrow>le_postings en. lp_debitMinor p - lp_creditMinor p) = 0"
  by (simp add: entry_ok_def sum_list_subtractf)

lemma fold_net: "fold (\<lambda>r n. n + (lp_debitMinor r - lp_creditMinor r)) rows k
    = k + (\<Sum>r\<leftarrow>rows. lp_debitMinor r - lp_creditMinor r)"
  by (induction rows arbitrary: k) simp_all

lemma subledger_zero: "ledger_ok s \<Longrightarrow> subledgerBalances s scope = (True, 0)"
proof -
  have "(\<Sum>r\<leftarrow>concat (map le_postings (filter (\<lambda>en. le_programId en = scope) es)).
      lp_debitMinor r - lp_creditMinor r) = 0" if "list_all entry_ok es" for es
    using that by (induction es) (simp_all add: postings_net_zero)
  then show "ledger_ok s \<Longrightarrow> ?thesis"
    by (simp add: subledgerBalances_def fold_net ledger_ok_def Let_def)
qed

section \<open>Programs that only append to the ledger\<close>

text \<open>
  \<open>appends A m\<close>: whatever its outcome, \<open>m\<close> leaves the existing journal untouched and adds
  only well-formed entries on the accounts in \<open>A\<close>. The rules follow the shape of a program,
  so one line proves it for a whole service method.
\<close>

named_theorems appends_intros \<open>programs that append to the ledger\<close>

definition on_accounts :: "string set \<Rightarrow> LedgerEntry \<Rightarrow> bool" where
  "on_accounts A en \<longleftrightarrow> entry_ok en \<and> (\<forall>p \<in> set (le_postings en). lp_account p \<in> A)"

definition appends :: "string set \<Rightarrow> 'a op \<Rightarrow> bool" where
  "appends A m \<longleftrightarrow> (\<forall>e s. \<exists>new. entries (snd (m e s)) = entries s @ new \<and> (\<forall>en \<in> set new. on_accounts A en))"

lemma appendsD:
  "appends A m \<Longrightarrow> \<exists>new. entries (snd (m e s)) = entries s @ new \<and> (\<forall>en \<in> set new. on_accounts A en)"
  by (simp add: appends_def)

lemma leaves_appends: "leaves entries m \<Longrightarrow> appends A m"
  by (simp add: leaves_def appends_def)

lemma appends_bnd [appends_intros]:
  assumes "appends A m" and "\<And>a. appends A (f a)"
  shows "appends A (bnd m f)"
  unfolding appends_def
proof (intro allI)
  fix e s
  obtain r s' where m: "m e s = (r, s')" by fastforce
  with appendsD [OF assms(1), of e s] obtain new
    where new: "entries s' = entries s @ new" "\<forall>en \<in> set new. on_accounts A en" by auto
  show "\<exists>new. entries (snd (bnd m f e s)) = entries s @ new \<and> (\<forall>en \<in> set new. on_accounts A en)"
  proof (cases r)
    case (Inl x)
    with m new show ?thesis by (auto simp: bnd_def)
  next
    case (Inr a)
    from appendsD [OF assms(2), of a e s'] obtain new'
      where "entries (snd (f a e s')) = entries s' @ new'" "\<forall>en \<in> set new'. on_accounts A en" by auto
    with m Inr new show ?thesis by (intro exI [of _ "new @ new'"]) (auto simp: bnd_def)
  qed
qed

lemma appends_seq [appends_intros]: "appends A m \<Longrightarrow> appends A n \<Longrightarrow> appends A (seq m n)"
  by (simp add: seq_def appends_bnd)

lemma appends_basic [appends_intros]:
  "appends A (ret a)" "appends A (raise x)" "appends A (check b x)" "appends A (lift_r r)"
  "appends A (asks h)" "appends A (gets k)" "appends A (find_or l x)" "appends A (reads v)"
  "appends A (audit ar)" "appends A (publish ty p)" "appends A (publishToPaykh ty p)"
  "appends A (publishWithArtifact ty p art q)" "appends A (requireEnabled key)"
  by (intro leaves_appends leaves_intros; simp)+

lemma appends_rows [appends_intros]:
  "(\<And>s x. entries (upd (\<lambda>_. x) s) = entries s) \<Longrightarrow> appends A (create_row get upd clash n row)"
  "(\<And>s x. entries (upd (\<lambda>_. x) s) = entries s) \<Longrightarrow> appends A (update_row get upd key n k f)"
  "(\<And>s. entries (h s) = entries s) \<Longrightarrow> appends A (modify h)"
  by (intro leaves_appends leaves_intros; simp)+

lemma appends_if [appends_intros]: "appends A m \<Longrightarrow> appends A n \<Longrightarrow> appends A (if b then m else n)"
  by simp

lemma appends_case_option [appends_intros]:
  "appends A m \<Longrightarrow> (\<And>y. appends A (n y)) \<Longrightarrow> appends A (case x of None \<Rightarrow> m | Some y \<Rightarrow> n y)"
  by (simp split: option.split)

lemma appends_case_prod [appends_intros]:
  "(\<And>a b. appends A (n a b)) \<Longrightarrow> appends A (case x of (a, b) \<Rightarrow> n a b)"
  by (simp split: prod.split)

lemma on_accounts_row:
  "journal_ok j \<Longrightarrow> p_account ` set (je_postings j) \<subseteq> A \<Longrightarrow> on_accounts A (ledger_row j)"
  by (auto simp: on_accounts_def entry_ok_ledger_row) (auto simp: ledger_row_def ledger_posting_def)

lemma appends_post_res:
  "(\<And>j. r = Inr j \<Longrightarrow> journal_ok j \<and> p_account ` set (je_postings j) \<subseteq> A) \<Longrightarrow> appends A (post_res r)"
  by (cases r) (auto simp: appends_def post_res_def post_def prog_simps modify_def intro!: on_accounts_row)

lemma appends_two_sided:
  "dr \<in> A \<Longrightarrow> cr \<in> A \<Longrightarrow> appends A (post_res (buildJournalEntry (two_sided d dr cr a refs)))"
proof (rule appends_post_res)
  fix j assume "dr \<in> A" "cr \<in> A" and j: "buildJournalEntry (two_sided d dr cr a refs) = Inr j"
  with two_sided_Inr [OF j] built_journal_ok [OF j]
  show "journal_ok j \<and> p_account ` set (je_postings j) \<subseteq> A" by (simp add: debit_def credit_def)
qed

lemma appends_templates [appends_intros]:
  "{ASSET_TRUSTEE_BANK_CASH, LIABILITY_PAYCHAIN_RESERVE_OBLIGATION} \<subseteq> A \<Longrightarrow>
     appends A (post_res (clearedDepositEntry a r))"
  "{LIABILITY_PAYCHAIN_RESERVE_OBLIGATION, LIABILITY_PENDING_MINT} \<subseteq> A \<Longrightarrow>
     appends A (post_res (mintReservationEntry a r))"
  "{LIABILITY_PAYCHAIN_RESERVE_OBLIGATION, LIABILITY_PENDING_MINT} \<subseteq> A \<Longrightarrow>
     appends A (post_res (mintReleaseEntry a r))"
  "{LIABILITY_PAYCHAIN_RESERVE_OBLIGATION, LIABILITY_PENDING_REDEMPTION} \<subseteq> A \<Longrightarrow>
     appends A (post_res (redemptionObligationEntry a r))"
  "{LIABILITY_PENDING_REDEMPTION, ASSET_TRUSTEE_BANK_CASH} \<subseteq> A \<Longrightarrow>
     appends A (post_res (payoutConfirmedEntry a r))"
  "{ASSET_TRUSTEE_BANK_CASH, LIABILITY_PAYKH_MERCHANT_PAYABLE} \<subseteq> A \<Longrightarrow>
     appends A (post_res (paykhPaymentCollectionEntry a r))"
  "{LIABILITY_PAYKH_MERCHANT_PAYABLE, ASSET_TRUSTEE_BANK_CASH} \<subseteq> A \<Longrightarrow>
     appends A (post_res (paykhMerchantSettlementEntry a r))"
  "{ASSET_TRUSTEE_BANK_CASH, LIABILITY_PAYKH_PROGRAM_FUND} \<subseteq> A \<Longrightarrow>
     appends A (post_res (paykhProgramFundingEntry a r))"
  "{LIABILITY_PAYKH_PROGRAM_FUND, LIABILITY_PAYKH_LOYALTY_STABLECOIN} \<subseteq> A \<Longrightarrow>
     appends A (post_res (paykhLoyaltyIssuanceEntry a r))"
  "{LIABILITY_PAYKH_LOYALTY_STABLECOIN, LIABILITY_PAYKH_MERCHANT_PAYABLE} \<subseteq> A \<Longrightarrow>
     appends A (post_res (paykhLoyaltyRedemptionEntry a r))"
  by (simp_all only: template_two_sided insert_subset, (intro appends_two_sided; simp)+)

text \<open>What follows for the invariants: well-formedness is kept, foreign balances do not move.\<close>

lemma acc_net_foreign: "\<forall>p \<in> set ps. lp_account p \<noteq> acc \<Longrightarrow> acc_net dp acc ps = 0"
  by (induction ps) (simp_all add: acc_net_def)

lemma bal_foreign:
  assumes "\<forall>en \<in> set new. on_accounts A en" and "acc \<notin> A"
  shows "bal dp scope cur acc (es @ new) = bal dp scope cur acc es"
proof -
  have "bal dp scope cur acc new = 0"
    using assms(1) assms(2)
    by (induction new) (auto simp: bal_def on_accounts_def intro!: acc_net_foreign)
  then show ?thesis by (simp add: bal_append)
qed

lemma appends_ledger_ok: "appends A m \<Longrightarrow> keeps ledger_ok m"
  unfolding keeps_def ledger_ok_def list_all_iff
proof (intro allI impI ballI)
  fix e s x assume "appends A m" "\<forall>x \<in> set (entries s). entry_ok x" "x \<in> set (entries (snd (m e s)))"
  then show "entry_ok x" using appendsD [of A m e s] by (auto simp: on_accounts_def)
qed

lemma appends_balance:
  "appends A m \<Longrightarrow> acc \<notin> A \<Longrightarrow> bal dp scope cur acc (entries (snd (m e s))) = bal dp scope cur acc (entries s)"
  using appendsD [of A m e s] bal_foreign by metis

section \<open>The ledger as an interface\<close>

locale earmark_ledger =
  fixes transfer :: "string \<Rightarrow> string \<Rightarrow> string \<Rightarrow> string \<Rightarrow> int \<Rightarrow> 'l \<Rightarrow> 'l"
    and balance :: "string \<Rightarrow> string \<Rightarrow> string \<Rightarrow> 'l \<Rightarrow> int"
  assumes transfer_balance: "dr \<noteq> cr \<Longrightarrow> balance scope cur acc (transfer sc cu dr cr n l) =
    balance scope cur acc l
      + (if sc = scope \<and> cu = cur then (if acc = dr then - n else if acc = cr then n else 0) else 0)"
begin

lemma release_restores:
  "dr \<noteq> cr \<Longrightarrow> balance scope cur acc (transfer sc cu cr dr n (transfer sc cu dr cr n l)) = balance scope cur acc l"
  by (simp add: transfer_balance)

lemma transfers_commute:
  "dr \<noteq> cr \<Longrightarrow> dr' \<noteq> cr' \<Longrightarrow> balance scope cur acc (transfer sc cu dr cr n (transfer sc' cu' dr' cr' n' l))
     = balance scope cur acc (transfer sc' cu' dr' cr' n' (transfer sc cu dr cr n l))"
  by (simp add: transfer_balance)

lemma transfer_conserves:
  assumes "finite A" and "dr \<in> A" and "cr \<in> A" and "dr \<noteq> cr"
  shows "(\<Sum>acc \<in> A. balance scope cur acc (transfer sc cu dr cr n l)) = (\<Sum>acc \<in> A. balance scope cur acc l)"
proof -
  have "(\<Sum>acc \<in> A. if acc = dr then - n else if acc = cr then n else 0)
      = (\<Sum>acc \<in> A. (if acc = dr then - n else 0) + (if acc = cr then n else 0))"
    using assms(4) by (intro sum.cong) auto
  also have "\<dots> = 0" using assms by (simp add: sum.distrib)
  finally show ?thesis using assms(4)
    by (cases "sc = scope"; cases "cu = cur") (simp_all add: transfer_balance sum.distrib)
qed

end

definition transfer_entry :: "string \<Rightarrow> JournalReferences \<Rightarrow> string \<Rightarrow> string \<Rightarrow> string \<Rightarrow> string \<Rightarrow> int
    \<Rightarrow> LedgerEntry list \<Rightarrow> LedgerEntry list" where
  "transfer_entry d refs sc cu dr cr n es =
     es @ [transfer_row d dr cr \<lparr>minor = n, currency = cu\<rparr> (refs\<lparr>ref_programId := sc\<rparr>)]"

interpretation journal: earmark_ledger "transfer_entry d refs" "bal False" for d refs
  by unfold_locales (simp add: transfer_entry_def bal_transfer)

section \<open>Tables whose rows are earmarked on an account\<close>

text \<open>
  Deposits, mint authorizations, redemptions and loyalty liabilities each keep a ledger
  account in step with their rows: the account's balance in a scope and currency is the sum
  of the rows' weights there. The contract of such a table is that weights are never
  negative; the lemmas say how the balance has to move when a row is created or changed,
  that operations on other accounts cannot disturb it, and that the balance is never
  negative and covers every single row.
\<close>

definition in_step :: "(st \<Rightarrow> 'r list) \<Rightarrow> ('r \<Rightarrow> string) \<Rightarrow> (string \<Rightarrow> string \<Rightarrow> 'r \<Rightarrow> int) \<Rightarrow> string \<Rightarrow> st \<Rightarrow> bool" where
  "in_step rows key weight account s \<longleftrightarrow> uniq key (rows s)
     \<and> (\<forall>scope cur. liab account scope cur (entries s) = (\<Sum>r\<leftarrow>rows s. weight scope cur r))"

locale earmark_table =
  fixes rows :: "st \<Rightarrow> 'r list"
    and key :: "'r \<Rightarrow> string"
    and weight :: "string \<Rightarrow> string \<Rightarrow> 'r \<Rightarrow> int"
    and account :: string
  assumes weight_nonneg: "0 \<le> weight scope cur r"
begin

lemma step_create:
  assumes "in_step rows key weight account s" and "\<not> has_row key (key r) (rows s)"
    and "rows s' = rows s @ [r]"
    and "\<And>scope cur. liab account scope cur (entries s')
       = liab account scope cur (entries s) + weight scope cur r"
  shows "in_step rows key weight account s'"
  using assms by (simp add: in_step_def uniq_append_row)

lemma step_update:
  assumes inv: "in_step rows key weight account s" and r: "find_row key i (rows s) = Some r"
    and rows: "rows s' = set_row key i f (rows s)"
    and key: "\<And>r. key (f r) = key r"
    and bal: "\<And>scope cur. liab account scope cur (entries s')
       = liab account scope cur (entries s) - weight scope cur r + weight scope cur (f r)"
  shows "in_step rows key weight account s'"
  using inv sum_set_row [OF _ r, of "\<lambda>x. weight scope cur x" f for scope cur]
  by (auto simp: in_step_def rows bal uniq_set_row key)

lemma step_foreign:
  assumes "appends A m" and "account \<notin> A" and "leaves rows m"
  shows "keeps (in_step rows key weight account) m"
  using appends_balance [OF assms(1,2)] leavesD [OF assms(3)]
  by (simp add: keeps_def in_step_def)

lemma balance_nonneg: "in_step rows key weight account s \<Longrightarrow> 0 \<le> liab account scope cur (entries s)"
  by (simp add: in_step_def sum_list_nonneg_int weight_nonneg)

lemma balance_covers:
  assumes "in_step rows key weight account s" and "r \<in> set (rows s)"
  shows "weight scope cur r \<le> liab account scope cur (entries s)"
proof -
  from assms(2) have "weight scope cur r \<le> (\<Sum>x\<leftarrow>rows s. weight scope cur x)"
    by (intro member_le_sum_list) (auto simp: weight_nonneg)
  with assms(1) show ?thesis by (simp add: in_step_def)
qed

end

end
