(* ===== verification/Reserve_Calc.thy ===== *)
theory Reserve_Calc
  imports Money
begin

text \<open>
  \<open>packages/reserves/src/reserve-calculation.ts\<close>: eligible reserve, reserve obligation,
  ratio, safety buffer and mint capacity over \<open>Money\<close>. The lemmas give the closed form of
  each computation when its inputs are in one currency.
\<close>

record EligibleReserveInput =
  er_currency :: string
  er_clearedBankBalance :: Money
  er_restrictedFunds :: Money
  er_unmatchedFunds :: Money
  er_pendingOutgoingPayouts :: Money
  er_bankChargesDue :: Money
  er_regulatoryHolds :: Money
  er_operationalFunds :: Money
  er_otherIneligibleAmounts :: Money

definition eligibleReserve :: "EligibleReserveInput \<Rightarrow> Money res" where
  "eligibleReserve input =
     bind_r (sum_money [er_restrictedFunds input, er_unmatchedFunds input,
       er_pendingOutgoingPayouts input, er_bankChargesDue input, er_regulatoryHolds input,
       er_operationalFunds input, er_otherIneligibleAmounts input]) (\<lambda>deductions.
     bind_r (subtract (er_clearedBankBalance input) deductions) (\<lambda>result.
     Inr (if isNegative result then zero_money (er_currency input) else result)))"

record ReserveObligationInput =
  ro_currency :: string
  ro_circulatingSupply :: Money
  ro_confirmedRedemptionObligations :: Money
  ro_otherContractualLiabilities :: Money
  ro_legallyApprovedExclusions :: Money

definition reserveObligation :: "ReserveObligationInput \<Rightarrow> Money res" where
  "reserveObligation input =
     bind_r (sum_money [ro_circulatingSupply input, ro_confirmedRedemptionObligations input,
       ro_otherContractualLiabilities input]) (\<lambda>gross.
     bind_r (subtract gross (ro_legallyApprovedExclusions input)) (\<lambda>result.
     Inr (if isNegative result then zero_money (ro_currency input) else result)))"

text \<open>The quotient is converted with \<open>Number\<close>, exact up to \<open>2 ^ 53\<close>.\<close>

definition reserveRatioBps :: "Money \<Rightarrow> Money \<Rightarrow> int option res" where
  "reserveRatioBps eligible obligation =
     bind_r (check_r (currency obligation = currency eligible)
       (PlainError ''Reserve ratio requires a single reference currency'')) (\<lambda>_.
     Inr (if minor obligation = 0 then None
          else Some ((minor eligible * 10000) sdiv minor obligation)))"

record MintCapacityInput =
  mc_currency :: string
  mc_eligibleReserve :: Money
  mc_existingReserveObligation :: Money
  mc_requiredSafetyBuffer :: Money
  mc_pendingMintAuthorizations :: Money

definition mintCapacity :: "MintCapacityInput \<Rightarrow> Money res" where
  "mintCapacity input =
     bind_r (sum_money [mc_existingReserveObligation input, mc_requiredSafetyBuffer input,
       mc_pendingMintAuthorizations input]) (\<lambda>consumed.
     bind_r (subtract (mc_eligibleReserve input) consumed) (\<lambda>result.
     max_money result (zero_money (mc_currency input))))"

definition requiredSafetyBuffer :: "Money \<Rightarrow> js_number \<Rightarrow> Money res" where
  "requiredSafetyBuffer obligation bufferBps =
     bind_r (check_r (\<not> bufferBps < 0) (PlainError ''Buffer basis points cannot be negative'')) (\<lambda>_.
     Inr \<lparr>minor = (minor obligation * Math_trunc bufferBps) sdiv 10000,
          currency = currency obligation\<rparr>)"

definition isFullyReserved :: "Money \<Rightarrow> Money \<Rightarrow> js_number \<Rightarrow> bool res" where
  "isFullyReserved eligible obligation requiredRatioBps =
     (if minor obligation = 0 then Inr True
      else gte eligible \<lparr>minor = (minor obligation * Math_trunc requiredRatioBps) sdiv 10000,
                         currency = currency obligation\<rparr>)"

definition reserveSurplus :: "Money \<Rightarrow> Money \<Rightarrow> Money res" where
  "reserveSurplus eligible obligation = subtract eligible obligation"

section \<open>Closed forms in one currency\<close>

text \<open>The deductions of the eligible-reserve formula, and the inputs being in one currency.\<close>

definition deductions :: "EligibleReserveInput \<Rightarrow> int" where
  "deductions i = minor (er_restrictedFunds i) + minor (er_unmatchedFunds i)
     + minor (er_pendingOutgoingPayouts i) + minor (er_bankChargesDue i)
     + minor (er_regulatoryHolds i) + minor (er_operationalFunds i)
     + minor (er_otherIneligibleAmounts i)"

definition er_uniform :: "EligibleReserveInput \<Rightarrow> bool" where
  "er_uniform i \<longleftrightarrow> (\<forall>m \<in> {er_clearedBankBalance i, er_restrictedFunds i, er_unmatchedFunds i,
     er_pendingOutgoingPayouts i, er_bankChargesDue i, er_regulatoryHolds i,
     er_operationalFunds i, er_otherIneligibleAmounts i}. currency m = toUpperCase (er_currency i))"

lemma eligibleReserve_value:
  assumes "er_uniform i"
  shows "eligibleReserve i = Inr \<lparr>minor = max 0 (minor (er_clearedBankBalance i) - deductions i),
    currency = toUpperCase (er_currency i)\<rparr>"
  using assms
  by (auto simp: eligibleReserve_def er_uniform_def sum_money_def money_cases isNegative_def
      deductions_def zero_money_def max_def algebra_simps)

definition ro_uniform :: "ReserveObligationInput \<Rightarrow> bool" where
  "ro_uniform i \<longleftrightarrow> (\<forall>m \<in> {ro_circulatingSupply i, ro_confirmedRedemptionObligations i,
     ro_otherContractualLiabilities i, ro_legallyApprovedExclusions i}.
     currency m = toUpperCase (ro_currency i))"

lemma reserveObligation_value:
  assumes "ro_uniform i"
  shows "reserveObligation i = Inr \<lparr>minor = max 0 (minor (ro_circulatingSupply i)
      + minor (ro_confirmedRedemptionObligations i) + minor (ro_otherContractualLiabilities i)
      - minor (ro_legallyApprovedExclusions i)), currency = toUpperCase (ro_currency i)\<rparr>"
  using assms
  by (auto simp: reserveObligation_def ro_uniform_def sum_money_def money_cases isNegative_def
      zero_money_def max_def algebra_simps)

definition mc_uniform :: "MintCapacityInput \<Rightarrow> bool" where
  "mc_uniform i \<longleftrightarrow> (\<forall>m \<in> {mc_eligibleReserve i, mc_existingReserveObligation i,
     mc_requiredSafetyBuffer i, mc_pendingMintAuthorizations i}.
     currency m = toUpperCase (mc_currency i))"

lemma mintCapacity_value:
  assumes "mc_uniform i"
  shows "mintCapacity i = Inr \<lparr>minor = max 0 (minor (mc_eligibleReserve i)
      - minor (mc_existingReserveObligation i) - minor (mc_requiredSafetyBuffer i)
      - minor (mc_pendingMintAuthorizations i)), currency = toUpperCase (mc_currency i)\<rparr>"
  using assms
  by (auto simp: mintCapacity_def mc_uniform_def sum_money_def money_cases
      zero_money_def max_def algebra_simps)

text \<open>The buffer is the truncated share of the obligation, never negative for a non-negative obligation.\<close>

lemma requiredSafetyBuffer_value:
  "0 \<le> b \<Longrightarrow> requiredSafetyBuffer ob (of_int b) =
     Inr \<lparr>minor = (minor ob * b) sdiv 10000, currency = currency ob\<rparr>"
  by (simp add: requiredSafetyBuffer_def)

lemma buffer_nonneg:
  "requiredSafetyBuffer ob (of_int b) = Inr m \<Longrightarrow> 0 \<le> minor ob \<Longrightarrow> 0 \<le> minor m \<and> currency m = currency ob"
  by (auto simp: requiredSafetyBuffer_def sdiv_ge_0 split: if_splits)

end
