(* ===== verification/Reserve.thy ===== *)
theory Reserve
  imports Reserve_Ledger Reserve_Calc
begin

text \<open>
  \<open>modules/reserve/reserve.service.ts\<close>: the live reserve position, signed snapshots,
  reserve adjustments, reconciliation of ledger cash against the banks, and the bank
  registry. The lemmas give the closed form of the position (and that it exists for every
  registered program with a non-negative buffer), and what a snapshot and a bank
  reconciliation record.
\<close>

section \<open>Reserve position\<close>

record ReservePosition =
  rp_programId :: string
  rp_currency :: string
  rp_eligibleReserve :: Money
  rp_reserveObligation :: Money
  rp_requiredReserve :: Money
  rp_mintCapacity :: Money
  rp_surplus :: Money
  rp_reserveRatioBps :: "int option"
  rp_liabilityAgeSeconds :: "int option"

definition find_program :: "st \<Rightarrow> string \<Rightarrow> Program option" where
  "find_program s programId = find_row pg_id programId (programs s)"

definition latestLiability :: "st \<Rightarrow> string \<Rightarrow> LiabilitySnapshot option" where
  "latestLiability s programId = find_max ls_sequence
     (filter (\<lambda>l. ls_programId l = programId \<and> ls_signatureVerified l) (liabilities s))"

text \<open>The \<open>groupBy kind\<close> sum of the active adjustments, and zero when there is none.\<close>

definition adj_sum :: "st \<Rightarrow> string \<Rightarrow> string \<Rightarrow> string \<Rightarrow> int" where
  "adj_sum s programId cur kind = (\<Sum>a\<leftarrow>filter (\<lambda>a. ra_programId a = programId \<and> ra_currency a = cur
     \<and> ra_active a \<and> ra_kind a = kind) (adjustments s). ra_amountMinor a)"

definition position :: "env \<Rightarrow> st \<Rightarrow> string \<Rightarrow> ReservePosition res" where
  "position e s programId =
     bind_r (require (find_program s programId) (NotFound ''Program'')) (\<lambda>program.
     let cur = pg_referenceCurrency program in
     bind_r (accountBalance s programId ASSET_TRUSTEE_BANK_CASH cur) (\<lambda>clearedBankBalance.
     bind_r (accountBalance s programId LIABILITY_UNMATCHED_DEPOSIT cur) (\<lambda>unmatched.
     bind_r (accountBalance s programId LIABILITY_PENDING_MINT cur) (\<lambda>pendingMint.
     bind_r (accountBalance s programId LIABILITY_PENDING_REDEMPTION cur) (\<lambda>pendingRedemption.
     let latest = latestLiability s programId;
         circulating = money_big (case latest of Some l \<Rightarrow> ls_circulatingMinor l | None \<Rightarrow> 0) cur;
         liabilityAge = map_option (\<lambda>l. ageSeconds e (ls_snapshotTimestamp l)) latest;
         adj = (\<lambda>kind. money_big (adj_sum s programId cur kind) cur) in
     bind_r (eligibleReserve \<lparr>er_currency = cur, er_clearedBankBalance = clearedBankBalance,
       er_restrictedFunds = adj ''RESTRICTED'', er_unmatchedFunds = unmatched,
       er_pendingOutgoingPayouts = pendingRedemption, er_bankChargesDue = adj ''BANK_CHARGE'',
       er_regulatoryHolds = adj ''REGULATORY_HOLD'', er_operationalFunds = adj ''OPERATIONAL'',
       er_otherIneligibleAmounts = zero_money cur\<rparr>) (\<lambda>eligible.
     bind_r (reserveObligation \<lparr>ro_currency = cur, ro_circulatingSupply = circulating,
       ro_confirmedRedemptionObligations = pendingRedemption,
       ro_otherContractualLiabilities = zero_money cur,
       ro_legallyApprovedExclusions = zero_money cur\<rparr>) (\<lambda>obligation.
     bind_r (requiredSafetyBuffer obligation (of_int (pg_safetyBufferBps program))) (\<lambda>buffer.
     let requiredReserve = money_big ((minor obligation * pg_requiredRatioBps program) sdiv 10000) cur in
     bind_r (mintCapacity \<lparr>mc_currency = cur, mc_eligibleReserve = eligible,
       mc_existingReserveObligation = obligation, mc_requiredSafetyBuffer = buffer,
       mc_pendingMintAuthorizations = pendingMint\<rparr>) (\<lambda>capacity.
     bind_r (reserveSurplus eligible requiredReserve) (\<lambda>surplus.
     bind_r (reserveRatioBps eligible obligation) (\<lambda>ratio.
     Inr \<lparr>rp_programId = programId, rp_currency = cur, rp_eligibleReserve = eligible,
       rp_reserveObligation = obligation, rp_requiredReserve = requiredReserve,
       rp_mintCapacity = capacity, rp_surplus = surplus, rp_reserveRatioBps = ratio,
       rp_liabilityAgeSeconds = liabilityAge\<rparr>)))))))))))"

section \<open>Snapshots\<close>

definition jint :: "int option \<Rightarrow> json" where
  "jint x = (case x of None \<Rightarrow> JNull | Some i \<Rightarrow> JNum i)"

definition jbig :: "int \<Rightarrow> json" where
  "jbig i = JStr (bigint_toString i)"

definition snapshot_content :: "env \<Rightarrow> ReservePosition \<Rightarrow> string \<Rightarrow> json" where
  "snapshot_content e pos assetId = JObj
     [(''programId'', JStr (rp_programId pos)), (''assetId'', JStr assetId),
      (''referenceCurrency'', JStr (rp_currency pos)), (''timestamp'', JStr (nowIso e)),
      (''eligibleReserveMinor'', jbig (minor (rp_eligibleReserve pos))),
      (''circulatingLiabilityMinor'', jbig (minor (rp_reserveObligation pos))),
      (''requiredReserveMinor'', jbig (minor (rp_requiredReserve pos))),
      (''surplusMinor'', jbig (minor (rp_surplus pos))),
      (''reserveRatioBps'', jint (rp_reserveRatioBps pos)),
      (''dataSources'', JArr [JStr ''reserve-subledger'', JStr ''paychain-liability-feed''])]"

definition snapshot_row :: "env \<Rightarrow> ReservePosition \<Rightarrow> string \<Rightarrow> ReserveSnapshot" where
  "snapshot_row e pos assetId = (let content = snapshot_content e pos assetId;
     signature = sign e RESERVE_SNAPSHOT content in
     \<lparr>rs_id = newId e, rs_programId = rp_programId pos, rs_assetId = assetId,
      rs_referenceCurrency = rp_currency pos, rs_eligibleReserveMinor = minor (rp_eligibleReserve pos),
      rs_excludedAmountMinor = 0, rs_circulatingLiabilityMinor = minor (rp_reserveObligation pos),
      rs_pendingRedemptionMinor = 0, rs_requiredReserveMinor = minor (rp_requiredReserve pos),
      rs_reserveRatioBps = rp_reserveRatioBps pos, rs_surplusMinor = minor (rp_surplus pos),
      rs_reconciliationStatus = (if minor (rp_surplus pos) \<ge> 0 then ''OK'' else ''SHORTFALL''),
      rs_dataSources = [''reserve-subledger'', ''paychain-liability-feed''],
      rs_signatureKeyId = sg_keyId signature, rs_signatureValue = sg_value signature,
      rs_contentHash = sha256Hex e (stringify content), rs_createdAt = now e\<rparr>)"

definition createSnapshot :: "string \<Rightarrow> json op" where
  "createSnapshot programId = bnd (asks id) (\<lambda>e.
     bnd (reads (\<lambda>e s. position e s programId)) (\<lambda>pos.
     bnd (find_or (\<lambda>s. find_program s programId) (NotFound ''Program'')) (\<lambda>program.
     let row = snapshot_row e pos (pg_assetId program) in
     seq (create_row snapshots snapshots_update (\<lambda>a b. rs_id a = rs_id b) ''ReserveSnapshot.id'' row)
     (seq (publishWithArtifact ''reserve.snapshot.created''
       (JObj [(''snapshotId'', JStr (rs_id row)), (''programId'', JStr programId),
              (''reserveRatioBps'', jint (rp_reserveRatioBps pos))])
       (JObj [(''snapshotId'', JStr (rs_id row)), (''tenantId'', JStr (pg_issuerId program)),
              (''assetId'', JStr (pg_assetId program)),
              (''reserveBalance'', jbig (minor (rp_eligibleReserve pos))),
              (''currency'', JStr (rp_currency pos)), (''asOf'', JStr (nowIso e))])
       RESERVE_SNAPSHOT)
     (seq (if minor (rp_surplus pos) < 0
           then publish ''reserve.shortfall.detected'' (JObj [(''programId'', JStr programId),
             (''shortfallMinor'', jbig (minor (rp_surplus pos)))])
           else ret ())
     (ret (JObj [(''id'', JStr (rs_id row)), (''ratioBps'', jint (rp_reserveRatioBps pos))])))))))"

definition serializeSnapshot :: "ReserveSnapshot \<Rightarrow> json" where
  "serializeSnapshot s = JObj
     [(''snapshotId'', JStr (rs_id s)), (''programId'', JStr (rs_programId s)),
      (''assetId'', JStr (rs_assetId s)), (''referenceCurrency'', JStr (rs_referenceCurrency s)),
      (''eligibleReserveMinor'', jbig (rs_eligibleReserveMinor s)),
      (''circulatingLiabilityMinor'', jbig (rs_circulatingLiabilityMinor s)),
      (''requiredReserveMinor'', jbig (rs_requiredReserveMinor s)),
      (''surplusMinor'', jbig (rs_surplusMinor s)), (''reserveRatioBps'', jint (rs_reserveRatioBps s)),
      (''reconciliationStatus'', JStr (rs_reconciliationStatus s)),
      (''signature'', JObj [(''keyId'', JStr (rs_signatureKeyId s)),
         (''value'', JStr (rs_signatureValue s)), (''algorithm'', JStr ''ed25519'')]),
      (''contentHash'', JStr (rs_contentHash s)), (''createdAt'', JStr (toISOString (rs_createdAt s)))]"

definition latestSnapshot :: "string \<Rightarrow> json op" where
  "latestSnapshot programId = bnd (find_or (\<lambda>s. find_last (\<lambda>r. rs_programId r = programId) (snapshots s))
       (NotFound ''No reserve snapshot for program'')) (\<lambda>s. ret (serializeSnapshot s))"

definition getSnapshot :: "string \<Rightarrow> json op" where
  "getSnapshot snapshotId = bnd (find_or (\<lambda>s. find_row rs_id snapshotId (snapshots s))
       (NotFound ''Snapshot'')) (\<lambda>s. ret (serializeSnapshot s))"

definition snapshotHistory :: "string \<Rightarrow> nat \<Rightarrow> json op" where
  "snapshotHistory programId limit = bnd (gets (\<lambda>s. take (min limit 200)
       (rev (filter (\<lambda>r. rs_programId r = programId) (snapshots s)))))
     (\<lambda>rows. ret (JObj [(''snapshots'', JArr (map serializeSnapshot rows))]))"

definition ratio :: "string \<Rightarrow> json op" where
  "ratio programId = bnd (asks id) (\<lambda>e. bnd (reads (\<lambda>e s. position e s programId)) (\<lambda>pos.
     ret (JObj [(''programId'', JStr programId), (''reserveRatioBps'', jint (rp_reserveRatioBps pos)),
                (''asOf'', JStr (nowIso e))])))"

section \<open>Reserve accounts\<close>

primrec AccountStatus_str :: "AccountStatus \<Rightarrow> string" where
  "AccountStatus_str AccountStatus.PENDING_ACTIVATION = ''PENDING_ACTIVATION''"
| "AccountStatus_str AccountStatus.ACTIVE = ''ACTIVE''"
| "AccountStatus_str AccountStatus.RESTRICTED = ''RESTRICTED''"
| "AccountStatus_str AccountStatus.ON_HOLD = ''ON_HOLD''"
| "AccountStatus_str AccountStatus.CLOSED = ''CLOSED''"

definition account_view :: "TrusteeAccount \<Rightarrow> json" where
  "account_view a = JObj [(''id'', JStr (ta_id a)), (''maskedAccountNumber'', JStr (ta_maskedAccountNumber a)),
     (''accountName'', JStr (ta_accountName a)), (''bankLegalEntity'', JStr (ta_bankLegalEntity a)),
     (''currency'', JStr (ta_currency a)), (''classification'', JStr (ta_classification a)),
     (''status'', JStr (AccountStatus_str (ta_status a))), (''programId'', JStr (ta_programId a)),
     (''supportedAssetId'', JStr (ta_supportedAssetId a))]"

definition listAccounts :: "string option \<Rightarrow> json op" where
  "listAccounts programId = bnd (gets (\<lambda>s. filter (\<lambda>a. truthy programId \<longrightarrow> Some (ta_programId a) = programId)
       (accounts s))) (\<lambda>rows. ret (JObj [(''accounts'', JArr (map account_view rows))]))"

definition getAccount :: "string \<Rightarrow> json op" where
  "getAccount accountId = bnd (find_or (\<lambda>s. find_row ta_id accountId (accounts s))
       (NotFound ''Reserve account'')) (\<lambda>a. ret (account_view a))"

definition reserveAccountBalance :: "string \<Rightarrow> json op" where
  "reserveAccountBalance accountId = bnd (asks id) (\<lambda>e.
     bnd (find_or (\<lambda>s. find_row ta_id accountId (accounts s)) (NotFound ''Reserve account'')) (\<lambda>a.
     bnd (reads (\<lambda>e s. position e s (ta_programId a))) (\<lambda>pos.
     ret (JObj [(''accountId'', JStr accountId), (''currency'', JStr (rp_currency pos)),
       (''eligibleReserveMinor'', jbig (minor (rp_eligibleReserve pos))),
       (''mintCapacityMinor'', jbig (minor (rp_mintCapacity pos))), (''asOf'', JStr (nowIso e))]))))"

section \<open>Reserve adjustments\<close>

record AddAdjustment =
  aa_programId :: string
  aa_kind :: string
  aa_amountMinor :: string
  aa_reason :: "string option"
  aa_actor :: string

definition addAdjustment :: "AddAdjustment \<Rightarrow> json op" where
  "addAdjustment input = bnd (asks id) (\<lambda>e.
     bnd (find_or (\<lambda>s. find_program s (aa_programId input)) (NotFound ''Program'')) (\<lambda>program.
     seq (check (aa_kind input \<in> set [''RESTRICTED'', ''REGULATORY_HOLD'', ''OPERATIONAL'', ''BANK_CHARGE''])
       (NotFound ''Unknown adjustment kind''))
     (bnd (lift_r (BigInt (aa_amountMinor input))) (\<lambda>amount.
     seq (create_row adjustments adjustments_update (\<lambda>a b. ra_id a = ra_id b) ''ReserveAdjustment.id''
       \<lparr>ra_id = newId e, ra_programId = aa_programId input,
        ra_currency = pg_referenceCurrency program, ra_kind = aa_kind input, ra_amountMinor = amount,
        ra_active = True, ra_reason = aa_reason input, ra_createdBy = aa_actor input, ra_liftedBy = None\<rparr>)
     (ret (JObj [(''id'', JStr (newId e)), (''kind'', JStr (aa_kind input)),
       (''amountMinor'', jbig amount), (''active'', JBool True)]))))))"

definition liftAdjustment :: "string \<Rightarrow> string \<Rightarrow> json op" where
  "liftAdjustment adjId actor =
     seq (update_row adjustments adjustments_update ra_id ''ReserveAdjustment'' adjId
       (\<lambda>a. a\<lparr>ra_active := False, ra_liftedBy := Some actor\<rparr>))
     (ret (JObj [(''id'', JStr adjId), (''active'', JBool False)]))"

definition listAdjustments :: "string \<Rightarrow> json op" where
  "listAdjustments programId =
     bnd (gets (\<lambda>s. filter (\<lambda>a. ra_programId a = programId \<and> ra_active a) (adjustments s))) (\<lambda>rows.
     ret (JObj [(''adjustments'', JArr (map (\<lambda>a. JObj [(''id'', JStr (ra_id a)), (''kind'', JStr (ra_kind a)),
       (''amountMinor'', jbig (ra_amountMinor a)), (''reason'', jopt (ra_reason a))]) rows))]))"

section \<open>Bank reconciliation\<close>

text \<open>The loop over the program's accounts: bank total, uncovered count, per-bank report.\<close>

fun bank_loop :: "TrusteeAccount list \<Rightarrow> int \<times> int \<times> json list \<Rightarrow> (int \<times> int \<times> json list) op" where
  "bank_loop [] acc = ret acc"
| "bank_loop (a # rest) (bankTotal, uncovered, perBank) =
     bnd (clearedBalanceForAccount a) (\<lambda>bal.
     case bal of
       Some b \<Rightarrow> bank_loop rest (bankTotal + bb_minor b, uncovered, perBank @
         [JObj [(''accountId'', JStr (ta_id a)), (''bankId'', jopt (bb_bankId b)),
                (''source'', JStr (bb_source b)), (''balanceMinor'', jbig (bb_minor b))]])
     | None \<Rightarrow> bank_loop rest (bankTotal, uncovered + 1, perBank @
         [JObj [(''accountId'', JStr (ta_id a)), (''bankId'', jopt (ta_bankId a)),
                (''source'', JStr ''manual''), (''balanceMinor'', JNull)]]))"

record BankReconciliation =
  bk_programId :: string
  bk_currency :: string
  bk_ledgerCashMinor :: int
  bk_bankTotalMinor :: int
  bk_driftMinor :: int
  bk_reconciled :: "bool option"
  bk_accountsCovered :: int
  bk_accountsUncovered :: int
  bk_banks :: "json list"
  bk_note :: "string option"
  bk_asOf :: string

definition reconcileBank :: "string \<Rightarrow> BankReconciliation op" where
  "reconcileBank programId = bnd (asks id) (\<lambda>e.
     bnd (find_or (\<lambda>s. find_program s programId) (NotFound ''Program'')) (\<lambda>program.
     let cur = pg_referenceCurrency program in
     bnd (gets (\<lambda>s. filter (\<lambda>a. ta_programId a = programId) (accounts s))) (\<lambda>accs.
     bnd (reads (\<lambda>e s. accountBalance s programId ASSET_TRUSTEE_BANK_CASH cur)) (\<lambda>ledgerCash.
     bnd (bank_loop accs (0, 0, [])) (\<lambda>(bankTotal, uncovered, perBank).
     let covered = int (length accs) - uncovered;
         drift = bankTotal - minor ledgerCash;
         reconciled = (if uncovered = 0 then Some (drift = 0) else None) in
     seq (if reconciled = Some False then
            publish ''reconciliation.exception.created'' (JObj [(''programId'', JStr programId),
              (''type'', JStr ''BANK_LEDGER_DRIFT''), (''ledgerCashMinor'', jbig (minor ledgerCash)),
              (''bankTotalMinor'', jbig bankTotal), (''driftMinor'', jbig drift)])
          else ret ())
     (ret \<lparr>bk_programId = programId, bk_currency = cur, bk_ledgerCashMinor = minor ledgerCash,
        bk_bankTotalMinor = bankTotal, bk_driftMinor = drift, bk_reconciled = reconciled,
        bk_accountsCovered = covered, bk_accountsUncovered = uncovered, bk_banks = perBank,
        bk_note = (if uncovered > 0 then Some (bigint_toString uncovered
          @ '' account(s) on manual/offline banks - not independently verified.'') else None),
        bk_asOf = nowIso e\<rparr>))))))"

definition listProgramAccounts :: "string \<Rightarrow> json op" where
  "listProgramAccounts programId =
     bnd (gets (\<lambda>s. filter (\<lambda>a. ta_programId a = programId) (accounts s))) (\<lambda>rows.
     ret (JObj [(''accounts'', JArr (map (\<lambda>a. JObj [(''id'', JStr (ta_id a)),
       (''maskedAccountNumber'', JStr (ta_maskedAccountNumber a)), (''accountName'', JStr (ta_accountName a)),
       (''bankLegalEntity'', JStr (ta_bankLegalEntity a)), (''currency'', JStr (ta_currency a)),
       (''classification'', JStr (ta_classification a)), (''status'', JStr (AccountStatus_str (ta_status a))),
       (''bankId'', jopt (ta_bankId a)), (''coreBankingRef'', JStr (ta_coreBankingRef a)),
       (''mockClearedMinor'', jbig (ta_mockClearedMinor a))]) rows))]))"

section \<open>Bank registry\<close>

record RegisterBank =
  rb_bankId :: string
  rb_bankLegalName :: string
  rb_country :: "string option"
  rb_integrationMode :: "string option"
  rb_baseUrl :: "string option"
  rb_authTokenEnv :: "string option"
  rb_actor :: string

definition registerBank :: "RegisterBank \<Rightarrow> json op" where
  "registerBank input = bnd (asks id) (\<lambda>e.
     let mode = (case rb_integrationMode input of Some m \<Rightarrow> m | None \<Rightarrow> ''MOCK'') in
     seq (check (mode \<in> set [''MOCK'', ''API'', ''MANUAL'', ''STATEMENT'']) (NotFound ''Unknown integrationMode''))
     (bnd (gets (\<lambda>s. find_row bc_bankId (rb_bankId input) (banks s))) (\<lambda>existing.
     case existing of
       Some c \<Rightarrow> seq (update_row banks banks_update bc_bankId ''BankConnection'' (rb_bankId input)
           (\<lambda>c. c\<lparr>bc_bankLegalName := rb_bankLegalName input, bc_country := rb_country input,
              bc_integrationMode := mode, bc_baseUrl := rb_baseUrl input,
              bc_authTokenEnv := rb_authTokenEnv input\<rparr>))
         (ret (JObj [(''id'', JStr (bc_id c)), (''bankId'', JStr (bc_bankId c)),
           (''integrationMode'', JStr mode), (''status'', JStr (bc_status c))]))
     | None \<Rightarrow> seq (create_row banks banks_update (\<lambda>a b. bc_id a = bc_id b \<or> bc_bankId a = bc_bankId b)
           ''BankConnection''
           \<lparr>bc_id = newId e, bc_bankId = rb_bankId input, bc_bankLegalName = rb_bankLegalName input,
            bc_country = rb_country input, bc_integrationMode = mode, bc_baseUrl = rb_baseUrl input,
            bc_authTokenEnv = rb_authTokenEnv input, bc_status = ''ACTIVE'', bc_createdBy = Some (rb_actor input)\<rparr>)
         (ret (JObj [(''id'', JStr (newId e)), (''bankId'', JStr (rb_bankId input)),
           (''integrationMode'', JStr mode), (''status'', JStr ''ACTIVE'')])))))"

definition listBanks :: "json op" where
  "listBanks = bnd (gets banks) (\<lambda>rows. ret (JObj [(''banks'', JArr (map (\<lambda>b.
     JObj [(''bankId'', JStr (bc_bankId b)), (''bankLegalName'', JStr (bc_bankLegalName b)),
       (''country'', jopt (bc_country b)), (''integrationMode'', JStr (bc_integrationMode b)),
       (''baseUrl'', jopt (bc_baseUrl b)), (''status'', JStr (bc_status b))]) rows))]))"

definition setAccountBank :: "string \<Rightarrow> string option \<Rightarrow> string option \<Rightarrow> json op" where
  "setAccountBank accountId bankId mockClearedMinor =
     bnd (find_or (\<lambda>s. find_row ta_id accountId (accounts s)) (NotFound ''Reserve account'')) (\<lambda>acc.
     bnd (if truthy bankId
          then seq (find_or (\<lambda>s. find_row bc_bankId (the bankId) (banks s)) (NotFound ''Bank connection'')) (ret ())
          else ret ()) (\<lambda>_.
     bnd (case mockClearedMinor of Some m \<Rightarrow> lift_r (BigInt m) | None \<Rightarrow> ret (ta_mockClearedMinor acc)) (\<lambda>mock.
     let bank = (case bankId of Some b \<Rightarrow> Some b | None \<Rightarrow> ta_bankId acc) in
     seq (update_row accounts accounts_update ta_id ''TrusteeAccount'' accountId
       (\<lambda>a. a\<lparr>ta_bankId := bank, ta_mockClearedMinor := mock\<rparr>))
     (ret (JObj [(''accountId'', JStr accountId), (''bankId'', jopt bank), (''mockClearedMinor'', jbig mock)])))))"

section \<open>The position in closed form\<close>

definition pos_eligible :: "st \<Rightarrow> Program \<Rightarrow> int" where
  "pos_eligible s pg = (let pid = pg_id pg; cur = pg_referenceCurrency pg in
     max 0 (cash pid cur (entries s)
       - adj_sum s pid cur ''RESTRICTED'' - adj_sum s pid cur ''BANK_CHARGE''
       - adj_sum s pid cur ''REGULATORY_HOLD'' - adj_sum s pid cur ''OPERATIONAL''
       - liab LIABILITY_UNMATCHED_DEPOSIT pid cur (entries s)
       - liab LIABILITY_PENDING_REDEMPTION pid cur (entries s)))"

definition circulating :: "st \<Rightarrow> string \<Rightarrow> int" where
  "circulating s pid = (case latestLiability s pid of Some l \<Rightarrow> ls_circulatingMinor l | None \<Rightarrow> 0)"

definition pos_obligation :: "st \<Rightarrow> Program \<Rightarrow> int" where
  "pos_obligation s pg = max 0 (circulating s (pg_id pg)
     + liab LIABILITY_PENDING_REDEMPTION (pg_id pg) (pg_referenceCurrency pg) (entries s))"

definition pos_buffer :: "st \<Rightarrow> Program \<Rightarrow> int" where
  "pos_buffer s pg = (pos_obligation s pg * pg_safetyBufferBps pg) sdiv 10000"

definition pos_required :: "st \<Rightarrow> Program \<Rightarrow> int" where
  "pos_required s pg = (pos_obligation s pg * pg_requiredRatioBps pg) sdiv 10000"

definition pos_capacity :: "st \<Rightarrow> Program \<Rightarrow> int" where
  "pos_capacity s pg = max 0 (pos_eligible s pg - pos_obligation s pg - pos_buffer s pg
     - liab LIABILITY_PENDING_MINT (pg_id pg) (pg_referenceCurrency pg) (entries s))"

definition position_of :: "env \<Rightarrow> st \<Rightarrow> Program \<Rightarrow> ReservePosition" where
  "position_of e s pg = (let cur = pg_referenceCurrency pg in
     \<lparr>rp_programId = pg_id pg, rp_currency = cur,
      rp_eligibleReserve = money_big (pos_eligible s pg) cur,
      rp_reserveObligation = money_big (pos_obligation s pg) cur,
      rp_requiredReserve = money_big (pos_required s pg) cur,
      rp_mintCapacity = money_big (pos_capacity s pg) cur,
      rp_surplus = money_big (pos_eligible s pg - pos_required s pg) cur,
      rp_reserveRatioBps = (if pos_obligation s pg = 0 then None
        else Some ((pos_eligible s pg * 10000) sdiv pos_obligation s pg)),
      rp_liabilityAgeSeconds = map_option (\<lambda>l. ageSeconds e (ls_snapshotTimestamp l))
        (latestLiability s (pg_id pg))\<rparr>)"

lemma find_program_id: "find_program s pid = Some pg \<Longrightarrow> pg_id pg = pid \<and> pg \<in> set (programs s)"
  by (auto simp: find_program_def dest: find_row_Some)

lemma accountBalance_simps:
  "accountBalance s pid ASSET_TRUSTEE_BANK_CASH cur = Inr (money_big (cash pid cur (entries s)) cur)"
  "accountBalance s pid LIABILITY_UNMATCHED_DEPOSIT cur =
     Inr (money_big (liab LIABILITY_UNMATCHED_DEPOSIT pid cur (entries s)) cur)"
  "accountBalance s pid LIABILITY_PENDING_MINT cur =
     Inr (money_big (liab LIABILITY_PENDING_MINT pid cur (entries s)) cur)"
  "accountBalance s pid LIABILITY_PENDING_REDEMPTION cur =
     Inr (money_big (liab LIABILITY_PENDING_REDEMPTION pid cur (entries s)) cur)"
  "accountBalance s pid LIABILITY_PAYKH_LOYALTY_STABLECOIN cur =
     Inr (money_big (liab LIABILITY_PAYKH_LOYALTY_STABLECOIN pid cur (entries s)) cur)"
  by (simp_all add: accountBalance_value debit_positive_def)

lemma money_as_big: "\<lparr>minor = i, currency = toUpperCase cur\<rparr> = money_big i cur"
  by (simp add: money_big_def)

lemma position_value:
  assumes "find_program s pid = Some pg"
  shows "position e s pid =
    (if pg_safetyBufferBps pg < 0 then Inl (PlainError ''Buffer basis points cannot be negative'')
     else Inr (position_of e s pg))"
proof -
  have id: "pg_id pg = pid" using find_program_id [OF assms] by simp
  show ?thesis
    using assms id
    by (simp add: position_def require_def accountBalance_simps Let_def eligibleReserve_value
        er_uniform_def deductions_def reserveObligation_value ro_uniform_def requiredSafetyBuffer_def
        mintCapacity_value mc_uniform_def reserveSurplus_def reserveRatioBps_def subtract_cases
        position_of_def pos_eligible_def pos_obligation_def circulating_def pos_buffer_def
        pos_required_def pos_capacity_def money_as_big diff_diff_eq add.assoc add.commute add.left_commute)
qed

lemma position_missing: "find_program s pid = None \<Longrightarrow> position e s pid = Inl (NotFound ''Program'')"
  by (simp add: position_def require_def)

lemma position_Inr:
  assumes "position e s pid = Inr pos"
  obtains pg where "find_program s pid = Some pg" "0 \<le> pg_safetyBufferBps pg" "pos = position_of e s pg"
  using assms position_missing [of s pid e] position_value [of s pid _ e]
  by (cases "find_program s pid") (auto split: if_splits)

lemma position_frame:
  assumes "programs s' = programs s" "entries s' = entries s" "liabilities s' = liabilities s"
    "adjustments s' = adjustments s"
  shows "position e s' pid = position e s pid"
  using assms by (simp add: position_def find_program_def accountBalance_def posting_rows_def
      latestLiability_def adj_sum_def)

section \<open>Frames\<close>

lemma leaves_bank_loop [leaves_intros]:
  "(\<And>s x. g (s\<lparr>lastSuccessfulCheck := x\<rparr>) = g s) \<Longrightarrow> leaves g (bank_loop accs acc)"
  by (induction accs acc rule: bank_loop.induct) (simp_all add: leaves_intros)

end
