(* ===== verification/Deposits.thy ===== *)
theory Deposits
  imports Reserve
begin

text \<open>
  \<open>modules/deposits/deposits.service.ts\<close> and \<open>modules/funding/funding.service.ts\<close>: a bank
  deposit is registered (cash against the unmatched liability), matched to a funding
  instruction and cleared (unmatched liability into the reserve obligation). The lemmas
  give the state each operation leaves on every branch and the invariant that the
  unmatched liability is the sum of the booked deposits not yet cleared.
\<close>

section \<open>Deposits\<close>

record RegisterDeposit =
  rg_programId :: string
  rg_trusteeAccountId :: string
  rg_bankTransactionId :: string
  rg_amountMinor :: string
  rg_currency :: string
  rg_payerName :: "string option"
  rg_paymentReference :: "string option"
  rg_transactionDate :: string
  rg_actor :: string

definition refs_of :: "string \<Rightarrow> string \<Rightarrow> string \<Rightarrow> string \<Rightarrow> JournalReferences" where
  "refs_of source programId assetId actor = \<lparr>ref_source = source, ref_programId = programId,
     ref_assetId = assetId, ref_actor = actor, ref_approvalRef = None, ref_correlationId = None\<rparr>"

definition id_status :: "string \<Rightarrow> string \<Rightarrow> json" where
  "id_status i status = JObj [(''id'', JStr i), (''status'', JStr status)]"

text \<open>The hand-assembled entries of \<open>register\<close> and \<open>clear\<close>, in the currency as given.\<close>

definition deposit_entry :: "string \<Rightarrow> string \<Rightarrow> string \<Rightarrow> string \<Rightarrow> Money \<Rightarrow> JournalReferences \<Rightarrow> JournalEntry res" where
  "deposit_entry cur description dr cr amount references = buildJournalEntry
     \<lparr>je_currency = cur, je_description = description,
      je_postings =
        [\<lparr>p_account = dr, p_debit = amount, p_credit = zero_money cur, p_memo = None\<rparr>,
         \<lparr>p_account = cr, p_debit = zero_money cur, p_credit = amount, p_memo = None\<rparr>],
      je_references = references\<rparr>"

definition requireDeposit :: "string \<Rightarrow> Deposit op" where
  "requireDeposit depositId = find_or (\<lambda>s. find_row dp_id depositId (deposits s)) (NotFound ''Deposit'')"

definition deposit_clash :: "Deposit \<Rightarrow> Deposit \<Rightarrow> bool" where
  "deposit_clash a b \<longleftrightarrow> dp_id a = dp_id b \<or> dp_bankTransactionId a = dp_bankTransactionId b"

definition new_deposit :: "RegisterDeposit \<Rightarrow> string \<Rightarrow> int \<Rightarrow> int \<Rightarrow> Deposit" where
  "new_deposit input i amount date = \<lparr>dp_id = i, dp_programId = rg_programId input,
     dp_fundingInstructionId = None, dp_trusteeAccountId = rg_trusteeAccountId input,
     dp_bankTransactionId = rg_bankTransactionId input, dp_payerName = rg_payerName input,
     dp_amountMinor = amount, dp_currency = rg_currency input,
     dp_paymentReference = rg_paymentReference input, dp_transactionDate = date,
     dp_status = DepositStatus.DETECTED, dp_clearedAt = None\<rparr>"

definition deposit_register :: "RegisterDeposit \<Rightarrow> json op" where
  "deposit_register input = bnd (asks id) (\<lambda>e.
     bnd (find_or (\<lambda>s. find_row ta_id (rg_trusteeAccountId input) (accounts s))
       (NotFound ''Trustee account'')) (\<lambda>account.
     bnd (lift_r (BigInt (rg_amountMinor input))) (\<lambda>minorAmount.
     let amount = money_big minorAmount (rg_currency input) in
     bnd (lift_r (date_of e (rg_transactionDate input))) (\<lambda>date.
     bnd (find_or (\<lambda>s. find_program s (rg_programId input)) (ForeignKeyViolation ''Deposit.programId'')) (\<lambda>_.
     let deposit = new_deposit input (newId e) (minor amount) date in
     seq (create_row deposits deposits_update deposit_clash ''Deposit'' deposit)
     (bnd (post_res (deposit_entry (rg_currency input) ''Detected deposit booked as unmatched''
       ASSET_TRUSTEE_BANK_CASH LIABILITY_UNMATCHED_DEPOSIT amount
       (refs_of (''deposit:'' @ newId e) (rg_programId input) (ta_supportedAssetId account)
         (rg_actor input)))) (\<lambda>_.
     seq (audit ((audit_rec (rg_actor input) ''deposit.detected'' ''DEPOSIT'' (newId e))
       \<lparr>ar_afterState := Some (JObj [(''status'', JStr ''DETECTED''),
         (''amountMinor'', JStr (rg_amountMinor input))])\<rparr>))
     (seq (publish ''deposit.detected'' (JObj [(''depositId'', JStr (newId e)),
         (''programId'', JStr (rg_programId input))]))
     (ret (id_status (newId e) ''DETECTED''))))))))))"

definition deposit_match :: "string \<Rightarrow> string \<Rightarrow> string \<Rightarrow> json op" where
  "deposit_match depositId fundingInstructionId actor =
     bnd (requireDeposit depositId) (\<lambda>deposit.
     seq (check (\<not> (dp_status deposit \<noteq> DepositStatus.DETECTED \<and> dp_status deposit \<noteq> DepositStatus.UNMATCHED))
       (BadRequest ''Deposit cannot be matched''))
     (bnd (find_or (\<lambda>s. find_row fi_id fundingInstructionId (fundings s))
       (NotFound ''Funding instruction'')) (\<lambda>fi.
     seq (check (fi_currency fi = dp_currency deposit) (BadRequest ''Currency mismatch''))
     (seq (check (fi_amountMinor fi = dp_amountMinor deposit) (BadRequest ''Amount mismatch''))
     (seq (update_row deposits deposits_update dp_id ''Deposit'' depositId
       (\<lambda>d. d\<lparr>dp_fundingInstructionId := Some fundingInstructionId, dp_status := DepositStatus.MATCHED\<rparr>))
     (seq (audit ((audit_rec actor ''deposit.matched'' ''DEPOSIT'' depositId)
       \<lparr>ar_beforeState := Some (JObj [(''status'', JStr (DepositStatus_str (dp_status deposit)))]),
        ar_afterState := Some (JObj [(''status'', JStr ''MATCHED''),
          (''fundingInstructionId'', JStr fundingInstructionId)])\<rparr>))
     (seq (publish ''deposit.matched'' (JObj [(''depositId'', JStr depositId),
         (''fundingInstructionId'', JStr fundingInstructionId)]))
     (ret (id_status depositId ''MATCHED'')))))))))"

definition deposit_clear :: "string \<Rightarrow> string \<Rightarrow> json op" where
  "deposit_clear depositId actor = bnd (asks id) (\<lambda>e.
     bnd (requireDeposit depositId) (\<lambda>deposit.
     seq (check (dp_status deposit = DepositStatus.MATCHED) (BadRequest ''Deposit must be MATCHED before clearance''))
     (bnd (find_or (\<lambda>s. find_row ta_id (dp_trusteeAccountId deposit) (accounts s))
       (NotFound ''Trustee account'')) (\<lambda>account.
     let amount = money_big (dp_amountMinor deposit) (dp_currency deposit) in
     bnd (post_res (deposit_entry (dp_currency deposit) ''Cleared deposit reclassified to reserve obligation''
       LIABILITY_UNMATCHED_DEPOSIT LIABILITY_PAYCHAIN_RESERVE_OBLIGATION amount
       (refs_of (''deposit-clear:'' @ dp_id deposit) (dp_programId deposit) (ta_supportedAssetId account) actor)))
     (\<lambda>_.
     seq (update_row deposits deposits_update dp_id ''Deposit'' depositId
       (\<lambda>d. d\<lparr>dp_status := DepositStatus.CLEARED, dp_clearedAt := Some (now e)\<rparr>))
     (seq (audit ((audit_rec actor ''deposit.cleared'' ''DEPOSIT'' depositId)
       \<lparr>ar_beforeState := Some (JObj [(''status'', JStr (DepositStatus_str (dp_status deposit)))]),
        ar_afterState := Some (JObj [(''status'', JStr ''CLEARED'')])\<rparr>))
     (seq (publish ''deposit.cleared'' (JObj [(''depositId'', JStr depositId)]))
     (ret (id_status depositId ''CLEARED'')))))))))"

definition deposit_get :: "string \<Rightarrow> json op" where
  "deposit_get depositId = bnd (requireDeposit depositId) (\<lambda>d.
     ret (JObj [(''id'', JStr (dp_id d)), (''status'', JStr (DepositStatus_str (dp_status d))),
       (''amountMinor'', jbig (dp_amountMinor d)), (''currency'', JStr (dp_currency d)),
       (''mintEligible'', JBool (dp_status d \<in> set MINT_ELIGIBLE_DEPOSIT_STATUSES))]))"

section \<open>Funding instructions\<close>

primrec FundingInstructionStatus_str :: "FundingInstructionStatus \<Rightarrow> string" where
  "FundingInstructionStatus_str FundingInstructionStatus.ISSUED = ''ISSUED''"
| "FundingInstructionStatus_str FundingInstructionStatus.PARTIALLY_FUNDED = ''PARTIALLY_FUNDED''"
| "FundingInstructionStatus_str FundingInstructionStatus.FUNDED = ''FUNDED''"
| "FundingInstructionStatus_str FundingInstructionStatus.EXPIRED = ''EXPIRED''"
| "FundingInstructionStatus_str FundingInstructionStatus.CANCELLED = ''CANCELLED''"

record CreateFundingInstruction =
  cf_programId :: string
  cf_paychainRequestId :: string
  cf_assetId :: string
  cf_depositor :: string
  cf_expectedPayer :: "string option"
  cf_beneficiaryAccountId :: string
  cf_amountMinor :: string
  cf_currency :: string
  cf_permittedMethod :: string
  cf_ttlSeconds :: "int option"
  cf_actor :: string

definition funding_create :: "CreateFundingInstruction \<Rightarrow> json op" where
  "funding_create input = bnd (asks id) (\<lambda>e.
     bnd (find_or (\<lambda>s. find_row ta_id (cf_beneficiaryAccountId input) (accounts s))
       (NotFound ''Beneficiary account'')) (\<lambda>account.
     let ttl = (case cf_ttlSeconds input of Some t \<Rightarrow> t | None \<Rightarrow> 3600);
         expiresAt = now e + ttl * 1000;
         uniqueReference = ''PC-'' @ cf_assetId input @ ''-'' @ toUpperCase (take 8 (randomUUID e)) in
     bnd (lift_r (BigInt (cf_amountMinor input))) (\<lambda>amount.
     bnd (find_or (\<lambda>s. find_program s (cf_programId input))
       (ForeignKeyViolation ''FundingInstruction.programId'')) (\<lambda>_.
     seq (create_row fundings fundings_update
       (\<lambda>a b. fi_id a = fi_id b \<or> fi_paychainRequestId a = fi_paychainRequestId b
            \<or> fi_uniqueReference a = fi_uniqueReference b) ''FundingInstruction''
       \<lparr>fi_id = newId e, fi_programId = cf_programId input, fi_paychainRequestId = cf_paychainRequestId input,
        fi_assetId = cf_assetId input, fi_depositor = cf_depositor input,
        fi_expectedPayer = cf_expectedPayer input, fi_beneficiaryAccountId = cf_beneficiaryAccountId input,
        fi_amountMinor = amount, fi_currency = cf_currency input, fi_uniqueReference = uniqueReference,
        fi_permittedMethod = cf_permittedMethod input, fi_expiresAt = expiresAt,
        fi_status = FundingInstructionStatus.ISSUED\<rparr>)
     (seq (audit ((audit_rec (cf_actor input) ''funding_instruction.created'' ''FUNDING_INSTRUCTION'' (newId e))
       \<lparr>ar_afterState := Some (JObj [(''uniqueReference'', JStr uniqueReference),
          (''amountMinor'', JStr (cf_amountMinor input))])\<rparr>))
     (seq (publish ''funding.instruction.created'' (JObj [(''fundingInstructionId'', JStr (newId e)),
         (''uniqueReference'', JStr uniqueReference), (''programId'', JStr (cf_programId input))]))
     (ret (JObj [(''id'', JStr (newId e)), (''uniqueReference'', JStr uniqueReference),
        (''beneficiaryBank'', JStr (ta_bankLegalEntity account)),
        (''beneficiaryAccountName'', JStr (ta_accountName account)),
        (''maskedAccountNumber'', JStr (ta_maskedAccountNumber account)),
        (''currency'', JStr (cf_currency input)), (''amountMinor'', jbig amount),
        (''expiresAt'', JStr (toISOString expiresAt)), (''status'', JStr ''ISSUED'')]))))))))"

definition require_funding :: "string \<Rightarrow> FundingInstruction op" where
  "require_funding i = find_or (\<lambda>s. find_row fi_id i (fundings s)) (NotFound ''Funding instruction'')"

definition funding_get :: "string \<Rightarrow> json op" where
  "funding_get i = bnd (require_funding i) (\<lambda>fi.
     ret (JObj [(''id'', JStr (fi_id fi)), (''status'', JStr (FundingInstructionStatus_str (fi_status fi))),
       (''uniqueReference'', JStr (fi_uniqueReference fi)), (''amountMinor'', jbig (fi_amountMinor fi)),
       (''currency'', JStr (fi_currency fi)), (''expiresAt'', JStr (toISOString (fi_expiresAt fi)))]))"

definition funding_status :: "string \<Rightarrow> json op" where
  "funding_status i = bnd (require_funding i) (\<lambda>fi.
     ret (JObj [(''id'', JStr (fi_id fi)), (''status'', JStr (FundingInstructionStatus_str (fi_status fi))),
       (''expiresAt'', JStr (toISOString (fi_expiresAt fi)))]))"

definition funding_cancel :: "string \<Rightarrow> string \<Rightarrow> json op" where
  "funding_cancel i actor = bnd (require_funding i) (\<lambda>fi.
     seq (check (fi_status fi \<noteq> FundingInstructionStatus.FUNDED)
       (BadRequest ''A funded instruction cannot be cancelled''))
     (seq (update_row fundings fundings_update fi_id ''FundingInstruction'' i
       (\<lambda>f. f\<lparr>fi_status := FundingInstructionStatus.CANCELLED\<rparr>))
     (seq (audit (audit_rec actor ''funding_instruction.cancelled'' ''FUNDING_INSTRUCTION'' i))
     (ret (id_status i ''CANCELLED'')))))"

section \<open>The hand-assembled entries\<close>

lemma deposit_entry_upper:
  assumes "toUpperCase cur = cur"
  shows "deposit_entry cur d dr cr (money_big n cur) refs = buildJournalEntry (two_sided d dr cr (money_big n cur) refs)"
  using assms by (simp add: deposit_entry_def two_sided_def debit_def credit_def money_big_def)

lemma deposit_entry_lower:
  assumes "toUpperCase cur \<noteq> cur"
  shows "deposit_entry cur d dr cr (money_big n cur) refs =
    Inl (InvalidPostingError ''currency other than journal currency'')"
  using assms by (simp add: deposit_entry_def buildJournalEntry_def assertPostingWellFormed_def)

lemma deposit_entry_journal: "deposit_entry cur d dr cr a refs = Inr j \<Longrightarrow> journal_ok j"
  by (auto simp: deposit_entry_def dest: built_journal_ok)

text \<open>A deposit reaches the ledger exactly when its amount is positive and its currency upper case.\<close>

definition bookable :: "int \<Rightarrow> string \<Rightarrow> bool" where
  "bookable n cur \<longleftrightarrow> 0 < n \<and> toUpperCase cur = cur"

definition deposit_error :: "int \<Rightarrow> string \<Rightarrow> err" where
  "deposit_error n cur = (if toUpperCase cur = cur then transfer_error (money_big n cur)
     else InvalidPostingError ''currency other than journal currency'')"

lemma post_deposit_entry [prog_simps]:
  assumes "ledgerAccountTypeOf dr = Inr t" and "ledgerAccountTypeOf cr = Inr u"
  shows "bnd (post_res (deposit_entry cur d dr cr (money_big n cur) refs)) f e s =
    (if bookable n cur then f () e (s\<lparr>entries := entries s @ [transfer_row d dr cr (money_big n cur) refs]\<rparr>)
     else (Inl (deposit_error n cur), s))"
proof (cases "toUpperCase cur = cur")
  case True
  then show ?thesis
    using post_two_sided [OF assms, of d "money_big n cur" refs f e s]
    by (simp add: deposit_entry_upper bookable_def deposit_error_def)
next
  case False
  then show ?thesis
    by (simp add: deposit_entry_lower bookable_def deposit_error_def post_res_def prog_simps)
qed

section \<open>Frame and journal\<close>

datatype deposit_cmd =
    RegisterDepositCmd RegisterDeposit
  | MatchDeposit string string string
  | ClearDeposit string string
  | CreateFunding CreateFundingInstruction
  | CancelFunding string string

primrec run_deposit :: "deposit_cmd \<Rightarrow> json op" where
  "run_deposit (RegisterDepositCmd input) = deposit_register input"
| "run_deposit (MatchDeposit d fi actor) = deposit_match d fi actor"
| "run_deposit (ClearDeposit d actor) = deposit_clear d actor"
| "run_deposit (CreateFunding input) = funding_create input"
| "run_deposit (CancelFunding i actor) = funding_cancel i actor"

lemmas deposit_op_defs = deposit_register_def deposit_match_def deposit_clear_def funding_create_def
  funding_cancel_def requireDeposit_def require_funding_def

text \<open>Everything but the tables this component writes.\<close>

definition mask_deposits :: "st \<Rightarrow> st" where
  "mask_deposits s = s\<lparr>deposits := [], fundings := [], entries := [], audits := [], outbox := []\<rparr>"

lemma deposit_frame: "leaves mask_deposits (run_deposit c)"
  by (cases c; simp add: deposit_op_defs Let_def)
     (intro leaves_intros allI; simp add: mask_deposits_def)+

definition deposit_accounts :: "string set" where
  "deposit_accounts = {ASSET_TRUSTEE_BANK_CASH, LIABILITY_UNMATCHED_DEPOSIT, LIABILITY_PAYCHAIN_RESERVE_OBLIGATION}"

lemma appends_deposit_entry [appends_intros]:
  "dr \<in> A \<Longrightarrow> cr \<in> A \<Longrightarrow> appends A (post_res (deposit_entry cur d dr cr a refs))"
proof (rule appends_post_res)
  fix j assume "dr \<in> A" "cr \<in> A" and j: "deposit_entry cur d dr cr a refs = Inr j"
  then show "journal_ok j \<and> p_account ` set (je_postings j) \<subseteq> A"
    using deposit_entry_journal [OF j]
    by (auto simp: deposit_entry_def buildJournalEntry_iff built_def)
qed

lemma deposit_appends: "appends deposit_accounts (run_deposit c)"
  by (cases c; simp add: deposit_op_defs Let_def)
     (intro appends_intros; simp add: deposit_accounts_def)+

section \<open>What the operations do to deposits and the ledger\<close>

lemma deposit_register_effect:
  assumes "deposit_register input e s = (r, s')"
  shows "(\<exists>x. r = Inl x \<and> s' = s)
    \<or> (\<exists>n date asset. let d = new_deposit input (newId e) n date in
        BigInt (rg_amountMinor input) = Inr n \<and> \<not> list_ex (deposit_clash d) (deposits s)
        \<and> deposits s' = deposits s @ [d]
        \<and> (if bookable n (rg_currency input)
           then is_ok r \<and> entries s' = entries s @ [transfer_row ''Detected deposit booked as unmatched''
             ASSET_TRUSTEE_BANK_CASH LIABILITY_UNMATCHED_DEPOSIT (money_big n (rg_currency input))
             (refs_of (''deposit:'' @ newId e) (rg_programId input) asset (rg_actor input))]
           else r = Inl (deposit_error n (rg_currency input)) \<and> entries s' = entries s))"
  using assms
  by (auto simp: deposit_register_def prog_simps Let_def split: option.splits sum.splits if_splits) blast+

lemma deposit_match_effect:
  assumes "deposit_match i fi actor e s = (r, s')"
  shows "(\<exists>x. r = Inl x \<and> s' = s)
    \<or> (\<exists>d f. find_row dp_id i (deposits s) = Some d \<and> find_row fi_id fi (fundings s) = Some f
        \<and> (dp_status d = DepositStatus.DETECTED \<or> dp_status d = DepositStatus.UNMATCHED)
        \<and> fi_currency f = dp_currency d \<and> fi_amountMinor f = dp_amountMinor d
        \<and> is_ok r \<and> entries s' = entries s \<and> deposits s' = set_row dp_id i
            (\<lambda>d. d\<lparr>dp_fundingInstructionId := Some fi, dp_status := DepositStatus.MATCHED\<rparr>) (deposits s))"
  using assms
  by (auto simp: deposit_match_def requireDeposit_def prog_simps split: option.splits if_splits)

lemma deposit_clear_effect:
  assumes "deposit_clear i actor e s = (r, s')"
  shows "(\<exists>x. r = Inl x \<and> s' = s)
    \<or> (\<exists>d asset. find_row dp_id i (deposits s) = Some d \<and> dp_status d = DepositStatus.MATCHED
        \<and> bookable (dp_amountMinor d) (dp_currency d) \<and> is_ok r
        \<and> entries s' = entries s @ [transfer_row ''Cleared deposit reclassified to reserve obligation''
             LIABILITY_UNMATCHED_DEPOSIT LIABILITY_PAYCHAIN_RESERVE_OBLIGATION
             (money_big (dp_amountMinor d) (dp_currency d))
             (refs_of (''deposit-clear:'' @ dp_id d) (dp_programId d) asset actor)]
        \<and> deposits s' = set_row dp_id i
            (\<lambda>d. d\<lparr>dp_status := DepositStatus.CLEARED, dp_clearedAt := Some (now e)\<rparr>) (deposits s))"
  using assms
  by (auto simp: deposit_clear_def requireDeposit_def prog_simps Let_def split: option.splits if_splits)

section \<open>Unmatched deposits are what the ledger says they are\<close>

text \<open>The part of a deposit the ledger carries as unmatched in a scope and currency.\<close>

definition unmatched_weight :: "string \<Rightarrow> string \<Rightarrow> Deposit \<Rightarrow> int" where
  "unmatched_weight scope cur d = (if dp_programId d = scope \<and> dp_currency d = cur
       \<and> bookable (dp_amountMinor d) (dp_currency d)
       \<and> dp_status d \<in> {DepositStatus.DETECTED, DepositStatus.UNMATCHED, DepositStatus.MATCHED}
     then dp_amountMinor d else 0)"

interpretation unmatched: earmark_table deposits dp_id unmatched_weight LIABILITY_UNMATCHED_DEPOSIT
  by unfold_locales (simp add: unmatched_weight_def bookable_def)

definition deposits_inv :: "st \<Rightarrow> bool" where
  "deposits_inv s \<longleftrightarrow> in_step deposits dp_id unmatched_weight LIABILITY_UNMATCHED_DEPOSIT s
     \<and> uniq dp_bankTransactionId (deposits s)"

lemma clash_uniq:
  "\<not> list_ex (deposit_clash d) ds \<Longrightarrow> \<not> has_row dp_id (dp_id d) ds
     \<and> \<not> has_row dp_bankTransactionId (dp_bankTransactionId d) ds"
  by (auto simp: list_ex_iff deposit_clash_def has_row_def)

lemma new_deposit_sel [simp]:
  "dp_id (new_deposit input i n date) = i"
  "dp_bankTransactionId (new_deposit input i n date) = rg_bankTransactionId input"
  "dp_programId (new_deposit input i n date) = rg_programId input"
  "dp_currency (new_deposit input i n date) = rg_currency input"
  "dp_amountMinor (new_deposit input i n date) = n"
  "dp_status (new_deposit input i n date) = DepositStatus.DETECTED"
  by (simp_all add: new_deposit_def)

lemma refs_of_sel [simp]:
  "ref_programId (refs_of src p a act) = p" "ref_source (refs_of src p a act) = src"
  by (simp_all add: refs_of_def)

lemma bookable_money: "bookable n cur \<Longrightarrow> currency (money_big n cur) = cur"
  by (simp add: bookable_def)

lemma deposit_create_inv:
  assumes "deposits_inv s" and "\<not> list_ex (deposit_clash d) (deposits s)"
    and "deposits s' = deposits s @ [d]"
    and "\<And>scope cur. liab LIABILITY_UNMATCHED_DEPOSIT scope cur (entries s')
       = liab LIABILITY_UNMATCHED_DEPOSIT scope cur (entries s) + unmatched_weight scope cur d"
  shows "deposits_inv s'"
  using assms clash_uniq [OF assms(2)] unmatched.step_create [of s d s']
  by (simp add: deposits_inv_def uniq_append_row)

lemma deposit_register_inv:
  assumes "deposits_inv s" and "deposit_register input e s = (r, s')"
  shows "deposits_inv s'"
  using deposit_register_effect [OF assms(2)] unfolding Let_def
  by (elim disjE exE conjE)
     (use assms(1) in simp, rule deposit_create_inv [OF assms(1)], assumption, assumption,
       auto simp: unmatched_weight_def bal_transfer bookable_def split: if_splits)

lemma deposit_update_inv:
  assumes "deposits_inv s" and "find_row dp_id i (deposits s) = Some d"
    and "deposits s' = set_row dp_id i f (deposits s)"
    and "\<And>d. dp_id (f d) = dp_id d" and "\<And>d. dp_bankTransactionId (f d) = dp_bankTransactionId d"
    and "\<And>scope cur. liab LIABILITY_UNMATCHED_DEPOSIT scope cur (entries s')
       = liab LIABILITY_UNMATCHED_DEPOSIT scope cur (entries s)
         - unmatched_weight scope cur d + unmatched_weight scope cur (f d)"
  shows "deposits_inv s'"
  using assms unmatched.step_update [OF _ assms(2,3,4,6)]
  by (simp add: deposits_inv_def uniq_set_row)

lemma deposit_match_inv:
  assumes "deposits_inv s" and "deposit_match i fi actor e s = (r, s')"
  shows "deposits_inv s'"
  using deposit_match_effect [OF assms(2)]
  by (elim disjE exE conjE)
     (use assms(1) in simp, (rule deposit_update_inv [OF assms(1)], assumption, assumption,
       (auto simp: unmatched_weight_def)[3])+)

lemma deposit_clear_inv:
  assumes "deposits_inv s" and "deposit_clear i actor e s = (r, s')"
  shows "deposits_inv s'"
  using deposit_clear_effect [OF assms(2)]
  by (elim disjE exE conjE)
     (use assms(1) in simp, (rule deposit_update_inv [OF assms(1)], assumption, assumption,
       (auto simp: unmatched_weight_def bal_transfer bookable_def)[3])+)

lemma funding_leaves_deposits:
  "leaves (\<lambda>s. (deposits s, entries s)) (funding_create input)"
  "leaves (\<lambda>s. (deposits s, entries s)) (funding_cancel i actor)"
  by (simp_all add: funding_create_def funding_cancel_def require_funding_def Let_def leaves_intros)

lemma run_deposit_inv: "keeps deposits_inv (run_deposit c)"
proof (cases c)
  case (CreateFunding input)
  then show ?thesis using leavesD [OF funding_leaves_deposits(1)]
    by (simp add: keeps_def deposits_inv_def in_step_def)
next
  case (CancelFunding i actor)
  then show ?thesis using leavesD [OF funding_leaves_deposits(2)]
    by (simp add: keeps_def deposits_inv_def in_step_def)
qed (simp_all add: keeps_def, (metis deposit_register_inv deposit_match_inv deposit_clear_inv prod.collapse)+)

text \<open>Another component's operation that stays off the unmatched liability keeps the invariant.\<close>

lemma deposits_inv_foreign:
  assumes "appends A m" and "LIABILITY_UNMATCHED_DEPOSIT \<notin> A" and "leaves deposits m"
  shows "keeps deposits_inv m"
  using unmatched.step_foreign [OF assms] leavesD [OF assms(3)]
  by (simp add: keeps_def deposits_inv_def)

end
