(* ===== verification/Mint_Guard.thy ===== *)
theory Mint_Guard
  imports Reserve_Calc
begin

text \<open>
  \<open>packages/reserves/src/mint-guard.ts\<close>: the decision function that blocks a mint unless
  every precondition holds. The lemmas give the exact set of conditions under which it
  allows a mint and the meaning of each reason it reports.
\<close>

datatype MintBlockReason =
    INSUFFICIENT_CAPACITY
  | RESERVE_DATA_STALE
  | BANK_CONNECTIVITY_UNAVAILABLE
  | RECONCILIATION_UNRESOLVED
  | COMPLIANCE_HOLD
  | ASSET_MINTING_SUSPENDED
  | PROGRAM_SUSPENDED
  | ACCOUNT_RESTRICTED
  | DEPOSIT_NOT_CLEARED
  | APPROVAL_INCOMPLETE
  | LIABILITY_FEED_STALE
  | PROOF_OF_RESERVE_EXPIRED
  | MINT_FEATURE_DISABLED
  | NON_POSITIVE_AMOUNT
  | CURRENCY_MISMATCH

primrec MintBlockReason_str :: "MintBlockReason \<Rightarrow> string" where
  "MintBlockReason_str INSUFFICIENT_CAPACITY = ''INSUFFICIENT_CAPACITY''"
| "MintBlockReason_str RESERVE_DATA_STALE = ''RESERVE_DATA_STALE''"
| "MintBlockReason_str BANK_CONNECTIVITY_UNAVAILABLE = ''BANK_CONNECTIVITY_UNAVAILABLE''"
| "MintBlockReason_str RECONCILIATION_UNRESOLVED = ''RECONCILIATION_UNRESOLVED''"
| "MintBlockReason_str COMPLIANCE_HOLD = ''COMPLIANCE_HOLD''"
| "MintBlockReason_str ASSET_MINTING_SUSPENDED = ''ASSET_MINTING_SUSPENDED''"
| "MintBlockReason_str PROGRAM_SUSPENDED = ''PROGRAM_SUSPENDED''"
| "MintBlockReason_str ACCOUNT_RESTRICTED = ''ACCOUNT_RESTRICTED''"
| "MintBlockReason_str DEPOSIT_NOT_CLEARED = ''DEPOSIT_NOT_CLEARED''"
| "MintBlockReason_str APPROVAL_INCOMPLETE = ''APPROVAL_INCOMPLETE''"
| "MintBlockReason_str LIABILITY_FEED_STALE = ''LIABILITY_FEED_STALE''"
| "MintBlockReason_str PROOF_OF_RESERVE_EXPIRED = ''PROOF_OF_RESERVE_EXPIRED''"
| "MintBlockReason_str MINT_FEATURE_DISABLED = ''MINT_FEATURE_DISABLED''"
| "MintBlockReason_str NON_POSITIVE_AMOUNT = ''NON_POSITIVE_AMOUNT''"
| "MintBlockReason_str CURRENCY_MISMATCH = ''CURRENCY_MISMATCH''"

record MintGuardFacts =
  gf_requested :: Money
  gf_capacityInput :: MintCapacityInput
  gf_reserveSnapshotAgeSeconds :: int
  gf_maxReserveSnapshotAgeSeconds :: int
  gf_bankConnectivityAgeSeconds :: int
  gf_maxBankConnectivityAgeSeconds :: int
  gf_liabilityFeedAgeSeconds :: int
  gf_maxLiabilityFeedAgeSeconds :: int
  gf_proofOfReserveAgeSeconds :: "int option"
  gf_maxProofOfReserveAgeSeconds :: "int option"
  gf_hasUnresolvedReconciliation :: bool
  gf_complianceHoldActive :: bool
  gf_assetMintingSuspended :: bool
  gf_programSuspended :: bool
  gf_accountRestricted :: bool
  gf_fundingDepositsCleared :: bool
  gf_makerCheckerComplete :: bool
  gf_mintFeatureEnabled :: bool

record MintGuardDecision =
  gd_allowed :: bool
  gd_reasons :: "MintBlockReason list"
  gd_capacity :: Money

text \<open>\<open>if (c) reasons.push(r)\<close>, and the nested amount test, as the lists they contribute.\<close>

definition push_if :: "bool \<Rightarrow> MintBlockReason \<Rightarrow> MintBlockReason list" where
  "push_if c r = (if c then [r] else [])"

definition amount_reasons :: "Money \<Rightarrow> Money \<Rightarrow> MintBlockReason list res" where
  "amount_reasons capacity requested =
     (if \<not> isPositive requested then Inr [NON_POSITIVE_AMOUNT]
      else if currency requested \<noteq> currency capacity then Inr [CURRENCY_MISMATCH]
      else bind_r (gte capacity requested) (\<lambda>ok. Inr (push_if (\<not> ok) INSUFFICIENT_CAPACITY)))"

definition por_expired :: "int option \<Rightarrow> int option \<Rightarrow> bool" where
  "por_expired maxAge age = (case maxAge of None \<Rightarrow> False
     | Some m \<Rightarrow> (case age of None \<Rightarrow> True | Some a \<Rightarrow> a > m))"

definition evaluateMintGuard :: "MintGuardFacts \<Rightarrow> MintGuardDecision res" where
  "evaluateMintGuard facts =
     bind_r (mintCapacity (gf_capacityInput facts)) (\<lambda>capacity.
     bind_r (amount_reasons capacity (gf_requested facts)) (\<lambda>amountReasons.
     let reasons =
       push_if (\<not> gf_mintFeatureEnabled facts) MINT_FEATURE_DISABLED
       @ amountReasons
       @ push_if (gf_reserveSnapshotAgeSeconds facts > gf_maxReserveSnapshotAgeSeconds facts)
           RESERVE_DATA_STALE
       @ push_if (gf_bankConnectivityAgeSeconds facts > gf_maxBankConnectivityAgeSeconds facts)
           BANK_CONNECTIVITY_UNAVAILABLE
       @ push_if (gf_liabilityFeedAgeSeconds facts > gf_maxLiabilityFeedAgeSeconds facts)
           LIABILITY_FEED_STALE
       @ push_if (por_expired (gf_maxProofOfReserveAgeSeconds facts) (gf_proofOfReserveAgeSeconds facts))
           PROOF_OF_RESERVE_EXPIRED
       @ push_if (gf_hasUnresolvedReconciliation facts) RECONCILIATION_UNRESOLVED
       @ push_if (gf_complianceHoldActive facts) COMPLIANCE_HOLD
       @ push_if (gf_assetMintingSuspended facts) ASSET_MINTING_SUSPENDED
       @ push_if (gf_programSuspended facts) PROGRAM_SUSPENDED
       @ push_if (gf_accountRestricted facts) ACCOUNT_RESTRICTED
       @ push_if (\<not> gf_fundingDepositsCleared facts) DEPOSIT_NOT_CLEARED
       @ push_if (\<not> gf_makerCheckerComplete facts) APPROVAL_INCOMPLETE
     in Inr \<lparr>gd_allowed = (reasons = []), gd_reasons = reasons, gd_capacity = capacity\<rparr>))"

section \<open>When a mint is allowed\<close>

lemma push_if_Nil [simp]: "push_if c r = [] \<longleftrightarrow> \<not> c"
  by (simp add: push_if_def)

lemma set_push_if [simp]: "set (push_if c r) = (if c then {r} else {})"
  by (simp add: push_if_def)

lemma amount_reasons_value:
  "amount_reasons cap req = Inr
     (if minor req \<le> 0 then [NON_POSITIVE_AMOUNT]
      else if currency req \<noteq> currency cap then [CURRENCY_MISMATCH]
      else push_if (minor cap < minor req) INSUFFICIENT_CAPACITY)"
  by (auto simp: amount_reasons_def isPositive_def gte_cases push_if_def)

definition amount_list :: "Money \<Rightarrow> Money \<Rightarrow> MintBlockReason list" where
  "amount_list cap req = (if minor req \<le> 0 then [NON_POSITIVE_AMOUNT]
      else if currency req \<noteq> currency cap then [CURRENCY_MISMATCH]
      else push_if (minor cap < minor req) INSUFFICIENT_CAPACITY)"

lemma amount_reasons_list: "amount_reasons cap req = Inr (amount_list cap req)"
  by (simp add: amount_reasons_value amount_list_def)

lemma amount_list_Nil [simp]:
  "amount_list cap req = [] \<longleftrightarrow> 0 < minor req \<and> currency req = currency cap \<and> minor req \<le> minor cap"
  by (auto simp: amount_list_def)

text \<open>The facts other than the amount that the guard demands.\<close>

definition guard_facts_ok :: "MintGuardFacts \<Rightarrow> bool" where
  "guard_facts_ok f \<longleftrightarrow> gf_mintFeatureEnabled f
     \<and> gf_reserveSnapshotAgeSeconds f \<le> gf_maxReserveSnapshotAgeSeconds f
     \<and> gf_bankConnectivityAgeSeconds f \<le> gf_maxBankConnectivityAgeSeconds f
     \<and> gf_liabilityFeedAgeSeconds f \<le> gf_maxLiabilityFeedAgeSeconds f
     \<and> \<not> por_expired (gf_maxProofOfReserveAgeSeconds f) (gf_proofOfReserveAgeSeconds f)
     \<and> \<not> gf_hasUnresolvedReconciliation f \<and> \<not> gf_complianceHoldActive f
     \<and> \<not> gf_assetMintingSuspended f \<and> \<not> gf_programSuspended f \<and> \<not> gf_accountRestricted f
     \<and> gf_fundingDepositsCleared f \<and> gf_makerCheckerComplete f"

lemma evaluateMintGuard_Inr:
  assumes "evaluateMintGuard f = Inr d"
  shows "mintCapacity (gf_capacityInput f) = Inr (gd_capacity d)"
    and "gd_allowed d \<longleftrightarrow> gd_reasons d = []"
    and "gd_allowed d \<longleftrightarrow> guard_facts_ok f \<and> 0 < minor (gf_requested f)
      \<and> currency (gf_requested f) = currency (gd_capacity d)
      \<and> minor (gf_requested f) \<le> minor (gd_capacity d)"
proof -
  from assms obtain c where c: "mintCapacity (gf_capacityInput f) = Inr c"
    by (auto simp: evaluateMintGuard_def bind_r_eq_Inr)
  with assms have d: "gd_capacity d = c"
    by (auto simp: evaluateMintGuard_def amount_reasons_list Let_def)
  from c d show "mintCapacity (gf_capacityInput f) = Inr (gd_capacity d)" by simp
  from assms c show "gd_allowed d \<longleftrightarrow> gd_reasons d = []"
    by (auto simp: evaluateMintGuard_def amount_reasons_list Let_def)
  from assms c show "gd_allowed d \<longleftrightarrow> guard_facts_ok f \<and> 0 < minor (gf_requested f)
      \<and> currency (gf_requested f) = currency (gd_capacity d)
      \<and> minor (gf_requested f) \<le> minor (gd_capacity d)"
    by (simp add: evaluateMintGuard_def amount_reasons_list Let_def guard_facts_ok_def)
       (auto simp: not_less)
qed

lemma evaluateMintGuard_total: "mc_uniform (gf_capacityInput f) \<Longrightarrow> \<exists>d. evaluateMintGuard f = Inr d"
  by (simp add: evaluateMintGuard_def mintCapacity_value amount_reasons_value Let_def)

end
