(* ===== verification/Mint.thy ===== *)
theory Mint
  imports Deposits Mint_Guard
begin

text \<open>
  \<open>modules/mint/mint.service.ts\<close>: the maker-checker workflow of mint authorizations. A
  request starts as PENDING_MAKER, a trustee maker moves it to PENDING_CHECKER, a
  different checker issues it when the guard allows (earmarking the amount on the
  pending-mint account), and it is then consumed by one confirmation, revoked or expired.
\<close>

section \<open>Operations\<close>

record RequestMintAuthorization =
  rm_programId :: string
  rm_paychainRequestId :: string
  rm_amountMinor :: string
  rm_fundingDepositIds :: "string list"
  rm_tenantId :: "string option"
  rm_destination :: "string option"

definition requireAuth :: "string \<Rightarrow> MintAuthorization op" where
  "requireAuth authId = find_or (\<lambda>s. find_row ma_id authId (mintAuths s)) (NotFound ''Mint authorization'')"

definition auth_clash :: "MintAuthorization \<Rightarrow> MintAuthorization \<Rightarrow> bool" where
  "auth_clash a b \<longleftrightarrow> ma_id a = ma_id b \<or> ma_paychainRequestId a = ma_paychainRequestId b
     \<or> ma_nonce a = ma_nonce b"

definition new_auth :: "env \<Rightarrow> RequestMintAuthorization \<Rightarrow> Program \<Rightarrow> int \<Rightarrow> MintAuthorization" where
  "new_auth e input program amount = \<lparr>ma_id = newId e, ma_programId = rm_programId input,
     ma_paychainRequestId = rm_paychainRequestId input, ma_assetId = pg_assetId program,
     ma_amountMinor = amount, ma_currency = pg_referenceCurrency program,
     ma_tenantId = rm_tenantId input, ma_destination = rm_destination input,
     ma_fundingDepositIds = rm_fundingDepositIds input,
     ma_status = MintAuthorizationStatus.PENDING_MAKER, ma_nonce = randomUUID e,
     ma_signingKeyId = None, ma_signatureValue = None, ma_maxMintAmountMinor = amount,
     ma_singleUse = True, ma_issuedAt = None, ma_expiresAt = None\<rparr>"

definition mint_request :: "RequestMintAuthorization \<Rightarrow> json op" where
  "mint_request input = bnd (asks id) (\<lambda>e.
     bnd (find_or (\<lambda>s. find_program s (rm_programId input)) (NotFound ''Program'')) (\<lambda>program.
     bnd (lift_r (BigInt (rm_amountMinor input))) (\<lambda>n.
     let amount = money_big n (pg_referenceCurrency program) in
     seq (check (\<not> minor amount \<le> 0) (BadRequest ''Amount must be positive''))
     (seq (create_row mintAuths mintAuths_update auth_clash ''MintAuthorization''
       (new_auth e input program (minor amount)))
     (seq (audit ((audit_rec (''paychain:'' @ rm_paychainRequestId input) ''mint_authorization.requested''
         ''MINT_AUTHORIZATION'' (newId e))
       \<lparr>ar_afterState := Some (JObj [(''amountMinor'', JStr (rm_amountMinor input)),
          (''status'', JStr ''PENDING_MAKER'')])\<rparr>))
     (ret (id_status (newId e) ''PENDING_MAKER'')))))))"

definition new_approval :: "env \<Rightarrow> string \<Rightarrow> string \<Rightarrow> Approval" where
  "new_approval e authId makerId = \<lparr>ap_id = newId2 e, ap_subjectType = ''MINT_AUTHORIZATION'',
     ap_mintAuthorizationId = authId, ap_makerId = makerId, ap_checkerId = None,
     ap_checkerActedAt = None, ap_decision = ApprovalDecision.PENDING, ap_reason = None\<rparr>"

definition approval_clash :: "Approval \<Rightarrow> Approval \<Rightarrow> bool" where
  "approval_clash a b \<longleftrightarrow> ap_id a = ap_id b \<or> ap_mintAuthorizationId a = ap_mintAuthorizationId b"

definition set_auth :: "string \<Rightarrow> (MintAuthorization \<Rightarrow> MintAuthorization) \<Rightarrow> unit op" where
  "set_auth authId f = update_row mintAuths mintAuths_update ma_id ''MintAuthorization'' authId f"

text \<open>The status update and the nested creation of the approval are one write.\<close>

definition mint_review :: "string \<Rightarrow> string \<Rightarrow> json op" where
  "mint_review authId makerId = bnd (asks id) (\<lambda>e.
     bnd (requireAuth authId) (\<lambda>auth.
     seq (check (ma_status auth = MintAuthorizationStatus.PENDING_MAKER)
       (BadRequest ''Authorization is not awaiting maker review''))
     (bnd (gets (\<lambda>s. find_row u_id makerId (users s))) (\<lambda>maker.
     seq (check (\<not> (case maker of None \<Rightarrow> True | Some u \<Rightarrow> u_institution u \<noteq> ''TRUSTEE_BANK''))
       (BadRequest ''Maker must be a trustee-bank user''))
     (seq (create_row approvals approvals_update approval_clash ''Approval'' (new_approval e authId makerId))
     (seq (set_auth authId (\<lambda>a. a\<lparr>ma_status := MintAuthorizationStatus.PENDING_CHECKER\<rparr>))
     (seq (audit ((audit_rec makerId ''mint_authorization.reviewed'' ''MINT_AUTHORIZATION'' authId)
       \<lparr>ar_actorRole := Some ''trustee_operations_maker'',
        ar_afterState := Some (JObj [(''status'', JStr ''PENDING_CHECKER'')])\<rparr>))
     (ret (id_status authId ''PENDING_CHECKER'')))))))))"

section \<open>Guard facts\<close>

definition MAX_SAFE_INTEGER :: int where
  "MAX_SAFE_INTEGER = 9007199254740991"

definition control_on :: "st \<Rightarrow> string list \<Rightarrow> bool" where
  "control_on s keys = list_ex (\<lambda>c. pc_key c \<in> set keys \<and> pc_value c) (controls s)"

definition deposits_cleared :: "st \<Rightarrow> string list \<Rightarrow> bool" where
  "deposits_cleared s ids = (let ds = (if ids = [] then [] else filter (\<lambda>d. dp_id d \<in> set ids) (deposits s)) in
     length ids > 0 \<and> length ds = length ids
     \<and> list_all (\<lambda>d. dp_status d \<in> set MINT_ELIGIBLE_DEPOSIT_STATUSES) ds)"

definition gatherGuardFacts :: "env \<Rightarrow> st \<Rightarrow> string \<Rightarrow> bool \<Rightarrow> MintGuardFacts res" where
  "gatherGuardFacts e s authId makerCheckerComplete =
     bind_r (require (find_row ma_id authId (mintAuths s)) (NotFound ''Mint authorization'')) (\<lambda>auth.
     bind_r (require (find_program s (ma_programId auth)) (NotFound ''Program'')) (\<lambda>program.
     bind_r (position e s (ma_programId auth)) (\<lambda>pos.
     let latest = latestLiability s (ma_programId auth);
         latestSnap = find_last (\<lambda>r. rs_programId r = ma_programId auth) (snapshots s);
         latestRecon = find_last (\<lambda>r. rr_programId r = Some (ma_programId auth)) (reconRuns s);
         restricted = find (\<lambda>a. ta_programId a = ma_programId auth
            \<and> (ta_status a = AccountStatus.RESTRICTED \<or> ta_status a = AccountStatus.ON_HOLD)) (accounts s);
         cur = rp_currency pos in
     Inr \<lparr>gf_requested = money_big (ma_amountMinor auth) (ma_currency auth),
       gf_capacityInput = \<lparr>mc_currency = cur, mc_eligibleReserve = rp_mintCapacity pos,
         mc_existingReserveObligation = money_big 0 cur, mc_requiredSafetyBuffer = money_big 0 cur,
         mc_pendingMintAuthorizations = money_big 0 cur\<rparr>,
       gf_reserveSnapshotAgeSeconds = 0,
       gf_maxReserveSnapshotAgeSeconds = MAX_RESERVE_SNAPSHOT_AGE_S e,
       gf_bankConnectivityAgeSeconds = (case lastCheckAgeSeconds e s of Some a \<Rightarrow> a | None \<Rightarrow> 0),
       gf_maxBankConnectivityAgeSeconds = MAX_BANK_CONNECTIVITY_AGE_S e,
       gf_liabilityFeedAgeSeconds = (case latest of Some l \<Rightarrow> ageSeconds e (ls_snapshotTimestamp l)
         | None \<Rightarrow> MAX_SAFE_INTEGER),
       gf_maxLiabilityFeedAgeSeconds = MAX_LIABILITY_FEED_AGE_S e,
       gf_proofOfReserveAgeSeconds = map_option (\<lambda>r. ageSeconds e (rs_createdAt r)) latestSnap,
       gf_maxProofOfReserveAgeSeconds = MAX_PROOF_OF_RESERVE_AGE_S e,
       gf_hasUnresolvedReconciliation = (map_option rr_status latestRecon = Some ''EXCEPTIONS''),
       gf_complianceHoldActive = control_on s
         [''compliance.hold.program.'' @ ma_programId auth, ''compliance.hold.global''],
       gf_assetMintingSuspended = control_on s [''asset.suspend.'' @ ma_assetId auth, ''mint.global-suspend''],
       gf_programSuspended = (pg_status program = ProgramStatus.SUSPENDED),
       gf_accountRestricted = (restricted \<noteq> None),
       gf_fundingDepositsCleared = deposits_cleared s (ma_fundingDepositIds auth),
       gf_makerCheckerComplete = makerCheckerComplete,
       gf_mintFeatureEnabled = isEnabled ''mint.authorization.enabled'' s\<rparr>)))"

section \<open>Checker decisions\<close>

definition find_approval :: "st \<Rightarrow> string \<Rightarrow> Approval option" where
  "find_approval s authId = find_row ap_mintAuthorizationId authId (approvals s)"

definition set_approval :: "string \<Rightarrow> (Approval \<Rightarrow> Approval) \<Rightarrow> unit op" where
  "set_approval approvalId f = update_row approvals approvals_update ap_id ''Approval'' approvalId f"

definition auth_payload :: "env \<Rightarrow> MintAuthorization \<Rightarrow> int \<Rightarrow> json" where
  "auth_payload e auth expiresAt = JObj [(''authorizationId'', JStr (ma_id auth)),
     (''programId'', JStr (ma_programId auth)), (''assetId'', JStr (ma_assetId auth)),
     (''amountMinor'', jbig (ma_amountMinor auth)), (''currency'', JStr (ma_currency auth)),
     (''nonce'', JStr (ma_nonce auth)), (''issuedAt'', JStr (toISOString (now e))),
     (''expiresAt'', JStr (toISOString expiresAt)), (''singleUse'', JBool True)]"

definition approve_with :: "int \<Rightarrow> string \<Rightarrow> ApprovalDecision \<Rightarrow> string \<Rightarrow> Approval \<Rightarrow> Approval" where
  "approve_with t checker d reason = (\<lambda>p. p\<lparr>ap_checkerId := Some checker, ap_checkerActedAt := Some t,
     ap_decision := d, ap_reason := Some reason\<rparr>)"

definition issue_auth :: "int \<Rightarrow> int \<Rightarrow> Signature \<Rightarrow> MintAuthorization \<Rightarrow> MintAuthorization" where
  "issue_auth issuedAt expiresAt signature = (\<lambda>a. a\<lparr>ma_status := MintAuthorizationStatus.ISSUED,
     ma_signingKeyId := Some (sg_keyId signature), ma_signatureValue := Some (sg_value signature),
     ma_issuedAt := Some issuedAt, ma_expiresAt := Some expiresAt\<rparr>)"

definition mint_blocked :: "string \<Rightarrow> string \<Rightarrow> Approval \<Rightarrow> MintBlockReason list \<Rightarrow> json op" where
  "mint_blocked authId checkerId approval reasons = bnd (asks id) (\<lambda>e.
     seq (set_auth authId (\<lambda>a. a\<lparr>ma_status := MintAuthorizationStatus.REJECTED\<rparr>))
     (seq (set_approval (ap_id approval) (approve_with (now e) checkerId ApprovalDecision.REJECTED
        (''Guard blocked: '' @ join '', '' (map MintBlockReason_str reasons))))
     (seq (publish ''mint.authorization.rejected'' (JObj [(''authorizationId'', JStr authId),
        (''reasons'', JArr (map (\<lambda>r. JStr (MintBlockReason_str r)) reasons))]))
     (raise (BadRequestReasons ''Mint blocked by reserve/compliance guard'' (map MintBlockReason_str reasons))))))"

definition mint_issue :: "MintAuthorization \<Rightarrow> string \<Rightarrow> string \<Rightarrow> Approval \<Rightarrow> Money \<Rightarrow> json op" where
  "mint_issue auth checkerId reason approval capacity = bnd (asks id) (\<lambda>e.
     let authId = ma_id auth; expiresAt = now e + MINT_AUTH_TTL_S e * 1000;
         payload = auth_payload e auth expiresAt;
         signature = sign e MINT_AUTHORIZATION payload in
     bnd (post_res (mintReservationEntry (money_big (ma_amountMinor auth) (ma_currency auth))
       ((refs_of (''mint-auth:'' @ authId) (ma_programId auth) (ma_assetId auth) checkerId)
         \<lparr>ref_approvalRef := Some (ap_id approval)\<rparr>))) (\<lambda>_.
     seq (set_auth authId (issue_auth (now e) expiresAt signature))
     (seq (set_approval (ap_id approval) (approve_with (now e) checkerId ApprovalDecision.APPROVED reason))
     (seq (audit ((audit_rec checkerId ''mint_authorization.approved'' ''MINT_AUTHORIZATION'' authId)
        \<lparr>ar_actorRole := Some ''trustee_operations_checker'', ar_approvalRef := Some (ap_id approval),
         ar_afterState := Some (JObj [(''status'', JStr ''ISSUED''), (''capacityMinor'', JBig (minor capacity))])\<rparr>))
     (seq (publishWithArtifact ''mint.authorization.approved''
        (JObj [(''authorizationId'', JStr authId), (''programId'', JStr (ma_programId auth))])
        (JObj [(''authorizationId'', JStr authId), (''reference'', JStr (ma_paychainRequestId auth)),
          (''tenantId'', jopt (ma_tenantId auth)), (''assetId'', JStr (ma_assetId auth)),
          (''amount'', jbig (ma_amountMinor auth)), (''destination'', jopt (ma_destination auth)),
          (''expiresAt'', JStr (toISOString expiresAt))])
        MINT_AUTHORIZATION)
     (ret (JObj [(''id'', JStr authId), (''status'', JStr ''ISSUED''), (''authorization'', payload),
        (''signature'', JObj [(''keyId'', JStr (sg_keyId signature)),
          (''algorithm'', JStr (sg_algorithm signature)), (''value'', JStr (sg_value signature))])])))))))"

definition mint_approve :: "string \<Rightarrow> string \<Rightarrow> string \<Rightarrow> json op" where
  "mint_approve authId checkerId reason =
     bnd (requireAuth authId) (\<lambda>auth.
     seq (check (ma_status auth = MintAuthorizationStatus.PENDING_CHECKER)
       (BadRequest ''Authorization is not awaiting approval''))
     (bnd (find_or (\<lambda>s. find_approval s authId) (BadRequest ''Missing approval record'')) (\<lambda>approval.
     seq (check (ap_makerId approval \<noteq> checkerId) (Forbidden ''A user cannot approve their own request''))
     (bnd (find_or (\<lambda>s. find_row u_id checkerId (users s)) (NotFound ''Checker user'')) (\<lambda>_.
     bnd (reads (\<lambda>e s. gatherGuardFacts e s authId True)) (\<lambda>facts.
     bnd (lift_r (evaluateMintGuard facts)) (\<lambda>decision.
     if \<not> gd_allowed decision then mint_blocked authId checkerId approval (gd_reasons decision)
     else mint_issue auth checkerId reason approval (gd_capacity decision))))))))"

text \<open>
  \<open>reject\<close> does not look at the status; the checker is only checked by the foreign key of
  the approval row, after the authorization has been marked.
\<close>

definition mint_reject :: "string \<Rightarrow> string \<Rightarrow> string \<Rightarrow> json op" where
  "mint_reject authId checkerId reason = bnd (asks id) (\<lambda>e.
     bnd (requireAuth authId) (\<lambda>auth.
     bnd (find_or (\<lambda>s. find_approval s authId) (BadRequest ''Missing approval record'')) (\<lambda>approval.
     seq (check (ap_makerId approval \<noteq> checkerId) (Forbidden ''A user cannot action their own request''))
     (seq (set_auth authId (\<lambda>a. a\<lparr>ma_status := MintAuthorizationStatus.REJECTED\<rparr>))
     (bnd (find_or (\<lambda>s. find_row u_id checkerId (users s)) (ForeignKeyViolation ''Approval.checkerId'')) (\<lambda>_.
     seq (set_approval (ap_id approval) (approve_with (now e) checkerId ApprovalDecision.REJECTED reason))
     (seq (publish ''mint.authorization.rejected'' (JObj [(''authorizationId'', JStr authId),
        (''reasons'', JArr [JStr ''MANUAL_REJECTION''])]))
     (ret (id_status authId ''REJECTED'')))))))))"

definition release_entry :: "string \<Rightarrow> MintAuthorization \<Rightarrow> string \<Rightarrow> JournalEntry res" where
  "release_entry source auth actor = mintReleaseEntry (money_big (ma_amountMinor auth) (ma_currency auth))
     (refs_of (source @ ma_id auth) (ma_programId auth) (ma_assetId auth) actor)"

definition mint_revoke :: "string \<Rightarrow> string \<Rightarrow> string \<Rightarrow> json op" where
  "mint_revoke authId actor reason =
     bnd (requireAuth authId) (\<lambda>auth.
     seq (check (ma_status auth = MintAuthorizationStatus.ISSUED)
       (BadRequest ''Only ISSUED authorizations can be revoked''))
     (bnd (post_res (release_entry ''mint-revoke:'' auth actor)) (\<lambda>_.
     seq (set_auth authId (\<lambda>a. a\<lparr>ma_status := MintAuthorizationStatus.REVOKED\<rparr>))
     (seq (audit ((audit_rec actor ''mint_authorization.revoked'' ''MINT_AUTHORIZATION'' authId)
       \<lparr>ar_reason := Some reason\<rparr>))
     (ret (id_status authId ''REVOKED''))))))"

definition mint_expire :: "string \<Rightarrow> string \<Rightarrow> json op" where
  "mint_expire authId actor =
     bnd (requireAuth authId) (\<lambda>auth.
     if ma_status auth \<noteq> MintAuthorizationStatus.ISSUED
     then ret (id_status authId (MintAuthorizationStatus_str (ma_status auth)))
     else bnd (post_res (release_entry ''mint-expire:'' auth actor)) (\<lambda>_.
     seq (set_auth authId (\<lambda>a. a\<lparr>ma_status := MintAuthorizationStatus.EXPIRED\<rparr>))
     (seq (publish ''mint.authorization.expired'' (JObj [(''authorizationId'', JStr authId)]))
     (ret (id_status authId ''EXPIRED'')))))"

section \<open>Confirmation\<close>

record ConfirmMint =
  cm_paychainTransactionId :: string
  cm_blockchainTxHash :: string
  cm_amountMinor :: string
  cm_destination :: string
  cm_ledgerHeight :: "string option"
  cm_confirmedAt :: string
  cm_paychainSignature :: string
  cm_actor :: string

definition confirmation_row :: "env \<Rightarrow> MintAuthorization \<Rightarrow> ConfirmMint \<Rightarrow> MintConfirmation res" where
  "confirmation_row e auth input =
     bind_r (BigInt (cm_amountMinor input)) (\<lambda>amount.
     bind_r (if truthy (cm_ledgerHeight input)
             then bind_r (BigInt (the (cm_ledgerHeight input))) (\<lambda>h. Inr (Some h)) else Inr None) (\<lambda>height.
     bind_r (date_of e (cm_confirmedAt input)) (\<lambda>confirmedAt.
     Inr \<lparr>mf_id = newId e, mf_mintAuthorizationId = ma_id auth,
       mf_paychainTransactionId = cm_paychainTransactionId input,
       mf_blockchainTxHash = cm_blockchainTxHash input, mf_amountMinor = amount,
       mf_currency = ma_currency auth, mf_destination = cm_destination input,
       mf_ledgerHeight = height, mf_confirmedAt = confirmedAt,
       mf_paychainSignature = cm_paychainSignature input, mf_verified = True\<rparr>)))"

definition conf_clash :: "MintConfirmation \<Rightarrow> MintConfirmation \<Rightarrow> bool" where
  "conf_clash a b \<longleftrightarrow> mf_id a = mf_id b \<or> mf_mintAuthorizationId a = mf_mintAuthorizationId b"

definition auth_expired :: "env \<Rightarrow> MintAuthorization \<Rightarrow> bool" where
  "auth_expired e auth = (case ma_expiresAt auth of Some t \<Rightarrow> t < now e | None \<Rightarrow> False)"

definition mint_confirm :: "string \<Rightarrow> ConfirmMint \<Rightarrow> json op" where
  "mint_confirm authId input = bnd (asks id) (\<lambda>e.
     bnd (requireAuth authId) (\<lambda>auth.
     seq (check (ma_status auth = MintAuthorizationStatus.ISSUED)
       (BadRequest ''Authorization must be ISSUED to confirm (single-use)''))
     (if auth_expired e auth
      then seq (mint_expire authId (cm_actor input)) (raise (BadRequest ''Authorization expired before confirmation''))
      else bnd (lift_r (BigInt (cm_amountMinor input))) (\<lambda>n.
     seq (check (n = ma_amountMinor auth) (BadRequest ''Confirmed amount does not match authorization''))
     (bnd (post_res (release_entry ''mint-confirm:'' auth (cm_actor input))) (\<lambda>_.
     bnd (lift_r (confirmation_row e auth input)) (\<lambda>conf.
     seq (create_row mintConfs mintConfs_update conf_clash ''MintConfirmation'' conf)
     (seq (set_auth authId (\<lambda>a. a\<lparr>ma_status := MintAuthorizationStatus.CONSUMED\<rparr>))
     (seq (audit ((audit_rec (cm_actor input) ''mint.confirmed'' ''MINT_AUTHORIZATION'' authId)
       \<lparr>ar_afterState := Some (JObj [(''blockchainTxHash'', JStr (cm_blockchainTxHash input))])\<rparr>))
     (seq (publish ''mint.confirmed'' (JObj [(''authorizationId'', JStr authId),
        (''blockchainTxHash'', JStr (cm_blockchainTxHash input))]))
     (ret (id_status authId ''CONSUMED''))))))))))))"

definition mint_get :: "string \<Rightarrow> json op" where
  "mint_get authId = bnd (requireAuth authId) (\<lambda>auth.
     ret (JObj [(''id'', JStr (ma_id auth)), (''status'', JStr (MintAuthorizationStatus_str (ma_status auth))),
       (''amountMinor'', jbig (ma_amountMinor auth)), (''currency'', JStr (ma_currency auth)),
       (''expiresAt'', jopt (map_option toISOString (ma_expiresAt auth))),
       (''signatureKeyId'', jopt (ma_signingKeyId auth))]))"

section \<open>Frame and journal\<close>

datatype mint_cmd =
    RequestMint RequestMintAuthorization
  | ReviewMint string string
  | ApproveMint string string string
  | RejectMint string string string
  | RevokeMint string string string
  | ExpireMint string string
  | ConfirmMintCmd string ConfirmMint

primrec run_mint :: "mint_cmd \<Rightarrow> json op" where
  "run_mint (RequestMint input) = mint_request input"
| "run_mint (ReviewMint a maker) = mint_review a maker"
| "run_mint (ApproveMint a checker reason) = mint_approve a checker reason"
| "run_mint (RejectMint a checker reason) = mint_reject a checker reason"
| "run_mint (RevokeMint a actor reason) = mint_revoke a actor reason"
| "run_mint (ExpireMint a actor) = mint_expire a actor"
| "run_mint (ConfirmMintCmd a input) = mint_confirm a input"

lemmas mint_op_defs = mint_request_def mint_review_def mint_approve_def mint_blocked_def mint_issue_def
  mint_reject_def mint_revoke_def mint_expire_def mint_confirm_def release_entry_def
  requireAuth_def set_auth_def set_approval_def

definition mask_mint :: "st \<Rightarrow> st" where
  "mask_mint s = s\<lparr>mintAuths := [], mintConfs := [], approvals := [], entries := [], audits := [], outbox := []\<rparr>"

lemma mint_frame: "leaves mask_mint (run_mint c)"
  by (cases c; simp only: run_mint.simps; unfold mint_op_defs Let_def)
     (intro leaves_intros; simp add: mask_mint_def)+

definition mint_accounts :: "string set" where
  "mint_accounts = {LIABILITY_PAYCHAIN_RESERVE_OBLIGATION, LIABILITY_PENDING_MINT}"

lemma mint_appends: "appends mint_accounts (run_mint c)"
  by (cases c; simp only: run_mint.simps; unfold mint_op_defs Let_def)
     (intro appends_intros; simp add: mint_accounts_def)+

section \<open>What the operations do\<close>

lemma found_has_row: "find_row k x rs = Some r \<Longrightarrow> has_row key (key r) rs"
  by (auto simp: has_row_iff dest: find_row_Some)

lemma mint_request_effect:
  assumes "mint_request input e s = (r, s')"
  shows "(\<exists>x. r = Inl x \<and> s' = s)
    \<or> (\<exists>pg n. find_program s (rm_programId input) = Some pg \<and> BigInt (rm_amountMinor input) = Inr n
        \<and> 0 < n \<and> is_ok r \<and> \<not> list_ex (auth_clash (new_auth e input pg n)) (mintAuths s)
        \<and> mintAuths s' = mintAuths s @ [new_auth e input pg n]
        \<and> approvals s' = approvals s \<and> mintConfs s' = mintConfs s \<and> entries s' = entries s)"
  using assms
  by (auto simp: mint_request_def prog_simps Let_def split: option.splits sum.splits if_splits)

lemma mint_review_effect:
  assumes "mint_review i maker e s = (r, s')"
  shows "(\<exists>x. r = Inl x \<and> s' = s)
    \<or> (\<exists>a u. find_row ma_id i (mintAuths s) = Some a \<and> ma_status a = MintAuthorizationStatus.PENDING_MAKER
        \<and> \<not> list_ex (approval_clash (new_approval e i maker)) (approvals s)
        \<and> find_row u_id maker (users s) = Some u \<and> u_institution u = ''TRUSTEE_BANK'' \<and> is_ok r
        \<and> mintAuths s' = set_row ma_id i (\<lambda>a. a\<lparr>ma_status := MintAuthorizationStatus.PENDING_CHECKER\<rparr>) (mintAuths s)
        \<and> approvals s' = approvals s @ [new_approval e i maker]
        \<and> mintConfs s' = mintConfs s \<and> entries s' = entries s)"
  using assms
  by (auto simp: mint_review_def requireAuth_def set_auth_def prog_simps split: option.splits if_splits)

text \<open>Approval: nothing happens, or the guard blocks and both rows are rejected, or it is issued.\<close>

definition reservation_row :: "MintAuthorization \<Rightarrow> string \<Rightarrow> string \<Rightarrow> LedgerEntry" where
  "reservation_row a checker approvalId = transfer_row ''Reserve earmarked for pending mint authorization''
     LIABILITY_PAYCHAIN_RESERVE_OBLIGATION LIABILITY_PENDING_MINT (money_big (ma_amountMinor a) (ma_currency a))
     ((refs_of (''mint-auth:'' @ ma_id a) (ma_programId a) (ma_assetId a) checker)\<lparr>ref_approvalRef := Some approvalId\<rparr>)"

definition release_row :: "string \<Rightarrow> MintAuthorization \<Rightarrow> string \<Rightarrow> LedgerEntry" where
  "release_row source a actor = transfer_row ''Pending mint reservation released to reserve obligation''
     LIABILITY_PENDING_MINT LIABILITY_PAYCHAIN_RESERVE_OBLIGATION (money_big (ma_amountMinor a) (ma_currency a))
     (refs_of (source @ ma_id a) (ma_programId a) (ma_assetId a) actor)"

text \<open>What has to hold before an authorization is issued.\<close>

definition approvable :: "env \<Rightarrow> st \<Rightarrow> string \<Rightarrow> string \<Rightarrow> MintAuthorization \<Rightarrow> Approval \<Rightarrow> MintGuardFacts \<Rightarrow> MintGuardDecision \<Rightarrow> bool" where
  "approvable e s i checker a p f d \<longleftrightarrow> find_row ma_id i (mintAuths s) = Some a
     \<and> ma_status a = MintAuthorizationStatus.PENDING_CHECKER
     \<and> find_approval s i = Some p \<and> ap_makerId p \<noteq> checker \<and> find_row u_id checker (users s) \<noteq> None
     \<and> gatherGuardFacts e s i True = Inr f \<and> evaluateMintGuard f = Inr d"

lemma mint_issue_run:
  assumes "has_row ma_id (ma_id a) (mintAuths s)" and "has_row ap_id (ap_id p) (approvals s)"
    and "0 < ma_amountMinor a"
  shows "\<exists>v s'. mint_issue a checker reason p cap e s = (Inr v, s')
      \<and> entries s' = entries s @ [reservation_row a checker (ap_id p)]
      \<and> (\<exists>t sig. mintAuths s' = set_row ma_id (ma_id a) (issue_auth (now e) t sig) (mintAuths s))
      \<and> approvals s' = set_row ap_id (ap_id p) (approve_with (now e) checker ApprovalDecision.APPROVED reason) (approvals s)
      \<and> mintConfs s' = mintConfs s"
  using assms
  by (simp add: mint_issue_def set_auth_def set_approval_def prog_simps Let_def reservation_row_def) blast

lemma mint_blocked_run:
  assumes "has_row ma_id i (mintAuths s)" and "has_row ap_id (ap_id p) (approvals s)"
  shows "\<exists>s' why. mint_blocked i checker p rs e s = (Inl (BadRequestReasons ''Mint blocked by reserve/compliance guard''
        (map MintBlockReason_str rs)), s') \<and> entries s' = entries s \<and> mintConfs s' = mintConfs s
      \<and> mintAuths s' = set_row ma_id i (\<lambda>a. a\<lparr>ma_status := MintAuthorizationStatus.REJECTED\<rparr>) (mintAuths s)
      \<and> approvals s' = set_row ap_id (ap_id p) (approve_with (now e) checker ApprovalDecision.REJECTED why) (approvals s)"
  using assms
  by (simp add: mint_blocked_def set_auth_def set_approval_def prog_simps) blast

lemma mint_approve_effect:
  assumes "mint_approve i checker reason e s = (r, s')"
  shows "(\<exists>x. r = Inl x \<and> s' = s)
    \<or> (\<exists>a p f d. approvable e s i checker a p f d \<and> (
        \<not> gd_allowed d \<and> \<not> is_ok r \<and> entries s' = entries s \<and> mintConfs s' = mintConfs s
          \<and> mintAuths s' = set_row ma_id i (\<lambda>a. a\<lparr>ma_status := MintAuthorizationStatus.REJECTED\<rparr>) (mintAuths s)
          \<and> (\<exists>why. approvals s' = set_row ap_id (ap_id p)
               (approve_with (now e) checker ApprovalDecision.REJECTED why) (approvals s))
      \<or> gd_allowed d \<and> is_ok r \<and> 0 < ma_amountMinor a
          \<and> entries s' = entries s @ [reservation_row a checker (ap_id p)] \<and> mintConfs s' = mintConfs s
          \<and> (\<exists>t sig. mintAuths s' = set_row ma_id i (issue_auth (now e) t sig) (mintAuths s))
          \<and> approvals s' = set_row ap_id (ap_id p)
               (approve_with (now e) checker ApprovalDecision.APPROVED reason) (approvals s)))"
proof (cases "\<exists>a p f d. approvable e s i checker a p f d")
  case False
  then have "\<exists>x. mint_approve i checker reason e s = (Inl x, s)"
    by (auto simp: mint_approve_def requireAuth_def prog_simps approvable_def split: option.splits sum.splits)
  with assms show ?thesis by auto
next
  case True
  then obtain a p f d where ap: "approvable e s i checker a p f d" by blast
  then have i: "ma_id a = i" and rows: "has_row ma_id i (mintAuths s)" "has_row ap_id (ap_id p) (approvals s)"
    by (auto simp: approvable_def find_approval_def dest: find_row_Some intro: found_has_row)
  from ap have run: "mint_approve i checker reason e s =
      (if gd_allowed d then mint_issue a checker reason p (gd_capacity d) e s
       else mint_blocked i checker p (gd_reasons d) e s)"
    by (auto simp: mint_approve_def requireAuth_def prog_simps approvable_def)
  show ?thesis
  proof (cases "gd_allowed d")
    case False
    with ap run assms mint_blocked_run [OF rows, of checker "gd_reasons d" e] show ?thesis by fastforce
  next
    case True
    from ap have f: "gf_requested f = money_big (ma_amountMinor a) (ma_currency a)"
      by (auto simp: approvable_def gatherGuardFacts_def require_def bind_r_eq_Inr Let_def split: option.splits)
    from ap True evaluateMintGuard_Inr(3) [of f d] f have pos: "0 < ma_amountMinor a"
      by (auto simp: approvable_def)
    with rows i mint_issue_run [of a s p checker reason "gd_capacity d" e]
    obtain v s'' t sig where "mint_issue a checker reason p (gd_capacity d) e s = (Inr v, s'')"
      "entries s'' = entries s @ [reservation_row a checker (ap_id p)]" "mintConfs s'' = mintConfs s"
      "mintAuths s'' = set_row ma_id i (issue_auth (now e) t sig) (mintAuths s)"
      "approvals s'' = set_row ap_id (ap_id p) (approve_with (now e) checker ApprovalDecision.APPROVED reason) (approvals s)"
      by auto
    moreover from this run True assms have "r = Inr v" and "s' = s''" by simp_all
    ultimately show ?thesis using ap True pos by (intro disjI2) (simp, blast)
  qed
qed

lemma mint_reject_effect:
  assumes "mint_reject i checker reason e s = (r, s')"
  shows "(\<exists>x. r = Inl x \<and> s' = s)
    \<or> (\<exists>a p. find_row ma_id i (mintAuths s) = Some a \<and> find_approval s i = Some p \<and> ap_makerId p \<noteq> checker
        \<and> mintAuths s' = set_row ma_id i (\<lambda>a. a\<lparr>ma_status := MintAuthorizationStatus.REJECTED\<rparr>) (mintAuths s)
        \<and> mintConfs s' = mintConfs s \<and> entries s' = entries s
        \<and> (if find_row u_id checker (users s) = None
           then r = Inl (ForeignKeyViolation ''Approval.checkerId'') \<and> approvals s' = approvals s
           else is_ok r \<and> approvals s' = set_row ap_id (ap_id p)
             (approve_with (now e) checker ApprovalDecision.REJECTED reason) (approvals s)))"
proof (cases "\<exists>a p. find_row ma_id i (mintAuths s) = Some a \<and> find_approval s i = Some p \<and> ap_makerId p \<noteq> checker")
  case True
  then obtain a p where ap: "find_row ma_id i (mintAuths s) = Some a" "find_approval s i = Some p"
    "ap_makerId p \<noteq> checker" by blast
  moreover from ap(2) have "has_row ap_id (ap_id p) (approvals s)"
    by (auto simp: find_approval_def intro: found_has_row)
  ultimately show ?thesis using assms
    by (auto simp: mint_reject_def requireAuth_def set_auth_def set_approval_def prog_simps split: option.splits)
next
  case False
  then show ?thesis using assms
    by (auto simp: mint_reject_def requireAuth_def prog_simps split: option.splits if_splits)
qed

lemma mint_revoke_effect:
  assumes "mint_revoke i actor reason e s = (r, s')"
  shows "(\<exists>x. r = Inl x \<and> s' = s)
    \<or> (\<exists>a. find_row ma_id i (mintAuths s) = Some a \<and> ma_status a = MintAuthorizationStatus.ISSUED
        \<and> 0 < ma_amountMinor a \<and> is_ok r \<and> entries s' = entries s @ [release_row ''mint-revoke:'' a actor]
        \<and> mintAuths s' = set_row ma_id i (\<lambda>a. a\<lparr>ma_status := MintAuthorizationStatus.REVOKED\<rparr>) (mintAuths s)
        \<and> approvals s' = approvals s \<and> mintConfs s' = mintConfs s)"
  using assms
  by (auto simp: mint_revoke_def requireAuth_def set_auth_def release_entry_def prog_simps release_row_def
      split: option.splits if_splits)

lemma mint_expire_effect:
  assumes "mint_expire i actor e s = (r, s')"
  shows "s' = s
    \<or> (\<exists>a. find_row ma_id i (mintAuths s) = Some a \<and> ma_status a = MintAuthorizationStatus.ISSUED
        \<and> 0 < ma_amountMinor a \<and> is_ok r \<and> entries s' = entries s @ [release_row ''mint-expire:'' a actor]
        \<and> mintAuths s' = set_row ma_id i (\<lambda>a. a\<lparr>ma_status := MintAuthorizationStatus.EXPIRED\<rparr>) (mintAuths s)
        \<and> approvals s' = approvals s \<and> mintConfs s' = mintConfs s)"
  using assms
  by (auto simp: mint_expire_def requireAuth_def set_auth_def release_entry_def prog_simps release_row_def
      split: option.splits if_splits)

text \<open>
  Confirmation: unchanged; or expired instead; or released but not consumed, when the
  confirmation row cannot be built or stored; or consumed.
\<close>

definition confirmable :: "env \<Rightarrow> st \<Rightarrow> string \<Rightarrow> ConfirmMint \<Rightarrow> MintAuthorization \<Rightarrow> bool" where
  "confirmable e s i input a \<longleftrightarrow> find_row ma_id i (mintAuths s) = Some a
     \<and> ma_status a = MintAuthorizationStatus.ISSUED \<and> \<not> auth_expired e a
     \<and> BigInt (cm_amountMinor input) = Inr (ma_amountMinor a) \<and> 0 < ma_amountMinor a"

definition recordable :: "env \<Rightarrow> st \<Rightarrow> ConfirmMint \<Rightarrow> MintAuthorization \<Rightarrow> MintConfirmation \<Rightarrow> bool" where
  "recordable e s input a c \<longleftrightarrow> confirmation_row e a input = Inr c \<and> \<not> list_ex (conf_clash c) (mintConfs s)"

lemma mint_confirm_consumes:
  assumes "confirmable e s i input a" and "recordable e s input a c"
  shows "\<exists>v s'. mint_confirm i input e s = (Inr v, s') \<and> mintConfs s' = mintConfs s @ [c]
      \<and> mintAuths s' = set_row ma_id i (\<lambda>a. a\<lparr>ma_status := MintAuthorizationStatus.CONSUMED\<rparr>) (mintAuths s)
      \<and> approvals s' = approvals s \<and> entries s' = entries s @ [release_row ''mint-confirm:'' a (cm_actor input)]"
  using assms
  by (simp add: mint_confirm_def requireAuth_def set_auth_def release_entry_def prog_simps release_row_def
      confirmable_def recordable_def)

lemma mint_confirm_unrecorded:
  assumes "confirmable e s i input a" and "\<nexists>c. recordable e s input a c"
  shows "\<exists>x. mint_confirm i input e s =
    (Inl x, s\<lparr>entries := entries s @ [release_row ''mint-confirm:'' a (cm_actor input)]\<rparr>)"
proof (cases "confirmation_row e a input")
  case (Inl x)
  with assms(1) show ?thesis
    by (simp add: mint_confirm_def requireAuth_def release_entry_def prog_simps release_row_def confirmable_def)
next
  case (Inr c)
  with assms(2) have "list_ex (conf_clash c) (mintConfs s)" by (simp add: recordable_def)
  with Inr assms(1) show ?thesis
    by (simp add: mint_confirm_def requireAuth_def release_entry_def prog_simps release_row_def confirmable_def)
qed

lemma mint_confirm_expires:
  assumes "find_row ma_id i (mintAuths s) = Some a" and "ma_status a = MintAuthorizationStatus.ISSUED"
    and "auth_expired e a"
  shows "\<exists>x. fst (mint_confirm i input e s) = Inl x
    \<and> snd (mint_confirm i input e s) = snd (mint_expire i (cm_actor input) e s)"
  using assms
  by (simp add: mint_confirm_def requireAuth_def prog_simps)
     (simp add: bnd_def raise_def split: prod.split sum.split)

lemma mint_confirm_refused:
  assumes "\<nexists>a. confirmable e s i input a"
    and "\<nexists>a. find_row ma_id i (mintAuths s) = Some a \<and> ma_status a = MintAuthorizationStatus.ISSUED \<and> auth_expired e a"
  shows "\<exists>x. mint_confirm i input e s = (Inl x, s)"
proof (cases "find_row ma_id i (mintAuths s)")
  case None
  then show ?thesis by (simp add: mint_confirm_def requireAuth_def prog_simps)
next
  case (Some a)
  show ?thesis
  proof (cases "ma_status a = MintAuthorizationStatus.ISSUED")
    case True
    with assms(2) Some have ne: "\<not> auth_expired e a" by simp
    show ?thesis
    proof (cases "BigInt (cm_amountMinor input) = Inr (ma_amountMinor a)")
      case b: True
      with assms(1) Some True ne have "\<not> 0 < ma_amountMinor a" by (simp add: confirmable_def)
      with b Some True ne show ?thesis
        by (simp add: mint_confirm_def requireAuth_def release_entry_def prog_simps)
    next
      case b: False
      with Some True ne show ?thesis
        by (cases "BigInt (cm_amountMinor input)") (simp_all add: mint_confirm_def requireAuth_def prog_simps)
    qed
  qed (simp add: Some mint_confirm_def requireAuth_def prog_simps)
qed

lemma mint_confirm_effect:
  assumes "mint_confirm i input e s = (r, s')"
  shows "(\<exists>x. r = Inl x \<and> s' = s)
    \<or> \<not> is_ok r \<and> s' = snd (mint_expire i (cm_actor input) e s)
    \<or> (\<exists>a. confirmable e s i input a \<and> (
         (\<exists>c. recordable e s input a c \<and> is_ok r \<and> mintConfs s' = mintConfs s @ [c]
            \<and> mintAuths s' = set_row ma_id i (\<lambda>a. a\<lparr>ma_status := MintAuthorizationStatus.CONSUMED\<rparr>) (mintAuths s)
            \<and> approvals s' = approvals s \<and> entries s' = entries s @ [release_row ''mint-confirm:'' a (cm_actor input)])
       \<or> (\<nexists>c. recordable e s input a c) \<and> \<not> is_ok r
            \<and> s' = s\<lparr>entries := entries s @ [release_row ''mint-confirm:'' a (cm_actor input)]\<rparr>))"
proof (cases "\<exists>a. confirmable e s i input a")
  case True
  then obtain a where a: "confirmable e s i input a" by blast
  show ?thesis
  proof (cases "\<exists>c. recordable e s input a c")
    case True
    then obtain c where "recordable e s input a c" by blast
    with a assms mint_confirm_consumes [OF a this] show ?thesis by (metis is_ok_simps(1) prod.inject)
  next
    case False
    with a assms mint_confirm_unrecorded [OF a False] show ?thesis by (metis is_ok_simps(2) prod.inject)
  qed
next
  case False
  show ?thesis
  proof (cases "\<exists>a. find_row ma_id i (mintAuths s) = Some a \<and> ma_status a = MintAuthorizationStatus.ISSUED \<and> auth_expired e a")
    case True
    then show ?thesis using assms mint_confirm_expires [of i s _ e input]
      by (metis fst_conv snd_conv is_ok_simps(2))
  next
    case nexp: False
    with mint_confirm_refused [OF False nexp] assms show ?thesis by auto
  qed
qed

section \<open>The life cycle of an authorization\<close>

definition find_conf :: "st \<Rightarrow> string \<Rightarrow> MintConfirmation option" where
  "find_conf s authId = find_row mf_mintAuthorizationId authId (mintConfs s)"

text \<open>Approved by a checker who is not the maker.\<close>

definition approved_by_other :: "Approval option \<Rightarrow> bool" where
  "approved_by_other ap \<longleftrightarrow> (\<exists>p c. ap = Some p \<and> ap_decision p = ApprovalDecision.APPROVED
     \<and> ap_checkerId p = Some c \<and> c \<noteq> ap_makerId p)"

text \<open>What the approval and the confirmation of an authorization look like in each status.\<close>

definition auth_ok :: "Approval option \<Rightarrow> MintConfirmation option \<Rightarrow> MintAuthorization \<Rightarrow> bool" where
  "auth_ok ap conf a \<longleftrightarrow> 0 < ma_amountMinor a \<and> ma_maxMintAmountMinor a = ma_amountMinor a \<and> ma_singleUse a
     \<and> (case ma_status a of
          MintAuthorizationStatus.PENDING_MAKER \<Rightarrow> ap = None \<and> conf = None
        | MintAuthorizationStatus.PENDING_CHECKER \<Rightarrow>
            (\<exists>p. ap = Some p \<and> ap_decision p = ApprovalDecision.PENDING) \<and> conf = None
        | MintAuthorizationStatus.ISSUED \<Rightarrow> approved_by_other ap \<and> conf = None \<and> ma_expiresAt a \<noteq> None
        | MintAuthorizationStatus.EXPIRED \<Rightarrow> approved_by_other ap \<and> conf = None
        | MintAuthorizationStatus.REVOKED \<Rightarrow> approved_by_other ap \<and> conf = None
        | MintAuthorizationStatus.CONSUMED \<Rightarrow>
            approved_by_other ap \<and> (\<exists>c. conf = Some c \<and> mf_amountMinor c = ma_amountMinor a)
        | MintAuthorizationStatus.REJECTED \<Rightarrow> ap \<noteq> None
        | _ \<Rightarrow> False)"

definition mint_inv :: "st \<Rightarrow> bool" where
  "mint_inv s \<longleftrightarrow> uniq ma_id (mintAuths s) \<and> uniq ma_paychainRequestId (mintAuths s) \<and> uniq ma_nonce (mintAuths s)
     \<and> uniq ap_id (approvals s) \<and> uniq ap_mintAuthorizationId (approvals s)
     \<and> uniq mf_mintAuthorizationId (mintConfs s)
     \<and> (\<forall>p \<in> set (approvals s). has_row ma_id (ap_mintAuthorizationId p) (mintAuths s))
     \<and> (\<forall>c \<in> set (mintConfs s). has_row ma_id (mf_mintAuthorizationId c) (mintAuths s))
     \<and> (\<forall>a \<in> set (mintAuths s). auth_ok (find_approval s (ma_id a)) (find_conf s (ma_id a)) a)"

lemma mint_inv_cong:
  "mintAuths s' = mintAuths s \<Longrightarrow> approvals s' = approvals s \<Longrightarrow> mintConfs s' = mintConfs s \<Longrightarrow>
   mint_inv s' = mint_inv s"
  by (simp add: mint_inv_def find_approval_def find_conf_def)

lemma auth_clash_uniq:
  "\<not> list_ex (auth_clash a) rs \<Longrightarrow> \<not> has_row ma_id (ma_id a) rs
     \<and> \<not> has_row ma_paychainRequestId (ma_paychainRequestId a) rs \<and> \<not> has_row ma_nonce (ma_nonce a) rs"
  by (auto simp: list_ex_iff auth_clash_def has_row_def)

lemma approval_clash_uniq:
  "\<not> list_ex (approval_clash a) rs \<Longrightarrow> \<not> has_row ap_id (ap_id a) rs
     \<and> \<not> has_row ap_mintAuthorizationId (ap_mintAuthorizationId a) rs"
  by (auto simp: list_ex_iff approval_clash_def has_row_def)

lemma conf_clash_uniq:
  "\<not> list_ex (conf_clash a) rs \<Longrightarrow> \<not> has_row mf_mintAuthorizationId (mf_mintAuthorizationId a) rs"
  by (auto simp: list_ex_iff conf_clash_def has_row_def)

lemma has_row_append: "has_row key k (rs @ ss) \<longleftrightarrow> has_row key k rs \<or> has_row key k ss"
  by (simp add: has_row_def)

lemma no_row_find: "\<not> has_row key k rs \<Longrightarrow> find_row key k rs = None"
  by (simp add: has_row_find)

text \<open>A new authorization has neither approval nor confirmation.\<close>

lemma mint_create_inv:
  assumes inv: "mint_inv s" and cl: "\<not> list_ex (auth_clash a) (mintAuths s)"
    and s': "mintAuths s' = mintAuths s @ [a]" "approvals s' = approvals s" "mintConfs s' = mintConfs s"
    and ok: "auth_ok None None a"
  shows "mint_inv s'"
proof -
  from inv auth_clash_uniq [OF cl] have "find_approval s (ma_id a) = None" "find_conf s (ma_id a) = None"
    by (auto simp: mint_inv_def find_approval_def find_conf_def find_row_None has_row_iff)
  with inv auth_clash_uniq [OF cl] ok s' show ?thesis
    by (auto simp: mint_inv_def find_approval_def find_conf_def uniq_append_row has_row_append)
qed

text \<open>Changing one authorization, together with its approval and confirmation.\<close>

lemma mint_update_inv:
  assumes inv: "mint_inv s" and a: "find_row ma_id i (mintAuths s) = Some a"
    and auths: "mintAuths s' = set_row ma_id i f (mintAuths s)"
    and f: "\<And>a. ma_id (f a) = ma_id a" "\<And>a. ma_paychainRequestId (f a) = ma_paychainRequestId a"
      "\<And>a. ma_nonce (f a) = ma_nonce a"
    and uq: "uniq ap_id (approvals s')" "uniq ap_mintAuthorizationId (approvals s')"
      "uniq mf_mintAuthorizationId (mintConfs s')"
    and rf: "\<forall>p \<in> set (approvals s'). has_row ma_id (ap_mintAuthorizationId p) (mintAuths s)"
      "\<forall>c \<in> set (mintConfs s'). has_row ma_id (mf_mintAuthorizationId c) (mintAuths s)"
    and other: "\<And>x. x \<noteq> i \<Longrightarrow> find_approval s' x = find_approval s x"
      "\<And>x. x \<noteq> i \<Longrightarrow> find_conf s' x = find_conf s x"
    and ok: "auth_ok (find_approval s' i) (find_conf s' i) (f a)"
  shows "mint_inv s'"
proof -
  have uqs: "uniq ma_id (mintAuths s')" "uniq ma_paychainRequestId (mintAuths s')" "uniq ma_nonce (mintAuths s')"
    using inv by (simp_all add: auths uniq_set_row f mint_inv_def)
  have keys: "has_row ma_id k (mintAuths s') = has_row ma_id k (mintAuths s)" for k
    by (simp add: auths has_row_set_row f)
  have "auth_ok (find_approval s' (ma_id x)) (find_conf s' (ma_id x)) x" if "x \<in> set (mintAuths s')" for x
    using that unfolding auths
  proof (cases rule: set_row_cases)
    case (changed q)
    from changed a inv have "q = a" using find_row_uniq [of ma_id "mintAuths s" q] by (simp add: mint_inv_def)
    with changed ok f show ?thesis by simp
  next
    case same
    with inv other [of "ma_id x"] show ?thesis by (simp add: mint_inv_def)
  qed
  with uqs uq rf show ?thesis by (simp add: mint_inv_def keys)
qed

lemma mint_inv_auth:
  "mint_inv s \<Longrightarrow> find_row ma_id i (mintAuths s) = Some a \<Longrightarrow>
   auth_ok (find_approval s i) (find_conf s i) a \<and> ma_id a = i"
  by (auto simp: mint_inv_def dest: find_row_Some)

text \<open>Only the status (and the issue data) changes, approvals and confirmations stay.\<close>

lemma mint_status_inv:
  assumes inv: "mint_inv s" and a: "find_row ma_id i (mintAuths s) = Some a"
    and auths: "mintAuths s' = set_row ma_id i f (mintAuths s)"
    and s': "approvals s' = approvals s" "mintConfs s' = mintConfs s"
    and f: "\<And>a. ma_id (f a) = ma_id a" "\<And>a. ma_paychainRequestId (f a) = ma_paychainRequestId a"
      "\<And>a. ma_nonce (f a) = ma_nonce a"
    and ok: "auth_ok (find_approval s i) (find_conf s i) (f a)"
  shows "mint_inv s'"
  by (rule mint_update_inv [OF inv a auths f])
     (use inv ok in \<open>auto simp: s' mint_inv_def find_approval_def find_conf_def\<close>)

text \<open>The approval row of the authorization is decided as well.\<close>

lemma mint_decide_inv:
  assumes inv: "mint_inv s" and a: "find_row ma_id i (mintAuths s) = Some a"
    and p: "find_approval s i = Some p"
    and auths: "mintAuths s' = set_row ma_id i f (mintAuths s)"
    and aps: "approvals s' = set_row ap_id (ap_id p) (approve_with t checker d why) (approvals s)"
    and confs: "mintConfs s' = mintConfs s"
    and f: "\<And>a. ma_id (f a) = ma_id a" "\<And>a. ma_paychainRequestId (f a) = ma_paychainRequestId a"
      "\<And>a. ma_nonce (f a) = ma_nonce a"
    and ok: "auth_ok (Some (approve_with t checker d why p)) (find_conf s i) (f a)"
  shows "mint_inv s'"
proof -
  let ?g = "approve_with t checker d why"
  have g: "ap_id (?g q) = ap_id q" "ap_mintAuthorizationId (?g q) = ap_mintAuthorizationId q" for q
    by (simp_all add: approve_with_def)
  have uq: "uniq ap_id (approvals s)" "uniq ap_mintAuthorizationId (approvals s)"
    using inv by (simp_all add: mint_inv_def)
  have fa: "find_approval s' x = (if x = i then Some (?g p) else find_approval s x)" for x
    using find_row_set_other [OF uq, of i p ?g x] p g by (simp add: find_approval_def aps)
  have fc: "find_conf s' x = find_conf s x" for x by (simp add: find_conf_def confs)
  have rf: "\<forall>q \<in> set (approvals s'). has_row ma_id (ap_mintAuthorizationId q) (mintAuths s)"
    using inv unfolding aps by (auto elim!: set_row_cases simp: mint_inv_def g)
  show ?thesis
    by (rule mint_update_inv [OF inv a auths f])
       (use inv uq rf ok in \<open>simp_all add: fa fc aps confs uniq_set_row g mint_inv_def\<close>)
qed

end
