(* ===== verification/Mint_Life.thy ===== *)
theory Mint_Life
  imports Mint
begin

text \<open>
  What the mint workflow guarantees over time: the life-cycle invariant \<open>mint_inv\<close> is kept
  by every operation; the pending-mint liability is the sum of the issued authorizations
  as long as nobody rejects an issued authorization and every confirmation can be stored;
  and an approval only ever happens within the reserve's capacity.
\<close>

section \<open>Every operation keeps the life cycle\<close>

lemma new_auth_sel [simp]:
  "ma_id (new_auth e input pg n) = newId e" "ma_amountMinor (new_auth e input pg n) = n"
  "ma_status (new_auth e input pg n) = MintAuthorizationStatus.PENDING_MAKER"
  "ma_programId (new_auth e input pg n) = rm_programId input"
  by (simp_all add: new_auth_def)

lemma new_auth_ok: "0 < n \<Longrightarrow> auth_ok None None (new_auth e input pg n)"
  by (simp add: auth_ok_def new_auth_def)

lemma mint_request_inv:
  assumes "mint_inv s" and "mint_request input e s = (r, s')"
  shows "mint_inv s'"
  using mint_request_effect [OF assms(2)]
proof (elim disjE exE conjE)
  fix pg n assume "0 < n" "\<not> list_ex (auth_clash (new_auth e input pg n)) (mintAuths s)"
    "mintAuths s' = mintAuths s @ [new_auth e input pg n]" "approvals s' = approvals s" "mintConfs s' = mintConfs s"
  then show ?thesis by (intro mint_create_inv [OF assms(1), of "new_auth e input pg n"] new_auth_ok)
qed (use assms(1) in simp)

lemma mint_review_inv:
  assumes inv: "mint_inv s" and run: "mint_review i maker e s = (r, s')"
  shows "mint_inv s'"
  using mint_review_effect [OF run]
proof (elim disjE exE conjE)
  fix a u
  let ?p = "new_approval e i maker"
  assume a: "find_row ma_id i (mintAuths s) = Some a" and st: "ma_status a = MintAuthorizationStatus.PENDING_MAKER"
    and cl: "\<not> list_ex (approval_clash ?p) (approvals s)"
    and s': "mintAuths s' = set_row ma_id i (\<lambda>a. a\<lparr>ma_status := MintAuthorizationStatus.PENDING_CHECKER\<rparr>) (mintAuths s)"
      "approvals s' = approvals s @ [?p]" "mintConfs s' = mintConfs s"
  have p: "ap_mintAuthorizationId ?p = i" "ap_decision ?p = ApprovalDecision.PENDING"
    by (simp_all add: new_approval_def)
  note uq = approval_clash_uniq [OF cl]
  from mint_inv_auth [OF inv a] st
  have none: "find_approval s i = None" and ok: "0 < ma_amountMinor a" "ma_maxMintAmountMinor a = ma_amountMinor a"
    "ma_singleUse a" "find_conf s i = None" by (simp_all add: auth_ok_def)
  have fa: "find_approval s' x = (if x = i then Some ?p else find_approval s x)" for x
    using none by (simp add: find_approval_def s' find_row_snoc p split: option.split)
  have fc: "find_conf s' x = find_conf s x" for x by (simp add: find_conf_def s')
  show ?thesis
    by (rule mint_update_inv [OF inv a s'(1)])
       (use inv uq ok a in \<open>auto simp: fa fc s' uniq_append_row mint_inv_def auth_ok_def p\<close>)
qed (use inv in simp)

lemma approve_with_sel [simp]:
  "ap_decision (approve_with t c d why p) = d" "ap_checkerId (approve_with t c d why p) = Some c"
  "ap_makerId (approve_with t c d why p) = ap_makerId p"
  by (simp_all add: approve_with_def)

lemma issue_auth_sel [simp]:
  "ma_id (issue_auth t x sig a) = ma_id a" "ma_paychainRequestId (issue_auth t x sig a) = ma_paychainRequestId a"
  "ma_nonce (issue_auth t x sig a) = ma_nonce a" "ma_amountMinor (issue_auth t x sig a) = ma_amountMinor a"
  "ma_status (issue_auth t x sig a) = MintAuthorizationStatus.ISSUED"
  "ma_expiresAt (issue_auth t x sig a) = Some x" "ma_singleUse (issue_auth t x sig a) = ma_singleUse a"
  "ma_maxMintAmountMinor (issue_auth t x sig a) = ma_maxMintAmountMinor a"
  "ma_programId (issue_auth t x sig a) = ma_programId a" "ma_currency (issue_auth t x sig a) = ma_currency a"
  by (simp_all add: issue_auth_def)

lemma mint_approve_inv:
  assumes inv: "mint_inv s" and run: "mint_approve i checker reason e s = (r, s')"
  shows "mint_inv s'"
  using mint_approve_effect [OF run]
proof (elim disjE exE conjE)
  fix a p f d why
  assume ap: "approvable e s i checker a p f d"
    and s': "mintAuths s' = set_row ma_id i (\<lambda>a. a\<lparr>ma_status := MintAuthorizationStatus.REJECTED\<rparr>) (mintAuths s)"
      "approvals s' = set_row ap_id (ap_id p) (approve_with (now e) checker ApprovalDecision.REJECTED why) (approvals s)"
      "mintConfs s' = mintConfs s"
  from ap have a: "find_row ma_id i (mintAuths s) = Some a" and p: "find_approval s i = Some p"
    by (simp_all add: approvable_def)
  show ?thesis
    by (rule mint_decide_inv [OF inv a p s'(1,2,3)])
       (use mint_inv_auth [OF inv a] in \<open>simp_all add: auth_ok_def\<close>)
next
  fix a p f d t sig
  assume ap: "approvable e s i checker a p f d"
    and s': "mintAuths s' = set_row ma_id i (issue_auth (now e) t sig) (mintAuths s)"
      "approvals s' = set_row ap_id (ap_id p) (approve_with (now e) checker ApprovalDecision.APPROVED reason) (approvals s)"
      "mintConfs s' = mintConfs s"
  from ap have a: "find_row ma_id i (mintAuths s) = Some a" and p: "find_approval s i = Some p"
    and st: "ma_status a = MintAuthorizationStatus.PENDING_CHECKER" "ap_makerId p \<noteq> checker"
    by (simp_all add: approvable_def)
  show ?thesis
    by (rule mint_decide_inv [OF inv a p s'(1,2,3)])
       (use mint_inv_auth [OF inv a] st in \<open>auto simp: auth_ok_def approved_by_other_def\<close>)
qed (use inv in simp)

lemma mint_reject_inv:
  assumes inv: "mint_inv s" and run: "mint_reject i checker reason e s = (r, s')"
  shows "mint_inv s'"
  using mint_reject_effect [OF run]
proof (elim disjE exE conjE)
  fix a p
  assume a: "find_row ma_id i (mintAuths s) = Some a" and p: "find_approval s i = Some p"
    and s': "mintAuths s' = set_row ma_id i (\<lambda>a. a\<lparr>ma_status := MintAuthorizationStatus.REJECTED\<rparr>) (mintAuths s)"
      "mintConfs s' = mintConfs s"
    and aps: "if find_row u_id checker (users s) = None
       then r = Inl (ForeignKeyViolation ''Approval.checkerId'') \<and> approvals s' = approvals s
       else is_ok r \<and> approvals s' = set_row ap_id (ap_id p)
         (approve_with (now e) checker ApprovalDecision.REJECTED reason) (approvals s)"
  show ?thesis
  proof (cases "approvals s' = approvals s")
    case True
    show ?thesis
      by (rule mint_status_inv [OF inv a s'(1) True s'(2)])
         (use mint_inv_auth [OF inv a] p in \<open>simp_all add: auth_ok_def\<close>)
  next
    case False
    with aps have ap: "approvals s' = set_row ap_id (ap_id p)
      (approve_with (now e) checker ApprovalDecision.REJECTED reason) (approvals s)"
      by (auto split: if_splits)
    show ?thesis
      by (rule mint_decide_inv [OF inv a p s'(1) ap s'(2)])
         (use mint_inv_auth [OF inv a] in \<open>simp_all add: auth_ok_def\<close>)
  qed
qed (use inv in simp)

lemma mint_close_inv:
  assumes inv: "mint_inv s" and a: "find_row ma_id i (mintAuths s) = Some a"
    and st: "ma_status a = MintAuthorizationStatus.ISSUED"
    and s': "mintAuths s' = set_row ma_id i (\<lambda>a. a\<lparr>ma_status := x\<rparr>) (mintAuths s)"
      "approvals s' = approvals s" "mintConfs s' = mintConfs s"
    and x: "x = MintAuthorizationStatus.REVOKED \<or> x = MintAuthorizationStatus.EXPIRED"
  shows "mint_inv s'"
  by (rule mint_status_inv [OF inv a s'])
     (use mint_inv_auth [OF inv a] st x in \<open>auto simp: auth_ok_def\<close>)

lemma mint_revoke_inv: "mint_inv s \<Longrightarrow> mint_revoke i actor reason e s = (r, s') \<Longrightarrow> mint_inv s'"
  by (drule mint_revoke_effect, elim disjE exE conjE, simp) (rule mint_close_inv, assumption+, simp)

lemma mint_expire_inv: "mint_inv s \<Longrightarrow> mint_expire i actor e s = (r, s') \<Longrightarrow> mint_inv s'"
  by (drule mint_expire_effect, elim disjE exE conjE, simp) (rule mint_close_inv, assumption+, simp)

lemma recordable_row:
  assumes "confirmable e s i input a" and "recordable e s input a c"
  shows "mf_mintAuthorizationId c = i \<and> mf_amountMinor c = ma_amountMinor a"
  using assms
  by (auto simp: recordable_def confirmable_def confirmation_row_def bind_r_eq_Inr dest!: find_row_Some)

lemma mint_confirm_inv:
  assumes inv: "mint_inv s" and run: "mint_confirm i input e s = (r, s')"
  shows "mint_inv s'"
  using mint_confirm_effect [OF run]
proof (elim disjE exE conjE)
  fix a c
  assume cf: "confirmable e s i input a" and rc: "recordable e s input a c"
    and s': "mintConfs s' = mintConfs s @ [c]"
      "mintAuths s' = set_row ma_id i (\<lambda>a. a\<lparr>ma_status := MintAuthorizationStatus.CONSUMED\<rparr>) (mintAuths s)"
      "approvals s' = approvals s"
  from cf have a: "find_row ma_id i (mintAuths s) = Some a" and st: "ma_status a = MintAuthorizationStatus.ISSUED"
    by (simp_all add: confirmable_def)
  note c = recordable_row [OF cf rc]
  from mint_inv_auth [OF inv a] st have ok: "find_conf s i = None" "0 < ma_amountMinor a"
    "ma_maxMintAmountMinor a = ma_amountMinor a" "ma_singleUse a" "approved_by_other (find_approval s i)"
    by (simp_all add: auth_ok_def)
  have fc: "find_conf s' x = (if x = i then Some c else find_conf s x)" for x
    using ok(1) c by (simp add: find_conf_def s' find_row_snoc split: option.split)
  have fa: "find_approval s' x = find_approval s x" for x by (simp add: find_approval_def s')
  from rc have "\<not> list_ex (conf_clash c) (mintConfs s)" by (simp add: recordable_def)
  note uq = conf_clash_uniq [OF this]
  have rf: "\<forall>x \<in> set (mintConfs s'). has_row ma_id (mf_mintAuthorizationId x) (mintAuths s)"
    using inv a c by (simp add: s' mint_inv_def)
  have ok': "auth_ok (find_approval s' i) (find_conf s' i) (a\<lparr>ma_status := MintAuthorizationStatus.CONSUMED\<rparr>)"
    using ok c by (simp add: auth_ok_def fa fc)
  show ?thesis
    by (rule mint_update_inv [OF inv a s'(2)])
       (use inv uq rf ok' in \<open>simp_all add: fa fc s' uniq_append_row mint_inv_def\<close>)
next
  assume "s' = snd (mint_expire i (cm_actor input) e s)"
  with mint_expire_inv [OF inv prod.collapse [symmetric]] show ?thesis by simp
next
  fix a assume "s' = s\<lparr>entries := entries s @ [release_row ''mint-confirm:'' a (cm_actor input)]\<rparr>"
  with inv mint_inv_cong [of s' s] show ?thesis by simp
qed (use inv in simp)

lemma run_mint_inv: "keeps mint_inv (run_mint c)"
  unfolding keeps_def
proof (intro allI impI)
  fix e s assume "mint_inv s"
  note inv = this prod.collapse [symmetric]
  show "mint_inv (snd (run_mint c e s))"
    by (cases c; simp only: run_mint.simps)
       (rule mint_request_inv [OF inv] mint_review_inv [OF inv] mint_approve_inv [OF inv] mint_reject_inv [OF inv]
         mint_revoke_inv [OF inv] mint_expire_inv [OF inv] mint_confirm_inv [OF inv])+
qed

lemma mint_inv_foreign:
  "leaves (\<lambda>s. (mintAuths s, approvals s, mintConfs s)) m \<Longrightarrow> keeps mint_inv m"
  unfolding leaves_def keeps_def using mint_inv_cong by (metis prod.inject)

section \<open>The pending-mint liability\<close>

definition pending_weight :: "string \<Rightarrow> string \<Rightarrow> MintAuthorization \<Rightarrow> int" where
  "pending_weight scope cur a = (if ma_programId a = scope \<and> toUpperCase (ma_currency a) = cur
     \<and> ma_status a = MintAuthorizationStatus.ISSUED \<and> 0 < ma_amountMinor a then ma_amountMinor a else 0)"

interpretation pending: earmark_table mintAuths ma_id pending_weight LIABILITY_PENDING_MINT
  by unfold_locales (simp add: pending_weight_def)

abbreviation pending_in_step :: "st \<Rightarrow> bool" where
  "pending_in_step \<equiv> in_step mintAuths ma_id pending_weight LIABILITY_PENDING_MINT"

lemma bal_reservation:
  "liab LIABILITY_PENDING_MINT scope cur (es @ [reservation_row a checker x]) =
     liab LIABILITY_PENDING_MINT scope cur es
       + (if ma_programId a = scope \<and> toUpperCase (ma_currency a) = cur then ma_amountMinor a else 0)"
  by (simp add: reservation_row_def bal_transfer)

lemma bal_release:
  "liab LIABILITY_PENDING_MINT scope cur (es @ [release_row src a actor]) =
     liab LIABILITY_PENDING_MINT scope cur es
       - (if ma_programId a = scope \<and> toUpperCase (ma_currency a) = cur then ma_amountMinor a else 0)"
  by (simp add: release_row_def bal_transfer)

text \<open>
  The discipline the services do not enforce: an issued authorization is not rejected, and
  a confirmation that passes the checks of \<open>confirm\<close> can also be stored.
\<close>

fun mint_disciplined :: "env \<Rightarrow> st \<Rightarrow> mint_cmd \<Rightarrow> bool" where
  "mint_disciplined e s (RejectMint i checker reason) \<longleftrightarrow>
     map_option ma_status (find_row ma_id i (mintAuths s)) \<noteq> Some MintAuthorizationStatus.ISSUED"
| "mint_disciplined e s (ConfirmMintCmd i input) \<longleftrightarrow>
     (case find_row ma_id i (mintAuths s) of None \<Rightarrow> True
      | Some a \<Rightarrow> \<not> confirmable e s i input a
          \<or> (case confirmation_row e a input of Inl _ \<Rightarrow> False | Inr c \<Rightarrow> \<not> list_ex (conf_clash c) (mintConfs s)))"
| "mint_disciplined e s _ \<longleftrightarrow> True"

lemma pending_new:
  assumes "pending_in_step s" and "mint_request input e s = (r, s')"
  shows "pending_in_step s'"
  using mint_request_effect [OF assms(2)]
proof (elim disjE exE conjE)
  fix pg n assume cl: "\<not> list_ex (auth_clash (new_auth e input pg n)) (mintAuths s)"
    and s': "mintAuths s' = mintAuths s @ [new_auth e input pg n]" "entries s' = entries s"
  show ?thesis
    by (rule pending.step_create [OF assms(1) _ s'(1)])
       (use auth_clash_uniq [OF cl] in \<open>simp_all add: s'(2) pending_weight_def\<close>)
qed (use assms(1) in simp)

lemma pending_review:
  assumes "pending_in_step s" and "mint_review i maker e s = (r, s')"
  shows "pending_in_step s'"
  using mint_review_effect [OF assms(2)]
  by (elim disjE exE conjE)
     (use assms(1) in simp, (rule pending.step_update [OF assms(1)], assumption, assumption,
       (auto simp: pending_weight_def)[2])+)

lemma pending_approve:
  assumes "pending_in_step s" and "mint_approve i checker reason e s = (r, s')"
  shows "pending_in_step s'"
  using mint_approve_effect [OF assms(2)] unfolding approvable_def
  by (elim disjE exE conjE)
     (use assms(1) in simp, (rule pending.step_update [OF assms(1)], assumption, assumption,
       (auto simp: pending_weight_def bal_reservation)[2])+)

lemma pending_reject:
  assumes "pending_in_step s" and "mint_reject i checker reason e s = (r, s')"
    and "mint_disciplined e s (RejectMint i checker reason)"
  shows "pending_in_step s'"
  using mint_reject_effect [OF assms(2)] assms(3)
  by (elim disjE exE conjE)
     (use assms(1) in simp, (rule pending.step_update [OF assms(1)], assumption, assumption,
       (auto simp: pending_weight_def)[2])+)

lemma pending_revoke:
  assumes "pending_in_step s" and "mint_revoke i actor reason e s = (r, s')"
  shows "pending_in_step s'"
  using mint_revoke_effect [OF assms(2)]
  by (elim disjE exE conjE)
     (use assms(1) in simp, (rule pending.step_update [OF assms(1)], assumption, assumption,
       (auto simp: pending_weight_def bal_release)[2])+)

lemma pending_expire:
  assumes "pending_in_step s" and "mint_expire i actor e s = (r, s')"
  shows "pending_in_step s'"
  using mint_expire_effect [OF assms(2)]
  by (elim disjE exE conjE)
     (use assms(1) in simp, (rule pending.step_update [OF assms(1)], assumption, assumption,
       (auto simp: pending_weight_def bal_release)[2])+)

lemma pending_confirm:
  assumes st: "pending_in_step s" and run: "mint_confirm i input e s = (r, s')"
    and disc: "mint_disciplined e s (ConfirmMintCmd i input)"
  shows "pending_in_step s'"
  using mint_confirm_effect [OF run]
proof (elim disjE exE conjE)
  fix a c
  assume "confirmable e s i input a" and s': "mintAuths s' = set_row ma_id i (\<lambda>a. a\<lparr>ma_status := MintAuthorizationStatus.CONSUMED\<rparr>) (mintAuths s)"
    "entries s' = entries s @ [release_row ''mint-confirm:'' a (cm_actor input)]"
  then show ?thesis
    by (intro pending.step_update [OF st _ s'(1)]) (auto simp: confirmable_def s'(2) pending_weight_def bal_release)
next
  assume "s' = snd (mint_expire i (cm_actor input) e s)"
  with pending_expire [OF st prod.collapse [symmetric]] show ?thesis by simp
next
  fix a assume "confirmable e s i input a" "\<nexists>c. recordable e s input a c"
  with disc have False by (auto simp: confirmable_def recordable_def split: sum.splits)
  then show ?thesis ..
qed (use st in simp)

lemma run_mint_pending:
  assumes "pending_in_step s" and "mint_disciplined e s c"
  shows "pending_in_step (snd (run_mint c e s))"
proof -
  note st = assms(1) prod.collapse [symmetric]
  from assms(2) show ?thesis
    by (cases c; simp only: run_mint.simps)
       (rule pending_new [OF st] pending_review [OF st] pending_approve [OF st] pending_revoke [OF st]
         pending_expire [OF st] pending_reject [OF st] pending_confirm [OF st], assumption?)+
qed

section \<open>An approval stays within the reserve\<close>

lemma approvable_capacity:
  assumes "approvable e s i checker a p f d" and "gd_allowed d"
  shows "\<exists>pg. find_program s (ma_programId a) = Some pg \<and> 0 \<le> pg_safetyBufferBps pg \<and> guard_facts_ok f
    \<and> 0 < ma_amountMinor a \<and> ma_amountMinor a \<le> pos_capacity s pg
    \<and> toUpperCase (ma_currency a) = toUpperCase (pg_referenceCurrency pg)"
proof -
  from assms(1) obtain pos where pos: "position e s (ma_programId a) = Inr pos"
    and req: "gf_requested f = money_big (ma_amountMinor a) (ma_currency a)"
    and cap: "gf_capacityInput f = \<lparr>mc_currency = rp_currency pos, mc_eligibleReserve = rp_mintCapacity pos,
         mc_existingReserveObligation = money_big 0 (rp_currency pos), mc_requiredSafetyBuffer = money_big 0 (rp_currency pos),
         mc_pendingMintAuthorizations = money_big 0 (rp_currency pos)\<rparr>"
    by (auto simp: approvable_def gatherGuardFacts_def require_def bind_r_eq_Inr Let_def split: option.splits)
  from pos obtain pg where pg: "find_program s (ma_programId a) = Some pg" "0 \<le> pg_safetyBufferBps pg"
    and p: "pos = position_of e s pg" by (rule position_Inr)
  from assms have ev: "evaluateMintGuard f = Inr d" by (simp add: approvable_def)
  note g = evaluateMintGuard_Inr [OF ev]
  have "mintCapacity (gf_capacityInput f) = Inr (money_big (pos_capacity s pg) (pg_referenceCurrency pg))"
    by (simp add: cap p position_of_def Let_def mintCapacity_value mc_uniform_def money_as_big pos_capacity_def)
  with g(1) have "gd_capacity d = money_big (pos_capacity s pg) (pg_referenceCurrency pg)" by simp
  with g(3) assms(2) req pg show ?thesis by auto
qed

text \<open>The deposits named by an authorization that passed the guard are all there and mint-eligible.\<close>

lemma approvable_deposits:
  assumes "approvable e s i checker a p f d" and "gd_allowed d"
  shows "deposits_cleared s (ma_fundingDepositIds a)"
proof -
  from assms(1) have "gf_fundingDepositsCleared f = deposits_cleared s (ma_fundingDepositIds a)"
    by (auto simp: approvable_def gatherGuardFacts_def require_def bind_r_eq_Inr Let_def split: option.splits)
  with approvable_capacity [OF assms] show ?thesis by (auto simp: guard_facts_ok_def)
qed

lemma reservation_other_account:
  "acc \<noteq> LIABILITY_PENDING_MINT \<Longrightarrow> acc \<noteq> LIABILITY_PAYCHAIN_RESERVE_OBLIGATION \<Longrightarrow>
   bal dp scope cur acc (es @ [reservation_row a checker x]) = bal dp scope cur acc es"
  by (simp add: reservation_row_def bal_transfer)

text \<open>
  After the approval the eligible reserve still covers the obligation, the safety buffer
  and every pending mint, the new one included. The currency has to be stored in upper
  case, as the ledger stores it.
\<close>

lemma approve_covered:
  assumes run: "mint_approve i checker reason e s = (Inr v, s')"
    and a: "find_row ma_id i (mintAuths s) = Some a" and pg: "find_program s (ma_programId a) = Some pg"
    and cur: "toUpperCase (pg_referenceCurrency pg) = pg_referenceCurrency pg"
  shows "pos_obligation s' pg + pos_buffer s' pg
      + liab LIABILITY_PENDING_MINT (pg_id pg) (pg_referenceCurrency pg) (entries s') \<le> pos_eligible s' pg"
proof -
  from mint_approve_effect [OF run] a obtain p f d where ap: "approvable e s i checker a p f d"
    and al: "gd_allowed d" and s': "entries s' = entries s @ [reservation_row a checker (ap_id p)]"
    by (auto simp: approvable_def)
  from leavesD [OF mint_frame, of "ApproveMint i checker reason" e s] run
  have fr: "liabilities s' = liabilities s" "adjustments s' = adjustments s"
    by (auto simp: mask_mint_def dest: arg_cong [where f = liabilities] arg_cong [where f = adjustments])
  from approvable_capacity [OF ap al] pg have cap: "0 < ma_amountMinor a" "ma_amountMinor a \<le> pos_capacity s pg"
    "toUpperCase (ma_currency a) = pg_referenceCurrency pg" by (auto simp: cur)
  have same: "pos_eligible s' pg = pos_eligible s pg" "pos_obligation s' pg = pos_obligation s pg"
    "pos_buffer s' pg = pos_buffer s pg"
    using fr by (simp_all add: pos_eligible_def pos_obligation_def pos_buffer_def circulating_def
        latestLiability_def adj_sum_def s' reservation_other_account Let_def)
  from find_program_id [OF pg] cap(3)
  have "liab LIABILITY_PENDING_MINT (pg_id pg) (pg_referenceCurrency pg) (entries s')
      = liab LIABILITY_PENDING_MINT (pg_id pg) (pg_referenceCurrency pg) (entries s) + ma_amountMinor a"
    by (simp add: s' bal_reservation)
  with cap show ?thesis by (simp add: same pos_capacity_def)
qed

end
