(* ===== verification/Redemption.thy ===== *)
theory Redemption
  imports Deposits
begin

text \<open>
  \<open>modules/redemption/redemption.service.ts\<close>: request, trustee approval (obligation moved to
  pending redemption), burn confirmation, payout submission and payout confirmation
  (pending redemption discharged against cash). The invariant says what each status
  implies, so that a completed redemption has been approved, burnt and paid out, and that
  the pending-redemption liability is the sum of the redemptions in between.
\<close>

section \<open>Operations\<close>

record RequestRedemption =
  rq_programId :: string
  rq_paychainRedemptionId :: string
  rq_amountMinor :: string
  rq_beneficiaryName :: string
  rq_beneficiaryAccountMasked :: string
  rq_correlationId :: "string option"

definition require_redemption :: "string \<Rightarrow> Redemption op" where
  "require_redemption redemptionId =
     find_or (\<lambda>s. find_row rd_id redemptionId (redemptions s)) (NotFound ''Redemption'')"

definition set_redemption :: "string \<Rightarrow> (Redemption \<Rightarrow> Redemption) \<Rightarrow> unit op" where
  "set_redemption redemptionId f = update_row redemptions redemptions_update rd_id ''Redemption'' redemptionId f"

definition redemption_clash :: "Redemption \<Rightarrow> Redemption \<Rightarrow> bool" where
  "redemption_clash a b \<longleftrightarrow> rd_id a = rd_id b \<or> rd_paychainRedemptionId a = rd_paychainRedemptionId b"

definition new_redemption :: "string \<Rightarrow> RequestRedemption \<Rightarrow> Program \<Rightarrow> int \<Rightarrow> Redemption" where
  "new_redemption i input program amount = \<lparr>rd_id = i, rd_programId = rq_programId input,
     rd_paychainRedemptionId = rq_paychainRedemptionId input, rd_assetId = pg_assetId program,
     rd_amountMinor = amount, rd_currency = pg_referenceCurrency program,
     rd_beneficiaryName = rq_beneficiaryName input,
     rd_beneficiaryAccountMasked = rq_beneficiaryAccountMasked input,
     rd_status = RedemptionStatus.AWAITING_APPROVAL, rd_correlationId = rq_correlationId input,
     rd_burnTxHash = None, rd_burnConfirmedAt = None, rd_approvedById = None, rd_payoutReference = None,
     rd_payoutSubmittedAt = None, rd_payoutConfirmedAt = None, rd_completedAt = None\<rparr>"

definition redemption_request :: "RequestRedemption \<Rightarrow> json op" where
  "redemption_request input = bnd (asks id) (\<lambda>e.
     bnd (find_or (\<lambda>s. find_program s (rq_programId input)) (NotFound ''Program'')) (\<lambda>program.
     bnd (gets (isEnabled ''paychain.redemption.enabled'')) (\<lambda>on.
     seq (check on (BadRequest ''Redemption is disabled''))
     (bnd (lift_r (BigInt (rq_amountMinor input))) (\<lambda>n.
     let amount = money_big n (pg_referenceCurrency program) in
     seq (check (\<not> minor amount \<le> 0) (BadRequest ''Amount must be positive''))
     (seq (create_row redemptions redemptions_update redemption_clash ''Redemption''
       (new_redemption (newId e) input program (minor amount)))
     (seq (audit ((audit_rec (''paychain:'' @ rq_paychainRedemptionId input) ''redemption.requested''
         ''REDEMPTION'' (newId e))
       \<lparr>ar_correlationId := rq_correlationId input,
        ar_afterState := Some (JObj [(''amountMinor'', JStr (rq_amountMinor input))])\<rparr>))
     (ret (id_status (newId e) ''AWAITING_APPROVAL'')))))))))"

definition redemption_approve :: "string \<Rightarrow> string \<Rightarrow> string \<Rightarrow> json op" where
  "redemption_approve redemptionId approverId reason =
     bnd (require_redemption redemptionId) (\<lambda>r.
     seq (check (rd_status r = RedemptionStatus.AWAITING_APPROVAL) (BadRequest ''Redemption is not awaiting approval''))
     (bnd (gets (\<lambda>s. find_row u_id approverId (users s))) (\<lambda>approver.
     seq (check (\<not> (case approver of None \<Rightarrow> True | Some u \<Rightarrow> u_institution u \<noteq> ''TRUSTEE_BANK''))
       (BadRequest ''Approver must be a trustee-bank user''))
     (bnd (post_res (redemptionObligationEntry (money_big (rd_amountMinor r) (rd_currency r))
       (refs_of (''redemption:'' @ redemptionId) (rd_programId r) (rd_assetId r) approverId))) (\<lambda>_.
     seq (set_redemption redemptionId
       (\<lambda>x. x\<lparr>rd_status := RedemptionStatus.APPROVED, rd_approvedById := Some approverId\<rparr>))
     (seq (audit ((audit_rec approverId ''redemption.approved'' ''REDEMPTION'' redemptionId)\<lparr>ar_reason := Some reason\<rparr>))
     (seq (publish ''redemption.approved'' (JObj [(''redemptionId'', JStr redemptionId),
        (''programId'', JStr (rd_programId r))]))
     (ret (id_status redemptionId ''APPROVED'')))))))))"

definition confirmBurn :: "string \<Rightarrow> string \<Rightarrow> string \<Rightarrow> json op" where
  "confirmBurn redemptionId burnTxHash actor = bnd (asks id) (\<lambda>e.
     bnd (require_redemption redemptionId) (\<lambda>r.
     seq (check (\<not> (rd_status r \<noteq> RedemptionStatus.APPROVED \<and> rd_status r \<noteq> RedemptionStatus.ASSET_LOCKED))
       (BadRequest ''Redemption must be APPROVED before burn''))
     (seq (set_redemption redemptionId (\<lambda>x. x\<lparr>rd_status := RedemptionStatus.BURN_CONFIRMED,
        rd_burnTxHash := Some burnTxHash, rd_burnConfirmedAt := Some (now e)\<rparr>))
     (seq (audit ((audit_rec actor ''redemption.burn.confirmed'' ''REDEMPTION'' redemptionId)
        \<lparr>ar_afterState := Some (JObj [(''burnTxHash'', JStr burnTxHash)])\<rparr>))
     (seq (publish ''redemption.burn.confirmed'' (JObj [(''redemptionId'', JStr redemptionId),
        (''burnTxHash'', JStr burnTxHash)]))
     (ret (id_status redemptionId ''BURN_CONFIRMED'')))))))"

definition submitPayout :: "string \<Rightarrow> string \<Rightarrow> json op" where
  "submitPayout redemptionId actor = bnd (asks id) (\<lambda>e.
     bnd (require_redemption redemptionId) (\<lambda>r.
     seq (check (rd_status r = RedemptionStatus.BURN_CONFIRMED) (BadRequest ''Cannot pay out before burn is confirmed''))
     (bnd (gets (isEnabled ''bank.payout.enabled'')) (\<lambda>on.
     seq (check on (BadRequest ''Payout execution is disabled''))
     (let payoutReference = ''PO-'' @ toUpperCase (take 10 (randomUUID e)) in
     seq (set_redemption redemptionId (\<lambda>x. x\<lparr>rd_status := RedemptionStatus.PAYOUT_SUBMITTED,
        rd_payoutReference := Some payoutReference, rd_payoutSubmittedAt := Some (now e)\<rparr>))
     (seq (audit ((audit_rec actor ''redemption.payout.submitted'' ''REDEMPTION'' redemptionId)
        \<lparr>ar_afterState := Some (JObj [(''payoutReference'', JStr payoutReference)])\<rparr>))
     (seq (publish ''redemption.payout.submitted'' (JObj [(''redemptionId'', JStr redemptionId),
        (''payoutReference'', JStr payoutReference)]))
     (ret (JObj [(''id'', JStr redemptionId), (''status'', JStr ''PAYOUT_SUBMITTED''),
        (''payoutReference'', JStr payoutReference)])))))))))"

definition confirmPayout :: "string \<Rightarrow> string \<Rightarrow> json op" where
  "confirmPayout redemptionId actor = bnd (asks id) (\<lambda>e.
     bnd (require_redemption redemptionId) (\<lambda>r.
     seq (check (rd_status r = RedemptionStatus.PAYOUT_SUBMITTED)
       (BadRequest ''Redemption must be PAYOUT_SUBMITTED to confirm''))
     (bnd (post_res (payoutConfirmedEntry (money_big (rd_amountMinor r) (rd_currency r))
       (refs_of (''redemption-payout:'' @ redemptionId) (rd_programId r) (rd_assetId r) actor))) (\<lambda>_.
     seq (set_redemption redemptionId (\<lambda>x. x\<lparr>rd_status := RedemptionStatus.COMPLETED,
        rd_payoutConfirmedAt := Some (now e), rd_completedAt := Some (now e)\<rparr>))
     (seq (audit (audit_rec actor ''redemption.completed'' ''REDEMPTION'' redemptionId))
     (seq (publish ''redemption.payout.confirmed'' (JObj [(''redemptionId'', JStr redemptionId)]))
     (seq (publish ''redemption.completed'' (JObj [(''redemptionId'', JStr redemptionId)]))
     (ret (id_status redemptionId ''COMPLETED'')))))))))"

definition redemption_get :: "string \<Rightarrow> json op" where
  "redemption_get redemptionId = bnd (require_redemption redemptionId) (\<lambda>r.
     ret (JObj [(''id'', JStr (rd_id r)), (''status'', JStr (RedemptionStatus_str (rd_status r))),
       (''amountMinor'', jbig (rd_amountMinor r)), (''currency'', JStr (rd_currency r)),
       (''burnTxHash'', jopt (rd_burnTxHash r)), (''payoutReference'', jopt (rd_payoutReference r))]))"

definition payoutStatus :: "string \<Rightarrow> json op" where
  "payoutStatus redemptionId = bnd (require_redemption redemptionId) (\<lambda>r.
     ret (JObj [(''id'', JStr (rd_id r)), (''status'', JStr (RedemptionStatus_str (rd_status r))),
       (''payoutReference'', jopt (rd_payoutReference r)),
       (''payoutSubmittedAt'', jopt (map_option toISOString (rd_payoutSubmittedAt r))),
       (''payoutConfirmedAt'', jopt (map_option toISOString (rd_payoutConfirmedAt r)))]))"

section \<open>Frame and journal\<close>

datatype redemption_cmd =
    RequestRedemptionCmd RequestRedemption
  | ApproveRedemption string string string
  | ConfirmBurn string string string
  | SubmitPayout string string
  | ConfirmPayout string string

primrec run_redemption :: "redemption_cmd \<Rightarrow> json op" where
  "run_redemption (RequestRedemptionCmd input) = redemption_request input"
| "run_redemption (ApproveRedemption r approver reason) = redemption_approve r approver reason"
| "run_redemption (ConfirmBurn r hash actor) = confirmBurn r hash actor"
| "run_redemption (SubmitPayout r actor) = submitPayout r actor"
| "run_redemption (ConfirmPayout r actor) = confirmPayout r actor"

lemmas redemption_op_defs = redemption_request_def redemption_approve_def confirmBurn_def submitPayout_def
  confirmPayout_def require_redemption_def set_redemption_def

definition mask_redemptions :: "st \<Rightarrow> st" where
  "mask_redemptions s = s\<lparr>redemptions := [], entries := [], audits := [], outbox := []\<rparr>"

lemma redemption_frame: "leaves mask_redemptions (run_redemption c)"
  by (cases c; simp only: run_redemption.simps; unfold redemption_op_defs Let_def)
     (intro leaves_intros; simp add: mask_redemptions_def)+

definition redemption_accounts :: "string set" where
  "redemption_accounts = {LIABILITY_PAYCHAIN_RESERVE_OBLIGATION, LIABILITY_PENDING_REDEMPTION, ASSET_TRUSTEE_BANK_CASH}"

lemma redemption_appends: "appends redemption_accounts (run_redemption c)"
  by (cases c; simp only: run_redemption.simps; unfold redemption_op_defs Let_def)
     (intro appends_intros; simp add: redemption_accounts_def)+

section \<open>What the operations do\<close>

definition obligation_row :: "Redemption \<Rightarrow> string \<Rightarrow> LedgerEntry" where
  "obligation_row r approver = transfer_row ''Reserve obligation moved to pending redemption''
     LIABILITY_PAYCHAIN_RESERVE_OBLIGATION LIABILITY_PENDING_REDEMPTION (money_big (rd_amountMinor r) (rd_currency r))
     (refs_of (''redemption:'' @ rd_id r) (rd_programId r) (rd_assetId r) approver)"

definition payout_row :: "Redemption \<Rightarrow> string \<Rightarrow> LedgerEntry" where
  "payout_row r actor = transfer_row ''Fiat payout confirmed; pending redemption discharged''
     LIABILITY_PENDING_REDEMPTION ASSET_TRUSTEE_BANK_CASH (money_big (rd_amountMinor r) (rd_currency r))
     (refs_of (''redemption-payout:'' @ rd_id r) (rd_programId r) (rd_assetId r) actor)"

lemma redemption_request_effect:
  assumes "redemption_request input e s = (r, s')"
  shows "(\<exists>x. r = Inl x \<and> s' = s)
    \<or> (\<exists>pg n. find_program s (rq_programId input) = Some pg \<and> BigInt (rq_amountMinor input) = Inr n \<and> 0 < n
        \<and> isEnabled ''paychain.redemption.enabled'' s
        \<and> \<not> list_ex (redemption_clash (new_redemption (newId e) input pg n)) (redemptions s) \<and> is_ok r
        \<and> redemptions s' = redemptions s @ [new_redemption (newId e) input pg n] \<and> entries s' = entries s)"
  using assms
  by (auto simp: redemption_request_def prog_simps Let_def split: option.splits sum.splits if_splits)

lemma redemption_approve_effect:
  assumes "redemption_approve i approver reason e s = (r, s')"
  shows "(\<exists>x. r = Inl x \<and> s' = s)
    \<or> (\<exists>q u. find_row rd_id i (redemptions s) = Some q \<and> rd_status q = RedemptionStatus.AWAITING_APPROVAL
        \<and> find_row u_id approver (users s) = Some u \<and> u_institution u = ''TRUSTEE_BANK'' \<and> 0 < rd_amountMinor q
        \<and> is_ok r \<and> entries s' = entries s @ [obligation_row q approver]
        \<and> redemptions s' = set_row rd_id i
            (\<lambda>x. x\<lparr>rd_status := RedemptionStatus.APPROVED, rd_approvedById := Some approver\<rparr>) (redemptions s))"
  using assms
  by (auto simp: redemption_approve_def require_redemption_def set_redemption_def prog_simps obligation_row_def
      dest: find_row_Some split: option.splits if_splits)

lemma confirmBurn_effect:
  assumes "confirmBurn i hash actor e s = (r, s')"
  shows "(\<exists>x. r = Inl x \<and> s' = s)
    \<or> (\<exists>q. find_row rd_id i (redemptions s) = Some q
        \<and> (rd_status q = RedemptionStatus.APPROVED \<or> rd_status q = RedemptionStatus.ASSET_LOCKED)
        \<and> is_ok r \<and> entries s' = entries s
        \<and> redemptions s' = set_row rd_id i (\<lambda>x. x\<lparr>rd_status := RedemptionStatus.BURN_CONFIRMED,
            rd_burnTxHash := Some hash, rd_burnConfirmedAt := Some (now e)\<rparr>) (redemptions s))"
  using assms
  by (auto simp: confirmBurn_def require_redemption_def set_redemption_def prog_simps
      split: option.splits if_splits)

lemma submitPayout_effect:
  assumes "submitPayout i actor e s = (r, s')"
  shows "(\<exists>x. r = Inl x \<and> s' = s)
    \<or> (\<exists>q. find_row rd_id i (redemptions s) = Some q \<and> rd_status q = RedemptionStatus.BURN_CONFIRMED
        \<and> isEnabled ''bank.payout.enabled'' s \<and> is_ok r \<and> entries s' = entries s
        \<and> redemptions s' = set_row rd_id i (\<lambda>x. x\<lparr>rd_status := RedemptionStatus.PAYOUT_SUBMITTED,
            rd_payoutReference := Some (''PO-'' @ toUpperCase (take 10 (randomUUID e))),
            rd_payoutSubmittedAt := Some (now e)\<rparr>) (redemptions s))"
  using assms
  by (auto simp: submitPayout_def require_redemption_def set_redemption_def prog_simps Let_def
      split: option.splits if_splits)

lemma confirmPayout_effect:
  assumes "confirmPayout i actor e s = (r, s')"
  shows "(\<exists>x. r = Inl x \<and> s' = s)
    \<or> (\<exists>q. find_row rd_id i (redemptions s) = Some q \<and> rd_status q = RedemptionStatus.PAYOUT_SUBMITTED
        \<and> 0 < rd_amountMinor q \<and> is_ok r \<and> entries s' = entries s @ [payout_row q actor]
        \<and> redemptions s' = set_row rd_id i (\<lambda>x. x\<lparr>rd_status := RedemptionStatus.COMPLETED,
            rd_payoutConfirmedAt := Some (now e), rd_completedAt := Some (now e)\<rparr>) (redemptions s))"
  using assms
  by (auto simp: confirmPayout_def require_redemption_def set_redemption_def prog_simps payout_row_def
      dest: find_row_Some split: option.splits if_splits)

section \<open>The life cycle and the pending-redemption liability\<close>

definition redemption_ok :: "Redemption \<Rightarrow> bool" where
  "redemption_ok r \<longleftrightarrow> 0 < rd_amountMinor r \<and> (case rd_status r of
       RedemptionStatus.AWAITING_APPROVAL \<Rightarrow> rd_approvedById r = None \<and> rd_burnTxHash r = None
         \<and> rd_payoutReference r = None \<and> rd_completedAt r = None
     | RedemptionStatus.APPROVED \<Rightarrow> rd_approvedById r \<noteq> None \<and> rd_burnTxHash r = None
         \<and> rd_payoutReference r = None \<and> rd_completedAt r = None
     | RedemptionStatus.BURN_CONFIRMED \<Rightarrow> rd_approvedById r \<noteq> None \<and> rd_burnTxHash r \<noteq> None
         \<and> rd_payoutReference r = None \<and> rd_completedAt r = None
     | RedemptionStatus.PAYOUT_SUBMITTED \<Rightarrow> rd_approvedById r \<noteq> None \<and> rd_burnTxHash r \<noteq> None
         \<and> rd_payoutReference r \<noteq> None \<and> rd_completedAt r = None
     | RedemptionStatus.COMPLETED \<Rightarrow> rd_approvedById r \<noteq> None \<and> rd_burnTxHash r \<noteq> None
         \<and> rd_payoutReference r \<noteq> None \<and> rd_completedAt r \<noteq> None
     | _ \<Rightarrow> False)"

definition outgoing_weight :: "string \<Rightarrow> string \<Rightarrow> Redemption \<Rightarrow> int" where
  "outgoing_weight scope cur r = (if rd_programId r = scope \<and> toUpperCase (rd_currency r) = cur \<and> 0 < rd_amountMinor r
     \<and> rd_status r \<in> {RedemptionStatus.APPROVED, RedemptionStatus.BURN_CONFIRMED, RedemptionStatus.PAYOUT_SUBMITTED}
     then rd_amountMinor r else 0)"

interpretation outgoing: earmark_table redemptions rd_id outgoing_weight LIABILITY_PENDING_REDEMPTION
  by unfold_locales (simp add: outgoing_weight_def)

definition redemptions_inv :: "st \<Rightarrow> bool" where
  "redemptions_inv s \<longleftrightarrow> in_step redemptions rd_id outgoing_weight LIABILITY_PENDING_REDEMPTION s
     \<and> uniq rd_paychainRedemptionId (redemptions s) \<and> list_all redemption_ok (redemptions s)"

lemma bal_obligation_row:
  "liab LIABILITY_PENDING_REDEMPTION scope cur (es @ [obligation_row r approver]) =
     liab LIABILITY_PENDING_REDEMPTION scope cur es
       + (if rd_programId r = scope \<and> toUpperCase (rd_currency r) = cur then rd_amountMinor r else 0)"
  by (simp add: obligation_row_def bal_transfer)

lemma bal_payout_row:
  "liab LIABILITY_PENDING_REDEMPTION scope cur (es @ [payout_row r actor]) =
     liab LIABILITY_PENDING_REDEMPTION scope cur es
       - (if rd_programId r = scope \<and> toUpperCase (rd_currency r) = cur then rd_amountMinor r else 0)"
  "cash scope cur (es @ [payout_row r actor]) = cash scope cur es
       - (if rd_programId r = scope \<and> toUpperCase (rd_currency r) = cur then rd_amountMinor r else 0)"
  by (simp_all add: payout_row_def bal_transfer)

lemma redemption_row_ok:
  "redemptions_inv s \<Longrightarrow> find_row rd_id i (redemptions s) = Some q \<Longrightarrow> redemption_ok q"
  by (auto simp: redemptions_inv_def list_all_iff dest: find_row_Some)

lemma redemption_update_inv:
  assumes inv: "redemptions_inv s" and q: "find_row rd_id i (redemptions s) = Some q"
    and s': "redemptions s' = set_row rd_id i f (redemptions s)"
    and f: "\<And>x. rd_id (f x) = rd_id x" "\<And>x. rd_paychainRedemptionId (f x) = rd_paychainRedemptionId x"
    and ok: "redemption_ok q \<Longrightarrow> redemption_ok (f q)"
    and bal: "\<And>scope cur. redemption_ok q \<Longrightarrow> liab LIABILITY_PENDING_REDEMPTION scope cur (entries s')
       = liab LIABILITY_PENDING_REDEMPTION scope cur (entries s) - outgoing_weight scope cur q + outgoing_weight scope cur (f q)"
  shows "redemptions_inv s'"
proof -
  note qok = redemption_row_ok [OF inv q]
  have step: "in_step redemptions rd_id outgoing_weight LIABILITY_PENDING_REDEMPTION s'"
    using inv by (intro outgoing.step_update [OF _ q s' f(1) bal [OF qok]]) (simp add: redemptions_inv_def)
  have "redemption_ok x" if "x \<in> set (redemptions s')" for x
    using that unfolding s'
  proof (cases rule: set_row_cases)
    case (changed y)
    from changed q inv have "y = q"
      using find_row_uniq [of rd_id "redemptions s" y] by (simp add: redemptions_inv_def in_step_def)
    with changed ok [OF qok] show ?thesis by simp
  next
    case same
    with inv show ?thesis by (simp add: redemptions_inv_def list_all_iff)
  qed
  with step inv show ?thesis by (simp add: redemptions_inv_def list_all_iff s' uniq_set_row f)
qed

lemma redemption_request_inv:
  assumes "redemptions_inv s" and "redemption_request input e s = (r, s')"
  shows "redemptions_inv s'"
  using redemption_request_effect [OF assms(2)]
proof (elim disjE exE conjE)
  fix pg n
  let ?q = "new_redemption (newId e) input pg n"
  assume n: "0 < n" and cl: "\<not> list_ex (redemption_clash ?q) (redemptions s)"
    and s': "redemptions s' = redemptions s @ [?q]" "entries s' = entries s"
  from cl have "\<not> has_row rd_id (rd_id ?q) (redemptions s)"
    "\<not> has_row rd_paychainRedemptionId (rd_paychainRedemptionId ?q) (redemptions s)"
    by (auto simp: list_ex_iff redemption_clash_def has_row_def)
  with assms(1) n s' outgoing.step_create [of s ?q s'] show ?thesis
    by (simp add: redemptions_inv_def uniq_append_row redemption_ok_def)
       (simp add: new_redemption_def outgoing_weight_def)
qed (use assms(1) in simp)

lemma redemption_approve_inv:
  assumes "redemptions_inv s" and "redemption_approve i approver reason e s = (r, s')"
  shows "redemptions_inv s'"
  using redemption_approve_effect [OF assms(2)]
  by (elim disjE exE conjE)
     (use assms(1) in simp, (rule redemption_update_inv [OF assms(1)], assumption, assumption,
       (auto simp: outgoing_weight_def redemption_ok_def bal_obligation_row)[4])+)

lemma confirmBurn_inv:
  assumes "redemptions_inv s" and "confirmBurn i hash actor e s = (r, s')"
  shows "redemptions_inv s'"
  using confirmBurn_effect [OF assms(2)]
  by (elim disjE exE conjE)
     (use assms(1) in simp, (rule redemption_update_inv [OF assms(1)], assumption, assumption,
       (auto simp: outgoing_weight_def redemption_ok_def)[4])+)

lemma submitPayout_inv:
  assumes "redemptions_inv s" and "submitPayout i actor e s = (r, s')"
  shows "redemptions_inv s'"
  using submitPayout_effect [OF assms(2)]
  by (elim disjE exE conjE)
     (use assms(1) in simp, (rule redemption_update_inv [OF assms(1)], assumption, assumption,
       (auto simp: outgoing_weight_def redemption_ok_def)[4])+)

lemma confirmPayout_inv:
  assumes "redemptions_inv s" and "confirmPayout i actor e s = (r, s')"
  shows "redemptions_inv s'"
  using confirmPayout_effect [OF assms(2)]
  by (elim disjE exE conjE)
     (use assms(1) in simp, (rule redemption_update_inv [OF assms(1)], assumption, assumption,
       (auto simp: outgoing_weight_def redemption_ok_def bal_payout_row)[4])+)

lemma run_redemption_inv: "keeps redemptions_inv (run_redemption c)"
  unfolding keeps_def
proof (intro allI impI)
  fix e s assume "redemptions_inv s"
  note inv = this prod.collapse [symmetric]
  show "redemptions_inv (snd (run_redemption c e s))"
    by (cases c; simp only: run_redemption.simps)
       (rule redemption_request_inv [OF inv] redemption_approve_inv [OF inv] confirmBurn_inv [OF inv]
         submitPayout_inv [OF inv] confirmPayout_inv [OF inv])+
qed

lemma redemptions_inv_foreign:
  assumes "appends A m" and "LIABILITY_PENDING_REDEMPTION \<notin> A" and "leaves redemptions m"
  shows "keeps redemptions_inv m"
  using outgoing.step_foreign [OF assms] leavesD [OF assms(3)]
  by (simp add: keeps_def redemptions_inv_def)

section \<open>A redemption from request to payout\<close>

text \<open>
  Progress: each step of the workflow succeeds when it is the redemption's turn, so an
  approved redemption can always be brought to COMPLETED (with the payout flag on).
\<close>

lemma approve_progress:
  assumes "find_row rd_id i (redemptions s) = Some q" and "rd_status q = RedemptionStatus.AWAITING_APPROVAL"
    and "0 < rd_amountMinor q" and "find_row u_id approver (users s) = Some u" and "u_institution u = ''TRUSTEE_BANK''"
  shows "\<exists>v s'. redemption_approve i approver reason e s = (Inr v, s')"
  using assms
  by (simp add: redemption_approve_def require_redemption_def set_redemption_def prog_simps)

lemma burn_progress:
  assumes "find_row rd_id i (redemptions s) = Some q" and "rd_status q = RedemptionStatus.APPROVED"
  shows "\<exists>v s'. confirmBurn i hash actor e s = (Inr v, s') \<and> flags s' = flags s
    \<and> redemptions s' = set_row rd_id i (\<lambda>x. x\<lparr>rd_status := RedemptionStatus.BURN_CONFIRMED,
            rd_burnTxHash := Some hash, rd_burnConfirmedAt := Some (now e)\<rparr>) (redemptions s)"
  using assms
  by (simp add: confirmBurn_def require_redemption_def set_redemption_def prog_simps)

lemma submit_progress:
  assumes "find_row rd_id i (redemptions s) = Some q" and "rd_status q = RedemptionStatus.BURN_CONFIRMED"
    and "isEnabled ''bank.payout.enabled'' s"
  shows "\<exists>v s'. submitPayout i actor e s = (Inr v, s')"
  using assms
  by (simp add: submitPayout_def require_redemption_def set_redemption_def prog_simps Let_def)

lemma payout_progress:
  assumes "find_row rd_id i (redemptions s) = Some q" and "rd_status q = RedemptionStatus.PAYOUT_SUBMITTED"
    and "0 < rd_amountMinor q"
  shows "\<exists>v s'. confirmPayout i actor e s = (Inr v, s')"
  using assms
  by (simp add: confirmPayout_def require_redemption_def set_redemption_def prog_simps)

end
