(* ===== verification/Liability.thy ===== *)
theory Liability
  imports Reserve
begin

text \<open>
  \<open>modules/liability/liability.service.ts\<close>: PayChain's supply feed. A snapshot is accepted
  only with a sequence above every stored one of its program and, unless enforcement is
  switched off, with a signature that verifies under PayChain's key. The lemmas show that
  the feed is strictly increasing, and that the reserve position therefore always uses
  the snapshot accepted last.
\<close>

section \<open>Ingestion\<close>

record LiabilitySnapshotInput =
  lx_programId :: string
  lx_assetId :: string
  lx_assetCode :: string
  lx_blockchainNetwork :: string
  lx_issuerAccount :: string
  lx_circulatingMinor :: string
  lx_treasuryHeldMinor :: string
  lx_lockedMinor :: string
  lx_pendingMintMinor :: string
  lx_pendingBurnMinor :: string
  lx_pendingRedemptionMinor :: string
  lx_confirmedBurnMinor :: string
  lx_effectiveLiabilityMinor :: string
  lx_currency :: string
  lx_ledgerReference :: string
  lx_sourceVersion :: string
  lx_sequence :: string
  lx_snapshotTimestamp :: string
  lx_signature :: "Signature option"

text \<open>The input without its signature.\<close>

definition signable :: "LiabilitySnapshotInput \<Rightarrow> json" where
  "signable input = JObj
     [(''programId'', JStr (lx_programId input)), (''assetId'', JStr (lx_assetId input)),
      (''assetCode'', JStr (lx_assetCode input)), (''blockchainNetwork'', JStr (lx_blockchainNetwork input)),
      (''issuerAccount'', JStr (lx_issuerAccount input)), (''circulatingMinor'', JStr (lx_circulatingMinor input)),
      (''treasuryHeldMinor'', JStr (lx_treasuryHeldMinor input)), (''lockedMinor'', JStr (lx_lockedMinor input)),
      (''pendingMintMinor'', JStr (lx_pendingMintMinor input)),
      (''pendingBurnMinor'', JStr (lx_pendingBurnMinor input)),
      (''pendingRedemptionMinor'', JStr (lx_pendingRedemptionMinor input)),
      (''confirmedBurnMinor'', JStr (lx_confirmedBurnMinor input)),
      (''effectiveLiabilityMinor'', JStr (lx_effectiveLiabilityMinor input)),
      (''currency'', JStr (lx_currency input)), (''ledgerReference'', JStr (lx_ledgerReference input)),
      (''sourceVersion'', JStr (lx_sourceVersion input)), (''sequence'', JStr (lx_sequence input)),
      (''snapshotTimestamp'', JStr (lx_snapshotTimestamp input))]"

definition liability_row :: "env \<Rightarrow> LiabilitySnapshotInput \<Rightarrow> int \<Rightarrow> bool \<Rightarrow> LiabilitySnapshot res" where
  "liability_row e input sequence verified =
     bind_r (BigInt (lx_circulatingMinor input)) (\<lambda>circ.
     bind_r (BigInt (lx_treasuryHeldMinor input)) (\<lambda>treasury.
     bind_r (BigInt (lx_lockedMinor input)) (\<lambda>locked.
     bind_r (BigInt (lx_pendingMintMinor input)) (\<lambda>pmint.
     bind_r (BigInt (lx_pendingBurnMinor input)) (\<lambda>pburn.
     bind_r (BigInt (lx_pendingRedemptionMinor input)) (\<lambda>predeem.
     bind_r (BigInt (lx_confirmedBurnMinor input)) (\<lambda>cburn.
     bind_r (BigInt (lx_effectiveLiabilityMinor input)) (\<lambda>effective.
     bind_r (date_of e (lx_snapshotTimestamp input)) (\<lambda>stamp.
     Inr \<lparr>ls_id = newId e, ls_programId = lx_programId input, ls_assetId = lx_assetId input,
       ls_assetCode = lx_assetCode input, ls_blockchainNetwork = lx_blockchainNetwork input,
       ls_issuerAccount = lx_issuerAccount input, ls_circulatingMinor = circ,
       ls_treasuryHeldMinor = treasury, ls_lockedMinor = locked, ls_pendingMintMinor = pmint,
       ls_pendingBurnMinor = pburn, ls_pendingRedemptionMinor = predeem,
       ls_confirmedBurnMinor = cburn, ls_effectiveLiabilityMinor = effective,
       ls_currency = lx_currency input, ls_ledgerReference = lx_ledgerReference input,
       ls_sourceVersion = lx_sourceVersion input, ls_sequence = sequence, ls_snapshotTimestamp = stamp,
       ls_signatureKeyId = (case lx_signature input of Some sig \<Rightarrow> sg_keyId sig | None \<Rightarrow> ''unsigned''),
       ls_signatureValue = (case lx_signature input of Some sig \<Rightarrow> sg_value sig | None \<Rightarrow> []),
       ls_signatureVerified = verified\<rparr>)))))))))"

definition liability_clash :: "LiabilitySnapshot \<Rightarrow> LiabilitySnapshot \<Rightarrow> bool" where
  "liability_clash a b \<longleftrightarrow> ls_id a = ls_id b \<or> ls_programId a = ls_programId b \<and> ls_sequence a = ls_sequence b"

text \<open>The signature decision: verified, or accepted in demo mode when nothing enforces it.\<close>

definition verify_feed :: "LiabilitySnapshotInput \<Rightarrow> bool op" where
  "verify_feed input = bnd (asks id) (\<lambda>e.
     if truthy (paychainPublicKey e) \<and> lx_signature input \<noteq> None
     then let verified = verifyPayload e (the (paychainPublicKey e)) (signable input) (the (lx_signature input)) in
       seq (check verified (BadRequest ''Liability snapshot signature failed verification'')) (ret verified)
     else bnd (gets (isEnabled ''liability.signature.required'')) (\<lambda>required.
       seq (check (\<not> required) (BadRequest ''Liability snapshot must be signed'')) (ret True)))"

definition ingest :: "LiabilitySnapshotInput \<Rightarrow> json op" where
  "ingest input = bnd (asks id) (\<lambda>e.
     bnd (lift_r (BigInt (lx_sequence input))) (\<lambda>sequence.
     bnd (gets (\<lambda>s. find_max ls_sequence (filter (\<lambda>l. ls_programId l = lx_programId input) (liabilities s)))) (\<lambda>latest.
     seq (check (\<not> (case latest of Some l \<Rightarrow> sequence \<le> ls_sequence l | None \<Rightarrow> False))
       (Conflict ''Liability snapshot sequence is not greater than latest''))
     (bnd (verify_feed input) (\<lambda>verified.
     bnd (lift_r (liability_row e input sequence verified)) (\<lambda>row.
     bnd (find_or (\<lambda>s. find_program s (lx_programId input)) (ForeignKeyViolation ''LiabilitySnapshot.programId'')) (\<lambda>_.
     seq (create_row liabilities liabilities_update liability_clash ''LiabilitySnapshot'' row)
     (ret (JObj [(''id'', JStr (newId e)), (''verified'', JBool verified)])))))))))"

section \<open>Frame\<close>

definition mask_liabilities :: "st \<Rightarrow> st" where
  "mask_liabilities s = s\<lparr>liabilities := []\<rparr>"

lemma liability_frame: "leaves mask_liabilities (ingest input)"
  unfolding ingest_def verify_feed_def Let_def
  by (intro leaves_intros; simp add: mask_liabilities_def)

section \<open>What ingestion does\<close>

text \<open>When the signature of a snapshot is accepted.\<close>

definition feed_trusted :: "env \<Rightarrow> st \<Rightarrow> LiabilitySnapshotInput \<Rightarrow> bool" where
  "feed_trusted e s input \<longleftrightarrow> (if truthy (paychainPublicKey e) \<and> lx_signature input \<noteq> None
     then verifyPayload e (the (paychainPublicKey e)) (signable input) (the (lx_signature input))
     else \<not> isEnabled ''liability.signature.required'' s)"

lemma bnd_verify_feed [prog_simps]:
  "bnd (verify_feed input) f e s = (if feed_trusted e s input then f True e s
     else (Inl (if truthy (paychainPublicKey e) \<and> lx_signature input \<noteq> None
         then BadRequest ''Liability snapshot signature failed verification''
         else BadRequest ''Liability snapshot must be signed''), s))"
  by (cases "truthy (paychainPublicKey e)"; cases "lx_signature input")
     (simp_all add: verify_feed_def feed_trusted_def prog_simps Let_def)

lemma ingest_effect:
  assumes "ingest input e s = (r, s')"
  shows "(\<exists>x. r = Inl x \<and> s' = s)
    \<or> (\<exists>n l. BigInt (lx_sequence input) = Inr n \<and> feed_trusted e s input \<and> liability_row e input n True = Inr l
        \<and> (\<forall>q \<in> set (liabilities s). ls_programId q = lx_programId input \<longrightarrow> ls_sequence q < n)
        \<and> \<not> list_ex (liability_clash l) (liabilities s) \<and> is_ok r \<and> s' = s\<lparr>liabilities := liabilities s @ [l]\<rparr>)"
proof (cases "BigInt (lx_sequence input)")
  case (Inr n)
  let ?rows = "filter (\<lambda>l. ls_programId l = lx_programId input) (liabilities s)"
  show ?thesis
  proof (cases "\<exists>l. find_max ls_sequence ?rows = Some l \<and> n \<le> ls_sequence l")
    case True
    with Inr assms show ?thesis by (auto simp: ingest_def prog_simps)
  next
    case False
    have "ls_sequence q < n" if "q \<in> set ?rows" for q
    proof (cases "find_max ls_sequence ?rows")
      case None
      then have "?rows = []" by (simp only: find_max_None)
      with that show ?thesis by (simp only: list.set) simp
    next
      case (Some l)
      with False that find_max_Some [OF Some] show ?thesis by fastforce
    qed
    with False Inr assms show ?thesis
      by (auto simp: ingest_def prog_simps split: option.splits sum.splits if_splits)
  qed
qed (use assms in \<open>auto simp: ingest_def prog_simps\<close>)

lemma liability_row_sel:
  "liability_row e input n v = Inr l \<Longrightarrow> ls_id l = newId e \<and> ls_programId l = lx_programId input
     \<and> ls_sequence l = n \<and> ls_signatureVerified l = v"
  by (auto simp: liability_row_def bind_r_eq_Inr)

section \<open>The feed is strictly increasing\<close>

definition feed :: "st \<Rightarrow> string \<Rightarrow> LiabilitySnapshot list" where
  "feed s pid = filter (\<lambda>l. ls_programId l = pid) (liabilities s)"

definition liabilities_inv :: "st \<Rightarrow> bool" where
  "liabilities_inv s \<longleftrightarrow> uniq ls_id (liabilities s) \<and> list_all ls_signatureVerified (liabilities s)
     \<and> (\<forall>pid. sorted_wrt (<) (map ls_sequence (feed s pid)))"

lemma ingest_inv: "keeps liabilities_inv (ingest input)"
  unfolding keeps_def
proof (intro allI impI)
  fix e s assume inv: "liabilities_inv s"
  obtain r s' where run: "ingest input e s = (r, s')" by fastforce
  from ingest_effect [OF run] have "liabilities_inv s'"
  proof (elim disjE exE conjE)
    fix n l assume l: "liability_row e input n True = Inr l"
      and lt: "\<forall>q \<in> set (liabilities s). ls_programId q = lx_programId input \<longrightarrow> ls_sequence q < n"
      and cl: "\<not> list_ex (liability_clash l) (liabilities s)" and s': "s' = s\<lparr>liabilities := liabilities s @ [l]\<rparr>"
    note sel = liability_row_sel [OF l]
    from cl have "\<not> has_row ls_id (ls_id l) (liabilities s)"
      by (auto simp: list_ex_iff liability_clash_def has_row_def)
    with inv lt sel s' show ?thesis
      by (auto simp: liabilities_inv_def uniq_append_row feed_def sorted_wrt_append)
  qed (use inv in simp)
  with run show "liabilities_inv (snd (ingest input e s))" by simp
qed

lemma liabilities_inv_foreign: "leaves liabilities m \<Longrightarrow> keeps liabilities_inv m"
  by (simp add: leaves_def keeps_def liabilities_inv_def feed_def)

text \<open>In such a feed the greatest sequence is the last row.\<close>

lemma find_max_sorted:
  assumes "sorted_wrt (<) (map f xs)" and "xs \<noteq> []"
  shows "find_max f xs = Some (last xs)"
  using assms
proof (induction xs)
  case (Cons x xs)
  show ?case
  proof (cases xs)
    case (Cons y ys)
    with Cons.prems have "f x < f (last xs)" by (simp add: last_in_set)
    with Cons Cons.prems Cons.IH show ?thesis by simp
  qed simp
qed simp

lemma latestLiability_last:
  assumes "liabilities_inv s"
  shows "latestLiability s pid = (if feed s pid = [] then None else Some (last (feed s pid)))"
proof -
  from assms have v: "list_all ls_signatureVerified (liabilities s)" by (simp add: liabilities_inv_def)
  then have "filter (\<lambda>l. ls_programId l = pid \<and> ls_signatureVerified l) (liabilities s) = feed s pid"
    by (auto simp: feed_def list_all_iff intro!: filter_cong)
  moreover from assms have "sorted_wrt (<) (map ls_sequence (feed s pid))" by (simp add: liabilities_inv_def)
  ultimately show ?thesis by (simp add: latestLiability_def find_max_sorted)
qed

text \<open>An accepted snapshot is what the next position uses.\<close>

lemma ingest_circulating:
  assumes "liabilities_inv s" and "ingest input e s = (Inr v, s')"
  shows "\<exists>n. BigInt (lx_circulatingMinor input) = Inr n \<and> circulating s' (lx_programId input) = n
    \<and> (\<forall>pid. pid \<noteq> lx_programId input \<longrightarrow> circulating s' pid = circulating s pid)"
proof -
  from ingest_effect [OF assms(2)] obtain n l where l: "liability_row e input n True = Inr l"
    and s': "s' = s\<lparr>liabilities := liabilities s @ [l]\<rparr>" by auto
  have inv': "liabilities_inv s'" using keepsD [OF ingest_inv assms(1), of input e] assms(2) by simp
  note sel = liability_row_sel [OF l]
  from l obtain c where c: "BigInt (lx_circulatingMinor input) = Inr c" "ls_circulatingMinor l = c"
    by (auto simp: liability_row_def bind_r_eq_Inr)
  have "feed s' (lx_programId input) = feed s (lx_programId input) @ [l]" using sel s' by (simp add: feed_def)
  moreover have "pid \<noteq> lx_programId input \<Longrightarrow> feed s' pid = feed s pid" for pid using sel s' by (simp add: feed_def)
  ultimately show ?thesis using c
    by (simp add: circulating_def latestLiability_last [OF inv'] latestLiability_last [OF assms(1)])
qed

end
