(* ===== verification/Payments.thy ===== *)
theory Payments
  imports Deposits
begin

text \<open>
  \<open>modules/paykh/payment-profiles.service.ts\<close> and \<open>payment-orders.service.ts\<close>: KHQR payment
  profiles and payment orders. A bank transaction confirms an order only when amount,
  currency, reference and recipient match and no other order used it; a refund reverses
  the collection. The invariant says that a bank transaction pays at most one order and
  that confirmed orders carry one; the merchant payable moves exactly with the confirmed
  orders.
\<close>

section \<open>Payment profiles\<close>

primrec PaymentProfileStatus_str :: "PaymentProfileStatus \<Rightarrow> string" where
  "PaymentProfileStatus_str PaymentProfileStatus.SUBMITTED = ''SUBMITTED''"
| "PaymentProfileStatus_str PaymentProfileStatus.VERIFYING = ''VERIFYING''"
| "PaymentProfileStatus_str PaymentProfileStatus.APPROVED = ''APPROVED''"
| "PaymentProfileStatus_str PaymentProfileStatus.ACTIVE = ''ACTIVE''"
| "PaymentProfileStatus_str PaymentProfileStatus.SUSPENDED = ''SUSPENDED''"
| "PaymentProfileStatus_str PaymentProfileStatus.REJECTED = ''REJECTED''"

record SubmitPaymentProfile =
  sp_tenantId :: string
  sp_recipientName :: string
  sp_recipientAccountMasked :: string
  sp_bankName :: string
  sp_currency :: string
  sp_khqrPayload :: string
  sp_actor :: string

definition require_profile :: "string \<Rightarrow> PaykhPaymentProfile op" where
  "require_profile profileId =
     find_or (\<lambda>s. find_row pp_id profileId (profiles s)) (NotFound ''Payment profile'')"

definition set_profile :: "string \<Rightarrow> (PaykhPaymentProfile \<Rightarrow> PaykhPaymentProfile) \<Rightarrow> unit op" where
  "set_profile profileId f = update_row profiles profiles_update pp_id ''PaykhPaymentProfile'' profileId f"

definition profile_submit :: "SubmitPaymentProfile \<Rightarrow> json op" where
  "profile_submit input = bnd (asks id) (\<lambda>e.
     seq (check (trim (sp_khqrPayload input) \<noteq> []) (BadRequest ''KHQR payload is required''))
     (seq (create_row profiles profiles_update (\<lambda>a b. pp_id a = pp_id b) ''PaykhPaymentProfile''
       \<lparr>pp_id = newId e, pp_tenantId = sp_tenantId input, pp_recipientName = sp_recipientName input,
        pp_recipientAccountMasked = sp_recipientAccountMasked input, pp_bankName = sp_bankName input,
        pp_currency = sp_currency input, pp_khqrPayload = sp_khqrPayload input,
        pp_status = PaymentProfileStatus.SUBMITTED, pp_verifiedAt = None\<rparr>)
     (seq (audit (audit_rec (sp_actor input) ''paykh.payment_profile.submitted'' ''PAYKH_PAYMENT_PROFILE'' (newId e)))
     (ret (id_status (newId e) ''SUBMITTED'')))))"

definition profile_verify :: "string \<Rightarrow> string \<Rightarrow> json op" where
  "profile_verify profileId actor = bnd (asks id) (\<lambda>e.
     bnd (require_profile profileId) (\<lambda>profile.
     seq (check (\<not> (pp_status profile \<noteq> PaymentProfileStatus.SUBMITTED \<and> pp_status profile \<noteq> PaymentProfileStatus.VERIFYING))
       (BadRequest ''Profile cannot be verified''))
     (seq (set_profile profileId (\<lambda>p. p\<lparr>pp_status := PaymentProfileStatus.APPROVED, pp_verifiedAt := Some (now e)\<rparr>))
     (seq (audit ((audit_rec actor ''paykh.payment_profile.verified'' ''PAYKH_PAYMENT_PROFILE'' profileId)
       \<lparr>ar_afterState := Some (JObj [(''status'', JStr ''APPROVED'')])\<rparr>))
     (seq (publishToPaykh ''paykh.payment-profile.verified'' (JObj [(''profileId'', JStr profileId),
        (''tenantId'', JStr (pp_tenantId profile))]))
     (ret (id_status profileId ''APPROVED'')))))))"

definition profile_activate :: "string \<Rightarrow> string \<Rightarrow> json op" where
  "profile_activate profileId actor =
     bnd (require_profile profileId) (\<lambda>profile.
     seq (check (pp_status profile = PaymentProfileStatus.APPROVED) (BadRequest ''Profile must be APPROVED before activation''))
     (seq (set_profile profileId (\<lambda>p. p\<lparr>pp_status := PaymentProfileStatus.ACTIVE\<rparr>))
     (seq (audit (audit_rec actor ''paykh.payment_profile.activated'' ''PAYKH_PAYMENT_PROFILE'' profileId))
     (ret (id_status profileId ''ACTIVE'')))))"

definition profile_suspend :: "string \<Rightarrow> string \<Rightarrow> string \<Rightarrow> json op" where
  "profile_suspend profileId actor reason =
     bnd (require_profile profileId) (\<lambda>_.
     seq (set_profile profileId (\<lambda>p. p\<lparr>pp_status := PaymentProfileStatus.SUSPENDED\<rparr>))
     (seq (audit ((audit_rec actor ''paykh.payment_profile.suspended'' ''PAYKH_PAYMENT_PROFILE'' profileId)\<lparr>ar_reason := Some reason\<rparr>))
     (seq (publishToPaykh ''paykh.payment-profile.suspended'' (JObj [(''profileId'', JStr profileId)]))
     (ret (id_status profileId ''SUSPENDED'')))))"

definition profile_get :: "string \<Rightarrow> json op" where
  "profile_get profileId = bnd (require_profile profileId) (\<lambda>p.
     ret (JObj [(''id'', JStr (pp_id p)), (''tenantId'', JStr (pp_tenantId p)),
       (''status'', JStr (PaymentProfileStatus_str (pp_status p))), (''recipientName'', JStr (pp_recipientName p)),
       (''recipientAccountMasked'', JStr (pp_recipientAccountMasked p)), (''bankName'', JStr (pp_bankName p)),
       (''currency'', JStr (pp_currency p))]))"

definition profile_listByTenant :: "string \<Rightarrow> json op" where
  "profile_listByTenant tenantId = bnd (gets (\<lambda>s. filter (\<lambda>p. pp_tenantId p = tenantId) (profiles s))) (\<lambda>rows.
     ret (JObj [(''profiles'', JArr (map (\<lambda>p. JObj [(''id'', JStr (pp_id p)),
       (''status'', JStr (PaymentProfileStatus_str (pp_status p))), (''recipientName'', JStr (pp_recipientName p)),
       (''bankName'', JStr (pp_bankName p)), (''currency'', JStr (pp_currency p))]) rows))]))"

section \<open>Payment orders\<close>

primrec PaymentOrderStatus_str :: "PaymentOrderStatus \<Rightarrow> string" where
  "PaymentOrderStatus_str PaymentOrderStatus.CREATED = ''CREATED''"
| "PaymentOrderStatus_str PaymentOrderStatus.AWAITING_PAYMENT = ''AWAITING_PAYMENT''"
| "PaymentOrderStatus_str PaymentOrderStatus.PAYMENT_DETECTED = ''PAYMENT_DETECTED''"
| "PaymentOrderStatus_str PaymentOrderStatus.CONFIRMED = ''CONFIRMED''"
| "PaymentOrderStatus_str PaymentOrderStatus.DUPLICATE = ''DUPLICATE''"
| "PaymentOrderStatus_str PaymentOrderStatus.REJECTED = ''REJECTED''"
| "PaymentOrderStatus_str PaymentOrderStatus.REFUNDED = ''REFUNDED''"
| "PaymentOrderStatus_str PaymentOrderStatus.EXPIRED = ''EXPIRED''"
| "PaymentOrderStatus_str PaymentOrderStatus.CANCELLED = ''CANCELLED''"

record CreatePaymentOrder =
  co_tenantId :: string
  co_profileId :: string
  co_amountMinor :: string
  co_currency :: string
  co_ttlSeconds :: "int option"
  co_actor :: string

record CheckPaymentInput =
  cp_bankTransactionId :: string
  cp_amountMinor :: string
  cp_currency :: string
  cp_paymentReference :: string
  cp_recipientAccountMasked :: string
  cp_reserveAccountId :: string
  cp_actor :: string

definition buildKhqr :: "string \<Rightarrow> string \<Rightarrow> string \<Rightarrow> string" where
  "buildKhqr basePayload amountMinor reference = basePayload @ ''|amt='' @ amountMinor @ ''|ref='' @ reference"

definition require_order :: "string \<Rightarrow> PaykhPaymentOrder op" where
  "require_order orderId = find_or (\<lambda>s. find_row po_id orderId (orders s)) (NotFound ''Payment order'')"

definition set_order :: "string \<Rightarrow> (PaykhPaymentOrder \<Rightarrow> PaykhPaymentOrder) \<Rightarrow> unit op" where
  "set_order orderId f = update_row orders orders_update po_id ''PaykhPaymentOrder'' orderId f"

definition order_clash :: "PaykhPaymentOrder \<Rightarrow> PaykhPaymentOrder \<Rightarrow> bool" where
  "order_clash a b \<longleftrightarrow> po_id a = po_id b \<or> po_paymentReference a = po_paymentReference b"

definition new_order :: "env \<Rightarrow> CreatePaymentOrder \<Rightarrow> PaykhPaymentProfile \<Rightarrow> int \<Rightarrow> PaykhPaymentOrder" where
  "new_order e input profile amount = (let paymentReference = ''KHQR-'' @ toUpperCase (take 12 (randomUUID e));
       ttl = (case co_ttlSeconds input of Some t \<Rightarrow> t | None \<Rightarrow> 900) in
     \<lparr>po_id = newId e, po_tenantId = co_tenantId input, po_profileId = co_profileId input,
      po_amountMinor = amount, po_currency = co_currency input, po_paymentReference = paymentReference,
      po_khqrString = Some (buildKhqr (pp_khqrPayload profile) (co_amountMinor input) paymentReference),
      po_status = PaymentOrderStatus.AWAITING_PAYMENT, po_matchedBankTransactionId = None,
      po_confirmedAt = None, po_expiresAt = now e + ttl * 1000\<rparr>)"

definition order_create :: "CreatePaymentOrder \<Rightarrow> json op" where
  "order_create input = bnd (asks id) (\<lambda>e.
     bnd (require_profile (co_profileId input)) (\<lambda>profile.
     seq (check (pp_status profile = PaymentProfileStatus.ACTIVE) (BadRequest ''Payment profile must be ACTIVE to accept orders''))
     (seq (check (pp_currency profile = co_currency input) (BadRequest ''Order currency does not match profile currency''))
     (bnd (lift_r (BigInt (co_amountMinor input))) (\<lambda>amount.
     let order = new_order e input profile amount in
     seq (create_row orders orders_update order_clash ''PaykhPaymentOrder'' order)
     (seq (audit ((audit_rec (co_actor input) ''paykh.payment_order.created'' ''PAYKH_PAYMENT_ORDER'' (newId e))
       \<lparr>ar_afterState := Some (JObj [(''paymentReference'', JStr (po_paymentReference order)),
          (''amountMinor'', JStr (co_amountMinor input))])\<rparr>))
     (ret (JObj [(''id'', JStr (newId e)), (''status'', JStr ''AWAITING_PAYMENT''),
        (''paymentReference'', JStr (po_paymentReference order)), (''khqrString'', jopt (po_khqrString order)),
        (''expiresAt'', JStr (toISOString (po_expiresAt order)))]))))))))"

definition order_refs :: "PaykhPaymentOrder \<Rightarrow> string \<Rightarrow> JournalReferences" where
  "order_refs order actor = refs_of (''paykh-order:'' @ po_id order) (po_tenantId order) ''FIAT'' actor"

definition mismatch_list :: "CheckPaymentInput \<Rightarrow> int \<Rightarrow> PaykhPaymentOrder \<Rightarrow> PaykhPaymentProfile option \<Rightarrow> string list" where
  "mismatch_list input amount order profile =
     (if amount \<noteq> po_amountMinor order then [''amount''] else [])
     @ (if cp_currency input \<noteq> po_currency order then [''currency''] else [])
     @ (if cp_paymentReference input \<noteq> po_paymentReference order then [''reference''] else [])
     @ (case profile of Some p \<Rightarrow> if cp_recipientAccountMasked input \<noteq> pp_recipientAccountMasked p then [''recipient''] else []
        | None \<Rightarrow> [])"

definition confirm_order :: "PaykhPaymentOrder \<Rightarrow> CheckPaymentInput \<Rightarrow> json op" where
  "confirm_order order input = bnd (asks id) (\<lambda>e.
     bnd (post_res (paykhPaymentCollectionEntry (money_big (po_amountMinor order) (po_currency order))
       (order_refs order (cp_actor input)))) (\<lambda>_.
     seq (set_order (po_id order) (\<lambda>x. x\<lparr>po_status := PaymentOrderStatus.CONFIRMED,
        po_matchedBankTransactionId := Some (cp_bankTransactionId input), po_confirmedAt := Some (now e)\<rparr>))
     (seq (audit ((audit_rec (cp_actor input) ''paykh.payment.confirmed'' ''PAYKH_PAYMENT_ORDER'' (po_id order))
        \<lparr>ar_afterState := Some (JObj [(''status'', JStr ''CONFIRMED''),
           (''bankTransactionId'', JStr (cp_bankTransactionId input))])\<rparr>))
     (seq (publishToPaykh ''paykh.payment.confirmed'' (JObj [(''orderId'', JStr (po_id order)),
        (''tenantId'', JStr (po_tenantId order)), (''amountMinor'', jbig (po_amountMinor order)),
        (''currency'', JStr (po_currency order)), (''bankTransactionId'', JStr (cp_bankTransactionId input))]))
     (ret (id_status (po_id order) ''CONFIRMED''))))))"

definition match_order :: "PaykhPaymentOrder \<Rightarrow> CheckPaymentInput \<Rightarrow> json op" where
  "match_order order input =
     bnd (lift_r (BigInt (cp_amountMinor input))) (\<lambda>amount.
     bnd (gets (\<lambda>s. find_row pp_id (po_profileId order) (profiles s))) (\<lambda>profile.
     let mismatches = mismatch_list input amount order profile in
     if length mismatches > 0
     then seq (publishToPaykh ''paykh.payment.rejected'' (JObj [(''orderId'', JStr (po_id order)),
            (''mismatches'', JArr (map JStr mismatches))]))
          (raise (BadRequestReasons ''Payment does not match order'' mismatches))
     else confirm_order order input))"

definition checkPayment :: "string \<Rightarrow> CheckPaymentInput \<Rightarrow> json op" where
  "checkPayment orderId input = bnd (asks id) (\<lambda>e.
     bnd (require_order orderId) (\<lambda>order.
     if po_status order = PaymentOrderStatus.CONFIRMED
     then if po_matchedBankTransactionId order = Some (cp_bankTransactionId input)
          then ret (JObj [(''id'', JStr orderId), (''status'', JStr ''CONFIRMED''), (''alreadyConfirmed'', JBool True)])
          else raise (Conflict ''Order already confirmed by a different bank transaction'')
     else if po_status order \<noteq> PaymentOrderStatus.AWAITING_PAYMENT \<and> po_status order \<noteq> PaymentOrderStatus.PAYMENT_DETECTED
     then raise (BadRequest ''Order cannot be confirmed'')
     else if po_expiresAt order < now e
     then seq (set_order orderId (\<lambda>x. x\<lparr>po_status := PaymentOrderStatus.EXPIRED\<rparr>))
          (raise (BadRequest ''Payment order expired''))
     else bnd (gets (\<lambda>s. find_row po_matchedBankTransactionId (Some (cp_bankTransactionId input)) (orders s))) (\<lambda>priorUse.
     case priorUse of
       Some u \<Rightarrow> if po_id u \<noteq> orderId
         then seq (publishToPaykh ''paykh.payment.duplicate'' (JObj [(''orderId'', JStr orderId),
                (''bankTransactionId'', JStr (cp_bankTransactionId input)), (''conflictingOrderId'', JStr (po_id u))]))
              (raise (Conflict ''Bank transaction already applied to another payment order (duplicate)''))
         else match_order order input
     | None \<Rightarrow> match_order order input)))"

definition refund_entry :: "PaykhPaymentOrder \<Rightarrow> string \<Rightarrow> string \<Rightarrow> JournalEntry res" where
  "refund_entry order actor reason =
     bind_r (paykhPaymentCollectionEntry (money_big (po_amountMinor order) (po_currency order)) (order_refs order actor))
       (\<lambda>collection. reverse collection (''paykh-refund:'' @ po_id order) actor reason)"

definition order_refund :: "string \<Rightarrow> string \<Rightarrow> string \<Rightarrow> json op" where
  "order_refund orderId actor reason =
     bnd (require_order orderId) (\<lambda>order.
     seq (check (po_status order = PaymentOrderStatus.CONFIRMED) (BadRequest ''Only CONFIRMED orders can be refunded''))
     (bnd (post_res (refund_entry order actor reason)) (\<lambda>_.
     seq (set_order orderId (\<lambda>x. x\<lparr>po_status := PaymentOrderStatus.REFUNDED\<rparr>))
     (seq (audit ((audit_rec actor ''paykh.payment.refunded'' ''PAYKH_PAYMENT_ORDER'' orderId)\<lparr>ar_reason := Some reason\<rparr>))
     (seq (publishToPaykh ''paykh.payment.refunded'' (JObj [(''orderId'', JStr orderId),
        (''tenantId'', JStr (po_tenantId order)), (''amountMinor'', jbig (po_amountMinor order))]))
     (ret (id_status orderId ''REFUNDED'')))))))"

definition order_get :: "string \<Rightarrow> json op" where
  "order_get orderId = bnd (require_order orderId) (\<lambda>order.
     ret (JObj [(''id'', JStr (po_id order)), (''status'', JStr (PaymentOrderStatus_str (po_status order))),
       (''paymentReference'', JStr (po_paymentReference order)), (''amountMinor'', jbig (po_amountMinor order)),
       (''currency'', JStr (po_currency order)), (''matchedBankTransactionId'', jopt (po_matchedBankTransactionId order))]))"

definition order_status :: "string \<Rightarrow> json op" where
  "order_status orderId = bnd (require_order orderId) (\<lambda>order.
     ret (JObj [(''id'', JStr (po_id order)), (''status'', JStr (PaymentOrderStatus_str (po_status order))),
       (''expiresAt'', JStr (toISOString (po_expiresAt order)))]))"

definition order_cancel :: "string \<Rightarrow> string \<Rightarrow> json op" where
  "order_cancel orderId actor =
     bnd (require_order orderId) (\<lambda>order.
     seq (check (po_status order \<noteq> PaymentOrderStatus.CONFIRMED) (BadRequest ''A confirmed order cannot be cancelled (use refund)''))
     (seq (set_order orderId (\<lambda>x. x\<lparr>po_status := PaymentOrderStatus.CANCELLED\<rparr>))
     (seq (audit (audit_rec actor ''paykh.payment_order.cancelled'' ''PAYKH_PAYMENT_ORDER'' orderId))
     (ret (id_status orderId ''CANCELLED'')))))"

section \<open>Frame and journal\<close>

datatype payment_cmd =
    SubmitProfile SubmitPaymentProfile
  | VerifyProfile string string
  | ActivateProfile string string
  | SuspendProfile string string string
  | CreateOrder CreatePaymentOrder
  | CheckPayment string CheckPaymentInput
  | RefundOrder string string string
  | CancelOrder string string

primrec run_payment :: "payment_cmd \<Rightarrow> json op" where
  "run_payment (SubmitProfile input) = profile_submit input"
| "run_payment (VerifyProfile p actor) = profile_verify p actor"
| "run_payment (ActivateProfile p actor) = profile_activate p actor"
| "run_payment (SuspendProfile p actor reason) = profile_suspend p actor reason"
| "run_payment (CreateOrder input) = order_create input"
| "run_payment (CheckPayment i input) = checkPayment i input"
| "run_payment (RefundOrder i actor reason) = order_refund i actor reason"
| "run_payment (CancelOrder i actor) = order_cancel i actor"

lemmas profile_op_defs = profile_submit_def profile_verify_def profile_activate_def profile_suspend_def
  require_profile_def set_profile_def

lemmas payment_op_defs = profile_op_defs order_create_def checkPayment_def
  order_refund_def order_cancel_def require_order_def set_order_def

definition mask_payments :: "st \<Rightarrow> st" where
  "mask_payments s = s\<lparr>profiles := [], orders := [], entries := [], audits := [], outbox := []\<rparr>"

lemma leaves_match_order [leaves_intros]: "leaves mask_payments (match_order x input)"
  unfolding match_order_def confirm_order_def set_order_def Let_def
  by (intro leaves_intros; simp add: mask_payments_def)

lemma payment_frame: "leaves mask_payments (run_payment c)"
  by (cases c; simp only: run_payment.simps; unfold payment_op_defs Let_def)
     (intro leaves_intros; simp add: mask_payments_def)+

definition payment_accounts :: "string set" where
  "payment_accounts = {ASSET_TRUSTEE_BANK_CASH, LIABILITY_PAYKH_MERCHANT_PAYABLE}"

lemma refund_entry_Inr:
  assumes "refund_entry x actor reason = Inr j" and that: "a = money_big (po_amountMinor x) (po_currency x)"
  shows "journal_ok j \<and> je_postings j = map swap_posting [debit ASSET_TRUSTEE_BANK_CASH a, credit LIABILITY_PAYKH_MERCHANT_PAYABLE a]
    \<and> je_currency j = currency a \<and> ref_programId (je_references j) = po_tenantId x \<and> postable a"
proof -
  from assms obtain c where c: "paykhPaymentCollectionEntry a (order_refs x actor) = Inr c"
    and r: "reverse c (''paykh-refund:'' @ po_id x) actor reason = Inr j"
    by (auto simp: refund_entry_def bind_r_eq_Inr that)
  note ts = two_sided_Inr [OF c [unfolded template_two_sided]]
  from r ts have "ref_programId (je_references j) = po_tenantId x"
    by (auto simp: reverse_def bind_r_eq_Inr buildJournalEntry_iff built_def order_refs_def refs_of_def)
  with ts r reverse_valid [of c "''paykh-refund:'' @ po_id x" actor reason] reverse_journal_ok [OF r]
  show ?thesis by (auto simp: postable_def)
qed

lemma refund_entry_ok:
  assumes "0 < po_amountMinor x"
  shows "\<exists>j. refund_entry x actor reason = Inr j"
proof -
  let ?a = "money_big (po_amountMinor x) (po_currency x)"
  have "\<exists>c. paykhPaymentCollectionEntry ?a (order_refs x actor) = Inr c"
    unfolding template_two_sided by (subst two_sided_ok) (use assms in simp_all)
  then obtain c where c: "paykhPaymentCollectionEntry ?a (order_refs x actor) = Inr c" ..
  from two_sided_Inr [OF c [unfolded template_two_sided]] have "valid_input c" by simp
  from reverse_valid [OF this, of "''paykh-refund:'' @ po_id x" actor reason] c show ?thesis
    by (auto simp: refund_entry_def)
qed

lemma refund_entry_fails:
  assumes "\<not> 0 < po_amountMinor x"
  shows "\<exists>y. refund_entry x actor reason = Inl y"
  using refund_entry_Inr [OF _ refl, of x actor reason] assms
  by (cases "refund_entry x actor reason") auto

definition refund_row :: "PaykhPaymentOrder \<Rightarrow> string \<Rightarrow> string \<Rightarrow> LedgerEntry" where
  "refund_row x actor reason = ledger_row (projr (refund_entry x actor reason))"

lemma post_refund_entry:
  "0 < po_amountMinor x \<Longrightarrow> bnd (post_res (refund_entry x actor reason)) f e s =
     f () e (s\<lparr>entries := entries s @ [refund_row x actor reason]\<rparr>)"
  using refund_entry_ok [of x actor reason]
  by (auto simp: post_res_def post_def prog_simps refund_row_def)

lemma appends_refund [appends_intros]:
  "payment_accounts \<subseteq> A \<Longrightarrow> appends A (post_res (refund_entry x actor reason))"
  by (rule appends_post_res) (auto dest!: refund_entry_Inr [OF _ refl]
      simp: swap_posting_def debit_def credit_def payment_accounts_def)

lemma appends_match_order [appends_intros]: "appends payment_accounts (match_order x input)"
  unfolding match_order_def confirm_order_def set_order_def Let_def
  by (intro appends_intros; simp add: payment_accounts_def)

lemma payment_appends: "appends payment_accounts (run_payment c)"
  by (cases c; simp only: run_payment.simps; unfold payment_op_defs Let_def)
     (intro appends_intros; simp add: payment_accounts_def)+

section \<open>What the operations do\<close>

lemma order_create_effect:
  assumes "order_create input e s = (r, s')"
  shows "(\<exists>x. r = Inl x \<and> s' = s)
    \<or> (\<exists>p n. find_row pp_id (co_profileId input) (profiles s) = Some p \<and> pp_status p = PaymentProfileStatus.ACTIVE
        \<and> pp_currency p = co_currency input \<and> BigInt (co_amountMinor input) = Inr n \<and> is_ok r
        \<and> \<not> list_ex (order_clash (new_order e input p n)) (orders s)
        \<and> orders s' = orders s @ [new_order e input p n] \<and> entries s' = entries s \<and> profiles s' = profiles s)"
  using assms
  by (auto simp: order_create_def require_profile_def prog_simps Let_def split: option.splits sum.splits if_splits)

text \<open>What a payment check needs before it books anything.\<close>

definition payable_by :: "env \<Rightarrow> st \<Rightarrow> string \<Rightarrow> CheckPaymentInput \<Rightarrow> PaykhPaymentOrder \<Rightarrow> bool" where
  "payable_by e s i input x \<longleftrightarrow> find_row po_id i (orders s) = Some x
     \<and> (po_status x = PaymentOrderStatus.AWAITING_PAYMENT \<or> po_status x = PaymentOrderStatus.PAYMENT_DETECTED)
     \<and> now e \<le> po_expiresAt x
     \<and> (case find_row po_matchedBankTransactionId (Some (cp_bankTransactionId input)) (orders s) of
          Some u \<Rightarrow> po_id u = i | None \<Rightarrow> True)
     \<and> BigInt (cp_amountMinor input) = Inr (po_amountMinor x) \<and> cp_currency input = po_currency x
     \<and> cp_paymentReference input = po_paymentReference x
     \<and> (case find_row pp_id (po_profileId x) (profiles s) of
          Some p \<Rightarrow> cp_recipientAccountMasked input = pp_recipientAccountMasked p | None \<Rightarrow> True)"

definition collection_row :: "PaykhPaymentOrder \<Rightarrow> string \<Rightarrow> LedgerEntry" where
  "collection_row x actor = transfer_row ''PayKH customer payment collected''
     ASSET_TRUSTEE_BANK_CASH LIABILITY_PAYKH_MERCHANT_PAYABLE (money_big (po_amountMinor x) (po_currency x)) (order_refs x actor)"

lemma mismatch_Nil:
  "mismatch_list input n x p = [] \<longleftrightarrow> n = po_amountMinor x \<and> cp_currency input = po_currency x
     \<and> cp_paymentReference input = po_paymentReference x
     \<and> (case p of Some q \<Rightarrow> cp_recipientAccountMasked input = pp_recipientAccountMasked q | None \<Rightarrow> True)"
  by (auto simp: mismatch_list_def split: option.splits)

text \<open>Outcome of matching: refused with nothing booked, or confirmed and booked.\<close>

lemma match_order_effect:
  assumes "match_order x input e s = (r, s')" and "has_row po_id (po_id x) (orders s)"
  shows "\<not> is_ok r \<and> orders s' = orders s \<and> entries s' = entries s
    \<or> is_ok r \<and> 0 < po_amountMinor x \<and> (\<exists>n. BigInt (cp_amountMinor input) = Inr n
        \<and> mismatch_list input n x (find_row pp_id (po_profileId x) (profiles s)) = [])
      \<and> entries s' = entries s @ [collection_row x (cp_actor input)]
      \<and> orders s' = set_row po_id (po_id x) (\<lambda>y. y\<lparr>po_status := PaymentOrderStatus.CONFIRMED,
          po_matchedBankTransactionId := Some (cp_bankTransactionId input), po_confirmedAt := Some (now e)\<rparr>) (orders s)"
proof (cases "BigInt (cp_amountMinor input)")
  case (Inl y)
  with assms show ?thesis by (auto simp: match_order_def prog_simps)
next
  case (Inr n)
  let ?ms = "mismatch_list input n x (find_row pp_id (po_profileId x) (profiles s))"
  show ?thesis
  proof (cases "?ms = []")
    case True
    with Inr assms show ?thesis
      by (auto simp: match_order_def confirm_order_def set_order_def prog_simps Let_def collection_row_def split: if_splits)
  next
    case False
    with Inr assms show ?thesis by (auto simp: match_order_def prog_simps Let_def)
  qed
qed

lemma checkPayment_effect:
  assumes run: "checkPayment i input e s = (r, s')"
  shows "orders s' = orders s \<and> entries s' = entries s
    \<or> (\<exists>x. find_row po_id i (orders s) = Some x \<and> po_expiresAt x < now e \<and> po_status x \<noteq> PaymentOrderStatus.CONFIRMED
        \<and> \<not> is_ok r \<and> entries s' = entries s
        \<and> orders s' = set_row po_id i (\<lambda>x. x\<lparr>po_status := PaymentOrderStatus.EXPIRED\<rparr>) (orders s)
        \<and> (po_status x = PaymentOrderStatus.AWAITING_PAYMENT \<or> po_status x = PaymentOrderStatus.PAYMENT_DETECTED))
    \<or> (\<exists>x. payable_by e s i input x \<and> 0 < po_amountMinor x \<and> is_ok r
        \<and> entries s' = entries s @ [collection_row x (cp_actor input)]
        \<and> orders s' = set_row po_id i (\<lambda>y. y\<lparr>po_status := PaymentOrderStatus.CONFIRMED,
            po_matchedBankTransactionId := Some (cp_bankTransactionId input), po_confirmedAt := Some (now e)\<rparr>) (orders s))"
proof (cases "find_row po_id i (orders s)")
  case None
  with run show ?thesis by (auto simp: checkPayment_def require_order_def prog_simps)
next
  case (Some x)
  note x = this
  from find_row_Some [OF x] have xi: "po_id x = i" by simp
  let ?open = "po_status x = PaymentOrderStatus.AWAITING_PAYMENT \<or> po_status x = PaymentOrderStatus.PAYMENT_DETECTED"
  let ?u = "find_row po_matchedBankTransactionId (Some (cp_bankTransactionId input)) (orders s)"
  consider (closed) "\<not> ?open" | (late) ?open "po_expiresAt x < now e"
    | (dup) u where ?open "now e \<le> po_expiresAt x" "?u = Some u" "po_id u \<noteq> i"
    | (go) ?open "now e \<le> po_expiresAt x" "case ?u of Some u \<Rightarrow> po_id u = i | None \<Rightarrow> True"
    by (cases ?u) force+
  then show ?thesis
  proof cases
    case closed
    with run x show ?thesis by (auto simp: checkPayment_def require_order_def prog_simps split: if_splits)
  next
    case late
    with run x show ?thesis by (auto simp: checkPayment_def require_order_def set_order_def prog_simps)
  next
    case dup
    with run x show ?thesis by (auto simp: checkPayment_def require_order_def prog_simps)
  next
    case go
    with run x have "match_order x input e s = (r, s')"
      by (auto simp: checkPayment_def require_order_def prog_simps split: option.splits)
    from match_order_effect [OF this] x xi go show ?thesis
      by (auto simp: payable_by_def mismatch_Nil)
  qed
qed

lemma order_refund_effect:
  assumes "order_refund i actor reason e s = (r, s')"
  shows "(\<exists>x. r = Inl x \<and> s' = s)
    \<or> (\<exists>x. find_row po_id i (orders s) = Some x \<and> po_status x = PaymentOrderStatus.CONFIRMED \<and> 0 < po_amountMinor x
        \<and> is_ok r \<and> entries s' = entries s @ [refund_row x actor reason]
        \<and> orders s' = set_row po_id i (\<lambda>x. x\<lparr>po_status := PaymentOrderStatus.REFUNDED\<rparr>) (orders s))"
proof (cases "find_row po_id i (orders s)")
  case None
  with assms show ?thesis by (auto simp: order_refund_def require_order_def prog_simps)
next
  case (Some x)
  show ?thesis
  proof (cases "po_status x = PaymentOrderStatus.CONFIRMED")
    case False
    with Some assms show ?thesis by (auto simp: order_refund_def require_order_def prog_simps)
  next
    case True
    show ?thesis
    proof (cases "0 < po_amountMinor x")
      case pos: True
      with Some True assms show ?thesis
        by (auto simp: order_refund_def require_order_def set_order_def prog_simps post_refund_entry)
    next
      case neg: False
      from refund_entry_fails [OF neg, of actor reason] obtain y where "refund_entry x actor reason = Inl y" ..
      with Some True assms show ?thesis by (auto simp: order_refund_def require_order_def prog_simps post_res_def)
    qed
  qed
qed

lemma order_cancel_effect:
  assumes "order_cancel i actor e s = (r, s')"
  shows "(\<exists>x. r = Inl x \<and> s' = s)
    \<or> (\<exists>x. find_row po_id i (orders s) = Some x \<and> po_status x \<noteq> PaymentOrderStatus.CONFIRMED
        \<and> is_ok r \<and> entries s' = entries s
        \<and> orders s' = set_row po_id i (\<lambda>x. x\<lparr>po_status := PaymentOrderStatus.CANCELLED\<rparr>) (orders s))"
  using assms
  by (auto simp: order_cancel_def require_order_def set_order_def prog_simps split: option.splits if_splits)

section \<open>One bank transaction, one order\<close>

definition order_ok :: "PaykhPaymentOrder \<Rightarrow> bool" where
  "order_ok x \<longleftrightarrow> (po_matchedBankTransactionId x = None \<longleftrightarrow> po_confirmedAt x = None)
     \<and> (case po_status x of
          PaymentOrderStatus.AWAITING_PAYMENT \<Rightarrow> po_matchedBankTransactionId x = None
        | PaymentOrderStatus.EXPIRED \<Rightarrow> po_matchedBankTransactionId x = None
        | PaymentOrderStatus.CONFIRMED \<Rightarrow> po_matchedBankTransactionId x \<noteq> None \<and> 0 < po_amountMinor x
        | PaymentOrderStatus.REFUNDED \<Rightarrow> po_matchedBankTransactionId x \<noteq> None \<and> 0 < po_amountMinor x
        | PaymentOrderStatus.CANCELLED \<Rightarrow> True
        | _ \<Rightarrow> False)"

definition one_order_each :: "PaykhPaymentOrder list \<Rightarrow> bool" where
  "one_order_each xs \<longleftrightarrow> (\<forall>a \<in> set xs. \<forall>b \<in> set xs. po_matchedBankTransactionId a \<noteq> None
     \<longrightarrow> po_matchedBankTransactionId a = po_matchedBankTransactionId b \<longrightarrow> a = b)"

lemma one_order_eachD:
  "one_order_each xs \<Longrightarrow> a \<in> set xs \<Longrightarrow> b \<in> set xs \<Longrightarrow> po_matchedBankTransactionId a \<noteq> None \<Longrightarrow>
   po_matchedBankTransactionId a = po_matchedBankTransactionId b \<Longrightarrow> a = b"
  unfolding one_order_each_def by blast

lemma one_order_each_snoc:
  assumes "one_order_each xs" and "po_matchedBankTransactionId x = None"
  shows "one_order_each (xs @ [x])"
  unfolding one_order_each_def
proof (intro ballI impI)
  fix a b assume "a \<in> set (xs @ [x])" "b \<in> set (xs @ [x])"
    and n: "po_matchedBankTransactionId a \<noteq> None" "po_matchedBankTransactionId a = po_matchedBankTransactionId b"
  with assms(2) have "a \<in> set xs" "b \<in> set xs" by auto
  from one_order_eachD [OF assms(1) this n] show "a = b" .
qed

definition orders_inv :: "st \<Rightarrow> bool" where
  "orders_inv s \<longleftrightarrow> uniq po_id (orders s) \<and> uniq po_paymentReference (orders s) \<and> list_all order_ok (orders s)
     \<and> one_order_each (orders s)"

lemma orders_inv_cong: "orders s' = orders s \<Longrightarrow> orders_inv s' = orders_inv s"
  by (simp only: orders_inv_def)

lemma orders_inv_row: "orders_inv s \<Longrightarrow> find_row po_id i (orders s) = Some x \<Longrightarrow> order_ok x \<and> x \<in> set (orders s) \<and> po_id x = i"
  by (auto simp: orders_inv_def list_all_iff dest: find_row_Some)

lemma orders_update_inv:
  assumes inv: "orders_inv s" and x: "find_row po_id i (orders s) = Some x"
    and s': "orders s' = set_row po_id i f (orders s)"
    and f: "\<And>y. po_id (f y) = po_id y" "\<And>y. po_paymentReference (f y) = po_paymentReference y"
    and ok: "order_ok (f x)"
    and fresh: "po_matchedBankTransactionId (f x) \<noteq> po_matchedBankTransactionId x \<Longrightarrow>
      \<forall>b \<in> set (orders s). po_matchedBankTransactionId b \<noteq> po_matchedBankTransactionId (f x)"
  shows "orders_inv s'"
proof -
  have uq: "uniq po_id (orders s)" and ref: "uniq po_paymentReference (orders s)" and all: "list_all order_ok (orders s)"
    and one: "one_order_each (orders s)"
    using inv unfolding orders_inv_def by blast+
  from find_row_Some [OF x] have xin: "x \<in> set (orders s)" and xi: "po_id x = i" by simp_all
  have mem: "y = f x \<or> y \<in> set (orders s) \<and> y \<noteq> x" if "y \<in> set (orders s')" for y
    using that unfolding s'
  proof (cases rule: set_row_cases)
    case (changed q)
    with x find_row_uniq [OF uq, of q] show ?thesis by simp
  next
    case same
    with xi show ?thesis by auto
  qed
  have clash: "po_matchedBankTransactionId (f x) = None"
    if "b \<in> set (orders s)" "b \<noteq> x" "po_matchedBankTransactionId (f x) = po_matchedBankTransactionId b" for b
  proof (cases "po_matchedBankTransactionId (f x) = po_matchedBankTransactionId x")
    case True
    show ?thesis
    proof (rule ccontr)
      assume "po_matchedBankTransactionId (f x) \<noteq> None"
      with True that(3) have "po_matchedBankTransactionId b \<noteq> None" "po_matchedBankTransactionId b = po_matchedBankTransactionId x"
        by simp_all
      from one_order_eachD [OF one that(1) xin this] that(2) show False by simp
    qed
  next
    case False
    with fresh [OF False] that show ?thesis by auto
  qed
  have "a = b" if "a \<in> set (orders s')" "b \<in> set (orders s')" "po_matchedBankTransactionId a \<noteq> None"
    "po_matchedBankTransactionId a = po_matchedBankTransactionId b" for a b
    using mem [OF that(1)] mem [OF that(2)]
  proof (elim disjE conjE)
    assume "a = f x" "b \<in> set (orders s)" "b \<noteq> x"
    with that(3,4) clash [of b] show ?thesis by simp
  next
    assume "a \<in> set (orders s)" "a \<noteq> x" "b = f x"
    with that(3,4) clash [of a] show ?thesis by simp
  next
    assume "a \<in> set (orders s)" "b \<in> set (orders s)"
    from one_order_eachD [OF one this that(3,4)] show ?thesis .
  qed simp
  then have "one_order_each (orders s')" unfolding one_order_each_def by blast
  moreover have "list_all order_ok (orders s')"
    using all ok mem by (auto simp: list_all_iff)
  moreover have "uniq po_id (orders s')" "uniq po_paymentReference (orders s')"
    using uq ref by (simp_all add: s' uniq_set_row f)
  ultimately show ?thesis unfolding orders_inv_def by blast
qed

lemma new_order_sel [simp]:
  "po_matchedBankTransactionId (new_order e input p n) = None" "po_id (new_order e input p n) = newId e"
  "po_status (new_order e input p n) = PaymentOrderStatus.AWAITING_PAYMENT" "po_confirmedAt (new_order e input p n) = None"
  by (simp_all add: new_order_def Let_def)

lemma order_create_inv:
  assumes "orders_inv s" and "order_create input e s = (r, s')"
  shows "orders_inv s'"
  using order_create_effect [OF assms(2)]
proof (elim disjE exE conjE)
  fix p n assume cl: "\<not> list_ex (order_clash (new_order e input p n)) (orders s)"
    and s': "orders s' = orders s @ [new_order e input p n]"
  from cl have "\<not> has_row po_id (po_id (new_order e input p n)) (orders s)"
    "\<not> has_row po_paymentReference (po_paymentReference (new_order e input p n)) (orders s)"
    by (auto simp: list_ex_iff order_clash_def has_row_def)
  with assms(1) s' show ?thesis
    by (simp add: orders_inv_def uniq_append_row one_order_each_snoc) (simp add: order_ok_def)
qed (use assms(1) in simp)

lemma find_row_None_mem: "find_row key k rs = None \<Longrightarrow> \<forall>r \<in> set rs. key r \<noteq> k"
  by (auto simp: find_row_None)

lemma checkPayment_inv:
  assumes inv: "orders_inv s" and run: "checkPayment i input e s = (r, s')"
  shows "orders_inv s'"
  using checkPayment_effect [OF run]
proof (elim disjE exE conjE)
  assume "orders s' = orders s"
  with inv orders_inv_cong show ?thesis by blast
next
  fix x assume x: "find_row po_id i (orders s) = Some x"
    and s': "orders s' = set_row po_id i (\<lambda>x. x\<lparr>po_status := PaymentOrderStatus.EXPIRED\<rparr>) (orders s)"
    and st: "po_status x = PaymentOrderStatus.AWAITING_PAYMENT"
  show ?thesis
    by (rule orders_update_inv [OF inv x s']) (use orders_inv_row [OF inv x] st in \<open>auto simp: order_ok_def\<close>)
next
  fix x assume x: "find_row po_id i (orders s) = Some x" and st: "po_status x = PaymentOrderStatus.PAYMENT_DETECTED"
  with orders_inv_row [OF inv x] show ?thesis by (simp add: order_ok_def)
next
  fix x assume pay: "payable_by e s i input x" and pos: "0 < po_amountMinor x"
    and s': "orders s' = set_row po_id i (\<lambda>y. y\<lparr>po_status := PaymentOrderStatus.CONFIRMED,
      po_matchedBankTransactionId := Some (cp_bankTransactionId input), po_confirmedAt := Some (now e)\<rparr>) (orders s)"
  let ?u = "find_row po_matchedBankTransactionId (Some (cp_bankTransactionId input)) (orders s)"
  from pay have x: "find_row po_id i (orders s) = Some x" by (simp add: payable_by_def)
  from orders_inv_row [OF inv x] pay have none: "po_matchedBankTransactionId x = None"
    by (auto simp: order_ok_def payable_by_def)
  have "?u = None"
  proof (cases ?u)
    case (Some u)
    with pay have "po_id u = i" by (simp add: payable_by_def)
    with find_row_Some [OF Some] find_row_uniq [of po_id "orders s" u] inv x none show ?thesis
      by (auto simp: orders_inv_def)
  qed
  then show ?thesis
    by (intro orders_update_inv [OF inv x s'])
       (auto simp: order_ok_def pos dest: find_row_None_mem)
qed

lemma order_refund_inv:
  assumes inv: "orders_inv s" and run: "order_refund i actor reason e s = (r, s')"
  shows "orders_inv s'"
  using order_refund_effect [OF run]
proof (elim disjE exE conjE)
  fix x assume x: "find_row po_id i (orders s) = Some x" and st: "po_status x = PaymentOrderStatus.CONFIRMED"
    and s': "orders s' = set_row po_id i (\<lambda>x. x\<lparr>po_status := PaymentOrderStatus.REFUNDED\<rparr>) (orders s)"
  show ?thesis
    by (rule orders_update_inv [OF inv x s']) (use orders_inv_row [OF inv x] st in \<open>auto simp: order_ok_def\<close>)
qed (use inv in simp)

lemma order_cancel_inv:
  assumes inv: "orders_inv s" and run: "order_cancel i actor e s = (r, s')"
  shows "orders_inv s'"
  using order_cancel_effect [OF run]
proof (elim disjE exE conjE)
  fix x assume x: "find_row po_id i (orders s) = Some x"
    and s': "orders s' = set_row po_id i (\<lambda>x. x\<lparr>po_status := PaymentOrderStatus.CANCELLED\<rparr>) (orders s)"
  show ?thesis
    by (rule orders_update_inv [OF inv x s']) (use orders_inv_row [OF inv x] in \<open>auto simp: order_ok_def\<close>)
qed (use inv in simp)

lemma profile_ops_leave:
  "leaves (\<lambda>s. (orders s, entries s)) (profile_submit input)" "leaves (\<lambda>s. (orders s, entries s)) (profile_verify i a)"
  "leaves (\<lambda>s. (orders s, entries s)) (profile_activate i a)" "leaves (\<lambda>s. (orders s, entries s)) (profile_suspend i a b)"
  by (unfold profile_op_defs) (intro leaves_intros; simp)+

lemma orders_inv_foreign: "leaves orders m \<Longrightarrow> keeps orders_inv m"
  unfolding leaves_def keeps_def using orders_inv_cong by blast

lemma leaves_fst: "leaves (\<lambda>s. (f s, g s)) m \<Longrightarrow> leaves f m" "leaves (\<lambda>s. (f s, g s)) m \<Longrightarrow> leaves g m"
  by (simp_all add: leaves_def)

lemmas profile_leaves_orders = profile_ops_leave [THEN leaves_fst(1)]

lemma run_payment_inv: "keeps orders_inv (run_payment c)"
  unfolding keeps_def
proof (intro allI impI)
  fix e s assume i: "orders_inv s"
  note inv = this prod.collapse [symmetric]
  show "orders_inv (snd (run_payment c e s))"
    by (cases c; simp only: run_payment.simps)
       (rule profile_leaves_orders [THEN orders_inv_foreign, THEN keepsD, OF i] order_create_inv [OF inv]
         checkPayment_inv [OF inv] order_refund_inv [OF inv] order_cancel_inv [OF inv])+
qed

section \<open>The merchant payable moves with the confirmed orders\<close>

definition collected_weight :: "string \<Rightarrow> string \<Rightarrow> PaykhPaymentOrder \<Rightarrow> int" where
  "collected_weight scope cur x = (if po_tenantId x = scope \<and> toUpperCase (po_currency x) = cur
     \<and> po_status x = PaymentOrderStatus.CONFIRMED then po_amountMinor x else 0)"

definition orders_gap :: "string \<Rightarrow> string \<Rightarrow> st \<Rightarrow> int" where
  "orders_gap scope cur s = liab LIABILITY_PAYKH_MERCHANT_PAYABLE scope cur (entries s)
     - (\<Sum>x\<leftarrow>orders s. collected_weight scope cur x)"

lemma bal_collection:
  "liab LIABILITY_PAYKH_MERCHANT_PAYABLE scope cur (es @ [collection_row x actor]) =
     liab LIABILITY_PAYKH_MERCHANT_PAYABLE scope cur es
       + (if po_tenantId x = scope \<and> toUpperCase (po_currency x) = cur then po_amountMinor x else 0)"
  by (simp add: collection_row_def bal_transfer order_refs_def)

lemma bal_refund:
  assumes "0 < po_amountMinor x"
  shows "bal dp scope cur acc (es @ [refund_row x actor reason]) = bal dp scope cur acc es
    - (if po_tenantId x = scope \<and> toUpperCase (po_currency x) = cur
       then net_effect dp acc [debit ASSET_TRUSTEE_BANK_CASH (money_big (po_amountMinor x) (po_currency x)),
          credit LIABILITY_PAYKH_MERCHANT_PAYABLE (money_big (po_amountMinor x) (po_currency x))] else 0)"
proof -
  from refund_entry_ok [OF assms] obtain j where j: "refund_entry x actor reason = Inr j" by blast
  note jf = refund_entry_Inr [OF j refl]
  from jf have "acc_net dp acc (le_postings (refund_row x actor reason)) =
      - net_effect dp acc [debit ASSET_TRUSTEE_BANK_CASH (money_big (po_amountMinor x) (po_currency x)),
          credit LIABILITY_PAYKH_MERCHANT_PAYABLE (money_big (po_amountMinor x) (po_currency x))]"
    by (simp add: refund_row_def j ledger_row_def acc_net_posted net_effect_swap del: list.map map_map)
  moreover from jf have "le_programId (refund_row x actor reason) = po_tenantId x"
    "le_currency (refund_row x actor reason) = toUpperCase (po_currency x)"
    by (simp_all add: refund_row_def j ledger_row_def)
  ultimately show ?thesis by (simp add: bal_snoc)
qed

lemma orders_gap_update:
  assumes "orders_inv s" and "find_row po_id i (orders s) = Some x" and "orders s' = set_row po_id i f (orders s)"
    and "liab LIABILITY_PAYKH_MERCHANT_PAYABLE scope cur (entries s')
       = liab LIABILITY_PAYKH_MERCHANT_PAYABLE scope cur (entries s) - collected_weight scope cur x + collected_weight scope cur (f x)"
  shows "orders_gap scope cur s' = orders_gap scope cur s"
  using assms sum_set_row [OF _ assms(2), of "collected_weight scope cur" f]
  by (simp add: orders_gap_def orders_inv_def)

lemma order_ops_gap:
  assumes inv: "orders_inv s"
  shows "order_create input e s = (r, s') \<Longrightarrow> orders_gap scope cur s' = orders_gap scope cur s"
    and "checkPayment i inp e s = (r, s') \<Longrightarrow> orders_gap scope cur s' = orders_gap scope cur s"
    and "order_refund i actor reason e s = (r, s') \<Longrightarrow> orders_gap scope cur s' = orders_gap scope cur s"
    and "order_cancel i actor e s = (r, s') \<Longrightarrow> orders_gap scope cur s' = orders_gap scope cur s"
proof -
  assume "order_create input e s = (r, s')"
  from order_create_effect [OF this] show "orders_gap scope cur s' = orders_gap scope cur s"
    by (auto simp: orders_gap_def collected_weight_def)
next
  assume "checkPayment i inp e s = (r, s')"
  from checkPayment_effect [OF this] show "orders_gap scope cur s' = orders_gap scope cur s"
    unfolding payable_by_def
    by (elim disjE exE conjE)
       (simp add: orders_gap_def, (rule orders_gap_update [OF inv], assumption, assumption,
        auto simp: collected_weight_def bal_collection)+)
next
  assume "order_refund i actor reason e s = (r, s')"
  from order_refund_effect [OF this] show "orders_gap scope cur s' = orders_gap scope cur s"
    by (elim disjE exE conjE)
       (simp, rule orders_gap_update [OF inv], assumption, assumption,
        auto simp: collected_weight_def bal_refund net_effect_two_sided)
next
  assume "order_cancel i actor e s = (r, s')"
  from order_cancel_effect [OF this] show "orders_gap scope cur s' = orders_gap scope cur s"
    by (elim disjE exE conjE)
       (simp, rule orders_gap_update [OF inv], assumption, assumption, auto simp: collected_weight_def)
qed

lemma run_payment_gap:
  assumes "orders_inv s"
  shows "orders_gap scope cur (snd (run_payment c e s)) = orders_gap scope cur s"
  using profile_ops_leave [THEN leavesD] order_ops_gap [OF assms prod.collapse [symmetric]]
  by (cases c) (simp_all add: orders_gap_def)

end
