(* ===== verification/Append_Only.thy ===== *)
theory Append_Only
  imports Reserve_Ledger "HOL-Library.Sublist"
begin

text \<open>
  The audit trail and the outbox are only ever appended to, whatever a method's outcome.
  \<open>logs P m\<close>: the program appends audit records, all of them with an action in \<open>P\<close>;
  \<open>grows f m\<close>: the list \<open>f\<close> of the state is a prefix of itself afterwards. The rules follow the
  shape of a program, so one line proves either for a whole service method.
\<close>

named_theorems grows_intros \<open>programs that only append\<close>
named_theorems logs_intros \<open>programs that only append audit records of some actions\<close>

section \<open>Growing lists\<close>

definition grows :: "(st \<Rightarrow> 'b list) \<Rightarrow> 'a op \<Rightarrow> bool" where
  "grows f m \<longleftrightarrow> (\<forall>e s. prefix (f s) (f (snd (m e s))))"

lemma growsD: "grows f m \<Longrightarrow> prefix (f s) (f (snd (m e s)))"
  by (simp add: grows_def)

lemma leaves_grows: "leaves f m \<Longrightarrow> grows f m"
  by (simp add: leaves_def grows_def)

lemma grows_bnd [grows_intros]:
  assumes "grows f m" and "\<And>a. grows f (g a)"
  shows "grows f (bnd m g)"
  unfolding grows_def
proof (intro allI)
  fix e s
  obtain r s' where m: "m e s = (r, s')" by fastforce
  with growsD [OF assms(1), of s e] have p: "prefix (f s) (f s')" by simp
  then show "prefix (f s) (f (snd (bnd m g e s)))"
    using growsD [OF assms(2)] m by (cases r) (auto simp: bnd_def intro: prefix_order.trans)
qed

lemma grows_seq [grows_intros]: "grows f m \<Longrightarrow> grows f n \<Longrightarrow> grows f (seq m n)"
  by (simp add: seq_def grows_bnd)

lemma grows_basic [grows_intros]:
  "grows f (ret a)" "grows f (raise x)" "grows f (check b x)" "grows f (lift_r r)"
  "grows f (asks h)" "grows f (gets k)" "grows f (find_or l x)" "grows f (reads v)" "grows f (requireEnabled key)"
  by (intro leaves_grows leaves_intros)+

lemma grows_if [grows_intros]: "grows f m \<Longrightarrow> grows f n \<Longrightarrow> grows f (if b then m else n)"
  by simp

lemma grows_case_option [grows_intros]:
  "grows f m \<Longrightarrow> (\<And>y. grows f (n y)) \<Longrightarrow> grows f (case x of None \<Rightarrow> m | Some y \<Rightarrow> n y)"
  by (simp split: option.split)

lemma grows_case_prod [grows_intros]:
  "(\<And>a b. grows f (n a b)) \<Longrightarrow> grows f (case x of (a, b) \<Rightarrow> n a b)"
  by (simp split: prod.split)

lemma grows_modify: "(\<And>s. prefix (f s) (f (g s))) \<Longrightarrow> grows f (modify g)"
  by (simp add: grows_def modify_def)

lemma grows_outbox [grows_intros]:
  "grows outbox (audit r)" "grows outbox (post_res j)"
  by (intro leaves_grows leaves_intros; simp)+

lemma grows_outbox_publish [grows_intros]:
  "grows outbox (publish ty p)" "grows outbox (publishToPaykh ty p)" "grows outbox (publishWithArtifact ty p art q)"
  by (unfold publish_def publishToPaykh_def publish_to_def publishWithArtifact_def)
     (intro grows_intros grows_modify; simp)+

lemma grows_outbox_rows [grows_intros]:
  "(\<And>s x. outbox (upd (\<lambda>_. x) s) = outbox s) \<Longrightarrow> grows outbox (create_row get upd clash n row)"
  "(\<And>s x. outbox (upd (\<lambda>_. x) s) = outbox s) \<Longrightarrow> grows outbox (update_row get upd key n k h)"
  by (intro leaves_grows leaves_intros; simp)+

section \<open>Audit records\<close>

definition logs :: "(string \<Rightarrow> bool) \<Rightarrow> 'a op \<Rightarrow> bool" where
  "logs P m \<longleftrightarrow> (\<forall>e s. \<exists>new. audits (snd (m e s)) = audits s @ new \<and> (\<forall>l \<in> set new. P (al_action l)))"

lemma logsD: "logs P m \<Longrightarrow> \<exists>new. audits (snd (m e s)) = audits s @ new \<and> (\<forall>l \<in> set new. P (al_action l))"
  by (simp add: logs_def)

lemma leaves_logs: "leaves audits m \<Longrightarrow> logs P m"
  by (simp add: leaves_def logs_def)

lemma logs_grows: "logs P m \<Longrightarrow> grows audits m"
  unfolding logs_def grows_def by (metis prefixI)

lemma logs_bnd [logs_intros]:
  assumes "logs P m" and "\<And>a. logs P (f a)"
  shows "logs P (bnd m f)"
  unfolding logs_def
proof (intro allI)
  fix e s
  obtain r s' where m: "m e s = (r, s')" by fastforce
  with logsD [OF assms(1), of e s] obtain new
    where new: "audits s' = audits s @ new" "\<forall>l \<in> set new. P (al_action l)" by auto
  show "\<exists>new. audits (snd (bnd m f e s)) = audits s @ new \<and> (\<forall>l \<in> set new. P (al_action l))"
  proof (cases r)
    case (Inl x)
    with m new show ?thesis by (auto simp: bnd_def)
  next
    case (Inr a)
    from logsD [OF assms(2), of a e s'] obtain new'
      where "audits (snd (f a e s')) = audits s' @ new'" "\<forall>l \<in> set new'. P (al_action l)" by auto
    with m Inr new show ?thesis by (intro exI [of _ "new @ new'"]) (auto simp: bnd_def)
  qed
qed

lemma logs_seq [logs_intros]: "logs P m \<Longrightarrow> logs P n \<Longrightarrow> logs P (seq m n)"
  by (simp add: seq_def logs_bnd)

lemma logs_basic [logs_intros]:
  "logs P (ret a)" "logs P (raise x)" "logs P (check b x)" "logs P (lift_r r)"
  "logs P (asks h)" "logs P (gets k)" "logs P (find_or l x)" "logs P (reads v)"
  "logs P (post_res j)" "logs P (publish ty p)" "logs P (publishToPaykh ty p)"
  "logs P (publishWithArtifact ty p art q)" "logs P (requireEnabled key)"
  by (intro leaves_logs leaves_intros; simp)+

lemma logs_rows [logs_intros]:
  "(\<And>s x. audits (upd (\<lambda>_. x) s) = audits s) \<Longrightarrow> logs P (create_row get upd clash n row)"
  "(\<And>s x. audits (upd (\<lambda>_. x) s) = audits s) \<Longrightarrow> logs P (update_row get upd key n k f)"
  by (intro leaves_logs leaves_intros; simp)+

lemma logs_if [logs_intros]: "logs P m \<Longrightarrow> logs P n \<Longrightarrow> logs P (if b then m else n)"
  by simp

lemma logs_case_option [logs_intros]:
  "logs P m \<Longrightarrow> (\<And>y. logs P (n y)) \<Longrightarrow> logs P (case x of None \<Rightarrow> m | Some y \<Rightarrow> n y)"
  by (simp split: option.split)

lemma logs_case_prod [logs_intros]:
  "(\<And>a b. logs P (n a b)) \<Longrightarrow> logs P (case x of (a, b) \<Rightarrow> n a b)"
  by (simp split: prod.split)

lemma logs_audit [logs_intros]: "P (ar_action r) \<Longrightarrow> logs P (audit r)"
  by (simp add: logs_def audit_apply audit_row_def)

lemma audit_rec_sel [simp]:
  "ar_action (audit_rec actor action ty i) = action" "ar_actor (audit_rec actor action ty i) = actor"
  "ar_subjectId (audit_rec actor action ty i) = Some i"
  by (simp_all add: audit_rec_def)

lemma audit_row_sel [simp]:
  "al_action (audit_row r) = ar_action r" "al_actor (audit_row r) = ar_actor r" "al_subjectId (audit_row r) = ar_subjectId r"
  by (simp_all add: audit_row_def)

text \<open>A record that was there stays the first of its kind.\<close>

lemma find_prefix: "prefix xs ys \<Longrightarrow> find p xs = Some x \<Longrightarrow> find p ys = Some x"
proof -
  have "find p (xs @ zs) = (case find p xs of None \<Rightarrow> find p zs | Some x \<Rightarrow> Some x)" for zs
    by (induction xs) auto
  then show "prefix xs ys \<Longrightarrow> find p xs = Some x \<Longrightarrow> find p ys = Some x" by (auto elim!: prefixE)
qed

end
