(* ===== verification/Settlements.thy ===== *)
theory Settlements
  imports Deposits Append_Only
begin

text \<open>
  \<open>modules/paykh/merchants.service.ts\<close> and \<open>settlements.service.ts\<close>: the mirror of PayKH's
  merchant registry and the maker-checker settlement of merchant payables. The maker of a
  settlement is the actor of an audit record, so the invariant that approver and maker
  differ speaks about the audit trail, which only grows.
\<close>

section \<open>Merchants\<close>

record RegisterMerchantInput =
  mr_tenantId :: string
  mr_merchantCode :: string
  mr_legalName :: string
  mr_country :: "string option"
  mr_paykhMerchantRef :: "string option"
  mr_kycStatus :: "string option"
  mr_status :: "string option"
  mr_riskLevel :: "string option"
  mr_actor :: string

definition or_else :: "'a option \<Rightarrow> 'a \<Rightarrow> 'a" where
  "or_else x d = (case x of Some a \<Rightarrow> a | None \<Rightarrow> d)"

definition serialize_merchant :: "PaykhMerchant \<Rightarrow> json" where
  "serialize_merchant m = JObj [(''id'', JStr (me_id m)), (''tenantId'', JStr (me_tenantId m)),
     (''merchantCode'', JStr (me_merchantCode m)), (''paykhMerchantRef'', jopt (me_paykhMerchantRef m)),
     (''legalName'', JStr (me_legalName m)), (''country'', jopt (me_country m)),
     (''kycStatus'', JStr (me_kycStatus m)), (''riskLevel'', JStr (me_riskLevel m)),
     (''status'', JStr (me_status m)), (''source'', JStr (me_source m))]"

definition merchant_key :: "PaykhMerchant \<Rightarrow> string \<times> string" where
  "merchant_key m = (me_tenantId m, me_merchantCode m)"

text \<open>The \<open>data\<close> object shared by the update and the create of the upsert.\<close>

definition reported :: "env \<Rightarrow> RegisterMerchantInput \<Rightarrow> PaykhMerchant \<Rightarrow> PaykhMerchant" where
  "reported e input m = m\<lparr>me_legalName := mr_legalName input, me_country := mr_country input,
     me_paykhMerchantRef := mr_paykhMerchantRef input, me_kycStatus := or_else (mr_kycStatus input) ''PENDING'',
     me_status := or_else (mr_status input) ''ACTIVE'', me_riskLevel := or_else (mr_riskLevel input) ''LOW'',
     me_lastReportedAt := now e\<rparr>"

definition new_merchant :: "env \<Rightarrow> RegisterMerchantInput \<Rightarrow> PaykhMerchant" where
  "new_merchant e input = reported e input \<lparr>me_id = newId e, me_tenantId = mr_tenantId input,
     me_merchantCode = mr_merchantCode input, me_paykhMerchantRef = None, me_legalName = [], me_country = None,
     me_kycStatus = [], me_status = [], me_riskLevel = [], me_source = ''PAYKH'', me_lastReportedAt = 0\<rparr>"

definition merchant_audit :: "string \<Rightarrow> string \<Rightarrow> PaykhMerchant \<Rightarrow> unit op" where
  "merchant_audit actor action m = audit ((audit_rec actor action ''PAYKH_MERCHANT'' (me_id m))
     \<lparr>ar_afterState := Some (JObj [(''kycStatus'', JStr (me_kycStatus m)), (''status'', JStr (me_status m))])\<rparr>)"

definition merchant_register :: "RegisterMerchantInput \<Rightarrow> json op" where
  "merchant_register input = bnd (asks id) (\<lambda>e. let k = (mr_tenantId input, mr_merchantCode input) in
     bnd (gets (\<lambda>s. find_row merchant_key k (merchants s))) (\<lambda>existing.
     bnd (case existing of
         Some m \<Rightarrow> seq (update_row merchants merchants_update merchant_key ''PaykhMerchant'' k (reported e input))
                       (ret (reported e input m))
       | None \<Rightarrow> seq (create_row merchants merchants_update (\<lambda>a b. me_id a = me_id b \<or> merchant_key a = merchant_key b)
                       ''PaykhMerchant'' (new_merchant e input))
                     (ret (new_merchant e input))) (\<lambda>merchant.
     seq (merchant_audit (mr_actor input) ''paykh.merchant.registered'' merchant)
     (ret (serialize_merchant merchant)))))"

definition require_merchant :: "string \<Rightarrow> PaykhMerchant op" where
  "require_merchant i = find_or (\<lambda>s. find_row me_id i (merchants s)) (NotFound ''Merchant'')"

definition updateStatus :: "string \<Rightarrow> string option \<Rightarrow> string option \<Rightarrow> string option \<Rightarrow> string \<Rightarrow> json op" where
  "updateStatus i kycStatus status riskLevel actor = bnd (asks id) (\<lambda>e.
     bnd (require_merchant i) (\<lambda>m.
     let upd = (\<lambda>x. x\<lparr>me_kycStatus := or_else kycStatus (me_kycStatus m), me_status := or_else status (me_status m),
           me_riskLevel := or_else riskLevel (me_riskLevel m), me_lastReportedAt := now e\<rparr>) in
     seq (update_row merchants merchants_update me_id ''PaykhMerchant'' i upd)
     (seq (merchant_audit actor ''paykh.merchant.status_updated'' (upd m))
     (ret (serialize_merchant (upd m))))))"

definition merchant_get :: "string \<Rightarrow> json op" where
  "merchant_get i = bnd (require_merchant i) (\<lambda>m. ret (serialize_merchant m))"

definition merchant_listByTenant :: "string \<Rightarrow> json op" where
  "merchant_listByTenant tenantId = bnd (gets (\<lambda>s. filter (\<lambda>m. me_tenantId m = tenantId) (merchants s))) (\<lambda>rows.
     ret (JObj [(''merchants'', JArr (map serialize_merchant rows))]))"

definition requireActive :: "string \<Rightarrow> PaykhMerchant op" where
  "requireActive merchantId =
     bnd (find_or (\<lambda>s. find_row me_id merchantId (merchants s)) (NotFound ''Merchant is not registered by PayKH'')) (\<lambda>m.
     seq (check (me_status m = ''ACTIVE'') (BadRequest ''Merchant is not ACTIVE''))
     (seq (check (me_kycStatus m = ''VERIFIED'') (BadRequest ''Merchant KYC is not VERIFIED''))
     (ret m)))"

section \<open>Settlements\<close>

primrec SettlementStatus_str :: "SettlementStatus \<Rightarrow> string" where
  "SettlementStatus_str SettlementStatus.REQUESTED = ''REQUESTED''"
| "SettlementStatus_str SettlementStatus.APPROVED = ''APPROVED''"
| "SettlementStatus_str SettlementStatus.SUBMITTED = ''SUBMITTED''"
| "SettlementStatus_str SettlementStatus.CONFIRMED = ''CONFIRMED''"
| "SettlementStatus_str SettlementStatus.CANCELLED = ''CANCELLED''"
| "SettlementStatus_str SettlementStatus.FAILED = ''FAILED''"

record CreateSettlement =
  cs_tenantId :: string
  cs_merchantId :: string
  cs_amountMinor :: string
  cs_currency :: string
  cs_actor :: string

definition new_settlement :: "string \<Rightarrow> CreateSettlement \<Rightarrow> int \<Rightarrow> PaykhSettlement" where
  "new_settlement i input amount = \<lparr>sm_id = i, sm_tenantId = cs_tenantId input, sm_merchantId = cs_merchantId input,
     sm_amountMinor = amount, sm_currency = cs_currency input, sm_status = SettlementStatus.REQUESTED,
     sm_approvedById = None, sm_confirmedAt = None\<rparr>"

text \<open>The second audit record is written straight to the table, without a source system.\<close>

definition maker_log :: "string \<Rightarrow> string \<Rightarrow> AuditLog" where
  "maker_log actor settlementId = \<lparr>al_actor = actor, al_actorRole = None, al_action = ''paykh.settlement.maker'',
     al_subjectType = ''PAYKH_SETTLEMENT'', al_subjectId = Some settlementId, al_beforeState = None, al_afterState = None,
     al_reason = None, al_approvalRef = None, al_correlationId = None, al_ip = None, al_device = None,
     al_sourceSystem = None\<rparr>"

definition settlement_create :: "CreateSettlement \<Rightarrow> json op" where
  "settlement_create input = bnd (asks id) (\<lambda>e.
     bnd (requireActive (cs_merchantId input)) (\<lambda>_.
     bnd (lift_r (BigInt (cs_amountMinor input))) (\<lambda>amount.
     seq (create_row settlements settlements_update (\<lambda>a b. sm_id a = sm_id b) ''PaykhSettlement''
       (new_settlement (newId e) input amount))
     (seq (audit (audit_rec (cs_actor input) ''paykh.settlement.requested'' ''PAYKH_SETTLEMENT'' (newId e)))
     (seq (modify (\<lambda>s. s\<lparr>audits := audits s @ [maker_log (cs_actor input) (newId e)]\<rparr>))
     (ret (id_status (newId e) ''REQUESTED'')))))))"

definition require_settlement :: "string \<Rightarrow> PaykhSettlement op" where
  "require_settlement i = find_or (\<lambda>s. find_row sm_id i (settlements s)) (NotFound ''Settlement'')"

definition set_settlement :: "string \<Rightarrow> (PaykhSettlement \<Rightarrow> PaykhSettlement) \<Rightarrow> unit op" where
  "set_settlement i f = update_row settlements settlements_update sm_id ''PaykhSettlement'' i f"

definition is_maker_log :: "string \<Rightarrow> AuditLog \<Rightarrow> bool" where
  "is_maker_log i l \<longleftrightarrow> al_subjectId l = Some i \<and> al_action l = ''paykh.settlement.maker''"

definition settlement_approve :: "string \<Rightarrow> string \<Rightarrow> json op" where
  "settlement_approve settlementId checkerId =
     bnd (require_settlement settlementId) (\<lambda>settlement.
     seq (check (sm_status settlement = SettlementStatus.REQUESTED) (BadRequest ''Settlement cannot be approved''))
     (bnd (gets (\<lambda>s. find (is_maker_log settlementId) (audits s))) (\<lambda>makerLog.
     seq (check (\<not> (case makerLog of Some l \<Rightarrow> al_actor l = checkerId | None \<Rightarrow> False))
       (Forbidden ''A user cannot approve their own settlement''))
     (seq (set_settlement settlementId (\<lambda>x. x\<lparr>sm_status := SettlementStatus.APPROVED, sm_approvedById := Some checkerId\<rparr>))
     (seq (audit (audit_rec checkerId ''paykh.settlement.approved'' ''PAYKH_SETTLEMENT'' settlementId))
     (seq (publishToPaykh ''paykh.settlement.approved'' (JObj [(''settlementId'', JStr settlementId)]))
     (ret (id_status settlementId ''APPROVED''))))))))"

definition settlement_confirm :: "string \<Rightarrow> string \<Rightarrow> json op" where
  "settlement_confirm settlementId actor = bnd (asks id) (\<lambda>e.
     bnd (require_settlement settlementId) (\<lambda>settlement.
     seq (check (\<not> (sm_status settlement \<noteq> SettlementStatus.APPROVED \<and> sm_status settlement \<noteq> SettlementStatus.SUBMITTED))
       (BadRequest ''Settlement must be APPROVED/SUBMITTED to confirm''))
     (bnd (post_res (paykhMerchantSettlementEntry (money_big (sm_amountMinor settlement) (sm_currency settlement))
       (refs_of (''paykh-settlement:'' @ settlementId) (sm_tenantId settlement) ''FIAT'' actor))) (\<lambda>_.
     seq (set_settlement settlementId (\<lambda>x. x\<lparr>sm_status := SettlementStatus.CONFIRMED, sm_confirmedAt := Some (now e)\<rparr>))
     (seq (publishToPaykh ''paykh.settlement.confirmed'' (JObj [(''settlementId'', JStr settlementId)]))
     (ret (id_status settlementId ''CONFIRMED'')))))))"

definition settlement_get :: "string \<Rightarrow> json op" where
  "settlement_get settlementId = bnd (require_settlement settlementId) (\<lambda>x.
     ret (JObj [(''id'', JStr (sm_id x)), (''status'', JStr (SettlementStatus_str (sm_status x))),
       (''amountMinor'', jbig (sm_amountMinor x)), (''currency'', JStr (sm_currency x))]))"

definition settlement_cancel :: "string \<Rightarrow> string \<Rightarrow> json op" where
  "settlement_cancel settlementId actor =
     bnd (require_settlement settlementId) (\<lambda>x.
     seq (check (sm_status x \<noteq> SettlementStatus.CONFIRMED) (BadRequest ''A confirmed settlement cannot be cancelled''))
     (seq (set_settlement settlementId (\<lambda>x. x\<lparr>sm_status := SettlementStatus.CANCELLED\<rparr>))
     (seq (audit (audit_rec actor ''paykh.settlement.cancelled'' ''PAYKH_SETTLEMENT'' settlementId))
     (ret (id_status settlementId ''CANCELLED'')))))"

section \<open>Frame and journal\<close>

datatype settlement_cmd =
    RegisterMerchant RegisterMerchantInput
  | UpdateMerchant string "string option" "string option" "string option" string
  | CreateSettlementCmd CreateSettlement
  | ApproveSettlement string string
  | ConfirmSettlement string string
  | CancelSettlement string string

primrec run_settlement :: "settlement_cmd \<Rightarrow> json op" where
  "run_settlement (RegisterMerchant input) = merchant_register input"
| "run_settlement (UpdateMerchant i kyc status risk actor) = updateStatus i kyc status risk actor"
| "run_settlement (CreateSettlementCmd input) = settlement_create input"
| "run_settlement (ApproveSettlement i checker) = settlement_approve i checker"
| "run_settlement (ConfirmSettlement i actor) = settlement_confirm i actor"
| "run_settlement (CancelSettlement i actor) = settlement_cancel i actor"

lemmas settlement_op_defs = merchant_register_def updateStatus_def require_merchant_def requireActive_def
  settlement_create_def settlement_approve_def settlement_confirm_def settlement_cancel_def
  require_settlement_def set_settlement_def merchant_audit_def

definition mask_settlements :: "st \<Rightarrow> st" where
  "mask_settlements s = s\<lparr>merchants := [], settlements := [], entries := [], audits := [], outbox := []\<rparr>"

lemma settlement_frame: "leaves mask_settlements (run_settlement c)"
  by (cases c; simp only: run_settlement.simps; unfold settlement_op_defs Let_def)
     (intro leaves_intros; simp add: mask_settlements_def)+

definition settlement_accounts :: "string set" where
  "settlement_accounts = {LIABILITY_PAYKH_MERCHANT_PAYABLE, ASSET_TRUSTEE_BANK_CASH}"

lemma settlement_appends: "appends settlement_accounts (run_settlement c)"
  by (cases c; simp only: run_settlement.simps; unfold settlement_op_defs Let_def)
     (intro appends_intros; simp add: settlement_accounts_def)+

section \<open>What the operations do\<close>

definition settlement_row :: "PaykhSettlement \<Rightarrow> string \<Rightarrow> LedgerEntry" where
  "settlement_row x actor = transfer_row ''PayKH merchant settlement executed''
     LIABILITY_PAYKH_MERCHANT_PAYABLE ASSET_TRUSTEE_BANK_CASH (money_big (sm_amountMinor x) (sm_currency x))
     (refs_of (''paykh-settlement:'' @ sm_id x) (sm_tenantId x) ''FIAT'' actor)"

lemma settlement_create_effect:
  assumes "settlement_create input e s = (r, s')"
  shows "(\<exists>x. r = Inl x \<and> s' = s)
    \<or> (\<exists>m n l. find_row me_id (cs_merchantId input) (merchants s) = Some m \<and> me_status m = ''ACTIVE''
        \<and> me_kycStatus m = ''VERIFIED'' \<and> BigInt (cs_amountMinor input) = Inr n \<and> is_ok r
        \<and> \<not> has_row sm_id (newId e) (settlements s) \<and> entries s' = entries s
        \<and> settlements s' = settlements s @ [new_settlement (newId e) input n]
        \<and> al_action l \<noteq> ''paykh.settlement.maker''
        \<and> audits s' = audits s @ [l, maker_log (cs_actor input) (newId e)])"
proof -
  have clash: "list_ex (\<lambda>b. sm_id (new_settlement i input n) = sm_id b) rs = has_row sm_id i rs" for i n rs
    by (auto simp: has_row_def list_ex_iff new_settlement_def)
  show ?thesis using assms
    by (auto simp: settlement_create_def requireActive_def prog_simps clash split: option.splits sum.splits if_splits)
qed

lemma settlement_approve_effect:
  assumes "settlement_approve i checker e s = (r, s')"
  shows "(\<exists>x. r = Inl x \<and> s' = s)
    \<or> (\<exists>x l. find_row sm_id i (settlements s) = Some x \<and> sm_status x = SettlementStatus.REQUESTED
        \<and> (\<forall>l. find (is_maker_log i) (audits s) = Some l \<longrightarrow> al_actor l \<noteq> checker)
        \<and> is_ok r \<and> entries s' = entries s \<and> al_action l \<noteq> ''paykh.settlement.maker'' \<and> audits s' = audits s @ [l]
        \<and> settlements s' = set_row sm_id i
            (\<lambda>x. x\<lparr>sm_status := SettlementStatus.APPROVED, sm_approvedById := Some checker\<rparr>) (settlements s))"
  using assms
  by (auto simp: settlement_approve_def require_settlement_def set_settlement_def prog_simps
      split: option.splits if_splits)

lemma settlement_confirm_effect:
  assumes "settlement_confirm i actor e s = (r, s')"
  shows "(\<exists>x. r = Inl x \<and> s' = s)
    \<or> (\<exists>x. find_row sm_id i (settlements s) = Some x
        \<and> (sm_status x = SettlementStatus.APPROVED \<or> sm_status x = SettlementStatus.SUBMITTED) \<and> 0 < sm_amountMinor x
        \<and> is_ok r \<and> audits s' = audits s \<and> entries s' = entries s @ [settlement_row x actor]
        \<and> settlements s' = set_row sm_id i
            (\<lambda>x. x\<lparr>sm_status := SettlementStatus.CONFIRMED, sm_confirmedAt := Some (now e)\<rparr>) (settlements s))"
  using assms
  by (auto simp: settlement_confirm_def require_settlement_def set_settlement_def prog_simps settlement_row_def
      dest: find_row_Some split: option.splits if_splits)

lemma settlement_cancel_effect:
  assumes "settlement_cancel i actor e s = (r, s')"
  shows "(\<exists>x. r = Inl x \<and> s' = s)
    \<or> (\<exists>x l. find_row sm_id i (settlements s) = Some x \<and> sm_status x \<noteq> SettlementStatus.CONFIRMED
        \<and> is_ok r \<and> entries s' = entries s \<and> al_action l \<noteq> ''paykh.settlement.maker'' \<and> audits s' = audits s @ [l]
        \<and> settlements s' = set_row sm_id i (\<lambda>x. x\<lparr>sm_status := SettlementStatus.CANCELLED\<rparr>) (settlements s))"
  using assms
  by (auto simp: settlement_cancel_def require_settlement_def set_settlement_def prog_simps
      split: option.splits if_splits)

section \<open>Maker and checker\<close>

text \<open>The first maker record of the settlement exists; whoever approved it is someone else.\<close>

definition settlement_ok :: "AuditLog option \<Rightarrow> PaykhSettlement \<Rightarrow> bool" where
  "settlement_ok maker x \<longleftrightarrow> (\<exists>l. maker = Some l \<and> (case sm_status x of
       SettlementStatus.REQUESTED \<Rightarrow> sm_approvedById x = None \<and> sm_confirmedAt x = None
     | SettlementStatus.APPROVED \<Rightarrow> (\<exists>c. sm_approvedById x = Some c \<and> al_actor l \<noteq> c) \<and> sm_confirmedAt x = None
     | SettlementStatus.CONFIRMED \<Rightarrow> (\<exists>c. sm_approvedById x = Some c \<and> al_actor l \<noteq> c)
         \<and> sm_confirmedAt x \<noteq> None \<and> 0 < sm_amountMinor x
     | SettlementStatus.CANCELLED \<Rightarrow> sm_confirmedAt x = None
     | _ \<Rightarrow> False))"

definition maker_of :: "st \<Rightarrow> string \<Rightarrow> AuditLog option" where
  "maker_of s i = find (is_maker_log i) (audits s)"

definition settlements_inv :: "st \<Rightarrow> bool" where
  "settlements_inv s \<longleftrightarrow> uniq sm_id (settlements s)
     \<and> (\<forall>x \<in> set (settlements s). settlement_ok (maker_of s (sm_id x)) x)
     \<and> (\<forall>l \<in> set (audits s). al_action l = ''paykh.settlement.maker''
          \<longrightarrow> (\<exists>i. al_subjectId l = Some i \<and> has_row sm_id i (settlements s)))"

abbreviation no_maker :: "string \<Rightarrow> bool" where
  "no_maker a \<equiv> a \<noteq> ''paykh.settlement.maker''"

lemma maker_of_append:
  assumes "audits s' = audits s @ new" and "\<forall>l \<in> set new. no_maker (al_action l)"
  shows "maker_of s' i = maker_of s i"
proof -
  from assms(2) have "find (is_maker_log i) new = None" by (auto simp: find_None_iff is_maker_log_def)
  then have "find (is_maker_log i) (as @ new) = find (is_maker_log i) as" for as
    by (induction as) simp_all
  then show ?thesis by (simp add: maker_of_def assms(1))
qed

lemma settlements_inv_foreign:
  assumes "leaves settlements m" and "logs no_maker m"
  shows "keeps settlements_inv m"
  unfolding keeps_def
proof (intro allI impI)
  fix e s assume inv: "settlements_inv s"
  from logsD [OF assms(2)] obtain new where new: "audits (snd (m e s)) = audits s @ new"
    "\<forall>l \<in> set new. no_maker (al_action l)" by blast
  note mk = maker_of_append [OF new]
  from leavesD [OF assms(1)] have same: "settlements (snd (m e s)) = settlements s" .
  from inv new(2) show "settlements_inv (snd (m e s))"
    unfolding settlements_inv_def same mk new(1) by auto
qed

lemma settlement_update_inv:
  assumes inv: "settlements_inv s" and x: "find_row sm_id i (settlements s) = Some x"
    and s': "settlements s' = set_row sm_id i f (settlements s)"
    and au: "audits s' = audits s @ new" "\<forall>l \<in> set new. no_maker (al_action l)"
    and f: "\<And>x. sm_id (f x) = sm_id x"
    and ok: "settlement_ok (maker_of s i) x \<Longrightarrow> settlement_ok (maker_of s i) (f x)"
  shows "settlements_inv s'"
proof -
  note mk = maker_of_append [OF au]
  from find_row_Some [OF x] inv have xok: "settlement_ok (maker_of s i) x" by (auto simp: settlements_inv_def)
  have "settlement_ok (maker_of s' (sm_id y)) y" if "y \<in> set (settlements s')" for y
    using that unfolding s'
  proof (cases rule: set_row_cases)
    case (changed q)
    from changed x inv have "q = x"
      using find_row_uniq [of sm_id "settlements s" q] by (simp add: settlements_inv_def)
    with changed ok [OF xok] f show ?thesis by (simp add: mk)
  next
    case same
    with inv show ?thesis by (simp add: settlements_inv_def mk)
  qed
  moreover have "\<forall>l \<in> set (audits s'). al_action l = ''paykh.settlement.maker''
      \<longrightarrow> (\<exists>k. al_subjectId l = Some k \<and> has_row sm_id k (settlements s'))"
    using inv au(2) unfolding s' au(1) settlements_inv_def by (auto simp: has_row_set_row f)
  ultimately show ?thesis using inv by (simp add: settlements_inv_def s' uniq_set_row f)
qed

lemma settlement_create_inv:
  assumes inv: "settlements_inv s" and run: "settlement_create input e s = (r, s')"
  shows "settlements_inv s'"
  using settlement_create_effect [OF run]
proof (elim disjE exE conjE)
  fix n l
  let ?x = "new_settlement (newId e) input n" and ?m = "maker_log (cs_actor input) (newId e)"
  assume new: "\<not> has_row sm_id (newId e) (settlements s)" and s': "settlements s' = settlements s @ [?x]"
    and l: "no_maker (al_action l)" and au: "audits s' = audits s @ [l, ?m]"
  have m: "is_maker_log i ?m \<longleftrightarrow> i = newId e" "\<not> is_maker_log i l" for i
    using l by (auto simp: is_maker_log_def maker_log_def)
  have none: "maker_of s (newId e) = None"
    using inv new by (auto simp: maker_of_def find_None_iff is_maker_log_def settlements_inv_def)
  have "maker_of s' i = (case maker_of s i of None \<Rightarrow> if i = newId e then Some ?m else None | Some q \<Rightarrow> Some q)" for i
  proof -
    have "find (is_maker_log i) (as @ [l, ?m]) = (case find (is_maker_log i) as of
        None \<Rightarrow> if i = newId e then Some ?m else None | Some q \<Rightarrow> Some q)" for as
      by (induction as) (auto simp: m)
    then show ?thesis by (simp add: maker_of_def au)
  qed
  note mk = this
  have old: "settlement_ok (maker_of s' (sm_id y)) y" if "y \<in> set (settlements s)" for y
    using inv that by (auto simp: settlements_inv_def mk settlement_ok_def split: option.splits)
  have "settlement_ok (maker_of s' (newId e)) ?x"
    by (simp add: mk none settlement_ok_def new_settlement_def)
  moreover have "sm_id ?x = newId e" by (simp add: new_settlement_def)
  moreover have "al_subjectId ?m = Some (newId e)" by (simp add: maker_log_def)
  moreover have "\<forall>q \<in> set (audits s). al_action q = ''paykh.settlement.maker''
      \<longrightarrow> (\<exists>i. al_subjectId q = Some i \<and> has_row sm_id i (settlements s'))"
    using inv by (auto simp: settlements_inv_def s' has_row_def)
  ultimately show ?thesis using inv new l old
    by (simp add: settlements_inv_def s' au uniq_append_row) (simp add: has_row_def)
qed (use inv in simp)

lemma settlement_approve_inv:
  assumes inv: "settlements_inv s" and run: "settlement_approve i checker e s = (r, s')"
  shows "settlements_inv s'"
  using settlement_approve_effect [OF run]
  by (elim disjE exE conjE)
     (use inv in simp, rule settlement_update_inv [OF inv], assumption, assumption, assumption,
       auto simp: settlement_ok_def maker_of_def)

lemma settlement_confirm_inv:
  assumes inv: "settlements_inv s" and run: "settlement_confirm i actor e s = (r, s')"
  shows "settlements_inv s'"
  using settlement_confirm_effect [OF run]
  by (elim disjE exE conjE)
     (use inv in simp, (rule settlement_update_inv [OF inv, where new = "[]"], assumption, assumption,
       auto simp: settlement_ok_def)+)

lemma settlement_cancel_inv:
  assumes inv: "settlements_inv s" and run: "settlement_cancel i actor e s = (r, s')"
  shows "settlements_inv s'"
  using settlement_cancel_effect [OF run]
proof (elim disjE exE conjE)
  fix x l assume x: "find_row sm_id i (settlements s) = Some x" and st: "sm_status x \<noteq> SettlementStatus.CONFIRMED"
    and l: "no_maker (al_action l)" and au: "audits s' = audits s @ [l]"
    and s': "settlements s' = set_row sm_id i (\<lambda>x. x\<lparr>sm_status := SettlementStatus.CANCELLED\<rparr>) (settlements s)"
  have "settlement_ok m x \<Longrightarrow> settlement_ok m (x\<lparr>sm_status := SettlementStatus.CANCELLED\<rparr>)" for m
    using st by (cases "sm_status x") (auto simp: settlement_ok_def)
  with l show ?thesis by (intro settlement_update_inv [OF inv x s' au]) simp_all
qed (use inv in simp)

lemma merchant_ops:
  "leaves settlements (merchant_register input)" "leaves settlements (updateStatus i k st rk actor)"
  "leaves entries (merchant_register input)" "leaves entries (updateStatus i k st rk actor)"
  by (unfold settlement_op_defs Let_def) (intro leaves_intros; simp)+

lemma merchant_logs: "logs no_maker (merchant_register input)" "logs no_maker (updateStatus i k st rk actor)"
  by (unfold settlement_op_defs Let_def) (intro logs_intros; simp)+

lemma run_settlement_inv: "keeps settlements_inv (run_settlement c)"
  unfolding keeps_def
proof (intro allI impI)
  fix e s assume i: "settlements_inv s"
  note inv = this prod.collapse [symmetric]
  note mer = settlements_inv_foreign [OF merchant_ops(1) merchant_logs(1), THEN keepsD, OF i]
    settlements_inv_foreign [OF merchant_ops(2) merchant_logs(2), THEN keepsD, OF i]
  show "settlements_inv (snd (run_settlement c e s))"
    by (cases c; simp only: run_settlement.simps)
       (rule mer settlement_create_inv [OF inv] settlement_approve_inv [OF inv]
         settlement_confirm_inv [OF inv] settlement_cancel_inv [OF inv])+
qed

section \<open>The merchant payable moves with the confirmed settlements\<close>

definition settled_weight :: "string \<Rightarrow> string \<Rightarrow> PaykhSettlement \<Rightarrow> int" where
  "settled_weight scope cur x = (if sm_tenantId x = scope \<and> toUpperCase (sm_currency x) = cur
     \<and> sm_status x = SettlementStatus.CONFIRMED then sm_amountMinor x else 0)"

definition settlements_gap :: "string \<Rightarrow> string \<Rightarrow> st \<Rightarrow> int" where
  "settlements_gap scope cur s = liab LIABILITY_PAYKH_MERCHANT_PAYABLE scope cur (entries s)
     + (\<Sum>x\<leftarrow>settlements s. settled_weight scope cur x)"

lemma settlements_gap_update:
  assumes "settlements_inv s" and "find_row sm_id i (settlements s) = Some x" and "settlements s' = set_row sm_id i f (settlements s)"
    and "liab LIABILITY_PAYKH_MERCHANT_PAYABLE scope cur (entries s')
       = liab LIABILITY_PAYKH_MERCHANT_PAYABLE scope cur (entries s) + settled_weight scope cur x - settled_weight scope cur (f x)"
  shows "settlements_gap scope cur s' = settlements_gap scope cur s"
  using assms sum_set_row [OF _ assms(2), of "settled_weight scope cur" f]
  by (simp add: settlements_gap_def settlements_inv_def)

lemma bal_settlement:
  "liab LIABILITY_PAYKH_MERCHANT_PAYABLE scope cur (es @ [settlement_row x actor]) =
     liab LIABILITY_PAYKH_MERCHANT_PAYABLE scope cur es
       - (if sm_tenantId x = scope \<and> toUpperCase (sm_currency x) = cur then sm_amountMinor x else 0)"
  by (simp add: settlement_row_def bal_transfer)

lemma settlement_ops_gap:
  assumes inv: "settlements_inv s"
  shows "settlement_create input e s = (r, s') \<Longrightarrow> settlements_gap scope cur s' = settlements_gap scope cur s"
    and "settlement_approve i checker e s = (r, s') \<Longrightarrow> settlements_gap scope cur s' = settlements_gap scope cur s"
    and "settlement_confirm i actor e s = (r, s') \<Longrightarrow> settlements_gap scope cur s' = settlements_gap scope cur s"
    and "settlement_cancel i actor e s = (r, s') \<Longrightarrow> settlements_gap scope cur s' = settlements_gap scope cur s"
proof -
  assume "settlement_create input e s = (r, s')"
  from settlement_create_effect [OF this] show "settlements_gap scope cur s' = settlements_gap scope cur s"
    by (auto simp: settlements_gap_def settled_weight_def new_settlement_def)
next
  assume "settlement_approve i checker e s = (r, s')"
  from settlement_approve_effect [OF this] show "settlements_gap scope cur s' = settlements_gap scope cur s"
    by (elim disjE exE conjE)
       (simp, rule settlements_gap_update [OF inv], assumption, assumption, auto simp: settled_weight_def)
next
  assume "settlement_confirm i actor e s = (r, s')"
  from settlement_confirm_effect [OF this] show "settlements_gap scope cur s' = settlements_gap scope cur s"
    by (elim disjE exE conjE)
       (simp, (rule settlements_gap_update [OF inv], assumption, assumption, auto simp: settled_weight_def bal_settlement)+)
next
  assume "settlement_cancel i actor e s = (r, s')"
  from settlement_cancel_effect [OF this] show "settlements_gap scope cur s' = settlements_gap scope cur s"
    by (elim disjE exE conjE)
       (simp, rule settlements_gap_update [OF inv], assumption, assumption, auto simp: settled_weight_def)
qed

lemma run_settlement_gap:
  assumes "settlements_inv s"
  shows "settlements_gap scope cur (snd (run_settlement c e s)) = settlements_gap scope cur s"
  using merchant_ops [THEN leavesD] settlement_ops_gap [OF assms prod.collapse [symmetric]]
  by (cases c) (simp_all add: settlements_gap_def)

end
