(* ===== verification/Oversight.thy ===== *)
theory Oversight
  imports Payments Settlements
begin

text \<open>
  \<open>modules/reconciliation/reconciliation.service.ts\<close> and
  \<open>modules/attestation/attestation.service.ts\<close>: reconciliation runs with their exceptions, and
  the attestation life cycle. The lemmas say exactly when a run is OK, and that an
  attestation is published only after review and approval.
\<close>

section \<open>Reconciliation runs\<close>

definition exception_row :: "string \<times> json \<Rightarrow> ReconciliationException" where
  "exception_row x = \<lparr>rx_type = fst x, rx_detail = snd x, rx_resolved = False\<rparr>"

definition run_row :: "string \<Rightarrow> string \<Rightarrow> string option \<Rightarrow> string option \<Rightarrow> json \<Rightarrow> (string \<times> json) list \<Rightarrow> string \<Rightarrow> ReconciliationRun" where
  "run_row i scope programId tenantId summary exceptions actor = \<lparr>rr_id = i, rr_scope = scope, rr_programId = programId,
     rr_tenantId = tenantId, rr_status = (if length exceptions > 0 then ''EXCEPTIONS'' else ''OK''), rr_summary = summary,
     rr_createdBy = Some actor, rr_exceptions = map exception_row exceptions\<rparr>"

definition record_run :: "string \<Rightarrow> string option \<Rightarrow> string option \<Rightarrow> json \<Rightarrow> (string \<times> json) list \<Rightarrow> string \<Rightarrow> ReconciliationRun op" where
  "record_run scope programId tenantId summary exceptions actor = bnd (asks id) (\<lambda>e.
     let row = run_row (newId e) scope programId tenantId summary exceptions actor in
     seq (create_row reconRuns reconRuns_update (\<lambda>a b. rr_id a = rr_id b) ''ReconciliationRun'' row) (ret row))"

definition reserve_exceptions :: "ReservePosition \<Rightarrow> string \<Rightarrow> (string \<times> json) list" where
  "reserve_exceptions pos programId =
     (if minor (rp_surplus pos) < 0 then [(''RESERVE_SHORTFALL'', JObj
        [(''eligibleReserveMinor'', jbig (minor (rp_eligibleReserve pos))),
         (''requiredReserveMinor'', jbig (minor (rp_requiredReserve pos))),
         (''shortfallMinor'', jbig (minor (rp_surplus pos)))])] else [])
     @ (if rp_liabilityAgeSeconds pos = None then [(''MISSING_LIABILITY_FEED'', JObj [(''programId'', JStr programId)])] else [])"

definition reconcileReserve :: "string \<Rightarrow> string \<Rightarrow> ReconciliationRun op" where
  "reconcileReserve programId actor =
     bnd (reads (\<lambda>e s. position e s programId)) (\<lambda>pos.
     let exceptions = reserve_exceptions pos programId in
     bnd (record_run ''RESERVE'' (Some programId) None
       (JObj [(''eligibleReserveMinor'', jbig (minor (rp_eligibleReserve pos))),
          (''reserveObligationMinor'', jbig (minor (rp_reserveObligation pos))),
          (''reserveRatioBps'', jint (rp_reserveRatioBps pos))]) exceptions actor) (\<lambda>run.
     seq (if length exceptions > 0
          then publish ''reconciliation.exception.created'' (JObj [(''runId'', JStr (rr_id run)),
            (''programId'', JStr programId), (''types'', JArr (map (\<lambda>x. JStr (fst x)) exceptions))])
          else ret ())
     (ret run)))"

text \<open>The \<open>Map\<close> from bank transaction to order ids, in insertion order.\<close>

fun add_txn :: "string \<Rightarrow> string \<Rightarrow> (string \<times> string list) list \<Rightarrow> (string \<times> string list) list" where
  "add_txn txn i [] = [(txn, [i])]"
| "add_txn txn i ((t, ids) # rest) = (if t = txn then (t, ids @ [i]) # rest else (t, ids) # add_txn txn i rest)"

definition by_txn :: "PaykhPaymentOrder list \<Rightarrow> (string \<times> string list) list" where
  "by_txn os = fold (\<lambda>x m. if truthy (po_matchedBankTransactionId x)
     then add_txn (the (po_matchedBankTransactionId x)) (po_id x) m else m) os []"

definition order_exceptions :: "PaykhPaymentOrder list \<Rightarrow> (string \<times> json) list" where
  "order_exceptions os =
     map (\<lambda>x. (''CONFIRMED_WITHOUT_BANK_TXN'', JObj [(''orderId'', JStr (po_id x))]))
       (filter (\<lambda>x. po_status x = PaymentOrderStatus.CONFIRMED \<and> \<not> truthy (po_matchedBankTransactionId x)) os)
     @ map (\<lambda>(txn, ids). (''DUPLICATE_BANK_TXN'', JObj [(''bankTransactionId'', JStr txn), (''orderIds'', JArr (map JStr ids))]))
       (filter (\<lambda>(txn, ids). length ids > 1) (by_txn os))"

definition reconcilePaymentOrders :: "string \<Rightarrow> string \<Rightarrow> ReconciliationRun op" where
  "reconcilePaymentOrders tenantId actor =
     bnd (gets (\<lambda>s. filter (\<lambda>x. po_tenantId x = tenantId) (orders s))) (\<lambda>os.
     record_run ''PAYMENT_ORDERS'' None (Some tenantId) (JObj [(''orderCount'', JNum (int (length os)))])
       (order_exceptions os) actor)"

definition settlement_exceptions :: "PaykhSettlement list \<Rightarrow> (string \<times> json) list" where
  "settlement_exceptions xs = map (\<lambda>x. (''CONFIRMED_WITHOUT_TIMESTAMP'', JObj [(''settlementId'', JStr (sm_id x))]))
     (filter (\<lambda>x. sm_status x = SettlementStatus.CONFIRMED \<and> sm_confirmedAt x = None) xs)"

definition reconcileSettlements :: "string \<Rightarrow> string \<Rightarrow> ReconciliationRun op" where
  "reconcileSettlements tenantId actor =
     bnd (gets (\<lambda>s. filter (\<lambda>x. sm_tenantId x = tenantId) (settlements s))) (\<lambda>xs.
     record_run ''MERCHANT_SETTLEMENTS'' None (Some tenantId) (JObj [(''settlementCount'', JNum (int (length xs)))])
       (settlement_exceptions xs) actor)"

definition recon_get :: "string \<Rightarrow> ReconciliationRun op" where
  "recon_get runId = find_or (\<lambda>s. find_row rr_id runId (reconRuns s)) (NotFound ''Reconciliation run'')"

definition listExceptions :: "bool \<Rightarrow> ReconciliationException list op" where
  "listExceptions resolved = gets (\<lambda>s. take 200 (rev (filter (\<lambda>x. rx_resolved x = resolved)
     (concat (map rr_exceptions (reconRuns s))))))"

section \<open>Attestations\<close>

record CreateAttestation =
  ca_programId :: "string option"
  ca_period :: string
  ca_scope :: string
  ca_methodology :: "string option"
  ca_reserveAmountMinor :: "string option"
  ca_liabilityAmountMinor :: "string option"
  ca_currency :: "string option"
  ca_opinion :: "string option"
  ca_auditor :: string
  ca_documentHash :: "string option"
  ca_actor :: string

definition bigint_opt :: "string option \<Rightarrow> int option res" where
  "bigint_opt x = (if truthy x then bind_r (BigInt (the x)) (\<lambda>n. Inr (Some n)) else Inr None)"

definition att_create :: "CreateAttestation \<Rightarrow> json op" where
  "att_create input = bnd (asks id) (\<lambda>e.
     bnd (lift_r (bigint_opt (ca_reserveAmountMinor input))) (\<lambda>reserveAmt.
     bnd (lift_r (bigint_opt (ca_liabilityAmountMinor input))) (\<lambda>liabilityAmt.
     let derived = (truthy (ca_programId input) \<and> (reserveAmt = None \<or> liabilityAmt = None)) in
     bnd (if derived then reads (\<lambda>e s. bind_r (position e s (the (ca_programId input))) (\<lambda>pos.
            Inr (Some (or_else reserveAmt (minor (rp_eligibleReserve pos))),
                 Some (or_else liabilityAmt (minor (rp_reserveObligation pos))),
                 Some (or_else (ca_currency input) (rp_currency pos)))))
          else ret (reserveAmt, liabilityAmt, ca_currency input)) (\<lambda>(reserveAmount, liabilityAmount, cur).
     seq (create_row attestations attestations_update (\<lambda>a b. at_id a = at_id b) ''Attestation''
       \<lparr>at_id = newId e, at_programId = ca_programId input, at_period = ca_period input, at_scope = ca_scope input,
        at_methodology = ca_methodology input, at_reserveAmountMinor = reserveAmount,
        at_liabilityAmountMinor = liabilityAmount, at_currency = cur, at_opinion = ca_opinion input,
        at_auditor = ca_auditor input, at_documentHash = ca_documentHash input, at_status = ''DRAFT'',
        at_issueDate = None, at_createdBy = Some (ca_actor input), at_approvedBy = None\<rparr>)
     (seq (audit ((audit_rec (ca_actor input) ''attestation.created'' ''ATTESTATION'' (newId e))
        \<lparr>ar_afterState := Some (JObj [(''derivedFromLedger'', JBool derived)])\<rparr>))
     (ret (JObj [(''id'', JStr (newId e)), (''status'', JStr ''DRAFT''), (''derivedFromLedger'', JBool derived)])))))))"

definition allowed :: "string \<Rightarrow> string list" where
  "allowed status = (if status = ''DRAFT'' then [''UNDER_REVIEW'', ''WITHDRAWN'']
     else if status = ''UNDER_REVIEW'' then [''APPROVED'', ''WITHDRAWN'']
     else if status = ''APPROVED'' then [''PUBLISHED'', ''WITHDRAWN'']
     else if status = ''PUBLISHED'' then [''WITHDRAWN''] else [])"

definition lower_char :: "char \<Rightarrow> char" where
  "lower_char c = (if 65 \<le> (of_char c :: nat) \<and> (of_char c :: nat) \<le> 90 then char_of ((of_char c :: nat) + 32) else c)"

definition toLowerCase :: "string \<Rightarrow> string" where
  "toLowerCase t = map lower_char t"

definition require_att :: "string \<Rightarrow> Attestation op" where
  "require_att i = find_or (\<lambda>s. find_row at_id i (attestations s)) (NotFound ''Attestation'')"

definition att_transition :: "string \<Rightarrow> string \<Rightarrow> string \<Rightarrow> json op" where
  "att_transition i to actor = bnd (asks id) (\<lambda>e.
     bnd (require_att i) (\<lambda>a.
     seq (check (to \<in> set (allowed (at_status a))) (BadRequest ''Cannot transition attestation''))
     (seq (update_row attestations attestations_update at_id ''Attestation'' i
        (\<lambda>x. x\<lparr>at_status := to, at_approvedBy := (if to = ''APPROVED'' then Some actor else at_approvedBy a),
           at_issueDate := (if to = ''PUBLISHED'' then Some (now e) else at_issueDate a)\<rparr>))
     (seq (audit (audit_rec actor (''attestation.'' @ toLowerCase to) ''ATTESTATION'' i))
     (ret (id_status i to))))))"

definition att_content :: "Attestation \<Rightarrow> (string \<times> json) list" where
  "att_content a = [(''attestationId'', JStr (at_id a)), (''programId'', jopt (at_programId a)), (''period'', JStr (at_period a)),
     (''scope'', JStr (at_scope a)),
     (''reserveAmountMinor'', case at_reserveAmountMinor a of None \<Rightarrow> JNull | Some n \<Rightarrow> jbig n),
     (''liabilityAmountMinor'', case at_liabilityAmountMinor a of None \<Rightarrow> JNull | Some n \<Rightarrow> jbig n),
     (''currency'', jopt (at_currency a)), (''opinion'', jopt (at_opinion a)), (''auditor'', JStr (at_auditor a)),
     (''documentHash'', jopt (at_documentHash a)), (''status'', JStr (at_status a)),
     (''issueDate'', jopt (map_option toISOString (at_issueDate a)))]"

definition att_get :: "string \<Rightarrow> json op" where
  "att_get i = bnd (asks id) (\<lambda>e. bnd (require_att i) (\<lambda>a.
     let content = att_content a; base = content @ [(''contentHash'', JStr (sha256Hex e (stringify (JObj content))))] in
     if at_status a \<noteq> ''PUBLISHED'' then ret (JObj base)
     else let signature = sign e ATTESTATION (JObj content) in
       ret (JObj (base @ [(''signature'', JObj [(''keyId'', JStr (sg_keyId signature)),
         (''algorithm'', JStr (sg_algorithm signature)), (''value'', JStr (sg_value signature))])]))))"

definition att_list :: "string option \<Rightarrow> json op" where
  "att_list programId = bnd (gets (\<lambda>s. rev (filter (\<lambda>a. truthy programId \<longrightarrow> at_programId a = programId) (attestations s)))) (\<lambda>rows.
     ret (JObj [(''attestations'', JArr (map (\<lambda>a. JObj [(''id'', JStr (at_id a)), (''period'', JStr (at_period a)),
       (''scope'', JStr (at_scope a)), (''status'', JStr (at_status a)), (''auditor'', JStr (at_auditor a)),
       (''programId'', jopt (at_programId a))]) rows))]))"

section \<open>Frames\<close>

datatype oversight_cmd =
    ReconcileReserve string string
  | ReconcileOrders string string
  | ReconcileSettlements string string
  | CreateAttestationCmd CreateAttestation
  | TransitionAttestation string string string

definition void :: "'a op \<Rightarrow> unit op" where
  "void m = bnd m (\<lambda>_. ret ())"

primrec run_oversight :: "oversight_cmd \<Rightarrow> unit op" where
  "run_oversight (ReconcileReserve p actor) = void (reconcileReserve p actor)"
| "run_oversight (ReconcileOrders t actor) = void (reconcilePaymentOrders t actor)"
| "run_oversight (ReconcileSettlements t actor) = void (reconcileSettlements t actor)"
| "run_oversight (CreateAttestationCmd input) = void (att_create input)"
| "run_oversight (TransitionAttestation i to actor) = void (att_transition i to actor)"

lemmas oversight_op_defs = void_def reconcileReserve_def reconcilePaymentOrders_def reconcileSettlements_def record_run_def
  att_create_def att_transition_def require_att_def

definition mask_oversight :: "st \<Rightarrow> st" where
  "mask_oversight s = s\<lparr>reconRuns := [], attestations := [], audits := [], outbox := []\<rparr>"

lemma oversight_frame: "leaves mask_oversight (run_oversight c)"
  by (cases c; simp only: run_oversight.simps; unfold oversight_op_defs Let_def)
     (intro leaves_intros; simp add: mask_oversight_def)+

lemma lower_char_attestation: "''attestation.'' @ toLowerCase to \<noteq> ''paykh.settlement.maker''"
  by simp

lemma oversight_logs: "logs no_maker (run_oversight c)"
  by (cases c; simp only: run_oversight.simps; unfold oversight_op_defs Let_def)
     (intro logs_intros; simp)+

section \<open>When a run is OK\<close>

lemma run_row_status: "rr_status (run_row i sc p t sm xs actor) = ''OK'' \<longleftrightarrow> xs = []"
  by (simp add: run_row_def)

lemma record_run_ok:
  "record_run sc p t sm xs actor e s = (Inr run, s') \<Longrightarrow> run = run_row (newId e) sc p t sm xs actor
     \<and> reconRuns s' = reconRuns s @ [run]"
  by (auto simp: record_run_def prog_simps Let_def split: if_splits)

text \<open>The grouping keeps, for every transaction, the orders that carry it.\<close>

lemma add_txn_lookup:
  "map_of (add_txn t i m) k = (if k = t then Some ((case map_of m t of None \<Rightarrow> [] | Some ids \<Rightarrow> ids) @ [i]) else map_of m k)"
  by (induction t i m rule: add_txn.induct) (auto split: option.splits)

lemma add_txn_keys: "distinct (map fst m) \<Longrightarrow> distinct (map fst (add_txn t i m)) \<and> fst ` set (add_txn t i m) = insert t (fst ` set m)"
  by (induction t i m rule: add_txn.induct) auto

definition txn_ids :: "PaykhPaymentOrder list \<Rightarrow> string \<Rightarrow> string list" where
  "txn_ids os t = map po_id (filter (\<lambda>x. truthy (po_matchedBankTransactionId x) \<and> the (po_matchedBankTransactionId x) = t) os)"

definition carries :: "PaykhPaymentOrder list \<Rightarrow> (string \<times> string list) list \<Rightarrow> bool" where
  "carries os m \<longleftrightarrow> distinct (map fst m) \<and> (\<forall>t. (case map_of m t of None \<Rightarrow> [] | Some ids \<Rightarrow> ids) = txn_ids os t)"

lemma by_txn_carries: "carries os (by_txn os)"
proof -
  have "carries (ps @ os) (fold (\<lambda>x m. if truthy (po_matchedBankTransactionId x)
     then add_txn (the (po_matchedBankTransactionId x)) (po_id x) m else m) os m)" if "carries ps m" for ps m
    using that
  proof (induction os arbitrary: ps m)
    case (Cons x os)
    have "carries (ps @ [x]) (if truthy (po_matchedBankTransactionId x)
       then add_txn (the (po_matchedBankTransactionId x)) (po_id x) m else m)"
      using Cons.prems add_txn_keys [of m]
      by (auto simp: carries_def txn_ids_def add_txn_lookup)
    from Cons.IH [OF this] show ?case by simp
  qed simp
  from this [of "[]" "[]"] show ?thesis by (simp add: by_txn_def carries_def txn_ids_def)
qed

lemma order_exceptions_Nil:
  assumes conf: "\<And>x. x \<in> set os \<Longrightarrow> po_status x = PaymentOrderStatus.CONFIRMED \<Longrightarrow> truthy (po_matchedBankTransactionId x)"
    and one: "\<And>t. length (txn_ids os t) \<le> 1"
  shows "order_exceptions os = []"
proof -
  have "\<not> length ids > 1" if "(t, ids) \<in> set (by_txn os)" for t ids
  proof -
    from that by_txn_carries [of os] have "map_of (by_txn os) t = Some ids" by (simp add: carries_def)
    with by_txn_carries [of os] one [of t] show ?thesis unfolding carries_def by (metis not_less option.simps(5))
  qed
  then have "filter (\<lambda>(txn, ids). length ids > 1) (by_txn os) = []" by (auto simp: filter_empty_conv)
  moreover have "filter (\<lambda>x. po_status x = PaymentOrderStatus.CONFIRMED \<and> \<not> truthy (po_matchedBankTransactionId x)) os = []"
    using conf by (auto simp: filter_empty_conv)
  ultimately show ?thesis by (simp add: order_exceptions_def)
qed

text \<open>With one order per bank transaction, at most one order carries it.\<close>

lemma txn_ids_single:
  assumes "one_order_each os" and "uniq po_id os"
  shows "length (txn_ids (filter p os) t) \<le> 1"
proof -
  let ?xs = "filter (\<lambda>x. truthy (po_matchedBankTransactionId x) \<and> the (po_matchedBankTransactionId x) = t) (filter p os)"
  have "a = b" if "a \<in> set ?xs" "b \<in> set ?xs" for a b
  proof -
    from that have "a \<in> set os" "b \<in> set os" "po_matchedBankTransactionId a = Some t" "po_matchedBankTransactionId b = Some t"
      by (auto simp: truthy_def split: option.splits)
    with one_order_eachD [OF assms(1), of a b] show ?thesis by simp
  qed
  moreover from assms(2) have "distinct ?xs" by (simp add: uniq_def distinct_map)
  moreover have "card (set ?xs) \<le> Suc 0" using calculation(1) by (subst card_le_Suc0_iff_eq) blast+
  ultimately have "length ?xs \<le> 1" by (metis One_nat_def distinct_card)
  then show ?thesis by (simp only: txn_ids_def length_map)
qed

section \<open>The attestation life cycle\<close>

inductive att_step :: "string \<Rightarrow> string \<Rightarrow> bool" where
  submit: "att_step ''DRAFT'' ''UNDER_REVIEW''"
| approve: "att_step ''UNDER_REVIEW'' ''APPROVED''"
| publish_it: "att_step ''APPROVED'' ''PUBLISHED''"
| withdraw: "x \<in> {''DRAFT'', ''UNDER_REVIEW'', ''APPROVED'', ''PUBLISHED''} \<Longrightarrow> att_step x ''WITHDRAWN''"

code_pred att_step .

inductive_cases att_step_to: "att_step x y"

lemma allowed_step: "to \<in> set (allowed st) \<longleftrightarrow> att_step st to"
  by (auto simp: allowed_def att_step.simps split: if_splits)

lemma att_transition_effect:
  assumes "att_transition i to actor e s = (r, s')"
  shows "(\<exists>x. r = Inl x \<and> s' = s)
    \<or> (\<exists>a. find_row at_id i (attestations s) = Some a \<and> att_step (at_status a) to \<and> is_ok r
        \<and> attestations s' = set_row at_id i (\<lambda>x. x\<lparr>at_status := to,
             at_approvedBy := (if to = ''APPROVED'' then Some actor else at_approvedBy a),
             at_issueDate := (if to = ''PUBLISHED'' then Some (now e) else at_issueDate a)\<rparr>) (attestations s))"
  using assms
  by (auto simp: att_transition_def require_att_def prog_simps allowed_step split: option.splits if_splits)

definition att_ok :: "Attestation \<Rightarrow> bool" where
  "att_ok a \<longleftrightarrow> (at_status a \<in> {''APPROVED'', ''PUBLISHED''} \<longrightarrow> at_approvedBy a \<noteq> None)
     \<and> (at_status a = ''PUBLISHED'' \<longrightarrow> at_issueDate a \<noteq> None)"

definition att_inv :: "st \<Rightarrow> bool" where
  "att_inv s \<longleftrightarrow> uniq at_id (attestations s) \<and> list_all att_ok (attestations s)"

lemma att_transition_inv: "keeps att_inv (att_transition i to actor)"
  unfolding keeps_def
proof (intro allI impI)
  fix e s assume inv: "att_inv s"
  obtain r s' where run: "att_transition i to actor e s = (r, s')" by fastforce
  from att_transition_effect [OF run] have "att_inv s'"
  proof (elim disjE exE conjE)
    fix a assume a: "find_row at_id i (attestations s) = Some a" and st: "att_step (at_status a) to"
      and s': "attestations s' = set_row at_id i (\<lambda>x. x\<lparr>at_status := to,
             at_approvedBy := (if to = ''APPROVED'' then Some actor else at_approvedBy a),
             at_issueDate := (if to = ''PUBLISHED'' then Some (now e) else at_issueDate a)\<rparr>) (attestations s)"
    from inv find_row_Some [OF a] have "att_ok a" by (simp add: att_inv_def list_all_iff)
    with st have "att_ok (x\<lparr>at_status := to, at_approvedBy := (if to = ''APPROVED'' then Some actor else at_approvedBy a),
             at_issueDate := (if to = ''PUBLISHED'' then Some (now e) else at_issueDate a)\<rparr>)" for x
      by (auto simp: att_ok_def elim: att_step_to)
    then have "list_all att_ok (attestations s')"
      using inv unfolding s' list_all_iff att_inv_def by (auto elim: set_row_cases)
    with inv show ?thesis by (simp add: att_inv_def s' uniq_set_row)
  qed (use inv in simp)
  with run show "att_inv (snd (att_transition i to actor e s))" by simp
qed

lemma keeps_att_audit: "keeps att_inv (audit r)"
  unfolding audit_def by (rule keeps_modify) (simp add: att_inv_def)

lemma keeps_case_prod: "(\<And>a b. keeps P (n a b)) \<Longrightarrow> keeps P (case x of (a, b) \<Rightarrow> n a b)"
  by (simp split: prod.split)

lemma att_create_inv: "keeps att_inv (att_create input)"
  unfolding att_create_def Let_def
  by (intro keeps_intros keeps_case_prod keeps_att_audit keeps_create_row)
     (auto simp: att_inv_def uniq_append_row att_ok_def list_ex_iff has_row_def)

lemma att_inv_foreign: "leaves attestations m \<Longrightarrow> keeps att_inv m"
  by (simp add: leaves_def keeps_def att_inv_def)

lemma recon_leaves_att:
  "leaves attestations (reconcileReserve p actor)" "leaves attestations (reconcilePaymentOrders t actor)"
  "leaves attestations (reconcileSettlements t actor)"
  by (unfold oversight_op_defs Let_def) (intro leaves_intros; simp)+

lemma run_oversight_inv: "keeps att_inv (run_oversight c)"
  by (cases c; simp only: run_oversight.simps void_def)
     (intro keeps_bnd keeps_ret att_create_inv att_transition_inv recon_leaves_att [THEN att_inv_foreign])+

end
