(* ===== verification/Loyalty.thy ===== *)
theory Loyalty
  imports Settlements
begin

text \<open>
  \<open>modules/paykh/program-funds.service.ts\<close> and \<open>loyalty.service.ts\<close>: safeguarded program funds
  and the loyalty stablecoin they back. Issuance earmarks program-fund backing and asks
  PayChain to mint; redemption turns the coin into a merchant payable; reconciliation
  compares ledger and on-chain supply.
\<close>

section \<open>Program funds\<close>

record CreateProgramFund =
  cg_tenantId :: string
  cg_paykhProgramId :: string
  cg_classification :: string
  cg_currency :: string
  cg_reserveAccountId :: string
  cg_actor :: string

definition require_fund :: "string \<Rightarrow> PaykhProgramFund op" where
  "require_fund fundId = find_or (\<lambda>s. find_row pf_id fundId (funds s)) (NotFound ''Program fund'')"

definition set_fund :: "string \<Rightarrow> (PaykhProgramFund \<Rightarrow> PaykhProgramFund) \<Rightarrow> unit op" where
  "set_fund fundId f = update_row funds funds_update pf_id ''PaykhProgramFund'' fundId f"

definition fund_clash :: "PaykhProgramFund \<Rightarrow> PaykhProgramFund \<Rightarrow> bool" where
  "fund_clash a b \<longleftrightarrow> pf_id a = pf_id b \<or> pf_tenantId a = pf_tenantId b \<and> pf_paykhProgramId a = pf_paykhProgramId b"

definition new_fund :: "string \<Rightarrow> CreateProgramFund \<Rightarrow> PaykhProgramFund" where
  "new_fund i input = \<lparr>pf_id = i, pf_tenantId = cg_tenantId input, pf_paykhProgramId = cg_paykhProgramId input,
     pf_classification = cg_classification input, pf_currency = cg_currency input,
     pf_reserveAccountId = cg_reserveAccountId input, pf_fundedMinor = 0, pf_reservedMinor = 0, pf_status = ''ACTIVE''\<rparr>"

definition fund_create :: "CreateProgramFund \<Rightarrow> json op" where
  "fund_create input = bnd (asks id) (\<lambda>e.
     seq (create_row funds funds_update fund_clash ''PaykhProgramFund'' (new_fund (newId e) input))
     (seq (audit ((audit_rec (cg_actor input) ''paykh.program_fund.created'' ''PAYKH_PROGRAM_FUND'' (newId e))
       \<lparr>ar_afterState := Some (JObj [(''classification'', JStr (cg_classification input))])\<rparr>))
     (ret (JObj [(''id'', JStr (newId e)), (''classification'', JStr (cg_classification input)),
        (''status'', JStr ''ACTIVE'')]))))"

text \<open>Reading \<open>policy.fiatBackingRequired\<close> throws when the classification is unknown.\<close>

definition fiat_backed :: "string \<Rightarrow> bool res" where
  "fiat_backed classification = bind_r (require (backingPolicyFor classification) (PlainError ''TypeError''))
     (\<lambda>p. Inr (fp_fiatBackingRequired p))"

definition fund_fund :: "string \<Rightarrow> string \<Rightarrow> string \<Rightarrow> json op" where
  "fund_fund fundId amountMinor actor =
     bnd (require_fund fundId) (\<lambda>fund.
     bnd (lift_r (BigInt amountMinor)) (\<lambda>n.
     let amount = money_big n (pf_currency fund) in
     seq (check (\<not> minor amount \<le> 0) (BadRequest ''Funding amount must be positive''))
     (bnd (lift_r (fiat_backed (pf_classification fund))) (\<lambda>backed.
     bnd (if backed then bnd (post_res (paykhProgramFundingEntry amount
            (refs_of (''paykh-fund:'' @ fundId) (pf_tenantId fund) (pf_paykhProgramId fund) actor))) (\<lambda>_. ret ())
          else ret ()) (\<lambda>_.
     let funded = pf_fundedMinor fund + minor amount in
     seq (set_fund fundId (\<lambda>f. f\<lparr>pf_fundedMinor := funded\<rparr>))
     (seq (publishToPaykh ''paykh.program-fund.cleared'' (JObj [(''fundId'', JStr fundId), (''fundedMinor'', jbig funded)]))
     (ret (JObj [(''id'', JStr fundId), (''fundedMinor'', jbig funded)]))))))))"

definition fund_reserve :: "string \<Rightarrow> string \<Rightarrow> string \<Rightarrow> json op" where
  "fund_reserve fundId amountMinor actor =
     bnd (require_fund fundId) (\<lambda>fund.
     bnd (lift_r (BigInt amountMinor)) (\<lambda>amount.
     let available = pf_fundedMinor fund - pf_reservedMinor fund in
     seq (check (\<not> amount > available) (BadRequest ''Insufficient available program funding to reserve''))
     (let reserved = pf_reservedMinor fund + amount; remaining = pf_fundedMinor fund - reserved in
     seq (set_fund fundId (\<lambda>f. f\<lparr>pf_reservedMinor := reserved\<rparr>))
     (seq (audit ((audit_rec actor ''paykh.program_fund.reserved'' ''PAYKH_PROGRAM_FUND'' fundId)
        \<lparr>ar_afterState := Some (JObj [(''reservedMinor'', jbig reserved)])\<rparr>))
     (seq (if remaining = 0 then publishToPaykh ''paykh.program-fund.exhausted'' (JObj [(''fundId'', JStr fundId)]) else ret ())
     (ret (JObj [(''id'', JStr fundId), (''reservedMinor'', jbig reserved), (''availableMinor'', jbig remaining)])))))))"

definition fund_release :: "string \<Rightarrow> string \<Rightarrow> string \<Rightarrow> json op" where
  "fund_release fundId amountMinor actor =
     bnd (require_fund fundId) (\<lambda>fund.
     bnd (lift_r (BigInt amountMinor)) (\<lambda>amount.
     seq (check (\<not> amount > pf_reservedMinor fund) (BadRequest ''Cannot release more than reserved''))
     (let reserved = pf_reservedMinor fund - amount in
     seq (set_fund fundId (\<lambda>f. f\<lparr>pf_reservedMinor := reserved\<rparr>))
     (seq (audit (audit_rec actor ''paykh.program_fund.released'' ''PAYKH_PROGRAM_FUND'' fundId))
     (ret (JObj [(''id'', JStr fundId), (''reservedMinor'', jbig reserved)]))))))"

definition fund_get :: "string \<Rightarrow> json op" where
  "fund_get fundId = bnd (require_fund fundId) (\<lambda>f.
     ret (JObj [(''id'', JStr (pf_id f)), (''tenantId'', JStr (pf_tenantId f)), (''paykhProgramId'', JStr (pf_paykhProgramId f)),
       (''classification'', JStr (pf_classification f)), (''currency'', JStr (pf_currency f)), (''status'', JStr (pf_status f)),
       (''fundedMinor'', jbig (pf_fundedMinor f)), (''reservedMinor'', jbig (pf_reservedMinor f))]))"

definition fund_balance :: "string \<Rightarrow> json op" where
  "fund_balance fundId = bnd (require_fund fundId) (\<lambda>f.
     ret (JObj [(''id'', JStr (pf_id f)), (''classification'', JStr (pf_classification f)),
       (''currency'', JStr (pf_currency f)), (''fundedMinor'', jbig (pf_fundedMinor f)),
       (''reservedMinor'', jbig (pf_reservedMinor f)), (''availableMinor'', jbig (pf_fundedMinor f - pf_reservedMinor f))]))"

section \<open>Binding a fund to a loyalty stablecoin\<close>

record BindLoyaltyInput =
  bl_programFundId :: string
  bl_decimals :: "int option"
  bl_denominationMinor :: "string option"
  bl_stellarAssetCode :: "string option"
  bl_stellarIssuer :: "string option"
  bl_stellarDistributor :: "string option"
  bl_actor :: string

definition serialize_loyalty :: "PaykhLoyaltyLiability \<Rightarrow> json" where
  "serialize_loyalty l = JObj [(''id'', JStr (ll_id l)), (''tenantId'', JStr (ll_tenantId l)),
     (''paykhProgramId'', JStr (ll_paykhProgramId l)), (''programFundId'', JStr (ll_programFundId l)),
     (''classification'', JStr (ll_classification l)), (''currency'', JStr (ll_currency l)),
     (''pegCurrency'', JStr (ll_pegCurrency l)), (''denominationMinor'', jbig (ll_denominationMinor l)),
     (''decimals'', JNum (ll_decimals l)),
     (''stellar'', if truthy (ll_stellarAssetCode l)
        then JObj [(''assetCode'', jopt (ll_stellarAssetCode l)), (''issuer'', jopt (ll_stellarIssuer l)),
               (''distributor'', jopt (ll_stellarDistributor l))]
        else JNull),
     (''outstandingMinor'', jbig (ll_outstandingMinor l)), (''issuedTotalMinor'', jbig (ll_issuedTotalMinor l)),
     (''redeemedTotalMinor'', jbig (ll_redeemedTotalMinor l)), (''onChainSupplyMinor'', jbig (ll_onChainSupplyMinor l)),
     (''reconciliationStatus'', JStr (ll_reconciliationStatus l)), (''status'', JStr (ll_status l))]"

definition new_loyalty :: "string \<Rightarrow> BindLoyaltyInput \<Rightarrow> PaykhProgramFund \<Rightarrow> int \<Rightarrow> PaykhLoyaltyLiability" where
  "new_loyalty i input fund denomination = \<lparr>ll_id = i, ll_tenantId = pf_tenantId fund,
     ll_paykhProgramId = pf_paykhProgramId fund, ll_programFundId = pf_id fund,
     ll_classification = pf_classification fund, ll_currency = pf_currency fund, ll_pegCurrency = pf_currency fund,
     ll_denominationMinor = denomination, ll_decimals = or_else (bl_decimals input) 2,
     ll_stellarAssetCode = bl_stellarAssetCode input, ll_stellarIssuer = bl_stellarIssuer input,
     ll_stellarDistributor = bl_stellarDistributor input, ll_outstandingMinor = 0, ll_issuedTotalMinor = 0,
     ll_redeemedTotalMinor = 0, ll_onChainSupplyMinor = 0, ll_reconciliationStatus = ''PENDING'',
     ll_lastReconciledAt = None, ll_status = ''ACTIVE''\<rparr>"

definition loyalty_clash :: "PaykhLoyaltyLiability \<Rightarrow> PaykhLoyaltyLiability \<Rightarrow> bool" where
  "loyalty_clash a b \<longleftrightarrow> ll_id a = ll_id b \<or> ll_programFundId a = ll_programFundId b
     \<or> ll_tenantId a = ll_tenantId b \<and> ll_paykhProgramId a = ll_paykhProgramId b"

definition loyalty_bind :: "BindLoyaltyInput \<Rightarrow> json op" where
  "loyalty_bind input = bnd (asks id) (\<lambda>e.
     bnd (require_fund (bl_programFundId input)) (\<lambda>fund.
     bnd (lift_r (fiat_backed (pf_classification fund))) (\<lambda>backed.
     seq (check backed (BadRequest ''Classification is not fiat-backed''))
     (bnd (gets (\<lambda>s. find_row ll_programFundId (pf_id fund) (loyalties s))) (\<lambda>existing.
     seq (check (existing = None) (Conflict ''Program fund already has a loyalty stablecoin''))
     (bnd (if truthy (bl_denominationMinor input) then lift_r (BigInt (the (bl_denominationMinor input))) else ret 1) (\<lambda>denomination.
     seq (check (\<not> denomination \<le> 0) (BadRequest ''denominationMinor must be positive''))
     (seq (create_row loyalties loyalties_update loyalty_clash ''PaykhLoyaltyLiability''
        (new_loyalty (newId e) input fund denomination))
     (seq (audit ((audit_rec (bl_actor input) ''paykh.loyalty.bound'' ''PAYKH_LOYALTY_LIABILITY'' (newId e))
        \<lparr>ar_afterState := Some (JObj [(''stellarAssetCode'', jopt (bl_stellarAssetCode input)),
           (''denominationMinor'', jbig denomination)])\<rparr>))
     (ret (serialize_loyalty (new_loyalty (newId e) input fund denomination))))))))))))"

section \<open>On-chain authorization\<close>

definition resolveAmount :: "PaykhLoyaltyLiability \<Rightarrow> string option \<Rightarrow> string option \<Rightarrow> (Money \<times> int option) res" where
  "resolveAmount liability amountMinor unitsStr =
     (if truthy unitsStr then
        bind_r (BigInt (the unitsStr)) (\<lambda>units.
        bind_r (makePeg (ll_pegCurrency liability) (ll_denominationMinor liability)) (\<lambda>peg.
        bind_r (backingForUnits units peg) (\<lambda>amount. Inr (amount, Some units))))
      else if truthy amountMinor then
        bind_r (BigInt (the amountMinor)) (\<lambda>n. Inr (money_big n (ll_pegCurrency liability), None))
      else Inl (BadRequest ''Provide either units or amountMinor''))"

record ChainResult =
  cr_status :: string
  cr_executedBy :: string
  cr_paychainReference :: "string option"
  cr_onChainTxHash :: "string option"

definition authorizeOnChain :: "env \<Rightarrow> string \<Rightarrow> string \<Rightarrow> PaykhLoyaltyLiability \<Rightarrow> string \<Rightarrow> ChainResult res" where
  "authorizeOnChain e operation lower liability amountMinor =
     (if \<not> truthy (ll_stellarAssetCode liability) \<or> \<not> truthy (ll_stellarDistributor liability)
      then Inr \<lparr>cr_status = ''OFFCHAIN'', cr_executedBy = ''offchain'', cr_paychainReference = None, cr_onChainTxHash = None\<rparr>
      else let reference = ''paykh-loyalty-'' @ lower @ '':'' @ ll_id liability @ '':'' @ randomUUID e;
               assetCode = the (ll_stellarAssetCode liability); destination = the (ll_stellarDistributor liability);
               artifact = JObj [(''operation'', JStr operation), (''assetCode'', JStr assetCode),
                 (''destination'', JStr destination), (''amountMinor'', JStr amountMinor),
                 (''currency'', JStr (ll_pegCurrency liability)), (''reference'', JStr reference)];
               sig = sign e MINT_AUTHORIZATION artifact in
        bind_r (execute e \<lparr>ir_operation = operation, ir_authorizationId = reference, ir_assetCode = assetCode,
          ir_destination = destination, ir_amountMinor = amountMinor, ir_decimals = ll_decimals liability,
          ir_currency = ll_pegCurrency liability, ir_reference = reference,
          ir_signature = \<lparr>sg_keyId = sg_keyId sig, sg_algorithm = ''ed25519'', sg_value = sg_value sig\<rparr>\<rparr>) (\<lambda>res.
        Inr \<lparr>cr_status = (if ix_simulated res then ''ONCHAIN_SIMULATED''
               else if ix_accepted res then ''ONCHAIN_CONFIRMED'' else ''ONCHAIN_FAILED''),
             cr_executedBy = (if ix_simulated res then ''simulated'' else ''paychain''),
             cr_paychainReference = ix_paychainReference res, cr_onChainTxHash = ix_onChainTxHash res\<rparr>))"

definition jund :: "string option \<Rightarrow> json" where
  "jund x = (case x of None \<Rightarrow> JUndef | Some t \<Rightarrow> JStr t)"

definition chain_view :: "ChainResult \<Rightarrow> json" where
  "chain_view c = JObj [(''status'', JStr (cr_status c)), (''executedBy'', JStr (cr_executedBy c)),
     (''paychainReference'', jund (cr_paychainReference c)), (''onChainTxHash'', jund (cr_onChainTxHash c))]"

definition junits :: "int option \<Rightarrow> json" where
  "junits u = (case u of None \<Rightarrow> JNull | Some n \<Rightarrow> jbig n)"

definition require_loyalty :: "string \<Rightarrow> PaykhLoyaltyLiability op" where
  "require_loyalty liabilityId = find_or (\<lambda>s. find_row ll_id liabilityId (loyalties s)) (NotFound ''Loyalty liability'')"

definition asset_ref :: "PaykhLoyaltyLiability \<Rightarrow> string" where
  "asset_ref l = or_else (ll_stellarAssetCode l) (ll_paykhProgramId l)"

section \<open>Issuance\<close>

record IssueLoyaltyInput =
  il_liabilityId :: string
  il_customerRef :: string
  il_amountMinor :: "string option"
  il_units :: "string option"
  il_actor :: string

definition issuance_row :: "env \<Rightarrow> IssueLoyaltyInput \<Rightarrow> PaykhLoyaltyLiability \<Rightarrow> Money \<Rightarrow> int option \<Rightarrow> ChainResult \<Rightarrow> PaykhLoyaltyIssuance" where
  "issuance_row e input liability amount units chain = \<lparr>li_id = newId e, li_loyaltyLiabilityId = ll_id liability,
     li_customerRef = il_customerRef input, li_units = units, li_amountMinor = minor amount,
     li_currency = ll_pegCurrency liability, li_status = cr_status chain,
     li_paychainReference = cr_paychainReference chain, li_onChainTxHash = cr_onChainTxHash chain, li_actor = il_actor input\<rparr>"

text \<open>The \<open>$transaction\<close>: three writes, all or none.\<close>

definition issue_tx :: "PaykhProgramFund \<Rightarrow> PaykhLoyaltyLiability \<Rightarrow> int \<Rightarrow> PaykhLoyaltyIssuance \<Rightarrow> unit op" where
  "issue_tx fund liability amount row = try_modify (\<lambda>s.
     if \<not> has_row pf_id (pf_id fund) (funds s) then Inl (RecordNotFound ''PaykhProgramFund'')
     else if \<not> has_row ll_id (ll_id liability) (loyalties s) then Inl (RecordNotFound ''PaykhLoyaltyLiability'')
     else if has_row li_id (li_id row) (loyIssuances s) then Inl (UniqueViolation ''PaykhLoyaltyIssuance'')
     else Inr (s\<lparr>funds := set_row pf_id (pf_id fund) (\<lambda>f. f\<lparr>pf_reservedMinor := pf_reservedMinor fund + amount\<rparr>) (funds s),
       loyalties := set_row ll_id (ll_id liability) (\<lambda>l. l\<lparr>ll_outstandingMinor := ll_outstandingMinor liability + amount,
         ll_issuedTotalMinor := ll_issuedTotalMinor liability + amount\<rparr>) (loyalties s),
       loyIssuances := loyIssuances s @ [row]\<rparr>))"

definition loyalty_issue :: "IssueLoyaltyInput \<Rightarrow> json op" where
  "loyalty_issue input = bnd (asks id) (\<lambda>e.
     seq (requireEnabled ''paykh.loyalty.enabled'')
     (bnd (require_loyalty (il_liabilityId input)) (\<lambda>liability.
     bnd (require_fund (ll_programFundId liability)) (\<lambda>fund.
     bnd (lift_r (resolveAmount liability (il_amountMinor input) (il_units input))) (\<lambda>(amount, units).
     seq (check (\<not> minor amount \<le> 0) (BadRequest ''Issuance amount must be positive''))
     (seq (check (\<not> minor amount > pf_fundedMinor fund - pf_reservedMinor fund) (BadRequest ''Insufficient safeguarded backing''))
     (bnd (post_res (paykhLoyaltyIssuanceEntry amount
        (refs_of (''paykh-loyalty-issue:'' @ ll_id liability) (ll_tenantId liability) (asset_ref liability) (il_actor input)))) (\<lambda>_.
     bnd (lift_r (authorizeOnChain e ''ISSUE'' ''issue'' liability (bigint_toString (minor amount)))) (\<lambda>chain.
     seq (issue_tx fund liability (minor amount) (issuance_row e input liability amount units chain))
     (seq (audit ((audit_rec (il_actor input) ''paykh.loyalty.issued'' ''PAYKH_LOYALTY_ISSUANCE'' (newId e))
        \<lparr>ar_afterState := Some (JObj [(''amountMinor'', jbig (minor amount)), (''units'', junits units),
           (''paychainReference'', jund (cr_paychainReference chain))])\<rparr>))
     (seq (publishToPaykh ''paykh.loyalty.issued'' (JObj [(''liabilityId'', JStr (ll_id liability)), (''issuanceId'', JStr (newId e)),
        (''amountMinor'', jbig (minor amount)), (''units'', junits units), (''paychainReference'', jund (cr_paychainReference chain)),
        (''onChainTxHash'', jund (cr_onChainTxHash chain)), (''executedBy'', JStr (cr_executedBy chain))]))
     (ret (JObj [(''issuanceId'', JStr (newId e)), (''liabilityId'', JStr (ll_id liability)),
        (''amountMinor'', jbig (minor amount)), (''units'', junits units), (''currency'', JStr (ll_pegCurrency liability)),
        (''onChain'', chain_view chain)])))))))))))))"

section \<open>Redemption\<close>

record RedeemLoyaltyInput =
  rl_liabilityId :: string
  rl_merchantId :: string
  rl_customerRef :: string
  rl_amountMinor :: "string option"
  rl_units :: "string option"
  rl_actor :: string

definition loyalty_redemption_row :: "env \<Rightarrow> RedeemLoyaltyInput \<Rightarrow> PaykhLoyaltyLiability \<Rightarrow> Money \<Rightarrow> ChainResult \<Rightarrow> PaykhLoyaltyRedemption" where
  "loyalty_redemption_row e input liability amount chain = \<lparr>lr_id = newId e, lr_loyaltyLiabilityId = ll_id liability,
     lr_tenantId = ll_tenantId liability, lr_merchantId = rl_merchantId input, lr_customerRef = rl_customerRef input,
     lr_amountMinor = minor amount, lr_currency = ll_pegCurrency liability, lr_status = ''CONFIRMED'',
     lr_paychainReference = cr_paychainReference chain, lr_onChainTxHash = cr_onChainTxHash chain,
     lr_actor = rl_actor input, lr_confirmedAt = Some (now e)\<rparr>"

definition redeem_tx :: "PaykhLoyaltyLiability \<Rightarrow> int \<Rightarrow> PaykhLoyaltyRedemption \<Rightarrow> unit op" where
  "redeem_tx liability amount row = try_modify (\<lambda>s.
     if \<not> has_row ll_id (ll_id liability) (loyalties s) then Inl (RecordNotFound ''PaykhLoyaltyLiability'')
     else if has_row lr_id (lr_id row) (loyRedemptions s) then Inl (UniqueViolation ''PaykhLoyaltyRedemption'')
     else Inr (s\<lparr>loyalties := set_row ll_id (ll_id liability) (\<lambda>l. l\<lparr>ll_outstandingMinor := ll_outstandingMinor liability - amount,
         ll_redeemedTotalMinor := ll_redeemedTotalMinor liability + amount\<rparr>) (loyalties s),
       loyRedemptions := loyRedemptions s @ [row]\<rparr>))"

definition loyalty_redeem :: "RedeemLoyaltyInput \<Rightarrow> json op" where
  "loyalty_redeem input = bnd (asks id) (\<lambda>e.
     seq (requireEnabled ''paykh.loyalty.enabled'')
     (bnd (requireActive (rl_merchantId input)) (\<lambda>_.
     bnd (require_loyalty (rl_liabilityId input)) (\<lambda>liability.
     bnd (lift_r (resolveAmount liability (rl_amountMinor input) (rl_units input))) (\<lambda>(amount, units).
     seq (check (\<not> minor amount \<le> 0) (BadRequest ''Redemption amount must be positive''))
     (seq (check (\<not> minor amount > ll_outstandingMinor liability) (BadRequest ''Cannot redeem more than outstanding''))
     (bnd (post_res (paykhLoyaltyRedemptionEntry amount
        (refs_of (''paykh-loyalty-redeem:'' @ ll_id liability) (ll_tenantId liability) (asset_ref liability) (rl_actor input)))) (\<lambda>_.
     bnd (lift_r (authorizeOnChain e ''BURN'' ''burn'' liability (bigint_toString (minor amount)))) (\<lambda>chain.
     seq (redeem_tx liability (minor amount) (loyalty_redemption_row e input liability amount chain))
     (seq (audit ((audit_rec (rl_actor input) ''paykh.loyalty.redeemed'' ''PAYKH_LOYALTY_REDEMPTION'' (newId e))
        \<lparr>ar_afterState := Some (JObj [(''amountMinor'', jbig (minor amount)), (''merchantId'', JStr (rl_merchantId input)),
           (''paychainReference'', jund (cr_paychainReference chain))])\<rparr>))
     (seq (publishToPaykh ''paykh.loyalty.redeemed'' (JObj [(''liabilityId'', JStr (ll_id liability)), (''redemptionId'', JStr (newId e)),
        (''merchantId'', JStr (rl_merchantId input)), (''amountMinor'', jbig (minor amount)),
        (''paychainReference'', jund (cr_paychainReference chain)), (''onChainTxHash'', jund (cr_onChainTxHash chain))]))
     (ret (JObj [(''redemptionId'', JStr (newId e)), (''liabilityId'', JStr (ll_id liability)),
        (''merchantId'', JStr (rl_merchantId input)), (''amountMinor'', jbig (minor amount)), (''units'', junits units),
        (''settlementRequired'', JBool True), (''onChain'', chain_view chain)])))))))))))))"

section \<open>Reconciliation with the chain\<close>

definition on_chain_supply :: "env \<Rightarrow> PaykhLoyaltyLiability \<Rightarrow> int option res" where
  "on_chain_supply e l = (if truthy (ll_stellarAssetCode l) \<and> truthy (ll_stellarIssuer l)
     then bind_r (readOnChainSupply e (the (ll_stellarAssetCode l)) (the (ll_stellarIssuer l)) (ll_decimals l)) (\<lambda>supply.
       case supply of None \<Rightarrow> Inr None | Some m \<Rightarrow> bind_r (BigInt m) (\<lambda>n. Inr (Some n)))
     else Inr None)"

definition loyalty_reconcile :: "string \<Rightarrow> json op" where
  "loyalty_reconcile liabilityId = bnd (asks id) (\<lambda>e.
     bnd (require_loyalty liabilityId) (\<lambda>liability.
     bnd (gets (\<lambda>s. find_row pf_id (ll_programFundId liability) (funds s))) (\<lambda>fund.
     bnd (reads (\<lambda>e s. accountBalance s (ll_tenantId liability) LIABILITY_PAYKH_LOYALTY_STABLECOIN (ll_pegCurrency liability))) (\<lambda>ledgerOutstanding.
     bnd (lift_r (on_chain_supply e liability)) (\<lambda>onChain.
     let status = (case onChain of Some n \<Rightarrow> if n \<noteq> minor ledgerOutstanding then ''DRIFT'' else ''OK'' | None \<Rightarrow> ''OK'');
         onChainView = (case onChain of None \<Rightarrow> JNull | Some n \<Rightarrow> jbig n) in
     seq (update_row loyalties loyalties_update ll_id ''PaykhLoyaltyLiability'' (ll_id liability)
        (\<lambda>l. l\<lparr>ll_onChainSupplyMinor := or_else onChain (minor ledgerOutstanding),
           ll_reconciliationStatus := status, ll_lastReconciledAt := Some (now e)\<rparr>))
     (seq (publishToPaykh (if status = ''DRIFT'' then ''paykh.loyalty.reserve-drift'' else ''paykh.loyalty.reconciled'')
        (JObj [(''liabilityId'', JStr (ll_id liability)), (''ledgerOutstandingMinor'', jbig (minor ledgerOutstanding)),
          (''onChainSupplyMinor'', onChainView), (''status'', JStr status)]))
     (ret (JObj [(''liabilityId'', JStr (ll_id liability)), (''currency'', JStr (ll_pegCurrency liability)),
        (''ledgerOutstandingMinor'', jbig (minor ledgerOutstanding)),
        (''counterOutstandingMinor'', jbig (ll_outstandingMinor liability)), (''onChainSupplyMinor'', onChainView),
        (''onChainVerified'', JBool (onChain \<noteq> None)),
        (''safeguardedBackingMinor'', case fund of None \<Rightarrow> JNull | Some f \<Rightarrow> jbig (pf_fundedMinor f)),
        (''fullyBacked'', case fund of None \<Rightarrow> JNull | Some f \<Rightarrow> JBool (pf_fundedMinor f \<ge> ll_outstandingMinor liability)),
        (''reconciliationStatus'', JStr status), (''asOf'', JStr (nowIso e))]))))))))"

definition loyalty_get :: "string \<Rightarrow> json op" where
  "loyalty_get liabilityId = bnd (require_loyalty liabilityId) (\<lambda>l. ret (serialize_loyalty l))"

definition listLiabilities :: "json op" where
  "listLiabilities = bnd (gets (\<lambda>s. rev (loyalties s))) (\<lambda>rows. ret (JObj [(''liabilities'', JArr (map serialize_loyalty rows))]))"

section \<open>Frame and journal\<close>

datatype loyalty_cmd =
    CreateFund CreateProgramFund
  | FundFund string string string
  | ReserveFund string string string
  | ReleaseFund string string string
  | BindLoyalty BindLoyaltyInput
  | IssueLoyalty IssueLoyaltyInput
  | RedeemLoyalty RedeemLoyaltyInput
  | ReconcileLoyalty string

primrec run_loyalty :: "loyalty_cmd \<Rightarrow> json op" where
  "run_loyalty (CreateFund input) = fund_create input"
| "run_loyalty (FundFund i amount actor) = fund_fund i amount actor"
| "run_loyalty (ReserveFund i amount actor) = fund_reserve i amount actor"
| "run_loyalty (ReleaseFund i amount actor) = fund_release i amount actor"
| "run_loyalty (BindLoyalty input) = loyalty_bind input"
| "run_loyalty (IssueLoyalty input) = loyalty_issue input"
| "run_loyalty (RedeemLoyalty input) = loyalty_redeem input"
| "run_loyalty (ReconcileLoyalty i) = loyalty_reconcile i"

lemmas loyalty_op_defs = fund_create_def fund_fund_def fund_reserve_def fund_release_def loyalty_bind_def
  loyalty_issue_def loyalty_redeem_def loyalty_reconcile_def require_fund_def set_fund_def require_loyalty_def
  requireActive_def

definition mask_loyalty :: "st \<Rightarrow> st" where
  "mask_loyalty s = s\<lparr>funds := [], loyalties := [], loyIssuances := [], loyRedemptions := [],
     entries := [], audits := [], outbox := []\<rparr>"

lemma leaves_tx [leaves_intros]:
  "leaves mask_loyalty (issue_tx f l n r)" "leaves mask_loyalty (redeem_tx l n q)"
  "leaves entries (issue_tx f l n r)" "leaves entries (redeem_tx l n q)"
  "leaves audits (issue_tx f l n r)" "leaves audits (redeem_tx l n q)"
  "leaves outbox (issue_tx f l n r)" "leaves outbox (redeem_tx l n q)"
  unfolding issue_tx_def redeem_tx_def
  by (intro leaves_try_modify; auto simp: mask_loyalty_def split: if_splits)+

lemma loyalty_frame: "leaves mask_loyalty (run_loyalty c)"
  by (cases c; simp only: run_loyalty.simps; unfold loyalty_op_defs Let_def)
     (intro leaves_intros; simp add: mask_loyalty_def)+

definition loyalty_accounts :: "string set" where
  "loyalty_accounts = {ASSET_TRUSTEE_BANK_CASH, LIABILITY_PAYKH_PROGRAM_FUND, LIABILITY_PAYKH_LOYALTY_STABLECOIN,
     LIABILITY_PAYKH_MERCHANT_PAYABLE}"

lemma appends_tx [appends_intros]: "appends A (issue_tx f l n r)" "appends A (redeem_tx l n q)"
  by (intro leaves_appends leaves_tx)+

lemma loyalty_appends: "appends loyalty_accounts (run_loyalty c)"
  by (cases c; simp only: run_loyalty.simps; unfold loyalty_op_defs Let_def)
     (intro appends_intros; simp add: loyalty_accounts_def)+

lemma logs_tx [logs_intros]: "logs P (issue_tx f l n r)" "logs P (redeem_tx l n q)"
  by (intro leaves_logs leaves_tx)+

lemma loyalty_logs: "logs no_maker (run_loyalty c)"
  by (cases c; simp only: run_loyalty.simps; unfold loyalty_op_defs Let_def)
     (intro logs_intros; simp)+

end
