(* ===== verification/Loyalty_Books.thy ===== *)
theory Loyalty_Books
  imports Loyalty
begin

text \<open>
  What the program-fund and loyalty operations keep: the counters of a loyalty liability
  agree with its issuances and redemptions; the ledger's loyalty, program-fund and payable
  balances move with the counters as long as every posted operation is also recorded; and
  outstanding coin stays covered by the fund as long as releases leave the issued part
  reserved.
\<close>

section \<open>What the operations do\<close>

definition loy :: "st \<Rightarrow> PaykhProgramFund list \<times> PaykhLoyaltyLiability list \<times> PaykhLoyaltyIssuance list
    \<times> PaykhLoyaltyRedemption list \<times> LedgerEntry list" where
  "loy s = (funds s, loyalties s, loyIssuances s, loyRedemptions s, entries s)"

definition funding_row :: "PaykhProgramFund \<Rightarrow> int \<Rightarrow> string \<Rightarrow> LedgerEntry" where
  "funding_row f n actor = transfer_row ''PayKH program fund safeguarded''
     ASSET_TRUSTEE_BANK_CASH LIABILITY_PAYKH_PROGRAM_FUND (money_big n (pf_currency f))
     (refs_of (''paykh-fund:'' @ pf_id f) (pf_tenantId f) (pf_paykhProgramId f) actor)"

definition issue_row :: "PaykhLoyaltyLiability \<Rightarrow> int \<Rightarrow> string \<Rightarrow> LedgerEntry" where
  "issue_row l n actor = transfer_row ''PayKH backed loyalty stablecoin issued (program fund earmarked)''
     LIABILITY_PAYKH_PROGRAM_FUND LIABILITY_PAYKH_LOYALTY_STABLECOIN (money_big n (ll_pegCurrency l))
     (refs_of (''paykh-loyalty-issue:'' @ ll_id l) (ll_tenantId l) (asset_ref l) actor)"

definition redeem_row :: "PaykhLoyaltyLiability \<Rightarrow> int \<Rightarrow> string \<Rightarrow> LedgerEntry" where
  "redeem_row l n actor = transfer_row ''PayKH loyalty stablecoin redeemed to merchant payable''
     LIABILITY_PAYKH_LOYALTY_STABLECOIN LIABILITY_PAYKH_MERCHANT_PAYABLE (money_big n (ll_pegCurrency l))
     (refs_of (''paykh-loyalty-redeem:'' @ ll_id l) (ll_tenantId l) (asset_ref l) actor)"

lemma fund_create_effect:
  assumes "fund_create input e s = (r, s')"
  shows "(\<exists>x. r = Inl x \<and> s' = s)
    \<or> is_ok r \<and> \<not> list_ex (fund_clash (new_fund (newId e) input)) (funds s)
      \<and> loy s' = (funds s @ [new_fund (newId e) input], loyalties s, loyIssuances s, loyRedemptions s, entries s)"
  using assms by (auto simp: fund_create_def prog_simps loy_def split: if_splits)

lemma fund_fund_effect:
  assumes "fund_fund i amount actor e s = (r, s')"
  shows "(\<exists>x. r = Inl x \<and> s' = s)
    \<or> (\<exists>f n b. find_row pf_id i (funds s) = Some f \<and> BigInt amount = Inr n \<and> 0 < n \<and> is_ok r
        \<and> fiat_backed (pf_classification f) = Inr b
        \<and> loy s' = (set_row pf_id i (\<lambda>x. x\<lparr>pf_fundedMinor := pf_fundedMinor f + n\<rparr>) (funds s), loyalties s, loyIssuances s,
            loyRedemptions s, entries s @ (if b then [funding_row f n actor] else [])))"
proof (cases "find_row pf_id i (funds s)")
  case None
  with assms show ?thesis by (auto simp: fund_fund_def require_fund_def prog_simps)
next
  case (Some f)
  from find_row_Some [OF Some] have f: "pf_id f = i" by simp
  show ?thesis
  proof (cases "\<exists>n b. BigInt amount = Inr n \<and> 0 < n \<and> fiat_backed (pf_classification f) = Inr b")
    case True
    then obtain n b where nb: "BigInt amount = Inr n" "0 < n" "fiat_backed (pf_classification f) = Inr b" by blast
    with Some f assms have "is_ok r \<and> loy s' = (set_row pf_id i (\<lambda>x. x\<lparr>pf_fundedMinor := pf_fundedMinor f + n\<rparr>) (funds s),
        loyalties s, loyIssuances s, loyRedemptions s, entries s @ (if b then [funding_row f n actor] else []))"
      by (cases b) (auto simp: fund_fund_def require_fund_def set_fund_def prog_simps Let_def loy_def funding_row_def)
    with Some nb show ?thesis by blast
  next
    case False
    with Some have "\<exists>x. fund_fund i amount actor e s = (Inl x, s)"
      by (cases "BigInt amount"; cases "fiat_backed (pf_classification f)")
         (auto simp: fund_fund_def require_fund_def prog_simps Let_def)
    with assms show ?thesis by auto
  qed
qed

lemma fund_reserve_effect:
  assumes "fund_reserve i amount actor e s = (r, s')"
  shows "(\<exists>x. r = Inl x \<and> s' = s)
    \<or> (\<exists>f n. find_row pf_id i (funds s) = Some f \<and> BigInt amount = Inr n \<and> n \<le> pf_fundedMinor f - pf_reservedMinor f \<and> is_ok r
        \<and> loy s' = (set_row pf_id i (\<lambda>x. x\<lparr>pf_reservedMinor := pf_reservedMinor f + n\<rparr>) (funds s), loyalties s, loyIssuances s,
            loyRedemptions s, entries s))"
  using assms
  by (auto simp: fund_reserve_def require_fund_def set_fund_def prog_simps Let_def loy_def
      split: option.splits sum.splits if_splits)

lemma fund_release_effect:
  assumes "fund_release i amount actor e s = (r, s')"
  shows "(\<exists>x. r = Inl x \<and> s' = s)
    \<or> (\<exists>f n. find_row pf_id i (funds s) = Some f \<and> BigInt amount = Inr n \<and> n \<le> pf_reservedMinor f \<and> is_ok r
        \<and> loy s' = (set_row pf_id i (\<lambda>x. x\<lparr>pf_reservedMinor := pf_reservedMinor f - n\<rparr>) (funds s), loyalties s, loyIssuances s,
            loyRedemptions s, entries s))"
  using assms
  by (auto simp: fund_release_def require_fund_def set_fund_def prog_simps Let_def loy_def
      split: option.splits sum.splits if_splits)

lemma loyalty_bind_effect:
  assumes "loyalty_bind input e s = (r, s')"
  shows "(\<exists>x. r = Inl x \<and> s' = s)
    \<or> (\<exists>f d. find_row pf_id (bl_programFundId input) (funds s) = Some f \<and> fiat_backed (pf_classification f) = Inr True
        \<and> 0 < d \<and> is_ok r \<and> \<not> list_ex (loyalty_clash (new_loyalty (newId e) input f d)) (loyalties s)
        \<and> loy s' = (funds s, loyalties s @ [new_loyalty (newId e) input f d], loyIssuances s, loyRedemptions s, entries s))"
  using assms
  by (auto simp: loyalty_bind_def require_fund_def prog_simps loy_def not_le
      split: option.splits sum.splits if_splits) (use zero_less_one [where 'a = int] in blast)+

lemma resolveAmount_money:
  assumes "resolveAmount l a u = Inr (m, v)"
  shows "m = money_big (minor m) (ll_pegCurrency l)"
  using assms
  by (auto simp: resolveAmount_def bind_r_eq_Inr makePeg_def backingForUnits_def money_def money_big_def check_r_def
      split: if_splits)

text \<open>What an issuance has to pass before it reaches the ledger, and what it takes to be recorded then.\<close>

definition issuable :: "st \<Rightarrow> IssueLoyaltyInput \<Rightarrow> PaykhLoyaltyLiability \<Rightarrow> PaykhProgramFund \<Rightarrow> int \<Rightarrow> int option \<Rightarrow> bool" where
  "issuable s input l f n u \<longleftrightarrow> isEnabled ''paykh.loyalty.enabled'' s
     \<and> find_row ll_id (il_liabilityId input) (loyalties s) = Some l \<and> find_row pf_id (ll_programFundId l) (funds s) = Some f
     \<and> resolveAmount l (il_amountMinor input) (il_units input) = Inr (money_big n (ll_pegCurrency l), u)
     \<and> 0 < n \<and> n \<le> pf_fundedMinor f - pf_reservedMinor f"

definition issue_recorded :: "env \<Rightarrow> st \<Rightarrow> PaykhLoyaltyLiability \<Rightarrow> int \<Rightarrow> bool" where
  "issue_recorded e s l n \<longleftrightarrow> is_ok (authorizeOnChain e ''ISSUE'' ''issue'' l (bigint_toString n))
     \<and> \<not> has_row li_id (newId e) (loyIssuances s)"

lemma issue_refused:
  assumes "\<nexists>l f n u. issuable s input l f n u"
  shows "\<exists>x. loyalty_issue input e s = (Inl x, s)"
proof -
  have m: "m = money_big (minor m) (ll_pegCurrency l)" if "resolveAmount l a u = Inr (m, v)" for l a u m v
    using resolveAmount_money [OF that] .
  show ?thesis
  proof (cases "isEnabled ''paykh.loyalty.enabled'' s \<and> (\<exists>l f p. find_row ll_id (il_liabilityId input) (loyalties s) = Some l
      \<and> find_row pf_id (ll_programFundId l) (funds s) = Some f
      \<and> resolveAmount l (il_amountMinor input) (il_units input) = Inr p)")
    case False
    then show ?thesis
      by (auto simp: loyalty_issue_def require_loyalty_def require_fund_def prog_simps split: option.splits sum.splits)
  next
    case True
    then obtain l f m u where t: "isEnabled ''paykh.loyalty.enabled'' s"
      "find_row ll_id (il_liabilityId input) (loyalties s) = Some l" "find_row pf_id (ll_programFundId l) (funds s) = Some f"
      "resolveAmount l (il_amountMinor input) (il_units input) = Inr (m, u)" by auto
    from m [OF t(4)] t assms have "\<not> (0 < minor m \<and> minor m \<le> pf_fundedMinor f - pf_reservedMinor f)"
      unfolding issuable_def by metis
    with t show ?thesis by (auto simp: loyalty_issue_def require_loyalty_def require_fund_def prog_simps)
  qed
qed

lemma issue_unrecorded:
  assumes "issuable s input l f n u" and "\<not> issue_recorded e s l n"
  shows "\<exists>x. loyalty_issue input e s = (Inl x, s\<lparr>entries := entries s @ [issue_row l n (il_actor input)]\<rparr>)"
proof (cases "authorizeOnChain e ''ISSUE'' ''issue'' l (bigint_toString n)")
  case (Inl x)
  with assms(1) show ?thesis
    by (simp add: loyalty_issue_def require_loyalty_def require_fund_def prog_simps issuable_def issue_row_def)
next
  case (Inr c)
  with assms(2) have h: "has_row li_id (newId e) (loyIssuances s)" by (simp add: issue_recorded_def)
  from assms(1) have rows: "has_row pf_id (pf_id f) (funds s)" "has_row ll_id (ll_id l) (loyalties s)"
    by (auto simp: issuable_def has_row_iff dest: find_row_Some)
  with Inr h assms(1) show ?thesis
    by (simp add: loyalty_issue_def require_loyalty_def require_fund_def prog_simps issuable_def issue_row_def
        issue_tx_def issuance_row_def)
qed

lemma issue_done:
  assumes "issuable s input l f n u" and "issue_recorded e s l n"
  shows "\<exists>q v s'. loyalty_issue input e s = (Inr v, s') \<and> li_loyaltyLiabilityId q = ll_id l \<and> li_amountMinor q = n
    \<and> loy s' = (set_row pf_id (pf_id f) (\<lambda>x. x\<lparr>pf_reservedMinor := pf_reservedMinor f + n\<rparr>) (funds s),
        set_row ll_id (ll_id l) (\<lambda>x. x\<lparr>ll_outstandingMinor := ll_outstandingMinor l + n,
          ll_issuedTotalMinor := ll_issuedTotalMinor l + n\<rparr>) (loyalties s),
        loyIssuances s @ [q], loyRedemptions s, entries s @ [issue_row l n (il_actor input)])"
proof -
  from assms(2) obtain c where c: "authorizeOnChain e ''ISSUE'' ''issue'' l (bigint_toString n) = Inr c"
    by (auto simp: issue_recorded_def is_ok_iff)
  from assms(1) have rows: "has_row pf_id (pf_id f) (funds s)" "has_row ll_id (ll_id l) (loyalties s)"
    by (auto simp: issuable_def has_row_iff dest: find_row_Some)
  let ?q = "issuance_row e input l (money_big n (ll_pegCurrency l)) u c"
  have "li_loyaltyLiabilityId ?q = ll_id l" "li_amountMinor ?q = n" "li_id ?q = newId e"
    by (simp_all add: issuance_row_def)
  with c rows assms show ?thesis
    by (intro exI [of _ ?q])
       (simp add: loyalty_issue_def require_loyalty_def require_fund_def prog_simps issuable_def issue_row_def
        issue_tx_def issue_recorded_def loy_def)
qed

definition redeemable :: "st \<Rightarrow> RedeemLoyaltyInput \<Rightarrow> PaykhLoyaltyLiability \<Rightarrow> int \<Rightarrow> int option \<Rightarrow> bool" where
  "redeemable s input l n u \<longleftrightarrow> isEnabled ''paykh.loyalty.enabled'' s
     \<and> (\<exists>m. find_row me_id (rl_merchantId input) (merchants s) = Some m \<and> me_status m = ''ACTIVE'' \<and> me_kycStatus m = ''VERIFIED'')
     \<and> find_row ll_id (rl_liabilityId input) (loyalties s) = Some l
     \<and> resolveAmount l (rl_amountMinor input) (rl_units input) = Inr (money_big n (ll_pegCurrency l), u)
     \<and> 0 < n \<and> n \<le> ll_outstandingMinor l"

definition redeem_recorded :: "env \<Rightarrow> st \<Rightarrow> PaykhLoyaltyLiability \<Rightarrow> int \<Rightarrow> bool" where
  "redeem_recorded e s l n \<longleftrightarrow> is_ok (authorizeOnChain e ''BURN'' ''burn'' l (bigint_toString n))
     \<and> \<not> has_row lr_id (newId e) (loyRedemptions s)"

lemma redeem_refused:
  assumes "\<nexists>l n u. redeemable s input l n u"
  shows "\<exists>x. loyalty_redeem input e s = (Inl x, s)"
proof (cases "isEnabled ''paykh.loyalty.enabled'' s
    \<and> (\<exists>m. find_row me_id (rl_merchantId input) (merchants s) = Some m \<and> me_status m = ''ACTIVE'' \<and> me_kycStatus m = ''VERIFIED'')
    \<and> (\<exists>l p. find_row ll_id (rl_liabilityId input) (loyalties s) = Some l
    \<and> resolveAmount l (rl_amountMinor input) (rl_units input) = Inr p)")
  case False
  then show ?thesis
    by (auto simp: loyalty_redeem_def require_loyalty_def requireActive_def prog_simps split: option.splits sum.splits)
next
  case True
  then obtain l m u where t: "find_row ll_id (rl_liabilityId input) (loyalties s) = Some l"
    "resolveAmount l (rl_amountMinor input) (rl_units input) = Inr (m, u)" by auto
  from resolveAmount_money [OF t(2)] t True assms have "\<not> (0 < minor m \<and> minor m \<le> ll_outstandingMinor l)"
    unfolding redeemable_def by metis
  with t True show ?thesis
    by (auto simp: loyalty_redeem_def require_loyalty_def requireActive_def prog_simps)
qed

lemma redeem_unrecorded:
  assumes "redeemable s input l n u" and "\<not> redeem_recorded e s l n"
  shows "\<exists>x. loyalty_redeem input e s = (Inl x, s\<lparr>entries := entries s @ [redeem_row l n (rl_actor input)]\<rparr>)"
proof (cases "authorizeOnChain e ''BURN'' ''burn'' l (bigint_toString n)")
  case (Inl x)
  with assms(1) show ?thesis
    by (auto simp: loyalty_redeem_def require_loyalty_def requireActive_def prog_simps redeemable_def redeem_row_def)
next
  case (Inr c)
  with assms(2) have h: "has_row lr_id (newId e) (loyRedemptions s)" by (simp add: redeem_recorded_def)
  from assms(1) have rows: "has_row ll_id (ll_id l) (loyalties s)"
    by (auto simp: redeemable_def has_row_iff dest: find_row_Some)
  with Inr h assms(1) show ?thesis
    by (auto simp: loyalty_redeem_def require_loyalty_def requireActive_def prog_simps redeemable_def redeem_row_def
        redeem_tx_def loyalty_redemption_row_def)
qed

lemma redeem_done:
  assumes "redeemable s input l n u" and "redeem_recorded e s l n"
  shows "\<exists>q v s'. loyalty_redeem input e s = (Inr v, s') \<and> lr_loyaltyLiabilityId q = ll_id l \<and> lr_amountMinor q = n
    \<and> lr_tenantId q = ll_tenantId l \<and> lr_currency q = ll_pegCurrency l
    \<and> loy s' = (funds s,
        set_row ll_id (ll_id l) (\<lambda>x. x\<lparr>ll_outstandingMinor := ll_outstandingMinor l - n,
          ll_redeemedTotalMinor := ll_redeemedTotalMinor l + n\<rparr>) (loyalties s),
        loyIssuances s, loyRedemptions s @ [q], entries s @ [redeem_row l n (rl_actor input)])"
proof -
  from assms(2) obtain c where c: "authorizeOnChain e ''BURN'' ''burn'' l (bigint_toString n) = Inr c"
    by (auto simp: redeem_recorded_def is_ok_iff)
  from assms(1) have rows: "has_row ll_id (ll_id l) (loyalties s)"
    by (auto simp: redeemable_def has_row_iff dest: find_row_Some)
  from assms(1) obtain m where m: "find_row me_id (rl_merchantId input) (merchants s) = Some m"
    "me_status m = ''ACTIVE''" "me_kycStatus m = ''VERIFIED''" by (auto simp: redeemable_def)
  let ?q = "loyalty_redemption_row e input l (money_big n (ll_pegCurrency l)) c"
  have "lr_loyaltyLiabilityId ?q = ll_id l" "lr_amountMinor ?q = n" "lr_id ?q = newId e"
    "lr_tenantId ?q = ll_tenantId l" "lr_currency ?q = ll_pegCurrency l"
    by (simp_all add: loyalty_redemption_row_def)
  with c rows m assms show ?thesis
    by (intro exI [of _ ?q])
       (simp add: loyalty_redeem_def require_loyalty_def requireActive_def prog_simps redeemable_def redeem_row_def
        redeem_tx_def redeem_recorded_def loy_def)
qed

lemma loyalty_reconcile_effect:
  assumes "loyalty_reconcile i e s = (r, s')"
  shows "(\<exists>x. r = Inl x \<and> s' = s)
    \<or> (\<exists>l n st. find_row ll_id i (loyalties s) = Some l \<and> is_ok r
        \<and> loy s' = (funds s, set_row ll_id i (\<lambda>x. x\<lparr>ll_onChainSupplyMinor := n, ll_reconciliationStatus := st,
             ll_lastReconciledAt := Some (now e)\<rparr>) (loyalties s), loyIssuances s, loyRedemptions s, entries s))"
proof (cases "find_row ll_id i (loyalties s)")
  case None
  with assms show ?thesis by (auto simp: loyalty_reconcile_def require_loyalty_def prog_simps)
next
  case (Some l)
  from find_row_Some [OF Some] have "ll_id l = i" by simp
  show ?thesis
  proof (cases "on_chain_supply e l")
    case (Inl x)
    with Some assms show ?thesis
      by (auto simp: loyalty_reconcile_def require_loyalty_def prog_simps accountBalance_simps)
  next
    case (Inr oc)
    define n where "n = or_else oc (liab LIABILITY_PAYKH_LOYALTY_STABLECOIN (ll_tenantId l) (ll_pegCurrency l) (entries s))"
    define st where "st = (case oc of Some k \<Rightarrow>
        if k \<noteq> minor (money_big (liab LIABILITY_PAYKH_LOYALTY_STABLECOIN (ll_tenantId l) (ll_pegCurrency l) (entries s))
          (ll_pegCurrency l)) then ''DRIFT'' else ''OK''
      | None \<Rightarrow> ''OK'')"
    from Inr Some \<open>ll_id l = i\<close> assms have "is_ok r \<and> loy s' = (funds s, set_row ll_id i (\<lambda>x. x\<lparr>ll_onChainSupplyMinor := n,
        ll_reconciliationStatus := st, ll_lastReconciledAt := Some (now e)\<rparr>) (loyalties s), loyIssuances s, loyRedemptions s, entries s)"
      by (auto simp: loyalty_reconcile_def require_loyalty_def prog_simps accountBalance_simps Let_def loy_def n_def st_def)
    with Some show ?thesis by blast
  qed
qed

lemma find_row_self: "find_row key k rs = Some r \<Longrightarrow> find_row key (key r) rs = Some r"
  using find_row_Some [of key k rs r] by simp

section \<open>The counters agree with the rows\<close>

definition issued_sum :: "PaykhLoyaltyIssuance list \<Rightarrow> string \<Rightarrow> int" where
  "issued_sum qs i = (\<Sum>q\<leftarrow>qs. if li_loyaltyLiabilityId q = i then li_amountMinor q else 0)"

definition redeemed_sum :: "PaykhLoyaltyRedemption list \<Rightarrow> string \<Rightarrow> int" where
  "redeemed_sum qs i = (\<Sum>q\<leftarrow>qs. if lr_loyaltyLiabilityId q = i then lr_amountMinor q else 0)"

definition counters_ok :: "PaykhLoyaltyIssuance list \<Rightarrow> PaykhLoyaltyRedemption list \<Rightarrow> PaykhLoyaltyLiability \<Rightarrow> bool" where
  "counters_ok iss reds l \<longleftrightarrow> 0 < ll_denominationMinor l \<and> 0 \<le> ll_outstandingMinor l \<and> 0 \<le> ll_redeemedTotalMinor l
     \<and> ll_issuedTotalMinor l = ll_outstandingMinor l + ll_redeemedTotalMinor l
     \<and> ll_issuedTotalMinor l = issued_sum iss (ll_id l) \<and> ll_redeemedTotalMinor l = redeemed_sum reds (ll_id l)"

text \<open>The fund a liability is bound to: same tenant and currency, of a class that needs fiat backing.\<close>

definition fund_ok :: "PaykhProgramFund list \<Rightarrow> PaykhLoyaltyLiability \<Rightarrow> bool" where
  "fund_ok fs l \<longleftrightarrow> (\<exists>f. find_row pf_id (ll_programFundId l) fs = Some f \<and> pf_tenantId f = ll_tenantId l
     \<and> pf_currency f = ll_pegCurrency l \<and> fiat_backed (pf_classification f) = Inr True)"

definition loyalty_inv :: "st \<Rightarrow> bool" where
  "loyalty_inv s \<longleftrightarrow> uniq pf_id (funds s) \<and> uniq ll_id (loyalties s) \<and> uniq ll_programFundId (loyalties s)
     \<and> (\<forall>q \<in> set (loyIssuances s). has_row ll_id (li_loyaltyLiabilityId q) (loyalties s))
     \<and> (\<forall>q \<in> set (loyRedemptions s). has_row ll_id (lr_loyaltyLiabilityId q) (loyalties s))
     \<and> (\<forall>l \<in> set (loyalties s). counters_ok (loyIssuances s) (loyRedemptions s) l \<and> fund_ok (funds s) l)"

lemma loy_simps:
  "loy s' = (a, b, c, d, x) \<longleftrightarrow> funds s' = a \<and> loyalties s' = b \<and> loyIssuances s' = c \<and> loyRedemptions s' = d \<and> entries s' = x"
  by (simp add: loy_def)

lemma loyalty_inv_cong:
  "funds s' = funds s \<Longrightarrow> loyalties s' = loyalties s \<Longrightarrow> loyIssuances s' = loyIssuances s \<Longrightarrow>
   loyRedemptions s' = loyRedemptions s \<Longrightarrow> loyalty_inv s' = loyalty_inv s"
  by (simp only: loyalty_inv_def)

lemma fund_ok_set_row:
  assumes "\<And>x. pf_id (g x) = pf_id x" "\<And>x. pf_tenantId (g x) = pf_tenantId x" "\<And>x. pf_currency (g x) = pf_currency x"
    "\<And>x. pf_classification (g x) = pf_classification x"
  shows "fund_ok (set_row pf_id i g fs) l = fund_ok fs l"
  using assms by (auto simp: fund_ok_def find_row_set_row)

lemma loyalty_funds_inv:
  assumes "loyalty_inv s" and "funds s' = set_row pf_id i g (funds s)"
    and "loyalties s' = loyalties s" "loyIssuances s' = loyIssuances s" "loyRedemptions s' = loyRedemptions s"
    and "\<And>x. pf_id (g x) = pf_id x" "\<And>x. pf_tenantId (g x) = pf_tenantId x" "\<And>x. pf_currency (g x) = pf_currency x"
    "\<And>x. pf_classification (g x) = pf_classification x"
  shows "loyalty_inv s'"
  using assms by (simp add: loyalty_inv_def uniq_set_row fund_ok_set_row)

text \<open>Changing one liability together with its fund, issuances and redemptions.\<close>

lemma loyalty_update_inv:
  assumes inv: "loyalty_inv s" and l: "find_row ll_id i (loyalties s) = Some l"
    and loy: "loyalties s' = set_row ll_id i f (loyalties s)"
    and f: "\<And>x. ll_id (f x) = ll_id x" "\<And>x. ll_programFundId (f x) = ll_programFundId x"
      "\<And>x. ll_tenantId (f x) = ll_tenantId x" "\<And>x. ll_pegCurrency (f x) = ll_pegCurrency x"
    and uq: "uniq pf_id (funds s')" and funds: "\<And>x. fund_ok (funds s') x = fund_ok (funds s) x"
    and iss: "\<forall>q \<in> set (loyIssuances s'). has_row ll_id (li_loyaltyLiabilityId q) (loyalties s)"
    and red: "\<forall>q \<in> set (loyRedemptions s'). has_row ll_id (lr_loyaltyLiabilityId q) (loyalties s)"
    and other: "\<And>k. k \<noteq> i \<Longrightarrow> issued_sum (loyIssuances s') k = issued_sum (loyIssuances s) k"
      "\<And>k. k \<noteq> i \<Longrightarrow> redeemed_sum (loyRedemptions s') k = redeemed_sum (loyRedemptions s) k"
    and ok: "counters_ok (loyIssuances s) (loyRedemptions s) l \<Longrightarrow> counters_ok (loyIssuances s') (loyRedemptions s') (f l)"
  shows "loyalty_inv s'"
proof -
  from find_row_Some [OF l] have li: "l \<in> set (loyalties s)" "ll_id l = i" by simp_all
  have fo: "fund_ok fs (f x) = fund_ok fs x" for fs x by (simp add: fund_ok_def f)
  have "counters_ok (loyIssuances s') (loyRedemptions s') y \<and> fund_ok (funds s') y" if "y \<in> set (loyalties s')" for y
    using that unfolding loy
  proof (cases rule: set_row_cases)
    case (changed q)
    from changed l inv have "q = l" using find_row_uniq [of ll_id "loyalties s" q] by (simp add: loyalty_inv_def)
    with changed inv li ok show ?thesis by (simp add: loyalty_inv_def fo funds)
  next
    case same
    with inv have "counters_ok (loyIssuances s) (loyRedemptions s) y" "fund_ok (funds s) y" by (simp_all add: loyalty_inv_def)
    with same other [of "ll_id y"] show ?thesis by (simp add: counters_ok_def funds)
  qed
  moreover have "has_row ll_id k (loyalties s') = has_row ll_id k (loyalties s)" for k
    by (simp add: loy has_row_set_row f)
  moreover have "uniq ll_id (loyalties s')" "uniq ll_programFundId (loyalties s')"
    using inv by (simp_all add: loy uniq_set_row f loyalty_inv_def)
  ultimately show ?thesis using uq iss red by (simp add: loyalty_inv_def)
qed

lemma fund_create_inv:
  assumes inv: "loyalty_inv s" and run: "fund_create input e s = (r, s')"
  shows "loyalty_inv s'"
  using fund_create_effect [OF run] unfolding loy_simps
proof (elim disjE exE conjE)
  assume cl: "\<not> list_ex (fund_clash (new_fund (newId e) input)) (funds s)" and s': "funds s' = funds s @ [new_fund (newId e) input]"
    "loyalties s' = loyalties s" "loyIssuances s' = loyIssuances s" "loyRedemptions s' = loyRedemptions s"
  from cl have "\<not> has_row pf_id (pf_id (new_fund (newId e) input)) (funds s)"
    by (auto simp: list_ex_iff fund_clash_def has_row_def)
  moreover have "fund_ok (funds s) l \<Longrightarrow> fund_ok (funds s') l" for l
    by (auto simp: fund_ok_def s' find_row_append)
  ultimately show ?thesis using inv by (simp add: loyalty_inv_def s' uniq_append_row)
qed (use inv in simp)

lemma fund_amount_inv:
  assumes inv: "loyalty_inv s"
  shows "fund_fund i amount actor e s = (r, s') \<Longrightarrow> loyalty_inv s'"
    and "fund_reserve i amount actor e s = (r, s') \<Longrightarrow> loyalty_inv s'"
    and "fund_release i amount actor e s = (r, s') \<Longrightarrow> loyalty_inv s'"
  by (drule fund_fund_effect fund_reserve_effect fund_release_effect, unfold loy_simps, elim disjE exE conjE, use inv in simp,
      rule loyalty_funds_inv [OF inv], assumption, assumption, assumption, assumption, simp_all)+

lemma issued_sum_absent:
  assumes "\<forall>q \<in> set qs. has_row ll_id (li_loyaltyLiabilityId q) ls" and "\<not> has_row ll_id i ls"
  shows "issued_sum qs i = 0"
  using assms by (induction qs) (auto simp: issued_sum_def)

lemma redeemed_sum_absent:
  assumes "\<forall>q \<in> set qs. has_row ll_id (lr_loyaltyLiabilityId q) ls" and "\<not> has_row ll_id i ls"
  shows "redeemed_sum qs i = 0"
  using assms by (induction qs) (auto simp: redeemed_sum_def)

lemma loyalty_bind_inv:
  assumes inv: "loyalty_inv s" and run: "loyalty_bind input e s = (r, s')"
  shows "loyalty_inv s'"
  using loyalty_bind_effect [OF run] unfolding loy_simps
proof (elim disjE exE conjE)
  fix f d
  let ?l = "new_loyalty (newId e) input f d"
  assume f: "find_row pf_id (bl_programFundId input) (funds s) = Some f" and bk: "fiat_backed (pf_classification f) = Inr True"
    and d: "0 < d" and cl: "\<not> list_ex (loyalty_clash ?l) (loyalties s)"
    and s': "funds s' = funds s" "loyalties s' = loyalties s @ [?l]" "loyIssuances s' = loyIssuances s" "loyRedemptions s' = loyRedemptions s"
  from cl have new: "\<not> has_row ll_id (ll_id ?l) (loyalties s)" "\<not> has_row ll_programFundId (ll_programFundId ?l) (loyalties s)"
    by (auto simp: list_ex_iff loyalty_clash_def has_row_def)
  have refs: "\<forall>q \<in> set (loyIssuances s). has_row ll_id (li_loyaltyLiabilityId q) (loyalties s)"
    "\<forall>q \<in> set (loyRedemptions s). has_row ll_id (lr_loyaltyLiabilityId q) (loyalties s)"
    using inv by (simp_all add: loyalty_inv_def)
  have "counters_ok (loyIssuances s) (loyRedemptions s) ?l"
    using d issued_sum_absent [OF refs(1) new(1)] redeemed_sum_absent [OF refs(2) new(1)]
    by (simp add: counters_ok_def) (simp add: new_loyalty_def)
  moreover have "fund_ok (funds s) ?l"
    using f bk find_row_Some [OF f] by (auto simp: fund_ok_def new_loyalty_def)
  moreover have "\<forall>q \<in> set (loyIssuances s). has_row ll_id (li_loyaltyLiabilityId q) (loyalties s')"
    "\<forall>q \<in> set (loyRedemptions s). has_row ll_id (lr_loyaltyLiabilityId q) (loyalties s')"
    using refs by (simp_all add: s' has_row_def)
  ultimately show ?thesis using inv new by (auto simp: loyalty_inv_def s' uniq_append_row)
qed (use inv in simp)

lemma issued_sum_snoc: "issued_sum (qs @ [q]) i = issued_sum qs i + (if li_loyaltyLiabilityId q = i then li_amountMinor q else 0)"
  by (simp add: issued_sum_def)

lemma redeemed_sum_snoc: "redeemed_sum (qs @ [q]) i = redeemed_sum qs i + (if lr_loyaltyLiabilityId q = i then lr_amountMinor q else 0)"
  by (simp add: redeemed_sum_def)

lemma loyalty_issue_inv:
  assumes inv: "loyalty_inv s" and run: "loyalty_issue input e s = (r, s')"
  shows "loyalty_inv s'"
proof (cases "\<exists>l f n u. issuable s input l f n u")
  case False
  from issue_refused [OF False, of e] run inv show ?thesis by auto
next
  case True
  then obtain l f n u where ready: "issuable s input l f n u" by blast
  show ?thesis
  proof (cases "issue_recorded e s l n")
    case False
    with issue_unrecorded [OF ready False] run have "s' = s\<lparr>entries := entries s @ [issue_row l n (il_actor input)]\<rparr>" by auto
    with inv loyalty_inv_cong [of s' s] show ?thesis by simp
  next
    case True
    with issue_done [OF ready True] run obtain q where q: "li_loyaltyLiabilityId q = ll_id l" "li_amountMinor q = n"
      and s': "funds s' = set_row pf_id (pf_id f) (\<lambda>x. x\<lparr>pf_reservedMinor := pf_reservedMinor f + n\<rparr>) (funds s)"
        "loyalties s' = set_row ll_id (ll_id l) (\<lambda>x. x\<lparr>ll_outstandingMinor := ll_outstandingMinor l + n,
          ll_issuedTotalMinor := ll_issuedTotalMinor l + n\<rparr>) (loyalties s)"
        "loyIssuances s' = loyIssuances s @ [q]" "loyRedemptions s' = loyRedemptions s"
      by (auto simp: loy_def)
    from ready have l: "find_row ll_id (ll_id l) (loyalties s) = Some l" and n: "0 < n"
      by (auto simp: issuable_def intro: find_row_self)
    show ?thesis
      by (rule loyalty_update_inv [OF inv l s'(2)])
         (use inv q n l in \<open>simp_all add: s' uniq_set_row fund_ok_set_row loyalty_inv_def issued_sum_snoc counters_ok_def\<close>)
  qed
qed

lemma loyalty_redeem_inv:
  assumes inv: "loyalty_inv s" and run: "loyalty_redeem input e s = (r, s')"
  shows "loyalty_inv s'"
proof (cases "\<exists>l n u. redeemable s input l n u")
  case False
  from redeem_refused [OF False, of e] run inv show ?thesis by auto
next
  case True
  then obtain l n u where ready: "redeemable s input l n u" by blast
  show ?thesis
  proof (cases "redeem_recorded e s l n")
    case False
    with redeem_unrecorded [OF ready False] run have "s' = s\<lparr>entries := entries s @ [redeem_row l n (rl_actor input)]\<rparr>" by auto
    with inv loyalty_inv_cong [of s' s] show ?thesis by simp
  next
    case True
    with redeem_done [OF ready True] run obtain q where q: "lr_loyaltyLiabilityId q = ll_id l" "lr_amountMinor q = n"
      and s': "funds s' = funds s"
        "loyalties s' = set_row ll_id (ll_id l) (\<lambda>x. x\<lparr>ll_outstandingMinor := ll_outstandingMinor l - n,
          ll_redeemedTotalMinor := ll_redeemedTotalMinor l + n\<rparr>) (loyalties s)"
        "loyIssuances s' = loyIssuances s" "loyRedemptions s' = loyRedemptions s @ [q]"
      by (auto simp: loy_def)
    from ready have l: "find_row ll_id (ll_id l) (loyalties s) = Some l" and n: "0 < n" "n \<le> ll_outstandingMinor l"
      by (auto simp: redeemable_def intro: find_row_self)
    show ?thesis
      by (rule loyalty_update_inv [OF inv l s'(2)])
         (use inv q n l in \<open>simp_all add: s' loyalty_inv_def redeemed_sum_snoc counters_ok_def\<close>)
  qed
qed

lemma loyalty_reconcile_inv:
  assumes inv: "loyalty_inv s" and run: "loyalty_reconcile i e s = (r, s')"
  shows "loyalty_inv s'"
  using loyalty_reconcile_effect [OF run] unfolding loy_simps
proof (elim disjE exE conjE)
  fix l n st
  assume l: "find_row ll_id i (loyalties s) = Some l" and s': "funds s' = funds s"
      "loyalties s' = set_row ll_id i (\<lambda>x. x\<lparr>ll_onChainSupplyMinor := n, ll_reconciliationStatus := st,
        ll_lastReconciledAt := Some (now e)\<rparr>) (loyalties s)"
      "loyIssuances s' = loyIssuances s" "loyRedemptions s' = loyRedemptions s"
  show ?thesis
    by (rule loyalty_update_inv [OF inv l s'(2)])
       (use inv in \<open>simp_all add: s' loyalty_inv_def counters_ok_def\<close>)
qed (use inv in simp)

lemma run_loyalty_inv: "keeps loyalty_inv (run_loyalty c)"
  unfolding keeps_def
proof (intro allI impI)
  fix e s assume i: "loyalty_inv s"
  note inv = this prod.collapse [symmetric]
  show "loyalty_inv (snd (run_loyalty c e s))"
    by (cases c; simp only: run_loyalty.simps)
       (rule fund_create_inv [OF inv] fund_amount_inv [OF inv] loyalty_bind_inv [OF inv] loyalty_issue_inv [OF inv]
         loyalty_redeem_inv [OF inv] loyalty_reconcile_inv [OF inv])+
qed

lemma loyalty_inv_foreign:
  "leaves (\<lambda>s. (funds s, loyalties s, loyIssuances s, loyRedemptions s)) m \<Longrightarrow> keeps loyalty_inv m"
  unfolding leaves_def keeps_def using loyalty_inv_cong by (metis prod.inject)

section \<open>The ledger moves with the counters\<close>

definition out_weight :: "string \<Rightarrow> string \<Rightarrow> PaykhLoyaltyLiability \<Rightarrow> int" where
  "out_weight scope cur l = (if ll_tenantId l = scope \<and> toUpperCase (ll_pegCurrency l) = cur then ll_outstandingMinor l else 0)"

definition issued_weight :: "string \<Rightarrow> string \<Rightarrow> PaykhLoyaltyLiability \<Rightarrow> int" where
  "issued_weight scope cur l = (if ll_tenantId l = scope \<and> toUpperCase (ll_pegCurrency l) = cur then ll_issuedTotalMinor l else 0)"

definition swapped_weight :: "string \<Rightarrow> string \<Rightarrow> PaykhLoyaltyRedemption \<Rightarrow> int" where
  "swapped_weight scope cur q = (if lr_tenantId q = scope \<and> toUpperCase (lr_currency q) = cur then lr_amountMinor q else 0)"

definition funded_weight :: "string \<Rightarrow> string \<Rightarrow> PaykhProgramFund \<Rightarrow> int" where
  "funded_weight scope cur f = (if pf_tenantId f = scope \<and> toUpperCase (pf_currency f) = cur
     \<and> fiat_backed (pf_classification f) = Inr True then pf_fundedMinor f else 0)"

text \<open>The gaps between the ledger and the counters: loyalty coin, merchant payable, program fund.\<close>

definition loyalty_gap :: "string \<Rightarrow> string \<Rightarrow> st \<Rightarrow> int" where
  "loyalty_gap scope cur s = liab LIABILITY_PAYKH_LOYALTY_STABLECOIN scope cur (entries s) - (\<Sum>l\<leftarrow>loyalties s. out_weight scope cur l)"

definition swap_gap :: "string \<Rightarrow> string \<Rightarrow> st \<Rightarrow> int" where
  "swap_gap scope cur s = liab LIABILITY_PAYKH_MERCHANT_PAYABLE scope cur (entries s)
     - (\<Sum>q\<leftarrow>loyRedemptions s. swapped_weight scope cur q)"

definition fund_gap :: "string \<Rightarrow> string \<Rightarrow> st \<Rightarrow> int" where
  "fund_gap scope cur s = liab LIABILITY_PAYKH_PROGRAM_FUND scope cur (entries s)
     - (\<Sum>f\<leftarrow>funds s. funded_weight scope cur f) + (\<Sum>l\<leftarrow>loyalties s. issued_weight scope cur l)"

definition books :: "string \<Rightarrow> string \<Rightarrow> st \<Rightarrow> int \<times> int \<times> int" where
  "books scope cur s = (loyalty_gap scope cur s, swap_gap scope cur s, fund_gap scope cur s)"

lemmas gap_defs = books_def loyalty_gap_def swap_gap_def fund_gap_def
lemmas weight_defs = out_weight_def issued_weight_def swapped_weight_def funded_weight_def

text \<open>An operation that reaches the ledger is also recorded: PayChain answers and the identifier is fresh.\<close>

fun loyalty_recordable :: "env \<Rightarrow> st \<Rightarrow> loyalty_cmd \<Rightarrow> bool" where
  "loyalty_recordable e s (IssueLoyalty input) \<longleftrightarrow>
     (case find_row ll_id (il_liabilityId input) (loyalties s) of None \<Rightarrow> True
      | Some l \<Rightarrow> (case resolveAmount l (il_amountMinor input) (il_units input) of Inl _ \<Rightarrow> True
          | Inr (amount, u) \<Rightarrow> issue_recorded e s l (minor amount)))"
| "loyalty_recordable e s (RedeemLoyalty input) \<longleftrightarrow>
     (case find_row ll_id (rl_liabilityId input) (loyalties s) of None \<Rightarrow> True
      | Some l \<Rightarrow> (case resolveAmount l (rl_amountMinor input) (rl_units input) of Inl _ \<Rightarrow> True
          | Inr (amount, u) \<Rightarrow> redeem_recorded e s l (minor amount)))"
| "loyalty_recordable e s _ \<longleftrightarrow> True"

lemma loyalty_uniq: "loyalty_inv s \<Longrightarrow> uniq pf_id (funds s)" "loyalty_inv s \<Longrightarrow> uniq ll_id (loyalties s)"
  by (simp_all add: loyalty_inv_def)

lemma fund_ops_books:
  assumes inv: "loyalty_inv s"
  shows "fund_create input e s = (r, s') \<Longrightarrow> books scope cur s' = books scope cur s"
    and "fund_fund i amount actor e s = (r, s') \<Longrightarrow> books scope cur s' = books scope cur s"
    and "fund_reserve i amount actor e s = (r, s') \<Longrightarrow> books scope cur s' = books scope cur s"
    and "fund_release i amount actor e s = (r, s') \<Longrightarrow> books scope cur s' = books scope cur s"
proof -
  note sums = sum_set_row [OF loyalty_uniq(1) [OF inv], of i _ "funded_weight scope cur"]
  { assume "fund_create input e s = (r, s')"
    from fund_create_effect [OF this] show "books scope cur s' = books scope cur s"
      unfolding loy_simps by (elim disjE exE conjE) (simp_all add: gap_defs funded_weight_def new_fund_def) }
  { assume "fund_fund i amount actor e s = (r, s')"
    from fund_fund_effect [OF this] show "books scope cur s' = books scope cur s"
      unfolding loy_simps
      by (elim disjE exE conjE) (simp_all add: gap_defs sums, simp add: funded_weight_def funding_row_def bal_transfer) }
  { assume "fund_reserve i amount actor e s = (r, s')"
    from fund_reserve_effect [OF this] show "books scope cur s' = books scope cur s"
      unfolding loy_simps by (elim disjE exE conjE) (simp_all add: gap_defs sums, simp add: funded_weight_def) }
  { assume "fund_release i amount actor e s = (r, s')"
    from fund_release_effect [OF this] show "books scope cur s' = books scope cur s"
      unfolding loy_simps by (elim disjE exE conjE) (simp_all add: gap_defs sums, simp add: funded_weight_def) }
qed

lemma loyalty_bind_books:
  assumes "loyalty_bind input e s = (r, s')"
  shows "books scope cur s' = books scope cur s"
  using loyalty_bind_effect [OF assms] unfolding loy_simps
  by (elim disjE exE conjE) (simp_all add: gap_defs weight_defs new_loyalty_def)

lemma loyalty_issue_books:
  assumes inv: "loyalty_inv s" and run: "loyalty_issue input e s = (r, s')"
    and rec: "loyalty_recordable e s (IssueLoyalty input)"
  shows "books scope cur s' = books scope cur s"
proof (cases "\<exists>l f n u. issuable s input l f n u")
  case False
  from issue_refused [OF False, of e] run show ?thesis by auto
next
  case True
  then obtain l f n u where ready: "issuable s input l f n u" by blast
  with rec have "issue_recorded e s l n" by (simp add: issuable_def)
  from issue_done [OF ready this] run obtain q where
    s': "funds s' = set_row pf_id (pf_id f) (\<lambda>x. x\<lparr>pf_reservedMinor := pf_reservedMinor f + n\<rparr>) (funds s)"
      "loyalties s' = set_row ll_id (ll_id l) (\<lambda>x. x\<lparr>ll_outstandingMinor := ll_outstandingMinor l + n,
        ll_issuedTotalMinor := ll_issuedTotalMinor l + n\<rparr>) (loyalties s)"
      "loyRedemptions s' = loyRedemptions s" "entries s' = entries s @ [issue_row l n (il_actor input)]"
    by (auto simp: loy_def)
  from ready have l: "find_row ll_id (ll_id l) (loyalties s) = Some l" and f: "find_row pf_id (pf_id f) (funds s) = Some f"
    by (auto simp: issuable_def intro: find_row_self)
  note sums = sum_set_row [OF loyalty_uniq(2) [OF inv] l] sum_set_row [OF loyalty_uniq(1) [OF inv] f]
  show ?thesis
    by (simp add: gap_defs s' sums) (simp add: weight_defs issue_row_def bal_transfer)
qed

lemma loyalty_redeem_books:
  assumes inv: "loyalty_inv s" and run: "loyalty_redeem input e s = (r, s')"
    and rec: "loyalty_recordable e s (RedeemLoyalty input)"
  shows "books scope cur s' = books scope cur s"
proof (cases "\<exists>l n u. redeemable s input l n u")
  case False
  from redeem_refused [OF False, of e] run show ?thesis by auto
next
  case True
  then obtain l n u where ready: "redeemable s input l n u" by blast
  with rec have "redeem_recorded e s l n" by (auto simp: redeemable_def)
  from redeem_done [OF ready this] run obtain q where q: "lr_amountMinor q = n" "lr_tenantId q = ll_tenantId l"
      "lr_currency q = ll_pegCurrency l" and s': "funds s' = funds s"
      "loyalties s' = set_row ll_id (ll_id l) (\<lambda>x. x\<lparr>ll_outstandingMinor := ll_outstandingMinor l - n,
        ll_redeemedTotalMinor := ll_redeemedTotalMinor l + n\<rparr>) (loyalties s)"
      "loyRedemptions s' = loyRedemptions s @ [q]" "entries s' = entries s @ [redeem_row l n (rl_actor input)]"
    by (auto simp: loy_def)
  from ready have l: "find_row ll_id (ll_id l) (loyalties s) = Some l"
    by (auto simp: redeemable_def intro: find_row_self)
  note sums = sum_set_row [OF loyalty_uniq(2) [OF inv] l]
  show ?thesis
    by (simp add: gap_defs s' sums) (simp add: weight_defs redeem_row_def bal_transfer q)
qed

lemma loyalty_reconcile_books:
  assumes inv: "loyalty_inv s" and run: "loyalty_reconcile i e s = (r, s')"
  shows "books scope cur s' = books scope cur s"
  using loyalty_reconcile_effect [OF run] unfolding loy_simps
  by (elim disjE exE conjE)
     (simp_all add: gap_defs sum_set_row [OF loyalty_uniq(2) [OF inv]], simp add: weight_defs)

lemma run_loyalty_books:
  assumes "loyalty_inv s" and "loyalty_recordable e s c"
  shows "books scope cur (snd (run_loyalty c e s)) = books scope cur s"
proof -
  note p = prod.collapse [symmetric]
  from assms(2) show ?thesis
    by (cases c; simp only: run_loyalty.simps)
       (rule fund_ops_books [OF assms(1) p] loyalty_bind_books [OF p] loyalty_reconcile_books [OF assms(1) p]
         loyalty_issue_books [OF assms(1) p] loyalty_redeem_books [OF assms(1) p], assumption?)+
qed

section \<open>Full backing\<close>

definition fund_bounds :: "PaykhProgramFund \<Rightarrow> bool" where
  "fund_bounds f \<longleftrightarrow> 0 \<le> pf_reservedMinor f \<and> pf_reservedMinor f \<le> pf_fundedMinor f"

definition covered :: "PaykhProgramFund list \<Rightarrow> PaykhLoyaltyLiability \<Rightarrow> bool" where
  "covered fs l \<longleftrightarrow> (case find_row pf_id (ll_programFundId l) fs of None \<Rightarrow> False
     | Some f \<Rightarrow> ll_issuedTotalMinor l \<le> pf_reservedMinor f)"

definition backed_inv :: "st \<Rightarrow> bool" where
  "backed_inv s \<longleftrightarrow> list_all fund_bounds (funds s) \<and> list_all (covered (funds s)) (loyalties s)"

text \<open>Releases and reservations are not negative, and a release leaves what was issued reserved.\<close>

fun fund_disciplined :: "st \<Rightarrow> loyalty_cmd \<Rightarrow> bool" where
  "fund_disciplined s (ReserveFund i amount actor) \<longleftrightarrow> (case BigInt amount of Inl _ \<Rightarrow> True | Inr n \<Rightarrow> 0 \<le> n)"
| "fund_disciplined s (ReleaseFund i amount actor) \<longleftrightarrow> (case BigInt amount of Inl _ \<Rightarrow> True
     | Inr n \<Rightarrow> 0 \<le> n \<and> (case find_row pf_id i (funds s) of None \<Rightarrow> True
         | Some f \<Rightarrow> list_all (\<lambda>l. ll_programFundId l = i \<longrightarrow> ll_issuedTotalMinor l \<le> pf_reservedMinor f - n) (loyalties s)))"
| "fund_disciplined s _ \<longleftrightarrow> True"

lemma backed_fund_update:
  assumes inv: "loyalty_inv s" and bk: "backed_inv s" and f: "find_row pf_id i (funds s) = Some f"
    and s': "funds s' = set_row pf_id i g (funds s)" "loyalties s' = loyalties s"
    and g: "\<And>x. pf_id (g x) = pf_id x" and ok: "fund_bounds (g f)"
    and cov: "\<And>l. l \<in> set (loyalties s) \<Longrightarrow> ll_programFundId l = i \<Longrightarrow> ll_issuedTotalMinor l \<le> pf_reservedMinor f \<Longrightarrow>
      ll_issuedTotalMinor l \<le> pf_reservedMinor (g f)"
  shows "backed_inv s'"
proof -
  have "fund_bounds x" if "x \<in> set (funds s')" for x
    using that unfolding s'
  proof (cases rule: set_row_cases)
    case (changed q)
    from changed f inv have "q = f" using find_row_uniq [of pf_id "funds s" q] by (simp add: loyalty_inv_def)
    with changed ok show ?thesis by simp
  next
    case same
    with bk show ?thesis by (simp add: backed_inv_def list_all_iff)
  qed
  moreover have "covered (funds s') l" if l: "l \<in> set (loyalties s)" for l
  proof -
    from bk l have "covered (funds s) l" by (simp add: backed_inv_def list_all_iff)
    with cov [OF l] f show ?thesis
      by (cases "ll_programFundId l = i") (auto simp: covered_def s' find_row_set_row g)
  qed
  ultimately show ?thesis by (simp add: backed_inv_def list_all_iff s')
qed

lemma backed_bounds: "backed_inv s \<Longrightarrow> find_row pf_id i (funds s) = Some f \<Longrightarrow> fund_bounds f"
  by (auto simp: backed_inv_def list_all_iff dest: find_row_Some)

lemma fund_ops_backed:
  assumes inv: "loyalty_inv s" and bk: "backed_inv s"
  shows "fund_create input e s = (r, s') \<Longrightarrow> backed_inv s'"
    and "fund_fund i amount actor e s = (r, s') \<Longrightarrow> backed_inv s'"
    and "fund_reserve i amount actor e s = (r, s') \<Longrightarrow> fund_disciplined s (ReserveFund i amount actor) \<Longrightarrow> backed_inv s'"
    and "fund_release i amount actor e s = (r, s') \<Longrightarrow> fund_disciplined s (ReleaseFund i amount actor) \<Longrightarrow> backed_inv s'"
proof -
  { assume "fund_create input e s = (r, s')"
    from fund_create_effect [OF this] show "backed_inv s'"
      unfolding loy_simps
    proof (elim disjE exE conjE)
      assume s': "funds s' = funds s @ [new_fund (newId e) input]" "loyalties s' = loyalties s"
      have "covered (funds s) l \<Longrightarrow> covered (funds s') l" for l
        by (auto simp: covered_def s' find_row_append split: option.splits)
      with bk show ?thesis by (auto simp: backed_inv_def list_all_iff s' fund_bounds_def new_fund_def)
    qed (use bk in simp) }
  { assume "fund_fund i amount actor e s = (r, s')"
    from fund_fund_effect [OF this] show "backed_inv s'"
      unfolding loy_simps
    proof (elim disjE exE conjE)
      fix f n assume f: "find_row pf_id i (funds s) = Some f" and n: "0 < n"
        and s': "funds s' = set_row pf_id i (\<lambda>x. x\<lparr>pf_fundedMinor := pf_fundedMinor f + n\<rparr>) (funds s)" "loyalties s' = loyalties s"
      show ?thesis
        by (rule backed_fund_update [OF inv bk f s']) (use backed_bounds [OF bk f] n in \<open>simp_all add: fund_bounds_def\<close>)
    qed (use bk in simp) }
  { assume run: "fund_reserve i amount actor e s = (r, s')" and d: "fund_disciplined s (ReserveFund i amount actor)"
    from fund_reserve_effect [OF run] show "backed_inv s'"
      unfolding loy_simps
    proof (elim disjE exE conjE)
      fix f n assume f: "find_row pf_id i (funds s) = Some f" and n: "BigInt amount = Inr n" "n \<le> pf_fundedMinor f - pf_reservedMinor f"
        and s': "funds s' = set_row pf_id i (\<lambda>x. x\<lparr>pf_reservedMinor := pf_reservedMinor f + n\<rparr>) (funds s)" "loyalties s' = loyalties s"
      show ?thesis
        by (rule backed_fund_update [OF inv bk f s']) (use backed_bounds [OF bk f] n d in \<open>simp_all add: fund_bounds_def\<close>)
    qed (use bk in simp) }
  { assume run: "fund_release i amount actor e s = (r, s')" and d: "fund_disciplined s (ReleaseFund i amount actor)"
    from fund_release_effect [OF run] show "backed_inv s'"
      unfolding loy_simps
    proof (elim disjE exE conjE)
      fix f n assume f: "find_row pf_id i (funds s) = Some f" and n: "BigInt amount = Inr n" "n \<le> pf_reservedMinor f"
        and s': "funds s' = set_row pf_id i (\<lambda>x. x\<lparr>pf_reservedMinor := pf_reservedMinor f - n\<rparr>) (funds s)" "loyalties s' = loyalties s"
      show ?thesis
        by (rule backed_fund_update [OF inv bk f s'])
           (use backed_bounds [OF bk f] n d f in \<open>simp_all add: fund_bounds_def list_all_iff\<close>)
    qed (use bk in simp) }
qed

lemma loyalty_bind_backed:
  assumes bk: "backed_inv s" and run: "loyalty_bind input e s = (r, s')"
  shows "backed_inv s'"
  using loyalty_bind_effect [OF run] unfolding loy_simps
proof (elim disjE exE conjE)
  fix f d assume f: "find_row pf_id (bl_programFundId input) (funds s) = Some f"
    and s': "funds s' = funds s" "loyalties s' = loyalties s @ [new_loyalty (newId e) input f d]"
  have "covered (funds s) (new_loyalty (newId e) input f d)"
    using find_row_self [OF f] backed_bounds [OF bk f] by (simp add: covered_def new_loyalty_def fund_bounds_def)
  with bk show ?thesis by (simp add: backed_inv_def s')
qed (use bk in simp)

text \<open>A change of one liability that keeps its fund and its issued total.\<close>

lemma backed_loyalty_update:
  assumes bk: "backed_inv s" and l: "find_row ll_id i (loyalties s) = Some l" and uq: "uniq ll_id (loyalties s)"
    and s': "funds s' = funds s" "loyalties s' = set_row ll_id i f (loyalties s)"
    and f: "\<And>x. ll_programFundId (f x) = ll_programFundId x" "ll_issuedTotalMinor (f l) = ll_issuedTotalMinor l"
  shows "backed_inv s'"
proof -
  have "covered (funds s) x" if "x \<in> set (loyalties s')" for x
    using that unfolding s'
  proof (cases rule: set_row_cases)
    case (changed q)
    from changed l find_row_uniq [OF uq changed(1)] have "q = l" by simp
    with changed bk have "covered (funds s) l" by (simp add: backed_inv_def list_all_iff)
    with changed \<open>q = l\<close> f show ?thesis by (simp add: covered_def split: option.splits)
  next
    case same
    with bk show ?thesis by (simp add: backed_inv_def list_all_iff)
  qed
  with bk show ?thesis by (simp add: backed_inv_def list_all_iff s')
qed

lemma loyalty_issue_backed:
  assumes inv: "loyalty_inv s" and bk: "backed_inv s" and run: "loyalty_issue input e s = (r, s')"
  shows "backed_inv s'"
proof (cases "\<exists>l f n u. issuable s input l f n u")
  case False
  from issue_refused [OF False, of e] run bk show ?thesis by auto
next
  case True
  then obtain l f n u where ready: "issuable s input l f n u" by blast
  show ?thesis
  proof (cases "issue_recorded e s l n")
    case False
    with issue_unrecorded [OF ready False] run have "s' = s\<lparr>entries := entries s @ [issue_row l n (il_actor input)]\<rparr>" by auto
    with bk show ?thesis by (simp add: backed_inv_def)
  next
    case True
    with issue_done [OF ready True] run
    have s': "funds s' = set_row pf_id (pf_id f) (\<lambda>x. x\<lparr>pf_reservedMinor := pf_reservedMinor f + n\<rparr>) (funds s)"
        "loyalties s' = set_row ll_id (ll_id l) (\<lambda>x. x\<lparr>ll_outstandingMinor := ll_outstandingMinor l + n,
          ll_issuedTotalMinor := ll_issuedTotalMinor l + n\<rparr>) (loyalties s)" by (auto simp: loy_def)
    from ready have l: "find_row ll_id (ll_id l) (loyalties s) = Some l" and f: "find_row pf_id (pf_id f) (funds s) = Some f"
      and lf: "ll_programFundId l = pf_id f" and n: "0 < n" "n \<le> pf_fundedMinor f - pf_reservedMinor f"
      by (auto simp: issuable_def intro: find_row_self dest: find_row_Some)
    let ?t = "s\<lparr>funds := funds s'\<rparr>"
    have t: "backed_inv ?t"
      by (rule backed_fund_update [OF inv bk f, of ?t "\<lambda>x. x\<lparr>pf_reservedMinor := pf_reservedMinor f + n\<rparr>"])
         (use s'(1) backed_bounds [OF bk f] n in \<open>simp_all add: fund_bounds_def\<close>)
    have "covered (funds s') x" if "x \<in> set (loyalties s')" for x
      using that unfolding s'(2)
    proof (cases rule: set_row_cases)
      case (changed q)
      from changed l find_row_uniq [OF loyalty_uniq(2) [OF inv] changed(1)] have q: "q = l" by simp
      from bk find_row_Some [OF l] have "covered (funds s) l" by (simp add: backed_inv_def list_all_iff)
      with changed q f lf show ?thesis by (simp add: covered_def s'(1) find_row_set_row)
    next
      case same
      with t show ?thesis by (simp add: backed_inv_def list_all_iff)
    qed
    with t show ?thesis by (simp add: backed_inv_def list_all_iff)
  qed
qed

lemma loyalty_redeem_backed:
  assumes inv: "loyalty_inv s" and bk: "backed_inv s" and run: "loyalty_redeem input e s = (r, s')"
  shows "backed_inv s'"
proof (cases "\<exists>l n u. redeemable s input l n u")
  case False
  from redeem_refused [OF False, of e] run bk show ?thesis by auto
next
  case True
  then obtain l n u where ready: "redeemable s input l n u" by blast
  show ?thesis
  proof (cases "redeem_recorded e s l n")
    case False
    with redeem_unrecorded [OF ready False] run have "s' = s\<lparr>entries := entries s @ [redeem_row l n (rl_actor input)]\<rparr>" by auto
    with bk show ?thesis by (simp add: backed_inv_def)
  next
    case True
    with redeem_done [OF ready True] run
    have s': "funds s' = funds s" "loyalties s' = set_row ll_id (ll_id l) (\<lambda>x. x\<lparr>ll_outstandingMinor := ll_outstandingMinor l - n,
          ll_redeemedTotalMinor := ll_redeemedTotalMinor l + n\<rparr>) (loyalties s)" by (auto simp: loy_def)
    from ready have l: "find_row ll_id (ll_id l) (loyalties s) = Some l"
      by (auto simp: redeemable_def intro: find_row_self)
    show ?thesis by (rule backed_loyalty_update [OF bk l loyalty_uniq(2) [OF inv] s']) simp_all
  qed
qed

lemma loyalty_reconcile_backed:
  assumes inv: "loyalty_inv s" and bk: "backed_inv s" and run: "loyalty_reconcile i e s = (r, s')"
  shows "backed_inv s'"
  using loyalty_reconcile_effect [OF run] unfolding loy_simps
  by (elim disjE exE conjE)
     (use bk in simp, rule backed_loyalty_update [OF bk _ loyalty_uniq(2) [OF inv]], assumption, assumption, assumption, simp_all)

lemma run_loyalty_backed:
  assumes "loyalty_inv s" and "backed_inv s" and "fund_disciplined s c"
  shows "backed_inv (snd (run_loyalty c e s))"
proof -
  note p = prod.collapse [symmetric] and q = assms(1,2)
  from assms(3) show ?thesis
    by (cases c; simp only: run_loyalty.simps)
       (rule fund_ops_backed [OF q p] loyalty_bind_backed [OF assms(2) p] loyalty_issue_backed [OF q p]
         loyalty_redeem_backed [OF q p] loyalty_reconcile_backed [OF q p], assumption?)+
qed

text \<open>Outstanding coin is covered by safeguarded funding.\<close>

lemma backed_outstanding:
  assumes "loyalty_inv s" and "backed_inv s" and "l \<in> set (loyalties s)"
  shows "\<exists>f. find_row pf_id (ll_programFundId l) (funds s) = Some f \<and> ll_outstandingMinor l \<le> pf_fundedMinor f"
proof -
  from assms have "covered (funds s) l" by (simp add: backed_inv_def list_all_iff)
  then obtain f where f: "find_row pf_id (ll_programFundId l) (funds s) = Some f" "ll_issuedTotalMinor l \<le> pf_reservedMinor f"
    by (auto simp: covered_def split: option.splits)
  from backed_bounds [OF assms(2) f(1)] assms(1,3) f show ?thesis
    by (auto simp: fund_bounds_def loyalty_inv_def counters_ok_def)
qed

end
