(* ===== verification/Platform_Admin.thy ===== *)
theory Platform_Admin
  imports Oversight
begin

text \<open>
  The administrative operations of \<open>modules/admin/admin.service.ts\<close> that write the platform
  tables: feature flags, emergency controls, programs and trustee accounts. The columns of
  programs, accounts and controls that no modelled operation reads are not kept; the stakeholder
  e-mail of \<open>setControl\<close> is output only. The lemmas say what these operations leave alone.
\<close>

section \<open>Operations\<close>

definition or_default :: "'a option \<Rightarrow> 'a \<Rightarrow> 'a" where
  "or_default x d = (case x of None \<Rightarrow> d | Some a \<Rightarrow> a)"

definition admin_setFlag :: "string \<Rightarrow> bool \<Rightarrow> string \<Rightarrow> unit op" where
  "admin_setFlag key enabled actor = seq (set_flag key enabled actor)
     (audit ((audit_rec actor ''admin.feature_flag.set'' ''FEATURE_FLAG'' key)\<lparr>ar_afterState := Some (JObj [(''enabled'', JBool enabled)])\<rparr>))"

definition setControl :: "string \<Rightarrow> bool \<Rightarrow> string \<Rightarrow> string \<Rightarrow> unit op" where
  "setControl key v reason actor =
     seq (modify (\<lambda>s. s\<lparr>controls := (if has_row pc_key key (controls s)
       then set_row pc_key key (\<lambda>c. c\<lparr>pc_value := v\<rparr>) (controls s)
       else controls s @ [\<lparr>pc_key = key, pc_value = v\<rparr>])\<rparr>))
     (audit ((audit_rec actor ''admin.control.set'' ''PLATFORM_CONTROL'' key)
       \<lparr>ar_reason := Some reason, ar_afterState := Some (JObj [(''value'', JBool v)])\<rparr>))"

record CreateProgramInput =
  cp_code :: "string option"
  cp_legalEntityId :: "string option"
  cp_issuerId :: "string option"
  cp_trusteeBankId :: "string option"
  cp_assetId :: "string option"
  cp_referenceCurrency :: "string option"
  cp_legalModel :: "string option"
  cp_regulatoryStatus :: "string option"
  cp_reservePolicy :: "string option"
  cp_requiredRatioBps :: "int option"
  cp_safetyBufferBps :: "int option"
  cp_effectiveDate :: "string option"

definition req_field :: "string option \<Rightarrow> string \<Rightarrow> string res" where
  "req_field v name = (if truthy v then Inr (the v) else Inl (BadRequest (name @ '' is required'')))"

definition createProgram :: "CreateProgramInput \<Rightarrow> string \<Rightarrow> string op" where
  "createProgram input actor = bnd (asks id) (\<lambda>e.
     bnd (lift_r (req_field (cp_code input) ''code'')) (\<lambda>code.
     bnd (lift_r (req_field (cp_legalEntityId input) ''legalEntityId'')) (\<lambda>_.
     bnd (lift_r (req_field (cp_issuerId input) ''issuerId'')) (\<lambda>issuerId.
     bnd (lift_r (req_field (cp_trusteeBankId input) ''trusteeBankId'')) (\<lambda>_.
     bnd (lift_r (req_field (cp_assetId input) ''assetId'')) (\<lambda>assetId.
     bnd (lift_r (req_field (cp_referenceCurrency input) ''referenceCurrency'')) (\<lambda>ccy.
     bnd (lift_r (req_field (cp_legalModel input) ''legalModel'')) (\<lambda>_.
     bnd (lift_r (req_field (cp_regulatoryStatus input) ''regulatoryStatus'')) (\<lambda>_.
     bnd (lift_r (req_field (cp_reservePolicy input) ''reservePolicy'')) (\<lambda>_.
     bnd (lift_r (req_field (cp_effectiveDate input) ''effectiveDate'')) (\<lambda>date.
     bnd (lift_r (date_of e date)) (\<lambda>_.
     let p = \<lparr>pg_id = newId e, pg_code = code, pg_issuerId = issuerId, pg_assetId = assetId, pg_referenceCurrency = ccy,
       pg_requiredRatioBps = or_default (cp_requiredRatioBps input) 10000, pg_safetyBufferBps = or_default (cp_safetyBufferBps input) 0,
       pg_status = ProgramStatus.DRAFT\<rparr> in
     seq (try_modify (\<lambda>s. if has_row pg_id (pg_id p) (programs s) \<or> has_row pg_code code (programs s)
       then Inl (UniqueViolation ''Program'') else Inr (s\<lparr>programs := programs s @ [p]\<rparr>)))
     (seq (audit ((audit_rec actor ''admin.program.created'' ''PROGRAM'' (pg_id p))
       \<lparr>ar_afterState := Some (JObj [(''code'', JStr code), (''assetId'', JStr assetId)])\<rparr>))
     (ret (pg_id p)))))))))))))))"

record CreateAccountInput =
  ca_maskedAccountNumber :: "string option"
  ca_coreBankingRef :: "string option"
  ca_accountName :: "string option"
  ca_bankLegalEntity :: "string option"
  ca_currency :: "string option"
  ca_classification :: "string option"
  ca_supportedAssetId :: "string option"

definition addTrusteeAccount :: "string \<Rightarrow> CreateAccountInput \<Rightarrow> string \<Rightarrow> string op" where
  "addTrusteeAccount programId input actor = bnd (asks id) (\<lambda>e.
     bnd (find_or (\<lambda>s. find_row pg_id programId (programs s)) (NotFound ''Program'')) (\<lambda>program.
     bnd (lift_r (req_field (ca_maskedAccountNumber input) ''maskedAccountNumber'')) (\<lambda>masked.
     bnd (lift_r (req_field (ca_coreBankingRef input) ''coreBankingRef'')) (\<lambda>cref.
     bnd (lift_r (req_field (ca_accountName input) ''accountName'')) (\<lambda>name.
     bnd (lift_r (req_field (ca_bankLegalEntity input) ''bankLegalEntity'')) (\<lambda>legal.
     bnd (lift_r (req_field (ca_currency input) ''currency'')) (\<lambda>ccy.
     bnd (lift_r (req_field (ca_classification input) ''classification'')) (\<lambda>cls.
     let a = \<lparr>ta_id = newId e, ta_programId = programId, ta_maskedAccountNumber = masked, ta_coreBankingRef = cref,
       ta_accountName = name, ta_bankLegalEntity = legal, ta_currency = ccy, ta_classification = cls,
       ta_supportedAssetId = or_default (ca_supportedAssetId input) (pg_assetId program),
       ta_status = AccountStatus.PENDING_ACTIVATION, ta_bankId = None, ta_mockClearedMinor = 0\<rparr> in
     seq (try_modify (\<lambda>s. if has_row ta_id (ta_id a) (accounts s) then Inl (UniqueViolation ''TrusteeAccount'')
       else Inr (s\<lparr>accounts := accounts s @ [a]\<rparr>)))
     (seq (audit ((audit_rec actor ''admin.trustee_account.created'' ''TRUSTEE_ACCOUNT'' (ta_id a))
       \<lparr>ar_afterState := Some (JObj [(''programId'', JStr programId), (''accountName'', JStr name)])\<rparr>))
     (ret (ta_id a)))))))))))"

fun program_status :: "string \<Rightarrow> ProgramStatus option" where
  "program_status status = (if status = ''DRAFT'' then Some ProgramStatus.DRAFT
     else if status = ''ACTIVE'' then Some ProgramStatus.ACTIVE
     else if status = ''SUSPENDED'' then Some ProgramStatus.SUSPENDED
     else if status = ''EXPIRED'' then Some ProgramStatus.EXPIRED
     else if status = ''CLOSED'' then Some ProgramStatus.CLOSED else None)"

definition setProgramStatus :: "string \<Rightarrow> string \<Rightarrow> string \<Rightarrow> unit op" where
  "setProgramStatus programId status actor =
     bnd (lift_r (require (program_status status) (BadRequest ''status must be one of DRAFT, ACTIVE, SUSPENDED, EXPIRED, CLOSED''))) (\<lambda>st.
     seq (try_modify (\<lambda>s. if has_row pg_id programId (programs s)
       then Inr (s\<lparr>programs := set_row pg_id programId (\<lambda>p. p\<lparr>pg_status := st\<rparr>) (programs s)\<rparr>)
       else Inl (RecordNotFound ''Program'')))
     (audit ((audit_rec actor ''admin.program.status_changed'' ''PROGRAM'' programId)
       \<lparr>ar_afterState := Some (JObj [(''status'', JStr status)])\<rparr>)))"

section \<open>As commands\<close>

datatype platform_cmd =
    SetFlagCmd string bool string
  | SetControlCmd string bool string string
  | CreateProgramCmd CreateProgramInput string
  | AddTrusteeAccountCmd string CreateAccountInput string
  | SetProgramStatusCmd string string string

primrec run_platform :: "platform_cmd \<Rightarrow> unit op" where
  "run_platform (SetFlagCmd key on actor) = admin_setFlag key on actor"
| "run_platform (SetControlCmd key v reason actor) = setControl key v reason actor"
| "run_platform (CreateProgramCmd input actor) = void (createProgram input actor)"
| "run_platform (AddTrusteeAccountCmd p input actor) = void (addTrusteeAccount p input actor)"
| "run_platform (SetProgramStatusCmd p status actor) = setProgramStatus p status actor"

definition mask_platform :: "st \<Rightarrow> st" where
  "mask_platform s = s\<lparr>flags := [], controls := [], programs := [], accounts := [], audits := []\<rparr>"

lemmas platform_op_defs = admin_setFlag_def set_flag_def setControl_def createProgram_def addTrusteeAccount_def
  setProgramStatus_def void_def

lemma platform_frame: "leaves mask_platform (run_platform c)"
  by (cases c; simp only: run_platform.simps; unfold platform_op_defs Let_def)
    (intro leaves_intros; auto simp: mask_platform_def split: if_splits)+

lemma logs_modify: "(\<And>s. audits (g s) = audits s) \<Longrightarrow> logs P (modify g)"
  by (simp add: logs_def modify_def)

lemma logs_try_modify: "(\<And>s s'. g s = Inr s' \<Longrightarrow> audits s' = audits s) \<Longrightarrow> logs P (try_modify g)"
  by (auto simp: logs_def try_modify_def split: sum.split)

lemma platform_logs: "logs no_maker (run_platform c)"
  by (cases c; simp only: run_platform.simps; unfold platform_op_defs Let_def)
    (intro logs_intros logs_modify logs_try_modify; auto split: if_splits)+

end
