(* ===== verification/System.thy ===== *)
theory System
  imports Mint_Life Redemption Liability Oversight Loyalty_Books Platform_Admin
begin

text \<open>
  The platform as one transition system. A command is a call of a state-changing service
  method; \<open>run\<close> dispatches it; \<open>reach G\<close> are the states reached from the empty database by
  calls that satisfy the guard \<open>G\<close>, in any order, failing calls included, with the
  reference data (users, programs, trustee accounts, platform controls) and the stored
  idempotency keys changed at will in between. The locale \<open>invariant\<close> is the contract a component invariant has to meet; its
  interpretations carry each component's invariant through the calls of all the others by
  their frames.
\<close>

section \<open>Commands\<close>

datatype reserve_cmd =
    CreateSnapshot string
  | AddAdjustmentCmd AddAdjustment
  | LiftAdjustment string string
  | ReconcileBank string
  | RegisterBankCmd RegisterBank
  | SetAccountBank string "string option" "string option"

primrec run_reserve :: "reserve_cmd \<Rightarrow> unit op" where
  "run_reserve (CreateSnapshot p) = void (createSnapshot p)"
| "run_reserve (AddAdjustmentCmd input) = void (addAdjustment input)"
| "run_reserve (LiftAdjustment i actor) = void (liftAdjustment i actor)"
| "run_reserve (ReconcileBank p) = void (reconcileBank p)"
| "run_reserve (RegisterBankCmd input) = void (registerBank input)"
| "run_reserve (SetAccountBank a b m) = void (setAccountBank a b m)"

datatype command =
    Deposits_op deposit_cmd
  | Mint_op mint_cmd
  | Redemption_op redemption_cmd
  | Ingest LiabilitySnapshotInput
  | Reserve_op reserve_cmd
  | Oversight_op oversight_cmd
  | Payment_op payment_cmd
  | Settlement_op settlement_cmd
  | Loyalty_op loyalty_cmd
  | Set_flag string bool string
  | Platform_op platform_cmd

primrec run :: "command \<Rightarrow> unit op" where
  "run (Deposits_op c) = void (run_deposit c)"
| "run (Mint_op c) = void (run_mint c)"
| "run (Redemption_op c) = void (run_redemption c)"
| "run (Ingest input) = void (ingest input)"
| "run (Reserve_op c) = run_reserve c"
| "run (Oversight_op c) = run_oversight c"
| "run (Payment_op c) = void (run_payment c)"
| "run (Settlement_op c) = void (run_settlement c)"
| "run (Loyalty_op c) = void (run_loyalty c)"
| "run (Set_flag key on by) = set_flag key on by"
| "run (Platform_op c) = run_platform c"

definition empty_state :: st where
  "empty_state = \<lparr>users = [], programs = [], accounts = [], banks = [], flags = [], controls = [],
     fundings = [], deposits = [], entries = [], liabilities = [], adjustments = [], snapshots = [],
     mintAuths = [], mintConfs = [], approvals = [], redemptions = [], reconRuns = [], attestations = [],
     profiles = [], orders = [], funds = [], loyalties = [], loyIssuances = [], loyRedemptions = [],
     settlements = [], merchants = [], idemKeys = [], audits = [], outbox = [], lastSuccessfulCheck = None\<rparr>"

definition with_reference :: "User list \<Rightarrow> Program list \<Rightarrow> TrusteeAccount list \<Rightarrow> PlatformControl list
    \<Rightarrow> IdempotencyKey list \<Rightarrow> st \<Rightarrow> st" where
  "with_reference us ps as cs ks s = s\<lparr>users := us, programs := ps, accounts := as, controls := cs, idemKeys := ks\<rparr>"

section \<open>Reachable states\<close>

inductive reach :: "(env \<Rightarrow> st \<Rightarrow> command \<Rightarrow> bool) \<Rightarrow> st \<Rightarrow> bool" for G where
  start: "reach G empty_state"
| reference: "reach G s \<Longrightarrow> reach G (with_reference us ps as cs ks s)"
| call: "reach G s \<Longrightarrow> G e s c \<Longrightarrow> reach G (snd (run c e s))"

abbreviation any_call :: "env \<Rightarrow> st \<Rightarrow> command \<Rightarrow> bool" where
  "any_call e s c \<equiv> True"

abbreviation reachable :: "st \<Rightarrow> bool" where
  "reachable \<equiv> reach any_call"

lemma reach_reachable: "reach G s \<Longrightarrow> reachable s"
  by (induction rule: reach.induct) (auto intro: reach.intros)

text \<open>A sequence of calls, run one after the other, and the guard along it.\<close>

fun run_all :: "(env \<times> command) list \<Rightarrow> st \<Rightarrow> st" where
  "run_all [] s = s"
| "run_all ((e, c) # cs) s = run_all cs (snd (run c e s))"

fun guarded :: "(env \<Rightarrow> st \<Rightarrow> command \<Rightarrow> bool) \<Rightarrow> (env \<times> command) list \<Rightarrow> st \<Rightarrow> bool" where
  "guarded G [] s = True"
| "guarded G ((e, c) # cs) s = (G e s c \<and> guarded G cs (snd (run c e s)))"

interpretation platform: call_run run run_all
  by unfold_locales simp_all

lemma reach_run_all: "reach G s \<Longrightarrow> guarded G cs s \<Longrightarrow> reach G (run_all cs s)"
  by (induction cs s rule: run_all.induct) (auto intro: reach.call)

lemma guarded_any: "guarded any_call cs s"
  by (induction cs arbitrary: s) auto

lemmas reachable_run_all = reach_run_all [OF _ guarded_any]

section \<open>The contract of an invariant\<close>

locale guarded_invariant =
  fixes G :: "env \<Rightarrow> st \<Rightarrow> command \<Rightarrow> bool"
    and Inv :: "st \<Rightarrow> bool"
  assumes init: "Inv empty_state"
    and reference_data: "Inv s \<Longrightarrow> Inv (with_reference us ps as cs ks s)"
    and step: "reachable s \<Longrightarrow> Inv s \<Longrightarrow> G e s c \<Longrightarrow> Inv (snd (run c e s))"
begin

lemma holds: "reach G s \<Longrightarrow> Inv s"
  by (induction rule: reach.induct) (auto intro: init reference_data step reach_reachable)

end

locale invariant =
  fixes Inv :: "st \<Rightarrow> bool"
  assumes initial: "Inv empty_state"
    and reference_kept: "Inv s \<Longrightarrow> Inv (with_reference us ps as cs ks s)"
    and kept: "keeps Inv (run c)"
begin

lemma in_reachable: "reachable s \<Longrightarrow> Inv s"
  by (induction rule: reach.induct) (auto intro: initial reference_kept keepsD [OF kept])

end

sublocale invariant \<subseteq> guarded_invariant any_call Inv
  by unfold_locales (auto intro: initial reference_kept keepsD [OF kept])

section \<open>Frames of the whole dispatch\<close>

lemma snd_void: "snd (void m e s) = snd (m e s)"
  by (cases "m e s") (simp add: void_def bnd_def ret_def split: sum.split)

lemma keeps_void: "keeps P (void m) = keeps P m"
  by (simp add: keeps_def snd_void)

lemma leaves_void: "leaves f (void m) = leaves f m"
  by (simp add: leaves_def snd_void)

lemma appends_void: "appends A (void m) = appends A m"
  by (simp add: appends_def snd_void)

lemma logs_void: "logs P (void m) = logs P m"
  by (simp add: logs_def snd_void)

lemmas void_simps = keeps_void leaves_void appends_void logs_void

lemma leaves_mask: "leaves M m \<Longrightarrow> (\<And>s. f (M s) = f s) \<Longrightarrow> leaves f m"
  unfolding leaves_def by metis

lemmas reserve_op_defs = createSnapshot_def addAdjustment_def liftAdjustment_def reconcileBank_def registerBank_def
  setAccountBank_def

definition mask_reserve :: "st \<Rightarrow> st" where
  "mask_reserve s = s\<lparr>accounts := [], banks := [], adjustments := [], snapshots := [], outbox := [],
     lastSuccessfulCheck := None\<rparr>"

lemma reserve_frame: "leaves mask_reserve (run_reserve c)"
  by (cases c; simp only: run_reserve.simps void_simps; unfold reserve_op_defs Let_def)
     (intro leaves_intros; simp add: mask_reserve_def)+

definition mask_flags :: "st \<Rightarrow> st" where
  "mask_flags s = s\<lparr>flags := []\<rparr>"

lemma flag_frame: "leaves mask_flags (set_flag key on by)"
  by (simp add: set_flag_def leaves_modify mask_flags_def)

lemmas frames = deposit_frame mint_frame redemption_frame liability_frame reserve_frame oversight_frame
  payment_frame settlement_frame loyalty_frame flag_frame platform_frame

lemmas masks = mask_deposits_def mask_mint_def mask_redemptions_def mask_liabilities_def mask_reserve_def
  mask_oversight_def mask_payments_def mask_settlements_def mask_loyalty_def mask_flags_def
  mask_platform_def

text \<open>Each service's journal entries stay on its own accounts; the others post nothing.\<close>

definition run_accounts :: "command \<Rightarrow> string set" where
  "run_accounts c = (case c of Deposits_op _ \<Rightarrow> deposit_accounts | Mint_op _ \<Rightarrow> mint_accounts
     | Redemption_op _ \<Rightarrow> redemption_accounts | Payment_op _ \<Rightarrow> payment_accounts
     | Settlement_op _ \<Rightarrow> settlement_accounts | Loyalty_op _ \<Rightarrow> loyalty_accounts | _ \<Rightarrow> {})"

lemma run_appends: "appends (run_accounts c) (run c)"
  by (cases c)
     (simp_all add: run_accounts_def void_simps deposit_appends mint_appends redemption_appends payment_appends
       settlement_appends loyalty_appends leaves_appends leaves_mask [OF liability_frame] leaves_mask [OF reserve_frame]
       leaves_mask [OF oversight_frame] leaves_mask [OF flag_frame] leaves_mask [OF platform_frame] masks)

section \<open>Component invariants hold in every reachable state\<close>

text \<open>A part of the state that only one service writes is left alone by all other commands.\<close>

lemma run_leaves:
  "\<forall>x. c \<noteq> Deposits_op x \<Longrightarrow> leaves (\<lambda>s. (deposits s, fundings s)) (run c)"
  "\<forall>x. c \<noteq> Mint_op x \<Longrightarrow> leaves (\<lambda>s. (mintAuths s, approvals s, mintConfs s)) (run c)"
  "\<forall>x. c \<noteq> Redemption_op x \<Longrightarrow> leaves redemptions (run c)"
  "\<forall>x. c \<noteq> Ingest x \<Longrightarrow> leaves liabilities (run c)"
  "\<forall>x. c \<noteq> Oversight_op x \<Longrightarrow> leaves attestations (run c)"
  "\<forall>x. c \<noteq> Payment_op x \<Longrightarrow> leaves orders (run c)"
  "\<forall>x. c \<noteq> Settlement_op x \<Longrightarrow> leaves settlements (run c)"
  "\<forall>x. c \<noteq> Loyalty_op x \<Longrightarrow> leaves (\<lambda>s. (funds s, loyalties s, loyIssuances s, loyRedemptions s)) (run c)"
  by (cases c; (blast | (simp only: run.simps void_simps, (rule leaves_mask [OF deposit_frame] leaves_mask [OF mint_frame]
    leaves_mask [OF redemption_frame] leaves_mask [OF liability_frame] leaves_mask [OF reserve_frame]
    leaves_mask [OF oversight_frame] leaves_mask [OF payment_frame] leaves_mask [OF settlement_frame]
    leaves_mask [OF loyalty_frame] leaves_mask [OF flag_frame] leaves_mask [OF platform_frame]), simp add: masks)))+

text \<open>Only the settlement service writes maker records.\<close>

lemma deposit_logs: "logs no_maker (run_deposit c)"
  by (cases c; simp only: run_deposit.simps; unfold deposit_op_defs Let_def; intro logs_intros; simp)

lemma mint_logs: "logs no_maker (run_mint c)"
  by (cases c; simp only: run_mint.simps; unfold mint_op_defs Let_def; intro logs_intros; simp)

lemma redemption_logs: "logs no_maker (run_redemption c)"
  by (cases c; simp only: run_redemption.simps; unfold redemption_op_defs Let_def; intro logs_intros; simp)

lemma logs_match_order [logs_intros]: "logs no_maker (match_order x input)"
  unfolding match_order_def confirm_order_def set_order_def Let_def by (intro logs_intros; simp)

lemma payment_logs: "logs no_maker (run_payment c)"
  by (cases c; simp only: run_payment.simps; unfold payment_op_defs Let_def; intro logs_intros; simp)

lemma run_logs: "\<forall>x. c \<noteq> Settlement_op x \<Longrightarrow> logs no_maker (run c)"
  by (cases c)
     (simp_all add: void_simps deposit_logs mint_logs redemption_logs payment_logs loyalty_logs oversight_logs platform_logs leaves_logs
       leaves_mask [OF liability_frame] leaves_mask [OF reserve_frame] leaves_mask [OF flag_frame] masks)

interpretation ledger: invariant ledger_ok
  by unfold_locales
     (simp_all add: ledger_ok_def empty_state_def with_reference_def appends_ledger_ok [OF run_appends])

interpretation deposit_books: invariant deposits_inv
proof
  show "deposits_inv empty_state" by (simp add: deposits_inv_def in_step_def uniq_def empty_state_def)
  show "deposits_inv s \<Longrightarrow> deposits_inv (with_reference us ps as cs ks s)" for us ps as cs ks s
    by (simp add: deposits_inv_def in_step_def with_reference_def)
  show "keeps deposits_inv (run c)" for c
  proof (cases "\<exists>x. c = Deposits_op x")
    case False
    have "LIABILITY_UNMATCHED_DEPOSIT \<notin> run_accounts c"
      using False by (cases c) (simp_all add: run_accounts_def mint_accounts_def redemption_accounts_def
          payment_accounts_def settlement_accounts_def loyalty_accounts_def)
    moreover have "leaves deposits (run c)" using run_leaves(1) False by (auto simp: leaves_def)
    ultimately show ?thesis by (rule deposits_inv_foreign [OF run_appends])
  qed (auto simp: void_simps run_deposit_inv)
qed

interpretation mint_life: invariant mint_inv
proof
  show "mint_inv empty_state" by (simp add: mint_inv_def uniq_def empty_state_def)
  show "mint_inv s \<Longrightarrow> mint_inv (with_reference us ps as cs ks s)" for us ps as cs ks s
    using mint_inv_cong [of "with_reference us ps as cs ks s" s] by (simp add: with_reference_def)
  show "keeps mint_inv (run c)" for c
    by (cases "\<exists>x. c = Mint_op x") (elim exE, simp add: void_simps run_mint_inv, intro mint_inv_foreign run_leaves, blast)
qed

interpretation redemption_books: invariant redemptions_inv
proof
  show "redemptions_inv empty_state" by (simp add: redemptions_inv_def in_step_def uniq_def empty_state_def)
  show "redemptions_inv s \<Longrightarrow> redemptions_inv (with_reference us ps as cs ks s)" for us ps as cs ks s
    by (simp add: redemptions_inv_def in_step_def with_reference_def)
  show "keeps redemptions_inv (run c)" for c
  proof (cases "\<exists>x. c = Redemption_op x")
    case False
    then have "LIABILITY_PENDING_REDEMPTION \<notin> run_accounts c"
      by (cases c) (simp_all add: run_accounts_def mint_accounts_def deposit_accounts_def
          payment_accounts_def settlement_accounts_def loyalty_accounts_def)
    then show ?thesis using False by (auto intro!: redemptions_inv_foreign [OF run_appends] run_leaves)
  qed (auto simp: void_simps run_redemption_inv)
qed

interpretation supply_feed: invariant liabilities_inv
proof
  show "liabilities_inv empty_state" by (simp add: liabilities_inv_def uniq_def feed_def empty_state_def)
  show "liabilities_inv s \<Longrightarrow> liabilities_inv (with_reference us ps as cs ks s)" for us ps as cs ks s
    by (simp add: liabilities_inv_def feed_def with_reference_def)
  show "keeps liabilities_inv (run c)" for c
    by (cases "\<exists>x. c = Ingest x") (elim exE, simp add: void_simps ingest_inv, intro liabilities_inv_foreign run_leaves, blast)
qed

interpretation order_life: invariant orders_inv
proof
  show "orders_inv empty_state" by (simp add: orders_inv_def uniq_def one_order_each_def empty_state_def)
  show "orders_inv s \<Longrightarrow> orders_inv (with_reference us ps as cs ks s)" for us ps as cs ks s
    by (simp add: orders_inv_def with_reference_def)
  show "keeps orders_inv (run c)" for c
    by (cases "\<exists>x. c = Payment_op x")
       (elim exE, simp add: void_simps run_payment_inv, intro orders_inv_foreign run_leaves, blast)
qed

interpretation settlement_life: invariant settlements_inv
proof
  show "settlements_inv empty_state" by (simp add: settlements_inv_def uniq_def empty_state_def)
  show "settlements_inv s \<Longrightarrow> settlements_inv (with_reference us ps as cs ks s)" for us ps as cs ks s
    by (simp add: settlements_inv_def maker_of_def with_reference_def)
  show "keeps settlements_inv (run c)" for c
    by (cases "\<exists>x. c = Settlement_op x")
       (elim exE, simp add: void_simps run_settlement_inv, (intro settlements_inv_foreign run_leaves run_logs; blast))
qed

interpretation loyalty_books: invariant loyalty_inv
proof
  show "loyalty_inv empty_state" by (simp add: loyalty_inv_def uniq_def empty_state_def)
  show "loyalty_inv s \<Longrightarrow> loyalty_inv (with_reference us ps as cs ks s)" for us ps as cs ks s
    by (simp add: loyalty_inv_def with_reference_def)
  show "keeps loyalty_inv (run c)" for c
    by (cases "\<exists>x. c = Loyalty_op x")
       (elim exE, simp add: void_simps run_loyalty_inv, intro loyalty_inv_foreign run_leaves, blast)
qed

interpretation attestation_life: invariant att_inv
proof
  show "att_inv empty_state" by (simp add: att_inv_def uniq_def empty_state_def)
  show "att_inv s \<Longrightarrow> att_inv (with_reference us ps as cs ks s)" for us ps as cs ks s
    by (simp add: att_inv_def with_reference_def)
  show "keeps att_inv (run c)" for c
    by (cases "\<exists>x. c = Oversight_op x")
       (elim exE, simp add: void_simps run_oversight_inv, intro att_inv_foreign run_leaves, blast)
qed

section \<open>Invariants of orderly use\<close>

text \<open>
  Three ledger equations need a discipline the services do not enforce: no rejection of an
  issued authorization and no confirmation that cannot be stored (\<open>orderly_mint\<close>); loyalty
  operations that reach the ledger also reach the database (\<open>recorded_loyalty\<close>); fund releases
  that leave issued coin reserved (\<open>safe_funds\<close>).
\<close>

definition orderly_mint :: "env \<Rightarrow> st \<Rightarrow> command \<Rightarrow> bool" where
  "orderly_mint e s c = (case c of Mint_op m \<Rightarrow> mint_disciplined e s m | _ \<Rightarrow> True)"

definition recorded_loyalty :: "env \<Rightarrow> st \<Rightarrow> command \<Rightarrow> bool" where
  "recorded_loyalty e s c = (case c of Loyalty_op l \<Rightarrow> loyalty_recordable e s l | _ \<Rightarrow> True)"

definition safe_funds :: "env \<Rightarrow> st \<Rightarrow> command \<Rightarrow> bool" where
  "safe_funds e s c = (case c of Loyalty_op l \<Rightarrow> fund_disciplined s l | _ \<Rightarrow> True)"

interpretation pending_books: guarded_invariant orderly_mint pending_in_step
proof
  show "pending_in_step empty_state" by (simp add: in_step_def uniq_def empty_state_def)
  show "pending_in_step s \<Longrightarrow> pending_in_step (with_reference us ps as cs ks s)" for us ps as cs ks s
    by (simp add: in_step_def with_reference_def)
  fix s e c assume inv: "pending_in_step s" and ok: "orderly_mint e s c"
  show "pending_in_step (snd (run c e s))"
  proof (cases "\<exists>x. c = Mint_op x")
    case False
    then have "LIABILITY_PENDING_MINT \<notin> run_accounts c"
      by (cases c) (simp_all add: run_accounts_def redemption_accounts_def deposit_accounts_def
          payment_accounts_def settlement_accounts_def loyalty_accounts_def)
    moreover have "leaves mintAuths (run c)" using run_leaves(2) False by (auto simp: leaves_def)
    ultimately have "keeps pending_in_step (run c)" by (rule pending.step_foreign [OF run_appends])
    then show ?thesis using inv by (rule keepsD)
  qed (use inv ok in \<open>auto simp: snd_void orderly_mint_def run_mint_pending\<close>)
qed

text \<open>Merchant payable: collected payments and redeemed loyalty coin, less what was settled.\<close>

definition payable_gap :: "string \<Rightarrow> string \<Rightarrow> st \<Rightarrow> int" where
  "payable_gap scope cur s = liab LIABILITY_PAYKH_MERCHANT_PAYABLE scope cur (entries s)
     - (\<Sum>x\<leftarrow>orders s. collected_weight scope cur x) - (\<Sum>q\<leftarrow>loyRedemptions s. swapped_weight scope cur q)
     + (\<Sum>x\<leftarrow>settlements s. settled_weight scope cur x)"

definition paykh_books :: "st \<Rightarrow> bool" where
  "paykh_books s \<longleftrightarrow> (\<forall>scope cur. payable_gap scope cur s = 0 \<and> loyalty_gap scope cur s = 0 \<and> fund_gap scope cur s = 0)"

lemma gaps_foreign:
  assumes "LIABILITY_PAYKH_LOYALTY_STABLECOIN \<notin> run_accounts c" and "LIABILITY_PAYKH_PROGRAM_FUND \<notin> run_accounts c"
    and "\<forall>x. c \<noteq> Loyalty_op x"
  shows "loyalty_gap scope cur (snd (run c e s)) = loyalty_gap scope cur s"
    "fund_gap scope cur (snd (run c e s)) = fund_gap scope cur s"
  using leavesD [OF run_leaves(8) [OF assms(3)], of e s]
  by (simp_all add: gap_defs appends_balance [OF run_appends assms(1)] appends_balance [OF run_appends assms(2)])

lemma payable_gap_split:
  "payable_gap scope cur s = orders_gap scope cur s - (\<Sum>q\<leftarrow>loyRedemptions s. swapped_weight scope cur q)
     + (\<Sum>x\<leftarrow>settlements s. settled_weight scope cur x)"
  "payable_gap scope cur s = settlements_gap scope cur s - (\<Sum>q\<leftarrow>loyRedemptions s. swapped_weight scope cur q)
     - (\<Sum>x\<leftarrow>orders s. collected_weight scope cur x)"
  "payable_gap scope cur s = swap_gap scope cur s - (\<Sum>x\<leftarrow>orders s. collected_weight scope cur x)
     + (\<Sum>x\<leftarrow>settlements s. settled_weight scope cur x)"
  by (simp_all add: payable_gap_def orders_gap_def settlements_gap_def swap_gap_def)

lemma run_payable_gap:
  assumes "orders_inv s" and "settlements_inv s" and "loyalty_inv s" and "recorded_loyalty e s c"
  shows "payable_gap scope cur (snd (run c e s)) = payable_gap scope cur s"
proof (cases c)
  case (Payment_op x)
  then have "leaves settlements (run c)" "leaves (\<lambda>s. (funds s, loyalties s, loyIssuances s, loyRedemptions s)) (run c)"
    by (simp_all only: run_leaves command.distinct simp_thms)
  from this [THEN leavesD, of e s] Payment_op assms(1) show ?thesis
    by (simp add: payable_gap_split(1) snd_void run_payment_gap)
next
  case (Settlement_op x)
  then have "leaves orders (run c)" "leaves (\<lambda>s. (funds s, loyalties s, loyIssuances s, loyRedemptions s)) (run c)"
    by (simp_all only: run_leaves command.distinct simp_thms)
  from this [THEN leavesD, of e s] Settlement_op assms(2) show ?thesis
    by (simp add: payable_gap_split(2) snd_void run_settlement_gap)
next
  case (Loyalty_op x)
  then have "leaves orders (run c)" "leaves settlements (run c)"
    by (simp_all only: run_leaves command.distinct simp_thms)
  note fr = this [THEN leavesD, of e s]
  from run_loyalty_books [OF assms(3), of e x scope cur] assms(4) Loyalty_op
  have "swap_gap scope cur (snd (run c e s)) = swap_gap scope cur s"
    by (simp add: recorded_loyalty_def books_def snd_void)
  with fr show ?thesis by (simp add: payable_gap_split(3))
qed (use leavesD [OF run_leaves(6), of c e s] leavesD [OF run_leaves(7), of c e s] leavesD [OF run_leaves(8), of c e s]
      appends_balance [OF run_appends, of LIABILITY_PAYKH_MERCHANT_PAYABLE c]
      in \<open>simp_all add: payable_gap_def run_accounts_def redemption_accounts_def deposit_accounts_def mint_accounts_def del: run.simps\<close>)

interpretation paykh_ledger: guarded_invariant recorded_loyalty paykh_books
proof
  show "paykh_books empty_state" by (simp add: paykh_books_def payable_gap_def gap_defs empty_state_def)
  show "paykh_books s \<Longrightarrow> paykh_books (with_reference us ps as cs ks s)" for us ps as cs ks s
    by (simp add: paykh_books_def payable_gap_def gap_defs with_reference_def)
  fix s e c assume r: "reachable s" and inv: "paykh_books s" and ok: "recorded_loyalty e s c"
  note invs = order_life.in_reachable [OF r] settlement_life.in_reachable [OF r] loyalty_books.in_reachable [OF r]
  show "paykh_books (snd (run c e s))"
  proof (cases "\<exists>x. c = Loyalty_op x")
    case True
    then obtain x where x: "c = Loyalty_op x" by blast
    with ok have rec: "loyalty_recordable e s x" by (simp add: recorded_loyalty_def)
    from run_loyalty_books [OF invs(3) rec] x inv run_payable_gap [OF invs ok] show ?thesis
      by (simp add: paykh_books_def books_def snd_void)
  next
    case False
    then have "LIABILITY_PAYKH_LOYALTY_STABLECOIN \<notin> run_accounts c" "LIABILITY_PAYKH_PROGRAM_FUND \<notin> run_accounts c"
      by (cases c; simp add: run_accounts_def redemption_accounts_def deposit_accounts_def mint_accounts_def
          payment_accounts_def settlement_accounts_def)+
    from gaps_foreign [OF this] False inv run_payable_gap [OF invs ok] show ?thesis by (simp add: paykh_books_def)
  qed
qed

interpretation backing: guarded_invariant safe_funds backed_inv
proof
  show "backed_inv empty_state" by (simp add: backed_inv_def empty_state_def)
  show "backed_inv s \<Longrightarrow> backed_inv (with_reference us ps as cs ks s)" for us ps as cs ks s
    by (simp add: backed_inv_def with_reference_def)
  fix s e c assume r: "reachable s" and inv: "backed_inv s" and ok: "safe_funds e s c"
  show "backed_inv (snd (run c e s))"
  proof (cases "\<exists>x. c = Loyalty_op x")
    case False
    then have "leaves (\<lambda>s. (funds s, loyalties s, loyIssuances s, loyRedemptions s)) (run c)" by (intro run_leaves) blast
    with inv show ?thesis by (simp add: backed_inv_def leaves_def)
  qed (use inv ok loyalty_books.in_reachable [OF r] in \<open>auto simp: snd_void safe_funds_def run_loyalty_backed\<close>)
qed

end
