(* ===== verification/Scenario.thy ===== *)
theory Scenario
  imports System
begin

text \<open>
  Concrete runs of the platform: an environment with constant hash and signature
  primitives, reference data with one program and two bank users, and three scripts (a
  deposit that backs a mint and a redemption; a PayKH payment, settlement and loyalty
  coin; an attestation). The lemmas evaluate the states they end in, so that the
  properties can be applied to them.
\<close>

section \<open>Environment and reference data\<close>

definition demo_key :: SigningKey where
  "demo_key = \<lparr>sk_keyId = ''k'', sk_purpose = WEBHOOK, sk_privateKeyPem = ''p'', sk_publicKeyPem = ''q''\<rparr>"

definition demo_env :: "string \<Rightarrow> env" where
  "demo_env i = \<lparr>now = 0, newId = i, newId2 = i, randomUUID = ''U'', parseDate = (\<lambda>_. Some 0),
     sha256Hex = (\<lambda>_. ''h''), nodeSign = (\<lambda>_ _. ''s''), nodeVerify = (\<lambda>_ _ _. True),
     signingKeys = (\<lambda>_. demo_key), previousKeys = (\<lambda>_. []), paychainPublicKey = None, processEnv = (\<lambda>_. None),
     MAX_RESERVE_SNAPSHOT_AGE_S = 900, MAX_BANK_CONNECTIVITY_AGE_S = 300, MAX_LIABILITY_FEED_AGE_S = 900,
     MAX_PROOF_OF_RESERVE_AGE_S = None, MINT_AUTH_TTL_S = 900,
     getAccountBalance = (\<lambda>_ _ _. Inl (PlainError ''offline'')), paychainExecute = None, horizonSupply = None\<rparr>"

definition demo_user :: "string \<Rightarrow> User" where
  "demo_user i = \<lparr>u_id = i, u_email = i, u_displayName = i, u_institution = ''TRUSTEE_BANK'', u_roles = [], u_disabled = False\<rparr>"

definition demo_program :: Program where
  "demo_program = \<lparr>pg_id = ''P'', pg_code = ''P'', pg_issuerId = ''I'', pg_assetId = ''A'', pg_referenceCurrency = ''USD'',
     pg_requiredRatioBps = 10000, pg_safetyBufferBps = 200, pg_status = ProgramStatus.ACTIVE\<rparr>"

definition demo_account :: TrusteeAccount where
  "demo_account = \<lparr>ta_id = ''T'', ta_programId = ''P'', ta_maskedAccountNumber = ''1'', ta_coreBankingRef = ''c'',
     ta_accountName = ''n'', ta_bankLegalEntity = ''b'', ta_currency = ''USD'', ta_classification = ''R'',
     ta_supportedAssetId = ''A'', ta_status = AccountStatus.ACTIVE, ta_bankId = None, ta_mockClearedMinor = 0\<rparr>"

definition demo_base :: st where
  "demo_base = with_reference [demo_user ''m'', demo_user ''c''] [demo_program] [demo_account] [] [] empty_state"

lemma demo_base_reach: "reach G demo_base"
  unfolding demo_base_def by (intro reach.intros)

section \<open>A deposit, a mint and a redemption\<close>

definition demo_feed :: "string \<Rightarrow> string \<Rightarrow> LiabilitySnapshotInput" where
  "demo_feed n circ = \<lparr>lx_programId = ''P'', lx_assetId = ''A'', lx_assetCode = ''A'', lx_blockchainNetwork = ''n'',
     lx_issuerAccount = ''i'', lx_circulatingMinor = circ, lx_treasuryHeldMinor = ''0'', lx_lockedMinor = ''0'',
     lx_pendingMintMinor = ''0'', lx_pendingBurnMinor = ''0'', lx_pendingRedemptionMinor = ''0'',
     lx_confirmedBurnMinor = ''0'', lx_effectiveLiabilityMinor = circ, lx_currency = ''USD'', lx_ledgerReference = ''l'',
     lx_sourceVersion = ''1'', lx_sequence = n, lx_snapshotTimestamp = ''t'', lx_signature = None\<rparr>"

definition mint_script :: "(env \<times> command) list" where
  "mint_script =
    [(demo_env '''', Set_flag ''mint.authorization.enabled'' True ''x''),
     (demo_env ''f'', Deposits_op (CreateFunding \<lparr>cf_programId = ''P'', cf_paychainRequestId = ''r'', cf_assetId = ''A'',
        cf_depositor = ''d'', cf_expectedPayer = None, cf_beneficiaryAccountId = ''T'', cf_amountMinor = ''900'',
        cf_currency = ''USD'', cf_permittedMethod = ''w'', cf_ttlSeconds = None, cf_actor = ''m''\<rparr>)),
     (demo_env ''d'', Deposits_op (RegisterDepositCmd \<lparr>rg_programId = ''P'', rg_trusteeAccountId = ''T'',
        rg_bankTransactionId = ''b1'', rg_amountMinor = ''900'', rg_currency = ''USD'', rg_payerName = None,
        rg_paymentReference = None, rg_transactionDate = ''t'', rg_actor = ''m''\<rparr>)),
     (demo_env '''', Deposits_op (MatchDeposit ''d'' ''f'' ''m'')),
     (demo_env '''', Deposits_op (ClearDeposit ''d'' ''c'')),
     (demo_env ''l1'', Ingest (demo_feed ''1'' ''100'')),
     (demo_env ''a'', Mint_op (RequestMint \<lparr>rm_programId = ''P'', rm_paychainRequestId = ''q'', rm_amountMinor = ''500'',
        rm_fundingDepositIds = [''d''], rm_tenantId = None, rm_destination = None\<rparr>)),
     (demo_env ''p'', Mint_op (ReviewMint ''a'' ''m''))]"

definition redemption_script :: "(env \<times> command) list" where
  "redemption_script =
    [(demo_env ''k'', Mint_op (ConfirmMintCmd ''a'' \<lparr>cm_paychainTransactionId = ''x'', cm_blockchainTxHash = ''y'',
        cm_amountMinor = ''500'', cm_destination = ''z'', cm_ledgerHeight = None, cm_confirmedAt = ''t'',
        cm_paychainSignature = ''s'', cm_actor = ''m''\<rparr>)),
     (demo_env '''', Set_flag ''paychain.redemption.enabled'' True ''x''),
     (demo_env '''', Set_flag ''bank.payout.enabled'' True ''x''),
     (demo_env ''r'', Redemption_op (RequestRedemptionCmd \<lparr>rq_programId = ''P'', rq_paychainRedemptionId = ''q'',
        rq_amountMinor = ''80'', rq_beneficiaryName = ''n'', rq_beneficiaryAccountMasked = ''1'', rq_correlationId = None\<rparr>)),
     (demo_env '''', Redemption_op (ApproveRedemption ''r'' ''c'' ''ok'')),
     (demo_env '''', Redemption_op (ConfirmBurn ''r'' ''hash'' ''x'')),
     (demo_env '''', Redemption_op (SubmitPayout ''r'' ''m'')),
     (demo_env '''', Redemption_op (ConfirmPayout ''r'' ''m''))]"

definition reviewed_state :: st where
  "reviewed_state = run_all mint_script demo_base"

definition issued_state :: st where
  "issued_state = run_all [(demo_env '''', Mint_op (ApproveMint ''a'' ''c'' ''ok''))] reviewed_state"

definition redeemed_state :: st where
  "redeemed_state = run_all redemption_script issued_state"

lemma reviewed_state_reach: "reachable reviewed_state"
  unfolding reviewed_state_def by (rule reachable_run_all [OF demo_base_reach])

lemma issued_state_reach: "reachable issued_state"
  unfolding issued_state_def by (rule reachable_run_all [OF reviewed_state_reach])

lemma redeemed_state_reach: "reachable redeemed_state"
  unfolding redeemed_state_def by (rule reachable_run_all [OF issued_state_reach])

definition demo_facts :: "int \<Rightarrow> MintGuardFacts" where
  "demo_facts n = \<lparr>gf_requested = money_big n ''USD'', gf_capacityInput = \<lparr>mc_currency = ''USD'',
     mc_eligibleReserve = money_big 900 ''USD'', mc_existingReserveObligation = money_big 100 ''USD'',
     mc_requiredSafetyBuffer = money_big 2 ''USD'', mc_pendingMintAuthorizations = money_big 0 ''USD''\<rparr>,
     gf_reserveSnapshotAgeSeconds = 0, gf_maxReserveSnapshotAgeSeconds = 900, gf_bankConnectivityAgeSeconds = 0,
     gf_maxBankConnectivityAgeSeconds = 300, gf_liabilityFeedAgeSeconds = 0, gf_maxLiabilityFeedAgeSeconds = 900,
     gf_proofOfReserveAgeSeconds = None, gf_maxProofOfReserveAgeSeconds = None, gf_hasUnresolvedReconciliation = False,
     gf_complianceHoldActive = False, gf_assetMintingSuspended = False, gf_programSuspended = False,
     gf_accountRestricted = False, gf_fundingDepositsCleared = True, gf_makerCheckerComplete = True,
     gf_mintFeatureEnabled = True\<rparr>"

section \<open>Evaluation\<close>

lemma run_all_append: "run_all (cs @ ds) s = run_all ds (run_all cs s)"
  by (induction cs s rule: run_all.induct) simp_all

lemma demo_env_sel [simp]:
  "now (demo_env i) = 0" "newId (demo_env i) = i" "newId2 (demo_env i) = i" "randomUUID (demo_env i) = ''U''"
  "parseDate (demo_env i) = (\<lambda>_. Some 0)" "paychainPublicKey (demo_env i) = None"
  "MAX_RESERVE_SNAPSHOT_AGE_S (demo_env i) = 900" "MAX_BANK_CONNECTIVITY_AGE_S (demo_env i) = 300"
  "MAX_LIABILITY_FEED_AGE_S (demo_env i) = 900" "MAX_PROOF_OF_RESERVE_AGE_S (demo_env i) = None"
  "MINT_AUTH_TTL_S (demo_env i) = 900" "paychainExecute (demo_env i) = None" "horizonSupply (demo_env i) = None"
  by (simp_all add: demo_env_def)

lemma void_apply: "void m e s = bnd m (\<lambda>_. ret ()) e s"
  by (simp add: void_def)

lemma modify_apply: "modify f e s = (Inr (), f s)"
  by (simp add: modify_def)

lemmas demo_data = demo_base_def with_reference_def empty_state_def demo_program_def demo_account_def demo_user_def
  demo_feed_def

lemmas demo_values = BigInt_def trim_def is_white_def int_literal_def signed_decimal_def radix_of_def digits_def digit_val_def
  upper_char_def toUpperCase_def truthy_def date_of_def require_def find_row_Cons has_row_def set_row_def find_program_def
  isEnabled_def Let_def

lemmas demo_calls = run.simps prog_simps void_apply modify_apply set_flag_def

lemmas demo_deposits = deposit_op_defs new_deposit_def bookable_def deposit_clash_def

lemmas demo_feeds = ingest_def feed_trusted_def liability_row_def liability_clash_def

lemmas demo_position = position_value position_of_def pos_eligible_def pos_obligation_def pos_buffer_def pos_required_def
  pos_capacity_def circulating_def latestLiability_def adj_sum_def bal_def acc_net_transfer refs_of_def

lemmas demo_guard = gatherGuardFacts_def evaluateMintGuard_def mintCapacity_value mc_uniform_def amount_reasons_value push_if_def
  find_last_def control_on_def deposits_cleared_def MINT_ELIGIBLE_DEPOSIT_STATUSES_def lastCheckAgeSeconds_def ageSeconds_def
  por_expired_def

lemmas demo_mint = mint_op_defs new_auth_def auth_clash_def new_approval_def approval_clash_def find_approval_def
  issue_auth_def approve_with_def auth_expired_def confirmation_row_def conf_clash_def

lemmas demo_redemption = redemption_op_defs new_redemption_def redemption_clash_def


definition demo_deposit :: Deposit where
  "demo_deposit = \<lparr>dp_id = ''d'', dp_programId = ''P'', dp_fundingInstructionId = Some ''f'', dp_trusteeAccountId = ''T'',
     dp_bankTransactionId = ''b1'', dp_payerName = None, dp_amountMinor = 900, dp_currency = ''USD'',
     dp_paymentReference = None, dp_transactionDate = 0, dp_status = DepositStatus.CLEARED, dp_clearedAt = Some 0\<rparr>"

definition demo_auth :: MintAuthorization where
  "demo_auth = \<lparr>ma_id = ''a'', ma_programId = ''P'', ma_paychainRequestId = ''q'', ma_assetId = ''A'', ma_amountMinor = 500,
     ma_currency = ''USD'', ma_tenantId = None, ma_destination = None, ma_fundingDepositIds = [''d''],
     ma_status = MintAuthorizationStatus.PENDING_CHECKER, ma_nonce = ''U'', ma_signingKeyId = None, ma_signatureValue = None,
     ma_maxMintAmountMinor = 500, ma_singleUse = True, ma_issuedAt = None, ma_expiresAt = None\<rparr>"

definition demo_liability :: "string \<Rightarrow> int \<Rightarrow> int \<Rightarrow> LiabilitySnapshot" where
  "demo_liability i n circ = \<lparr>ls_id = i, ls_programId = ''P'', ls_assetId = ''A'', ls_assetCode = ''A'',
     ls_blockchainNetwork = ''n'', ls_issuerAccount = ''i'', ls_circulatingMinor = circ, ls_treasuryHeldMinor = 0,
     ls_lockedMinor = 0, ls_pendingMintMinor = 0, ls_pendingBurnMinor = 0, ls_pendingRedemptionMinor = 0,
     ls_confirmedBurnMinor = 0, ls_effectiveLiabilityMinor = circ, ls_currency = ''USD'', ls_ledgerReference = ''l'',
     ls_sourceVersion = ''1'', ls_sequence = n, ls_snapshotTimestamp = 0, ls_signatureKeyId = ''unsigned'',
     ls_signatureValue = [], ls_signatureVerified = True\<rparr>"

definition demo_entries :: "LedgerEntry list" where
  "demo_entries = [
     transfer_row ''Detected deposit booked as unmatched'' ASSET_TRUSTEE_BANK_CASH LIABILITY_UNMATCHED_DEPOSIT
       (money_big 900 ''USD'') (refs_of ''deposit:d'' ''P'' ''A'' ''m''),
     transfer_row ''Cleared deposit reclassified to reserve obligation'' LIABILITY_UNMATCHED_DEPOSIT
       LIABILITY_PAYCHAIN_RESERVE_OBLIGATION (money_big 900 ''USD'') (refs_of ''deposit-clear:d'' ''P'' ''A'' ''c'')]"

definition reviewed_form :: "FundingInstruction list \<Rightarrow> AuditLog list \<Rightarrow> OutboxEvent list \<Rightarrow> st" where
  "reviewed_form fs au ob = demo_base\<lparr>
     flags := [\<lparr>ff_key = ''mint.authorization.enabled'', ff_enabled = True, ff_updatedBy = Some ''x''\<rparr>],
     fundings := fs, deposits := [demo_deposit], entries := demo_entries, liabilities := [demo_liability ''l1'' 1 100],
     mintAuths := [demo_auth], approvals := [new_approval (demo_env ''p'') ''a'' ''m''], audits := au, outbox := ob\<rparr>"

lemma reviewed_value: "\<exists>fs au ob. reviewed_state = reviewed_form fs au ob"
  by (simp add: reviewed_state_def mint_script_def demo_data demo_calls demo_values demo_deposits demo_feeds demo_mint
      demo_deposit_def demo_auth_def demo_liability_def demo_entries_def reviewed_form_def)

lemma reviewed_form_sel:
  "users (reviewed_form fs au ob) = [demo_user ''m'', demo_user ''c'']" "programs (reviewed_form fs au ob) = [demo_program]"
  "accounts (reviewed_form fs au ob) = [demo_account]" "controls (reviewed_form fs au ob) = []"
  "adjustments (reviewed_form fs au ob) = []" "snapshots (reviewed_form fs au ob) = []"
  "reconRuns (reviewed_form fs au ob) = []" "lastSuccessfulCheck (reviewed_form fs au ob) = None"
  "flags (reviewed_form fs au ob) = [\<lparr>ff_key = ''mint.authorization.enabled'', ff_enabled = True, ff_updatedBy = Some ''x''\<rparr>]"
  "deposits (reviewed_form fs au ob) = [demo_deposit]" "entries (reviewed_form fs au ob) = demo_entries"
  "liabilities (reviewed_form fs au ob) = [demo_liability ''l1'' 1 100]" "mintAuths (reviewed_form fs au ob) = [demo_auth]"
  "approvals (reviewed_form fs au ob) = [new_approval (demo_env ''p'') ''a'' ''m'']"
  "mintConfs (reviewed_form fs au ob) = []" "redemptions (reviewed_form fs au ob) = []"
  by (simp_all add: reviewed_form_def demo_base_def with_reference_def empty_state_def)

lemma reviewed_fields:
  "users reviewed_state = [demo_user ''m'', demo_user ''c'']" "programs reviewed_state = [demo_program]"
  "accounts reviewed_state = [demo_account]" "controls reviewed_state = []" "adjustments reviewed_state = []"
  "snapshots reviewed_state = []" "reconRuns reviewed_state = []" "lastSuccessfulCheck reviewed_state = None"
  "flags reviewed_state = [\<lparr>ff_key = ''mint.authorization.enabled'', ff_enabled = True, ff_updatedBy = Some ''x''\<rparr>]"
  "deposits reviewed_state = [demo_deposit]" "entries reviewed_state = demo_entries"
  "liabilities reviewed_state = [demo_liability ''l1'' 1 100]" "mintAuths reviewed_state = [demo_auth]"
  "approvals reviewed_state = [new_approval (demo_env ''p'') ''a'' ''m'']"
  "mintConfs reviewed_state = []" "redemptions reviewed_state = []"
  using reviewed_value reviewed_form_sel by metis+

text \<open>The position the guard sees: 900 in the bank, 100 circulating with a buffer of 2, so 798 can be minted.\<close>

lemma demo_entries_bal:
  "cash ''P'' ''USD'' demo_entries = 900" "liab LIABILITY_UNMATCHED_DEPOSIT ''P'' ''USD'' demo_entries = 0"
  "liab LIABILITY_PENDING_MINT ''P'' ''USD'' demo_entries = 0" "liab LIABILITY_PENDING_REDEMPTION ''P'' ''USD'' demo_entries = 0"
  by (simp_all add: demo_entries_def bal_def acc_net_def ledger_posting_def debit_def credit_def refs_of_def
      toUpperCase_def upper_char_def)

lemma reviewed_capacity: "pos_capacity reviewed_state demo_program = 798"
  by (simp add: pos_capacity_def pos_eligible_def pos_obligation_def pos_buffer_def circulating_def latestLiability_def
      adj_sum_def reviewed_fields demo_program_def demo_entries_bal demo_liability_def sdiv_nonneg)

lemma reviewed_guard:
  "\<exists>f d. gatherGuardFacts (demo_env i) reviewed_state ''a'' True = Inr f \<and> evaluateMintGuard f = Inr d
     \<and> gd_allowed d \<and> gd_capacity d = money_big 798 ''USD''"
  using reviewed_capacity
  by (simp add: gatherGuardFacts_def require_def find_row_Cons find_program_def reviewed_fields demo_auth_def position_value
      position_of_def evaluateMintGuard_def mintCapacity_value mc_uniform_def amount_reasons_value push_if_def find_last_def
      control_on_def deposits_cleared_def MINT_ELIGIBLE_DEPOSIT_STATUSES_def lastCheckAgeSeconds_def ageSeconds_def
      por_expired_def latestLiability_def demo_liability_def demo_program_def demo_account_def demo_deposit_def isEnabled_def
      Let_def)

lemma approve_value:
  "\<exists>sig v au ob. mint_approve ''a'' ''c'' ''ok'' (demo_env '''') reviewed_state = (Inr v, reviewed_state\<lparr>
     entries := demo_entries @ [reservation_row demo_auth ''c'' ''p''], mintAuths := [issue_auth 0 900000 sig demo_auth],
     approvals := [approve_with 0 ''c'' ApprovalDecision.APPROVED ''ok'' (new_approval (demo_env ''p'') ''a'' ''m'')],
     audits := au, outbox := ob\<rparr>)"
proof -
  from reviewed_guard [of "''''"] obtain f d where g: "gatherGuardFacts (demo_env '''') reviewed_state ''a'' True = Inr f"
    "evaluateMintGuard f = Inr d" "gd_allowed d" by blast
  then show ?thesis
    by (simp add: mint_approve_def mint_issue_def requireAuth_def set_auth_def set_approval_def prog_simps reviewed_fields
        find_row_Cons find_approval_def set_row_def has_row_def demo_auth_def demo_user_def new_approval_def reservation_row_def
        Let_def) ((rule exI)+, rule refl)
qed

lemma issued_fields:
  "flags issued_state = flags reviewed_state" "programs issued_state = [demo_program]" "users issued_state = users reviewed_state"
  "mintConfs issued_state = []" "redemptions issued_state = []" "liabilities issued_state = liabilities reviewed_state"
  "\<exists>sig. mintAuths issued_state = [issue_auth 0 900000 sig demo_auth]"
  "approvals issued_state = [approve_with 0 ''c'' ApprovalDecision.APPROVED ''ok'' (new_approval (demo_env ''p'') ''a'' ''m'')]"
  "entries issued_state = demo_entries @ [reservation_row demo_auth ''c'' ''p'']"
  using approve_value by (auto simp: issued_state_def snd_void reviewed_fields)

lemma redeemed_value:
  "map (\<lambda>a. (ma_id a, ma_status a)) (mintAuths redeemed_state) = [(''a'', MintAuthorizationStatus.CONSUMED)]"
  "map (\<lambda>r. (rd_id r, rd_status r)) (redemptions redeemed_state) = [(''r'', RedemptionStatus.COMPLETED)]"
proof -
  from issued_fields(7) obtain sig where "mintAuths issued_state = [issue_auth 0 900000 sig demo_auth]" by blast
  note issued = issued_fields(1-6,8,9) this reviewed_fields
  show "map (\<lambda>a. (ma_id a, ma_status a)) (mintAuths redeemed_state) = [(''a'', MintAuthorizationStatus.CONSUMED)]"
    "map (\<lambda>r. (rd_id r, rd_status r)) (redemptions redeemed_state) = [(''r'', RedemptionStatus.COMPLETED)]"
    by (simp_all add: redeemed_state_def redemption_script_def issued demo_calls demo_values demo_mint demo_redemption
        demo_auth_def demo_program_def demo_user_def release_entry_def refs_of_def)
qed

text \<open>The redemption halfway: requested, with the payout flag on.\<close>

definition waiting_state :: st where
  "waiting_state = run_all (take 4 redemption_script) issued_state"

lemma waiting_state_reach: "reachable waiting_state"
  unfolding waiting_state_def by (rule reachable_run_all [OF issued_state_reach])

lemma waiting_redeemed:
  "redeemed_state = run_all [(demo_env '''', Redemption_op (ApproveRedemption ''r'' ''c'' ''ok'')),
     (demo_env '''', Redemption_op (ConfirmBurn ''r'' ''hash'' ''x'')), (demo_env '''', Redemption_op (SubmitPayout ''r'' ''m'')),
     (demo_env '''', Redemption_op (ConfirmPayout ''r'' ''m''))] waiting_state"
  by (simp add: redeemed_state_def waiting_state_def redemption_script_def)

lemma waiting_fields:
  "users waiting_state = [demo_user ''m'', demo_user ''c'']" "isEnabled ''bank.payout.enabled'' waiting_state"
  "\<exists>q. redemptions waiting_state = [q] \<and> rd_id q = ''r'' \<and> rd_status q = RedemptionStatus.AWAITING_APPROVAL"
proof -
  from issued_fields(7) obtain sig where "mintAuths issued_state = [issue_auth 0 900000 sig demo_auth]" by blast
  note issued = issued_fields(1-6,8,9) this reviewed_fields
  show "users waiting_state = [demo_user ''m'', demo_user ''c'']" "isEnabled ''bank.payout.enabled'' waiting_state"
    "\<exists>q. redemptions waiting_state = [q] \<and> rd_id q = ''r'' \<and> rd_status q = RedemptionStatus.AWAITING_APPROVAL"
    by (simp_all add: waiting_state_def redemption_script_def issued demo_calls demo_values demo_mint demo_redemption
        demo_auth_def demo_program_def demo_user_def release_entry_def refs_of_def)
qed

section \<open>Payments, settlements, loyalty coin and an attestation\<close>

definition paykh_script :: "(env \<times> command) list" where
  "paykh_script =
    [(demo_env ''p'', Payment_op (SubmitProfile \<lparr>sp_tenantId = ''N'', sp_recipientName = ''n'', sp_recipientAccountMasked = ''1'',
        sp_bankName = ''b'', sp_currency = ''USD'', sp_khqrPayload = ''k'', sp_actor = ''m''\<rparr>)),
     (demo_env '''', Payment_op (VerifyProfile ''p'' ''c'')),
     (demo_env '''', Payment_op (ActivateProfile ''p'' ''c'')),
     (demo_env ''o'', Payment_op (CreateOrder \<lparr>co_tenantId = ''N'', co_profileId = ''p'', co_amountMinor = ''70'',
        co_currency = ''USD'', co_ttlSeconds = None, co_actor = ''m''\<rparr>)),
     (demo_env '''', Payment_op (CheckPayment ''o'' \<lparr>cp_bankTransactionId = ''b'', cp_amountMinor = ''70'', cp_currency = ''USD'',
        cp_paymentReference = ''KHQR-U'', cp_recipientAccountMasked = ''1'', cp_reserveAccountId = ''T'', cp_actor = ''m''\<rparr>)),
     (demo_env ''M'', Settlement_op (RegisterMerchant \<lparr>mr_tenantId = ''N'', mr_merchantCode = ''C'', mr_legalName = ''l'',
        mr_country = None, mr_paykhMerchantRef = None, mr_kycStatus = Some ''VERIFIED'', mr_status = None,
        mr_riskLevel = None, mr_actor = ''x''\<rparr>)),
     (demo_env ''S'', Settlement_op (CreateSettlementCmd \<lparr>cs_tenantId = ''N'', cs_merchantId = ''M'', cs_amountMinor = ''30'',
        cs_currency = ''USD'', cs_actor = ''m''\<rparr>)),
     (demo_env '''', Settlement_op (ApproveSettlement ''S'' ''c'')),
     (demo_env '''', Settlement_op (ConfirmSettlement ''S'' ''c''))]"

definition loyalty_script :: "(env \<times> command) list" where
  "loyalty_script =
    [(demo_env '''', Set_flag ''paykh.loyalty.enabled'' True ''x''),
     (demo_env ''F'', Loyalty_op (CreateFund \<lparr>cg_tenantId = ''N'', cg_paykhProgramId = ''G'',
        cg_classification = ''BACKED_LOYALTY_STABLECOIN'', cg_currency = ''USD'', cg_reserveAccountId = ''T'', cg_actor = ''m''\<rparr>)),
     (demo_env '''', Loyalty_op (FundFund ''F'' ''100'' ''m'')),
     (demo_env ''L'', Loyalty_op (BindLoyalty \<lparr>bl_programFundId = ''F'', bl_decimals = None, bl_denominationMinor = None,
        bl_stellarAssetCode = None, bl_stellarIssuer = None, bl_stellarDistributor = None, bl_actor = ''m''\<rparr>)),
     (demo_env ''i'', Loyalty_op (IssueLoyalty \<lparr>il_liabilityId = ''L'', il_customerRef = ''c'', il_amountMinor = Some ''60'',
        il_units = None, il_actor = ''m''\<rparr>)),
     (demo_env ''j'', Loyalty_op (RedeemLoyalty \<lparr>rl_liabilityId = ''L'', rl_merchantId = ''M'', rl_customerRef = ''c'',
        rl_amountMinor = Some ''20'', rl_units = None, rl_actor = ''m''\<rparr>))]"

definition attestation_script :: "(env \<times> command) list" where
  "attestation_script =
    [(demo_env ''t'', Oversight_op (CreateAttestationCmd \<lparr>ca_programId = None, ca_period = ''q'', ca_scope = ''s'',
        ca_methodology = None, ca_reserveAmountMinor = None, ca_liabilityAmountMinor = None, ca_currency = None,
        ca_opinion = None, ca_auditor = ''a'', ca_documentHash = None, ca_actor = ''m''\<rparr>)),
     (demo_env '''', Oversight_op (TransitionAttestation ''t'' ''UNDER_REVIEW'' ''m'')),
     (demo_env '''', Oversight_op (TransitionAttestation ''t'' ''APPROVED'' ''c'')),
     (demo_env '''', Oversight_op (TransitionAttestation ''t'' ''PUBLISHED'' ''c''))]"

definition settled_state :: st where
  "settled_state = run_all paykh_script demo_base"

definition loyal_state :: st where
  "loyal_state = run_all loyalty_script settled_state"

definition attested_state :: st where
  "attested_state = run_all attestation_script demo_base"

lemma demo_states_reach: "reachable settled_state" "reachable loyal_state" "reachable attested_state"
  unfolding settled_state_def loyal_state_def attested_state_def
  by (intro reachable_run_all demo_base_reach)+

lemmas demo_payments = payment_op_defs new_order_def order_clash_def match_order_def confirm_order_def mismatch_list_def
  order_refs_def

lemmas demo_settlements = settlement_op_defs new_merchant_def reported_def or_else_def merchant_key_def new_settlement_def
  maker_log_def is_maker_log_def

lemmas demo_loyalty = loyalty_op_defs new_fund_def fund_clash_def new_loyalty_def loyalty_clash_def resolveAmount_def
  authorizeOnChain_def issue_tx_def redeem_tx_def issuance_row_def loyalty_redemption_row_def asset_ref_def fiat_backed_def
  backingPolicyFor_def classification_of_def all_classifications_def policy_def

lemmas demo_oversight = oversight_op_defs allowed_def bigint_opt_def

definition demo_settlement :: PaykhSettlement where
  "demo_settlement = \<lparr>sm_id = ''S'', sm_tenantId = ''N'', sm_merchantId = ''M'', sm_amountMinor = 30, sm_currency = ''USD'',
     sm_status = SettlementStatus.CONFIRMED, sm_approvedById = Some ''c'', sm_confirmedAt = Some 0\<rparr>"

definition settled_form :: "PaykhPaymentProfile list \<Rightarrow> PaykhPaymentOrder \<Rightarrow> PaykhMerchant \<Rightarrow> LedgerEntry list \<Rightarrow> AuditLog list
    \<Rightarrow> OutboxEvent list \<Rightarrow> st" where
  "settled_form ps x m es au ob = demo_base\<lparr>profiles := ps, orders := [x], entries := es, merchants := [m],
     settlements := [demo_settlement],
     audits := au, outbox := ob\<rparr>"

lemma settled_value:
  "\<exists>ps x m es au ob. settled_state = settled_form ps x m es au ob \<and> po_id x = ''o'' \<and> po_tenantId x = ''N'' \<and> po_amountMinor x = 70
     \<and> po_currency x = ''USD'' \<and> po_status x = PaymentOrderStatus.CONFIRMED \<and> po_matchedBankTransactionId x = Some ''b''
     \<and> me_id m = ''M'' \<and> me_status m = ''ACTIVE'' \<and> me_kycStatus m = ''VERIFIED''"
  by (simp add: settled_state_def paykh_script_def demo_data demo_calls demo_values demo_payments demo_settlements settled_form_def demo_settlement_def)

lemma settled_form_sel:
  "funds (settled_form ps x m es au ob) = []" "loyalties (settled_form ps x m es au ob) = []"
  "loyIssuances (settled_form ps x m es au ob) = []" "loyRedemptions (settled_form ps x m es au ob) = []"
  "flags (settled_form ps x m es au ob) = []" "settlements (settled_form ps x m es au ob) = [demo_settlement]"
  "reconRuns (settled_form ps x m es au ob) = []"
  "orders (settled_form ps x m es au ob) = [x]" "merchants (settled_form ps x m es au ob) = [m]"
  by (simp_all add: settled_form_def demo_base_def with_reference_def empty_state_def)

lemma settled_fields:
  "funds settled_state = []" "loyalties settled_state = []" "loyIssuances settled_state = []" "loyRedemptions settled_state = []"
  "flags settled_state = []" "settlements settled_state = [demo_settlement]" "reconRuns settled_state = []"
  using settled_value settled_form_sel by metis+

lemma settled_rows:
  "\<exists>x. orders settled_state = [x] \<and> po_id x = ''o'' \<and> po_tenantId x = ''N'' \<and> po_amountMinor x = 70
     \<and> po_currency x = ''USD'' \<and> po_status x = PaymentOrderStatus.CONFIRMED \<and> po_matchedBankTransactionId x = Some ''b''"
  "\<exists>m. merchants settled_state = [m] \<and> me_id m = ''M'' \<and> me_status m = ''ACTIVE'' \<and> me_kycStatus m = ''VERIFIED''"
  using settled_value settled_form_sel(8,9) by metis+

lemma guarded_always: "(\<And>e c s. (e, c) \<in> set cs \<Longrightarrow> G e s c) \<Longrightarrow> guarded G cs s"
  by (induction cs s rule: run_all.induct) auto

lemma demo_scripts_guarded:
  "guarded orderly_mint mint_script s" "guarded recorded_loyalty paykh_script s" "guarded safe_funds (paykh_script @ loyalty_script) s"
  by (rule guarded_always, auto simp: mint_script_def paykh_script_def loyalty_script_def orderly_mint_def
      recorded_loyalty_def safe_funds_def)+

lemma loyal_value:
  "map (\<lambda>l. (ll_id l, ll_outstandingMinor l, ll_issuedTotalMinor l)) (loyalties loyal_state) = [(''L'', 40, 60)]"
  "map (\<lambda>f. (pf_id f, pf_fundedMinor f, pf_reservedMinor f)) (funds loyal_state) = [(''F'', 100, 60)]"
  "map (\<lambda>q. (lr_id q, lr_tenantId q, lr_amountMinor q)) (loyRedemptions loyal_state) = [(''j'', ''N'', 20)]"
  "guarded recorded_loyalty loyalty_script settled_state"
proof -
  from settled_rows(2) obtain m where "merchants settled_state = [m]" "me_id m = ''M''" "me_status m = ''ACTIVE''"
    "me_kycStatus m = ''VERIFIED''" by blast
  note settled = settled_fields(1-5) this
  show "map (\<lambda>l. (ll_id l, ll_outstandingMinor l, ll_issuedTotalMinor l)) (loyalties loyal_state) = [(''L'', 40, 60)]"
    "map (\<lambda>f. (pf_id f, pf_fundedMinor f, pf_reservedMinor f)) (funds loyal_state) = [(''F'', 100, 60)]"
    "map (\<lambda>q. (lr_id q, lr_tenantId q, lr_amountMinor q)) (loyRedemptions loyal_state) = [(''j'', ''N'', 20)]"
    "guarded recorded_loyalty loyalty_script settled_state"
    by (simp_all add: loyal_state_def loyalty_script_def demo_calls demo_values demo_loyalty settled postable_def
        recorded_loyalty_def issue_recorded_def redeem_recorded_def)
qed

lemma attested_value:
  "map (\<lambda>a. (at_id a, at_status a)) (attestations attested_state) = [(''t'', ''PUBLISHED'')]"
  by (simp add: attested_state_def attestation_script_def demo_data demo_calls demo_values demo_oversight)

end
