(* ===== verification/Totp.thy ===== *)
theory Totp
  imports Js_Values "HOL-Library.Word"
begin

text \<open>
  \<open>packages/cryptography/src/totp.ts\<close>: one-time passwords. JavaScript's bitwise operators
  work on 32-bit values, so the accumulators of the base32 codec are \<open>32 word\<close>s that the
  shifts run over; HMAC-SHA1 is a parameter. The lemmas show that decoding inverts encoding
  (the bits shifted out of the accumulator are never needed), that a code has six digits,
  and that a code is accepted up to one step of clock skew.
\<close>

unbundle bit_operations_syntax

section \<open>Base32\<close>

definition B32 :: string where
  "B32 = ''ABCDEFGHIJKLMNOPQRSTUVWXYZ234567''"

text \<open>The inner loop \<open>while (bits >= 5)\<close> emits the top five of the pending bits.\<close>

fun b32_drain :: "32 word \<Rightarrow> nat \<Rightarrow> string \<Rightarrow> nat \<times> string" where
  "b32_drain value bits out =
     (if 5 \<le> bits then b32_drain value (bits - 5) (out @ [B32 ! unat (drop_bit (bits - 5) value AND 31)]) else (bits, out))"

declare b32_drain.simps [simp del]

fun b32_encode_loop :: "8 word list \<Rightarrow> nat \<Rightarrow> 32 word \<Rightarrow> string \<Rightarrow> string" where
  "b32_encode_loop [] bits value out =
     (if 0 < bits then out @ [B32 ! unat (push_bit (5 - bits) value AND 31)] else out)"
| "b32_encode_loop (b # bs) bits value out =
     (let value' = push_bit 8 value OR ucast b; (bits', out') = b32_drain value' (bits + 8) out
      in b32_encode_loop bs bits' value' out')"

definition base32Encode :: "8 word list \<Rightarrow> string" where
  "base32Encode buf = b32_encode_loop buf 0 0 []"

text \<open>\<open>indexOf\<close>, with \<open>None\<close> for -1.\<close>

fun index_of :: "char \<Rightarrow> string \<Rightarrow> nat option" where
  "index_of c [] = None"
| "index_of c (d # ds) = (if c = d then Some 0 else map_option Suc (index_of c ds))"

fun b32_decode_loop :: "string \<Rightarrow> nat \<Rightarrow> 32 word \<Rightarrow> 8 word list \<Rightarrow> 8 word list" where
  "b32_decode_loop [] bits value out = out"
| "b32_decode_loop (c # cs) bits value out = (case index_of c B32 of
       None \<Rightarrow> b32_decode_loop cs bits value out
     | Some i \<Rightarrow> (let value' = push_bit 5 value OR of_nat i; bits' = bits + 5 in
         if 8 \<le> bits' then b32_decode_loop cs (bits' - 8) value' (out @ [ucast (drop_bit (bits' - 8) value' AND 255)])
         else b32_decode_loop cs bits' value' out))"

definition base32Decode :: "string \<Rightarrow> 8 word list" where
  "base32Decode s = b32_decode_loop (toUpperCase (rev (dropWhile (\<lambda>c. c = CHR ''='') (rev s)))) 0 0 []"

section \<open>Codes\<close>

text \<open>
  \<open>undefined & m\<close> is 0, so a byte read outside the digest counts as 0. The counter is the
  number of whole 30-second steps; \<open>writeBigUInt64BE\<close> raises when it is out of range.
\<close>

definition byte_at :: "8 word list \<Rightarrow> nat \<Rightarrow> 32 word" where
  "byte_at bs i = (if i < length bs then ucast (bs ! i) else 0)"

definition uint64_be :: "int \<Rightarrow> 8 word list res" where
  "uint64_be n = (if 0 \<le> n \<and> n < 2 ^ 64 then Inr (map (\<lambda>k. word_of_int (drop_bit (8 * (7 - k)) n)) [0..<8])
     else Inl (PlainError ''ERR_OUT_OF_RANGE''))"

definition padStart :: "nat \<Rightarrow> char \<Rightarrow> string \<Rightarrow> string" where
  "padStart n c s = replicate (n - length s) c @ s"

definition totpCode :: "(8 word list \<Rightarrow> 8 word list \<Rightarrow> 8 word list) \<Rightarrow> string \<Rightarrow> int \<Rightarrow> string res" where
  "totpCode hmacSha1 secret forTime =
     bind_r (uint64_be (forTime div 30000)) (\<lambda>buf.
     let hmac = hmacSha1 (base32Decode secret) buf;
         offset = unat (byte_at hmac (length hmac - 1) AND 0xf);
         bin = push_bit 24 (byte_at hmac offset AND 0x7f) OR push_bit 16 (byte_at hmac (offset + 1) AND 0xff)
           OR push_bit 8 (byte_at hmac (offset + 2) AND 0xff) OR (byte_at hmac (offset + 3) AND 0xff)
     in Inr (padStart 6 (CHR ''0'') (nat_str (unat bin mod 1000000))))"

fun totp_try :: "(8 word list \<Rightarrow> 8 word list \<Rightarrow> 8 word list) \<Rightarrow> string \<Rightarrow> string \<Rightarrow> int \<Rightarrow> int list \<Rightarrow> bool res" where
  "totp_try h secret c nowMs [] = Inr False"
| "totp_try h secret c nowMs (drift # ds) = bind_r (totpCode h secret (nowMs + drift * 30000)) (\<lambda>code.
     if code = c then Inr True else totp_try h secret c nowMs ds)"

definition verifyTotp :: "(8 word list \<Rightarrow> 8 word list \<Rightarrow> 8 word list) \<Rightarrow> string \<Rightarrow> string \<Rightarrow> int \<Rightarrow> bool res" where
  "verifyTotp h secret code nowMs = totp_try h secret (trim code) nowMs [-1, 0, 1]"

section \<open>The codec on bits\<close>

text \<open>The low \<open>n\<close> bits of a word, most significant first.\<close>

definition lowbits :: "nat \<Rightarrow> 'a::len word \<Rightarrow> bool list" where
  "lowbits n v = map (bit v) (rev [0..<n])"

lemma lowbits_length [simp]: "length (lowbits n v) = n"
  by (simp add: lowbits_def)

lemma lowbits_0 [simp]: "lowbits 0 v = []"
  by (simp add: lowbits_def)

lemma rev_upt_add: "rev [0..<m + k] = map ((+) m) (rev [0..<k]) @ rev [0..<m]"
proof -
  have "[0..<m + k] = [0..<m] @ [m..<m + k]" by (rule upt_add_eq_append) simp
  moreover have "[m..<m + k] = map ((+) m) [0..<k]" by (induction k) simp_all
  ultimately show ?thesis by (simp add: rev_map)
qed

lemma lowbits_add: "lowbits (m + k) v = lowbits k (drop_bit m v) @ lowbits m v"
  by (simp add: lowbits_def rev_upt_add bit_drop_bit_eq comp_def)

lemma lowbits_cong: "(\<And>i. i < n \<Longrightarrow> bit v i = bit w i) \<Longrightarrow> lowbits n v = lowbits n w"
  by (auto simp: lowbits_def)

lemma lowbits_map_bit: "lowbits n v = lowbits n w \<Longrightarrow> i < n \<Longrightarrow> bit v i = bit w i"
  by (auto simp: lowbits_def)

text \<open>Shifting new bits in keeps the pending ones in front of them.\<close>

lemma lowbits_shift:
  fixes v :: "32 word"
  assumes "n + m \<le> 32" and "\<And>i. bit w i \<Longrightarrow> i < m"
  shows "lowbits (m + n) (push_bit m v OR w) = lowbits n v @ lowbits m w"
proof -
  have "lowbits n (drop_bit m (push_bit m v OR w)) = lowbits n v"
    using assms(1) by (intro lowbits_cong) (auto simp: bit_simps dest: assms(2))
  moreover have "lowbits m (push_bit m v OR w) = lowbits m w"
    by (intro lowbits_cong) (auto simp: bit_simps)
  ultimately show ?thesis by (simp add: lowbits_add)
qed

lemma bit_mask_num: "bit (31 :: 32 word) i \<longleftrightarrow> i < 5" "bit (255 :: 32 word) i \<longleftrightarrow> i < 8"
proof -
  have "(31 :: 32 word) = mask 5" "(255 :: 32 word) = mask 8" by (simp_all add: mask_eq_exp_minus_1)
  then show "bit (31 :: 32 word) i \<longleftrightarrow> i < 5" "bit (255 :: 32 word) i \<longleftrightarrow> i < 8"
    by (simp_all only: bit_mask_iff) auto
qed

lemma lowbits_masked: "lowbits 5 (v AND (31 :: 32 word)) = lowbits 5 v" "lowbits 8 (v AND (255 :: 32 word)) = lowbits 8 v"
  by (intro lowbits_cong; simp only: bit_and_iff bit_mask_num simp_thms)+

lemma lowbits_byte: "lowbits 8 (ucast (b :: 8 word) :: 32 word) = lowbits 8 b" "lowbits 8 (ucast (v :: 32 word) :: 8 word) = lowbits 8 v"
  by (intro lowbits_cong; simp add: bit_simps)+

lemma lowbits_byte_inj: "lowbits 8 (a :: 8 word) = lowbits 8 b \<Longrightarrow> a = b"
  by (rule bit_word_eqI, rule lowbits_map_bit) simp_all

section \<open>Decoding inverts encoding\<close>

text \<open>The value of a symbol, and the bits of a text.\<close>

definition sym :: "char \<Rightarrow> 32 word" where
  "sym c = (case index_of c B32 of None \<Rightarrow> 0 | Some i \<Rightarrow> of_nat i)"

definition text_bits :: "string \<Rightarrow> bool list" where
  "text_bits s = concat (map (\<lambda>c. lowbits 5 (sym c)) s)"

definition byte_bits :: "8 word list \<Rightarrow> bool list" where
  "byte_bits bs = concat (map (lowbits 8) bs)"

lemma text_bits_append [simp]: "text_bits (s @ t) = text_bits s @ text_bits t"
  by (simp add: text_bits_def)

lemma byte_bits_append [simp]: "byte_bits (s @ t) = byte_bits s @ byte_bits t"
  by (simp add: byte_bits_def)

lemma bits_Cons [simp]: "text_bits (c # s) = lowbits 5 (sym c) @ text_bits s" "text_bits [] = []"
  "byte_bits (b # bs) = lowbits 8 b @ byte_bits bs" "byte_bits [] = []"
  by (simp_all add: text_bits_def byte_bits_def)

lemma byte_bits_length: "length (byte_bits bs) = 8 * length bs"
  by (induction bs) simp_all

lemma index_B32: "n < 32 \<Longrightarrow> index_of (B32 ! n) B32 = Some n"
proof -
  have "list_all (\<lambda>n. index_of (B32 ! n) B32 = Some n) [0..<32]" by code_simp
  then show "n < 32 \<Longrightarrow> index_of (B32 ! n) B32 = Some n" by (simp add: list_all_iff)
qed

lemma masked_less: "unat (v AND (31 :: 32 word)) < 32"
proof -
  have "unat (v AND (31 :: 32 word)) \<le> unat (31 :: 32 word)"
    by (rule word_and_le1 [THEN word_le_nat_alt [THEN iffD1]])
  then show ?thesis by simp
qed

lemma sym_masked [simp]: "sym (B32 ! unat (v AND 31)) = v AND 31"
  using index_B32 [OF masked_less [of v]] by (simp add: sym_def)

lemma drain_bits:
  "b32_drain v bits out = (bits', out') \<Longrightarrow>
   bits' < 5 \<and> text_bits out' @ lowbits bits' v = text_bits out @ lowbits bits v
     \<and> (\<forall>c \<in> set out'. c \<in> set out \<or> (\<exists>n < 32. c = B32 ! n))"
proof (induction v bits out rule: b32_drain.induct)
  case (1 v bits out)
  show ?case
  proof (cases "5 \<le> bits")
    case True
    with "1.prems" have "b32_drain v (bits - 5) (out @ [B32 ! unat (drop_bit (bits - 5) v AND 31)]) = (bits', out')"
      by (simp add: b32_drain.simps [of v bits])
    from "1.IH" [OF True this] show ?thesis
      using lowbits_add [of "bits - 5" 5 v] True masked_less by (auto simp: lowbits_masked)
  next
    case False
    with "1.prems" show ?thesis by (simp add: b32_drain.simps [of v bits])
  qed
qed

lemma encode_bits:
  assumes "bits < 5"
  shows "\<exists>pad. text_bits (b32_encode_loop bs bits v out) = text_bits out @ lowbits bits v @ byte_bits bs @ pad \<and> length pad < 5
    \<and> (\<forall>c \<in> set (b32_encode_loop bs bits v out). c \<in> set out \<or> (\<exists>n < 32. c = B32 ! n))"
  using assms
proof (induction bs bits v out rule: b32_encode_loop.induct)
  case (1 bits v out)
  show ?case
  proof (cases "0 < bits")
    case True
    with "1.prems" lowbits_shift [of bits "5 - bits" 0 v]
    have "lowbits 5 (push_bit (5 - bits) v) = lowbits bits v @ lowbits (5 - bits) (0 :: 32 word)" by simp
    with True "1.prems" masked_less show ?thesis by (auto simp: lowbits_masked)
  qed simp
next
  case (2 b bs bits v out)
  let ?v = "push_bit 8 v OR ucast b :: 32 word"
  obtain bits' out' where d: "b32_drain ?v (bits + 8) out = (bits', out')" by fastforce
  note dr = drain_bits [OF d]
  have "lowbits (8 + bits) ?v = lowbits bits v @ lowbits 8 (ucast b :: 32 word)"
    using "2.prems" by (intro lowbits_shift) (auto simp: bit_simps dest: bit_imp_le_length)
  with dr have "text_bits out' @ lowbits bits' ?v = text_bits out @ lowbits bits v @ lowbits 8 b"
    by (simp add: lowbits_byte add.commute)
  moreover from "2.IH" [OF refl d [symmetric] refl] dr obtain pad where
    "text_bits (b32_encode_loop bs bits' ?v out') = text_bits out' @ lowbits bits' ?v @ byte_bits bs @ pad" "length pad < 5"
    "\<forall>c \<in> set (b32_encode_loop bs bits' ?v out'). c \<in> set out' \<or> (\<exists>n < 32. c = B32 ! n)" by blast
  ultimately show ?case using d dr by (intro exI [of _ pad]) (auto simp flip: append_assoc)
qed

lemma sym_index: "index_of c B32 = Some i \<Longrightarrow> sym c = of_nat i"
  by (simp add: sym_def)

lemma sym_bits: "n < 32 \<Longrightarrow> bit (sym (B32 ! n)) i \<Longrightarrow> i < 5"
proof -
  have "list_all (\<lambda>n. (of_nat n AND 31 :: 32 word) = of_nat n) [0..<32]" by code_simp
  moreover assume n: "n < 32" and b: "bit (sym (B32 ! n)) i"
  ultimately have "(of_nat n AND 31 :: 32 word) = of_nat n" by (simp add: list_all_iff)
  moreover from b have "bit (of_nat n :: 32 word) i" by (simp only: sym_index [OF index_B32 [OF n]])
  ultimately have "bit (of_nat n AND 31 :: 32 word) i" by (simp only:)
  then show "i < 5" by (simp only: bit_and_iff bit_mask_num)
qed

lemma decode_bits:
  assumes "bits < 8" and "\<forall>c \<in> set cs. \<exists>n < 32. c = B32 ! n"
  shows "\<exists>rest. byte_bits (b32_decode_loop cs bits v out) @ rest = byte_bits out @ lowbits bits v @ text_bits cs \<and> length rest < 8"
  using assms
proof (induction cs bits v out rule: b32_decode_loop.induct)
  case (2 c cs bits v out)
  from "2.prems"(2) obtain n where n: "n < 32" "c = B32 ! n" by auto
  then have ix: "index_of c B32 = Some n" and sy: "sym c = of_nat n" by (simp_all add: index_B32 sym_index)
  define w where "w = push_bit 5 v OR (of_nat n :: 32 word)"
  define x where "x = (ucast (drop_bit (bits + 5 - 8) w AND 255) :: 8 word)"
  have sh: "lowbits (5 + bits) w = lowbits bits v @ lowbits 5 (sym c)"
    using "2.prems"(1) sym_bits [OF n(1)] n(2) unfolding w_def by (simp only: sy [symmetric]) (intro lowbits_shift; auto)
  show ?case
  proof (cases "8 \<le> bits + 5")
    case True
    with sh lowbits_add [of "bits + 5 - 8" 8 w]
    have split: "lowbits bits v @ lowbits 5 (sym c) = lowbits 8 x @ lowbits (bits + 5 - 8) w"
      by (simp add: x_def lowbits_byte lowbits_masked add.commute)
    have "bits + 5 - 8 < 8" "\<forall>c \<in> set cs. \<exists>n < 32. c = B32 ! n" using "2.prems" by simp_all
    from "2.IH"(2) [OF ix w_def refl True this] obtain rest where
      "byte_bits (b32_decode_loop cs (bits + 5 - 8) w (out @ [x])) @ rest
         = byte_bits (out @ [x]) @ lowbits (bits + 5 - 8) w @ text_bits cs" "length rest < 8"
      unfolding x_def by blast
    moreover have "b32_decode_loop (c # cs) bits v out = b32_decode_loop cs (bits + 5 - 8) w (out @ [x])"
      using True ix by (simp add: w_def x_def)
    moreover have "lowbits bits v @ lowbits 5 (sym c) @ text_bits cs = lowbits 8 x @ lowbits (bits + 5 - 8) w @ text_bits cs"
      using split by (simp only: append_assoc [symmetric])
    ultimately show ?thesis
      by (intro exI [of _ rest]) (simp only: bits_Cons byte_bits_append append_assoc append_Nil append_Nil2 simp_thms)
  next
    case False
    have "bits + 5 < 8" "\<forall>c \<in> set cs. \<exists>n < 32. c = B32 ! n" using "2.prems" False by simp_all
    from "2.IH"(3) [OF ix w_def refl False this] obtain rest where
      "byte_bits (b32_decode_loop cs (bits + 5) w out) @ rest = byte_bits out @ lowbits (bits + 5) w @ text_bits cs" "length rest < 8"
      by blast
    moreover have "b32_decode_loop (c # cs) bits v out = b32_decode_loop cs (bits + 5) w out"
      using False ix by (simp add: w_def)
    ultimately show ?thesis using sh by (auto simp: add.commute)
  qed
qed auto

text \<open>Symbols survive the clean-up that precedes decoding.\<close>

lemma clean_B32:
  assumes "\<forall>c \<in> set s. \<exists>n < 32. c = B32 ! n"
  shows "toUpperCase (rev (dropWhile (\<lambda>c. c = CHR ''='') (rev s))) = s"
proof -
  have "list_all (\<lambda>n. upper_char (B32 ! n) = B32 ! n \<and> B32 ! n \<noteq> CHR ''='') [0..<32]" by code_simp
  then have sym: "upper_char (B32 ! n) = B32 ! n \<and> B32 ! n \<noteq> CHR ''=''" if "n < 32" for n
    using that by (simp add: list_all_iff)
  have ok: "upper_char c = c \<and> c \<noteq> CHR ''=''" if "c \<in> set s" for c
  proof -
    from that assms obtain n where "n < 32" "c = B32 ! n" by auto
    then show ?thesis by (simp only: sym simp_thms)
  qed
  then have "dropWhile (\<lambda>c. c = CHR ''='') (rev s) = rev s" by (cases "rev s") auto
  with ok show ?thesis by (simp add: toUpperCase_def map_idI)
qed

lemma byte_bits_prefix:
  assumes "byte_bits xs @ r = byte_bits ys @ pad" and "length r < 8" and "length pad < 8"
  shows "xs = ys"
proof -
  from arg_cong [OF assms(1), of length] have "8 * length xs + length r = 8 * length ys + length pad"
    by (simp add: byte_bits_length)
  with assms(2,3) have len: "length xs = length ys" by presburger
  then have "byte_bits xs = byte_bits ys" using assms(1) by (simp add: byte_bits_length)
  with len show ?thesis
    by (induction xs ys rule: list_induct2) (auto dest: lowbits_byte_inj)
qed

theorem base32_round_trip: "base32Decode (base32Encode bs) = bs"
proof -
  from encode_bits [of 0 bs 0 "[]"] obtain pad where e: "text_bits (base32Encode bs) = byte_bits bs @ pad" "length pad < 5"
    and ok: "\<forall>c \<in> set (base32Encode bs). \<exists>n < 32. c = B32 ! n" by (auto simp: base32Encode_def)
  from decode_bits [of 0 "base32Encode bs" 0 "[]", OF _ ok] obtain rest where
    "byte_bits (base32Decode (base32Encode bs)) @ rest = text_bits (base32Encode bs)" "length rest < 8"
    by (auto simp: base32Decode_def clean_B32 [OF ok])
  with e show ?thesis by (intro byte_bits_prefix [of _ rest bs pad]) simp_all
qed

section \<open>Codes have six digits and tolerate one step of skew\<close>

lemma nat_str_length: "n < 10 ^ k \<Longrightarrow> 0 < k \<Longrightarrow> length (nat_str n) \<le> k"
proof (induction k arbitrary: n)
  case (Suc k)
  show ?case
  proof (cases "n < 10")
    case True
    then show ?thesis by (subst nat_str.simps) simp
  next
    case False
    with Suc.prems have "0 < k" by (cases k) simp_all
    moreover from Suc.prems have "n div 10 < 10 ^ k" by auto
    ultimately have "length (nat_str (n div 10)) \<le> k" by (intro Suc.IH)
    with False show ?thesis by (subst nat_str.simps) simp
  qed
qed simp

lemma totpCode_form:
  assumes "totpCode h secret t = Inr c"
  shows "\<exists>n < 1000000. c = padStart 6 (CHR ''0'') (nat_str n)"
proof -
  from assms obtain m where "c = padStart 6 (CHR ''0'') (nat_str (m mod 1000000))"
    unfolding totpCode_def Let_def bind_r_eq_Inr sum.inject by blast
  then show ?thesis by (intro exI [of _ "m mod 1000000"]) simp
qed

lemma code_digits:
  assumes "n < 1000000"
  shows "length (padStart 6 (CHR ''0'') (nat_str n)) = 6" "trim (padStart 6 (CHR ''0'') (nat_str n)) = padStart 6 (CHR ''0'') (nat_str n)"
proof -
  show "length (padStart 6 (CHR ''0'') (nat_str n)) = 6" using nat_str_length [of n 6] assms by (simp add: padStart_def)
  show "trim (padStart 6 (CHR ''0'') (nat_str n)) = padStart 6 (CHR ''0'') (nat_str n)"
    using not_white_nat_str by (intro trim_no_white) (auto simp: padStart_def is_white_def)
qed

lemma totpCode_step: "t div 30000 = u div 30000 \<Longrightarrow> totpCode h secret t = totpCode h secret u"
  by (simp add: totpCode_def)

lemma totpCode_total: "0 \<le> t \<Longrightarrow> t < 30000 * 2 ^ 64 \<Longrightarrow> \<exists>c. totpCode h secret t = Inr c"
  by (simp add: totpCode_def uint64_be_def Let_def pos_imp_zdiv_nonneg_iff div_less_iff_less_mult)

text \<open>A code of the previous, current or next step is accepted.\<close>

lemma verifyTotp_skew:
  assumes "totpCode h secret t = Inr c" and "\<bar>t - nowMs\<bar> \<le> 30000" and "30000 \<le> nowMs" and "nowMs + 30000 < 30000 * 2 ^ 64"
  shows "verifyTotp h secret c nowMs = Inr True"
proof -
  from totpCode_form [OF assms(1)] code_digits have tr: "trim c = c" by auto
  have tot: "\<exists>x. totpCode h secret (nowMs + d * 30000) = Inr x" if "d \<in> {-1, 0, 1}" for d
    using that assms(3,4) by (intro totpCode_total) auto
  have "(nowMs - 30000) div 30000 \<le> t div 30000" "t div 30000 \<le> (nowMs + 30000) div 30000"
    using assms(2) by (intro zdiv_mono1; simp)+
  moreover have "(nowMs - 30000) div 30000 = nowMs div 30000 - 1" "(nowMs + 30000) div 30000 = nowMs div 30000 + 1" by simp_all
  ultimately have "t div 30000 = (nowMs - 30000) div 30000 \<or> t div 30000 = nowMs div 30000
      \<or> t div 30000 = (nowMs + 30000) div 30000" by linarith
  then have "totpCode h secret (nowMs - 30000) = Inr c \<or> totpCode h secret nowMs = Inr c
      \<or> totpCode h secret (nowMs + 30000) = Inr c"
    using totpCode_step assms(1) by metis
  with tot [of "-1"] tot [of 0] tot [of 1] show ?thesis
    by (auto simp: verifyTotp_def tr)
qed

end
