(* ===== verification/Gate.thy ===== *)
theory Gate
  imports Infra Totp
begin

text \<open>
  Users of the API: \<open>packages/cryptography/src/password.ts\<close> and \<open>infra/user-auth.service.ts\<close>,
  with the state and the environment of admission that the guards of Guards share.
  The state is the part of the database they use (users with their credentials, client
  applications, roles, used nonces, password resets) and the rate counters, in memory and in
  Redis; Node's hashing, HMAC, scrypt and text codecs and \<open>Number(...)\<close> are parameters. A value
  read from a decoded token stays a JSON value, as in the code.
\<close>

section \<open>State and environment\<close>

record AuthUser =
  au_id :: string
  au_email :: string
  au_displayName :: string
  au_institution :: string
  au_roles :: "string list"
  au_disabled :: bool
  au_passwordHash :: "string option"
  au_mfaSecret :: "string option"
  au_mfaEnabled :: bool
  au_attributes :: "json option"

record ClientApplication =
  cl_platform :: string
  cl_displayName :: string
  cl_oauthClientId :: string
  cl_clientSecretHash :: "string option"
  cl_publicKeyPem :: "string option"
  cl_requireSignature :: bool
  cl_rateLimitPerMin :: int
  cl_disabled :: bool
  cl_webhookUrl :: "string option"

record Role =
  role_slug :: string
  role_name :: string
  role_institution :: string
  role_description :: "string option"
  role_permissions :: "string list"
  role_builtin :: bool

record PasswordReset =
  pwr_id :: string
  pwr_userId :: string
  pwr_tokenHash :: string
  pwr_expiresAt :: int
  pwr_usedAt :: "int option"

record NonceUsage =
  nu_nonce :: string
  nu_clientId :: string
  nu_expiresAt :: int

text \<open>Counters by key, with the time from which they no longer count: in the memory of a replica and in Redis.\<close>

type_synonym counters = "(string \<times> int \<times> int) list"

text \<open>\<open>NoRedis\<close>: no connection is configured. \<open>RedisDown\<close>: it is, and commands are rejected.\<close>

datatype redis_link = NoRedis | RedisUp | RedisDown

record gate =
  gt_users :: "AuthUser list"
  gt_clients :: "ClientApplication list"
  gt_roles :: "Role list"
  gt_nonces :: "NonceUsage list"
  gt_resets :: "PasswordReset list"
  gt_mem :: counters
  gt_redis :: counters
  gt_mails :: "(string \<times> string) list"
  gt_audits :: "AuditLog list"

record genv =
  gv :: env
  hmacSha1 :: "8 word list \<Rightarrow> 8 word list \<Rightarrow> 8 word list"
  hmacSha256 :: "string \<Rightarrow> string"
  scryptSync :: "string \<Rightarrow> 8 word list \<Rightarrow> nat \<Rightarrow> js_number option \<Rightarrow> 8 word list res"
  randomBytes :: "nat \<Rightarrow> 8 word list"
  base64url :: "8 word list \<Rightarrow> string"
  encodeBody :: "json \<Rightarrow> string"
  decodeBody :: "string \<Rightarrow> json option"
  base64Text :: "string \<Rightarrow> string"
  jsNumber :: "string \<Rightarrow> js_number option"
  redisLink :: redis_link
  ENFORCE_OPERATOR_MFA :: bool
  SESSION_TTL_SECONDS :: int
  PASSWORD_RESET_TTL_SECONDS :: int
  MAX_REQUEST_SKEW_SECONDS :: int

type_synonym 'a gop = "(genv, gate, 'a) prog"

definition g_now :: "genv \<Rightarrow> int" where
  "g_now g = now (gv g)"

section \<open>Text helpers of the standard library\<close>

fun split_on :: "char \<Rightarrow> string \<Rightarrow> string list" where
  "split_on d [] = [[]]"
| "split_on d (c # cs) = (if c = d then [] # split_on d cs
     else (case split_on d cs of [] \<Rightarrow> [[c]] | p # ps \<Rightarrow> (c # p) # ps))"

lemma split_on_end: "d \<notin> set a \<Longrightarrow> split_on d a = [a]"
  by (induction a) auto

lemma split_on_part: "d \<notin> set a \<Longrightarrow> split_on d (a @ d # b) = a # split_on d b"
  by (induction a) auto

definition byte_hex :: "8 word \<Rightarrow> string" where
  "byte_hex b = [hex_digit (unat b div 16), hex_digit (unat b mod 16)]"

definition hex_encode :: "8 word list \<Rightarrow> string" where
  "hex_encode bs = concat (map byte_hex bs)"

text \<open>\<open>Buffer.from(s, 'hex')\<close> stops at the first pair that is not hexadecimal.\<close>

fun hex_decode :: "string \<Rightarrow> 8 word list" where
  "hex_decode (a # b # cs) = (case (digit_val 16 a, digit_val 16 b) of
     (Some x, Some y) \<Rightarrow> of_nat (16 * x + y) # hex_decode cs | _ \<Rightarrow> [])"
| "hex_decode _ = []"

text \<open>\<open>timingSafeEqual\<close> on UTF-8 buffers raises when their lengths differ.\<close>

definition utf8_length :: "string \<Rightarrow> nat" where
  "utf8_length s = (\<Sum>c\<leftarrow>s. if (of_char c :: nat) < 128 then 1 else 2)"

definition timingSafeEqual :: "string \<Rightarrow> string \<Rightarrow> bool res" where
  "timingSafeEqual a b = (if utf8_length a \<noteq> utf8_length b
     then Inl (PlainError ''ERR_CRYPTO_TIMING_SAFE_EQUAL_LENGTH'') else Inr (a = b))"

definition hashesEqual :: "string \<Rightarrow> string \<Rightarrow> bool res" where
  "hashesEqual a b = (if length a \<noteq> length b then Inr False else timingSafeEqual a b)"

definition startsWith :: "string \<Rightarrow> string \<Rightarrow> bool" where
  "startsWith p s = (take (length p) s = p)"

section \<open>Passwords\<close>

definition hashPassword :: "genv \<Rightarrow> string \<Rightarrow> string res" where
  "hashPassword g password = (let salt = randomBytes g 16 in
     bind_r (scryptSync g password salt 64 (Some 16384)) (\<lambda>hash.
     Inr (''scrypt$16384$'' @ hex_encode salt @ ''$'' @ hex_encode hash)))"

definition verifyPassword :: "genv \<Rightarrow> string \<Rightarrow> string \<Rightarrow> bool res" where
  "verifyPassword g password stored = (let parts = split_on (CHR ''$'') stored in
     if length parts \<noteq> 4 \<or> parts ! 0 \<noteq> ''scrypt'' then Inr False
     else (let expected = hex_decode (parts ! 3) in
       bind_r (scryptSync g password (hex_decode (parts ! 2)) (length expected) (jsNumber g (parts ! 1))) (\<lambda>actual.
       Inr (length actual = length expected \<and> actual = expected))))"

section \<open>User sessions\<close>

record UserPrincipal =
  up_userId :: json
  up_email :: json
  up_institution :: json
  up_roles :: json
  up_mfaPending :: bool

definition issueToken :: "genv \<Rightarrow> UserPrincipal \<Rightarrow> string" where
  "issueToken g p = (let body = encodeBody g (JObj [(''sub'', up_userId p), (''email'', up_email p), (''inst'', up_institution p),
       (''roles'', up_roles p), (''mfp'', JNum (if up_mfaPending p then 1 else 0)),
       (''exp'', JNum (g_now g div 1000 + SESSION_TTL_SECONDS g))])
     in body @ ''.'' @ hmacSha256 g body)"

text \<open>Member access on a parsed value: \<open>null\<close> raises (and the code catches it), others give \<open>undefined\<close>.\<close>

definition member :: "json \<Rightarrow> string \<Rightarrow> json" where
  "member j k = (case j of JObj ms \<Rightarrow> (case map_of (rev ms) k of None \<Rightarrow> JUndef | Some v \<Rightarrow> v) | _ \<Rightarrow> JUndef)"

text \<open>\<open>String(v)\<close> of a parsed value.\<close>

fun text_of :: "json \<Rightarrow> string" where
  "text_of (JStr s) = s"
| "text_of (JNum n) = bigint_toString n"
| "text_of (JBig n) = bigint_toString n"
| "text_of (JBool b) = (if b then ''true'' else ''false'')"
| "text_of JNull = ''null''"
| "text_of JUndef = ''undefined''"
| "text_of (JArr js) = join '','' (map (\<lambda>j. if j = JNull \<or> j = JUndef then [] else text_of j) js)"
| "text_of (JObj ms) = ''[object Object]''"

text \<open>
  A value as an operand of a multiplication; \<open>None\<close> is \<open>NaN\<close>. Objects and \<open>undefined\<close> are \<open>NaN\<close>, an
  array is converted through its text. A comparison with \<open>NaN\<close> is false.
\<close>

definition to_number :: "genv \<Rightarrow> json \<Rightarrow> js_number option" where
  "to_number g j = (case j of
       JNum n \<Rightarrow> Some (of_int n)
     | JStr s \<Rightarrow> jsNumber g s
     | JBool b \<Rightarrow> Some (if b then 1 else 0)
     | JNull \<Rightarrow> Some 0
     | JArr js \<Rightarrow> jsNumber g (text_of (JArr js))
     | _ \<Rightarrow> None)"

definition expired :: "genv \<Rightarrow> json \<Rightarrow> bool" where
  "expired g x = (case to_number g x of None \<Rightarrow> False | Some n \<Rightarrow> n * 1000 < of_int (g_now g))"

lemma expired_int [simp]: "expired g (JNum n) \<longleftrightarrow> n * 1000 < g_now g"
proof -
  have "(of_int n * 1000 < (of_int (g_now g) :: rat)) \<longleftrightarrow> (of_int (n * 1000) < (of_int (g_now g) :: rat))" by simp
  also have "\<dots> \<longleftrightarrow> n * 1000 < g_now g" by (rule of_int_less_iff)
  finally show ?thesis by (simp add: expired_def to_number_def)
qed


definition lastIndexOf :: "char \<Rightarrow> string \<Rightarrow> nat option" where
  "lastIndexOf c s = (if c \<in> set s then Some (length s - 1 - length (takeWhile (\<lambda>d. d \<noteq> c) (rev s))) else None)"

definition verifyToken :: "genv \<Rightarrow> string \<Rightarrow> UserPrincipal option res" where
  "verifyToken g token = (case lastIndexOf (CHR ''.'') token of
       None \<Rightarrow> Inr None
     | Some dot \<Rightarrow> if dot = 0 then Inr None
         else (let body = take dot token; sig = drop (dot + 1) token; expected = hmacSha256 g body in
           if length sig \<noteq> length expected then Inr None
           else bind_r (timingSafeEqual sig expected) (\<lambda>same.
             if \<not> same then Inr None
             else (case decodeBody g body of
                 None \<Rightarrow> Inr None
               | Some p \<Rightarrow> if p = JNull \<or> expired g (member p ''exp'') then Inr None
                   else Inr (Some \<lparr>up_userId = member p ''sub'', up_email = member p ''email'',
                     up_institution = member p ''inst'', up_roles = member p ''roles'',
                     up_mfaPending = (member p ''mfp'' = JNum 1)\<rparr>)))))"

definition assertPasswordStrength :: "string \<Rightarrow> unit gop" where
  "assertPasswordStrength pw = check (\<not> length pw < 10) (BadRequest ''Password must be at least 10 characters'')"

definition set_user :: "string \<Rightarrow> (AuthUser \<Rightarrow> AuthUser) \<Rightarrow> unit gop" where
  "set_user i f = try_modify (\<lambda>s. if has_row au_id i (gt_users s) then Inr (s\<lparr>gt_users := set_row au_id i f (gt_users s)\<rparr>)
     else Inl (RecordNotFound ''User''))"

text \<open>\<open>!user || !user.passwordHash || !verifyPassword(...)\<close>\<close>

definition password_ok :: "genv \<Rightarrow> string \<Rightarrow> AuthUser \<Rightarrow> bool res" where
  "password_ok g password u = (if \<not> truthy (au_passwordHash u) then Inr False
     else verifyPassword g password (the (au_passwordHash u)))"

definition changePassword :: "string \<Rightarrow> string \<Rightarrow> string \<Rightarrow> unit gop" where
  "changePassword userId currentPassword newPassword = bnd (asks id) (\<lambda>g.
     bnd (find_or (\<lambda>s. find_row au_id userId (gt_users s)) (Unauthorized ''Current password is incorrect'')) (\<lambda>u.
     bnd (lift_r (password_ok g currentPassword u)) (\<lambda>ok.
     seq (check ok (Unauthorized ''Current password is incorrect''))
     (seq (assertPasswordStrength newPassword)
     (bnd (lift_r (hashPassword g newPassword)) (\<lambda>h. set_user userId (\<lambda>u. u\<lparr>au_passwordHash := Some h\<rparr>)))))))"

definition requestPasswordReset :: "string \<Rightarrow> unit gop" where
  "requestPasswordReset email = bnd (asks id) (\<lambda>g.
     bnd (gets (\<lambda>s. find_row au_email email (gt_users s))) (\<lambda>user.
     case user of
       None \<Rightarrow> ret ()
     | Some u \<Rightarrow> if au_disabled u then ret ()
         else (let token = base64url g (randomBytes g 32); row = \<lparr>pwr_id = newId (gv g), pwr_userId = au_id u,
             pwr_tokenHash = sha256Hex (gv g) token, pwr_expiresAt = g_now g + PASSWORD_RESET_TTL_SECONDS g * 1000, pwr_usedAt = None\<rparr>
           in seq (try_modify (\<lambda>s. if has_row pwr_tokenHash (pwr_tokenHash row) (gt_resets s) \<or> has_row pwr_id (pwr_id row) (gt_resets s)
               then Inl (UniqueViolation ''PasswordReset'') else Inr (s\<lparr>gt_resets := gt_resets s @ [row]\<rparr>)))
             (modify (\<lambda>s. s\<lparr>gt_mails := gt_mails s @ [(email, token)]\<rparr>)))))"

definition resetPassword :: "string \<Rightarrow> string \<Rightarrow> unit gop" where
  "resetPassword token newPassword = bnd (asks id) (\<lambda>g.
     bnd (find_or (\<lambda>s. find_row pwr_tokenHash (sha256Hex (gv g) token) (gt_resets s))
       (Unauthorized ''Invalid or expired reset token'')) (\<lambda>row.
     seq (check (\<not> (pwr_usedAt row \<noteq> None \<or> pwr_expiresAt row < g_now g)) (Unauthorized ''Invalid or expired reset token''))
     (seq (assertPasswordStrength newPassword)
     (bnd (lift_r (hashPassword g newPassword)) (\<lambda>h.
     try_modify (\<lambda>s. if \<not> has_row au_id (pwr_userId row) (gt_users s) then Inl (RecordNotFound ''User'')
       else Inr (s\<lparr>gt_users := set_row au_id (pwr_userId row) (\<lambda>u. u\<lparr>au_passwordHash := Some h\<rparr>) (gt_users s),
         gt_resets := set_row pwr_id (pwr_id row) (\<lambda>r. r\<lparr>pwr_usedAt := Some (g_now g)\<rparr>) (gt_resets s)\<rparr>)))))))"

definition adminSetPassword :: "string \<Rightarrow> string \<Rightarrow> unit gop" where
  "adminSetPassword userId newPassword = bnd (asks id) (\<lambda>g.
     bnd (find_or (\<lambda>s. find_row au_id userId (gt_users s)) (BadRequest ''User not found'')) (\<lambda>_.
     seq (assertPasswordStrength newPassword)
     (bnd (lift_r (hashPassword g newPassword)) (\<lambda>h. set_user userId (\<lambda>u. u\<lparr>au_passwordHash := Some h\<rparr>)))))"

datatype LoginResult = MfaRequired | Session string bool

definition login :: "string \<Rightarrow> string \<Rightarrow> string option \<Rightarrow> LoginResult gop" where
  "login email password code = bnd (asks id) (\<lambda>g.
     bnd (find_or (\<lambda>s. find_row au_email email (gt_users s)) (Unauthorized ''Invalid credentials'')) (\<lambda>u.
     seq (check (\<not> au_disabled u) (Unauthorized ''Invalid credentials''))
     (bnd (lift_r (password_ok g password u)) (\<lambda>ok.
     seq (check ok (Unauthorized ''Invalid credentials''))
     (if au_mfaEnabled u \<and> \<not> truthy code then ret MfaRequired
      else bnd (if au_mfaEnabled u
            then (if \<not> truthy (au_mfaSecret u) then raise (Unauthorized ''Invalid MFA code'')
                  else bnd (lift_r (verifyTotp (hmacSha1 g) (the (au_mfaSecret u)) (the code) (g_now g))) (\<lambda>v.
                    check v (Unauthorized ''Invalid MFA code'')))
            else ret ()) (\<lambda>_.
      let mfaPending = (ENFORCE_OPERATOR_MFA g \<and> \<not> au_mfaEnabled u) in
      ret (Session (issueToken g \<lparr>up_userId = JStr (au_id u), up_email = JStr (au_email u),
        up_institution = JStr (au_institution u), up_roles = JArr (map JStr (au_roles u)), up_mfaPending = mfaPending\<rparr>)
        mfaPending)))))))"

definition setupMfa :: "string \<Rightarrow> string gop" where
  "setupMfa userId = bnd (asks id) (\<lambda>g.
     bnd (find_or (\<lambda>s. find_row au_id userId (gt_users s)) (BadRequest ''User not found'')) (\<lambda>_.
     let secret = base32Encode (randomBytes g 20) in
     seq (set_user userId (\<lambda>u. u\<lparr>au_mfaSecret := Some secret, au_mfaEnabled := False\<rparr>)) (ret secret)))"

definition enableMfa :: "string \<Rightarrow> string \<Rightarrow> unit gop" where
  "enableMfa userId code = bnd (asks id) (\<lambda>g.
     bnd (find_or (\<lambda>s. find_row au_id userId (gt_users s)) (BadRequest ''Start MFA setup first'')) (\<lambda>u.
     seq (check (truthy (au_mfaSecret u)) (BadRequest ''Start MFA setup first''))
     (bnd (lift_r (verifyTotp (hmacSha1 g) (the (au_mfaSecret u)) code (g_now g))) (\<lambda>v.
     seq (check v (Unauthorized ''Invalid MFA code''))
     (set_user userId (\<lambda>u. u\<lparr>au_mfaEnabled := True\<rparr>))))))"

end
