(* ===== verification/Guards.thy ===== *)
theory Guards
  imports Gate
begin

text \<open>
  The four global guards in the order \<open>app.module.ts\<close> registers them (client separation,
  request signature, rate limit, permission), the client credential check and the rate limiter
  they call, and the error filter behind them. \<open>admit\<close> is a request passing through all four;
  \<open>run_gate\<close> is any call that changes the admission state. The lemmas say what an admitted
  request proved about itself, that a nonce is accepted once, that a reset token works once and
  how many requests of a client pass in a minute.
\<close>

section \<open>Requests and principals\<close>

record request =
  hq_method :: string
  hq_path :: string
  hq_headers :: "string \<Rightarrow> string option"
  hq_body :: "json option"

record AuthenticatedClient =
  ac_platform :: string
  ac_oauthClientId :: string
  ac_displayName :: string

datatype principal = UserP UserPrincipal | ClientP AuthenticatedClient

section \<open>Client separation\<close>

definition client_principal :: "ClientApplication \<Rightarrow> AuthenticatedClient" where
  "client_principal k = \<lparr>ac_platform = cl_platform k, ac_oauthClientId = cl_oauthClientId k, ac_displayName = cl_displayName k\<rparr>"

definition verifyClient :: "string \<Rightarrow> string \<Rightarrow> AuthenticatedClient option gop" where
  "verifyClient clientId secret = (if clientId = [] \<or> secret = [] then ret None
     else bnd (asks id) (\<lambda>g. bnd (gets (\<lambda>s. find_row cl_oauthClientId clientId (gt_clients s))) (\<lambda>client.
       case client of
         None \<Rightarrow> ret None
       | Some k \<Rightarrow> if cl_disabled k \<or> \<not> truthy (cl_clientSecretHash k) then ret None
           else bnd (lift_r (hashesEqual (sha256Hex (gv g) secret) (the (cl_clientSecretHash k)))) (\<lambda>same.
             ret (if same then Some (client_principal k) else None)))))"

definition requiredPlatform :: "string \<Rightarrow> string option" where
  "requiredPlatform path = (if startsWith ''/api/v1/auth'' path then None
     else if startsWith ''/api/v1/paychain'' path then Some ''PAYCHAIN''
     else if startsWith ''/api/v1/paykh'' path then Some ''PAYKH''
     else if startsWith ''/api/v1/bank'' path then Some ''TRUSTEE_BANK''
     else if startsWith ''/api/v1/trustee'' path then Some ''TRUSTEE_BANK''
     else if startsWith ''/api/v1/admin'' path then Some ''TRUSTEE_BANK''
     else None)"

definition bearer :: "request \<Rightarrow> string option" where
  "bearer q = (case hq_headers q ''authorization'' of
       Some authz \<Rightarrow> if startsWith ''Bearer '' authz then Some (trim (drop 7 authz)) else None
     | None \<Rightarrow> None)"

definition extractCredentials :: "genv \<Rightarrow> request \<Rightarrow> (string \<times> string) option" where
  "extractCredentials g q = (let i = hq_headers q ''x-client-id''; secret = hq_headers q ''x-client-secret'' in
     if truthy i \<and> truthy secret then Some (the i, the secret)
     else (case hq_headers q ''authorization'' of
         Some authz \<Rightarrow> if startsWith ''Basic '' authz
           then (let decoded = base64Text g (drop 6 authz) in
             case index_of (CHR '':'') decoded of
               Some idx \<Rightarrow> if 0 < idx then Some (take idx decoded, drop (idx + 1) decoded) else None
             | None \<Rightarrow> None)
           else None
       | None \<Rightarrow> None))"

definition clientSeparation :: "request \<Rightarrow> principal option gop" where
  "clientSeparation q = bnd (asks id) (\<lambda>g.
     case requiredPlatform (hq_path q) of
       None \<Rightarrow> ret None
     | Some required \<Rightarrow>
         if truthy (bearer q) then
           bnd (lift_r (verifyToken g (the (bearer q)))) (\<lambda>user.
           case user of
             None \<Rightarrow> raise (Unauthorized ''Invalid or expired session token'')
           | Some u \<Rightarrow>
               seq (check (\<not> (required \<noteq> ''TRUSTEE_BANK'' \<or> up_institution u \<noteq> JStr ''TRUSTEE_BANK''))
                 (Forbidden ''User session not permitted for this namespace''))
               (seq (check (\<not> up_mfaPending u) (Forbidden ''MFA enrollment required''))
               (ret (Some (UserP u)))))
         else
           (case extractCredentials g q of
             None \<Rightarrow> raise (Unauthorized ''Credentials required (X-Client-Id/Secret or Bearer token)'')
           | Some (clientId, secret) \<Rightarrow>
               bnd (verifyClient clientId secret) (\<lambda>client.
               case client of
                 None \<Rightarrow> raise (Unauthorized ''Invalid client credentials'')
               | Some c \<Rightarrow>
                   seq (check (ac_platform c = required) (Forbidden ''client separation''))
                   (ret (Some (ClientP c))))))"

section \<open>Request signature\<close>

definition value_changing :: "request \<Rightarrow> bool" where
  "value_changing q = (hq_method q \<in> set [''POST'', ''PUT'', ''DELETE'', ''PATCH''])"

definition body_or_empty :: "json option \<Rightarrow> json" where
  "body_or_empty b = (case b of None \<Rightarrow> JObj [] | Some j \<Rightarrow> if j = JNull \<or> j = JUndef then JObj [] else j)"

definition signing_subject :: "genv \<Rightarrow> request \<Rightarrow> string \<Rightarrow> string \<Rightarrow> string \<Rightarrow> json" where
  "signing_subject g q clientId timestamp nonce = JObj [(''method'', JStr (hq_method q)), (''path'', JStr (hq_path q)),
     (''clientId'', JStr clientId), (''timestamp'', JStr timestamp), (''nonce'', JStr nonce),
     (''bodyHash'', JStr (sha256Hex (gv g) (canonicalize (body_or_empty (hq_body q)))))]"

definition fresh_timestamp :: "genv \<Rightarrow> string \<Rightarrow> bool" where
  "fresh_timestamp g timestamp = (case jsNumber g timestamp of
       None \<Rightarrow> False
     | Some tsMs \<Rightarrow> \<not> \<bar>of_int (g_now g) - tsMs\<bar> > of_int (MAX_REQUEST_SKEW_SECONDS g * 1000))"

definition useNonce :: "string \<Rightarrow> string \<Rightarrow> unit gop" where
  "useNonce nonce clientId = bnd (asks id) (\<lambda>g. try_modify (\<lambda>s.
     if has_row nu_nonce nonce (gt_nonces s) then Inl (Unauthorized ''Replayed nonce'')
     else Inr (s\<lparr>gt_nonces := gt_nonces s @ [\<lparr>nu_nonce = nonce, nu_clientId = clientId,
       nu_expiresAt = g_now g + (MAX_REQUEST_SKEW_SECONDS g + 60) * 1000\<rparr>]\<rparr>)))"

definition requestSignature :: "request \<Rightarrow> principal option \<Rightarrow> unit gop" where
  "requestSignature q p = (case p of
       Some (ClientP c) \<Rightarrow>
         if \<not> value_changing q then ret ()
         else bnd (asks id) (\<lambda>g. bnd (gets (\<lambda>s. find_row cl_oauthClientId (ac_oauthClientId c) (gt_clients s))) (\<lambda>client.
           case client of
             None \<Rightarrow> ret ()
           | Some k \<Rightarrow> if \<not> cl_requireSignature k then ret ()
             else seq (check (truthy (cl_publicKeyPem k)) (Forbidden ''Signing required but no public key registered for client''))
               (let timestamp = hq_headers q ''x-timestamp''; nonce = hq_headers q ''x-nonce''; signature = hq_headers q ''x-signature'' in
               seq (check (truthy timestamp \<and> truthy nonce \<and> truthy signature) (Unauthorized ''Missing X-Timestamp/X-Nonce/X-Signature''))
               (seq (check (fresh_timestamp g (the timestamp)) (Unauthorized ''Stale or invalid request timestamp''))
               (seq (check (verifyPayload (gv g) (the (cl_publicKeyPem k))
                   (signing_subject g q (cl_oauthClientId k) (the timestamp) (the nonce))
                   \<lparr>sg_keyId = cl_oauthClientId k, sg_algorithm = ''ed25519'', sg_value = the signature\<rparr>)
                 (Unauthorized ''Invalid request signature''))
               (useNonce (the nonce) (cl_oauthClientId k)))))))
     | _ \<Rightarrow> ret ())"

section \<open>Rate limit\<close>

record RateDecision =
  rt_allowed :: bool
  rt_limit :: int
  rt_remaining :: int
  rt_resetSeconds :: int

definition minute :: "genv \<Rightarrow> int" where
  "minute g = g_now g div 60000"

definition resetSeconds :: "genv \<Rightarrow> int" where
  "resetSeconds g = 60 - (g_now g smod 60000) div 1000"

definition rlKey :: "string \<Rightarrow> int \<Rightarrow> string" where
  "rlKey clientId m = ''rl:'' @ clientId @ '':'' @ bigint_toString m"

definition usageKey :: "string \<Rightarrow> int \<Rightarrow> string" where
  "usageKey clientId hour = ''usage:'' @ clientId @ '':'' @ bigint_toString hour"

text \<open>
  A counter that is missing or over starts again at 1 and is over from \<open>reset\<close> on; another one
  is incremented. \<open>counter\<close> is the value that the increment returns.
\<close>

definition counter :: "(int \<Rightarrow> bool) \<Rightarrow> string \<Rightarrow> counters \<Rightarrow> int" where
  "counter over key cs = (case find_row fst key cs of
       None \<Rightarrow> 1
     | Some (_, count, resetMs) \<Rightarrow> if over resetMs then 1 else count + 1)"

definition put :: "string \<Rightarrow> int \<times> int \<Rightarrow> counters \<Rightarrow> counters" where
  "put key v cs = (if has_row fst key cs then set_row fst key (\<lambda>_. (key, v)) cs else cs @ [(key, v)])"

definition bump :: "(int \<Rightarrow> bool) \<Rightarrow> int \<Rightarrow> string \<Rightarrow> counters \<Rightarrow> counters" where
  "bump over reset key cs = (case find_row fst key cs of
       None \<Rightarrow> put key (1, reset) cs
     | Some (_, count, resetMs) \<Rightarrow> if over resetMs then put key (1, reset) cs else put key (count + 1, resetMs) cs)"

definition mem_count :: "genv \<Rightarrow> string \<Rightarrow> gate \<Rightarrow> int" where
  "mem_count g key s = counter (\<lambda>r. r < g_now g) key (gt_mem s)"

definition mem_bump :: "genv \<Rightarrow> string \<Rightarrow> gate \<Rightarrow> gate" where
  "mem_bump g key s = s\<lparr>gt_mem := bump (\<lambda>r. r < g_now g) (g_now g + resetSeconds g * 1000) key (gt_mem s)\<rparr>"

text \<open>
  \<open>INCR\<close> is atomic and shared by all replicas; \<open>EXPIRE\<close> follows when the counter has just been made.
  Redis and the API are taken to agree on the time.
\<close>

definition redis_count :: "genv \<Rightarrow> string \<Rightarrow> gate \<Rightarrow> int" where
  "redis_count g key s = counter (\<lambda>r. r \<le> g_now g) key (gt_redis s)"

definition redis_bump :: "genv \<Rightarrow> int \<Rightarrow> string \<Rightarrow> gate \<Rightarrow> gate" where
  "redis_bump g ttlSeconds key s = s\<lparr>gt_redis := bump (\<lambda>r. r \<le> g_now g) (g_now g + ttlSeconds * 1000) key (gt_redis s)\<rparr>"

definition consume :: "string \<Rightarrow> int \<Rightarrow> RateDecision gop" where
  "consume clientId limitPerMin = bnd (asks id) (\<lambda>g.
     let key = rlKey clientId (minute g) in
     bnd (case redisLink g of
         RedisUp \<Rightarrow> bnd (gets (redis_count g key)) (\<lambda>count. seq (modify (redis_bump g 65 key))
           (seq (modify (redis_bump g 93600 (usageKey clientId (g_now g div 3600000)))) (ret count)))
       | RedisDown \<Rightarrow> raise (PlainError ''Redis command failed'')
       | NoRedis \<Rightarrow> bnd (gets (mem_count g key)) (\<lambda>count. seq (modify (mem_bump g key)) (ret count))) (\<lambda>count.
     ret \<lparr>rt_allowed = (count \<le> limitPerMin), rt_limit = limitPerMin, rt_remaining = max 0 (limitPerMin - count),
       rt_resetSeconds = resetSeconds g\<rparr>))"

definition rateLimit :: "principal option \<Rightarrow> unit gop" where
  "rateLimit p = (case p of
       Some (ClientP c) \<Rightarrow> if ac_oauthClientId c = [] then ret ()
         else bnd (gets (\<lambda>s. case find_row cl_oauthClientId (ac_oauthClientId c) (gt_clients s) of
             Some k \<Rightarrow> cl_rateLimitPerMin k | None \<Rightarrow> 600)) (\<lambda>limit.
           bnd (consume (ac_oauthClientId c) limit) (\<lambda>d. check (rt_allowed d) (TooManyRequests (rt_resetSeconds d))))
     | _ \<Rightarrow> ret ())"

section \<open>Permission\<close>

text \<open>\<open>principal.roles ?? []\<close> as the list the query takes; anything else is refused by the query.\<close>

fun str_list :: "json list \<Rightarrow> string list option" where
  "str_list [] = Some []"
| "str_list (JStr r # js) = map_option ((#) r) (str_list js)"
| "str_list _ = None"

definition role_slugs :: "json \<Rightarrow> string list res" where
  "role_slugs j = (case j of JNull \<Rightarrow> Inr [] | JUndef \<Rightarrow> Inr []
     | JArr js \<Rightarrow> require (str_list js) (PlainError ''Argument in is invalid'')
     | _ \<Rightarrow> Inl (PlainError ''Argument in is invalid''))"

definition holds_permission :: "Role list \<Rightarrow> string list \<Rightarrow> string \<Rightarrow> bool" where
  "holds_permission roles slugs required =
     list_ex (\<lambda>r. required \<in> set (role_permissions r)) (filter (\<lambda>r. role_slug r \<in> set slugs) roles)"

definition permissionGuard :: "string option \<Rightarrow> principal option \<Rightarrow> unit gop" where
  "permissionGuard required p = (if \<not> truthy required then ret ()
     else (case p of
         None \<Rightarrow> ret ()
       | Some (ClientP _) \<Rightarrow> ret ()
       | Some (UserP u) \<Rightarrow> bnd (lift_r (role_slugs (up_roles u))) (\<lambda>slugs.
           bnd (gets (\<lambda>s. holds_permission (gt_roles s) slugs (the required))) (\<lambda>has.
           check has (Forbidden ''Missing permission'')))))"

section \<open>The chain of guards and the error filter\<close>

definition admit :: "string option \<Rightarrow> request \<Rightarrow> principal option gop" where
  "admit required q = bnd (clientSeparation q) (\<lambda>p.
     seq (requestSignature q p) (seq (rateLimit p) (seq (permissionGuard required p) (ret p))))"

fun http_status :: "err \<Rightarrow> nat" where
  "http_status (NotFound _) = 404"
| "http_status (BadRequest _) = 400"
| "http_status (BadRequestReasons _ _) = 400"
| "http_status (Forbidden _) = 403"
| "http_status (Conflict _) = 409"
| "http_status (Unauthorized _) = 401"
| "http_status (TooManyRequests _) = 429"
| "http_status _ = 500"

section \<open>Calls that change the admission state\<close>

datatype gate_call =
    Request "string option" request
  | ChangePassword string string string
  | RequestPasswordReset string
  | ResetPassword string string
  | AdminSetPassword string string
  | Login string string "string option"
  | SetupMfa string
  | EnableMfa string string

definition quiet :: "'a gop \<Rightarrow> unit gop" where
  "quiet m = bnd m (\<lambda>_. ret ())"

fun run_gate :: "gate_call \<Rightarrow> unit gop" where
  "run_gate (Request required q) = quiet (admit required q)"
| "run_gate (ChangePassword i old new) = changePassword i old new"
| "run_gate (RequestPasswordReset email) = requestPasswordReset email"
| "run_gate (ResetPassword token new) = resetPassword token new"
| "run_gate (AdminSetPassword i new) = adminSetPassword i new"
| "run_gate (Login email password code) = quiet (login email password code)"
| "run_gate (SetupMfa i) = quiet (setupMfa i)"
| "run_gate (EnableMfa i code) = enableMfa i code"

fun run_gates :: "(genv \<times> gate_call) list \<Rightarrow> gate \<Rightarrow> gate" where
  "run_gates [] s = s"
| "run_gates ((g, c) # cs) s = run_gates cs (snd (run_gate c g s))"

section \<open>What each guard establishes\<close>

lemma admit_eq_Inr:
  "admit required q g s = (Inr p, s') \<longleftrightarrow>
    (\<exists>s1 s2 s3. clientSeparation q g s = (Inr p, s1) \<and> requestSignature q p g s1 = (Inr (), s2)
      \<and> rateLimit p g s2 = (Inr (), s3) \<and> permissionGuard required p g s3 = (Inr (), s'))"
  by (auto simp: admit_def seq_def bnd_eq_Inr ret_def)

lemma verifyClient_state: "snd (verifyClient i sec g s) = s"
  by (auto simp: verifyClient_def prog_simps split: option.split sum.split)

lemma verifyClient_Some:
  assumes "verifyClient i sec g s = (Inr (Some c), s')"
  shows "\<exists>k \<in> set (gt_clients s). find_row cl_oauthClientId i (gt_clients s) = Some k \<and> c = client_principal k
    \<and> cl_oauthClientId k = i \<and> \<not> cl_disabled k \<and> cl_clientSecretHash k = Some (sha256Hex (gv g) sec)"
proof -
  from assms obtain k where k: "find_row cl_oauthClientId i (gt_clients s) = Some k" "\<not> cl_disabled k"
      "truthy (cl_clientSecretHash k)" "hashesEqual (sha256Hex (gv g) sec) (the (cl_clientSecretHash k)) = Inr True"
      "c = client_principal k"
    by (auto simp: verifyClient_def prog_simps split: option.splits sum.splits if_splits)
  from k(4) have "the (cl_clientSecretHash k) = sha256Hex (gv g) sec"
    by (auto simp: hashesEqual_def timingSafeEqual_def split: if_splits)
  with k(3) have "cl_clientSecretHash k = Some (sha256Hex (gv g) sec)"
    by (cases "cl_clientSecretHash k") (auto simp: truthy_def)
  with k find_row_Some [OF k(1)] show ?thesis by auto
qed

lemma separation_state: "snd (clientSeparation q g s) = s"
proof -
  have "snd (bnd (verifyClient i sec) f g s) = s" if "\<And>c. snd (f c g s) = s" for i sec and f :: "_ \<Rightarrow> principal option gop"
    using verifyClient_state [of i sec g s] that by (auto simp: bnd_def split: prod.splits sum.splits)
  then show ?thesis
    by (auto simp: clientSeparation_def prog_simps split: option.split sum.split prod.split)
qed

text \<open>A user session passes for the trustee namespaces only, a client for its own namespace only.\<close>

definition user_session :: "genv \<Rightarrow> request \<Rightarrow> string \<Rightarrow> UserPrincipal \<Rightarrow> bool" where
  "user_session g q required u = (truthy (bearer q) \<and> verifyToken g (the (bearer q)) = Inr (Some u)
     \<and> required = ''TRUSTEE_BANK'' \<and> up_institution u = JStr ''TRUSTEE_BANK'' \<and> \<not> up_mfaPending u)"

definition client_session :: "genv \<Rightarrow> request \<Rightarrow> string \<Rightarrow> ClientApplication \<Rightarrow> bool" where
  "client_session g q required k = (\<not> truthy (bearer q) \<and> cl_platform k = required \<and> \<not> cl_disabled k
     \<and> (\<exists>secret. extractCredentials g q = Some (cl_oauthClientId k, secret)
          \<and> cl_clientSecretHash k = Some (sha256Hex (gv g) secret)))"

lemma separation_client:
  assumes "requiredPlatform (hq_path q) = Some required" and "\<not> truthy (bearer q)"
  shows "fst (clientSeparation q g s) = (case extractCredentials g q of
      None \<Rightarrow> Inl (Unauthorized ''Credentials required (X-Client-Id/Secret or Bearer token)'')
    | Some (i, sec) \<Rightarrow> bind_r (fst (verifyClient i sec g s)) (\<lambda>client. case client of
        None \<Rightarrow> Inl (Unauthorized ''Invalid client credentials'')
      | Some c \<Rightarrow> if ac_platform c = required then Inr (Some (ClientP c)) else Inl (Forbidden ''client separation'')))"
  using assms
  by (simp add: clientSeparation_def bnd_asks split: option.split)
    (auto simp: bnd_def [of "verifyClient _ _"] prog_simps split: prod.split sum.split option.split)

lemma separation_user:
  assumes "requiredPlatform (hq_path q) = Some required" and "truthy (bearer q)"
  shows "fst (clientSeparation q g s) = bind_r (verifyToken g (the (bearer q))) (\<lambda>user. case user of
      None \<Rightarrow> Inl (Unauthorized ''Invalid or expired session token'')
    | Some u \<Rightarrow> if required \<noteq> ''TRUSTEE_BANK'' \<or> up_institution u \<noteq> JStr ''TRUSTEE_BANK''
        then Inl (Forbidden ''User session not permitted for this namespace'')
        else if up_mfaPending u then Inl (Forbidden ''MFA enrollment required'') else Inr (Some (UserP u)))"
  using assms by (cases "verifyToken g (the (bearer q))") (simp_all add: clientSeparation_def prog_simps split: option.split)

lemma separation_Inr:
  assumes "clientSeparation q g s = (Inr p, s')" and "requiredPlatform (hq_path q) = Some required"
  shows "(\<exists>u. p = Some (UserP u) \<and> user_session g q required u)
    \<or> (\<exists>k \<in> set (gt_clients s). p = Some (ClientP (client_principal k))
         \<and> find_row cl_oauthClientId (cl_oauthClientId k) (gt_clients s) = Some k \<and> client_session g q required k)"
proof (cases "truthy (bearer q)")
  case True
  from separation_user [OF assms(2) True, of g s, unfolded assms(1) fst_conv, symmetric] True show ?thesis
    by (auto simp: user_session_def bind_r_eq_Inr split: option.splits if_splits)
next
  case False
  from separation_client [OF assms(2) this, of g s, unfolded assms(1) fst_conv, symmetric]
  obtain i sec c where c: "extractCredentials g q = Some (i, sec)" "fst (verifyClient i sec g s) = Inr (Some c)"
      "ac_platform c = required" "p = Some (ClientP c)"
    by (fastforce simp: bind_r_eq_Inr split: option.splits if_splits)
  from c(2) have "verifyClient i sec g s = (Inr (Some c), s)"
    using verifyClient_state [of i sec g s] by (cases "verifyClient i sec g s") simp
  from verifyClient_Some [OF this] c(1,3,4) False show ?thesis
    by (auto simp: client_session_def client_principal_def)
qed

lemma exempt_request: "requiredPlatform (hq_path q) = None \<Longrightarrow> admit required q g s = (Inr None, s)"
  by (simp add: admit_def clientSeparation_def requestSignature_def rateLimit_def permissionGuard_def prog_simps)

text \<open>What the signature guard has checked when it lets a request of a signing client through.\<close>

definition signed_request :: "genv \<Rightarrow> ClientApplication \<Rightarrow> request \<Rightarrow> bool" where
  "signed_request g k q = (\<exists>pem timestamp nonce signature. cl_publicKeyPem k = Some pem
     \<and> hq_headers q ''x-timestamp'' = Some timestamp \<and> hq_headers q ''x-nonce'' = Some nonce
     \<and> hq_headers q ''x-signature'' = Some signature \<and> fresh_timestamp g timestamp
     \<and> nodeVerify (gv g) pem (canonicalize (signing_subject g q (cl_oauthClientId k) timestamp nonce)) signature)"

definition nonce_used :: "string option \<Rightarrow> gate \<Rightarrow> bool" where
  "nonce_used n s = (case n of None \<Rightarrow> False | Some x \<Rightarrow> has_row nu_nonce x (gt_nonces s))"

lemma signature_Inr:
  assumes "requestSignature q (Some (ClientP (client_principal k))) g s = (Inr (), s')" and "value_changing q"
    and "find_row cl_oauthClientId (cl_oauthClientId k) (gt_clients s) = Some k" and "cl_requireSignature k"
  shows "signed_request g k q" and "\<not> nonce_used (hq_headers q ''x-nonce'') s" and "nonce_used (hq_headers q ''x-nonce'') s'"
  using assms
  by (auto simp: requestSignature_def client_principal_def useNonce_def prog_simps signed_request_def nonce_used_def
      verifyPayload_def truthy_def try_modify_def Let_def has_row_def split: option.splits sum.splits if_splits)

lemma permission_Inr:
  assumes "permissionGuard (Some required) (Some (UserP u)) g s = (Inr (), s')" and "required \<noteq> []"
  shows "\<exists>slugs. role_slugs (up_roles u) = Inr slugs \<and> holds_permission (gt_roles s) slugs required"
  using assms by (auto simp: permissionGuard_def truthy_def prog_simps check_def split: sum.splits if_splits)

section \<open>What the guards leave alone\<close>

lemma bump_fields [simp]:
  "gt_clients (mem_bump g k s) = gt_clients s" "gt_roles (mem_bump g k s) = gt_roles s" "gt_users (mem_bump g k s) = gt_users s"
  "gt_resets (mem_bump g k s) = gt_resets s" "gt_nonces (mem_bump g k s) = gt_nonces s"
  "gt_clients (redis_bump g t k s) = gt_clients s" "gt_roles (redis_bump g t k s) = gt_roles s" "gt_users (redis_bump g t k s) = gt_users s"
  "gt_resets (redis_bump g t k s) = gt_resets s" "gt_nonces (redis_bump g t k s) = gt_nonces s"
  by (simp_all add: mem_bump_def redis_bump_def)

lemma leaves_case_redis [leaves_intros]:
  "leaves f l \<Longrightarrow> leaves f m \<Longrightarrow> leaves f n \<Longrightarrow> leaves f (case x of NoRedis \<Rightarrow> l | RedisUp \<Rightarrow> m | RedisDown \<Rightarrow> n)"
  by (simp split: redis_link.split)

lemma keeps_case_redis [keeps_intros]:
  "keeps P l \<Longrightarrow> keeps P m \<Longrightarrow> keeps P n \<Longrightarrow> keeps P (case x of NoRedis \<Rightarrow> l | RedisUp \<Rightarrow> m | RedisDown \<Rightarrow> n)"
  by (simp split: redis_link.split)

lemma leaves_case_principal [leaves_intros]:
  "(\<And>u. leaves f (m u)) \<Longrightarrow> (\<And>c. leaves f (n c)) \<Longrightarrow> leaves f (case x of UserP u \<Rightarrow> m u | ClientP c \<Rightarrow> n c)"
  by (simp split: principal.split)

lemma keeps_case_principal [keeps_intros]:
  "(\<And>u. keeps P (m u)) \<Longrightarrow> (\<And>c. keeps P (n c)) \<Longrightarrow> keeps P (case x of UserP u \<Rightarrow> m u | ClientP c \<Rightarrow> n c)"
  by (simp split: principal.split)

lemma leaves_quiet [leaves_intros]: "leaves f m \<Longrightarrow> leaves f (quiet m)"
  unfolding quiet_def by (intro leaves_intros)

lemma leaves_separation [leaves_intros]: "leaves f (clientSeparation q)"
  by (simp add: leaves_def separation_state)

lemmas gate_op_defs = admit_def requestSignature_def useNonce_def rateLimit_def consume_def permissionGuard_def
  changePassword_def requestPasswordReset_def resetPassword_def adminSetPassword_def login_def setupMfa_def
  enableMfa_def assertPasswordStrength_def set_user_def Let_def

lemma gate_leaves_clients: "leaves gt_clients (run_gate c)"
  by (cases c; simp only: run_gate.simps; unfold gate_op_defs)
    (intro leaves_intros; auto split: if_splits)+

text \<open>Which tables a call adds to: nonces and resets only grow, a spent reset stays spent.\<close>

definition spent :: "string \<Rightarrow> gate \<Rightarrow> bool" where
  "spent h s = (case find_row pwr_tokenHash h (gt_resets s) of None \<Rightarrow> False | Some r \<Rightarrow> pwr_usedAt r \<noteq> None)"

lemma keeps_quiet: "keeps P m \<Longrightarrow> keeps P (quiet m)"
  unfolding quiet_def by (intro keeps_intros)

lemma keeps_separation: "keeps P (clientSeparation q)"
  by (simp add: keeps_def separation_state)

lemmas gate_keeps = keeps_intros keeps_quiet keeps_separation keeps_modify keeps_try_modify

lemma nonce_used_simps [simp]:
  "nonce_used n (s\<lparr>gt_users := u\<rparr>) = nonce_used n s" "nonce_used n (s\<lparr>gt_resets := r\<rparr>) = nonce_used n s"
  "nonce_used n (s\<lparr>gt_mails := m\<rparr>) = nonce_used n s" "nonce_used n (mem_bump g k s) = nonce_used n s"
  "nonce_used n (redis_bump g t k s) = nonce_used n s"
  "nonce_used n s \<Longrightarrow> nonce_used n (s\<lparr>gt_nonces := gt_nonces s @ rows\<rparr>)"
  by (auto simp: nonce_used_def has_row_def split: option.splits)

lemma spent_simps [simp]:
  "spent h (s\<lparr>gt_users := u\<rparr>) = spent h s" "spent h (s\<lparr>gt_nonces := ns\<rparr>) = spent h s"
  "spent h (s\<lparr>gt_mails := m\<rparr>) = spent h s" "spent h (mem_bump g k s) = spent h s"
  "spent h (redis_bump g t k s) = spent h s"
  "spent h s \<Longrightarrow> spent h (s\<lparr>gt_resets := gt_resets s @ rows\<rparr>)"
  by (auto simp: spent_def find_row_append split: option.splits)

lemma gate_keeps_nonces: "keeps (nonce_used n) (run_gate c)"
  by (cases c; simp only: run_gate.simps; unfold gate_op_defs)
    (intro gate_keeps; auto split: if_splits)+

lemma find_row_set_by:
  assumes "\<And>r. key' (f r) = key' r"
  shows "find_row key' k (set_row key i f rs) = map_option (\<lambda>r. if key r = i then f r else r) (find_row key' k rs)"
  using assms by (induction rs) (simp_all add: set_row_Cons find_row_Cons)

lemma spent_set_row [simp]:
  "spent h s \<Longrightarrow> spent h (s\<lparr>gt_users := u, gt_resets := set_row pwr_id i (\<lambda>r. r\<lparr>pwr_usedAt := Some t\<rparr>) (gt_resets s)\<rparr>)"
  by (auto simp: spent_def find_row_set_by split: option.splits)

lemma gate_keeps_spent: "keeps (spent h) (run_gate c)"
  by (cases c; simp only: run_gate.simps; unfold gate_op_defs)
    (intro gate_keeps; auto split: if_splits)+

interpretation gates: call_run run_gate run_gates
  by unfold_locales simp_all

section \<open>Nonces and reset tokens work once\<close>

text \<open>A request that reaches the signature check: a client's value-changing call with signing on.\<close>

definition must_sign :: "genv \<Rightarrow> gate \<Rightarrow> request \<Rightarrow> bool" where
  "must_sign g s q = (value_changing q \<and> requiredPlatform (hq_path q) \<noteq> None \<and> \<not> truthy (bearer q)
     \<and> (case extractCredentials g q of None \<Rightarrow> False
        | Some (i, _) \<Rightarrow> (case find_row cl_oauthClientId i (gt_clients s) of None \<Rightarrow> False | Some k \<Rightarrow> cl_requireSignature k)))"

lemma admitted_signed:
  assumes "admit required q g s = (Inr p, s')" and "must_sign g s q"
  shows "\<exists>k \<in> set (gt_clients s). p = Some (ClientP (client_principal k)) \<and> signed_request g k q"
    and "\<not> nonce_used (hq_headers q ''x-nonce'') s"
    and "nonce_used (hq_headers q ''x-nonce'') s'"
proof -
  from assms(1) obtain s1 s2 s3 where sep: "clientSeparation q g s = (Inr p, s1)"
      and sig: "requestSignature q p g s1 = (Inr (), s2)"
      and rate: "rateLimit p g s2 = (Inr (), s3)" and perm: "permissionGuard required p g s3 = (Inr (), s')"
    by (auto simp: admit_eq_Inr)
  from sep have s1: "s1 = s" using separation_state [of q g s] by simp
  from assms(2) obtain plat where plat: "requiredPlatform (hq_path q) = Some plat" and v: "value_changing q"
      and nb: "\<not> truthy (bearer q)"
    by (auto simp: must_sign_def)
  from separation_Inr [OF sep plat] nb obtain k where k: "k \<in> set (gt_clients s)" "p = Some (ClientP (client_principal k))"
      "find_row cl_oauthClientId (cl_oauthClientId k) (gt_clients s) = Some k" "client_session g q plat k"
    by (auto simp: user_session_def)
  from k assms(2) have "cl_requireSignature k" by (auto simp: must_sign_def client_session_def split: option.splits)
  note guard = signature_Inr [OF sig [unfolded s1 k(2)] v k(3) this]
  from guard(1) k(1,2) show "\<exists>k \<in> set (gt_clients s). p = Some (ClientP (client_principal k)) \<and> signed_request g k q" by blast
  from guard(2) show "\<not> nonce_used (hq_headers q ''x-nonce'') s" .
  have "keeps (nonce_used n) (rateLimit p)" "keeps (nonce_used n) (permissionGuard required p)" for n
    by (unfold gate_op_defs) (intro gate_keeps; simp)+
  then show "nonce_used (hq_headers q ''x-nonce'') s'"
    using guard(3) keeps_result rate perm by metis
qed

lemma replay_refused:
  assumes "admit required q g s = (Inr p, s')" and "must_sign g s q"
    and "hq_headers q' ''x-nonce'' = hq_headers q ''x-nonce''" and "must_sign g' (run_gates cs s') q'"
  shows "\<not> is_ok (fst (admit required' q' g' (run_gates cs s')))"
proof
  assume "is_ok (fst (admit required' q' g' (run_gates cs s')))"
  then obtain p' s'' where "admit required' q' g' (run_gates cs s') = (Inr p', s'')"
    by (metis is_ok_iff prod.collapse)
  from admitted_signed(2) [OF this assms(4)] assms(3)
  have "\<not> nonce_used (hq_headers q ''x-nonce'') (run_gates cs s')" by simp
  with gates.keep [OF gate_keeps_nonces admitted_signed(3) [OF assms(1,2)]] show False by blast
qed

lemma reset_spends:
  assumes "resetPassword token new g s = (Inr (), s')"
  shows "spent (sha256Hex (gv g) token) s'"
  using assms
  by (auto simp: resetPassword_def assertPasswordStrength_def prog_simps spent_def find_row_set_by try_modify_def
      split: option.splits sum.splits if_splits)

lemma spent_refused:
  assumes "spent (sha256Hex (gv g) token) s"
  shows "resetPassword token new g s = (Inl (Unauthorized ''Invalid or expired reset token''), s)"
  using assms by (auto simp: resetPassword_def prog_simps spent_def split: option.splits)

lemma reset_token_single_use:
  assumes "resetPassword token new g s = (Inr (), s')" and "sha256Hex (gv g') token = sha256Hex (gv g) token"
  shows "resetPassword token new' g' (run_gates cs s') = (Inl (Unauthorized ''Invalid or expired reset token''), run_gates cs s')"
  using gates.keep [OF gate_keeps_spent reset_spends [OF assms(1)]] assms(2) by (simp add: spent_refused)

section \<open>What an admitted request has proved\<close>

lemma guard_roles: "gt_roles (snd (requestSignature q p g s)) = gt_roles s" "gt_roles (snd (rateLimit p g s)) = gt_roles s"
proof -
  have "leaves gt_roles (requestSignature q p)" "leaves gt_roles (rateLimit p)"
    by (unfold gate_op_defs; intro leaves_intros; auto split: if_splits)+
  then show "gt_roles (snd (requestSignature q p g s)) = gt_roles s" "gt_roles (snd (rateLimit p g s)) = gt_roles s"
    by (simp_all add: leavesD)
qed

lemma admitted_authenticated:
  assumes "admit required q g s = (Inr p, s')" and "requiredPlatform (hq_path q) = Some plat"
  shows "(\<exists>u. p = Some (UserP u) \<and> user_session g q plat u \<and> (\<forall>perm. required = Some perm \<and> perm \<noteq> [] \<longrightarrow>
          (\<exists>slugs. role_slugs (up_roles u) = Inr slugs \<and> holds_permission (gt_roles s) slugs perm)))
    \<or> (\<exists>k \<in> set (gt_clients s). p = Some (ClientP (client_principal k)) \<and> client_session g q plat k
         \<and> (cl_requireSignature k \<and> value_changing q \<longrightarrow> signed_request g k q \<and> \<not> nonce_used (hq_headers q ''x-nonce'') s))"
proof -
  from assms(1) obtain s2 s3 where sep: "clientSeparation q g s = (Inr p, s)"
      and sig: "requestSignature q p g s = (Inr (), s2)" and rate: "rateLimit p g s2 = (Inr (), s3)"
      and perm: "permissionGuard required p g s3 = (Inr (), s')"
    using separation_state [of q g s] by (auto simp: admit_eq_Inr)
  have roles: "gt_roles s3 = gt_roles s" using guard_roles(1) [of q p g s] guard_roles(2) [of p g s2] sig rate by simp
  from separation_Inr [OF sep assms(2)] show ?thesis
  proof
    assume "\<exists>u. p = Some (UserP u) \<and> user_session g q plat u"
    then obtain u where u: "p = Some (UserP u)" "user_session g q plat u" by blast
    from perm [unfolded u(1)] permission_Inr [of _ u g s3 s'] roles u show ?thesis by auto
  next
    assume "\<exists>k \<in> set (gt_clients s). p = Some (ClientP (client_principal k))
        \<and> find_row cl_oauthClientId (cl_oauthClientId k) (gt_clients s) = Some k \<and> client_session g q plat k"
    then obtain k where k: "k \<in> set (gt_clients s)" "p = Some (ClientP (client_principal k))"
        "find_row cl_oauthClientId (cl_oauthClientId k) (gt_clients s) = Some k" "client_session g q plat k" by blast
    from signature_Inr [OF sig [unfolded k(2)] _ k(3)] k show ?thesis by auto
  qed
qed

section \<open>How many requests of a client pass in a minute\<close>

fun admitted_as :: "string \<Rightarrow> (genv \<times> string option \<times> request) list \<Rightarrow> gate \<Rightarrow> nat" where
  "admitted_as i [] s = 0"
| "admitted_as i ((g, required, q) # cs) s = (case admit required q g s of
     (Inr (Some (ClientP c)), s') \<Rightarrow> (if ac_oauthClientId c = i then 1 else 0) + admitted_as i cs s'
   | (_, s') \<Rightarrow> admitted_as i cs s')"

text \<open>The window's counter has seen at least \<open>n\<close> calls and outlives the minute \<open>m\<close>.\<close>

definition counted :: "int \<Rightarrow> string \<Rightarrow> nat \<Rightarrow> counters \<Rightarrow> bool" where
  "counted m key n cs = (case find_row fst key cs of
     None \<Rightarrow> n = 0 | Some (_, count, resetMs) \<Rightarrow> int n \<le> count \<and> (m + 1) * 60000 \<le> resetMs)"

text \<open>Which counters a deployment uses: those in Redis when a connection is configured.\<close>

definition window :: "bool \<Rightarrow> gate \<Rightarrow> counters" where
  "window shared s = (if shared then gt_redis s else gt_mem s)"

lemma window_end: "0 \<le> g_now g \<Longrightarrow> (minute g + 1) * 60000 \<le> g_now g + resetSeconds g * 1000"
proof -
  assume pos: "0 \<le> g_now g"
  then have smod: "g_now g smod 60000 = g_now g mod 60000" by (simp add: smod_mod_positive)
  have floor: "r div 1000 * 1000 \<le> r" for r :: int
    using div_mult_mod_eq [of r 1000] pos_mod_sign [of 1000 r] by linarith
  have "(d + 1) * 60000 \<le> n + (60 - f) * 1000" if "f * 1000 \<le> r" "d * 60000 + r = n" for d f r n :: int
    using that by (simp add: algebra_simps)
  from this [OF floor div_mult_mod_eq] show ?thesis unfolding minute_def resetSeconds_def smod .
qed

lemma before_window_end: "minute g = m \<Longrightarrow> g_now g < (m + 1) * 60000"
  unfolding minute_def by presburger

lemma find_put: "find_row fst k (put key v cs) = (if k = key then Some (key, v) else find_row fst k cs)"
  by (auto simp: put_def find_row_set_row find_row_snoc has_row_find split: option.split)

lemma bump_counts:
  assumes "counted m key n cs" and "\<And>r. (m + 1) * 60000 \<le> r \<Longrightarrow> \<not> over r" and "(m + 1) * 60000 \<le> reset"
  shows "counted m key n (bump over reset key' cs)"
    and "counted m key (Suc n) (bump over reset key cs)"
    and "int n < counter over key cs"
  using assms by (auto simp: counted_def bump_def counter_def find_put split: option.splits)

lemma hour_later: "minute g = m \<Longrightarrow> 65 \<le> t \<Longrightarrow> (m + 1) * 60000 \<le> g_now g + t * 1000"
proof -
  assume "minute g = m" "65 \<le> t"
  then have "m * 60000 \<le> g_now g" unfolding minute_def by presburger
  with \<open>65 \<le> t\<close> show ?thesis by (simp add: algebra_simps)
qed

lemma mem_counts:
  assumes "counted m key n (gt_mem s)" and "minute g = m" and "0 \<le> g_now g"
  shows "counted m key n (gt_mem (mem_bump g key' s))" "counted m key (Suc n) (gt_mem (mem_bump g key s))"
    "int n < mem_count g key s"
  using bump_counts [OF assms(1), of "\<lambda>r. r < g_now g" "g_now g + resetSeconds g * 1000"]
    before_window_end [OF assms(2)] window_end [OF assms(3)] assms(2)
  by (auto simp: mem_bump_def mem_count_def)

lemma redis_counts:
  assumes "counted m key n (gt_redis s)" and "minute g = m" and "65 \<le> t"
  shows "counted m key n (gt_redis (redis_bump g t key' s))" "counted m key (Suc n) (gt_redis (redis_bump g t key s))"
    "int n < redis_count g key s"
  using bump_counts [OF assms(1), of "\<lambda>r. r \<le> g_now g" "g_now g + t * 1000"] before_window_end [OF assms(2)]
    hour_later [OF assms(2,3)]
  by (auto simp: redis_bump_def redis_count_def)

lemma signature_window: "window b (snd (requestSignature q p g s)) = window b s"
  "gt_clients (snd (requestSignature q p g s)) = gt_clients s"
proof -
  have "leaves gt_mem (requestSignature q p)" "leaves gt_redis (requestSignature q p)" "leaves gt_clients (requestSignature q p)"
    by (unfold gate_op_defs; intro leaves_intros; auto split: if_splits)+
  then show "window b (snd (requestSignature q p g s)) = window b s" "gt_clients (snd (requestSignature q p g s)) = gt_clients s"
    by (simp_all add: leavesD window_def)
qed

lemma permission_state: "snd (permissionGuard required p g s) = s"
  by (auto simp: permissionGuard_def prog_simps check_def split: option.split principal.split sum.split)

text \<open>The rate limiter on a client with an identifier, under each state of Redis.\<close>

definition limit_for :: "string \<Rightarrow> gate \<Rightarrow> int" where
  "limit_for i s = (case find_row cl_oauthClientId i (gt_clients s) of Some k \<Rightarrow> cl_rateLimitPerMin k | None \<Rightarrow> 600)"

lemma rateLimit_client:
  assumes "ac_oauthClientId c = i" and "i \<noteq> []"
  shows "redisLink g = NoRedis \<Longrightarrow> rateLimit (Some (ClientP c)) g s =
      (if mem_count g (rlKey i (minute g)) s \<le> limit_for i s then Inr () else Inl (TooManyRequests (resetSeconds g)),
       mem_bump g (rlKey i (minute g)) s)"
    and "redisLink g = RedisUp \<Longrightarrow> rateLimit (Some (ClientP c)) g s =
      (if redis_count g (rlKey i (minute g)) s \<le> limit_for i s then Inr () else Inl (TooManyRequests (resetSeconds g)),
       redis_bump g 93600 (usageKey i (g_now g div 3600000)) (redis_bump g 65 (rlKey i (minute g)) s))"
    and "redisLink g = RedisDown \<Longrightarrow> rateLimit (Some (ClientP c)) g s = (Inl (PlainError ''Redis command failed''), s)"
  using assms by (simp_all add: rateLimit_def consume_def limit_for_def Let_def prog_simps modify_def check_def)

lemma rateLimit_other: "rateLimit None g s = (Inr (), s)" "rateLimit (Some (UserP u)) g s = (Inr (), s)"
  "ac_oauthClientId c = [] \<Longrightarrow> rateLimit (Some (ClientP c)) g s = (Inr (), s)"
  by (simp_all add: rateLimit_def ret_def)

lemma rateLimit_counted:
  assumes "counted m key n (window b s)" and "(redisLink g \<noteq> NoRedis) = b" and "minute g = m" and "0 \<le> g_now g"
  shows "counted m key n (window b (snd (rateLimit p g s)))"
proof (cases "\<exists>c. p = Some (ClientP c) \<and> ac_oauthClientId c \<noteq> []")
  case True
  then obtain c where "p = Some (ClientP c)" "ac_oauthClientId c \<noteq> []" by blast
  with rateLimit_client [OF refl this(2), of g s] assms show ?thesis
    by (cases "redisLink g") (auto simp: window_def mem_counts(1) redis_counts(1))
next
  case False
  then have "p = None \<or> (\<exists>u. p = Some (UserP u)) \<or> (\<exists>c. p = Some (ClientP c) \<and> ac_oauthClientId c = [])"
    by (metis not_Some_eq principal.exhaust)
  then show ?thesis using assms(1) by (auto simp: rateLimit_other)
qed

lemma snd_bnd: "snd (bnd m f g s) = (case m g s of (Inl _, s') \<Rightarrow> s' | (Inr a, s') \<Rightarrow> snd (f a g s'))"
  by (simp add: bnd_def split: prod.split sum.split)

lemma admit_counted:
  assumes "counted m key n (window b s)" and "(redisLink g \<noteq> NoRedis) = b" and "minute g = m" and "0 \<le> g_now g"
  shows "counted m key n (window b (snd (admit required q g s)))"
proof -
  have sig: "counted m key n (window b (snd (requestSignature q p g s)))" for p
    using assms(1) by (simp add: signature_window(1))
  have "counted m key n (window b (snd (seq (rateLimit p) (seq (permissionGuard required p) (ret p)) g s')))"
    if "counted m key n (window b s')" for p s'
    using rateLimit_counted [OF that assms(2-4), of p] permission_state [of required p g]
    by (auto simp: seq_def snd_bnd ret_def split: prod.splits sum.splits) (metis snd_conv)+
  then show ?thesis
    using sig assms(1) separation_state [of q g s]
    by (auto simp: admit_def seq_def [of "requestSignature q _"] snd_bnd split: prod.split sum.split) (metis snd_conv)+
qed

lemma admit_client_counted:
  assumes "counted m (rlKey i m) n (window b s)" and "(redisLink g \<noteq> NoRedis) = b" and "minute g = m" and "0 \<le> g_now g"
    and "admit required q g s = (Inr (Some (ClientP c)), s')" and "ac_oauthClientId c = i" and "i \<noteq> []"
    and "find_row cl_oauthClientId i (gt_clients s) = Some k"
  shows "counted m (rlKey i m) (Suc n) (window b s') \<and> int (Suc n) \<le> cl_rateLimitPerMin k"
proof -
  from assms(5) separation_state [of q g s] obtain s2 s3 where
      sig: "requestSignature q (Some (ClientP c)) g s = (Inr (), s2)"
      and rate: "rateLimit (Some (ClientP c)) g s2 = (Inr (), s3)"
      and perm: "permissionGuard required (Some (ClientP c)) g s3 = (Inr (), s')"
    by (auto simp: admit_eq_Inr)
  from sig signature_window(1) [of b q "Some (ClientP c)" g s] signature_window(2) [of q "Some (ClientP c)" g s]
  have s2: "window b s2 = window b s" "gt_clients s2 = gt_clients s" by simp_all
  from perm permission_state [of required "Some (ClientP c)" g s3] have s': "s' = s3" by simp
  from assms(1) s2(1) have c2: "counted m (rlKey i m) n (window b s2)" by simp
  from s2(2) assms(8) have limit: "limit_for i s2 = cl_rateLimitPerMin k" by (simp add: limit_for_def)
  show ?thesis
  proof (cases "redisLink g")
    case NoRedis
    with rateLimit_client(1) [OF assms(6,7) NoRedis, of s2] rate limit assms(2,3) mem_counts(2,3) [of m "rlKey i m" n s2 g] c2 assms(4) s'
    show ?thesis by (auto simp: window_def split: if_splits)
  next
    case RedisUp
    note up = rateLimit_client(2) [OF assms(6,7) RedisUp, of s2]
    from RedisUp c2 assms(2) have c: "counted m (rlKey i m) n (gt_redis s2)" by (auto simp: window_def)
    from redis_counts(2) [OF c assms(3), of 65] have "counted m (rlKey i m) (Suc n) (gt_redis (redis_bump g 65 (rlKey i m) s2))" by simp
    from redis_counts(1) [OF this assms(3), of 93600] redis_counts(3) [OF c assms(3), of 65]
      up rate limit assms(2,3) s' RedisUp show ?thesis by (auto simp: window_def split: if_splits)
  next
    case RedisDown
    with rateLimit_client(3) [OF assms(6,7) RedisDown, of s2] rate show ?thesis by simp
  qed
qed

lemma gates_leave_clients: "gt_clients (snd (admit required q g s)) = gt_clients s"
proof -
  have "leaves gt_clients (admit required q)"
    by (unfold gate_op_defs; intro leaves_intros; auto split: if_splits)
  then show ?thesis by (simp add: leavesD)
qed

lemma admitted_within_limit:
  assumes "\<And>g required q. (g, required, q) \<in> set cs \<Longrightarrow> (redisLink g \<noteq> NoRedis) = b \<and> minute g = m \<and> 0 \<le> g_now g"
    and "find_row cl_oauthClientId i (gt_clients s) = Some k" and "i \<noteq> []"
    and "counted m (rlKey i m) n (window b s)" and "int n \<le> max 0 (cl_rateLimitPerMin k)"
  shows "int (n + admitted_as i cs s) \<le> max 0 (cl_rateLimitPerMin k)"
  using assms
proof (induction cs arbitrary: n s)
  case (Cons x cs)
  obtain g required q where x: "x = (g, required, q)" by (cases x)
  obtain r s' where r: "admit required q g s = (r, s')" by (cases "admit required q g s")
  from Cons.prems(1) [of g required q] have g: "(redisLink g \<noteq> NoRedis) = b" "minute g = m" "0 \<le> g_now g" by (simp_all add: x)
  from gates_leave_clients [of required q g s] r Cons.prems(2)
  have k: "find_row cl_oauthClientId i (gt_clients s') = Some k" by simp
  have IH: "int (n' + admitted_as i cs s') \<le> max 0 (cl_rateLimitPerMin k)"
    if "counted m (rlKey i m) n' (window b s')" "int n' \<le> max 0 (cl_rateLimitPerMin k)" for n'
    by (rule Cons.IH [OF _ k Cons.prems(3) that]) (metis Cons.prems(1) list.set_intros(2))
  show ?case
  proof (cases "\<exists>c. r = Inr (Some (ClientP c)) \<and> ac_oauthClientId c = i")
    case True
    then obtain c where c: "r = Inr (Some (ClientP c))" "ac_oauthClientId c = i" by blast
    from admit_client_counted [OF Cons.prems(4) g r [unfolded c(1)] c(2) Cons.prems(3,2)]
    have n: "counted m (rlKey i m) (Suc n) (window b s')" "int (Suc n) \<le> max 0 (cl_rateLimitPerMin k)" by simp_all
    from IH [OF n] show ?thesis by (simp add: x r c)
  next
    case False
    from admit_counted [OF Cons.prems(4) g, of required q] r have "counted m (rlKey i m) n (window b s')" by simp
    from IH [OF this Cons.prems(5)] False show ?thesis
      by (auto simp: x r split: sum.split option.split principal.split)
  qed
qed simp

end
