(* ===== verification/Sessions.thy ===== *)
theory Sessions
  imports Guards
begin

text \<open>
  Operator sessions from the password to the admitted request: the stored form of a password
  verifies the password it was made from, a session token gives back the principal it was
  issued for until it expires, and under enforced MFA a session that operator routes accept
  comes from a login that verified a TOTP code.
\<close>

section \<open>Stored passwords\<close>

lemma nibble_cases: "n < 16 \<Longrightarrow> n \<in> {0, 1, 2, 3, 4, 5, 6, 7, 8, 9, 10, 11, 12, 13, 14, 15}" for n :: nat
  by simp presburger

lemma hex_digit_val: "n < 16 \<Longrightarrow> digit_val 16 (hex_digit n) = Some n"
  by (auto simp: digit_val_def hex_digit_def Let_def dest!: nibble_cases)

lemma hex_digit_char: "n < 16 \<Longrightarrow> hex_digit n \<noteq> CHR ''$''"
  by (auto simp: hex_digit_def char_of_eq_iff dest!: nibble_cases)

lemma byte_bound: "unat (b :: 8 word) < 256"
  using unsigned_less [of b, where ?'a = nat] by simp

lemma hex_round_trip: "hex_decode (hex_encode bs) = bs"
proof (induction bs)
  case (Cons b bs)
  have "unat b div 16 < 16" using byte_bound [of b] by simp
  with Cons show ?case
    by (simp add: hex_encode_def byte_hex_def hex_digit_val)
qed (simp add: hex_encode_def)

lemma hex_no_dollar: "CHR ''$'' \<notin> set (hex_encode bs)"
proof (induction bs)
  case (Cons b bs)
  have "unat b div 16 < 16" using byte_bound [of b] by simp
  with Cons hex_digit_char [of "unat b div 16"] hex_digit_char [of "unat b mod 16"] show ?case
    by (auto simp: hex_encode_def byte_hex_def)
qed (simp add: hex_encode_def)

lemma stored_parts:
  "split_on (CHR ''$'') (''scrypt$16384$'' @ hex_encode salt @ ''$'' @ hex_encode hash) =
     [''scrypt'', ''16384'', hex_encode salt, hex_encode hash]"
  using split_on_part [of "CHR ''$''" "hex_encode salt" "hex_encode hash"] hex_no_dollar
  by (simp add: split_on_end)

lemma verifyPassword_stored:
  assumes "jsNumber g ''16384'' = Some 16384"
  shows "verifyPassword g password (''scrypt$16384$'' @ hex_encode salt @ ''$'' @ hex_encode hash) =
    bind_r (scryptSync g password salt (length hash) (Some 16384)) (\<lambda>actual. Inr (actual = hash))"
  unfolding verifyPassword_def stored_parts
  by (cases "scryptSync g password salt (length hash) (Some 16384)") (auto simp: assms hex_round_trip)

lemma password_round_trip:
  assumes "jsNumber g ''16384'' = Some 16384" and "hashPassword g password = Inr stored"
    and "\<And>h. scryptSync g password (randomBytes g 16) 64 (Some 16384) = Inr h \<Longrightarrow> length h = 64"
  shows "verifyPassword g password stored = Inr True"
proof -
  from assms(2) obtain h where h: "scryptSync g password (randomBytes g 16) 64 (Some 16384) = Inr h"
      and stored: "stored = ''scrypt$16384$'' @ hex_encode (randomBytes g 16) @ ''$'' @ hex_encode h"
    by (auto simp: hashPassword_def Let_def bind_r_eq_Inr)
  show ?thesis unfolding stored verifyPassword_stored [OF assms(1)] by (simp add: assms(3) [OF h] h)
qed

section \<open>Session tokens\<close>

definition token_body :: "genv \<Rightarrow> UserPrincipal \<Rightarrow> json" where
  "token_body g p = JObj [(''sub'', up_userId p), (''email'', up_email p), (''inst'', up_institution p),
     (''roles'', up_roles p), (''mfp'', JNum (if up_mfaPending p then 1 else 0)),
     (''exp'', JNum (g_now g div 1000 + SESSION_TTL_SECONDS g))]"

lemma issueToken_alt: "issueToken g p = encodeBody g (token_body g p) @ CHR ''.'' # hmacSha256 g (encodeBody g (token_body g p))"
  by (simp add: issueToken_def token_body_def Let_def)

lemma lastIndexOf_mid: "c \<notin> set b \<Longrightarrow> lastIndexOf c (a @ c # b) = Some (length a)"
proof -
  assume "c \<notin> set b"
  then have "takeWhile (\<lambda>d. d \<noteq> c) (rev b @ c # rev a) = rev b"
    using takeWhile_append2 [of "rev b" "\<lambda>d. d \<noteq> c" "c # rev a"] by auto
  then show ?thesis by (simp add: lastIndexOf_def)
qed

text \<open>
  What the platform relies on of Node's codecs for one token: the encoded body is not empty and
  decodes to what was encoded, and the encoded HMAC has no full stop (base64url).
\<close>

definition codec_ok :: "genv \<Rightarrow> genv \<Rightarrow> UserPrincipal \<Rightarrow> bool" where
  "codec_ok g g' p = (let body = encodeBody g (token_body g p) in body \<noteq> []
     \<and> decodeBody g' body = Some (token_body g p) \<and> CHR ''.'' \<notin> set (hmacSha256 g body) \<and> hmacSha256 g' body = hmacSha256 g body)"

lemma token_members:
  "member (token_body g p) ''sub'' = up_userId p" "member (token_body g p) ''email'' = up_email p"
  "member (token_body g p) ''inst'' = up_institution p" "member (token_body g p) ''roles'' = up_roles p"
  "member (token_body g p) ''mfp'' = JNum (if up_mfaPending p then 1 else 0)"
  "member (token_body g p) ''exp'' = JNum (g_now g div 1000 + SESSION_TTL_SECONDS g)"
  by (simp_all add: member_def token_body_def)

lemma token_round_trip:
  assumes "codec_ok g g' p"
  shows "verifyToken g' (issueToken g p) =
    Inr (if (g_now g div 1000 + SESSION_TTL_SECONDS g) * 1000 < g_now g' then None else Some p)"
proof -
  let ?body = "encodeBody g (token_body g p)"
  from assms have body: "?body \<noteq> []" "decodeBody g' ?body = Some (token_body g p)" "hmacSha256 g' ?body = hmacSha256 g ?body"
      and dot: "lastIndexOf (CHR ''.'') (issueToken g p) = Some (length ?body)"
    by (auto simp: codec_ok_def Let_def issueToken_alt lastIndexOf_mid)
  have "token_body g p \<noteq> JNull" by (simp add: token_body_def)
  with body show ?thesis
    unfolding verifyToken_def dot by (simp add: issueToken_alt timingSafeEqual_def token_members)
qed

section \<open>Logging in\<close>

definition session_of :: "genv \<Rightarrow> AuthUser \<Rightarrow> UserPrincipal" where
  "session_of g u = \<lparr>up_userId = JStr (au_id u), up_email = JStr (au_email u), up_institution = JStr (au_institution u),
     up_roles = JArr (map JStr (au_roles u)), up_mfaPending = (ENFORCE_OPERATOR_MFA g \<and> \<not> au_mfaEnabled u)\<rparr>"

lemma login_Session:
  assumes "login email password code g s = (Inr (Session tok pending), s')"
  shows "\<exists>u. find_row au_email email (gt_users s) = Some u \<and> \<not> au_disabled u \<and> password_ok g password u = Inr True
    \<and> (au_mfaEnabled u \<longrightarrow> (\<exists>secret c. au_mfaSecret u = Some secret \<and> code = Some c
         \<and> verifyTotp (hmacSha1 g) secret c (g_now g) = Inr True))
    \<and> tok = issueToken g (session_of g u) \<and> pending = (ENFORCE_OPERATOR_MFA g \<and> \<not> au_mfaEnabled u)"
  using assms
  by (auto simp: login_def prog_simps Let_def truthy_def session_of_def split: option.splits sum.splits if_splits)

lemma pending_session_refused:
  assumes "verifyToken g tok = Inr (Some u)" and "up_mfaPending u" and "bearer q = Some tok" and "tok \<noteq> []"
    and "requiredPlatform (hq_path q) = Some plat"
  shows "\<not> is_ok (fst (admit required q g s))"
proof -
  from assms(3,4) have "truthy (bearer q)" by (simp add: truthy_def)
  from separation_user [OF assms(5) this, of g s] assms have "\<not> is_ok (fst (clientSeparation q g s))" by simp
  then show ?thesis by (cases "clientSeparation q g s") (auto simp: admit_def bnd_def split: sum.split)
qed

lemma invalid_session_refused:
  assumes "verifyToken g tok = Inr None" and "bearer q = Some tok" and "tok \<noteq> []" and "requiredPlatform (hq_path q) = Some plat"
  shows "\<not> is_ok (fst (admit required q g s))"
proof -
  from assms(2,3) have "truthy (bearer q)" by (simp add: truthy_def)
  from separation_user [OF assms(4) this, of g s] assms have "\<not> is_ok (fst (clientSeparation q g s))" by simp
  then show ?thesis by (cases "clientSeparation q g s") (auto simp: admit_def bnd_def split: sum.split)
qed

lemma admitted_session_had_totp:
  assumes "login email password code g s = (Inr (Session tok pending), s')" and "ENFORCE_OPERATOR_MFA g"
    and "bearer q = Some tok" and "requiredPlatform (hq_path q) = Some plat"
    and "\<And>u. find_row au_email email (gt_users s) = Some u \<Longrightarrow> codec_ok g g' (session_of g u)"
    and "is_ok (fst (admit required q g' s2))"
  shows "\<exists>u secret c. find_row au_email email (gt_users s) = Some u \<and> \<not> au_disabled u \<and> password_ok g password u = Inr True
    \<and> au_mfaSecret u = Some secret \<and> code = Some c \<and> verifyTotp (hmacSha1 g) secret c (g_now g) = Inr True
    \<and> g_now g' \<le> (g_now g div 1000 + SESSION_TTL_SECONDS g) * 1000"
proof -
  from login_Session [OF assms(1)] obtain u where u: "find_row au_email email (gt_users s) = Some u" "\<not> au_disabled u"
      "password_ok g password u = Inr True" "tok = issueToken g (session_of g u)"
      "au_mfaEnabled u \<longrightarrow> (\<exists>secret c. au_mfaSecret u = Some secret \<and> code = Some c
        \<and> verifyTotp (hmacSha1 g) secret c (g_now g) = Inr True)"
    by blast
  have tok: "tok \<noteq> []" by (simp add: u(4) issueToken_alt)
  note trip = token_round_trip [OF assms(5) [OF u(1)], folded u(4)]
  have live: "g_now g' \<le> (g_now g div 1000 + SESSION_TTL_SECONDS g) * 1000"
    using trip invalid_session_refused [OF _ assms(3) tok assms(4)] assms(6) by (metis not_le)
  with trip have "verifyToken g' tok = Inr (Some (session_of g u))" by simp
  then have "\<not> up_mfaPending (session_of g u)" using pending_session_refused [OF _ _ assms(3) tok assms(4)] assms(6) by blast
  with assms(2) have "au_mfaEnabled u" by (simp add: session_of_def)
  with u live show ?thesis by blast
qed

end
