(* ===== verification/Permissions.thy ===== *)
theory Permissions
  imports Js_Values
begin

text \<open>
  \<open>packages/domain/src/permissions.ts\<close>: the permission catalogue, the built-in roles and
  the test whether a set of roles grants a permission. The lemmas show that no built-in
  role other than the super administrator holds both sides of a maker-checker pair.
\<close>

datatype Permission =
    ACCOUNT_REGISTER
  | ACCOUNT_ACTIVATE
  | ACCOUNT_CLOSE
  | PROGRAM_MANAGE
  | REGISTRY_MANAGE
  | DEPOSIT_VIEW
  | DEPOSIT_MATCH
  | DEPOSIT_CLEAR
  | FUNDING_CREATE
  | RESERVE_VIEW
  | MINT_REQUEST
  | MINT_APPROVE
  | MINT_REVOKE
  | REDEMPTION_APPROVE
  | PAYOUT_APPROVE
  | PAYKH_PROFILE_VERIFY
  | PAYKH_SETTLEMENT_APPROVE
  | COMPLIANCE_REVIEW
  | COMPLIANCE_HOLD
  | POR_GENERATE
  | ATTESTATION_APPROVE
  | ADMIN_USERS
  | ADMIN_ROLES
  | ADMIN_POLICIES
  | ADMIN_FEATURE_FLAGS
  | ADMIN_EMERGENCY
  | AUDIT_VIEW
  | EXECUTIVE_VIEW

primrec Permission_slug :: "Permission \<Rightarrow> string" where
  "Permission_slug ACCOUNT_REGISTER = ''account.register''"
| "Permission_slug ACCOUNT_ACTIVATE = ''account.activate''"
| "Permission_slug ACCOUNT_CLOSE = ''account.close''"
| "Permission_slug PROGRAM_MANAGE = ''program.manage''"
| "Permission_slug REGISTRY_MANAGE = ''registry.manage''"
| "Permission_slug DEPOSIT_VIEW = ''deposit.view''"
| "Permission_slug DEPOSIT_MATCH = ''deposit.match''"
| "Permission_slug DEPOSIT_CLEAR = ''deposit.clear''"
| "Permission_slug FUNDING_CREATE = ''funding.create''"
| "Permission_slug RESERVE_VIEW = ''reserve.view''"
| "Permission_slug MINT_REQUEST = ''mint.request''"
| "Permission_slug MINT_APPROVE = ''mint.approve''"
| "Permission_slug MINT_REVOKE = ''mint.revoke''"
| "Permission_slug REDEMPTION_APPROVE = ''redemption.approve''"
| "Permission_slug PAYOUT_APPROVE = ''payout.approve''"
| "Permission_slug PAYKH_PROFILE_VERIFY = ''paykh.profile.verify''"
| "Permission_slug PAYKH_SETTLEMENT_APPROVE = ''paykh.settlement.approve''"
| "Permission_slug COMPLIANCE_REVIEW = ''compliance.review''"
| "Permission_slug COMPLIANCE_HOLD = ''compliance.hold''"
| "Permission_slug POR_GENERATE = ''por.generate''"
| "Permission_slug ATTESTATION_APPROVE = ''attestation.approve''"
| "Permission_slug ADMIN_USERS = ''admin.users''"
| "Permission_slug ADMIN_ROLES = ''admin.roles''"
| "Permission_slug ADMIN_POLICIES = ''admin.policies''"
| "Permission_slug ADMIN_FEATURE_FLAGS = ''admin.feature-flags''"
| "Permission_slug ADMIN_EMERGENCY = ''admin.emergency''"
| "Permission_slug AUDIT_VIEW = ''audit.view''"
| "Permission_slug EXECUTIVE_VIEW = ''executive.view''"

definition ALL_PERMISSIONS :: "Permission list" where
  "ALL_PERMISSIONS = [ACCOUNT_REGISTER,
     ACCOUNT_ACTIVATE,
     ACCOUNT_CLOSE,
     PROGRAM_MANAGE,
     REGISTRY_MANAGE,
     DEPOSIT_VIEW,
     DEPOSIT_MATCH,
     DEPOSIT_CLEAR,
     FUNDING_CREATE,
     RESERVE_VIEW,
     MINT_REQUEST,
     MINT_APPROVE,
     MINT_REVOKE,
     REDEMPTION_APPROVE,
     PAYOUT_APPROVE,
     PAYKH_PROFILE_VERIFY,
     PAYKH_SETTLEMENT_APPROVE,
     COMPLIANCE_REVIEW,
     COMPLIANCE_HOLD,
     POR_GENERATE,
     ATTESTATION_APPROVE,
     ADMIN_USERS,
     ADMIN_ROLES,
     ADMIN_POLICIES,
     ADMIN_FEATURE_FLAGS,
     ADMIN_EMERGENCY,
     AUDIT_VIEW,
     EXECUTIVE_VIEW]"

record RoleDefinition =
  rd_slug :: string
  rd_name :: string
  rd_institution :: string
  rd_permissions :: "Permission list"

definition role :: "string \<Rightarrow> string \<Rightarrow> Permission list \<Rightarrow> RoleDefinition" where
  "role slug name ps = \<lparr>rd_slug = slug, rd_name = name, rd_institution = ''TRUSTEE_BANK'',
     rd_permissions = ps\<rparr>"

definition BUILTIN_ROLES :: "RoleDefinition list" where
  "BUILTIN_ROLES = [
     role ''trustee_super_admin'' ''Trustee Bank Super Administrator''
       ALL_PERMISSIONS,
     role ''trustee_operations_maker'' ''Trustee Operations Maker''
       [DEPOSIT_VIEW, DEPOSIT_MATCH, FUNDING_CREATE, RESERVE_VIEW, MINT_REQUEST],
     role ''trustee_operations_checker'' ''Trustee Operations Checker''
       [DEPOSIT_VIEW, DEPOSIT_CLEAR, RESERVE_VIEW, MINT_APPROVE, MINT_REVOKE],
     role ''treasury_maker'' ''Treasury Maker''
       [RESERVE_VIEW, POR_GENERATE],
     role ''treasury_checker'' ''Treasury Checker''
       [RESERVE_VIEW, PAYOUT_APPROVE, REDEMPTION_APPROVE],
     role ''compliance_analyst'' ''Compliance Analyst''
       [COMPLIANCE_REVIEW],
     role ''compliance_approver'' ''Compliance Approver''
       [COMPLIANCE_REVIEW, COMPLIANCE_HOLD],
     role ''internal_auditor'' ''Internal Auditor''
       [AUDIT_VIEW, RESERVE_VIEW, EXECUTIVE_VIEW],
     role ''security_admin'' ''Security Administrator''
       [ADMIN_USERS, ADMIN_ROLES, ADMIN_EMERGENCY],
     role ''readonly_executive'' ''Read-only Executive''
       [EXECUTIVE_VIEW, RESERVE_VIEW]]"

definition roleSetHasPermission :: "RoleDefinition list \<Rightarrow> Permission \<Rightarrow> bool" where
  "roleSetHasPermission roleDefs permission = list_ex (\<lambda>r. permission \<in> set (rd_permissions r)) roleDefs"

section \<open>Lemmas\<close>

lemma ALL_PERMISSIONS_complete: "p \<in> set ALL_PERMISSIONS"
  by (cases p) (simp_all add: ALL_PERMISSIONS_def)

lemma Permission_slug_inj: "Permission_slug p = Permission_slug q \<Longrightarrow> p = q"
  by (cases p; cases q) simp_all

lemma roleSetHasPermission_iff:
  "roleSetHasPermission rs p \<longleftrightarrow> (\<exists>r \<in> set rs. p \<in> set (rd_permissions r))"
  by (simp add: roleSetHasPermission_def list_ex_iff)

lemma builtin_roles_segregated:
  assumes "r \<in> set BUILTIN_ROLES" and "rd_slug r \<noteq> ''trustee_super_admin''"
  shows "\<not> (MINT_REQUEST \<in> set (rd_permissions r) \<and> MINT_APPROVE \<in> set (rd_permissions r))
       \<and> \<not> (DEPOSIT_MATCH \<in> set (rd_permissions r) \<and> DEPOSIT_CLEAR \<in> set (rd_permissions r))"
  using assms by (auto simp: BUILTIN_ROLES_def role_def)

end
