(* ===== verification/Abac.thy ===== *)
theory Abac
  imports Js_Values
begin

text \<open>
  \<open>packages/domain/src/abac.ts\<close>: attribute-based approval policies. The lemmas characterise the decision: a matching DENY blocks
  whatever its priority, otherwise the highest-priority matching REQUIRE rule decides,
  otherwise two approvals are needed.
\<close>

section \<open>Approval policies\<close>

record AbacTransaction =
  tx_transactionType :: string
  tx_amountMinor :: "int option"
  tx_currency :: "string option"
  tx_riskLevel :: "string option"
  tx_programId :: "string option"
  tx_assetId :: "string option"
  tx_jurisdiction :: "string option"

record AbacPolicyRule =
  pr_id :: string
  pr_transactionType :: string
  pr_minAmountMinor :: "int option"
  pr_maxAmountMinor :: "int option"
  pr_currency :: "string option"
  pr_riskLevel :: "string option"
  pr_programId :: "string option"
  pr_assetId :: "string option"
  pr_jurisdiction :: "string option"
  pr_requiredApprovals :: int
  pr_requiredRoles :: "string list"
  pr_effect :: string
  pr_priority :: int
  pr_enabled :: bool

record AbacDecision =
  ad_denied :: bool
  ad_requiredApprovals :: int
  ad_requiredRoles :: "string list"
  ad_matchedPolicyId :: "string option"

text \<open>\<open>if (policy.x && policy.x !== tx.x) return false\<close>: an empty or null attribute matches all.\<close>

definition attr_ok :: "string option \<Rightarrow> string option \<Rightarrow> bool" where
  "attr_ok p t = (\<not> (truthy p \<and> p \<noteq> t))"

definition matches :: "AbacPolicyRule \<Rightarrow> AbacTransaction \<Rightarrow> bool" where
  "matches policy tx =
     (if \<not> pr_enabled policy then False
      else if pr_transactionType policy \<noteq> tx_transactionType tx then False
      else if \<not> attr_ok (pr_currency policy) (tx_currency tx) then False
      else if \<not> attr_ok (pr_riskLevel policy) (tx_riskLevel tx) then False
      else if \<not> attr_ok (pr_programId policy) (tx_programId tx) then False
      else if \<not> attr_ok (pr_assetId policy) (tx_assetId tx) then False
      else if \<not> attr_ok (pr_jurisdiction policy) (tx_jurisdiction tx) then False
      else if (case pr_minAmountMinor policy of None \<Rightarrow> False
               | Some m \<Rightarrow> (case tx_amountMinor tx of None \<Rightarrow> True | Some a \<Rightarrow> a < m)) then False
      else if (case pr_maxAmountMinor policy of None \<Rightarrow> False
               | Some m \<Rightarrow> (case tx_amountMinor tx of None \<Rightarrow> True | Some a \<Rightarrow> a > m)) then False
      else True)"

definition evaluateAbac :: "AbacPolicyRule list \<Rightarrow> AbacTransaction \<Rightarrow> AbacDecision" where
  "evaluateAbac policies tx =
     (let matched = sort_key (\<lambda>p. - pr_priority p) (filter (\<lambda>p. matches p tx) policies) in
      case find (\<lambda>p. pr_effect p = ''DENY'') matched of
        Some deny \<Rightarrow> \<lparr>ad_denied = True, ad_requiredApprovals = 0, ad_requiredRoles = [],
                     ad_matchedPolicyId = Some (pr_id deny)\<rparr>
      | None \<Rightarrow>
        (case find (\<lambda>p. pr_effect p = ''REQUIRE'') matched of
           Some req \<Rightarrow> \<lparr>ad_denied = False, ad_requiredApprovals = pr_requiredApprovals req,
                       ad_requiredRoles = pr_requiredRoles req, ad_matchedPolicyId = Some (pr_id req)\<rparr>
         | None \<Rightarrow> \<lparr>ad_denied = False, ad_requiredApprovals = 2, ad_requiredRoles = [],
                    ad_matchedPolicyId = None\<rparr>))"

section \<open>The decision\<close>

lemma find_None_set: "find p xs = None \<longleftrightarrow> (\<forall>x \<in> set xs. \<not> p x)"
  by (auto simp: find_None_iff)

text \<open>The first match in a list sorted by descending priority has the highest priority.\<close>

lemma find_sorted_max:
  fixes k :: "'a \<Rightarrow> int"
  assumes "sorted (map k xs)" and "find p xs = Some x" and "y \<in> set xs" and "p y"
  shows "k x \<le> k y"
  using assms by (induction xs) (auto split: if_splits)

lemma abac_denied_iff:
  "ad_denied (evaluateAbac ps tx) \<longleftrightarrow> (\<exists>p \<in> set ps. matches p tx \<and> pr_effect p = ''DENY'')"
proof (cases "find (\<lambda>p. pr_effect p = ''DENY'')
    (sort_key (\<lambda>p. - pr_priority p) (filter (\<lambda>p. matches p tx) ps))")
  case None
  then have "\<not> (\<exists>p \<in> set ps. matches p tx \<and> pr_effect p = ''DENY'')"
    by (auto simp: find_None_set)
  with None show ?thesis by (simp add: evaluateAbac_def split: option.split)
next
  case (Some p)
  with find_in_set [OF this] show ?thesis by (auto simp: evaluateAbac_def)
qed

lemma abac_not_denied:
  assumes "\<not> ad_denied (evaluateAbac ps tx)"
  shows "(\<exists>p \<in> set ps. matches p tx \<and> pr_effect p = ''REQUIRE''
        \<and> ad_matchedPolicyId (evaluateAbac ps tx) = Some (pr_id p)
        \<and> ad_requiredApprovals (evaluateAbac ps tx) = pr_requiredApprovals p
        \<and> ad_requiredRoles (evaluateAbac ps tx) = pr_requiredRoles p
        \<and> (\<forall>q \<in> set ps. matches q tx \<and> pr_effect q = ''REQUIRE'' \<longrightarrow> pr_priority q \<le> pr_priority p))
     \<or> (\<forall>q \<in> set ps. matches q tx \<longrightarrow> pr_effect q \<noteq> ''REQUIRE'')
        \<and> evaluateAbac ps tx = \<lparr>ad_denied = False, ad_requiredApprovals = 2, ad_requiredRoles = [],
             ad_matchedPolicyId = None\<rparr>"
proof -
  let ?m = "sort_key (\<lambda>p. - pr_priority p) (filter (\<lambda>p. matches p tx) ps)"
  from assms have nd: "find (\<lambda>p. pr_effect p = ''DENY'') ?m = None"
    by (auto simp: evaluateAbac_def Let_def split: option.splits)
  show ?thesis
  proof (cases "find (\<lambda>p. pr_effect p = ''REQUIRE'') ?m")
    case None
    with nd have "evaluateAbac ps tx = \<lparr>ad_denied = False, ad_requiredApprovals = 2,
        ad_requiredRoles = [], ad_matchedPolicyId = None\<rparr>"
      by (simp add: evaluateAbac_def Let_def)
    moreover from None have "\<forall>q \<in> set ps. matches q tx \<longrightarrow> pr_effect q \<noteq> ''REQUIRE''"
      by (auto simp: find_None_set)
    ultimately show ?thesis by blast
  next
    case (Some p)
    from find_in_set [OF this] have p: "p \<in> set ps" "matches p tx" "pr_effect p = ''REQUIRE''"
      by auto
    have "pr_priority q \<le> pr_priority p"
      if "q \<in> set ps" "matches q tx" "pr_effect q = ''REQUIRE''" for q
      using find_sorted_max [of "\<lambda>p. - pr_priority p" ?m, OF _ Some, of q] that by simp
    moreover from nd Some have "evaluateAbac ps tx = \<lparr>ad_denied = False,
        ad_requiredApprovals = pr_requiredApprovals p, ad_requiredRoles = pr_requiredRoles p,
        ad_matchedPolicyId = Some (pr_id p)\<rparr>"
      by (simp add: evaluateAbac_def Let_def)
    ultimately show ?thesis using p by auto
  qed
qed

end
