(* ===== verification/Admin.thy ===== *)
theory Admin
  imports Sessions Platform_Admin Permissions Abac
begin

text \<open>
  \<open>modules/admin/admin.service.ts\<close>: users, roles and client applications over the admission
  state, approval policies over their own table, and feature flags, emergency controls, programs
  and trustee accounts over the platform state. The columns of programs, accounts and controls
  that no modelled operation reads are not kept; the stakeholder e-mail of \<open>setControl\<close> is output
  only. The lemmas say that every mutation is audited, that roles only grant catalogued
  permissions, that built-in roles are never deleted, and what rotating a secret, disabling a
  client and disabling a user do to the requests that follow.
\<close>

section \<open>Users\<close>

definition g_audit :: "AuditRecord \<Rightarrow> unit gop" where
  "g_audit entry = modify (\<lambda>s. s\<lparr>gt_audits := gt_audits s @ [audit_row entry]\<rparr>)"

record CreateUser =
  cu_email :: string
  cu_displayName :: string
  cu_institution :: string
  cu_roles :: "string list"
  cu_attributes :: "json option"
  cu_password :: "string option"
  cu_actor :: string

definition strings :: "string list \<Rightarrow> json" where
  "strings xs = JArr (map JStr xs)"

definition tempPassword :: "genv \<Rightarrow> string option \<Rightarrow> string option" where
  "tempPassword g supplied = (if truthy supplied \<and> 10 \<le> length (the supplied) then None
     else Some (''Tmp!'' @ base64url g (randomBytes g 9)))"

definition createUser :: "CreateUser \<Rightarrow> (string \<times> string \<times> string option) gop" where
  "createUser input = bnd (asks id) (\<lambda>g.
     let temp = tempPassword g (cu_password input); password = (case temp of None \<Rightarrow> the (cu_password input) | Some t \<Rightarrow> t) in
     bnd (lift_r (hashPassword g password)) (\<lambda>h.
     let user = \<lparr>au_id = newId (gv g), au_email = cu_email input, au_displayName = cu_displayName input,
       au_institution = cu_institution input, au_roles = cu_roles input, au_disabled = False, au_passwordHash = Some h,
       au_mfaSecret = None, au_mfaEnabled = False, au_attributes = cu_attributes input\<rparr> in
     seq (try_modify (\<lambda>s. if has_row au_id (au_id user) (gt_users s) \<or> has_row au_email (au_email user) (gt_users s)
       then Inl (UniqueViolation ''User'') else Inr (s\<lparr>gt_users := gt_users s @ [user]\<rparr>)))
     (seq (g_audit ((audit_rec (cu_actor input) ''admin.user.created'' ''USER'' (au_id user))
        \<lparr>ar_afterState := Some (JObj [(''roles'', strings (cu_roles input)), (''institution'', JStr (cu_institution input))])\<rparr>))
     (ret (au_id user, au_email user, temp)))))"

definition setUserRoles :: "string \<Rightarrow> string list \<Rightarrow> string \<Rightarrow> unit gop" where
  "setUserRoles userId roles actor =
     bnd (find_or (\<lambda>s. find_row au_id userId (gt_users s)) (NotFound ''User not found'')) (\<lambda>before.
     seq (set_user userId (\<lambda>u. u\<lparr>au_roles := roles\<rparr>))
     (g_audit ((audit_rec actor ''admin.user.roles_changed'' ''USER'' userId)
        \<lparr>ar_beforeState := Some (JObj [(''roles'', strings (au_roles before))]),
         ar_afterState := Some (JObj [(''roles'', strings roles)])\<rparr>)))"

definition setUserDisabled :: "string \<Rightarrow> bool \<Rightarrow> string \<Rightarrow> unit gop" where
  "setUserDisabled userId disabled actor =
     seq (set_user userId (\<lambda>u. u\<lparr>au_disabled := disabled\<rparr>))
     (g_audit (audit_rec actor (if disabled then ''admin.user.disabled'' else ''admin.user.enabled'') ''USER'' userId))"

section \<open>Roles\<close>

definition catalogued :: "string \<Rightarrow> bool" where
  "catalogued p = (p \<in> set (map Permission_slug ALL_PERMISSIONS))"

record UpsertRole =
  ur_slug :: string
  ur_name :: string
  ur_institution :: string
  ur_description :: "string option"
  ur_permissions :: "string list"
  ur_actor :: string

definition upsertRole :: "UpsertRole \<Rightarrow> unit gop" where
  "upsertRole input = (let invalid = filter (\<lambda>p. \<not> catalogued p) (ur_permissions input) in
     seq (check (invalid = []) (BadRequestReasons ''Unknown permissions'' invalid))
     (seq (modify (\<lambda>s. s\<lparr>gt_roles := (if has_row role_slug (ur_slug input) (gt_roles s)
        then set_row role_slug (ur_slug input) (\<lambda>r. r\<lparr>role_name := ur_name input, role_description := ur_description input,
          role_institution := ur_institution input, role_permissions := ur_permissions input\<rparr>) (gt_roles s)
        else gt_roles s @ [\<lparr>role_slug = ur_slug input, role_name = ur_name input, role_institution = ur_institution input,
          role_description = ur_description input, role_permissions = ur_permissions input, role_builtin = False\<rparr>])\<rparr>))
     (g_audit ((audit_rec (ur_actor input) ''admin.role.upserted'' ''ROLE'' (ur_slug input))
        \<lparr>ar_afterState := Some (JObj [(''permissions'', strings (ur_permissions input))])\<rparr>))))"

definition deleteRole :: "string \<Rightarrow> string \<Rightarrow> unit gop" where
  "deleteRole slug actor =
     bnd (find_or (\<lambda>s. find_row role_slug slug (gt_roles s)) (NotFound ''Role not found'')) (\<lambda>role.
     seq (check (\<not> role_builtin role) (BadRequest ''Cannot delete a built-in role''))
     (seq (modify (\<lambda>s. s\<lparr>gt_roles := filter (\<lambda>r. role_slug r \<noteq> slug) (gt_roles s)\<rparr>))
     (g_audit (audit_rec actor ''admin.role.deleted'' ''ROLE'' slug))))"

definition sort_strings :: "string list \<Rightarrow> string list" where
  "sort_strings xs = map fst (sort_members (map (\<lambda>x. (x, ())) xs))"

definition effectivePermissions :: "string \<Rightarrow> (string list \<times> string list) gop" where
  "effectivePermissions userId =
     bnd (find_or (\<lambda>s. find_row au_id userId (gt_users s)) (NotFound ''User not found'')) (\<lambda>user.
     bnd (gets (\<lambda>s. filter (\<lambda>r. role_slug r \<in> set (au_roles user)) (gt_roles s))) (\<lambda>roles.
     ret (au_roles user, sort_strings (remdups (concat (map role_permissions roles))))))"

section \<open>Client applications\<close>

definition update_client :: "string \<Rightarrow> (ClientApplication \<Rightarrow> ClientApplication) \<Rightarrow> unit gop" where
  "update_client platform f = try_modify (\<lambda>s. if has_row cl_platform platform (gt_clients s)
     then Inr (s\<lparr>gt_clients := set_row cl_platform platform f (gt_clients s)\<rparr>) else Inl (RecordNotFound ''ClientApplication''))"

definition setClientRateLimit :: "string \<Rightarrow> int \<Rightarrow> string \<Rightarrow> unit gop" where
  "setClientRateLimit platform rateLimitPerMin actor =
     seq (check (\<not> (rateLimitPerMin < 1 \<or> rateLimitPerMin > 1000000)) (BadRequest ''rateLimitPerMin must be between 1 and 1,000,000''))
     (seq (update_client platform (\<lambda>k. k\<lparr>cl_rateLimitPerMin := rateLimitPerMin\<rparr>))
     (g_audit ((audit_rec actor ''admin.client.rate_limit_updated'' ''CLIENT_APPLICATION'' platform)
        \<lparr>ar_afterState := Some (JObj [(''rateLimitPerMin'', JNum rateLimitPerMin)])\<rparr>)))"

definition setClientDisabled :: "string \<Rightarrow> bool \<Rightarrow> string \<Rightarrow> unit gop" where
  "setClientDisabled platform disabled actor =
     seq (update_client platform (\<lambda>k. k\<lparr>cl_disabled := disabled\<rparr>))
     (g_audit (audit_rec actor (if disabled then ''admin.client.disabled'' else ''admin.client.enabled'') ''CLIENT_APPLICATION'' platform))"

definition setClientKey :: "string \<Rightarrow> string option \<Rightarrow> bool \<Rightarrow> string \<Rightarrow> unit gop" where
  "setClientKey platform publicKeyPem requireSignature actor =
     seq (update_client platform (\<lambda>k. k\<lparr>cl_publicKeyPem := publicKeyPem, cl_requireSignature := requireSignature\<rparr>))
     (g_audit ((audit_rec actor ''admin.client.key_updated'' ''CLIENT_APPLICATION'' platform)
        \<lparr>ar_afterState := Some (JObj [(''requireSignature'', JBool requireSignature), (''hasKey'', JBool (truthy publicKeyPem))])\<rparr>))"

definition rotateClientSecret :: "string \<Rightarrow> string \<Rightarrow> string gop" where
  "rotateClientSecret platform actor = bnd (asks id) (\<lambda>g.
     let clientSecret = ''sk_'' @ base64url g (randomBytes g 24) in
     seq (update_client platform (\<lambda>k. k\<lparr>cl_clientSecretHash := Some (sha256Hex (gv g) clientSecret)\<rparr>))
     (seq (g_audit (audit_rec actor ''admin.client.secret_rotated'' ''CLIENT_APPLICATION'' platform))
     (ret clientSecret)))"

text \<open>The pattern \<open>/^https:\/\/.+/\<close>: at least one character that is not a line terminator follows.\<close>

definition https_url :: "string \<Rightarrow> bool" where
  "https_url url = (startsWith ''https://'' url \<and> (case drop 8 url of [] \<Rightarrow> False | c # _ \<Rightarrow> (of_char c :: nat) \<notin> {10, 13}))"

definition setClientWebhookUrl :: "string \<Rightarrow> string \<Rightarrow> string \<Rightarrow> unit gop" where
  "setClientWebhookUrl platform webhookUrl actor =
     seq (check (https_url webhookUrl) (BadRequest ''webhookUrl must be an absolute https URL''))
     (seq (update_client platform (\<lambda>k. k\<lparr>cl_webhookUrl := Some webhookUrl\<rparr>))
     (g_audit ((audit_rec actor ''admin.client.webhook_updated'' ''CLIENT_APPLICATION'' platform)
        \<lparr>ar_afterState := Some (JObj [(''webhookUrl'', JStr webhookUrl)])\<rparr>)))"

section \<open>Approval policies\<close>

record PolicyRow = AbacPolicyRule +
  pr_name :: string
  pr_description :: "string option"

record policy_st =
  pl_policies :: "PolicyRow list"
  pl_audits :: "AuditLog list"

type_synonym 'a pop = "(env, policy_st, 'a) prog"

datatype amount_arg = AmountText string | AmountNumber js_number

fun amount_bigint :: "amount_arg option \<Rightarrow> int option res" where
  "amount_bigint None = Inr None"
| "amount_bigint (Some (AmountText s)) = bind_r (BigInt s) (\<lambda>i. Inr (Some i))"
| "amount_bigint (Some (AmountNumber x)) = (if Number_isInteger x then Inr (Some \<lfloor>x\<rfloor>) else Inl (PlainError ''RangeError''))"

record PolicyInput =
  pi_id :: "string option"
  pi_name :: string
  pi_description :: "string option"
  pi_transactionType :: string
  pi_minAmountMinor :: "amount_arg option"
  pi_maxAmountMinor :: "amount_arg option"
  pi_currency :: "string option"
  pi_riskLevel :: "string option"
  pi_programId :: "string option"
  pi_assetId :: "string option"
  pi_jurisdiction :: "string option"
  pi_requiredApprovals :: "int option"
  pi_requiredRoles :: "string list option"
  pi_effect :: "string option"
  pi_priority :: "int option"
  pi_enabled :: "bool option"
  pi_actor :: string

definition policy_row :: "string \<Rightarrow> PolicyInput \<Rightarrow> int option \<Rightarrow> int option \<Rightarrow> PolicyRow" where
  "policy_row i input mn mx = \<lparr>pr_id = i, pr_transactionType = pi_transactionType input, pr_minAmountMinor = mn,
     pr_maxAmountMinor = mx, pr_currency = pi_currency input, pr_riskLevel = pi_riskLevel input,
     pr_programId = pi_programId input, pr_assetId = pi_assetId input, pr_jurisdiction = pi_jurisdiction input,
     pr_requiredApprovals = or_default (pi_requiredApprovals input) 2, pr_requiredRoles = or_default (pi_requiredRoles input) [],
     pr_effect = or_default (pi_effect input) ''REQUIRE'', pr_priority = or_default (pi_priority input) 100,
     pr_enabled = or_default (pi_enabled input) True, pr_name = pi_name input, pr_description = pi_description input\<rparr>"

definition p_audit :: "AuditRecord \<Rightarrow> unit pop" where
  "p_audit entry = modify (\<lambda>s. s\<lparr>pl_audits := pl_audits s @ [audit_row entry]\<rparr>)"

definition upsertPolicy :: "PolicyInput \<Rightarrow> string pop" where
  "upsertPolicy input = bnd (asks newId) (\<lambda>fresh.
     bnd (lift_r (amount_bigint (pi_minAmountMinor input))) (\<lambda>mn.
     bnd (lift_r (amount_bigint (pi_maxAmountMinor input))) (\<lambda>mx.
     let i = (if truthy (pi_id input) then the (pi_id input) else fresh); row = policy_row i input mn mx in
     seq (try_modify (\<lambda>s. if truthy (pi_id input)
        then (if has_row pr_id i (pl_policies s) then Inr (s\<lparr>pl_policies := set_row pr_id i (\<lambda>_. row) (pl_policies s)\<rparr>)
              else Inl (RecordNotFound ''AbacPolicy''))
        else if has_row pr_id i (pl_policies s) then Inl (UniqueViolation ''AbacPolicy'')
        else Inr (s\<lparr>pl_policies := pl_policies s @ [row]\<rparr>)))
     (seq (p_audit ((audit_rec (pi_actor input) ''admin.policy.upserted'' ''ABAC_POLICY'' i)
        \<lparr>ar_afterState := Some (JObj [(''transactionType'', JStr (pr_transactionType row)), (''effect'', JStr (pr_effect row))])\<rparr>))
     (ret i)))))"

definition deletePolicy :: "string \<Rightarrow> string \<Rightarrow> unit pop" where
  "deletePolicy i actor =
     seq (try_modify (\<lambda>s. if has_row pr_id i (pl_policies s)
       then Inr (s\<lparr>pl_policies := filter (\<lambda>p. pr_id p \<noteq> i) (pl_policies s)\<rparr>) else Inl (RecordNotFound ''AbacPolicy'')))
     (p_audit (audit_rec actor ''admin.policy.deleted'' ''ABAC_POLICY'' i))"

definition evaluate :: "AbacTransaction \<Rightarrow> policy_st \<Rightarrow> AbacDecision" where
  "evaluate tx s = evaluateAbac (map AbacPolicyRule.truncate
     (filter (\<lambda>p. pr_transactionType p = tx_transactionType tx \<and> pr_enabled p) (pl_policies s))) tx"

section \<open>Administrative calls\<close>

datatype admin_call =
    CreateUserCall CreateUser
  | SetUserRoles string "string list" string
  | SetUserDisabled string bool string
  | UpsertRoleCall UpsertRole
  | DeleteRole string string
  | SetClientRateLimit string int string
  | SetClientDisabled string bool string
  | SetClientKey string "string option" bool string
  | RotateClientSecret string string
  | SetClientWebhookUrl string string string

fun run_admin :: "admin_call \<Rightarrow> unit gop" where
  "run_admin (CreateUserCall input) = quiet (createUser input)"
| "run_admin (SetUserRoles i roles actor) = setUserRoles i roles actor"
| "run_admin (SetUserDisabled i off actor) = setUserDisabled i off actor"
| "run_admin (UpsertRoleCall input) = upsertRole input"
| "run_admin (DeleteRole slug actor) = deleteRole slug actor"
| "run_admin (SetClientRateLimit p n actor) = setClientRateLimit p n actor"
| "run_admin (SetClientDisabled p off actor) = setClientDisabled p off actor"
| "run_admin (SetClientKey p pem sig actor) = setClientKey p pem sig actor"
| "run_admin (RotateClientSecret p actor) = quiet (rotateClientSecret p actor)"
| "run_admin (SetClientWebhookUrl p url actor) = setClientWebhookUrl p url actor"

fun admin_actor :: "admin_call \<Rightarrow> string" where
  "admin_actor (CreateUserCall input) = cu_actor input"
| "admin_actor (SetUserRoles _ _ actor) = actor"
| "admin_actor (SetUserDisabled _ _ actor) = actor"
| "admin_actor (UpsertRoleCall input) = ur_actor input"
| "admin_actor (DeleteRole _ actor) = actor"
| "admin_actor (SetClientRateLimit _ _ actor) = actor"
| "admin_actor (SetClientDisabled _ _ actor) = actor"
| "admin_actor (SetClientKey _ _ _ actor) = actor"
| "admin_actor (RotateClientSecret _ actor) = actor"
| "admin_actor (SetClientWebhookUrl _ _ actor) = actor"

lemmas admin_op_defs = createUser_def setUserRoles_def setUserDisabled_def upsertRole_def deleteRole_def
  setClientRateLimit_def setClientDisabled_def setClientKey_def rotateClientSecret_def setClientWebhookUrl_def
  update_client_def set_user_def g_audit_def Let_def

section \<open>Every change is audited, a refused call changes nothing\<close>

text \<open>
  \<open>audited a m\<close>: the program either throws and leaves the state alone, or returns and has added
  one audit row with the actor \<open>a\<close>.
\<close>

definition audited :: "string \<Rightarrow> 'a gop \<Rightarrow> bool" where
  "audited a m \<longleftrightarrow> (\<forall>g s s'. (\<forall>x. m g s = (Inl x, s') \<longrightarrow> s' = s)
     \<and> (\<forall>v. m g s = (Inr v, s') \<longrightarrow> (\<exists>row. gt_audits s' = gt_audits s @ [row] \<and> al_actor row = a)))"

definition silent :: "'a gop \<Rightarrow> bool" where
  "silent m \<longleftrightarrow> (\<forall>g s s'. (\<forall>x. m g s = (Inl x, s') \<longrightarrow> s' = s) \<and> (\<forall>v. m g s = (Inr v, s') \<longrightarrow> gt_audits s' = gt_audits s))"

definition readonly :: "'a gop \<Rightarrow> bool" where
  "readonly m \<longleftrightarrow> (\<forall>g s. snd (m g s) = s)"

lemma readonly_basic:
  "readonly (check b x)" "readonly (find_or f x)" "readonly (asks h)" "readonly (lift_r r)"
  by (simp_all add: readonly_def check_def find_or_def asks_def lift_r_def split: option.split)

lemma audited_read:
  assumes "readonly m" and "\<And>a'. audited a (f a')"
  shows "audited a (bnd m f)"
proof -
  have "bnd m f g s = (case fst (m g s) of Inl x \<Rightarrow> (Inl x, s) | Inr v \<Rightarrow> f v g s)" for g s
  proof -
    have "snd (m g s) = s" using assms(1) by (simp add: readonly_def)
    then show ?thesis by (cases "m g s") (auto simp: bnd_def split: sum.split)
  qed
  then show ?thesis using assms(2) unfolding audited_def by (simp split: sum.split)
qed

lemma audited_write:
  assumes "silent m" and "al_actor (audit_row entry) = a"
  shows "audited a (seq m (g_audit entry))"
    and "audited a (seq m (seq (g_audit entry) (ret v)))"
  using assms unfolding audited_def silent_def
  by (fastforce simp: seq_def bnd_def g_audit_def modify_def ret_def split: prod.splits sum.splits)+

lemma audited_seq_check: "audited a n \<Longrightarrow> audited a (seq (check b x) n)"
  by (simp add: seq_def audited_read readonly_basic)

lemma audited_quiet: "audited a m \<Longrightarrow> audited a (quiet m)"
  unfolding audited_def quiet_def bnd_def ret_def by (fastforce split: prod.splits sum.splits)

lemma silent_writes:
  "silent (set_user i f)" "silent (update_client p h)"
  "(\<And>s. gt_audits (k s) = gt_audits s) \<Longrightarrow> silent (modify k)"
  "(\<And>s s'. t s = Inr s' \<Longrightarrow> gt_audits s' = gt_audits s) \<Longrightarrow> silent (try_modify t)"
  by (auto simp: silent_def set_user_def update_client_def modify_def try_modify_def split: sum.split)

lemma audit_row_actor [simp]: "al_actor (audit_row entry) = ar_actor entry"
  by (simp add: audit_row_def)

lemma audit_rec_actor [simp]: "ar_actor (audit_rec a x t i) = a"
  by (simp add: audit_rec_def)

lemma admin_audited: "audited (admin_actor c) (run_admin c)"
  by (cases c; simp only: run_admin.simps admin_actor.simps createUser_def setUserRoles_def setUserDisabled_def upsertRole_def
      deleteRole_def setClientRateLimit_def setClientDisabled_def setClientKey_def rotateClientSecret_def setClientWebhookUrl_def Let_def)
    (intro audited_quiet audited_read audited_seq_check audited_write readonly_basic silent_writes; auto split: if_splits)+

section \<open>Roles\<close>

definition roles_catalogued :: "gate \<Rightarrow> bool" where
  "roles_catalogued s = (\<forall>r \<in> set (gt_roles s). \<forall>p \<in> set (role_permissions r). catalogued p)"

lemma catalogued_cong: "gt_roles s' = gt_roles s \<Longrightarrow> roles_catalogued s' = roles_catalogued s"
  by (simp add: roles_catalogued_def)

lemma leaves_keeps: "leaves gt_roles m \<Longrightarrow> keeps roles_catalogued m"
  by (simp add: keeps_def leaves_def roles_catalogued_def)

lemma upsertRole_catalogued: "keeps roles_catalogued (upsertRole input)"
proof -
  have "roles_catalogued (snd (upsertRole input g s))" if "roles_catalogued s" for g s
    using that
    by (auto simp: upsertRole_def g_audit_def prog_simps modify_def roles_catalogued_def mem_set_row filter_empty_conv split: if_splits)
  then show ?thesis by (simp add: keeps_def)
qed

lemma admin_catalogued: "keeps roles_catalogued (run_admin c)"
proof (cases c)
  case (UpsertRoleCall input)
  then show ?thesis by (simp add: upsertRole_catalogued)
next
  case (DeleteRole slug actor)
  then show ?thesis
    by (auto simp: keeps_def deleteRole_def g_audit_def prog_simps modify_def roles_catalogued_def split: option.split)
qed (simp only: run_admin.simps; unfold admin_op_defs; intro leaves_keeps leaves_intros; auto split: if_splits)+

text \<open>Built-in roles: an administrative call never removes one.\<close>

definition has_builtin :: "string \<Rightarrow> gate \<Rightarrow> bool" where
  "has_builtin slug s = list_ex (\<lambda>r. role_slug r = slug \<and> role_builtin r) (gt_roles s)"

lemma has_builtin_cong:
  "map (\<lambda>r. (role_slug r, role_builtin r)) (gt_roles s') = map (\<lambda>r. (role_slug r, role_builtin r)) (gt_roles s)
     \<Longrightarrow> has_builtin slug s' = has_builtin slug s"
proof -
  have alt: "has_builtin slug t = ((slug, True) \<in> set (map (\<lambda>r. (role_slug r, role_builtin r)) (gt_roles t)))" for t
    by (auto simp: has_builtin_def list_ex_iff)
  assume "map (\<lambda>r. (role_slug r, role_builtin r)) (gt_roles s') = map (\<lambda>r. (role_slug r, role_builtin r)) (gt_roles s)"
  then show ?thesis unfolding alt by (rule arg_cong)
qed

lemma set_row_builtin:
  "map (\<lambda>r. (role_slug r, role_builtin r)) (gt_roles (s\<lparr>gt_roles := set_row role_slug k (\<lambda>r. r\<lparr>role_name := a,
     role_description := b, role_institution := c, role_permissions := d\<rparr>) (gt_roles s), gt_audits := l\<rparr>))
   = map (\<lambda>r. (role_slug r, role_builtin r)) (gt_roles s)"
  by (simp add: set_row_def comp_def if_distrib)

lemma has_builtin_append:
  "has_builtin slug s \<Longrightarrow> has_builtin slug (s\<lparr>gt_roles := gt_roles s @ rs, gt_audits := l\<rparr>)"
  by (simp add: has_builtin_def)

lemma builtin_leaves: "leaves gt_roles m \<Longrightarrow> keeps (has_builtin slug) m"
  by (simp add: keeps_def leaves_def has_builtin_def)

lemma admin_keeps_builtin: "keeps (\<lambda>s. uniq role_slug (gt_roles s) \<and> has_builtin slug s) (run_admin c)"
proof -
  have leave: "leaves gt_roles m \<Longrightarrow> keeps (\<lambda>s. uniq role_slug (gt_roles s) \<and> has_builtin slug s) m" for m :: "unit gop"
    by (simp add: keeps_def leaves_def has_builtin_def)
  show ?thesis
  proof (cases c)
    case (UpsertRoleCall input)
    then show ?thesis
      by (auto simp: keeps_def upsertRole_def g_audit_def prog_simps modify_def Let_def uniq_set_row uniq_append_row
          has_builtin_cong [OF set_row_builtin] has_builtin_append)
  next
    case (DeleteRole slug' actor)
    have "has_builtin slug (s\<lparr>gt_roles := filter (\<lambda>r. role_slug r \<noteq> slug') (gt_roles s)\<rparr>)"
      if "uniq role_slug (gt_roles s)" "has_builtin slug s" "find_row role_slug slug' (gt_roles s) = Some role" "\<not> role_builtin role"
      for s role
    proof -
      from that(2) obtain r where r: "r \<in> set (gt_roles s)" "role_slug r = slug" "role_builtin r"
        by (auto simp: has_builtin_def list_ex_iff)
      with find_row_uniq [OF that(1) r(1)] that(3,4) have "slug \<noteq> slug'" by auto
      with r show ?thesis by (auto simp: has_builtin_def list_ex_iff)
    qed
    with DeleteRole show ?thesis
      by (auto simp: keeps_def deleteRole_def g_audit_def prog_simps modify_def has_builtin_def uniq_def distinct_map_filter split: option.split)
  qed (simp only: run_admin.simps; unfold admin_op_defs; intro leave leaves_intros; auto split: if_splits)+
qed

section \<open>Secrets and switches\<close>

lemma rotated_client:
  assumes "rotateClientSecret platform actor g s = (Inr secret, s')"
  shows "find_row cl_platform platform (gt_clients s') = map_option (\<lambda>k. k\<lparr>cl_clientSecretHash := Some (sha256Hex (gv g) secret)\<rparr>)
      (find_row cl_platform platform (gt_clients s))"
    and "gt_clients s' = set_row cl_platform platform (\<lambda>k. k\<lparr>cl_clientSecretHash := Some (sha256Hex (gv g) secret)\<rparr>) (gt_clients s)"
  using assms
  by (auto simp: rotateClientSecret_def update_client_def g_audit_def prog_simps modify_def Let_def find_row_set_row split: if_splits)

lemma hashesEqual_self [simp]: "hashesEqual a a = Inr True"
  by (simp add: hashesEqual_def timingSafeEqual_def)

lemma hashesEqual_other: "a \<noteq> b \<Longrightarrow> hashesEqual a b \<noteq> Inr True"
  by (auto simp: hashesEqual_def timingSafeEqual_def split: if_splits)

text \<open>After a rotation the new secret authenticates and one with another hash does not.\<close>

lemma rotation_replaces_secret:
  assumes "rotateClientSecret platform actor g s = (Inr secret, s')"
    and "find_row cl_platform platform (gt_clients s) = Some k" and "find_row cl_oauthClientId (cl_oauthClientId k) (gt_clients s) = Some k"
    and "cl_oauthClientId k \<noteq> []" and "sha256Hex (gv g) secret \<noteq> []" and "sha256Hex (gv g') = sha256Hex (gv g)"
  shows "\<not> cl_disabled k \<Longrightarrow> fst (verifyClient (cl_oauthClientId k) secret g' s') = Inr (Some (client_principal k))"
    and "sha256Hex (gv g) old \<noteq> sha256Hex (gv g) secret \<Longrightarrow> fst (verifyClient (cl_oauthClientId k) old g' s') \<noteq> Inr (Some c)"
proof -
  let ?f = "\<lambda>k. k\<lparr>cl_clientSecretHash := Some (sha256Hex (gv g) secret)\<rparr>"
  have "cl_platform k = platform" using find_row_Some [OF assms(2)] by simp
  with assms(3) have row: "find_row cl_oauthClientId (cl_oauthClientId k) (gt_clients s') = Some (?f k)"
    unfolding rotated_client(2) [OF assms(1)] by (subst find_row_set_by) simp_all
  have "secret \<noteq> []" using assms(1)
    by (auto simp: rotateClientSecret_def update_client_def g_audit_def prog_simps modify_def Let_def split: if_splits)
  then show "fst (verifyClient (cl_oauthClientId k) secret g' s') = Inr (Some (client_principal k))" if "\<not> cl_disabled k"
    using that row assms(4,5,6) by (simp add: verifyClient_def prog_simps truthy_def client_principal_def)
  show "fst (verifyClient (cl_oauthClientId k) old g' s') \<noteq> Inr (Some c)" if "sha256Hex (gv g) old \<noteq> sha256Hex (gv g) secret"
    using row hashesEqual_other [OF that] assms(6)
    by (auto simp: verifyClient_def prog_simps split: sum.split)
qed

text \<open>A disabled client authenticates no more; a disabled user's session does until it expires.\<close>

lemma disabled_client_refused:
  assumes "setClientDisabled platform True actor g s = (Inr (), s')" and "find_row cl_oauthClientId i (gt_clients s) = Some k"
    and "cl_platform k = platform"
  shows "fst (verifyClient i secret g' s') = Inr None"
proof -
  have "gt_clients s' = set_row cl_platform platform (\<lambda>k. k\<lparr>cl_disabled := True\<rparr>) (gt_clients s)"
    using assms(1) by (auto simp: setClientDisabled_def update_client_def g_audit_def prog_simps modify_def split: if_splits)
  with assms(2,3) have "find_row cl_oauthClientId i (gt_clients s') = Some (k\<lparr>cl_disabled := True\<rparr>)"
    by (simp add: find_row_set_by)
  then show ?thesis by (simp add: verifyClient_def prog_simps)
qed

lemma user_admission_ignores_users:
  assumes "truthy (bearer q)"
  shows "fst (admit required q g (s\<lparr>gt_users := us, gt_audits := au\<rparr>)) = fst (admit required q g s)"
proof (cases "requiredPlatform (hq_path q)")
  case None
  then show ?thesis by (simp add: exempt_request)
next
  case (Some plat)
  note sep = separation_user [OF Some assms, of g]
  have admit: "fst (admit required q g t) = bind_r (fst (clientSeparation q g t)) (\<lambda>p.
      bind_r (fst (permissionGuard required p g t)) (\<lambda>_. Inr p))" for t
  proof (cases "fst (clientSeparation q g t)")
    case (Inl x)
    then show ?thesis by (cases "clientSeparation q g t") (simp add: admit_def bnd_def)
  next
    case (Inr p)
    with separation_state [of q g t] have c: "clientSeparation q g t = (Inr p, t)" by (metis prod.collapse)
    from Inr sep [of t] obtain u where p: "p = Some (UserP u)"
      by (auto simp: bind_r_eq_Inr split: option.splits if_splits dest: sym)
    show ?thesis using permission_state [of required p g t]
      by (cases "permissionGuard required p g t")
        (auto simp: admit_def bnd_def c seq_def p requestSignature_def rateLimit_def ret_def split: sum.split)
  qed
  have "fst (permissionGuard required p g (s\<lparr>gt_users := us, gt_audits := au\<rparr>)) = fst (permissionGuard required p g s)" for p
    by (auto simp: permissionGuard_def prog_simps check_def split: option.split principal.split sum.split)
  then show ?thesis unfolding admit sep by simp
qed

lemma disabled_user_still_admitted:
  assumes "setUserDisabled i True actor g0 s = (Inr (), s')" and "truthy (bearer q)"
  shows "fst (admit required q g s') = fst (admit required q g s)"
proof -
  from assms(1) obtain us au where "s' = s\<lparr>gt_users := us, gt_audits := au\<rparr>"
    by (auto simp: setUserDisabled_def set_user_def g_audit_def prog_simps modify_def split: if_splits)
  then show ?thesis using user_admission_ignores_users [OF assms(2)] by simp
qed

section \<open>Admission and administration interleaved\<close>

datatype directory_call = Gate_call gate_call | Admin_call admin_call

fun run_directory :: "directory_call \<Rightarrow> unit gop" where
  "run_directory (Gate_call c) = run_gate c"
| "run_directory (Admin_call c) = run_admin c"

fun run_directories :: "(genv \<times> directory_call) list \<Rightarrow> gate \<Rightarrow> gate" where
  "run_directories [] s = s"
| "run_directories ((g, c) # cs) s = run_directories cs (snd (run_directory c g s))"

interpretation directories: call_run run_directory run_directories
  by unfold_locales simp_all

lemma admin_leaves: "leaves gt_nonces (run_admin c)" "leaves gt_resets (run_admin c)"
  by (cases c; simp only: run_admin.simps; unfold admin_op_defs; intro leaves_intros; auto split: if_splits)+

lemma directory_keeps_nonces: "keeps (nonce_used n) (run_directory c)"
proof (cases c)
  case (Admin_call x)
  have "nonce_used n s \<Longrightarrow> gt_nonces s' = gt_nonces s \<Longrightarrow> nonce_used n s'" for s s'
    by (simp add: nonce_used_def split: option.splits)
  with Admin_call leavesD [OF admin_leaves(1)] show ?thesis by (auto simp: keeps_def)
qed (simp add: gate_keeps_nonces)

lemma directory_keeps_spent: "keeps (spent h) (run_directory c)"
proof (cases c)
  case (Admin_call x)
  with leavesD [OF admin_leaves(2)] show ?thesis by (simp add: keeps_def spent_def)
qed (simp add: gate_keeps_spent)

lemma gate_leaves_roles: "leaves gt_roles (run_gate c)"
  by (cases c; simp only: run_gate.simps; unfold gate_op_defs)
    (intro leaves_intros; auto split: if_splits)+

lemma directory_catalogued: "keeps roles_catalogued (run_directory c)"
  using gate_leaves_roles by (cases c) (simp_all add: admin_catalogued leaves_keeps)

lemma directory_replay_refused:
  assumes "admit required q g s = (Inr p, s')" and "must_sign g s q"
    and "hq_headers q' ''x-nonce'' = hq_headers q ''x-nonce''" and "must_sign g' (run_directories cs s') q'"
  shows "\<not> is_ok (fst (admit required' q' g' (run_directories cs s')))"
proof
  assume "is_ok (fst (admit required' q' g' (run_directories cs s')))"
  then obtain p' s'' where "admit required' q' g' (run_directories cs s') = (Inr p', s'')"
    by (metis is_ok_iff prod.collapse)
  from admitted_signed(2) [OF this assms(4)] assms(3)
  have "\<not> nonce_used (hq_headers q ''x-nonce'') (run_directories cs s')" by simp
  with directories.keep [OF directory_keeps_nonces admitted_signed(3) [OF assms(1,2)]] show False by blast
qed

end
