(* ===== verification/Registry.thy ===== *)
theory Registry
  imports Infra Enums
begin

text \<open>
  The liability registry (\<open>modules/registry/registry.controller.ts\<close>): entries that connect a
  trustee program and reserve account to a client's program or asset, with defaults from the fund
  classification. The lemmas say which backing an entry gets and that entries are only added.
\<close>

record RegistryEntry =
  re_id :: string
  re_trusteeProgramId :: string
  re_platform :: string
  re_tenantId :: "string option"
  re_paykhProgramId :: "string option"
  re_paychainAssetId :: "string option"
  re_liabilityType :: string
  re_reserveAccountId :: string
  re_currency :: string
  re_requiredReserveBps :: int
  re_mintAuthorizationRequired :: bool
  re_redemptionAuthorizationRequired :: bool

record CreateRegistryEntry =
  ce_trusteeProgramId :: string
  ce_platform :: string
  ce_tenantId :: "string option"
  ce_paykhProgramId :: "string option"
  ce_paychainAssetId :: "string option"
  ce_liabilityType :: string
  ce_reserveAccountId :: string
  ce_currency :: string
  ce_requiredReserveBps :: "int option"
  ce_mintAuthorizationRequired :: "bool option"
  ce_redemptionAuthorizationRequired :: "bool option"

text \<open>\<open>given ?? policy.member\<close>: the member is read, and raises on no policy, only when nothing is given.\<close>

definition policy_default :: "'a option \<Rightarrow> FundBackingPolicy option \<Rightarrow> (FundBackingPolicy \<Rightarrow> 'a) \<Rightarrow> 'a res" where
  "policy_default given pol get = (case given of
       Some x \<Rightarrow> Inr x
     | None \<Rightarrow> (case pol of None \<Rightarrow> Inl (PlainError ''TypeError'') | Some p \<Rightarrow> Inr (get p)))"

definition registry_create :: "CreateRegistryEntry \<Rightarrow> (env, RegistryEntry list, string \<times> FundBackingPolicy option) prog" where
  "registry_create dto = bnd (asks newId) (\<lambda>i. let pol = backingPolicyFor (ce_liabilityType dto) in
     bnd (lift_r (policy_default (ce_requiredReserveBps dto) pol fp_requiredBackingBps)) (\<lambda>bps.
     bnd (lift_r (policy_default (ce_mintAuthorizationRequired dto) pol fp_authorizationRequired)) (\<lambda>mint.
     bnd (lift_r (policy_default (ce_redemptionAuthorizationRequired dto) pol fp_authorizationRequired)) (\<lambda>redemption.
     seq (try_modify (\<lambda>rs. if has_row re_id i rs then Inl (UniqueViolation ''LiabilityRegistryEntry'')
       else Inr (rs @ [\<lparr>re_id = i, re_trusteeProgramId = ce_trusteeProgramId dto, re_platform = ce_platform dto,
         re_tenantId = ce_tenantId dto, re_paykhProgramId = ce_paykhProgramId dto, re_paychainAssetId = ce_paychainAssetId dto,
         re_liabilityType = ce_liabilityType dto, re_reserveAccountId = ce_reserveAccountId dto, re_currency = ce_currency dto,
         re_requiredReserveBps = bps, re_mintAuthorizationRequired = mint, re_redemptionAuthorizationRequired = redemption\<rparr>])))
     (ret (i, pol))))))"

definition registry_list :: "RegistryEntry list \<Rightarrow> RegistryEntry list" where
  "registry_list rs = rs"

lemma policy_figures:
  "fp_requiredBackingBps (POLICIES c) = (if requiresFiatBacking c then 10000 else 0)"
  "fp_authorizationRequired (POLICIES c) = requiresFiatBacking c"
  by (cases c; simp add: requiresFiatBacking_def policy_def)+

text \<open>Without an explicit figure a fiat-backed liability is registered as fully backed and authorized.\<close>

lemma registered_backing:
  assumes "registry_create dto e rs = (Inr v, rs')" and "ce_requiredReserveBps dto = None" and "ce_mintAuthorizationRequired dto = None"
    and "classification_of (ce_liabilityType dto) = Some c"
  shows "\<exists>r. rs' = rs @ [r] \<and> re_requiredReserveBps r = (if requiresFiatBacking c then 10000 else 0)
    \<and> re_mintAuthorizationRequired r = requiresFiatBacking c"
proof -
  from assms have "\<exists>r. rs' = rs @ [r] \<and> re_requiredReserveBps r = fp_requiredBackingBps (POLICIES c)
      \<and> re_mintAuthorizationRequired r = fp_authorizationRequired (POLICIES c)"
    by (auto simp: registry_create_def policy_default_def backingPolicyFor_def prog_simps Let_def split: if_splits sum.splits)
  with policy_figures [of c] show ?thesis by simp
qed

text \<open>An unknown classification raises unless all three figures are given; then it is stored.\<close>

lemma unknown_classification:
  assumes "classification_of (ce_liabilityType dto) = None" and "ce_requiredReserveBps dto = None"
  shows "registry_create dto e rs = (Inl (PlainError ''TypeError''), rs)"
  using assms by (simp add: registry_create_def policy_default_def backingPolicyFor_def prog_simps Let_def)

lemma registry_grows: "\<exists>new. snd (registry_create dto e rs) = rs @ new"
  by (auto simp: registry_create_def prog_simps Let_def split: sum.split)

end
