(* ===== verification/Worker.thy ===== *)
theory Worker
  imports Gate
begin

text \<open>
  The webhook worker: \<open>apps/trustee-worker/src/webhook-delivery.ts\<close> and the loop of \<open>main.ts\<close>,
  with the envelope builder and the HTTP adapters of \<open>packages/adapters\<close>, and the two replay
  operations of \<open>admin.service.ts\<close>. \<open>fetch\<close> under its timeout is the parameter \<open>httpPost\<close>: the
  response (ok, status, text) or the message of the error it threw. The key the worker loads from
  its environment is the parameter \<open>webhookKey\<close>. The lemmas say that the bytes signed are the
  bytes sent, how an event's attempts and flags move, and that the queue drains.
\<close>

section \<open>State and environment\<close>

record QueuedEvent = OutboxEvent +
  qe_id :: string
  qe_sequence :: int
  qe_createdAt :: int

record WebhookDelivery =
  wd_eventId :: string
  wd_attempt :: int
  wd_statusCode :: "int option"
  wd_ok :: bool
  wd_error :: "string option"
  wd_createdAt :: int

record wst =
  wk_events :: "QueuedEvent list"
  wk_clients :: "ClientApplication list"
  wk_deliveries :: "WebhookDelivery list"
  wk_audits :: "AuditLog list"

record wenv =
  wv :: env
  webhookKey :: "SigningKey option"
  httpPost :: "string \<Rightarrow> string \<Rightarrow> (string \<times> string) list \<Rightarrow> string + (bool \<times> int \<times> string)"
  MAX_ATTEMPTS :: int
  BATCH_SIZE :: nat

type_synonym 'a wop = "(wenv, wst, 'a) prog"

section \<open>The signed envelope\<close>

text \<open>\<open>o.k = v\<close>: an existing member keeps its place, a new one goes last.\<close>

definition set_member :: "string \<Rightarrow> json \<Rightarrow> (string \<times> json) list \<Rightarrow> (string \<times> json) list" where
  "set_member k v ms = (if k \<in> fst ` set ms then map (\<lambda>(l, w). if l = k then (l, v) else (l, w)) ms else ms @ [(k, v)])"

record EnvelopeInput =
  ei_eventId :: string
  ei_eventType :: string
  ei_eventSequence :: string
  ei_targetPlatform :: string
  ei_timestamp :: string
  ei_clientId :: string
  ei_programId :: json
  ei_correlationId :: json
  ei_requestId :: string
  ei_nonce :: string
  ei_apiVersion :: string
  ei_payload :: json

definition input_members :: "EnvelopeInput \<Rightarrow> (string \<times> json) list" where
  "input_members i = [(''eventId'', JStr (ei_eventId i)), (''eventType'', JStr (ei_eventType i)),
     (''eventSequence'', JStr (ei_eventSequence i)), (''targetPlatform'', JStr (ei_targetPlatform i)),
     (''timestamp'', JStr (ei_timestamp i)), (''clientId'', JStr (ei_clientId i)), (''programId'', ei_programId i),
     (''correlationId'', ei_correlationId i), (''requestId'', JStr (ei_requestId i)), (''nonce'', JStr (ei_nonce i)),
     (''apiVersion'', JStr (ei_apiVersion i)), (''payload'', ei_payload i)]"

text \<open>Only the body hash of the signing subject is used by the caller.\<close>

definition envelope_bodyHash :: "env \<Rightarrow> EnvelopeInput \<Rightarrow> string" where
  "envelope_bodyHash e i = sha256Hex e (canonicalize (ei_payload i))"

definition envelopeSigningSubject :: "env \<Rightarrow> EnvelopeInput \<Rightarrow> json" where
  "envelopeSigningSubject e i = JObj [(''eventId'', JStr (ei_eventId i)), (''eventType'', JStr (ei_eventType i)),
     (''eventSequence'', JStr (ei_eventSequence i)), (''targetPlatform'', JStr (ei_targetPlatform i)),
     (''timestamp'', JStr (ei_timestamp i)), (''clientId'', JStr (ei_clientId i)),
     (''programId'', if ei_programId i = JUndef then JNull else ei_programId i),
     (''correlationId'', ei_correlationId i), (''requestId'', JStr (ei_requestId i)), (''nonce'', JStr (ei_nonce i)),
     (''apiVersion'', JStr (ei_apiVersion i)), (''bodyHash'', JStr (envelope_bodyHash e i))]"

definition buildSignedEnvelope :: "env \<Rightarrow> EnvelopeInput \<Rightarrow> Signature \<Rightarrow> (string \<times> json) list" where
  "buildSignedEnvelope e i signature = fold (\<lambda>(k, v). set_member k v)
     [(''id'', JStr (ei_eventId i)), (''type'', JStr (ei_eventType i)), (''programId'', ei_programId i),
      (''bodyHash'', JStr (envelope_bodyHash e i)), (''signingKeyId'', JStr (sg_keyId signature)),
      (''signature'', JStr (sg_value signature))] (input_members i)"

definition stripeSignature :: "wenv \<Rightarrow> string \<Rightarrow> string \<Rightarrow> json" where
  "stripeSignature g timestampMs rawBody = (case webhookKey g of None \<Rightarrow> JUndef
     | Some k \<Rightarrow> JStr (nodeSign (wv g) (sk_privateKeyPem k) (timestampMs @ ''.'' @ rawBody)))"

section \<open>The HTTP adapters\<close>

definition wireBody :: "(string \<times> json) list \<Rightarrow> json" where
  "wireBody envelope = JObj (filter (\<lambda>(k, _). k \<noteq> ''requestSignature'' \<and> k \<noteq> ''timestampMs'') envelope)"

text \<open>
  The worker always sets \<open>timestampMs\<close>, so the fallback to the parsed timestamp is not reached;
  the signature falls back to the stored one when the worker has no key.
\<close>

definition header_signature :: "(string \<times> json) list \<Rightarrow> json" where
  "header_signature envelope = (case member (JObj envelope) ''requestSignature'' of
       JStr s \<Rightarrow> if s \<noteq> [] then JStr s
         else (case member (JObj envelope) ''signature'' of JStr t \<Rightarrow> JStr t | j \<Rightarrow> member j ''value'')
     | _ \<Rightarrow> (case member (JObj envelope) ''signature'' of JStr t \<Rightarrow> JStr t | j \<Rightarrow> member j ''value''))"

definition envelopeHeaders :: "(string \<times> json) list \<Rightarrow> (string \<times> string) list" where
  "envelopeHeaders envelope = (let ts = text_of (member (JObj envelope) ''timestampMs'');
     sig = text_of (header_signature envelope); field = (\<lambda>k. text_of (member (JObj envelope) k)) in
     [(''x-signature'', sig), (''x-timestamp'', ts), (''x-nonce'', field ''nonce''), (''x-signing-key-id'', field ''signingKeyId''),
      (''x-trustee-signature'', sig), (''x-trustee-timestamp'', ts), (''x-trustee-delivery'', field ''eventId''),
      (''x-trustee-event-id'', field ''eventId''), (''x-trustee-signing-key'', field ''signingKeyId''),
      (''x-trustee-correlation-id'', field ''correlationId''), (''x-idempotency-key'', field ''requestId''),
      (''x-api-version'', field ''apiVersion'')])"

definition post_json :: "wenv \<Rightarrow> string \<Rightarrow> json \<Rightarrow> (string \<times> string) list \<Rightarrow> string + (bool \<times> int \<times> string)" where
  "post_json g url body headers = httpPost g url (stringify body) ((''content-type'', ''application/json'') # headers)"

record DeliveryResult =
  dr_delivered :: bool
  dr_statusCode :: "int option"
  dr_error :: "string option"

definition submit_paychain :: "wenv \<Rightarrow> string \<Rightarrow> (string \<times> json) list \<Rightarrow> DeliveryResult" where
  "submit_paychain g webhookUrl envelope = (case post_json g webhookUrl (wireBody envelope) (envelopeHeaders envelope) of
       Inr (ok, status, body) \<Rightarrow> \<lparr>dr_delivered = ok, dr_statusCode = Some status, dr_error = (if ok then None else Some body)\<rparr>
     | Inl message \<Rightarrow> \<lparr>dr_delivered = False, dr_statusCode = None, dr_error = Some message\<rparr>)"

definition submit_paykh :: "wenv \<Rightarrow> string \<Rightarrow> (string \<times> json) list \<Rightarrow> DeliveryResult" where
  "submit_paykh g webhookUrl envelope = (case post_json g webhookUrl (wireBody envelope) (envelopeHeaders envelope) of
       Inr (ok, status, body) \<Rightarrow> \<lparr>dr_delivered = ok, dr_statusCode = Some status, dr_error = (if ok then None else Some body)\<rparr>
     | Inl message \<Rightarrow> \<lparr>dr_delivered = False, dr_statusCode = None, dr_error = Some message\<rparr>)"

section \<open>One delivery pass\<close>

definition event_payload :: "QueuedEvent \<Rightarrow> json" where
  "event_payload event = (if ob_payload event = JNull \<or> ob_payload event = JUndef then JObj [] else ob_payload event)"

definition event_input :: "wenv \<Rightarrow> ClientApplication \<Rightarrow> QueuedEvent \<Rightarrow> EnvelopeInput" where
  "event_input g client event = (let payload = event_payload event; cid = member payload ''correlationId'' in
     \<lparr>ei_eventId = qe_id event, ei_eventType = ob_eventType event, ei_eventSequence = bigint_toString (qe_sequence event),
      ei_targetPlatform = ob_targetPlatform event, ei_timestamp = toISOString (now (wv g)), ei_clientId = cl_oauthClientId client,
      ei_programId = member payload ''programId'',
      ei_correlationId = (if cid = JNull \<or> cid = JUndef then JStr (''corr_'' @ qe_id event) else cid),
      ei_requestId = ''req_'' @ qe_id event, ei_nonce = qe_id event @ ''-'' @ bigint_toString (qe_sequence event),
      ei_apiVersion = ''v1'', ei_payload = payload\<rparr>)"

definition event_body :: "wenv \<Rightarrow> ClientApplication \<Rightarrow> QueuedEvent \<Rightarrow> (string \<times> json) list" where
  "event_body g client event = (let envelope = set_member ''occurredAt'' (JStr (toISOString (qe_createdAt event)))
       (buildSignedEnvelope (wv g) (event_input g client event)
         \<lparr>sg_keyId = ob_signatureKeyId event, sg_algorithm = ''ed25519'', sg_value = ob_signatureValue event\<rparr>) in
     if truthy (ob_artifact event) then
       set_member ''signature'' (JObj [(''keyId'', JStr (ob_signatureKeyId event)), (''alg'', JStr ''ed25519''),
         (''value'', JStr (ob_signatureValue event))])
       (set_member ''artifact'' (JStr (the (ob_artifact event))) envelope)
     else envelope)"

definition event_envelope :: "wenv \<Rightarrow> ClientApplication \<Rightarrow> QueuedEvent \<Rightarrow> (string \<times> json) list" where
  "event_envelope g client event = (let envelope = event_body g client event; rawBody = stringify (JObj envelope);
       timestampMs = bigint_toString (now (wv g)) in
     set_member ''requestSignature'' (stripeSignature g timestampMs rawBody)
       (set_member ''timestampMs'' (JStr timestampMs) envelope))"

definition update_event :: "string \<Rightarrow> (QueuedEvent \<Rightarrow> QueuedEvent) \<Rightarrow> unit wop" where
  "update_event i f = try_modify (\<lambda>s. if has_row qe_id i (wk_events s)
     then Inr (s\<lparr>wk_events := set_row qe_id i f (wk_events s)\<rparr>) else Inl (RecordNotFound ''OutboxEvent''))"

definition markAttempt :: "string \<Rightarrow> int \<Rightarrow> unit wop" where
  "markAttempt i attempts = bnd (asks id) (\<lambda>g.
     update_event i (\<lambda>e. e\<lparr>ob_attempts := attempts, ob_deadLettered := (attempts \<ge> MAX_ATTEMPTS g)\<rparr>))"

definition submitSignedEvent :: "wenv \<Rightarrow> QueuedEvent \<Rightarrow> ClientApplication \<Rightarrow> DeliveryResult" where
  "submitSignedEvent g event client = (let url = the (cl_webhookUrl client); envelope = event_envelope g client event in
     if ob_targetPlatform event = ''PAYKH'' then submit_paykh g url envelope else submit_paychain g url envelope)"

definition deliver_event :: "QueuedEvent \<Rightarrow> bool wop" where
  "deliver_event event = bnd (asks id) (\<lambda>g.
     bnd (gets (\<lambda>s. find_row cl_platform (ob_targetPlatform event) (wk_clients s))) (\<lambda>client.
     if client = None \<or> \<not> truthy (cl_webhookUrl (the client)) \<or> cl_disabled (the client)
     then seq (markAttempt (qe_id event) (ob_attempts event + 1)) (ret False)
     else
       let result = submitSignedEvent g event (the client); attempt = ob_attempts event + 1 in
       seq (modify (\<lambda>s. s\<lparr>wk_deliveries := wk_deliveries s @ [\<lparr>wd_eventId = qe_id event, wd_attempt = attempt,
           wd_statusCode = dr_statusCode result, wd_ok = dr_delivered result,
           wd_error = (if truthy (dr_error result) then Some (take 500 (the (dr_error result))) else None), wd_createdAt = now (wv g)\<rparr>]\<rparr>))
       (if dr_delivered result
        then seq (update_event (qe_id event) (\<lambda>e. e\<lparr>ob_deliveredAt := Some (now (wv g)), ob_attempts := attempt\<rparr>)) (ret True)
        else seq (markAttempt (qe_id event) attempt) (ret False))))"

fun deliver_each :: "QueuedEvent list \<Rightarrow> nat \<Rightarrow> nat wop" where
  "deliver_each [] delivered = ret delivered"
| "deliver_each (event # events) delivered =
     bnd (deliver_event event) (\<lambda>ok. deliver_each events (if ok then delivered + 1 else delivered))"

definition is_pending :: "QueuedEvent \<Rightarrow> bool" where
  "is_pending e = (ob_deliveredAt e = None \<and> \<not> ob_deadLettered e)"

definition pending_batch :: "nat \<Rightarrow> QueuedEvent list \<Rightarrow> QueuedEvent list" where
  "pending_batch n es = take n (sort_key qe_sequence (filter is_pending es))"

definition deliverPending :: "nat wop" where
  "deliverPending = bnd (asks BATCH_SIZE) (\<lambda>n. bnd (gets (\<lambda>s. pending_batch n (wk_events s))) (\<lambda>pending. deliver_each pending 0))"

section \<open>The loop and the replays\<close>

text \<open>The loop of \<open>main.ts\<close>: one pass per environment; a failed pass is logged and the loop goes on.\<close>

fun worker_loop :: "wenv list \<Rightarrow> wst \<Rightarrow> wst" where
  "worker_loop [] s = s"
| "worker_loop (g # gs) s = worker_loop gs (snd (deliverPending g s))"

definition requeue :: "QueuedEvent \<Rightarrow> QueuedEvent" where
  "requeue e = e\<lparr>ob_deliveredAt := None, ob_deadLettered := False, ob_attempts := 0\<rparr>"

definition w_audit :: "AuditRecord \<Rightarrow> unit wop" where
  "w_audit entry = modify (\<lambda>s. s\<lparr>wk_audits := wk_audits s @ [audit_row entry]\<rparr>)"

definition replayWebhook :: "string \<Rightarrow> string \<Rightarrow> unit wop" where
  "replayWebhook i actor = seq (update_event i requeue) (w_audit (audit_rec actor ''admin.webhook.replayed'' ''OUTBOX_EVENT'' i))"

definition replayDeadLettered :: "string \<Rightarrow> nat wop" where
  "replayDeadLettered actor = bnd (gets (\<lambda>s. length (filter ob_deadLettered (wk_events s)))) (\<lambda>count.
     seq (modify (\<lambda>s. s\<lparr>wk_events := map (\<lambda>e. if ob_deadLettered e then requeue e else e) (wk_events s)\<rparr>))
     (seq (w_audit ((audit_rec actor ''admin.webhook.replay_all'' ''OUTBOX_EVENT'' [])\<lparr>ar_subjectId := None,
       ar_afterState := Some (JObj [(''count'', JNum (int count))])\<rparr>)) (ret count)))"

section \<open>The bytes signed are the bytes sent\<close>

lemma set_member_new: "k \<notin> fst ` set ms \<Longrightarrow> set_member k v ms = ms @ [(k, v)]"
  by (simp add: set_member_def)

lemma set_member_keys: "fst ` set (set_member k v ms) = insert k (fst ` set ms)"
proof (cases "k \<in> fst ` set ms")
  case True
  have "map fst (map (\<lambda>(l, w). if l = k then (l, v) else (l, w)) ms) = map fst ms" by (induction ms) auto
  then have "set (map fst (map (\<lambda>(l, w). if l = k then (l, v) else (l, w)) ms)) = set (map fst ms)" by (rule arg_cong)
  with True show ?thesis unfolding set_member_def by (simp only: if_True set_map insert_absorb)
qed (simp add: set_member_def)

lemma body_keys:
  "fst ` set (event_body g c e) \<subseteq> {''eventId'', ''eventType'', ''eventSequence'', ''targetPlatform'', ''timestamp'', ''clientId'',
     ''programId'', ''correlationId'', ''requestId'', ''nonce'', ''apiVersion'', ''payload'', ''id'', ''type'', ''bodyHash'',
     ''signingKeyId'', ''signature'', ''occurredAt'', ''artifact''}"
  by (auto simp: event_body_def Let_def buildSignedEnvelope_def set_member_keys input_members_def)

lemma header_only_keys: "''requestSignature'' \<notin> fst ` set (event_body g c e)" "''timestampMs'' \<notin> fst ` set (event_body g c e)"
  using body_keys [of g c e] by auto

lemma event_envelope_alt:
  "event_envelope g c e = event_body g c e @ [(''timestampMs'', JStr (bigint_toString (now (wv g)))),
     (''requestSignature'', stripeSignature g (bigint_toString (now (wv g))) (stringify (JObj (event_body g c e))))]"
  using header_only_keys [of g c e] by (simp add: event_envelope_def Let_def set_member_new)

lemma wire_is_signed_body: "wireBody (event_envelope g c e) = JObj (event_body g c e)"
proof -
  have "filter (\<lambda>(k, _). k \<noteq> ''requestSignature'' \<and> k \<noteq> ''timestampMs'') (event_body g c e) = event_body g c e"
    using header_only_keys [of g c e] by (intro filter_True) (auto simp: image_iff)
  then show ?thesis by (simp add: wireBody_def event_envelope_alt)
qed

lemma signed_header:
  assumes "webhookKey g = Some k"
    and "nodeSign (wv g) (sk_privateKeyPem k) (bigint_toString (now (wv g)) @ ''.'' @ stringify (wireBody (event_envelope g c e))) \<noteq> []"
  shows "map_of (envelopeHeaders (event_envelope g c e)) ''x-signature'' =
      Some (nodeSign (wv g) (sk_privateKeyPem k) (bigint_toString (now (wv g)) @ ''.'' @ stringify (wireBody (event_envelope g c e))))"
    and "map_of (envelopeHeaders (event_envelope g c e)) ''x-timestamp'' = Some (bigint_toString (now (wv g)))"
  using assms unfolding wire_is_signed_body
  by (simp_all add: envelopeHeaders_def header_signature_def event_envelope_alt member_def stripeSignature_def Let_def)

section \<open>What a pass does to the queue\<close>

definition attempted :: "wenv \<Rightarrow> QueuedEvent \<Rightarrow> bool \<Rightarrow> QueuedEvent \<Rightarrow> QueuedEvent" where
  "attempted g e ok r = (if ok then r\<lparr>ob_deliveredAt := Some (now (wv g)), ob_attempts := ob_attempts e + 1\<rparr>
     else r\<lparr>ob_attempts := ob_attempts e + 1, ob_deadLettered := (ob_attempts e + 1 \<ge> MAX_ATTEMPTS g)\<rparr>)"

lemma attempted_id [simp]: "qe_id (attempted g e ok r) = qe_id r"
  by (simp add: attempted_def)

lemma attempted_fun:
  "attempted g e True = (\<lambda>r. r\<lparr>ob_deliveredAt := Some (now (wv g)), ob_attempts := ob_attempts e + 1\<rparr>)"
  "attempted g e False = (\<lambda>r. r\<lparr>ob_attempts := ob_attempts e + 1, ob_deadLettered := (ob_attempts e + 1 \<ge> MAX_ATTEMPTS g)\<rparr>)"
  by (simp_all add: fun_eq_iff attempted_def)

lemma markAttempt_apply:
  "has_row qe_id (qe_id e) (wk_events s) \<Longrightarrow> bnd (markAttempt (qe_id e) (ob_attempts e + 1)) f g s =
     f () g (s\<lparr>wk_events := set_row qe_id (qe_id e) (attempted g e False) (wk_events s)\<rparr>)"
  by (simp add: markAttempt_def prog_simps update_event_def attempted_fun)

lemma delivered_apply:
  "has_row qe_id (qe_id e) (wk_events s) \<Longrightarrow>
     bnd (update_event (qe_id e) (\<lambda>r. r\<lparr>ob_deliveredAt := Some (now (wv g)), ob_attempts := ob_attempts e + 1\<rparr>)) f g s =
     f () g (s\<lparr>wk_events := set_row qe_id (qe_id e) (attempted g e True) (wk_events s)\<rparr>)"
  by (simp add: prog_simps update_event_def attempted_fun)

lemma deliver_event_effect:
  assumes "has_row qe_id (qe_id e) (wk_events s)"
  shows "\<exists>ok s'. deliver_event e g s = (Inr ok, s') \<and> wk_clients s' = wk_clients s
    \<and> wk_events s' = set_row qe_id (qe_id e) (attempted g e ok) (wk_events s)"
proof -
  let ?c = "find_row cl_platform (ob_targetPlatform e) (wk_clients s)"
  let ?r = "submitSignedEvent g e (the ?c)"
  have "fst (deliver_event e g s) = Inr ok \<and> wk_clients (snd (deliver_event e g s)) = wk_clients s
    \<and> wk_events (snd (deliver_event e g s)) = set_row qe_id (qe_id e) (attempted g e ok) (wk_events s)"
    if "ok = (\<not> (?c = None \<or> \<not> truthy (cl_webhookUrl (the ?c)) \<or> cl_disabled (the ?c)) \<and> dr_delivered ?r)" for ok
    unfolding that using assms
    by (cases "?c = None \<or> \<not> truthy (cl_webhookUrl (the ?c)) \<or> cl_disabled (the ?c)"; cases "dr_delivered ?r")
      (simp_all add: deliver_event_def Let_def prog_simps markAttempt_apply delivered_apply del: not_None_eq)
  then show ?thesis by (metis prod.collapse)
qed

text \<open>Each row of the batch has been attempted once, the others are as they were.\<close>

definition passed :: "wenv \<Rightarrow> QueuedEvent list \<Rightarrow> QueuedEvent \<Rightarrow> QueuedEvent \<Rightarrow> bool" where
  "passed g batch r r' = (if r \<in> set batch then \<exists>ok. r' = attempted g r ok r else r' = r)"

lemma deliver_each_effect:
  assumes "uniq qe_id (wk_events s)" and "set batch \<subseteq> set (wk_events s)" and "distinct batch"
  shows "\<exists>n' s'. deliver_each batch n g s = (Inr n', s') \<and> wk_clients s' = wk_clients s
    \<and> list_all2 (passed g batch) (wk_events s) (wk_events s')"
  using assms
proof (induction batch arbitrary: n s)
  case Nil
  show ?case by (auto simp: ret_def passed_def list_all2_same)
next
  case (Cons e batch)
  from Cons.prems have e: "e \<in> set (wk_events s)" by simp
  then have "has_row qe_id (qe_id e) (wk_events s)" by (auto simp: has_row_iff)
  from deliver_event_effect [OF this, of g] obtain ok s1 where s1: "deliver_event e g s = (Inr ok, s1)"
      "wk_clients s1 = wk_clients s" "wk_events s1 = set_row qe_id (qe_id e) (attempted g e ok) (wk_events s)" by blast
  have ids: "qe_id r = qe_id e \<longleftrightarrow> r = e" if "r \<in> set (wk_events s)" for r
    using Cons.prems(1) that e by (auto simp: uniq_def distinct_map dest: inj_onD)
  have first: "list_all2 (\<lambda>r r'. r' = (if r = e then attempted g e ok e else r)) (wk_events s) (wk_events s1)"
    unfolding s1(3) set_row_def list_all2_conv_all_nth by (simp add: ids)
  have "uniq qe_id (wk_events s1)" using Cons.prems(1) by (simp add: s1(3) uniq_set_row)
  moreover have "set batch \<subseteq> set (wk_events s1)"
  proof
    fix b assume b: "b \<in> set batch"
    with Cons.prems have "b \<in> set (wk_events s)" "b \<noteq> e" by auto
    with ids show "b \<in> set (wk_events s1)" by (force simp: s1(3) mem_set_row)
  qed
  moreover have "distinct batch" using Cons.prems(3) by simp
  ultimately obtain n' s' where s': "deliver_each batch (if ok then n + 1 else n) g s1 = (Inr n', s')"
      "wk_clients s' = wk_clients s1" "list_all2 (passed g batch) (wk_events s1) (wk_events s')"
    using Cons.IH by blast
  have "attempted g e ok e \<notin> set batch"
  proof
    assume "attempted g e ok e \<in> set batch"
    with Cons.prems have "attempted g e ok e \<in> set (wk_events s)" by auto
    from ids [OF this] have "attempted g e ok e = e" by simp
    with \<open>attempted g e ok e \<in> set batch\<close> Cons.prems(3) show False by simp
  qed
  with Cons.prems(3) have "list_all2 (passed g (e # batch)) (wk_events s) (wk_events s')"
    by (intro list_all2_trans [OF _ first s'(3)]) (auto simp: passed_def split: if_splits)
  with s1 s' show ?case by (auto simp: bnd_def)
qed

section \<open>The queue drains\<close>

definition load :: "int \<Rightarrow> QueuedEvent \<Rightarrow> nat" where
  "load m e = (if is_pending e then nat (max 1 (m - ob_attempts e)) else 0)"

definition backlog :: "int \<Rightarrow> wst \<Rightarrow> nat" where
  "backlog m s = (\<Sum>e\<leftarrow>wk_events s. load m e)"

text \<open>An event's attempts stay within the limit, and it is dead-lettered exactly at the limit.\<close>

definition event_ok :: "int \<Rightarrow> QueuedEvent \<Rightarrow> bool" where
  "event_ok m e = (0 \<le> ob_attempts e \<and> ob_attempts e \<le> m \<and> (is_pending e \<longrightarrow> ob_attempts e < m)
     \<and> (ob_deadLettered e \<longrightarrow> ob_attempts e = m \<and> ob_deliveredAt e = None))"

lemma attempted_load: "is_pending e \<Longrightarrow> MAX_ATTEMPTS g = m \<Longrightarrow> load m (attempted g e ok e) < load m e"
  by (auto simp: load_def attempted_def is_pending_def)

lemma attempted_ok: "is_pending e \<Longrightarrow> event_ok m e \<Longrightarrow> MAX_ATTEMPTS g = m \<Longrightarrow> event_ok m (attempted g e ok e)"
  by (auto simp: event_ok_def attempted_def is_pending_def)

lemma passed_backlog:
  assumes "list_all2 (passed g batch) rs rs'" and "\<forall>e \<in> set batch. is_pending e" and "MAX_ATTEMPTS g = m"
  shows "(\<Sum>e\<leftarrow>rs'. load m e) + length (filter (\<lambda>r. r \<in> set batch) rs) \<le> (\<Sum>e\<leftarrow>rs. load m e)"
  using assms(1)
proof (induction rule: list_all2_induct)
  case (Cons r rs r' rs')
  have "load m r' + (if r \<in> set batch then 1 else 0) \<le> load m r"
    using Cons.hyps(1) attempted_load [OF _ assms(3), of r] assms(2) by (auto simp: passed_def Suc_le_eq)
  with Cons.IH show ?case by (cases "r \<in> set batch") simp_all
qed simp

lemma batch_facts:
  "set (pending_batch n es) \<subseteq> set es" "\<forall>e \<in> set (pending_batch n es). is_pending e"
  by (auto simp: pending_batch_def dest: in_set_takeD)

lemma batch_distinct: "uniq qe_id es \<Longrightarrow> distinct (pending_batch n es)"
  by (simp add: pending_batch_def uniq_def distinct_map)

lemma batch_nonempty: "0 < n \<Longrightarrow> e \<in> set es \<Longrightarrow> is_pending e \<Longrightarrow> pending_batch n es \<noteq> []"
proof -
  assume "0 < n" "e \<in> set es" "is_pending e"
  then have "e \<in> set (sort_key qe_sequence (filter is_pending es))" by simp
  then have "sort_key qe_sequence (filter is_pending es) \<noteq> []" by force
  with \<open>0 < n\<close> show ?thesis by (simp add: pending_batch_def)
qed

lemma deliverPending_effect:
  assumes "uniq qe_id (wk_events s)"
  shows "\<exists>n s'. deliverPending g s = (Inr n, s') \<and> wk_clients s' = wk_clients s
    \<and> list_all2 (passed g (pending_batch (BATCH_SIZE g) (wk_events s))) (wk_events s) (wk_events s')"
  using deliver_each_effect [OF assms batch_facts(1) batch_distinct [OF assms]]
  by (simp add: deliverPending_def prog_simps)

lemma passed_ids: "list_all2 (passed g batch) rs rs' \<Longrightarrow> map qe_id rs' = map qe_id rs"
  by (induction rule: list_all2_induct) (auto simp: passed_def split: if_splits)

lemma passed_events_ok:
  assumes "list_all2 (passed g batch) rs rs'" and "\<forall>e \<in> set batch. is_pending e" and "MAX_ATTEMPTS g = m"
    and "\<forall>e \<in> set rs. event_ok m e"
  shows "\<forall>e \<in> set rs'. event_ok m e"
  using assms(1,4)
proof (induction rule: list_all2_induct)
  case (Cons r rs r' rs')
  have "event_ok m r'" using Cons.hyps(1) Cons.prems attempted_ok [OF _ _ assms(3), of r] assms(2)
    by (auto simp: passed_def split: if_splits)
  with Cons show ?case by simp
qed simp

lemma pass_decreases:
  assumes "uniq qe_id (wk_events s)" and "MAX_ATTEMPTS g = m" and "0 < BATCH_SIZE g"
  shows "backlog m (snd (deliverPending g s)) \<le> backlog m s - 1"
proof -
  let ?b = "pending_batch (BATCH_SIZE g) (wk_events s)"
  from deliverPending_effect [OF assms(1), of g] obtain n s' where s': "deliverPending g s = (Inr n, s')"
      "list_all2 (passed g ?b) (wk_events s) (wk_events s')" by blast
  from passed_backlog [OF s'(2) batch_facts(2) assms(2)]
  have le: "backlog m s' + length (filter (\<lambda>r. r \<in> set ?b) (wk_events s)) \<le> backlog m s" by (simp add: backlog_def)
  show ?thesis
  proof (cases "\<exists>e \<in> set (wk_events s). is_pending e")
    case True
    then have "?b \<noteq> []" using batch_nonempty [OF assms(3)] by blast
    then obtain e where "e \<in> set ?b" by (cases ?b) auto
    with batch_facts(1) have "e \<in> set (filter (\<lambda>r. r \<in> set ?b) (wk_events s))" by fastforce
    then have "0 < length (filter (\<lambda>r. r \<in> set ?b) (wk_events s))" by (rule length_pos_if_in_set)
    with le have "backlog m s' \<le> backlog m s - 1" by linarith
    with s'(1) show ?thesis by simp
  next
    case False
    then have "backlog m s = 0" unfolding backlog_def by (induction "wk_events s") (auto simp: load_def sum_list_eq_0_iff)
    with le s'(1) show ?thesis by simp
  qed
qed

lemma backlog_pending: "e \<in> set (wk_events s) \<Longrightarrow> is_pending e \<Longrightarrow> 0 < backlog m s"
proof -
  assume "e \<in> set (wk_events s)" "is_pending e"
  then have "load m e \<le> backlog m s" "0 < load m e"
    by (auto simp: backlog_def load_def intro: member_le_sum_list)
  then show ?thesis by simp
qed

lemma pass_keeps:
  assumes "uniq qe_id (wk_events s)" and "MAX_ATTEMPTS g = m"
  shows "uniq qe_id (wk_events (snd (deliverPending g s)))"
    and "\<forall>e \<in> set (wk_events s). event_ok m e \<Longrightarrow> \<forall>e \<in> set (wk_events (snd (deliverPending g s))). event_ok m e"
  using deliverPending_effect [OF assms(1), of g] passed_ids passed_events_ok [OF _ batch_facts(2) assms(2)] assms(1)
  by (fastforce simp: uniq_def)+

lemma backlog_bound:
  assumes "\<forall>e \<in> set (wk_events s). event_ok m e"
  shows "backlog m s \<le> nat m * length (filter is_pending (wk_events s))"
proof -
  have "(\<Sum>e\<leftarrow>es. load m e) \<le> nat m * length (filter is_pending es)" if "\<forall>e \<in> set es. event_ok m e" for es
    using that
  proof (induction es)
    case (Cons e es)
    then have "load m e \<le> (if is_pending e then nat m else 0)" by (auto simp: load_def event_ok_def)
    with Cons show ?case by (auto simp: algebra_simps split: if_splits)
  qed simp
  from this [OF assms] show ?thesis by (simp add: backlog_def)
qed

lemma loop_drains:
  assumes "uniq qe_id (wk_events s)" and "\<forall>g \<in> set gs. MAX_ATTEMPTS g = m \<and> 0 < BATCH_SIZE g" and "backlog m s \<le> length gs"
  shows "\<forall>e \<in> set (wk_events (worker_loop gs s)). ob_deliveredAt e \<noteq> None \<or> ob_deadLettered e"
  using assms
proof (induction gs arbitrary: s)
  case Nil
  then show ?case using backlog_pending [of _ s m] by (fastforce simp: is_pending_def)
next
  case (Cons g gs)
  from Cons.prems pass_decreases [of s g m] have "backlog m (snd (deliverPending g s)) \<le> length gs" by simp
  with Cons.IH [of "snd (deliverPending g s)"] Cons.prems pass_keeps(1) [of s g m] show ?case by simp
qed

lemma loop_events_ok:
  assumes "uniq qe_id (wk_events s)" and "\<forall>g \<in> set gs. MAX_ATTEMPTS g = m" and "\<forall>e \<in> set (wk_events s). event_ok m e"
  shows "\<forall>e \<in> set (wk_events (worker_loop gs s)). event_ok m e"
  using assms
proof (induction gs arbitrary: s)
  case (Cons g gs)
  then have g: "MAX_ATTEMPTS g = m" by simp
  from Cons.IH [OF pass_keeps(1) [OF Cons.prems(1) g] _ pass_keeps(2) [OF Cons.prems(1) g Cons.prems(3)]] Cons.prems(2)
  show ?case by simp
qed simp

text \<open>A replay puts an event back at the start of its life.\<close>

lemma requeue_ok: "0 < m \<Longrightarrow> event_ok m (requeue e)" "is_pending (requeue e)"
  by (simp_all add: requeue_def event_ok_def is_pending_def)

lemma replay_keeps_ok: "0 < m \<Longrightarrow> keeps (\<lambda>s. \<forall>e \<in> set (wk_events s). event_ok m e) (replayWebhook i actor)"
    "0 < m \<Longrightarrow> keeps (\<lambda>s. \<forall>e \<in> set (wk_events s). event_ok m e) (replayDeadLettered actor)"
  unfolding replayWebhook_def replayDeadLettered_def update_event_def w_audit_def
  by (intro keeps_intros keeps_try_modify keeps_modify; auto simp: mem_set_row requeue_ok split: if_splits)+

end
