(* ===== verification/Api.thy ===== *)
theory Api
  imports System Admin Registry Worker
begin

text \<open>
  The HTTP surface: which route of which controller (\<open>modules/*/*.controller.ts\<close>) offers a state
  changing service call, the permission it declares, and a request served end to end: matched
  route, the four guards, the idempotency wrapper, the service. Matching a path against a
  route's pattern is the framework's, hence the parameter \<open>router\<close>; a request comes with its
  body and path parameters already decoded into the call they name. The user table is one table:
  its columns in the platform state follow the admission state. The outbox as the worker keeps it
  is changed by the two replay routes. The lemmas say that a call takes effect only for the
  platforms its routes are meant for, which requests slip past the guards, and that whatever is
  served leaves the platform in a reachable state.
\<close>

section \<open>Routes of the platform services\<close>

type_synonym route = "string \<times> string \<times> string option"

definition paychain :: "string \<Rightarrow> string" where
  "paychain p = ''/api/v1/paychain/'' @ p"

definition paykh :: "string \<Rightarrow> string" where
  "paykh p = ''/api/v1/paykh/'' @ p"

definition bank :: "string \<Rightarrow> string" where
  "bank p = ''/api/v1/bank/'' @ p"

definition admin :: "string \<Rightarrow> string" where
  "admin p = ''/api/v1/admin/'' @ p"

abbreviation needs :: "Permission \<Rightarrow> string option" where
  "needs p \<equiv> Some (Permission_slug p)"

fun deposit_routes :: "deposit_cmd \<Rightarrow> route list" where
  "deposit_routes (RegisterDepositCmd _) = [(''POST'', bank ''deposits'', None)]"
| "deposit_routes (MatchDeposit i _ _) = [(''POST'', bank (''deposits/'' @ i @ ''/match''), None)]"
| "deposit_routes (ClearDeposit i _) = [(''POST'', bank (''deposits/'' @ i @ ''/clear''), None)]"
| "deposit_routes (CreateFunding _) = [(''POST'', paychain ''funding-instructions'', None)]"
| "deposit_routes (CancelFunding i _) = [(''POST'', paychain (''funding-instructions/'' @ i @ ''/cancel''), None)]"

text \<open>\<open>expire\<close> is internal: no route offers it.\<close>

fun mint_routes :: "mint_cmd \<Rightarrow> route list" where
  "mint_routes (RequestMint _) = [(''POST'', paychain ''mint-authorizations'', None)]"
| "mint_routes (ConfirmMintCmd i _) = [(''POST'', paychain (''mint-authorizations/'' @ i @ ''/confirm''), None)]"
| "mint_routes (ReviewMint i _) = [(''POST'', bank (''mint-authorizations/'' @ i @ ''/review''), None)]"
| "mint_routes (ApproveMint i _ _) = [(''POST'', bank (''mint-authorizations/'' @ i @ ''/approve''), None)]"
| "mint_routes (RejectMint i _ _) = [(''POST'', bank (''mint-authorizations/'' @ i @ ''/reject''), None)]"
| "mint_routes (RevokeMint i _ _) = [(''POST'', bank (''mint-authorizations/'' @ i @ ''/revoke''), None)]"
| "mint_routes (ExpireMint _ _) = []"

fun redemption_routes :: "redemption_cmd \<Rightarrow> route list" where
  "redemption_routes (RequestRedemptionCmd _) = [(''POST'', paychain ''redemptions'', None)]"
| "redemption_routes (ConfirmBurn i _ _) = [(''POST'', paychain (''redemptions/'' @ i @ ''/confirm-burn''), None)]"
| "redemption_routes (ApproveRedemption i _ _) = [(''POST'', bank (''redemptions/'' @ i @ ''/approve''), None)]"
| "redemption_routes (SubmitPayout i _) = [(''POST'', bank (''redemptions/'' @ i @ ''/submit-payout''), None)]"
| "redemption_routes (ConfirmPayout i _) = [(''POST'', bank (''redemptions/'' @ i @ ''/confirm-payout''), None)]"

fun reserve_routes :: "reserve_cmd \<Rightarrow> route list" where
  "reserve_routes (CreateSnapshot p) = [(''POST'', paychain (''proof-of-reserve/'' @ p @ ''/snapshots''), None),
     (''POST'', admin (''proof-of-reserve/'' @ p @ ''/snapshots''), needs POR_GENERATE)]"
| "reserve_routes (AddAdjustmentCmd input) = [(''POST'', bank (''reserves/'' @ aa_programId input @ ''/adjustments''), None)]"
| "reserve_routes (LiftAdjustment i _) = [(''POST'', bank (''reserve-adjustments/'' @ i @ ''/lift''), None)]"
| "reserve_routes (ReconcileBank p) = [(''POST'', bank (''reserves/'' @ p @ ''/bank-reconcile''), None)]"
| "reserve_routes (RegisterBankCmd _) = [(''POST'', bank ''bank-connections'', None)]"
| "reserve_routes (SetAccountBank i _ _) = [(''POST'', bank (''reserve-accounts/'' @ i @ ''/bank''), None)]"

text \<open>The attestation routes name three of the four targets; withdrawing has no route.\<close>

definition transition_action :: "string \<Rightarrow> string option" where
  "transition_action to = (if to = ''UNDER_REVIEW'' then Some ''/submit'' else if to = ''APPROVED'' then Some ''/approve''
     else if to = ''PUBLISHED'' then Some ''/publish'' else None)"

fun oversight_routes :: "oversight_cmd \<Rightarrow> route list" where
  "oversight_routes (ReconcileReserve _ _) = [(''POST'', paychain ''reconciliations'', None),
     (''POST'', admin ''reconciliations/reserve'', None)]"
| "oversight_routes (ReconcileOrders _ _) = [(''POST'', paykh ''reconciliations/payment-orders'', None),
     (''POST'', admin ''reconciliations/payment-orders'', None)]"
| "oversight_routes (ReconcileSettlements _ _) = [(''POST'', paykh ''reconciliations/merchant-settlements'', None)]"
| "oversight_routes (CreateAttestationCmd _) = [(''POST'', bank ''attestations'', None)]"
| "oversight_routes (TransitionAttestation i to _) = (case transition_action to of None \<Rightarrow> []
     | Some action \<Rightarrow> [(''POST'', bank (''attestations/'' @ i @ action), None)])"

fun payment_routes :: "payment_cmd \<Rightarrow> route list" where
  "payment_routes (SubmitProfile input) = [(''POST'', paykh (''tenants/'' @ sp_tenantId input @ ''/payment-profiles''), None)]"
| "payment_routes (VerifyProfile i _) = [(''POST'', paykh (''payment-profiles/'' @ i @ ''/verify''), None)]"
| "payment_routes (ActivateProfile i _) = [(''POST'', paykh (''payment-profiles/'' @ i @ ''/activate''), None)]"
| "payment_routes (SuspendProfile i _ _) = [(''POST'', paykh (''payment-profiles/'' @ i @ ''/suspend''), None)]"
| "payment_routes (CreateOrder _) = [(''POST'', paykh ''payment-orders'', None)]"
| "payment_routes (CancelOrder i _) = [(''POST'', paykh (''payment-orders/'' @ i @ ''/cancel''), None)]"
| "payment_routes (RefundOrder i _ _) = [(''POST'', paykh (''payment-orders/'' @ i @ ''/refund''), None)]"
| "payment_routes (CheckPayment i _) = [(''POST'', paykh (''payment-orders/'' @ i @ ''/check-payment''), None)]"

fun settlement_routes :: "settlement_cmd \<Rightarrow> route list" where
  "settlement_routes (RegisterMerchant _) = [(''POST'', paykh ''merchants'', None)]"
| "settlement_routes (UpdateMerchant i _ _ _ _) = [(''POST'', paykh (''merchants/'' @ i @ ''/status''), None)]"
| "settlement_routes (CreateSettlementCmd _) = [(''POST'', paykh ''settlements'', None)]"
| "settlement_routes (CancelSettlement i _) = [(''POST'', paykh (''settlements/'' @ i @ ''/cancel''), None)]"
| "settlement_routes (ApproveSettlement i _) = [(''POST'', paykh (''settlements/'' @ i @ ''/approve''), None),
     (''POST'', admin (''settlements/'' @ i @ ''/approve''), needs PAYKH_SETTLEMENT_APPROVE)]"
| "settlement_routes (ConfirmSettlement i _) = [(''POST'', paykh (''settlements/'' @ i @ ''/confirm''), None),
     (''POST'', admin (''settlements/'' @ i @ ''/confirm''), needs PAYKH_SETTLEMENT_APPROVE)]"

fun loyalty_routes :: "loyalty_cmd \<Rightarrow> route list" where
  "loyalty_routes (CreateFund _) = [(''POST'', paykh ''program-funds'', None)]"
| "loyalty_routes (FundFund i _ _) = [(''POST'', paykh (''program-funds/'' @ i @ ''/fund''), None)]"
| "loyalty_routes (ReserveFund i _ _) = [(''POST'', paykh (''program-funds/'' @ i @ ''/reserve''), None)]"
| "loyalty_routes (ReleaseFund i _ _) = [(''POST'', paykh (''program-funds/'' @ i @ ''/release''), None)]"
| "loyalty_routes (BindLoyalty _) = [(''POST'', paykh ''loyalty'', None)]"
| "loyalty_routes (IssueLoyalty input) = [(''POST'', paykh (''loyalty/'' @ il_liabilityId input @ ''/issue''), None)]"
| "loyalty_routes (RedeemLoyalty input) = [(''POST'', paykh (''loyalty/'' @ rl_liabilityId input @ ''/redeem''), None)]"
| "loyalty_routes (ReconcileLoyalty i) = [(''POST'', paykh (''loyalty/'' @ i @ ''/reconcile''), None),
     (''POST'', bank (''loyalty-liabilities/'' @ i @ ''/reconcile''), None)]"

fun platform_routes :: "platform_cmd \<Rightarrow> route list" where
  "platform_routes (SetFlagCmd key _ _) = [(''PUT'', admin (''feature-flags/'' @ key), needs ADMIN_FEATURE_FLAGS)]"
| "platform_routes (SetControlCmd key _ _ _) = [(''PUT'', admin (''controls/'' @ key), needs ADMIN_EMERGENCY)]"
| "platform_routes (CreateProgramCmd _ _) = [(''POST'', admin ''programs'', needs ADMIN_ROLES)]"
| "platform_routes (AddTrusteeAccountCmd i _ _) = [(''POST'', admin (''programs/'' @ i @ ''/accounts''), needs ADMIN_ROLES)]"
| "platform_routes (SetProgramStatusCmd i _ _) = [(''PUT'', admin (''programs/'' @ i @ ''/status''), needs ADMIN_EMERGENCY)]"

fun command_routes :: "command \<Rightarrow> route list" where
  "command_routes (Deposits_op c) = deposit_routes c"
| "command_routes (Mint_op c) = mint_routes c"
| "command_routes (Redemption_op c) = redemption_routes c"
| "command_routes (Ingest _) = [(''POST'', paychain ''liability-snapshots'', None)]"
| "command_routes (Reserve_op c) = reserve_routes c"
| "command_routes (Oversight_op c) = oversight_routes c"
| "command_routes (Payment_op c) = payment_routes c"
| "command_routes (Settlement_op c) = settlement_routes c"
| "command_routes (Loyalty_op c) = loyalty_routes c"
| "command_routes (Set_flag _ _ _) = []"
| "command_routes (Platform_op c) = platform_routes c"

section \<open>Routes of the administration and of one's own account\<close>

fun admin_routes :: "admin_call \<Rightarrow> route list" where
  "admin_routes (CreateUserCall _) = [(''POST'', admin ''users'', needs ADMIN_USERS)]"
| "admin_routes (SetUserRoles i _ _) = [(''PUT'', admin (''users/'' @ i @ ''/roles''), needs ADMIN_USERS)]"
| "admin_routes (SetUserDisabled i _ _) = [(''PUT'', admin (''users/'' @ i @ ''/disabled''), needs ADMIN_USERS)]"
| "admin_routes (UpsertRoleCall input) = [(''PUT'', admin (''roles/'' @ ur_slug input), needs ADMIN_ROLES)]"
| "admin_routes (DeleteRole slug _) = [(''DELETE'', admin (''roles/'' @ slug), needs ADMIN_ROLES)]"
| "admin_routes (SetClientRateLimit p _ _) = [(''PUT'', admin (''clients/'' @ p @ ''/rate-limit''), needs ADMIN_FEATURE_FLAGS)]"
| "admin_routes (SetClientDisabled p _ _) = [(''PUT'', admin (''clients/'' @ p @ ''/disabled''), needs ADMIN_EMERGENCY)]"
| "admin_routes (SetClientKey p _ _ _) = [(''PUT'', admin (''clients/'' @ p @ ''/key''), needs ADMIN_ROLES)]"
| "admin_routes (RotateClientSecret p _) = [(''POST'', admin (''clients/'' @ p @ ''/rotate-secret''), needs ADMIN_ROLES)]"
| "admin_routes (SetClientWebhookUrl p _ _) = [(''PUT'', admin (''clients/'' @ p @ ''/webhook''), needs ADMIN_ROLES)]"

datatype account_call =
    LoginCall string string "string option"
  | SetupCall
  | EnableCall string
  | ChangeCall string string
  | ForgotCall string
  | ResetCall string string

fun account_path :: "account_call \<Rightarrow> string" where
  "account_path (LoginCall _ _ _) = ''/api/v1/auth/login''"
| "account_path SetupCall = ''/api/v1/auth/mfa/setup''"
| "account_path (EnableCall _) = ''/api/v1/auth/mfa/enable''"
| "account_path (ChangeCall _ _) = ''/api/v1/auth/change-password''"
| "account_path (ForgotCall _) = ''/api/v1/auth/forgot-password''"
| "account_path (ResetCall _ _) = ''/api/v1/auth/reset-password''"

text \<open>\<open>POST policies\<close> passes its body on, so a body with an \<open>id\<close> updates that policy.\<close>

datatype policy_call = UpsertPolicyCall PolicyInput | DeletePolicyCall string string

fun policy_routes :: "policy_call \<Rightarrow> route list" where
  "policy_routes (UpsertPolicyCall input) = (''POST'', admin ''policies'', needs ADMIN_POLICIES)
     # (case pi_id input of None \<Rightarrow> [] | Some i \<Rightarrow> [(''PUT'', admin (''policies/'' @ i), needs ADMIN_POLICIES)])"
| "policy_routes (DeletePolicyCall i _) = [(''DELETE'', admin (''policies/'' @ i), needs ADMIN_POLICIES)]"

fun run_policy :: "policy_call \<Rightarrow> unit pop" where
  "run_policy (UpsertPolicyCall input) = seq (upsertPolicy input) (ret ())"
| "run_policy (DeletePolicyCall i actor) = deletePolicy i actor"

datatype replay_call = ReplayCall string string | ReplayDeadCall string

fun replay_routes :: "replay_call \<Rightarrow> route list" where
  "replay_routes (ReplayCall i _) = [(''POST'', admin (''webhooks/'' @ i @ ''/replay''), needs ADMIN_FEATURE_FLAGS)]"
| "replay_routes (ReplayDeadCall _) = [(''POST'', admin ''webhooks/replay-dead-lettered'', needs ADMIN_FEATURE_FLAGS)]"

fun run_replay :: "replay_call \<Rightarrow> unit wop" where
  "run_replay (ReplayCall i actor) = replayWebhook i actor"
| "run_replay (ReplayDeadCall actor) = bnd (replayDeadLettered actor) (\<lambda>_. ret ())"

datatype service_call =
    Platform command
  | Administer admin_call
  | SetPassword string string
  | Account account_call
  | Policies policy_call
  | RegisterLiability CreateRegistryEntry
  | Replays replay_call

fun endpoints :: "service_call \<Rightarrow> route list" where
  "endpoints (Platform c) = command_routes c"
| "endpoints (Administer c) = admin_routes c"
| "endpoints (SetPassword i _) = [(''PUT'', admin (''users/'' @ i @ ''/password''), needs ADMIN_USERS)]"
| "endpoints (Account c) = [(''POST'', account_path c, None)]"
| "endpoints (Policies c) = policy_routes c"
| "endpoints (RegisterLiability _) = [(''POST'', ''/api/v1/trustee/liability-registry'', None)]"
| "endpoints (Replays c) = replay_routes c"

section \<open>Serving a request\<close>

text \<open>The routes that run under the idempotency wrapper, with the route name they store.\<close>

fun keyed_route :: "command \<Rightarrow> string option" where
  "keyed_route (Deposits_op (CreateFunding _)) = Some ''POST /funding-instructions''"
| "keyed_route (Mint_op (RequestMint _)) = Some ''POST /mint-authorizations''"
| "keyed_route (Mint_op (ConfirmMintCmd i _)) = Some (''POST /mint-authorizations/'' @ i @ ''/confirm'')"
| "keyed_route (Redemption_op (RequestRedemptionCmd _)) = Some ''POST /redemptions''"
| "keyed_route (Payment_op (CreateOrder _)) = Some ''POST /paykh/payment-orders''"
| "keyed_route (Payment_op (CheckPayment i _)) = Some (''POST /paykh/payment-orders/'' @ i @ ''/check-payment'')"
| "keyed_route (Loyalty_op (IssueLoyalty input)) = Some (''POST /paykh/loyalty/'' @ il_liabilityId input @ ''/issue'')"
| "keyed_route (Loyalty_op (RedeemLoyalty input)) = Some (''POST /paykh/loyalty/'' @ rl_liabilityId input @ ''/redeem'')"
| "keyed_route _ = None"

text \<open>The handler's answer, where the wrapper stores it.\<close>

fun respond :: "command \<Rightarrow> json op" where
  "respond (Deposits_op c) = run_deposit c"
| "respond (Mint_op c) = run_mint c"
| "respond (Redemption_op c) = run_redemption c"
| "respond (Payment_op c) = run_payment c"
| "respond (Loyalty_op c) = run_loyalty c"
| "respond c = bnd (run c) (\<lambda>_. ret JNull)"

definition handle :: "request \<Rightarrow> command \<Rightarrow> unit op" where
  "handle q c = (case keyed_route c of
       None \<Rightarrow> run c
     | Some route \<Rightarrow> void (idempotent (hq_headers q ''idempotency-key'') route (body_or_empty (hq_body q)) (respond c)))"

text \<open>The account routes read the caller from the session token themselves.\<close>

definition own_id :: "request \<Rightarrow> string gop" where
  "own_id q = bnd (asks id) (\<lambda>g.
     let token = (case bearer q of None \<Rightarrow> [] | Some t \<Rightarrow> t) in
     bnd (lift_r (if token = [] then Inr None else verifyToken g token)) (\<lambda>p.
     case p of
       None \<Rightarrow> raise (Unauthorized ''Valid session token required'')
     | Some u \<Rightarrow> (case up_userId u of JStr i \<Rightarrow> ret i | _ \<Rightarrow> raise (PlainError ''Argument id is invalid''))))"

fun run_account :: "request \<Rightarrow> account_call \<Rightarrow> unit gop" where
  "run_account q (LoginCall email password code) = quiet (login email password code)"
| "run_account q SetupCall = bnd (own_id q) (\<lambda>i. quiet (setupMfa i))"
| "run_account q (EnableCall code) = bnd (own_id q) (\<lambda>i. enableMfa i code)"
| "run_account q (ChangeCall old new) = bnd (own_id q) (\<lambda>i. changePassword i old new)"
| "run_account q (ForgotCall email) = requestPasswordReset email"
| "run_account q (ResetCall token new) = resetPassword token new"

record api =
  ap_gate :: gate
  ap_st :: st
  ap_policies :: policy_st
  ap_registry :: "RegistryEntry list"
  ap_queue :: wst

text \<open>The replays read nothing of the worker's environment but the clock and identifiers.\<close>

definition replay_env :: "genv \<Rightarrow> wenv" where
  "replay_env g = \<lparr>wv = gv g, webhookKey = None, httpPost = (\<lambda>_ _ _. Inl []), MAX_ATTEMPTS = 0, BATCH_SIZE = 0\<rparr>"

definition void_result :: "'a res \<Rightarrow> unit res" where
  "void_result r = (case r of Inl x \<Rightarrow> Inl x | Inr _ \<Rightarrow> Inr ())"

definition user_row :: "AuthUser \<Rightarrow> User" where
  "user_row u = \<lparr>u_id = au_id u, u_email = au_email u, u_displayName = au_displayName u, u_institution = au_institution u,
     u_roles = au_roles u, u_disabled = au_disabled u\<rparr>"

definition on_gate :: "unit gop \<Rightarrow> genv \<Rightarrow> api \<Rightarrow> unit res \<times> api" where
  "on_gate m g a = (case m g (ap_gate a) of (r, gs) \<Rightarrow>
     (r, a\<lparr>ap_gate := gs, ap_st := (ap_st a)\<lparr>users := map user_row (gt_users gs)\<rparr>\<rparr>))"

fun perform :: "request \<Rightarrow> service_call \<Rightarrow> genv \<Rightarrow> api \<Rightarrow> unit res \<times> api" where
  "perform q (Platform c) g a = (case handle q c (gv g) (ap_st a) of (r, s) \<Rightarrow> (r, a\<lparr>ap_st := s\<rparr>))"
| "perform q (Administer c) g a = on_gate (run_admin c) g a"
| "perform q (SetPassword i new) g a = on_gate (adminSetPassword i new) g a"
| "perform q (Account c) g a = on_gate (run_account q c) g a"
| "perform q (Policies c) g a = (case run_policy c (gv g) (ap_policies a) of (r, s) \<Rightarrow> (r, a\<lparr>ap_policies := s\<rparr>))"
| "perform q (RegisterLiability dto) g a = (case registry_create dto (gv g) (ap_registry a) of (r, s) \<Rightarrow>
     (void_result r, a\<lparr>ap_registry := s\<rparr>))"
| "perform q (Replays c) g a = (case run_replay c (replay_env g) (ap_queue a) of (r, s) \<Rightarrow> (r, a\<lparr>ap_queue := s\<rparr>))"

definition find_route :: "(string \<Rightarrow> string \<Rightarrow> bool) \<Rightarrow> request \<Rightarrow> service_call \<Rightarrow> route option" where
  "find_route router q c = find (\<lambda>(m, p, _). hq_method q = m \<and> router p (hq_path q)) (endpoints c)"

definition serve :: "(string \<Rightarrow> string \<Rightarrow> bool) \<Rightarrow> request \<Rightarrow> service_call \<Rightarrow> genv \<Rightarrow> api \<Rightarrow> unit res \<times> api" where
  "serve router q c g a = (case find_route router q c of
       None \<Rightarrow> (Inl (NotFound ''Cannot''), a)
     | Some (_, _, permission) \<Rightarrow> (case admit permission q g (ap_gate a) of
         (Inl x, gs) \<Rightarrow> (Inl x, a\<lparr>ap_gate := gs\<rparr>)
       | (Inr _, gs) \<Rightarrow> perform q c g (a\<lparr>ap_gate := gs\<rparr>)))"

fun serve_all :: "(string \<Rightarrow> string \<Rightarrow> bool) \<Rightarrow> (genv \<times> request \<times> service_call) list \<Rightarrow> api \<Rightarrow> api" where
  "serve_all router [] a = a"
| "serve_all router ((g, q, c) # qs) a = serve_all router qs (snd (serve router q c g a))"

section \<open>Every call takes effect for its platforms only\<close>

text \<open>Which clients a command is meant for, whatever the routes say.\<close>

fun offered_to :: "command \<Rightarrow> string list" where
  "offered_to (Deposits_op c) = (case c of CreateFunding _ \<Rightarrow> [''PAYCHAIN''] | CancelFunding _ _ \<Rightarrow> [''PAYCHAIN''] | _ \<Rightarrow> [''TRUSTEE_BANK''])"
| "offered_to (Mint_op c) = (case c of RequestMint _ \<Rightarrow> [''PAYCHAIN''] | ConfirmMintCmd _ _ \<Rightarrow> [''PAYCHAIN''] | _ \<Rightarrow> [''TRUSTEE_BANK''])"
| "offered_to (Redemption_op c) = (case c of RequestRedemptionCmd _ \<Rightarrow> [''PAYCHAIN''] | ConfirmBurn _ _ _ \<Rightarrow> [''PAYCHAIN'']
     | _ \<Rightarrow> [''TRUSTEE_BANK''])"
| "offered_to (Ingest _) = [''PAYCHAIN'']"
| "offered_to (Reserve_op c) = (case c of CreateSnapshot _ \<Rightarrow> [''PAYCHAIN'', ''TRUSTEE_BANK''] | _ \<Rightarrow> [''TRUSTEE_BANK''])"
| "offered_to (Oversight_op c) = (case c of ReconcileReserve _ _ \<Rightarrow> [''PAYCHAIN'', ''TRUSTEE_BANK'']
     | ReconcileOrders _ _ \<Rightarrow> [''PAYKH'', ''TRUSTEE_BANK''] | ReconcileSettlements _ _ \<Rightarrow> [''PAYKH''] | _ \<Rightarrow> [''TRUSTEE_BANK''])"
| "offered_to (Payment_op _) = [''PAYKH'']"
| "offered_to (Settlement_op c) = (case c of ApproveSettlement _ _ \<Rightarrow> [''PAYKH'', ''TRUSTEE_BANK'']
     | ConfirmSettlement _ _ \<Rightarrow> [''PAYKH'', ''TRUSTEE_BANK''] | _ \<Rightarrow> [''PAYKH''])"
| "offered_to (Loyalty_op c) = (case c of ReconcileLoyalty _ \<Rightarrow> [''PAYKH'', ''TRUSTEE_BANK''] | _ \<Rightarrow> [''PAYKH''])"
| "offered_to (Set_flag _ _ _) = []"
| "offered_to (Platform_op _) = [''TRUSTEE_BANK'']"

fun offered :: "service_call \<Rightarrow> string list" where
  "offered (Platform c) = offered_to c"
| "offered (Account _) = []"
| "offered _ = [''TRUSTEE_BANK'']"

lemma namespaces [simp]:
  "requiredPlatform (paychain p) = Some ''PAYCHAIN''" "requiredPlatform (paykh p) = Some ''PAYKH''"
  "requiredPlatform (bank p) = Some ''TRUSTEE_BANK''" "requiredPlatform (admin p) = Some ''TRUSTEE_BANK''"
  by (simp_all add: requiredPlatform_def startsWith_def paychain_def paykh_def bank_def admin_def)

lemma route_namespace:
  assumes "(m, p, perm) \<in> set (command_routes c)"
  shows "\<exists>plat \<in> set (offered_to c). requiredPlatform p = Some plat"
  using assms
proof (cases c)
  case (Deposits_op x)
  with assms show ?thesis by (cases x) auto
next
  case (Mint_op x)
  with assms show ?thesis by (cases x) auto
next
  case (Redemption_op x)
  with assms show ?thesis by (cases x) auto
next
  case (Reserve_op x)
  with assms show ?thesis by (cases x) auto
next
  case (Oversight_op x)
  with assms show ?thesis by (cases x) (auto split: option.splits)
next
  case (Payment_op x)
  with assms show ?thesis by (cases x) auto
next
  case (Settlement_op x)
  with assms show ?thesis by (cases x) auto
next
  case (Loyalty_op x)
  with assms show ?thesis by (cases x) auto
next
  case (Platform_op x)
  with assms show ?thesis by (cases x) auto
qed auto

text \<open>What a request has proved when it is admitted to a route that declares \<open>permission\<close>.\<close>

definition authorized :: "genv \<Rightarrow> gate \<Rightarrow> request \<Rightarrow> string option \<Rightarrow> string \<Rightarrow> bool" where
  "authorized g s q permission plat =
    ((\<exists>u. user_session g q plat u \<and> (\<forall>r. permission = Some r \<and> r \<noteq> [] \<longrightarrow>
        (\<exists>slugs. role_slugs (up_roles u) = Inr slugs \<and> holds_permission (gt_roles s) slugs r)))
     \<or> (\<exists>k \<in> set (gt_clients s). client_session g q plat k
          \<and> (cl_requireSignature k \<and> value_changing q \<longrightarrow> signed_request g k q \<and> \<not> nonce_used (hq_headers q ''x-nonce'') s)))"

lemma admit_authorized:
  assumes "admit permission q g s = (Inr p, s')" and "requiredPlatform (hq_path q) = Some plat"
  shows "authorized g s q permission plat"
  using admitted_authenticated [OF assms] by (auto simp: authorized_def)

lemma find_Some_in: "find P xs = Some x \<Longrightarrow> x \<in> set xs \<and> P x"
  by (induction xs) (auto split: if_splits)

text \<open>
  What requests act on, besides the tables of the guards themselves (nonces, counters, password
  resets and the mails they cause).
\<close>

definition business :: "api \<Rightarrow> st \<times> policy_st \<times> RegistryEntry list \<times> wst \<times> AuthUser list \<times> ClientApplication list \<times> Role list" where
  "business a = (ap_st a, ap_policies a, ap_registry a, ap_queue a, gt_users (ap_gate a), gt_clients (ap_gate a), gt_roles (ap_gate a))"

lemma admit_directory:
  "gt_users (snd (admit permission q g s)) = gt_users s" "gt_clients (snd (admit permission q g s)) = gt_clients s"
  "gt_roles (snd (admit permission q g s)) = gt_roles s"
proof -
  have "leaves gt_users (admit permission q)" "leaves gt_clients (admit permission q)" "leaves gt_roles (admit permission q)"
    by (unfold gate_op_defs; intro leaves_intros; auto split: if_splits)+
  then show "gt_users (snd (admit permission q g s)) = gt_users s" "gt_clients (snd (admit permission q g s)) = gt_clients s"
    "gt_roles (snd (admit permission q g s)) = gt_roles s" by (simp_all add: leavesD)
qed

lemma serve_effect:
  assumes "business (snd (serve router q c g a)) \<noteq> business a"
  shows "\<exists>p permission who gs. (hq_method q, p, permission) \<in> set (endpoints c) \<and> router p (hq_path q)
    \<and> admit permission q g (ap_gate a) = (Inr who, gs)"
proof (cases "find_route router q c")
  case None
  with assms show ?thesis by (simp add: serve_def)
next
  case (Some r)
  obtain m p permission where r: "r = (m, p, permission)" by (cases r)
  from Some r have route: "(hq_method q, p, permission) \<in> set (endpoints c)" "router p (hq_path q)"
    by (auto simp: find_route_def dest: find_Some_in)
  obtain x gs where adm: "admit permission q g (ap_gate a) = (x, gs)" by (cases "admit permission q g (ap_gate a)")
  have "business (snd (serve router q c g a)) = business a" if "x = Inl y" for y
    using that Some r adm admit_directory [of permission q g "ap_gate a"] by (simp add: serve_def business_def)
  with assms adm route show ?thesis by (cases x) auto
qed

section \<open>Namespaces and routing\<close>

text \<open>
  The literal namespaces of the routes and the platforms the guards require for them. What is
  relied on of the framework: the literal text of a route is matched, the case of letters aside
  (Express matches without regard to case unless it is told otherwise, and \<open>main.ts\<close> does not).
\<close>

definition NAMESPACES :: "(string \<times> string) list" where
  "NAMESPACES = [(''/api/v1/paychain'', ''PAYCHAIN''), (''/api/v1/paykh'', ''PAYKH''), (''/api/v1/bank'', ''TRUSTEE_BANK''),
     (''/api/v1/trustee'', ''TRUSTEE_BANK''), (''/api/v1/admin'', ''TRUSTEE_BANK'')]"

definition matches_literals :: "(string \<Rightarrow> string \<Rightarrow> bool) \<Rightarrow> bool" where
  "matches_literals router = (\<forall>p path ns plat. router p path \<and> (ns, plat) \<in> set NAMESPACES \<and> startsWith ns p
     \<longrightarrow> startsWith (toUpperCase ns) (toUpperCase path))"

text \<open>The path has the namespace of the route in other letters, so that the guards do not see it.\<close>

definition respelled :: "string \<Rightarrow> string \<Rightarrow> bool" where
  "respelled p path = (\<exists>(ns, plat) \<in> set NAMESPACES. startsWith ns p \<and> \<not> startsWith ns path \<and> requiredPlatform path = None)"

text \<open>The default of Express: letters of either case, with or without a slash at the end.\<close>

definition express_match :: "string \<Rightarrow> string \<Rightarrow> bool" where
  "express_match p path = (toUpperCase path \<in> {toUpperCase p, toUpperCase p @ ''/''})"

lemma startsWith_ex: "startsWith p s \<longleftrightarrow> (\<exists>t. s = p @ t)"
proof
  assume "startsWith p s"
  then have "s = p @ drop (length p) s" unfolding startsWith_def by (metis append_take_drop_id)
  then show "\<exists>t. s = p @ t" by blast
qed (auto simp: startsWith_def)

lemma startsWith_append: "startsWith p s \<Longrightarrow> startsWith p (s @ t)"
  by (auto simp: startsWith_ex)

lemma startsWith_upper: "startsWith p s \<Longrightarrow> startsWith (toUpperCase p) (toUpperCase s)"
  by (auto simp: startsWith_ex toUpperCase_def)

lemma express_matches_literals: "matches_literals express_match"
  unfolding matches_literals_def
proof (intro allI impI)
  fix p path ns plat assume "express_match p path \<and> (ns, plat) \<in> set NAMESPACES \<and> startsWith ns p"
  then have "startsWith (toUpperCase ns) (toUpperCase p)" "toUpperCase path = toUpperCase p \<or> toUpperCase path = toUpperCase p @ ''/''"
    by (auto simp only: express_match_def startsWith_upper)
  then show "startsWith (toUpperCase ns) (toUpperCase path)" by (auto simp only: startsWith_append)
qed

lemma exact_matches_literals: "matches_literals (=)"
  unfolding matches_literals_def using startsWith_upper by blast

text \<open>No namespace is a prefix of another one, in any spelling.\<close>

lemma startsWith_linear: "startsWith p s \<Longrightarrow> startsWith q s \<Longrightarrow> startsWith p q \<or> startsWith q p"
  by (auto simp: startsWith_ex append_eq_append_conv2)

definition apart :: "string \<times> string \<Rightarrow> string \<times> string \<Rightarrow> bool" where
  "apart x y = (snd x = snd y \<or> \<not> startsWith (toUpperCase (fst x)) (toUpperCase (fst y)))"

lemma namespaces_apart: "list_all (\<lambda>x. list_all (apart x) NAMESPACES) NAMESPACES"
  by code_simp

lemma apartD: "x \<in> set NAMESPACES \<Longrightarrow> y \<in> set NAMESPACES \<Longrightarrow> apart x y"
  using namespaces_apart unfolding list_all_iff by blast

lemma namespace_unique:
  assumes "(ns, plat) \<in> set NAMESPACES" and "(ns', plat') \<in> set NAMESPACES"
    and "startsWith (toUpperCase ns) s" and "startsWith (toUpperCase ns') s"
  shows "plat = plat'"
  using startsWith_linear [OF assms(3,4)] apartD [OF assms(1,2)] apartD [OF assms(2,1)]
  unfolding apart_def fst_conv snd_conv by metis

lemma required_namespace:
  assumes "requiredPlatform path = Some plat"
  shows "\<exists>ns. (ns, plat) \<in> set NAMESPACES \<and> startsWith ns path"
proof -
  from assms have "(startsWith ''/api/v1/paychain'' path \<and> plat = ''PAYCHAIN'') \<or> (startsWith ''/api/v1/paykh'' path \<and> plat = ''PAYKH'')
    \<or> ((startsWith ''/api/v1/bank'' path \<or> startsWith ''/api/v1/trustee'' path \<or> startsWith ''/api/v1/admin'' path) \<and> plat = ''TRUSTEE_BANK'')"
    by (simp only: requiredPlatform_def option.inject option.distinct split: if_splits) simp_all
  then show ?thesis by (elim disjE conjE) (simp_all only: NAMESPACES_def list.set insert_iff prod.inject simp_thms ex_simps, auto)
qed

text \<open>The guards take a path for the platform of the route it is matched with, or for an open one.\<close>

lemma routed_platform:
  assumes "matches_literals router" and "router p path" and "requiredPlatform p = Some plat"
  shows "requiredPlatform path = Some plat \<or> respelled p path"
proof -
  from required_namespace [OF assms(3)] obtain ns where ns: "(ns, plat) \<in> set NAMESPACES" "startsWith ns p" by blast
  with assms(1,2) have up: "startsWith (toUpperCase ns) (toUpperCase path)" unfolding matches_literals_def by blast
  show ?thesis
  proof (cases "requiredPlatform path")
    case (Some plat')
    from required_namespace [OF Some] obtain ns' where ns': "(ns', plat') \<in> set NAMESPACES" "startsWith ns' path" by blast
    from namespace_unique [OF ns(1) ns'(1) up startsWith_upper [OF ns'(2)]] Some show ?thesis by simp
  next
    case None
    have "\<not> startsWith ns path"
    proof
      assume "startsWith ns path"
      with None ns(1) have "startsWith ''/api/v1/auth'' path" by (auto simp: requiredPlatform_def NAMESPACES_def split: if_splits)
      from startsWith_linear [OF \<open>startsWith ns path\<close> this]
      have "startsWith ns ''/api/v1/auth'' \<or> startsWith ''/api/v1/auth'' ns" .
      with ns(1) show False by (auto simp: NAMESPACES_def startsWith_def)
    qed
    with None ns show ?thesis unfolding respelled_def by blast
  qed
qed

lemma endpoint_namespace:
  assumes "(m, p, permission) \<in> set (endpoints c)" and "\<nexists>x. c = Account x"
  shows "\<exists>plat \<in> set (offered c). requiredPlatform p = Some plat"
proof (cases c)
  case (Platform x)
  with assms(1) route_namespace show ?thesis by simp
next
  case (Administer x)
  with assms(1) show ?thesis by (cases x) auto
next
  case (Policies x)
  with assms(1) show ?thesis by (cases x) (auto split: option.splits)
next
  case (Replays x)
  with assms(1) show ?thesis by (cases x) auto
next
  case (RegisterLiability x)
  with assms(1) show ?thesis by (simp add: requiredPlatform_def startsWith_def)
qed (use assms in auto)

lemma effect_authorized:
  assumes "matches_literals router" and "business (snd (serve router q c g a)) \<noteq> business a" and "\<nexists>x. c = Account x"
  shows "\<exists>p permission plat. (hq_method q, p, permission) \<in> set (endpoints c) \<and> router p (hq_path q) \<and> plat \<in> set (offered c)
    \<and> (authorized g (ap_gate a) q permission plat \<or> respelled p (hq_path q))"
proof -
  from serve_effect [OF assms(2)] obtain p permission who gs where
    route: "(hq_method q, p, permission) \<in> set (endpoints c)" "router p (hq_path q)" and
    adm: "admit permission q g (ap_gate a) = (Inr who, gs)" by blast
  from endpoint_namespace [OF route(1) assms(3)] obtain plat where
    plat: "plat \<in> set (offered c)" "requiredPlatform p = Some plat" by blast
  from routed_platform [OF assms(1) route(2) plat(2)] admit_authorized [OF adm] route plat(1) show ?thesis by blast
qed

text \<open>What the exception means: a request in other letters is served without any credentials.\<close>

lemma respelled_bypass:
  assumes "find_route router q c = Some (m, p, permission)" and "respelled p (hq_path q)"
  shows "serve router q c g a = perform q c g a"
proof -
  from assms(2) have "requiredPlatform (hq_path q) = None" by (auto simp: respelled_def)
  from exempt_request [OF this, of permission g "ap_gate a"] assms(1) show ?thesis by (simp add: serve_def)
qed

section \<open>Whatever is served, the platform stays in a reachable state\<close>

lemma snd_bnd_ret: "snd (bnd m (\<lambda>_. ret x) e s) = snd (m e s)"
  by (simp add: snd_bnd ret_def split: prod.split sum.split)

lemma snd_respond: "snd (respond c e s) = snd (run c e s)"
  by (cases c) (simp_all add: snd_void snd_bnd_ret)

lemma idempotent_effect:
  "snd (idempotent key route body m e s) \<in> {s, snd (m e s)} \<or> (\<exists>ks. snd (idempotent key route body m e s) = snd (m e s)\<lparr>idemKeys := ks\<rparr>)"
proof (cases "truthy key")
  case False
  then show ?thesis by (simp add: idempotent_def snd_bnd ret_def split: prod.split sum.split)
next
  case keyed: True
  show ?thesis
  proof (cases "find_row ik_key (the key) (idemKeys s)")
    case (Some k)
    with keyed show ?thesis by (simp add: idempotent_def Let_def prog_simps)
  next
    case None
    obtain r s' where m: "m e s = (r, s')" by (cases "m e s")
    from keyed None m show ?thesis
      by (cases r) (auto simp: idempotent_def Let_def prog_simps bnd_def [of m] try_modify_def)
  qed
qed

lemma reachable_keys: "reachable s \<Longrightarrow> reachable (s\<lparr>idemKeys := ks\<rparr>)"
  using reach.reference [of any_call s "users s" "programs s" "accounts s" "controls s" ks] by (simp add: with_reference_def)

lemma reachable_users: "reachable s \<Longrightarrow> reachable (s\<lparr>users := us\<rparr>)"
  using reach.reference [of any_call s us "programs s" "accounts s" "controls s" "idemKeys s"] by (simp add: with_reference_def)

lemma reachable_handle: "reachable s \<Longrightarrow> reachable (snd (handle q c e s))"
proof -
  assume s: "reachable s"
  then have run: "reachable (snd (run c e s))" by (rule reach.call) simp
  show ?thesis
  proof (cases "keyed_route c")
    case (Some route)
    with idempotent_effect [of "hq_headers q ''idempotency-key''" route "body_or_empty (hq_body q)" "respond c" e s] s run
    show ?thesis by (auto simp: handle_def snd_void snd_respond reachable_keys)
  qed (simp add: handle_def run)
qed

lemma reachable_perform:
  assumes "reachable (ap_st a)"
  shows "reachable (ap_st (snd (perform q c g a)))"
proof (cases c)
  case (Platform x)
  with reachable_handle [OF assms, of q x "gv g"] show ?thesis by (cases "handle q x (gv g) (ap_st a)") simp
qed (simp_all add: on_gate_def reachable_users assms split: prod.split)

lemma reachable_serve:
  assumes "reachable (ap_st a)"
  shows "reachable (ap_st (snd (serve router q c g a)))"
  using assms reachable_perform by (auto simp: serve_def split: option.split prod.split sum.split)

lemma reachable_serve_all: "reachable (ap_st a) \<Longrightarrow> reachable (ap_st (serve_all router qs a))"
  by (induction router qs a rule: serve_all.induct) (simp_all add: reachable_serve)

end
