(* ===== verification/Dtos.thy ===== *)
theory Dtos
  imports Api
begin

text \<open>
  The bodies of the requests: the DTO classes of the controllers (\<open>modules/*/*.dto.ts\<close> and the
  classes inside \<open>*.controller.ts\<close>) with their validation decorators and declared types, and the
  global \<open>ValidationPipe\<close> of \<open>main.ts\<close>, which runs after the guards. \<open>class-validator\<close> is a
  parameter: \<open>lib\<close> says what a decorator accepts, and \<open>documented\<close> is what its documentation
  promises of the types. Numbers in a body are integers, as in Json. The lemmas say that the
  decorators enforce the declared types, with one exception, and that a request served through
  a DTO is the service call its body spells.
\<close>

section \<open>Decorators, declared types and the validation pipe\<close>

datatype decorator =
    IsString | IsNotEmpty | IsNumberString | IsInt | IsPositive | Length nat nat | IsOptional | IsBoolean
  | IsDateString | IsArray | ArrayNotEmpty | EachString

datatype ts_type = TString | TNumber | TBoolean | TStrings | TFundClassification | TOpt ts_type

type_synonym field = "string \<times> decorator list \<times> ts_type"

type_synonym dto = "field list"

definition field_ok :: "(decorator \<Rightarrow> json \<Rightarrow> bool) \<Rightarrow> json \<Rightarrow> field \<Rightarrow> bool" where
  "field_ok lib body f = (case f of (k, ds, _) \<Rightarrow> let v = member body k in
     (IsOptional \<in> set ds \<and> (v = JNull \<or> v = JUndef)) \<or> list_all (\<lambda>d. d = IsOptional \<or> lib d v) ds)"

text \<open>\<open>whitelist\<close> and \<open>forbidNonWhitelisted\<close>: a member that the class does not declare is refused.\<close>

definition accepts :: "(decorator \<Rightarrow> json \<Rightarrow> bool) \<Rightarrow> dto \<Rightarrow> json \<Rightarrow> bool" where
  "accepts lib d body = (case body of
       JObj ms \<Rightarrow> list_all (\<lambda>(k, _). k \<in> set (map fst d)) ms \<and> list_all (field_ok lib body) d
     | _ \<Rightarrow> False)"

text \<open>A value of a declared type; \<open>null\<close> counts as an absent optional member.\<close>

fun inhabits :: "ts_type \<Rightarrow> json \<Rightarrow> bool" where
  "inhabits TString v = (case v of JStr _ \<Rightarrow> True | _ \<Rightarrow> False)"
| "inhabits TNumber v = (case v of JNum _ \<Rightarrow> True | _ \<Rightarrow> False)"
| "inhabits TBoolean v = (case v of JBool _ \<Rightarrow> True | _ \<Rightarrow> False)"
| "inhabits TStrings v = (case v of JArr vs \<Rightarrow> list_all (\<lambda>x. case x of JStr _ \<Rightarrow> True | _ \<Rightarrow> False) vs | _ \<Rightarrow> False)"
| "inhabits TFundClassification v = (case v of JStr s \<Rightarrow> classification_of s \<noteq> None | _ \<Rightarrow> False)"
| "inhabits (TOpt t) v = (v = JUndef \<or> v = JNull \<or> inhabits t v)"

section \<open>The DTO classes\<close>

abbreviation string_field :: "string \<Rightarrow> field" where
  "string_field k \<equiv> (k, [IsString, IsNotEmpty], TString)"

abbreviation opt_field :: "string \<Rightarrow> field" where
  "opt_field k \<equiv> (k, [IsOptional, IsString], TOpt TString)"

abbreviation amount_field :: "string \<Rightarrow> field" where
  "amount_field k \<equiv> (k, [IsNumberString], TString)"

abbreviation opt_amount_field :: "string \<Rightarrow> field" where
  "opt_amount_field k \<equiv> (k, [IsOptional, IsNumberString], TOpt TString)"

abbreviation currency_field :: field where
  "currency_field \<equiv> (''currency'', [IsString, Length 3 3], TString)"

abbreviation ttl_field :: field where
  "ttl_field \<equiv> (''ttlSeconds'', [IsOptional, IsInt, IsPositive], TOpt TNumber)"

definition RegisterDepositDto :: dto where
  "RegisterDepositDto = [string_field ''programId'', string_field ''trusteeAccountId'', string_field ''bankTransactionId'', amount_field ''amountMinor'',
     currency_field, opt_field ''payerName'', opt_field ''paymentReference'', (''transactionDate'', [IsDateString], TString),
     string_field ''actor'']"

definition MatchDepositDto :: dto where
  "MatchDepositDto = [string_field ''fundingInstructionId'', string_field ''actor'']"

definition ClearDepositDto :: dto where
  "ClearDepositDto = [string_field ''actor'']"

definition CreateFundingInstructionDto :: dto where
  "CreateFundingInstructionDto = [string_field ''programId'', string_field ''paychainRequestId'', string_field ''assetId'', string_field ''depositor'',
     opt_field ''expectedPayer'', string_field ''beneficiaryAccountId'', amount_field ''amountMinor'', currency_field,
     string_field ''permittedMethod'', ttl_field, string_field ''actor'']"

definition RequestMintAuthorizationDto :: dto where
  "RequestMintAuthorizationDto = [string_field ''programId'', string_field ''paychainRequestId'', amount_field ''amountMinor'',
     (''fundingDepositIds'', [IsArray, ArrayNotEmpty, EachString], TStrings), opt_field ''tenantId'', opt_field ''destination'']"

definition ReviewMintDto :: dto where
  "ReviewMintDto = [string_field ''makerId'']"

definition ApproveMintDto :: dto where
  "ApproveMintDto = [string_field ''checkerId'', string_field ''reason'']"

definition RevokeMintDto :: dto where
  "RevokeMintDto = [string_field ''actor'', string_field ''reason'']"

definition ConfirmMintDto :: dto where
  "ConfirmMintDto = [string_field ''paychainTransactionId'', string_field ''blockchainTxHash'', amount_field ''amountMinor'', string_field ''destination'',
     opt_amount_field ''ledgerHeight'', (''confirmedAt'', [IsDateString], TString), string_field ''paychainSignature'', string_field ''actor'']"

definition RequestRedemptionDto :: dto where
  "RequestRedemptionDto = [string_field ''programId'', string_field ''paychainRedemptionId'', amount_field ''amountMinor'', string_field ''beneficiaryName'',
     string_field ''beneficiaryAccountMasked'', opt_field ''correlationId'']"

definition ConfirmBurnDto :: dto where
  "ConfirmBurnDto = [string_field ''burnTxHash'', string_field ''actor'']"

definition ActorReasonDto :: dto where
  "ActorReasonDto = [string_field ''actor'', opt_field ''reason'']"

definition ApproveRedemptionDto :: dto where
  "ApproveRedemptionDto = [string_field ''approverId'', string_field ''reason'']"

definition AddAdjustmentDto :: dto where
  "AddAdjustmentDto = [string_field ''kind'', amount_field ''amountMinor'', opt_field ''reason'', string_field ''actor'']"

definition ActorBodyDto :: dto where
  "ActorBodyDto = [string_field ''actor'']"

definition RegisterBankDto :: dto where
  "RegisterBankDto = [string_field ''bankId'', string_field ''bankLegalName'', opt_field ''country'', opt_field ''integrationMode'',
     opt_field ''baseUrl'', opt_field ''authTokenEnv'', string_field ''actor'']"

definition SetAccountBankDto :: dto where
  "SetAccountBankDto = [opt_field ''bankId'', opt_amount_field ''mockClearedMinor'']"

definition SubmitPaymentProfileDto :: dto where
  "SubmitPaymentProfileDto = [string_field ''recipientName'', string_field ''recipientAccountMasked'', string_field ''bankName'', currency_field,
     string_field ''khqrPayload'', string_field ''actor'']"

definition ActorDto :: dto where
  "ActorDto = [string_field ''actor'']"

definition SuspendDto :: dto where
  "SuspendDto = [string_field ''actor'', string_field ''reason'']"

definition CreatePaymentOrderDto :: dto where
  "CreatePaymentOrderDto = [string_field ''tenantId'', string_field ''profileId'', amount_field ''amountMinor'', currency_field, ttl_field,
     string_field ''actor'']"

definition CheckPaymentDto :: dto where
  "CheckPaymentDto = [string_field ''bankTransactionId'', amount_field ''amountMinor'', currency_field, string_field ''paymentReference'',
     string_field ''recipientAccountMasked'', string_field ''reserveAccountId'', string_field ''actor'']"

definition CreateProgramFundDto :: dto where
  "CreateProgramFundDto = [string_field ''tenantId'', string_field ''paykhProgramId'',
     (''classification'', [IsString, IsNotEmpty], TFundClassification), currency_field, string_field ''reserveAccountId'', string_field ''actor'']"

definition FundAmountDto :: dto where
  "FundAmountDto = [amount_field ''amountMinor'', string_field ''actor'']"

definition CreateSettlementDto :: dto where
  "CreateSettlementDto = [string_field ''tenantId'', string_field ''merchantId'', amount_field ''amountMinor'', currency_field, string_field ''actor'']"

definition ApproveSettlementDto :: dto where
  "ApproveSettlementDto = [string_field ''checkerId'']"

definition BindLoyaltyDto :: dto where
  "BindLoyaltyDto = [string_field ''programFundId'', (''decimals'', [IsOptional, IsInt], TOpt TNumber), opt_amount_field ''denominationMinor'',
     opt_field ''stellarAssetCode'', opt_field ''stellarIssuer'', opt_field ''stellarDistributor'', string_field ''actor'']"

definition IssueLoyaltyDto :: dto where
  "IssueLoyaltyDto = [string_field ''customerRef'', opt_amount_field ''amountMinor'', opt_amount_field ''units'', string_field ''actor'']"

definition RedeemLoyaltyDto :: dto where
  "RedeemLoyaltyDto = [string_field ''merchantId'', string_field ''customerRef'', opt_amount_field ''amountMinor'', opt_amount_field ''units'',
     string_field ''actor'']"

definition RegisterMerchantDto :: dto where
  "RegisterMerchantDto = [string_field ''tenantId'', string_field ''merchantCode'', string_field ''legalName'', opt_field ''country'',
     opt_field ''paykhMerchantRef'', opt_field ''kycStatus'', opt_field ''status'', opt_field ''riskLevel'', string_field ''actor'']"

definition UpdateMerchantStatusDto :: dto where
  "UpdateMerchantStatusDto = [opt_field ''kycStatus'', opt_field ''status'', opt_field ''riskLevel'', string_field ''actor'']"

definition ProgramReconDto :: dto where
  "ProgramReconDto = [string_field ''programId'', string_field ''actor'']"

definition TenantReconDto :: dto where
  "TenantReconDto = [string_field ''tenantId'', string_field ''actor'']"

definition CreateRegistryEntryDto :: dto where
  "CreateRegistryEntryDto = [string_field ''trusteeProgramId'', string_field ''platform'', opt_field ''tenantId'', opt_field ''paykhProgramId'',
     opt_field ''paychainAssetId'', (''liabilityType'', [IsString, IsNotEmpty], TFundClassification), string_field ''reserveAccountId'',
     currency_field, (''requiredReserveBps'', [IsOptional, IsInt], TOpt TNumber),
     (''mintAuthorizationRequired'', [IsOptional, IsBoolean], TOpt TBoolean),
     (''redemptionAuthorizationRequired'', [IsOptional, IsBoolean], TOpt TBoolean)]"

definition LoginDto :: dto where
  "LoginDto = [string_field ''email'', string_field ''password'', opt_field ''code'']"

definition CodeDto :: dto where
  "CodeDto = [string_field ''code'']"

definition ChangePasswordDto :: dto where
  "ChangePasswordDto = [string_field ''currentPassword'', string_field ''newPassword'']"

definition ForgotPasswordDto :: dto where
  "ForgotPasswordDto = [string_field ''email'']"

definition ResetPasswordDto :: dto where
  "ResetPasswordDto = [string_field ''token'', string_field ''newPassword'']"

section \<open>Endpoints: the DTO of a route and the call its body spells\<close>

text \<open>The routes that take a DTO, with their path parameters.\<close>

datatype endpoint =
    EpRegisterDeposit | EpMatchDeposit string | EpClearDeposit string | EpCreateFunding
  | EpRequestMint | EpReviewMint string | EpApproveMint string | EpRejectMint string | EpRevokeMint string | EpConfirmMint string
  | EpRequestRedemption | EpConfirmBurn string | EpApproveRedemption string | EpSubmitPayout string | EpConfirmPayout string
  | EpAddAdjustment string | EpLiftAdjustment string | EpRegisterBank | EpSetAccountBank string
  | EpSubmitProfile string | EpVerifyProfile string | EpActivateProfile string | EpSuspendProfile string
  | EpCreateOrder | EpCancelOrder string | EpRefundOrder string | EpCheckPayment string
  | EpCreateFund | EpFundFund string | EpReserveFund string | EpReleaseFund string
  | EpRegisterMerchant | EpMerchantStatus string
  | EpCreateSettlement | EpCancelSettlement string | EpApproveSettlement string | EpConfirmSettlement string
  | EpBindLoyalty | EpIssueLoyalty string | EpRedeemLoyalty string
  | EpReconcileReserve | EpReconcileOrders | EpReconcileSettlements | EpAttestation string string
  | EpRegisterLiability
  | EpLogin | EpEnableMfa | EpChangePassword | EpForgotPassword | EpResetPassword

fun dto_of :: "endpoint \<Rightarrow> dto" where
  "dto_of EpRegisterDeposit = RegisterDepositDto"
| "dto_of (EpMatchDeposit _) = MatchDepositDto"
| "dto_of (EpClearDeposit _) = ClearDepositDto"
| "dto_of EpCreateFunding = CreateFundingInstructionDto"
| "dto_of EpRequestMint = RequestMintAuthorizationDto"
| "dto_of (EpReviewMint _) = ReviewMintDto"
| "dto_of (EpApproveMint _) = ApproveMintDto"
| "dto_of (EpRejectMint _) = ApproveMintDto"
| "dto_of (EpRevokeMint _) = RevokeMintDto"
| "dto_of (EpConfirmMint _) = ConfirmMintDto"
| "dto_of EpRequestRedemption = RequestRedemptionDto"
| "dto_of (EpConfirmBurn _) = ConfirmBurnDto"
| "dto_of (EpApproveRedemption _) = ApproveRedemptionDto"
| "dto_of (EpSubmitPayout _) = ActorReasonDto"
| "dto_of (EpConfirmPayout _) = ActorReasonDto"
| "dto_of (EpAddAdjustment _) = AddAdjustmentDto"
| "dto_of (EpLiftAdjustment _) = ActorBodyDto"
| "dto_of EpRegisterBank = RegisterBankDto"
| "dto_of (EpSetAccountBank _) = SetAccountBankDto"
| "dto_of (EpSubmitProfile _) = SubmitPaymentProfileDto"
| "dto_of (EpVerifyProfile _) = ActorDto"
| "dto_of (EpActivateProfile _) = ActorDto"
| "dto_of (EpSuspendProfile _) = SuspendDto"
| "dto_of EpCreateOrder = CreatePaymentOrderDto"
| "dto_of (EpCancelOrder _) = ActorDto"
| "dto_of (EpRefundOrder _) = SuspendDto"
| "dto_of (EpCheckPayment _) = CheckPaymentDto"
| "dto_of EpCreateFund = CreateProgramFundDto"
| "dto_of (EpFundFund _) = FundAmountDto"
| "dto_of (EpReserveFund _) = FundAmountDto"
| "dto_of (EpReleaseFund _) = FundAmountDto"
| "dto_of EpRegisterMerchant = RegisterMerchantDto"
| "dto_of (EpMerchantStatus _) = UpdateMerchantStatusDto"
| "dto_of EpCreateSettlement = CreateSettlementDto"
| "dto_of (EpCancelSettlement _) = ActorDto"
| "dto_of (EpApproveSettlement _) = ApproveSettlementDto"
| "dto_of (EpConfirmSettlement _) = ActorDto"
| "dto_of EpBindLoyalty = BindLoyaltyDto"
| "dto_of (EpIssueLoyalty _) = IssueLoyaltyDto"
| "dto_of (EpRedeemLoyalty _) = RedeemLoyaltyDto"
| "dto_of EpReconcileReserve = ProgramReconDto"
| "dto_of EpReconcileOrders = TenantReconDto"
| "dto_of EpReconcileSettlements = TenantReconDto"
| "dto_of (EpAttestation _ _) = ActorDto"
| "dto_of EpRegisterLiability = CreateRegistryEntryDto"
| "dto_of EpLogin = LoginDto"
| "dto_of EpEnableMfa = CodeDto"
| "dto_of EpChangePassword = ChangePasswordDto"
| "dto_of EpForgotPassword = ForgotPasswordDto"
| "dto_of EpResetPassword = ResetPasswordDto"

text \<open>
  Reading a member at its declared type. On a value of another type the readers return a default;
  \<open>typed_body\<close> below says that this never happens.
\<close>

definition str_at :: "json \<Rightarrow> string \<Rightarrow> string" where
  "str_at b k = (case member b k of JStr s \<Rightarrow> s | _ \<Rightarrow> [])"

definition opt_at :: "json \<Rightarrow> string \<Rightarrow> string option" where
  "opt_at b k = (case member b k of JStr s \<Rightarrow> Some s | _ \<Rightarrow> None)"

definition int_at :: "json \<Rightarrow> string \<Rightarrow> int option" where
  "int_at b k = (case member b k of JNum n \<Rightarrow> Some n | _ \<Rightarrow> None)"

definition bool_at :: "json \<Rightarrow> string \<Rightarrow> bool option" where
  "bool_at b k = (case member b k of JBool x \<Rightarrow> Some x | _ \<Rightarrow> None)"

definition strs_at :: "json \<Rightarrow> string \<Rightarrow> string list" where
  "strs_at b k = (case member b k of JArr vs \<Rightarrow> concat (map (\<lambda>v. case v of JStr s \<Rightarrow> [s] | _ \<Rightarrow> []) vs) | _ \<Rightarrow> [])"

fun call_of :: "endpoint \<Rightarrow> json \<Rightarrow> service_call" where
  "call_of EpRegisterDeposit b = Platform (Deposits_op (RegisterDepositCmd
     \<lparr>rg_programId = str_at b ''programId'', rg_trusteeAccountId = str_at b ''trusteeAccountId'',
      rg_bankTransactionId = str_at b ''bankTransactionId'', rg_amountMinor = str_at b ''amountMinor'', rg_currency = str_at b ''currency'',
      rg_payerName = opt_at b ''payerName'', rg_paymentReference = opt_at b ''paymentReference'',
      rg_transactionDate = str_at b ''transactionDate'', rg_actor = str_at b ''actor''\<rparr>))"
| "call_of (EpMatchDeposit i) b = Platform (Deposits_op (MatchDeposit i (str_at b ''fundingInstructionId'') (str_at b ''actor'')))"
| "call_of (EpClearDeposit i) b = Platform (Deposits_op (ClearDeposit i (str_at b ''actor'')))"
| "call_of EpCreateFunding b = Platform (Deposits_op (CreateFunding
     \<lparr>cf_programId = str_at b ''programId'', cf_paychainRequestId = str_at b ''paychainRequestId'', cf_assetId = str_at b ''assetId'',
      cf_depositor = str_at b ''depositor'', cf_expectedPayer = opt_at b ''expectedPayer'',
      cf_beneficiaryAccountId = str_at b ''beneficiaryAccountId'', cf_amountMinor = str_at b ''amountMinor'',
      cf_currency = str_at b ''currency'', cf_permittedMethod = str_at b ''permittedMethod'', cf_ttlSeconds = int_at b ''ttlSeconds'',
      cf_actor = str_at b ''actor''\<rparr>))"
| "call_of EpRequestMint b = Platform (Mint_op (RequestMint
     \<lparr>rm_programId = str_at b ''programId'', rm_paychainRequestId = str_at b ''paychainRequestId'',
      rm_amountMinor = str_at b ''amountMinor'', rm_fundingDepositIds = strs_at b ''fundingDepositIds'',
      rm_tenantId = opt_at b ''tenantId'', rm_destination = opt_at b ''destination''\<rparr>))"
| "call_of (EpReviewMint i) b = Platform (Mint_op (ReviewMint i (str_at b ''makerId'')))"
| "call_of (EpApproveMint i) b = Platform (Mint_op (ApproveMint i (str_at b ''checkerId'') (str_at b ''reason'')))"
| "call_of (EpRejectMint i) b = Platform (Mint_op (RejectMint i (str_at b ''checkerId'') (str_at b ''reason'')))"
| "call_of (EpRevokeMint i) b = Platform (Mint_op (RevokeMint i (str_at b ''actor'') (str_at b ''reason'')))"
| "call_of (EpConfirmMint i) b = Platform (Mint_op (ConfirmMintCmd i
     \<lparr>cm_paychainTransactionId = str_at b ''paychainTransactionId'', cm_blockchainTxHash = str_at b ''blockchainTxHash'',
      cm_amountMinor = str_at b ''amountMinor'', cm_destination = str_at b ''destination'', cm_ledgerHeight = opt_at b ''ledgerHeight'',
      cm_confirmedAt = str_at b ''confirmedAt'', cm_paychainSignature = str_at b ''paychainSignature'', cm_actor = str_at b ''actor''\<rparr>))"
| "call_of EpRequestRedemption b = Platform (Redemption_op (RequestRedemptionCmd
     \<lparr>rq_programId = str_at b ''programId'', rq_paychainRedemptionId = str_at b ''paychainRedemptionId'',
      rq_amountMinor = str_at b ''amountMinor'', rq_beneficiaryName = str_at b ''beneficiaryName'',
      rq_beneficiaryAccountMasked = str_at b ''beneficiaryAccountMasked'', rq_correlationId = opt_at b ''correlationId''\<rparr>))"
| "call_of (EpConfirmBurn i) b = Platform (Redemption_op (ConfirmBurn i (str_at b ''burnTxHash'') (str_at b ''actor'')))"
| "call_of (EpApproveRedemption i) b = Platform (Redemption_op (ApproveRedemption i (str_at b ''approverId'') (str_at b ''reason'')))"
| "call_of (EpSubmitPayout i) b = Platform (Redemption_op (SubmitPayout i (str_at b ''actor'')))"
| "call_of (EpConfirmPayout i) b = Platform (Redemption_op (ConfirmPayout i (str_at b ''actor'')))"
| "call_of (EpAddAdjustment p) b = Platform (Reserve_op (AddAdjustmentCmd
     \<lparr>aa_programId = p, aa_kind = str_at b ''kind'', aa_amountMinor = str_at b ''amountMinor'', aa_reason = opt_at b ''reason'',
      aa_actor = str_at b ''actor''\<rparr>))"
| "call_of (EpLiftAdjustment i) b = Platform (Reserve_op (LiftAdjustment i (str_at b ''actor'')))"
| "call_of EpRegisterBank b = Platform (Reserve_op (RegisterBankCmd
     \<lparr>rb_bankId = str_at b ''bankId'', rb_bankLegalName = str_at b ''bankLegalName'', rb_country = opt_at b ''country'',
      rb_integrationMode = opt_at b ''integrationMode'', rb_baseUrl = opt_at b ''baseUrl'', rb_authTokenEnv = opt_at b ''authTokenEnv'',
      rb_actor = str_at b ''actor''\<rparr>))"
| "call_of (EpSetAccountBank i) b = Platform (Reserve_op (SetAccountBank i (opt_at b ''bankId'') (opt_at b ''mockClearedMinor'')))"
| "call_of (EpSubmitProfile t) b = Platform (Payment_op (SubmitProfile
     \<lparr>sp_tenantId = t, sp_recipientName = str_at b ''recipientName'', sp_recipientAccountMasked = str_at b ''recipientAccountMasked'',
      sp_bankName = str_at b ''bankName'', sp_currency = str_at b ''currency'', sp_khqrPayload = str_at b ''khqrPayload'',
      sp_actor = str_at b ''actor''\<rparr>))"
| "call_of (EpVerifyProfile i) b = Platform (Payment_op (VerifyProfile i (str_at b ''actor'')))"
| "call_of (EpActivateProfile i) b = Platform (Payment_op (ActivateProfile i (str_at b ''actor'')))"
| "call_of (EpSuspendProfile i) b = Platform (Payment_op (SuspendProfile i (str_at b ''actor'') (str_at b ''reason'')))"
| "call_of EpCreateOrder b = Platform (Payment_op (CreateOrder
     \<lparr>co_tenantId = str_at b ''tenantId'', co_profileId = str_at b ''profileId'', co_amountMinor = str_at b ''amountMinor'',
      co_currency = str_at b ''currency'', co_ttlSeconds = int_at b ''ttlSeconds'', co_actor = str_at b ''actor''\<rparr>))"
| "call_of (EpCancelOrder i) b = Platform (Payment_op (CancelOrder i (str_at b ''actor'')))"
| "call_of (EpRefundOrder i) b = Platform (Payment_op (RefundOrder i (str_at b ''actor'') (str_at b ''reason'')))"
| "call_of (EpCheckPayment i) b = Platform (Payment_op (CheckPayment i
     \<lparr>cp_bankTransactionId = str_at b ''bankTransactionId'', cp_amountMinor = str_at b ''amountMinor'', cp_currency = str_at b ''currency'',
      cp_paymentReference = str_at b ''paymentReference'', cp_recipientAccountMasked = str_at b ''recipientAccountMasked'',
      cp_reserveAccountId = str_at b ''reserveAccountId'', cp_actor = str_at b ''actor''\<rparr>))"
| "call_of EpCreateFund b = Platform (Loyalty_op (CreateFund
     \<lparr>cg_tenantId = str_at b ''tenantId'', cg_paykhProgramId = str_at b ''paykhProgramId'', cg_classification = str_at b ''classification'',
      cg_currency = str_at b ''currency'', cg_reserveAccountId = str_at b ''reserveAccountId'', cg_actor = str_at b ''actor''\<rparr>))"
| "call_of (EpFundFund i) b = Platform (Loyalty_op (FundFund i (str_at b ''amountMinor'') (str_at b ''actor'')))"
| "call_of (EpReserveFund i) b = Platform (Loyalty_op (ReserveFund i (str_at b ''amountMinor'') (str_at b ''actor'')))"
| "call_of (EpReleaseFund i) b = Platform (Loyalty_op (ReleaseFund i (str_at b ''amountMinor'') (str_at b ''actor'')))"
| "call_of EpRegisterMerchant b = Platform (Settlement_op (RegisterMerchant
     \<lparr>mr_tenantId = str_at b ''tenantId'', mr_merchantCode = str_at b ''merchantCode'', mr_legalName = str_at b ''legalName'',
      mr_country = opt_at b ''country'', mr_paykhMerchantRef = opt_at b ''paykhMerchantRef'', mr_kycStatus = opt_at b ''kycStatus'',
      mr_status = opt_at b ''status'', mr_riskLevel = opt_at b ''riskLevel'', mr_actor = str_at b ''actor''\<rparr>))"
| "call_of (EpMerchantStatus i) b = Platform (Settlement_op (UpdateMerchant i (opt_at b ''kycStatus'') (opt_at b ''status'')
     (opt_at b ''riskLevel'') (str_at b ''actor'')))"
| "call_of EpCreateSettlement b = Platform (Settlement_op (CreateSettlementCmd
     \<lparr>cs_tenantId = str_at b ''tenantId'', cs_merchantId = str_at b ''merchantId'', cs_amountMinor = str_at b ''amountMinor'',
      cs_currency = str_at b ''currency'', cs_actor = str_at b ''actor''\<rparr>))"
| "call_of (EpCancelSettlement i) b = Platform (Settlement_op (CancelSettlement i (str_at b ''actor'')))"
| "call_of (EpApproveSettlement i) b = Platform (Settlement_op (ApproveSettlement i (str_at b ''checkerId'')))"
| "call_of (EpConfirmSettlement i) b = Platform (Settlement_op (ConfirmSettlement i (str_at b ''actor'')))"
| "call_of EpBindLoyalty b = Platform (Loyalty_op (BindLoyalty
     \<lparr>bl_programFundId = str_at b ''programFundId'', bl_decimals = int_at b ''decimals'',
      bl_denominationMinor = opt_at b ''denominationMinor'', bl_stellarAssetCode = opt_at b ''stellarAssetCode'',
      bl_stellarIssuer = opt_at b ''stellarIssuer'', bl_stellarDistributor = opt_at b ''stellarDistributor'', bl_actor = str_at b ''actor''\<rparr>))"
| "call_of (EpIssueLoyalty i) b = Platform (Loyalty_op (IssueLoyalty
     \<lparr>il_liabilityId = i, il_customerRef = str_at b ''customerRef'', il_amountMinor = opt_at b ''amountMinor'',
      il_units = opt_at b ''units'', il_actor = str_at b ''actor''\<rparr>))"
| "call_of (EpRedeemLoyalty i) b = Platform (Loyalty_op (RedeemLoyalty
     \<lparr>rl_liabilityId = i, rl_merchantId = str_at b ''merchantId'', rl_customerRef = str_at b ''customerRef'',
      rl_amountMinor = opt_at b ''amountMinor'', rl_units = opt_at b ''units'', rl_actor = str_at b ''actor''\<rparr>))"
| "call_of EpReconcileReserve b = Platform (Oversight_op (ReconcileReserve (str_at b ''programId'') (str_at b ''actor'')))"
| "call_of EpReconcileOrders b = Platform (Oversight_op (ReconcileOrders (str_at b ''tenantId'') (str_at b ''actor'')))"
| "call_of EpReconcileSettlements b = Platform (Oversight_op (ReconcileSettlements (str_at b ''tenantId'') (str_at b ''actor'')))"
| "call_of (EpAttestation i to) b = Platform (Oversight_op (TransitionAttestation i to (str_at b ''actor'')))"
| "call_of EpRegisterLiability b = RegisterLiability
     \<lparr>ce_trusteeProgramId = str_at b ''trusteeProgramId'', ce_platform = str_at b ''platform'', ce_tenantId = opt_at b ''tenantId'',
      ce_paykhProgramId = opt_at b ''paykhProgramId'', ce_paychainAssetId = opt_at b ''paychainAssetId'',
      ce_liabilityType = str_at b ''liabilityType'', ce_reserveAccountId = str_at b ''reserveAccountId'', ce_currency = str_at b ''currency'',
      ce_requiredReserveBps = int_at b ''requiredReserveBps'', ce_mintAuthorizationRequired = bool_at b ''mintAuthorizationRequired'',
      ce_redemptionAuthorizationRequired = bool_at b ''redemptionAuthorizationRequired''\<rparr>"
| "call_of EpLogin b = Account (LoginCall (str_at b ''email'') (str_at b ''password'') (opt_at b ''code''))"
| "call_of EpEnableMfa b = Account (EnableCall (str_at b ''code''))"
| "call_of EpChangePassword b = Account (ChangeCall (str_at b ''currentPassword'') (str_at b ''newPassword''))"
| "call_of EpForgotPassword b = Account (ForgotCall (str_at b ''email''))"
| "call_of EpResetPassword b = Account (ResetCall (str_at b ''token'') (str_at b ''newPassword''))"

text \<open>
  The routes of an endpoint do not depend on the body. The administration's copies of two
  reconciliation routes take an unvalidated body, so they are not routes of the endpoint.
\<close>

definition untyped_path :: "string \<Rightarrow> bool" where
  "untyped_path p = (p \<in> {admin ''reconciliations/reserve'', admin ''reconciliations/payment-orders''})"

definition routes_of :: "endpoint \<Rightarrow> route list" where
  "routes_of ep = filter (\<lambda>(_, p, _). \<not> untyped_path p) (endpoints (call_of ep (JObj [])))"

definition submit :: "(decorator \<Rightarrow> json \<Rightarrow> bool) \<Rightarrow> (string \<Rightarrow> string \<Rightarrow> bool) \<Rightarrow> request \<Rightarrow> endpoint \<Rightarrow> genv \<Rightarrow> api \<Rightarrow> unit res \<times> api" where
  "submit lib router q ep g a = (case find (\<lambda>(m, p, _). hq_method q = m \<and> router p (hq_path q)) (routes_of ep) of
       None \<Rightarrow> (Inl (NotFound ''Cannot''), a)
     | Some (_, _, permission) \<Rightarrow> (case admit permission q g (ap_gate a) of
         (Inl x, gs) \<Rightarrow> (Inl x, a\<lparr>ap_gate := gs\<rparr>)
       | (Inr _, gs) \<Rightarrow> let body = body_or_empty (hq_body q) in
           if accepts lib (dto_of ep) body then perform q (call_of ep body) g (a\<lparr>ap_gate := gs\<rparr>)
           else (Inl (BadRequest ''Bad Request''), a\<lparr>ap_gate := gs\<rparr>)))"

section \<open>The decorators enforce the declared types\<close>

text \<open>What the documentation of the decorators promises about the value's type.\<close>

definition documented :: "(decorator \<Rightarrow> json \<Rightarrow> bool) \<Rightarrow> bool" where
  "documented lib \<longleftrightarrow> (\<forall>v. (lib IsString v \<or> lib IsNumberString v \<or> lib IsDateString v \<longrightarrow> inhabits TString v)
     \<and> (lib IsInt v \<longrightarrow> inhabits TNumber v) \<and> (lib IsBoolean v \<longrightarrow> inhabits TBoolean v)
     \<and> (lib IsArray v \<and> lib EachString v \<longrightarrow> inhabits TStrings v))"

fun base_ok :: "decorator list \<Rightarrow> ts_type \<Rightarrow> bool" where
  "base_ok ds TString = (IsString \<in> set ds \<or> IsNumberString \<in> set ds \<or> IsDateString \<in> set ds)"
| "base_ok ds TNumber = (IsInt \<in> set ds)"
| "base_ok ds TBoolean = (IsBoolean \<in> set ds)"
| "base_ok ds TStrings = (IsArray \<in> set ds \<and> EachString \<in> set ds)"
| "base_ok ds TFundClassification = False"
| "base_ok ds (TOpt t) = base_ok ds t"

definition field_sound :: "field \<Rightarrow> bool" where
  "field_sound f = (case f of (_, ds, t) \<Rightarrow> t = TFundClassification
     \<or> base_ok ds t \<and> (IsOptional \<in> set ds \<longrightarrow> (case t of TOpt _ \<Rightarrow> True | _ \<Rightarrow> False)))"

lemmas dto_defs = RegisterDepositDto_def MatchDepositDto_def ClearDepositDto_def CreateFundingInstructionDto_def
  RequestMintAuthorizationDto_def ReviewMintDto_def ApproveMintDto_def RevokeMintDto_def ConfirmMintDto_def
  RequestRedemptionDto_def ConfirmBurnDto_def ActorReasonDto_def ApproveRedemptionDto_def AddAdjustmentDto_def ActorBodyDto_def
  RegisterBankDto_def SetAccountBankDto_def SubmitPaymentProfileDto_def ActorDto_def SuspendDto_def CreatePaymentOrderDto_def
  CheckPaymentDto_def CreateProgramFundDto_def FundAmountDto_def CreateSettlementDto_def ApproveSettlementDto_def BindLoyaltyDto_def
  IssueLoyaltyDto_def RedeemLoyaltyDto_def RegisterMerchantDto_def UpdateMerchantStatusDto_def ProgramReconDto_def TenantReconDto_def
  CreateRegistryEntryDto_def LoginDto_def CodeDto_def ChangePasswordDto_def ForgotPasswordDto_def ResetPasswordDto_def

lemma dtos_sound: "list_all field_sound (dto_of ep)"
  by (cases ep; simp only: dto_of.simps; unfold dto_defs; simp add: field_sound_def)

lemma base_inhabits:
  assumes "documented lib" and "base_ok ds t" and "\<And>d. d \<in> set ds \<Longrightarrow> d \<noteq> IsOptional \<Longrightarrow> lib d v"
  shows "inhabits t v"
proof -
  have ok: "IsString \<in> set ds \<Longrightarrow> lib IsString v" "IsNumberString \<in> set ds \<Longrightarrow> lib IsNumberString v"
    "IsDateString \<in> set ds \<Longrightarrow> lib IsDateString v" "IsInt \<in> set ds \<Longrightarrow> lib IsInt v" "IsBoolean \<in> set ds \<Longrightarrow> lib IsBoolean v"
    "IsArray \<in> set ds \<Longrightarrow> lib IsArray v" "EachString \<in> set ds \<Longrightarrow> lib EachString v"
    using assms(3) by blast+
  have laws: "lib IsString v \<or> lib IsNumberString v \<or> lib IsDateString v \<Longrightarrow> inhabits TString v" "lib IsInt v \<Longrightarrow> inhabits TNumber v"
    "lib IsBoolean v \<Longrightarrow> inhabits TBoolean v" "lib IsArray v \<Longrightarrow> lib EachString v \<Longrightarrow> inhabits TStrings v"
    using assms(1) unfolding documented_def by blast+
  have "base_ok ds u \<Longrightarrow> inhabits u v" for u
  proof (induction u)
    case TString
    then show ?case unfolding base_ok.simps using ok(1-3) laws(1) by blast
  next
    case TNumber
    then show ?case unfolding base_ok.simps using ok(4) laws(2) by blast
  next
    case TBoolean
    then show ?case unfolding base_ok.simps using ok(5) laws(3) by blast
  next
    case TStrings
    then show ?case unfolding base_ok.simps using ok(6,7) laws(4) by blast
  qed simp_all
  then show ?thesis using assms(2) by blast
qed

definition typed_body :: "dto \<Rightarrow> json \<Rightarrow> bool" where
  "typed_body d body = (case body of JObj ms \<Rightarrow> list_all (\<lambda>(k, _). k \<in> set (map fst d)) ms
       \<and> list_all (\<lambda>(k, _, t). t = TFundClassification \<or> inhabits t (member body k)) d
     | _ \<Rightarrow> False)"

lemma accepted_typed:
  assumes "documented lib" and "accepts lib (dto_of ep) body"
  shows "typed_body (dto_of ep) body"
proof -
  from assms(2) obtain ms where ms: "body = JObj ms" "list_all (\<lambda>(k, _). k \<in> set (map fst (dto_of ep))) ms"
    "list_all (field_ok lib body) (dto_of ep)" by (cases body) (auto simp: accepts_def)
  have "t = TFundClassification \<or> inhabits t (member body k)" if f: "(k, ds, t) \<in> set (dto_of ep)" for k ds t
  proof (cases "t = TFundClassification")
    case False
    from f dtos_sound [of ep] have "field_sound (k, ds, t)" unfolding list_all_iff by (rule bspec [rotated])
    with False have sound: "base_ok ds t" "IsOptional \<in> set ds \<Longrightarrow> \<exists>u. t = TOpt u"
      unfolding field_sound_def by (cases t; simp)+
    from f ms(3) have ok: "field_ok lib body (k, ds, t)" by (simp add: list_all_iff)
    then consider "IsOptional \<in> set ds" "member body k = JNull \<or> member body k = JUndef"
      | "\<forall>d \<in> set ds. d = IsOptional \<or> lib d (member body k)"
      by (auto simp: field_ok_def Let_def list_all_iff)
    then show ?thesis
    proof cases
      case 1
      with sound(2) show ?thesis by auto
    next
      case 2
      with base_inhabits [OF assms(1) sound(1)] show ?thesis by blast
    qed
  qed simp
  then have "list_all (\<lambda>(k, _, t). t = TFundClassification \<or> inhabits t (member body k)) (dto_of ep)"
    unfolding list_all_iff by blast
  with ms(1,2) show ?thesis unfolding typed_body_def by simp
qed

text \<open>The exception: a classification is only checked to be a string.\<close>

lemma classification_unchecked:
  assumes "lib IsString (JStr ''x'')" and "lib IsNotEmpty (JStr ''x'')"
  shows "field_ok lib (JObj [(''classification'', JStr ''x'')]) (''classification'', [IsString, IsNotEmpty], TFundClassification)
    \<and> \<not> inhabits TFundClassification (JStr ''x'')"
  using assms by (simp add: field_ok_def member_def classification_of_def all_classifications_def Let_def)

text \<open>A decimal fraction is a number string, and \<open>BigInt\<close> raises on it: an internal error, not a refused body.\<close>

lemma fraction_is_internal_error: "BigInt ''1.5'' = Inl SyntaxError \<and> http_status SyntaxError = 500"
  by code_simp

section \<open>A submitted request is the call its body spells\<close>

lemma routes_body: "endpoints (call_of ep b) = endpoints (call_of ep b')"
  by (cases ep) (simp_all split: option.split)

text \<open>Two routes of one call that share a path also share the permission.\<close>

lemma submit_serve:
  assumes "ap_st (snd (submit lib router q ep g a)) \<noteq> ap_st a"
  shows "accepts lib (dto_of ep) (body_or_empty (hq_body q))
    \<and> (\<exists>m p permission. (m, p, permission) \<in> set (endpoints (call_of ep (body_or_empty (hq_body q)))) \<and> hq_method q = m \<and> router p (hq_path q)
        \<and> is_ok (fst (admit permission q g (ap_gate a)))
        \<and> submit lib router q ep g a = perform q (call_of ep (body_or_empty (hq_body q))) g
            (a\<lparr>ap_gate := snd (admit permission q g (ap_gate a))\<rparr>))"
proof (cases "find (\<lambda>(m, p, _). hq_method q = m \<and> router p (hq_path q)) (routes_of ep)")
  case None
  with assms show ?thesis by (simp add: submit_def)
next
  case (Some r)
  obtain m p permission where r: "r = (m, p, permission)" by (cases r)
  from Some r have "(m, p, permission) \<in> set (routes_of ep)" and route: "hq_method q = m" "router p (hq_path q)"
    by (auto dest: find_Some_in)
  then have "(m, p, permission) \<in> set (endpoints (call_of ep (body_or_empty (hq_body q))))"
    unfolding routes_of_def using routes_body [of ep "JObj []" "body_or_empty (hq_body q)"] by auto
  moreover obtain res gs where adm: "admit permission q g (ap_gate a) = (res, gs)" by (cases "admit permission q g (ap_gate a)")
  moreover from assms Some r adm obtain who where "res = Inr who" by (cases res) (auto simp: submit_def)
  moreover from assms Some r adm \<open>res = Inr who\<close> have "accepts lib (dto_of ep) (body_or_empty (hq_body q))"
    by (simp add: submit_def Let_def split: if_splits)
  ultimately show ?thesis using Some r route
    by (intro conjI exI [of _ m] exI [of _ p] exI [of _ permission]) (simp_all add: submit_def Let_def)
qed

end
