(* ===== verification/Scheduler.thy ===== *)
theory Scheduler
  imports System Worker
begin

text \<open>
  \<open>modules/scheduler/scheduler.service.ts\<close>: the recurring jobs behind their Redis locks. The state
  is the platform state, the outbox with its identifiers, the locks and the set of reported
  dead letters in Redis, and the notices handed to the notification service (their contents as
  data, not as text); whether that service sends an e-mail or only logs the notice is its own
  affair (\<open>notify\<close> of Configuration). Redis is absent, up or failing for the length of one tick. The lemmas say that a job runs at most once
  per period whatever the number of replicas, that a shortfall the position shows is reported in
  the digest of the cycle, failing programs included, and that a dead letter is noticed once.
\<close>

section \<open>State and environment\<close>

datatype alert =
    Shortfall string string int int int string "int option" json
  | StaleFeed string string "int option"
  | CycleError string string err

datatype notice = ReserveAlerts int "alert list" | DeadLetters "QueuedEvent list"

record sched =
  sc_st :: st
  sc_queue :: "QueuedEvent list"
  sc_locks :: "(string \<times> int) list"
  sc_alerted :: "string list"
  sc_notices :: "notice list"
  sc_ticking :: bool

text \<open>\<open>sv_env\<close> is the environment of the calls made for one program (each with fresh identifiers).\<close>

record senv =
  sv_now :: int
  sv_env :: "string \<Rightarrow> env"
  sv_redis :: redis_link
  reserveCycleMs :: int
  deadLetterMs :: int
  feedStaleSeconds :: int

section \<open>The reserve cycle\<close>

definition cycle_alerts :: "int \<Rightarrow> Program \<Rightarrow> ReservePosition \<Rightarrow> json \<Rightarrow> alert list" where
  "cycle_alerts stale p pos snap =
     (if minor (rp_surplus pos) < 0 then [Shortfall (pg_code p) (pg_id p) (minor (rp_eligibleReserve pos))
        (minor (rp_requiredReserve pos)) (minor (rp_surplus pos)) (rp_currency pos) (rp_reserveRatioBps pos) (member snap ''id'')] else [])
     @ (case rp_liabilityAgeSeconds pos of
          None \<Rightarrow> [StaleFeed (pg_code p) (pg_id p) None]
        | Some age \<Rightarrow> if age > stale then [StaleFeed (pg_code p) (pg_id p) (Some age)] else [])"

definition cycle_steps :: "int \<Rightarrow> Program \<Rightarrow> alert list op" where
  "cycle_steps stale p = bnd (createSnapshot (pg_id p)) (\<lambda>snap.
     bnd (reconcileReserve (pg_id p) ''scheduler'') (\<lambda>_.
     bnd (reads (\<lambda>e s. position e s (pg_id p))) (\<lambda>pos. ret (cycle_alerts stale p pos snap))))"

text \<open>A program whose steps throw is reported and the loop goes on with the next one.\<close>

definition cycle_program :: "int \<Rightarrow> Program \<Rightarrow> env \<Rightarrow> st \<Rightarrow> alert list \<times> st" where
  "cycle_program stale p e s = (case cycle_steps stale p e s of
       (Inl x, s') \<Rightarrow> ([CycleError (pg_code p) (pg_id p) x], s') | (Inr as, s') \<Rightarrow> (as, s'))"

fun cycle_loop :: "senv \<Rightarrow> Program list \<Rightarrow> alert list \<Rightarrow> st \<Rightarrow> alert list \<times> st" where
  "cycle_loop g [] acc s = (acc, s)"
| "cycle_loop g (p # ps) acc s = (case cycle_program (feedStaleSeconds g) p (sv_env g (pg_id p)) s of
     (as, s') \<Rightarrow> cycle_loop g ps (acc @ as) s')"

definition reserveCycle :: "senv \<Rightarrow> sched \<Rightarrow> sched" where
  "reserveCycle g s = (let active = filter (\<lambda>p. pg_status p = ProgramStatus.ACTIVE) (programs (sc_st s)) in
     if active = [] then s
     else (case cycle_loop g active [] (sc_st s) of (alerts, st') \<Rightarrow>
       s\<lparr>sc_st := st', sc_notices := (if alerts = [] then sc_notices s else sc_notices s @ [ReserveAlerts (sv_now g) alerts])\<rparr>))"

section \<open>Dead letters\<close>

definition dead_batch :: "QueuedEvent list \<Rightarrow> QueuedEvent list" where
  "dead_batch es = take 100 (sort_key (\<lambda>e. - qe_sequence e) (filter ob_deadLettered es))"

text \<open>When \<open>sismember\<close> fails every dead letter counts as fresh and \<open>sadd\<close> then throws.\<close>

definition deadLetterAlert :: "senv \<Rightarrow> sched \<Rightarrow> sched" where
  "deadLetterAlert g s = (let dead = dead_batch (sc_queue s) in
     if dead = [] then s
     else (case sv_redis g of
         NoRedis \<Rightarrow> s
       | RedisDown \<Rightarrow> s\<lparr>sc_notices := sc_notices s @ [DeadLetters dead]\<rparr>
       | RedisUp \<Rightarrow> (let fresh = filter (\<lambda>d. qe_id d \<notin> set (sc_alerted s)) dead in
           if fresh = [] then s
           else s\<lparr>sc_notices := sc_notices s @ [DeadLetters fresh], sc_alerted := sc_alerted s @ map qe_id fresh\<rparr>)))"

section \<open>Locks and the tick\<close>

definition lock_held :: "senv \<Rightarrow> string \<Rightarrow> sched \<Rightarrow> bool" where
  "lock_held g key s = (case find_row fst key (sc_locks s) of None \<Rightarrow> False | Some (_, expiry) \<Rightarrow> sv_now g < expiry)"

definition set_lock :: "string \<Rightarrow> int \<Rightarrow> sched \<Rightarrow> sched" where
  "set_lock key expiry s = s\<lparr>sc_locks := (key, expiry) # filter (\<lambda>l. fst l \<noteq> key) (sc_locks s)\<rparr>"

definition acquire :: "string \<Rightarrow> int \<Rightarrow> senv \<Rightarrow> sched \<Rightarrow> bool \<times> sched" where
  "acquire job ttlMs g s = (case sv_redis g of
       NoRedis \<Rightarrow> (True, s)
     | RedisDown \<Rightarrow> (False, s)
     | RedisUp \<Rightarrow> (let key = ''trustee:cron:'' @ job in
         if lock_held g key s then (False, s) else (True, set_lock key (sv_now g + ttlMs) s)))"

definition run_job :: "string \<Rightarrow> int \<Rightarrow> (senv \<Rightarrow> sched \<Rightarrow> sched) \<Rightarrow> senv \<Rightarrow> sched \<Rightarrow> sched" where
  "run_job job ttlMs fn g s = (case acquire job ttlMs g s of (won, s') \<Rightarrow> if won then fn g s' else s')"

definition tick :: "senv \<Rightarrow> sched \<Rightarrow> sched" where
  "tick g s = (if sc_ticking s then s
     else (let s1 = run_job ''reserve-cycle'' (reserveCycleMs g) reserveCycle g (s\<lparr>sc_ticking := True\<rparr>);
       s2 = run_job ''deadletter-alert'' (deadLetterMs g) deadLetterAlert g s1
     in s2\<lparr>sc_ticking := False\<rparr>))"

text \<open>Ticks of any replica, and whatever the services and the worker do in between.\<close>

datatype sched_step = Tick senv | Outside st "QueuedEvent list"

fun sched_run :: "sched_step list \<Rightarrow> sched \<Rightarrow> sched" where
  "sched_run [] s = s"
| "sched_run (Tick g # xs) s = sched_run xs (tick g s)"
| "sched_run (Outside t es # xs) s = sched_run xs (s\<lparr>sc_st := t, sc_queue := es\<rparr>)"

section \<open>One run per period\<close>

lemma acquire_once:
  assumes "acquire job ttl g s = (True, s')" and "sv_redis g = RedisUp" and "sc_locks s2 = sc_locks s'"
    and "sv_redis g2 = RedisUp" and "sv_now g2 < sv_now g + ttl"
  shows "fst (acquire job ttl2 g2 s2) = False"
  using assms by (auto simp: acquire_def Let_def lock_held_def set_lock_def find_row_Cons split: if_splits)

lemma job_locks [simp]:
  "sc_locks (reserveCycle g s) = sc_locks s" "sc_locks (deadLetterAlert g s) = sc_locks s"
  by (simp_all add: reserveCycle_def deadLetterAlert_def Let_def split: prod.split redis_link.split)

lemma set_lock_other: "key \<noteq> key' \<Longrightarrow> lock_held g key (set_lock key' x s) = lock_held g key s"
proof -
  assume "key \<noteq> key'"
  then have "find_row fst key (filter (\<lambda>l. fst l \<noteq> key') ls) = find_row fst key ls" for ls :: "(string \<times> int) list"
    by (induction ls) (auto simp: find_row_Cons)
  with \<open>key \<noteq> key'\<close> show ?thesis by (simp add: lock_held_def set_lock_def find_row_Cons)
qed

section \<open>A shortfall is reported\<close>

lemma createSnapshot_leaves:
  "leaves programs (createSnapshot p)" "leaves entries (createSnapshot p)" "leaves liabilities (createSnapshot p)"
  "leaves adjustments (createSnapshot p)"
  unfolding createSnapshot_def publishWithArtifact_def publish_def publish_to_def Let_def by (intro leaves_intros; simp)+

lemma reconcileReserve_leaves:
  "leaves programs (reconcileReserve p a)" "leaves entries (reconcileReserve p a)" "leaves liabilities (reconcileReserve p a)"
  "leaves adjustments (reconcileReserve p a)"
  by (unfold oversight_op_defs Let_def) (intro leaves_intros; simp)+

definition position_part :: "st \<Rightarrow> Program list \<times> LedgerEntry list \<times> LiabilitySnapshot list \<times> ReserveAdjustment list" where
  "position_part s = (programs s, entries s, liabilities s, adjustments s)"

lemma position_part_cong: "position_part s' = position_part s \<Longrightarrow> position e s' p = position e s p"
  by (intro position_frame) (auto simp: position_part_def)

lemma leaves_position_part:
  "leaves programs m \<Longrightarrow> leaves entries m \<Longrightarrow> leaves liabilities m \<Longrightarrow> leaves adjustments m \<Longrightarrow> leaves position_part m"
  by (simp add: leaves_def position_part_def)

lemma steps_leave: "leaves position_part (cycle_steps stale p)"
  unfolding cycle_steps_def
  by (intro leaves_intros leaves_position_part [OF createSnapshot_leaves] leaves_position_part [OF reconcileReserve_leaves])

lemma cycle_program_leaves: "position_part (snd (cycle_program stale p e s)) = position_part s"
  using leavesD [OF steps_leave [of stale p], of e s]
  by (cases "cycle_steps stale p e s") (auto simp: cycle_program_def split: sum.split)

text \<open>
  What a program's turn reports: the alerts of the position before the cycle, or the error that
  its own snapshot, reconciliation or position threw in a state with the same position.
\<close>

definition alerted :: "senv \<Rightarrow> Program \<Rightarrow> st \<Rightarrow> ReservePosition \<Rightarrow> alert list \<Rightarrow> bool" where
  "alerted g p s pos as =
     ((\<exists>x t. CycleError (pg_code p) (pg_id p) x \<in> set as \<and> position_part t = position_part s
         \<and> fst (cycle_steps (feedStaleSeconds g) p (sv_env g (pg_id p)) t) = Inl x)
      \<or> (\<exists>snap. set (cycle_alerts (feedStaleSeconds g) p pos snap) \<subseteq> set as))"

lemma cycle_program_reports:
  assumes "position (sv_env g (pg_id p)) s (pg_id p) = Inr pos" and "position_part t = position_part s"
  shows "alerted g p s pos (fst (cycle_program (feedStaleSeconds g) p (sv_env g (pg_id p)) t))"
proof (cases "cycle_steps (feedStaleSeconds g) p (sv_env g (pg_id p)) t")
  case (Pair r t')
  let ?e = "sv_env g (pg_id p)"
  show ?thesis
  proof (cases r)
    case (Inl x)
    with Pair assms(2) show ?thesis by (auto simp: cycle_program_def alerted_def)
  next
    case (Inr as)
    with Pair obtain snap s1 run s2 where steps: "createSnapshot (pg_id p) ?e t = (Inr snap, s1)"
        "reconcileReserve (pg_id p) ''scheduler'' ?e s1 = (Inr run, s2)"
        "bnd (reads (\<lambda>e s. position e s (pg_id p))) (\<lambda>pos. ret (cycle_alerts (feedStaleSeconds g) p pos snap)) ?e s2 = (Inr as, t')"
      by (auto simp: cycle_steps_def bnd_eq_Inr)
    have "position_part s1 = position_part t" "position_part s2 = position_part s1"
      using leavesD [OF leaves_position_part [OF createSnapshot_leaves [of "pg_id p"]], of ?e t]
        leavesD [OF leaves_position_part [OF reconcileReserve_leaves [of "pg_id p" "''scheduler''"]], of ?e s1] steps(1,2)
      by simp_all
    then have "position ?e s2 (pg_id p) = Inr pos" using assms position_part_cong [of s2 s] by simp
    with steps(3) have "as = cycle_alerts (feedStaleSeconds g) p pos snap" by (simp add: prog_simps)
    with Pair Inr show ?thesis by (auto simp: cycle_program_def alerted_def)
  qed
qed

lemma alerted_mono: "alerted g p s pos as \<Longrightarrow> set as \<subseteq> set bs \<Longrightarrow> alerted g p s pos bs"
  unfolding alerted_def by (meson subset_trans subsetD)

lemma cycle_loop_grows: "set acc \<subseteq> set (fst (cycle_loop g ps acc s))"
  by (induction g ps acc s rule: cycle_loop.induct) (auto split: prod.splits)

lemma cycle_loop_reports:
  assumes "p \<in> set ps" and "position (sv_env g (pg_id p)) s (pg_id p) = Inr pos" and "position_part t = position_part s"
  shows "alerted g p s pos (fst (cycle_loop g ps acc t))"
  using assms
proof (induction ps arbitrary: acc t)
  case (Cons q qs)
  obtain as t' where q: "cycle_program (feedStaleSeconds g) q (sv_env g (pg_id q)) t = (as, t')"
    by (cases "cycle_program (feedStaleSeconds g) q (sv_env g (pg_id q)) t")
  show ?case
  proof (cases "p = q")
    case True
    from cycle_program_reports [OF Cons.prems(2,3)] q True have "alerted g p s pos as" by simp
    with cycle_loop_grows [of "acc @ as" g qs t'] q show ?thesis by (auto intro: alerted_mono)
  next
    case False
    from cycle_program_leaves [of "feedStaleSeconds g" q "sv_env g (pg_id q)" t] q Cons.prems(3)
    have "position_part t' = position_part s" by simp
    with Cons.IH [of t' "acc @ as"] Cons.prems(1,2) False q show ?thesis by simp
  qed
qed simp

lemma shortfall_noticed:
  assumes "p \<in> set (programs (sc_st s))" and "pg_status p = ProgramStatus.ACTIVE"
    and "position (sv_env g (pg_id p)) (sc_st s) (pg_id p) = Inr pos" and "minor (rp_surplus pos) < 0"
  shows "\<exists>as. sc_notices (reserveCycle g s) = sc_notices s @ [ReserveAlerts (sv_now g) as]
    \<and> ((\<exists>snap. Shortfall (pg_code p) (pg_id p) (minor (rp_eligibleReserve pos)) (minor (rp_requiredReserve pos))
          (minor (rp_surplus pos)) (rp_currency pos) (rp_reserveRatioBps pos) snap \<in> set as)
       \<or> (\<exists>x t. CycleError (pg_code p) (pg_id p) x \<in> set as \<and> position_part t = position_part (sc_st s)
            \<and> fst (cycle_steps (feedStaleSeconds g) p (sv_env g (pg_id p)) t) = Inl x))"
proof -
  let ?active = "filter (\<lambda>p. pg_status p = ProgramStatus.ACTIVE) (programs (sc_st s))"
  have p: "p \<in> set ?active" using assms(1,2) by simp
  obtain as st' where loop: "cycle_loop g ?active [] (sc_st s) = (as, st')" by (cases "cycle_loop g ?active [] (sc_st s)")
  from cycle_loop_reports [OF p assms(3) refl, of "[]"] loop have rep: "alerted g p (sc_st s) pos as" by simp
  with assms(4) have "as \<noteq> []" by (auto simp: alerted_def cycle_alerts_def)
  moreover have "?active \<noteq> []" using p by force
  ultimately have "sc_notices (reserveCycle g s) = sc_notices s @ [ReserveAlerts (sv_now g) as]"
    by (simp add: reserveCycle_def Let_def loop)
  with rep assms(4) show ?thesis by (auto simp: alerted_def cycle_alerts_def)
qed

section \<open>A dead letter is noticed once\<close>

fun noticed :: "notice list \<Rightarrow> string list" where
  "noticed [] = []"
| "noticed (DeadLetters es # ms) = map qe_id es @ noticed ms"
| "noticed (ReserveAlerts _ _ # ms) = noticed ms"

lemma noticed_append [simp]: "noticed (ms @ ns) = noticed ms @ noticed ns"
  by (induction ms rule: noticed.induct) simp_all

definition digest_inv :: "sched \<Rightarrow> bool" where
  "digest_inv s = (distinct (noticed (sc_notices s)) \<and> set (noticed (sc_notices s)) \<subseteq> set (sc_alerted s) \<and> uniq qe_id (sc_queue s))"

lemma digest_reserveCycle: "digest_inv s \<Longrightarrow> digest_inv (reserveCycle g s)"
  by (auto simp: digest_inv_def reserveCycle_def Let_def split: prod.split)

lemma dead_batch_distinct: "uniq qe_id es \<Longrightarrow> distinct (map qe_id (dead_batch es))"
proof -
  assume "uniq qe_id es"
  then have "distinct (map qe_id (sort_key (\<lambda>e. - qe_sequence e) (filter ob_deadLettered es)))"
    by (auto simp: uniq_def distinct_map intro: inj_on_subset)
  then show ?thesis unfolding dead_batch_def take_map [symmetric] by (rule distinct_take)
qed

lemma digest_deadLetterAlert: "digest_inv s \<Longrightarrow> sv_redis g \<noteq> RedisDown \<Longrightarrow> digest_inv (deadLetterAlert g s)"
  using dead_batch_distinct [of "sc_queue s"]
  by (auto simp: digest_inv_def deadLetterAlert_def Let_def distinct_map_filter split: redis_link.split)

lemma digest_locks [simp]: "digest_inv (set_lock k x s) = digest_inv s" "digest_inv (s\<lparr>sc_ticking := b\<rparr>) = digest_inv s"
  by (simp_all add: digest_inv_def set_lock_def)

lemma digest_job:
  assumes "digest_inv s" and "\<And>t. digest_inv t \<Longrightarrow> sv_redis g \<noteq> RedisDown \<Longrightarrow> digest_inv (fn g t)"
  shows "digest_inv (run_job job ttl fn g s)"
  using assms by (auto simp: run_job_def acquire_def Let_def split: redis_link.split)

lemma digest_tick: "digest_inv s \<Longrightarrow> digest_inv (tick g s)"
  by (auto simp: tick_def Let_def intro!: digest_job digest_reserveCycle digest_deadLetterAlert)

lemma digest_run:
  assumes "digest_inv s" and "\<forall>t es. Outside t es \<in> set xs \<longrightarrow> uniq qe_id es"
  shows "digest_inv (sched_run xs s)"
  using assms
proof (induction xs s rule: sched_run.induct)
  case (3 t es xs s)
  then have "digest_inv (s\<lparr>sc_st := t, sc_queue := es\<rparr>)" by (simp add: digest_inv_def)
  with 3 show ?case by simp
qed (simp_all add: digest_tick)

end
