(* ===== verification/Operations.thy ===== *)
theory Operations
  imports System Gate
begin

text \<open>
  \<open>modules/operations/operations.service.ts\<close>: the read models of the operator workbench as
  functions of the platform state. A row of a view has the columns the model's tables keep. The
  lemmas say that the trial balance of every reachable state is computed without an error and
  balances, which account balances it adds up, and that it agrees with the reserve ledger's
  balance when the scope has one currency.
\<close>

section \<open>Queries\<close>

text \<open>
  Rows are kept in creation order, so \<open>orderBy createdAt\<close> is the list or its reverse. A negative
  \<open>take\<close> counts from the end.
\<close>

definition take_rows :: "int \<Rightarrow> 'a list \<Rightarrow> 'a list" where
  "take_rows n xs = (if 0 \<le> n then take (nat n) xs else drop (length xs - nat (- n)) xs)"

record MintQueueRow =
  mq_id :: string
  mq_programId :: string
  mq_amountMinor :: string
  mq_currency :: string
  mq_status :: MintAuthorizationStatus
  mq_makerId :: "string option"
  mq_paychainRequestId :: string

record OpsQueues =
  oq_mint :: "MintQueueRow list"
  oq_redemptions :: "Redemption list"
  oq_deposits :: "Deposit list"
  oq_settlements :: "PaykhSettlement list"

definition mint_queue_row :: "st \<Rightarrow> MintAuthorization \<Rightarrow> MintQueueRow" where
  "mint_queue_row s m = \<lparr>mq_id = ma_id m, mq_programId = ma_programId m, mq_amountMinor = bigint_toString (ma_amountMinor m),
     mq_currency = ma_currency m, mq_status = ma_status m,
     mq_makerId = map_option ap_makerId (find_row ap_mintAuthorizationId (ma_id m) (approvals s)),
     mq_paychainRequestId = ma_paychainRequestId m\<rparr>"

definition queues :: "st \<Rightarrow> OpsQueues" where
  "queues s = \<lparr>
     oq_mint = map (mint_queue_row s) (take 100 (filter (\<lambda>m. ma_status m \<in> set [MintAuthorizationStatus.PENDING_MAKER,
       MintAuthorizationStatus.PENDING_CHECKER]) (mintAuths s))),
     oq_redemptions = take 100 (filter (\<lambda>r. rd_status r \<in> set [RedemptionStatus.AWAITING_APPROVAL, RedemptionStatus.APPROVED,
       RedemptionStatus.BURN_CONFIRMED, RedemptionStatus.PAYOUT_SUBMITTED]) (redemptions s)),
     oq_deposits = take 100 (filter (\<lambda>d. dp_status d \<in> set [DepositStatus.DETECTED, DepositStatus.UNMATCHED,
       DepositStatus.MATCHED]) (deposits s)),
     oq_settlements = take 100 (filter (\<lambda>x. sm_status x \<in> set [SettlementStatus.REQUESTED, SettlementStatus.APPROVED,
       SettlementStatus.SUBMITTED]) (settlements s))\<rparr>"

section \<open>The trial balance\<close>

record TrialRow =
  tr_account :: string
  tr_type :: LedgerAccountType
  tr_debitMinor :: int
  tr_creditMinor :: int
  tr_balanceMinor :: int

record TrialBalance =
  tb_accounts :: "TrialRow list"
  tb_debitMinor :: int
  tb_creditMinor :: int
  tb_balanced :: bool

definition scope_postings :: "st \<Rightarrow> string \<Rightarrow> LedgerPosting list" where
  "scope_postings s programId = concat (map le_postings (filter (\<lambda>en. le_programId en = programId) (entries s)))"

text \<open>\<open>groupBy account\<close> with the sums of both columns; the groups come in no specified order.\<close>

definition group_accounts :: "LedgerPosting list \<Rightarrow> (string \<times> int \<times> int) list" where
  "group_accounts ps = map (\<lambda>a. (a, (\<Sum>p\<leftarrow>filter (\<lambda>p. lp_account p = a) ps. lp_debitMinor p),
     (\<Sum>p\<leftarrow>filter (\<lambda>p. lp_account p = a) ps. lp_creditMinor p))) (remdups (map lp_account ps))"

fun trial_rows :: "(string \<times> int \<times> int) list \<Rightarrow> int \<Rightarrow> int \<Rightarrow> (TrialRow list \<times> int \<times> int) res" where
  "trial_rows [] d c = Inr ([], d, c)"
| "trial_rows ((a, db, cr) # rows) d c =
     bind_r (ledgerAccountTypeOf a) (\<lambda>t.
     let debitNormal = (t = ASSET \<or> t = EXPENSE) in
     bind_r (trial_rows rows (d + db) (c + cr)) (\<lambda>(rest, totals).
     Inr (\<lparr>tr_account = a, tr_type = t, tr_debitMinor = db, tr_creditMinor = cr,
       tr_balanceMinor = (if debitNormal then db - cr else cr - db)\<rparr> # rest, totals)))"

definition trialBalance :: "st \<Rightarrow> string \<Rightarrow> TrialBalance res" where
  "trialBalance s programId = bind_r (trial_rows (group_accounts (scope_postings s programId)) 0 0) (\<lambda>(rows, d, c).
     Inr \<lparr>tb_accounts = rows, tb_debitMinor = d, tb_creditMinor = c, tb_balanced = (d = c)\<rparr>)"

section \<open>Journal, audit log and reports\<close>

definition ledgerEntries :: "st \<Rightarrow> string \<Rightarrow> int \<Rightarrow> LedgerEntry list" where
  "ledgerEntries s programId limit = take_rows (min limit 200) (rev (filter (\<lambda>en. le_programId en = programId) (entries s)))"

fun contains_text :: "string \<Rightarrow> string \<Rightarrow> bool" where
  "contains_text w [] = (w = [])"
| "contains_text w (c # cs) = (startsWith w (c # cs) \<or> contains_text w cs)"

definition auditLogs :: "st \<Rightarrow> string option \<Rightarrow> string option \<Rightarrow> string option \<Rightarrow> int option \<Rightarrow> AuditLog list" where
  "auditLogs s subjectType action actor limit = take_rows (min (case limit of None \<Rightarrow> 100 | Some n \<Rightarrow> n) 500)
     (rev (filter (\<lambda>l. (truthy subjectType \<longrightarrow> al_subjectType l = the subjectType)
       \<and> (truthy action \<longrightarrow> contains_text (the action) (al_action l))
       \<and> (truthy actor \<longrightarrow> contains_text (the actor) (al_actor l))) (audits s)))"

record ReserveReport =
  rv_code :: string
  rv_position :: ReservePosition
  rv_latestSnapshotAt :: "int option"

definition reserveReport :: "env \<Rightarrow> st \<Rightarrow> string \<Rightarrow> ReserveReport res" where
  "reserveReport e s programId = bind_r (position e s programId) (\<lambda>pos.
     let latest = find_last (\<lambda>r. rs_programId r = programId) (snapshots s) in
     bind_r (require (find_program s programId) (NotFound ''Program not found'')) (\<lambda>program.
     Inr \<lparr>rv_code = pg_code program, rv_position = pos, rv_latestSnapshotAt = map_option rs_createdAt latest\<rparr>))"

definition liabilityReport :: "st \<Rightarrow> string \<Rightarrow> LiabilitySnapshot option" where
  "liabilityReport s programId = find_max ls_sequence
     (filter (\<lambda>l. ls_programId l = programId \<and> ls_signatureVerified l) (liabilities s))"

definition reconciliationRuns :: "st \<Rightarrow> int \<Rightarrow> (ReconciliationRun \<times> nat) list" where
  "reconciliationRuns s limit = map (\<lambda>r. (r, length (rr_exceptions r))) (take_rows (min limit 200) (rev (reconRuns s)))"

definition ops_attestations :: "st \<Rightarrow> Attestation list" where
  "ops_attestations s = take 100 (rev (attestations s))"

definition ops_programs :: "st \<Rightarrow> (string \<times> string \<times> string \<times> ProgramStatus) list" where
  "ops_programs s = map (\<lambda>p. (pg_id p, pg_code p, pg_referenceCurrency p, pg_status p)) (programs s)"

section \<open>The trial balance always balances\<close>

lemma trial_rows_total:
  assumes "\<forall>(a, d, c) \<in> set rows. is_ok (ledgerAccountTypeOf a)"
  shows "\<exists>out. trial_rows rows d0 c0 = Inr (out, d0 + (\<Sum>(a, d, c)\<leftarrow>rows. d), c0 + (\<Sum>(a, d, c)\<leftarrow>rows. c))
    \<and> list_all2 (\<lambda>(a, d, c) r. tr_account r = a \<and> ledgerAccountTypeOf a = Inr (tr_type r) \<and> tr_debitMinor r = d \<and> tr_creditMinor r = c
        \<and> tr_balanceMinor r = (if debit_positive (tr_type r) then d - c else c - d)) rows out"
  using assms
proof (induction rows arbitrary: d0 c0)
  case (Cons x rows)
  obtain a d c where x: "x = (a, d, c)" by (cases x)
  from Cons.prems x obtain t where t: "ledgerAccountTypeOf a = Inr t" by (auto simp: is_ok_iff)
  from Cons.IH [of "d0 + d" "c0 + c"] Cons.prems obtain out where
    "trial_rows rows (d0 + d) (c0 + c) = Inr (out, d0 + d + (\<Sum>(a, d, c)\<leftarrow>rows. d), c0 + c + (\<Sum>(a, d, c)\<leftarrow>rows. c))"
    "list_all2 (\<lambda>(a, d, c) r. tr_account r = a \<and> ledgerAccountTypeOf a = Inr (tr_type r) \<and> tr_debitMinor r = d \<and> tr_creditMinor r = c
        \<and> tr_balanceMinor r = (if debit_positive (tr_type r) then d - c else c - d)) rows out" by auto
  then show ?case by (simp add: x t Let_def debit_positive_def add.assoc)
qed simp

lemma group_sum:
  fixes f :: "LedgerPosting \<Rightarrow> int"
  shows "(\<Sum>a\<leftarrow>remdups (map lp_account ps). \<Sum>p\<leftarrow>filter (\<lambda>p. lp_account p = a) ps. f p) = (\<Sum>p\<leftarrow>ps. f p)"
proof -
  have "(\<Sum>a\<in>A. \<Sum>p\<leftarrow>filter (\<lambda>p. lp_account p = a) ps. f p) = (\<Sum>p\<leftarrow>ps. f p)"
    if "finite A" "lp_account ` set ps \<subseteq> A" for A
    using that(2)
  proof (induction ps)
    case (Cons p ps)
    have "(\<Sum>a\<in>A. \<Sum>q\<leftarrow>filter (\<lambda>q. lp_account q = a) (p # ps). f q)
        = (\<Sum>a\<in>A. (if a = lp_account p then f p else 0) + (\<Sum>q\<leftarrow>filter (\<lambda>q. lp_account q = a) ps. f q))"
      by (intro sum.cong) auto
    also have "\<dots> = f p + (\<Sum>q\<leftarrow>ps. f q)"
      using Cons that(1) by (simp add: sum.distrib sum.delta)
    finally show ?case by simp
  qed simp
  from this [of "lp_account ` set ps"] show ?thesis
    by (simp add: sum_list_distinct_conv_sum_set)
qed

lemma group_totals:
  "(\<Sum>(a, d, c)\<leftarrow>group_accounts ps. d) = (\<Sum>p\<leftarrow>ps. lp_debitMinor p)"
  "(\<Sum>(a, d, c)\<leftarrow>group_accounts ps. c) = (\<Sum>p\<leftarrow>ps. lp_creditMinor p)"
  by (simp_all add: group_accounts_def comp_def group_sum)

lemma scope_postings_ok:
  assumes "ledger_ok s"
  shows "\<forall>p \<in> set (scope_postings s scope). is_ok (ledgerAccountTypeOf (lp_account p))"
    and "(\<Sum>p\<leftarrow>scope_postings s scope. lp_debitMinor p) = (\<Sum>p\<leftarrow>scope_postings s scope. lp_creditMinor p)"
proof -
  show "\<forall>p \<in> set (scope_postings s scope). is_ok (ledgerAccountTypeOf (lp_account p))"
    using assms by (auto simp: scope_postings_def ledger_ok_def list_all_iff entry_ok_def lposting_ok_def)
  have "(\<Sum>p\<leftarrow>concat (map le_postings (filter (\<lambda>en. le_programId en = scope) es)). lp_debitMinor p)
      = (\<Sum>p\<leftarrow>concat (map le_postings (filter (\<lambda>en. le_programId en = scope) es)). lp_creditMinor p)"
    if "list_all entry_ok es" for es
    using that by (induction es) (auto simp: entry_ok_def)
  then show "(\<Sum>p\<leftarrow>scope_postings s scope. lp_debitMinor p) = (\<Sum>p\<leftarrow>scope_postings s scope. lp_creditMinor p)"
    using assms by (simp add: scope_postings_def ledger_ok_def)
qed

lemma acc_net_filter:
  "acc_net dp a ps = (let d = (\<Sum>p\<leftarrow>filter (\<lambda>p. lp_account p = a) ps. lp_debitMinor p);
     c = (\<Sum>p\<leftarrow>filter (\<lambda>p. lp_account p = a) ps. lp_creditMinor p) in if dp then d - c else c - d)"
  by (induction ps) (auto simp: acc_net_def Let_def)

lemma scope_acc_net:
  assumes "\<forall>en \<in> set (entries s). le_programId en = scope \<longrightarrow> le_currency en = cur"
  shows "acc_net dp a (scope_postings s scope) = bal dp scope cur a (entries s)"
proof -
  have "acc_net dp a (concat (map le_postings (filter (\<lambda>en. le_programId en = scope) es))) = bal dp scope cur a es"
    if "\<forall>en \<in> set es. le_programId en = scope \<longrightarrow> le_currency en = cur" for es
    using that by (induction es) (auto simp: bal_def acc_net_append acc_net_def)
  then show ?thesis using assms by (simp add: scope_postings_def)
qed

lemma list_all2_right: "list_all2 P xs ys \<Longrightarrow> y \<in> set ys \<Longrightarrow> \<exists>x \<in> set xs. P x y"
  by (induction rule: list_all2_induct) auto

lemma trial_balance_ok:
  assumes "ledger_ok s"
  shows "\<exists>tb. trialBalance s scope = Inr tb \<and> tb_balanced tb \<and> tb_debitMinor tb = tb_creditMinor tb
    \<and> set (map tr_account (tb_accounts tb)) = lp_account ` set (scope_postings s scope) \<and> distinct (map tr_account (tb_accounts tb))
    \<and> (\<forall>r \<in> set (tb_accounts tb). ledgerAccountTypeOf (tr_account r) = Inr (tr_type r)
         \<and> tr_balanceMinor r = acc_net (debit_positive (tr_type r)) (tr_account r) (scope_postings s scope))"
proof -
  let ?ps = "scope_postings s scope" and ?g = "group_accounts (scope_postings s scope)"
  have "\<forall>(a, d, c) \<in> set ?g. is_ok (ledgerAccountTypeOf a)"
    using scope_postings_ok(1) [OF assms, of scope] by (auto simp: group_accounts_def)
  from trial_rows_total [OF this, of 0 0] obtain out where out:
    "trial_rows ?g 0 0 = Inr (out, (\<Sum>p\<leftarrow>?ps. lp_debitMinor p), (\<Sum>p\<leftarrow>?ps. lp_creditMinor p))"
    and rows: "list_all2 (\<lambda>(a, d, c) r. tr_account r = a \<and> ledgerAccountTypeOf a = Inr (tr_type r) \<and> tr_debitMinor r = d \<and> tr_creditMinor r = c
        \<and> tr_balanceMinor r = (if debit_positive (tr_type r) then d - c else c - d)) ?g out"
    by (auto simp: group_totals)
  have accs: "map tr_account out = remdups (map lp_account ?ps)"
  proof -
    have "list_all2 (\<lambda>x r. fst x = tr_account r) ?g out" using rows by (rule list_all2_mono) auto
    then have "map fst ?g = map tr_account out" by (induction rule: list_all2_induct) auto
    then show ?thesis by (simp add: group_accounts_def comp_def)
  qed
  have "set (map tr_account out) = set (remdups (map lp_account ?ps))" by (rule arg_cong [OF accs])
  then have acc_set: "tr_account ` set out = lp_account ` set ?ps" by simp
  have "ledgerAccountTypeOf (tr_account r) = Inr (tr_type r)
      \<and> tr_balanceMinor r = acc_net (debit_positive (tr_type r)) (tr_account r) ?ps" if "r \<in> set out" for r
  proof -
    from list_all2_right [OF rows that] show ?thesis by (auto simp: group_accounts_def acc_net_filter Let_def)
  qed
  then show ?thesis using out scope_postings_ok(2) [OF assms, of scope] accs acc_set
    by (simp add: trialBalance_def)
qed

text \<open>With one currency in the scope a row's balance is the reserve ledger's account balance.\<close>

lemma trial_row_is_account_balance:
  assumes "ledger_ok s" and "trialBalance s scope = Inr tb" and "r \<in> set (tb_accounts tb)"
    and "\<forall>en \<in> set (entries s). le_programId en = scope \<longrightarrow> le_currency en = cur"
  shows "accountBalance s scope (tr_account r) cur = Inr (money_big (tr_balanceMinor r) cur)"
  using trial_balance_ok [OF assms(1), of scope] assms(2,3) scope_acc_net [OF assms(4)]
  by (auto simp: accountBalance_value)

lemma reserve_report_fails: "find_program s p = None \<Longrightarrow> reserveReport e s p = Inl (NotFound ''Program'')"
  by (simp add: reserveReport_def position_missing)

lemma report_uses_latest_feed: "liabilityReport s p = latestLiability s p"
  by (simp add: liabilityReport_def latestLiability_def)

end
