(* ===== verification/Infra_Laws.thy ===== *)
theory Infra_Laws
  imports Infra "HOL-Library.Multiset"
begin

text \<open>
  Laws of the cross-cutting services: the canonical form that is signed and hashed does
  not depend on the order of object members; a signature verifies for any such
  reordering, also after the signing key was rotated; a keyed request is executed once and
  replayed after that.
\<close>

section \<open>Canonical form and signatures\<close>

lemma sort_members_mset:
  assumes "distinct (map fst xs)" and "mset xs = mset ys"
  shows "sort_members xs = sort_members ys"
proof -
  have "fold insert_member (rev xs) = fold insert_member (rev ys)"
  proof (rule fold_multiset_equiv)
    fix x y assume "x \<in> set (rev xs)" "y \<in> set (rev xs)"
    with assms(1) have "x = y \<or> fst x \<noteq> fst y" by (auto simp: distinct_map inj_on_def)
    then show "insert_member x \<circ> insert_member y = insert_member y \<circ> insert_member x"
      by (elim disjE) (simp, rule ext, simp only: o_apply, rule insert_member_commute)
  qed (use assms(2) in simp)
  then show ?thesis by (simp add: sort_members_def foldr_conv_fold)
qed

lemma canonicalize_mset:
  assumes "distinct (map fst xs)" and "mset xs = mset ys"
  shows "canonicalize (JObj xs) = canonicalize (JObj ys)"
proof -
  let ?f = "\<lambda>(k, v). (k, sortValue v)"
  have "map fst (map ?f xs) = map fst xs" by (induction xs) auto
  with assms(1) have "distinct (map fst (map ?f xs))" by (simp only:)
  moreover from assms(2) have "mset (map ?f xs) = mset (map ?f ys)" by simp
  ultimately have "sort_members (map ?f xs) = sort_members (map ?f ys)" by (rule sort_members_mset)
  then show ?thesis by (simp add: canonicalize_def)
qed

text \<open>The documented law of the signature primitive, for one key pair.\<close>

definition key_pair :: "env \<Rightarrow> SigningKey \<Rightarrow> bool" where
  "key_pair e k \<longleftrightarrow> (\<forall>m. nodeVerify e (sk_publicKeyPem k) m (nodeSign e (sk_privateKeyPem k) m))"

lemma verify_signed:
  assumes "k = signingKeys e p \<or> k \<in> set (previousKeys e p)" and "key_pair e k"
    and "distinct (map fst xs)" and "mset xs = mset ys"
  shows "verify e p (JObj ys) (signPayload e k (JObj xs))"
  using assms canonicalize_mset [OF assms(3,4)]
  by (auto simp: verify_def verifyPayload_def signPayload_def key_pair_def list_ex_iff)

section \<open>Idempotency keys\<close>

lemma idempotent_stored:
  assumes "idempotent key route body fn e s = (Inr (False, v), s')" and "truthy key"
  shows "\<exists>k. find_row ik_key (the key) (idemKeys s') = Some k
    \<and> ik_requestHash k = sha256Hex e (canonicalize body) \<and> ik_responseBody k = to_plain v"
proof -
  from assms obtain s1 where fn: "fn e s = (Inr v, s1)" and fresh: "\<not> has_row ik_key (the key) (idemKeys s1)"
    and s': "s' = s1\<lparr>idemKeys := idemKeys s1 @ [\<lparr>ik_key = the key, ik_route = route,
       ik_requestHash = sha256Hex e (canonicalize body), ik_responseCode = 200, ik_responseBody = to_plain v\<rparr>]\<rparr>"
    by (auto simp: idempotent_def prog_simps bnd_eq_Inr Let_def split: option.splits if_splits)
  from fresh have "find_row ik_key (the key) (idemKeys s1) = None" by (simp add: has_row_find)
  with s' show ?thesis by (simp add: find_row_append find_row_Cons)
qed

lemma idempotent_found:
  assumes "find_row ik_key (the key) (idemKeys s) = Some k" and "truthy key"
  shows "idempotent key route body fn e s =
    (if ik_requestHash k \<noteq> sha256Hex e (canonicalize body) then Inl (Conflict ''Idempotency key reused'')
     else Inr (True, ik_responseBody k), s)"
  using assms by (simp add: idempotent_def prog_simps Let_def)

end
