(* ===== verification/Keyring.thy ===== *)
theory Keyring
  imports Infra_Laws
begin

text \<open>
  The key ring of \<open>infra/signing.service.ts\<close>: how the active and the superseded keys are loaded from
  the environment or generated, and the public key set that is published. \<open>JSON.parse\<close> (read at
  the type the code casts it to), base64, key generation and SHA-256 are parameters; a key's
  creation time is not kept. The lemmas say when loading fails, that a loaded ring has a key of
  the right purpose for every purpose, and that signatures survive a rotation: what was signed
  with keys that became the previous ones still verifies, and the key is still published.
\<close>

section \<open>Loading\<close>

definition PURPOSES :: "SigningPurpose list" where
  "PURPOSES = [API_AUTH, REQUEST_SIGNING, RESPONSE_SIGNING, MINT_AUTHORIZATION, RESERVE_SNAPSHOT, ATTESTATION, WEBHOOK,
     DOCUMENT_HASH]"

fun purpose_name :: "SigningPurpose \<Rightarrow> string" where
  "purpose_name API_AUTH = ''API_AUTH''"
| "purpose_name REQUEST_SIGNING = ''REQUEST_SIGNING''"
| "purpose_name RESPONSE_SIGNING = ''RESPONSE_SIGNING''"
| "purpose_name MINT_AUTHORIZATION = ''MINT_AUTHORIZATION''"
| "purpose_name RESERVE_SNAPSHOT = ''RESERVE_SNAPSHOT''"
| "purpose_name ATTESTATION = ''ATTESTATION''"
| "purpose_name WEBHOOK = ''WEBHOOK''"
| "purpose_name DOCUMENT_HASH = ''DOCUMENT_HASH''"

record KeyEntry =
  ke_keyId :: string
  ke_privateKeyPem :: string
  ke_publicKeyPem :: string

record kenv =
  parseKeys :: "string \<Rightarrow> (string \<Rightarrow> KeyEntry option) option"
  base64Decode :: "string \<Rightarrow> string"
  generateKeyPair :: "SigningPurpose \<Rightarrow> string \<times> string"
  sha256 :: "string \<Rightarrow> string"
  lowerCase :: "string \<Rightarrow> string"

record keyring =
  kr_keys :: "SigningPurpose \<Rightarrow> SigningKey option"
  kr_previousKeys :: "SigningPurpose \<Rightarrow> SigningKey list"

definition signing_key :: "SigningPurpose \<Rightarrow> KeyEntry \<Rightarrow> SigningKey" where
  "signing_key purpose k = \<lparr>sk_keyId = ke_keyId k, sk_purpose = purpose, sk_privateKeyPem = ke_privateKeyPem k,
     sk_publicKeyPem = ke_publicKeyPem k\<rparr>"

definition key_json :: "kenv \<Rightarrow> string \<Rightarrow> string" where
  "key_json g raw = (case dropWhile is_white raw of c # _ \<Rightarrow> if c = CHR ''{'' then raw else base64Decode g raw
     | [] \<Rightarrow> base64Decode g raw)"

definition loadPrevious :: "kenv \<Rightarrow> string option \<Rightarrow> (SigningPurpose \<Rightarrow> SigningKey list) res" where
  "loadPrevious g raw = (if \<not> truthy raw then Inr (\<lambda>_. [])
     else (case parseKeys g (key_json g (the raw)) of
         None \<Rightarrow> Inl (PlainError ''Failed to load TRUSTEE_SIGNING_KEYS_PREVIOUS'')
       | Some parsed \<Rightarrow> Inr (\<lambda>p. case parsed (purpose_name p) of None \<Rightarrow> [] | Some k \<Rightarrow> [signing_key p k])))"

definition load_secret :: "kenv \<Rightarrow> string \<Rightarrow> (SigningPurpose \<Rightarrow> SigningKey option) res" where
  "load_secret g raw = (case parseKeys g (key_json g raw) of
       None \<Rightarrow> Inl (PlainError ''Failed to load TRUSTEE_SIGNING_KEYS'')
     | Some parsed \<Rightarrow> if list_all (\<lambda>p. parsed (purpose_name p) \<noteq> None) PURPOSES
         then Inr (\<lambda>p. map_option (signing_key p) (parsed (purpose_name p)))
         else Inl (PlainError ''Failed to load TRUSTEE_SIGNING_KEYS: Missing signing key''))"

definition generated_key :: "kenv \<Rightarrow> SigningPurpose \<Rightarrow> SigningKey" where
  "generated_key g p = (case generateKeyPair g p of (private, public) \<Rightarrow>
     \<lparr>sk_keyId = lowerCase g (purpose_name p) @ ''-'' @ take 8 (sha256 g (purpose_name p)), sk_purpose = p,
      sk_privateKeyPem = private, sk_publicKeyPem = public\<rparr>)"

definition load_keyring :: "kenv \<Rightarrow> (string \<Rightarrow> string option) \<Rightarrow> keyring res" where
  "load_keyring g vars = bind_r (loadPrevious g (vars ''TRUSTEE_SIGNING_KEYS_PREVIOUS'')) (\<lambda>previous.
     bind_r (if truthy (vars ''TRUSTEE_SIGNING_KEYS'') then load_secret g (the (vars ''TRUSTEE_SIGNING_KEYS''))
       else Inr (\<lambda>p. Some (generated_key g p))) (\<lambda>keys.
     Inr \<lparr>kr_keys = keys, kr_previousKeys = previous\<rparr>))"

section \<open>Using the ring\<close>

definition key_of :: "keyring \<Rightarrow> SigningPurpose \<Rightarrow> SigningKey res" where
  "key_of r p = require (kr_keys r p) (PlainError ''No signing key'')"

definition publicKey :: "keyring \<Rightarrow> SigningPurpose \<Rightarrow> (string \<times> string) res" where
  "publicKey r p = bind_r (key_of r p) (\<lambda>k. Inr (sk_keyId k, sk_publicKeyPem k))"

definition allPublicKeys :: "keyring \<Rightarrow> (SigningPurpose \<times> string \<times> string \<times> string) list" where
  "allPublicKeys r = concat (map (\<lambda>p. case kr_keys r p of None \<Rightarrow> []
       | Some k \<Rightarrow> [(sk_purpose k, sk_keyId k, sk_publicKeyPem k, ''active'')]) PURPOSES)
     @ concat (map (\<lambda>p. map (\<lambda>k. (sk_purpose k, sk_keyId k, sk_publicKeyPem k, ''superseded'')) (kr_previousKeys r p)) PURPOSES)"

text \<open>The environment of a process that runs with this ring.\<close>

definition with_keyring :: "keyring \<Rightarrow> env \<Rightarrow> env" where
  "with_keyring r e = e\<lparr>signingKeys := (\<lambda>p. the (kr_keys r p)), previousKeys := kr_previousKeys r\<rparr>"

section \<open>A loaded ring is complete\<close>

lemma purposes_complete: "p \<in> set PURPOSES"
  by (cases p) (simp_all add: PURPOSES_def)

lemma purpose_name_inj: "purpose_name p = purpose_name q \<Longrightarrow> p = q"
  by (cases p; cases q) simp_all

lemma keyring_complete:
  assumes "load_keyring g vars = Inr r"
  shows "\<exists>k. kr_keys r p = Some k \<and> sk_purpose k = p" and "k \<in> set (kr_previousKeys r p) \<Longrightarrow> sk_purpose k = p"
  using assms purposes_complete [of p]
  by (auto simp: load_keyring_def load_secret_def loadPrevious_def bind_r_eq_Inr list_all_iff signing_key_def generated_key_def
      split: if_splits option.splits prod.splits)

text \<open>A secret that lacks a purpose, or does not parse, stops the service.\<close>

lemma incomplete_secret_refused:
  assumes "vars ''TRUSTEE_SIGNING_KEYS'' = Some raw" and "raw \<noteq> []" and "parseKeys g (key_json g raw) = Some parsed"
    and "parsed (purpose_name p) = None"
  shows "\<not> is_ok (load_keyring g vars)"
  using assms purposes_complete [of p]
  by (cases "loadPrevious g (vars ''TRUSTEE_SIGNING_KEYS_PREVIOUS'')")
    (auto simp: load_keyring_def load_secret_def truthy_def list_all_iff)

section \<open>Rotation\<close>

text \<open>The secret that was active before is the previous one of the new environment.\<close>

definition rotated :: "(string \<Rightarrow> string option) \<Rightarrow> (string \<Rightarrow> string option) \<Rightarrow> bool" where
  "rotated before after = (truthy (before ''TRUSTEE_SIGNING_KEYS'')
     \<and> after ''TRUSTEE_SIGNING_KEYS_PREVIOUS'' = before ''TRUSTEE_SIGNING_KEYS'')"

lemma rotated_keys:
  assumes "load_keyring g before = Inr r" and "load_keyring g after = Inr r'" and "rotated before after"
    and "kr_keys r p = Some k"
  shows "kr_previousKeys r' p = [k]"
  using assms
  by (auto simp: load_keyring_def load_secret_def loadPrevious_def rotated_def bind_r_eq_Inr split: if_splits option.splits)

lemma rotation_verifies:
  assumes "load_keyring g before = Inr r" and "load_keyring g after = Inr r'" and "rotated before after"
    and "kr_keys r p = Some k" and "key_pair e k" and "distinct (map fst xs)" and "mset xs = mset ys"
  shows "verify (with_keyring r' e) p (JObj ys) (sign (with_keyring r e) p (JObj xs))"
proof -
  have "sign (with_keyring r e) p (JObj xs) = signPayload (with_keyring r' e) k (JObj xs)"
    using assms(4) by (simp add: sign_def with_keyring_def signPayload_def)
  moreover have "k \<in> set (previousKeys (with_keyring r' e) p)"
    using rotated_keys [OF assms(1-4)] by (simp add: with_keyring_def)
  moreover have "key_pair (with_keyring r' e) k" using assms(5) by (simp add: key_pair_def with_keyring_def)
  ultimately show ?thesis using verify_signed assms(6,7) by simp
qed

lemma rotation_publishes:
  assumes "load_keyring g before = Inr r" and "load_keyring g after = Inr r'" and "rotated before after"
    and "kr_keys r p = Some k"
  shows "(p, sk_keyId k, sk_publicKeyPem k, ''superseded'') \<in> set (allPublicKeys r')"
proof -
  from rotated_keys [OF assms] have "kr_previousKeys r' p = [k]" .
  moreover have "sk_purpose k = p" using keyring_complete(1) [OF assms(1), of p] assms(4) by auto
  ultimately show ?thesis using purposes_complete [of p] by (force simp: allPublicKeys_def)
qed

end
