(* ===== verification/Scenario_Gate.thy ===== *)
theory Scenario_Gate
  imports Scenario Dtos Worker Scheduler Operations Keyring
begin

text \<open>
  Concrete runs of the admission state, the outbox and the scheduler, with concrete functions
  for Node's primitives: a signing PayKH client, an operator with a password and a TOTP secret,
  two queued events and a program without a reserve. The lemmas evaluate them, so that the
  properties can be applied there.
\<close>

section \<open>A signing client and an operator\<close>

definition demo_genv :: "int \<Rightarrow> genv" where
  "demo_genv t = \<lparr>gv = (demo_env ''i'')\<lparr>now := t, sha256Hex := (\<lambda>s. CHR ''#'' # s), nodeVerify := (\<lambda>pem s sig. sig = pem @ s)\<rparr>,
     hmacSha1 = (\<lambda>_ _. replicate 20 0), hmacSha256 = (\<lambda>_. ''m''), scryptSync = (\<lambda>_ _ n _. Inr (replicate n 0)),
     randomBytes = (\<lambda>n. replicate n 0), base64url = (\<lambda>bs. replicate (length bs) (CHR ''A'')), encodeBody = (\<lambda>_. ''b''),
     decodeBody = (\<lambda>_. Some (JObj [(''sub'', JStr ''u''), (''email'', JStr ''e''), (''inst'', JStr ''TRUSTEE_BANK''),
       (''roles'', JArr []), (''mfp'', JNum 0), (''exp'', JNum 3660)])),
     base64Text = id, jsNumber = (\<lambda>_. Some 60000), redisLink = RedisUp, ENFORCE_OPERATOR_MFA = True, SESSION_TTL_SECONDS = 3600,
     PASSWORD_RESET_TTL_SECONDS = 3600, MAX_REQUEST_SKEW_SECONDS = 300\<rparr>"

definition demo_client :: ClientApplication where
  "demo_client = \<lparr>cl_platform = ''PAYKH'', cl_displayName = ''d'', cl_oauthClientId = ''c'', cl_clientSecretHash = Some ''#s'',
     cl_publicKeyPem = Some ''pem'', cl_requireSignature = True, cl_rateLimitPerMin = 1, cl_disabled = False, cl_webhookUrl = None\<rparr>"

definition demo_operator :: AuthUser where
  "demo_operator = \<lparr>au_id = ''u'', au_email = ''e'', au_displayName = ''o'', au_institution = ''TRUSTEE_BANK'', au_roles = [],
     au_disabled = False, au_passwordHash = Some ''scrypt$1$00$00'', au_mfaSecret = Some ''AA'', au_mfaEnabled = True,
     au_attributes = None\<rparr>"

definition demo_gate :: gate where
  "demo_gate = \<lparr>gt_users = [demo_operator], gt_clients = [demo_client], gt_roles = [], gt_nonces = [], gt_resets = [],
     gt_mem = [], gt_redis = [], gt_mails = [], gt_audits = []\<rparr>"

definition demo_body :: json where
  "demo_body = JObj [(''tenantId'', JStr ''t''), (''actor'', JStr ''x'')]"

definition demo_subject :: json where
  "demo_subject = signing_subject (demo_genv 60000)
     \<lparr>hq_method = ''POST'', hq_path = ''/api/v1/paykh/reconciliations/payment-orders'', hq_headers = (\<lambda>_. None), hq_body = Some demo_body\<rparr> ''c'' ''60000'' ''n''"

definition demo_request :: request where
  "demo_request = \<lparr>hq_method = ''POST'', hq_path = ''/api/v1/paykh/reconciliations/payment-orders'',
     hq_headers = [''x-client-id'' \<mapsto> ''c'', ''x-client-secret'' \<mapsto> ''s'', ''x-timestamp'' \<mapsto> ''60000'', ''x-nonce'' \<mapsto> ''n'',
       ''x-signature'' \<mapsto> ''pem'' @ canonicalize demo_subject], hq_body = Some demo_body\<rparr>"

definition operator_request :: request where
  "operator_request = \<lparr>hq_method = ''POST'', hq_path = ''/api/v1/bank/x'', hq_headers = [''authorization'' \<mapsto> ''Bearer b.m''],
     hq_body = None\<rparr>"

lemma demo_request_fields:
  "requiredPlatform (hq_path demo_request) = Some ''PAYKH''" "value_changing demo_request" "bearer demo_request = None"
  "extractCredentials g demo_request = Some (''c'', ''s'')" "hq_headers demo_request ''x-timestamp'' = Some ''60000''"
  "hq_headers demo_request ''x-nonce'' = Some ''n''"
  "hq_headers demo_request ''x-signature'' = Some (''pem'' @ canonicalize demo_subject)"
  by (simp_all add: demo_request_def requiredPlatform_def startsWith_def value_changing_def bearer_def extractCredentials_def truthy_def)

lemma demo_client_found: "gt_clients s = [demo_client] \<Longrightarrow> find_row cl_oauthClientId ''c'' (gt_clients s) = Some demo_client"
  by (simp add: find_row_Cons demo_client_def)

lemma demo_separation:
  "clientSeparation demo_request (demo_genv 60000) demo_gate = (Inr (Some (ClientP (client_principal demo_client))), demo_gate)"
proof -
  have "verifyClient ''c'' ''s'' (demo_genv 60000) demo_gate = (Inr (Some (client_principal demo_client)), demo_gate)"
    by (simp add: verifyClient_def prog_simps demo_gate_def find_row_Cons)
      (simp add: demo_client_def truthy_def demo_genv_def hashesEqual_def timingSafeEqual_def prog_simps)
  then show ?thesis
    by (simp add: clientSeparation_def demo_request_fields truthy_def prog_simps bnd_def [of "verifyClient _ _"])
      (simp add: client_principal_def demo_client_def)
qed

lemma demo_signature:
  "requestSignature demo_request (Some (ClientP (client_principal demo_client))) (demo_genv 60000) demo_gate =
     (Inr (), demo_gate\<lparr>gt_nonces := [\<lparr>nu_nonce = ''n'', nu_clientId = ''c'', nu_expiresAt = 420000\<rparr>]\<rparr>)"
proof -
  have "fresh_timestamp (demo_genv 60000) ''60000''" by (simp add: fresh_timestamp_def demo_genv_def g_now_def)
  moreover have "verifyPayload (gv (demo_genv 60000)) ''pem''
     (signing_subject (demo_genv 60000) demo_request ''c'' ''60000'' ''n'')
     \<lparr>sg_keyId = ''c'', sg_algorithm = ''ed25519'', sg_value = ''pem'' @ canonicalize demo_subject\<rparr>"
    by (simp add: verifyPayload_def demo_subject_def signing_subject_def demo_request_def) (simp add: demo_genv_def)
  moreover have "useNonce ''n'' ''c'' (demo_genv 60000) demo_gate =
     (Inr (), demo_gate\<lparr>gt_nonces := [\<lparr>nu_nonce = ''n'', nu_clientId = ''c'', nu_expiresAt = 420000\<rparr>]\<rparr>)"
    by (simp add: useNonce_def prog_simps try_modify_def demo_gate_def has_row_def) (simp add: demo_genv_def g_now_def)
  moreover have "gt_clients demo_gate = [demo_client]" by (simp add: demo_gate_def)
  ultimately show ?thesis
    by (simp add: requestSignature_def demo_request_fields prog_simps client_principal_def find_row_Cons Let_def)
      (simp add: demo_client_def truthy_def demo_request_fields prog_simps)
qed

lemma demo_admitted:
  "\<exists>s'. admit None demo_request (demo_genv 60000) demo_gate = (Inr (Some (ClientP (client_principal demo_client))), s')"
proof -
  have "redisLink (demo_genv 60000) = RedisUp" by (simp add: demo_genv_def)
  from rateLimit_client(2) [OF refl _ this, of "client_principal demo_client"]
  have "\<exists>s'. rateLimit (Some (ClientP (client_principal demo_client))) (demo_genv 60000)
      (demo_gate\<lparr>gt_nonces := [\<lparr>nu_nonce = ''n'', nu_clientId = ''c'', nu_expiresAt = 420000\<rparr>]\<rparr>) = (Inr (), s')"
    by (simp add: demo_gate_def client_principal_def demo_client_def limit_for_def find_row_Cons redis_count_def counter_def find_row_def)
  then obtain s' where "rateLimit (Some (ClientP (client_principal demo_client))) (demo_genv 60000)
      (demo_gate\<lparr>gt_nonces := [\<lparr>nu_nonce = ''n'', nu_clientId = ''c'', nu_expiresAt = 420000\<rparr>]\<rparr>) = (Inr (), s')" by blast
  then show ?thesis
    by (intro exI [of _ s']) (simp add: admit_def seq_def bnd_def demo_separation demo_signature permissionGuard_def truthy_def ret_def)
qed

lemma demo_must_sign: "gt_clients s = [demo_client] \<Longrightarrow> must_sign (demo_genv 60000) s demo_request"
  by (simp add: must_sign_def demo_request_fields) (simp add: demo_client_def find_row_Cons truthy_def)

lemma demo_hex: "hex_decode ''00'' = [0]"
  by code_simp

lemma demo_password: "verifyPassword (demo_genv t) ''pw'' ''scrypt$1$00$00'' = Inr True"
  by (simp add: verifyPassword_def demo_genv_def demo_hex Let_def del: hex_decode.simps)

lemma demo_zero: "byte_at (replicate 20 0) i = 0" "padStart 6 (CHR ''0'') (nat_str 0) = ''000000''" "trim ''000000'' = ''000000''"
  by (simp add: byte_at_def) code_simp+

lemma demo_totp: "verifyTotp (hmacSha1 (demo_genv t)) ''AA'' ''000000'' 60000 = Inr True"
  by (simp add: verifyTotp_def demo_zero demo_genv_def totpCode_def uint64_be_def Let_def)

lemma demo_login:
  "login ''e'' ''pw'' (Some ''000000'') (demo_genv 60000) demo_gate = (Inr (Session ''b.m'' False), demo_gate)"
proof -
  have "g_now (demo_genv 60000) = 60000" "issueToken (demo_genv 60000) p = ''b.m''" for p
    by (simp_all add: g_now_def demo_genv_def issueToken_def)
  then show ?thesis
    by (simp add: login_def demo_gate_def demo_operator_def prog_simps find_row_Cons password_ok_def truthy_def
        demo_password demo_totp check_def Let_def)
qed

lemma demo_codec: "codec_ok (demo_genv 60000) (demo_genv t) (session_of (demo_genv 60000) demo_operator)"
  by (simp add: codec_ok_def demo_genv_def token_body_def session_of_def demo_operator_def g_now_def Let_def)

lemma demo_trim: "trim ''b.m'' = ''b.m''"
  by code_simp

lemma operator_bearer: "bearer operator_request = Some ''b.m''"
  by (simp add: bearer_def operator_request_def startsWith_def demo_trim)

lemma operator_namespace: "requiredPlatform (hq_path operator_request) = Some ''TRUSTEE_BANK''"
  by (simp add: operator_request_def requiredPlatform_def startsWith_def)

lemma operator_admitted:
  "admit None operator_request (demo_genv 120000) demo_gate =
     (Inr (Some (UserP (session_of (demo_genv 60000) demo_operator))), demo_gate)"
proof -
  have "issueToken (demo_genv 60000) p = ''b.m''" for p by (simp add: issueToken_def demo_genv_def)
  then have "verifyToken (demo_genv 120000) ''b.m'' = Inr (Some (session_of (demo_genv 60000) demo_operator))"
    using token_round_trip [OF demo_codec [of 120000]] by (simp add: demo_genv_def g_now_def)
  moreover have "up_institution (session_of g demo_operator) = JStr ''TRUSTEE_BANK''"
    "\<not> up_mfaPending (session_of g demo_operator)" for g by (simp_all add: session_of_def demo_operator_def)
  ultimately show ?thesis
    by (simp add: admit_def clientSeparation_def operator_namespace operator_bearer
        requestSignature_def rateLimit_def permissionGuard_def truthy_def prog_simps check_def)
qed

text \<open>The signed request starts a reconciliation run.\<close>

definition demo_call :: service_call where
  "demo_call = Platform (Oversight_op (ReconcileOrders ''t'' ''x''))"

definition demo_api :: api where
  "demo_api = \<lparr>ap_gate = demo_gate, ap_st = empty_state, ap_policies = \<lparr>pl_policies = [], pl_audits = []\<rparr>, ap_registry = [],
     ap_queue = \<lparr>wk_events = [], wk_clients = [], wk_deliveries = [], wk_audits = []\<rparr>\<rparr>"

lemma demo_call_effect:
  "\<exists>row au. snd (run (Oversight_op (ReconcileOrders ''t'' ''x'')) e empty_state) = empty_state\<lparr>reconRuns := [row], audits := au\<rparr>"
  by (simp add: snd_void reconcilePaymentOrders_def record_run_def prog_simps empty_state_def order_exceptions_def Let_def)

lemma demo_path: "paykh ''reconciliations/payment-orders'' = hq_path demo_request" "hq_method demo_request = ''POST''"
  by (simp_all add: paykh_def demo_request_def)

lemma demo_performed: "ap_st (snd (perform demo_request demo_call (demo_genv 60000) (demo_api\<lparr>ap_gate := gs\<rparr>))) \<noteq> ap_st demo_api"
proof -
  from demo_call_effect [of "gv (demo_genv 60000)"] obtain row au where
    "snd (run (Oversight_op (ReconcileOrders ''t'' ''x'')) (gv (demo_genv 60000)) empty_state) = empty_state\<lparr>reconRuns := [row], audits := au\<rparr>"
    by blast
  then have "ap_st (snd (perform demo_request demo_call (demo_genv 60000) (demo_api\<lparr>ap_gate := gs\<rparr>))) = empty_state\<lparr>reconRuns := [row], audits := au\<rparr>"
    by (auto simp: demo_api_def demo_call_def handle_def split: prod.split)
  then have "reconRuns (ap_st (snd (perform demo_request demo_call (demo_genv 60000) (demo_api\<lparr>ap_gate := gs\<rparr>)))) = [row]" by simp
  moreover have "reconRuns (ap_st demo_api) = []" by (simp add: demo_api_def empty_state_def)
  ultimately show ?thesis by (metis not_Cons_self2)
qed

lemma demo_api_gate: "ap_gate demo_api = demo_gate"
  by (simp add: demo_api_def)

lemma demo_served:
  "ap_st (snd (serve express_match demo_request demo_call (demo_genv 60000) demo_api)) \<noteq> ap_st demo_api"
proof -
  have "express_match (hq_path demo_request) (hq_path demo_request)" by (simp add: express_match_def)
  then have route: "find_route express_match demo_request demo_call = Some (''POST'', hq_path demo_request, None)"
    by (simp add: find_route_def demo_call_def demo_path)
  from demo_admitted obtain s' where adm:
    "admit None demo_request (demo_genv 60000) demo_gate = (Inr (Some (ClientP (client_principal demo_client))), s')" by blast
  then show ?thesis using demo_performed by (simp add: serve_def route demo_api_gate)
qed

text \<open>The same call in other letters and without any credentials has the same effect.\<close>

definition respelled_request :: request where
  "respelled_request = \<lparr>hq_method = ''POST'', hq_path = ''/API/v1/paykh/reconciliations/payment-orders'', hq_headers = (\<lambda>_. None),
     hq_body = Some demo_body\<rparr>"

lemma respelled_facts: "respelled (hq_path demo_request) (hq_path respelled_request)"
  "express_match (hq_path demo_request) (hq_path respelled_request)"
proof -
  have "startsWith ''/api/v1/paykh'' (hq_path demo_request)" "\<not> startsWith ''/api/v1/paykh'' (hq_path respelled_request)"
    "requiredPlatform (hq_path respelled_request) = None"
    by (simp_all add: demo_request_def respelled_request_def requiredPlatform_def startsWith_def)
  then show "respelled (hq_path demo_request) (hq_path respelled_request)" by (auto simp: respelled_def NAMESPACES_def)
  have "toUpperCase ''/API/v1/paykh/reconciliations/payment-orders'' = toUpperCase ''/api/v1/paykh/reconciliations/payment-orders''" by code_simp
  then show "express_match (hq_path demo_request) (hq_path respelled_request)"
    by (simp add: express_match_def demo_request_def respelled_request_def)
qed

lemma respelled_request_served:
  "ap_st (snd (serve express_match respelled_request demo_call (demo_genv 60000) demo_api)) \<noteq> ap_st demo_api"
proof -
  have "find_route express_match respelled_request demo_call = Some (''POST'', hq_path demo_request, None)"
    using respelled_facts(2) by (simp add: find_route_def demo_call_def demo_path respelled_request_def)
  from respelled_bypass [OF this respelled_facts(1)]
  have "serve express_match respelled_request demo_call (demo_genv 60000) demo_api = perform respelled_request demo_call (demo_genv 60000) demo_api" .
  moreover have "perform respelled_request demo_call (demo_genv 60000) demo_api = perform demo_request demo_call (demo_genv 60000) (demo_api\<lparr>ap_gate := demo_gate\<rparr>)"
    by (simp add: demo_call_def handle_def demo_api_def)
  ultimately show ?thesis using demo_performed by simp
qed

definition demo_role :: Role where
  "demo_role = \<lparr>role_slug = ''auditor'', role_name = ''Auditor'', role_institution = ''TRUSTEE_BANK'', role_description = None,
     role_permissions = [''audit.view''], role_builtin = True\<rparr>"

text \<open>A model of the validation library: number strings are optionally signed decimals, every string is a date.\<close>

definition number_string :: "string \<Rightarrow> bool" where
  "number_string s = (let t = (case s of c # cs \<Rightarrow> if c \<in> {CHR ''+'', CHR ''-''} then cs else s | [] \<Rightarrow> s);
      digit = (\<lambda>c. digit_val 10 c \<noteq> None); rest = dropWhile digit t in
    (t \<noteq> [] \<and> rest = []) \<or> (case rest of c # cs \<Rightarrow> c = CHR ''.'' \<and> cs \<noteq> [] \<and> list_all digit cs | [] \<Rightarrow> False))"

fun demo_lib :: "decorator \<Rightarrow> json \<Rightarrow> bool" where
  "demo_lib IsString v = inhabits TString v"
| "demo_lib IsNotEmpty v = (v \<notin> {JStr [], JNull, JUndef})"
| "demo_lib IsNumberString v = (case v of JStr s \<Rightarrow> number_string s | _ \<Rightarrow> False)"
| "demo_lib IsInt v = inhabits TNumber v"
| "demo_lib IsPositive v = (case v of JNum n \<Rightarrow> 0 < n | _ \<Rightarrow> False)"
| "demo_lib (Length a b) v = (case v of JStr s \<Rightarrow> a \<le> length s \<and> length s \<le> b | _ \<Rightarrow> False)"
| "demo_lib IsOptional v = True"
| "demo_lib IsBoolean v = inhabits TBoolean v"
| "demo_lib IsDateString v = inhabits TString v"
| "demo_lib IsArray v = (case v of JArr _ \<Rightarrow> True | _ \<Rightarrow> False)"
| "demo_lib ArrayNotEmpty v = (case v of JArr vs \<Rightarrow> vs \<noteq> [] | _ \<Rightarrow> False)"
| "demo_lib EachString v = (case v of JArr vs \<Rightarrow> list_all (inhabits TString) vs | _ \<Rightarrow> False)"

lemma demo_lib_documented: "documented demo_lib"
  by (auto simp: documented_def list_all_iff split: json.splits)

lemma demo_accepted: "accepts demo_lib TenantReconDto demo_body"
  by (simp add: accepts_def demo_body_def TenantReconDto_def field_ok_def member_def Let_def)

lemma demo_submitted:
  "ap_st (snd (submit demo_lib (=) demo_request EpReconcileOrders (demo_genv 60000) demo_api)) \<noteq> ap_st demo_api"
proof -
  have "\<not> untyped_path (paykh ''reconciliations/payment-orders'')" by (simp add: untyped_path_def paykh_def admin_def)
  then have route: "find (\<lambda>(m, p, _). hq_method demo_request = m \<and> p = hq_path demo_request) (routes_of EpReconcileOrders)
      = Some (''POST'', hq_path demo_request, None)"
    by (simp add: routes_of_def demo_path)
  have body: "body_or_empty (hq_body demo_request) = demo_body" by (simp add: demo_request_def body_or_empty_def demo_body_def)
  have call: "call_of EpReconcileOrders demo_body = demo_call"
    by (simp add: demo_call_def str_at_def demo_body_def member_def)
  from demo_admitted obtain s' where adm:
    "admit None demo_request (demo_genv 60000) demo_gate = (Inr (Some (ClientP (client_principal demo_client))), s')" by blast
  from demo_accepted have "accepts demo_lib (dto_of EpReconcileOrders) demo_body" by simp
  then have "submit demo_lib (=) demo_request EpReconcileOrders (demo_genv 60000) demo_api
      = perform demo_request demo_call (demo_genv 60000) (demo_api\<lparr>ap_gate := s'\<rparr>)"
    by (simp only: submit_def route body option.case prod.case demo_api_gate adm sum.case Let_def call if_True)
  then show ?thesis using demo_performed by simp
qed

section \<open>A queue and a program without a reserve\<close>

definition demo_event :: "string \<Rightarrow> int \<Rightarrow> QueuedEvent" where
  "demo_event i n = \<lparr>ob_eventType = ''t'', ob_targetPlatform = ''PAYKH'', ob_payload = JNull, ob_artifact = None,
     ob_signatureKeyId = ''k'', ob_signatureValue = ''s'', ob_deliveredAt = None, ob_attempts = 0, ob_deadLettered = False,
     qe_id = i, qe_sequence = n, qe_createdAt = 0\<rparr>"

definition demo_queue :: wst where
  "demo_queue = \<lparr>wk_events = [demo_event ''1'' 1, demo_event ''2'' 2], wk_clients = [demo_client], wk_deliveries = [], wk_audits = []\<rparr>"

definition demo_wenv :: wenv where
  "demo_wenv = \<lparr>wv = demo_env [], webhookKey = None, httpPost = (\<lambda>_ _ _. Inr (True, 200, [])), MAX_ATTEMPTS = 2, BATCH_SIZE = 25\<rparr>"

lemma demo_queue_facts:
  "uniq qe_id (wk_events demo_queue)" "\<forall>e \<in> set (wk_events demo_queue). event_ok 2 e"
  "length (filter is_pending (wk_events demo_queue)) = 2" "MAX_ATTEMPTS demo_wenv = 2" "0 < BATCH_SIZE demo_wenv"
  by (simp_all add: demo_queue_def demo_event_def uniq_def event_ok_def is_pending_def demo_wenv_def)

text \<open>100 coins are in circulation and nothing is in the bank.\<close>

definition uncovered_state :: st where
  "uncovered_state = demo_base\<lparr>liabilities := [demo_liability ''l1'' 1 100]\<rparr>"

definition demo_senv :: senv where
  "demo_senv = \<lparr>sv_now = 0, sv_env = (\<lambda>_. demo_env ''i''), sv_redis = RedisUp, reserveCycleMs = 1000, deadLetterMs = 1000,
     feedStaleSeconds = 3600\<rparr>"

definition demo_sched :: sched where
  "demo_sched = \<lparr>sc_st = uncovered_state, sc_queue = [], sc_locks = [], sc_alerted = [], sc_notices = [], sc_ticking = False\<rparr>"

lemma uncovered_position:
  "\<exists>pos. position (demo_env i) uncovered_state ''P'' = Inr pos \<and> minor (rp_surplus pos) = -100"
proof -
  have "find_program uncovered_state ''P'' = Some demo_program"
    by (simp add: uncovered_state_def demo_base_def with_reference_def find_program_def find_row_Cons demo_program_def)
  then show ?thesis
    by (simp add: position_value demo_program_def position_of_def pos_eligible_def pos_obligation_def pos_buffer_def pos_required_def
        circulating_def latestLiability_def adj_sum_def uncovered_state_def demo_base_def with_reference_def empty_state_def
        demo_liability_def bal_def acc_net_def sdiv_nonneg Let_def)
qed

section \<open>A key rotation\<close>

definition demo_entry :: "string \<Rightarrow> KeyEntry" where
  "demo_entry t = \<lparr>ke_keyId = t, ke_privateKeyPem = ''p'', ke_publicKeyPem = ''q''\<rparr>"

definition demo_kenv :: kenv where
  "demo_kenv = \<lparr>parseKeys = (\<lambda>t. Some (\<lambda>_. Some (demo_entry t))), base64Decode = id, generateKeyPair = (\<lambda>_. (''p'', ''q'')),
     sha256 = id, lowerCase = id\<rparr>"

definition vars_of :: "(string \<times> string) list \<Rightarrow> string \<Rightarrow> string option" where
  "vars_of vs = map_of vs"

definition echo_env :: env where
  "echo_env = (demo_env [])\<lparr>nodeSign := \<lambda>_ m. m, nodeVerify := \<lambda>_ m sig. sig = m\<rparr>"

lemma echo_pair: "key_pair echo_env k"
  by (simp add: key_pair_def echo_env_def)

lemma demo_secret: "load_secret demo_kenv (CHR ''{'' # t) = Inr (\<lambda>p. Some (signing_key p (demo_entry (CHR ''{'' # t))))"
  by (simp add: load_secret_def demo_kenv_def key_json_def is_white_def list_all_iff)

lemma demo_ring_old:
  "\<exists>r. load_keyring demo_kenv (vars_of [(''TRUSTEE_SIGNING_KEYS'', ''{1'')]) = Inr r
     \<and> kr_keys r WEBHOOK = Some (signing_key WEBHOOK (demo_entry ''{1''))"
  by (simp add: load_keyring_def vars_of_def loadPrevious_def truthy_def demo_secret)

lemma demo_ring_new:
  "\<exists>r. load_keyring demo_kenv (vars_of [(''TRUSTEE_SIGNING_KEYS'', ''{2''), (''TRUSTEE_SIGNING_KEYS_PREVIOUS'', ''{1'')]) = Inr r"
  by (simp add: load_keyring_def vars_of_def loadPrevious_def truthy_def demo_secret)
    (simp add: demo_kenv_def)

lemma demo_rotated: "rotated (vars_of [(''TRUSTEE_SIGNING_KEYS'', ''{1'')])
    (vars_of [(''TRUSTEE_SIGNING_KEYS'', ''{2''), (''TRUSTEE_SIGNING_KEYS_PREVIOUS'', ''{1'')])"
  by (simp add: rotated_def vars_of_def truthy_def)

end
