(* ===== verification/Console.thy ===== *)
theory Console
  imports Api Worker
begin

text \<open>
  The read side of the administration (\<open>modules/admin/admin.service.ts\<close>, \<open>rate-limit.service.ts\<close>
  \<open>usage\<close>): listings of users, roles, policies, flags, controls, clients, outbox events and
  deliveries, the usage dashboard and the health of the outbound integrations. The collation of
  the database, Redis and \<open>fetch\<close> are parameters. The lemmas say that the permissions the console
  shows for a user are the ones the guard enforces, and that the console's event counters and
  event lists partition the outbox in every state the worker and the replays reach.
\<close>

section \<open>Users, roles, policies, flags, controls and clients\<close>

text \<open>\<open>orderBy\<close> of a text column: \<open>le\<close> is the database's collation; equal keys keep their order.\<close>

fun insert_by :: "('k \<Rightarrow> 'k \<Rightarrow> bool) \<Rightarrow> ('a \<Rightarrow> 'k) \<Rightarrow> 'a \<Rightarrow> 'a list \<Rightarrow> 'a list" where
  "insert_by le key x [] = [x]"
| "insert_by le key x (y # ys) = (if le (key x) (key y) then x # y # ys else y # insert_by le key x ys)"

definition order_by :: "('k \<Rightarrow> 'k \<Rightarrow> bool) \<Rightarrow> ('a \<Rightarrow> 'k) \<Rightarrow> 'a list \<Rightarrow> 'a list" where
  "order_by le key xs = foldr (insert_by le key) xs []"

definition listUsers :: "gate \<Rightarrow> User list" where
  "listUsers s = map user_row (gt_users s)"

definition listRoles :: "(string \<Rightarrow> string \<Rightarrow> bool) \<Rightarrow> gate \<Rightarrow> Role list" where
  "listRoles le s = order_by le role_slug (gt_roles s)"

record PolicyView =
  pv_id :: string
  pv_name :: string
  pv_transactionType :: string
  pv_minAmountMinor :: "string option"
  pv_maxAmountMinor :: "string option"
  pv_currency :: "string option"
  pv_riskLevel :: "string option"
  pv_requiredApprovals :: int
  pv_requiredRoles :: "string list"
  pv_effect :: string
  pv_priority :: int
  pv_enabled :: bool

definition serializePolicy :: "PolicyRow \<Rightarrow> PolicyView" where
  "serializePolicy p = \<lparr>pv_id = pr_id p, pv_name = pr_name p, pv_transactionType = pr_transactionType p,
     pv_minAmountMinor = map_option bigint_toString (pr_minAmountMinor p),
     pv_maxAmountMinor = map_option bigint_toString (pr_maxAmountMinor p),
     pv_currency = pr_currency p, pv_riskLevel = pr_riskLevel p, pv_requiredApprovals = pr_requiredApprovals p,
     pv_requiredRoles = pr_requiredRoles p, pv_effect = pr_effect p, pv_priority = pr_priority p, pv_enabled = pr_enabled p\<rparr>"

definition listPolicies :: "(string \<Rightarrow> string \<Rightarrow> bool) \<Rightarrow> policy_st \<Rightarrow> PolicyView list" where
  "listPolicies le s = map serializePolicy (order_by (\<lambda>(t, p) (t', p'). le t t' \<and> (\<not> le t' t \<or> p' \<le> p))
     (\<lambda>p. (pr_transactionType p, pr_priority p)) (pl_policies s))"

definition listFlags :: "(string \<Rightarrow> string \<Rightarrow> bool) \<Rightarrow> st \<Rightarrow> FeatureFlag list" where
  "listFlags le s = order_by le ff_key (flags s)"

definition listControls :: "(string \<Rightarrow> string \<Rightarrow> bool) \<Rightarrow> st \<Rightarrow> PlatformControl list" where
  "listControls le s = order_by le pc_key (controls s)"

record ClientView =
  cv_platform :: string
  cv_oauthClientId :: string
  cv_webhookUrl :: "string option"
  cv_requireSignature :: bool
  cv_rateLimitPerMin :: int
  cv_disabled :: bool
  cv_hasPublicKey :: bool

definition listClients :: "gate \<Rightarrow> ClientView list" where
  "listClients s = map (\<lambda>c. \<lparr>cv_platform = cl_platform c, cv_oauthClientId = cl_oauthClientId c, cv_webhookUrl = cl_webhookUrl c,
     cv_requireSignature = cl_requireSignature c, cv_rateLimitPerMin = cl_rateLimitPerMin c, cv_disabled = cl_disabled c,
     cv_hasPublicKey = truthy (cl_publicKeyPem c)\<rparr>) (gt_clients s)"

section \<open>Usage\<close>

text \<open>\<open>redis\<close> is the value stored under a key, when Redis is connected; \<open>None\<close> as a count is \<open>NaN\<close>.\<close>

definition usage :: "genv \<Rightarrow> (string \<Rightarrow> string option) option \<Rightarrow> string \<Rightarrow> nat \<Rightarrow> (string \<times> js_number option) list" where
  "usage g redis clientId hours = (case redis of
       None \<Rightarrow> []
     | Some value_of \<Rightarrow> (let nowHour = g_now g div 3600000 in
         map (\<lambda>i. let h = nowHour - int i in
           (take 13 (toISOString (h * 3600000)) @ '':00Z'',
            case value_of (usageKey clientId h) of None \<Rightarrow> Some 0 | Some v \<Rightarrow> jsNumber g v))
         (rev [0..<hours])))"

record UsageRow =
  us_platform :: string
  us_clientId :: string
  us_rateLimitPerMin :: int
  us_hourly :: "(string \<times> js_number option) list"
  us_total :: "js_number option"

definition usage_rows :: "genv \<Rightarrow> (string \<Rightarrow> string option) option \<Rightarrow> nat \<Rightarrow> gate \<Rightarrow> UsageRow list" where
  "usage_rows g redis hours s = map (\<lambda>c. let hourly = usage g redis (cl_oauthClientId c) hours in
     \<lparr>us_platform = cl_platform c, us_clientId = cl_oauthClientId c, us_rateLimitPerMin = cl_rateLimitPerMin c,
      us_hourly = hourly, us_total = foldl (\<lambda>t (_, n). case (t, n) of (Some a, Some b) \<Rightarrow> Some (a + b) | _ \<Rightarrow> None) (Some 0) hourly\<rparr>)
     (gt_clients s)"

text \<open>\<open>MGET\<close> of the counters that the rate limiter keeps; it fails without keys, and when Redis does.\<close>

definition redis_values :: "genv \<Rightarrow> gate \<Rightarrow> (string \<Rightarrow> string option) option" where
  "redis_values g s = (if redisLink g = NoRedis then None
     else Some (\<lambda>key. case find_row fst key (gt_redis s) of None \<Rightarrow> None
       | Some (_, count, expiry) \<Rightarrow> if expiry \<le> g_now g then None else Some (bigint_toString count)))"

definition usage_read :: "genv \<Rightarrow> nat \<Rightarrow> gate \<Rightarrow> UsageRow list res" where
  "usage_read g hours s = (if gt_clients s \<noteq> [] \<and> (redisLink g = RedisDown \<or> redisLink g = RedisUp \<and> hours = 0)
     then Inl (PlainError ''Redis command failed'')
     else Inr (usage_rows g (redis_values g s) hours s))"

section \<open>The outbox\<close>

definition status_filter :: "string option \<Rightarrow> QueuedEvent \<Rightarrow> bool" where
  "status_filter status e = (if status = Some ''dead'' then ob_deadLettered e
     else if status = Some ''delivered'' then ob_deliveredAt e \<noteq> None
     else if status = Some ''pending'' then ob_deliveredAt e = None \<and> \<not> ob_deadLettered e
     else True)"

record WebhookView =
  wv_id :: string
  wv_eventType :: string
  wv_targetPlatform :: string
  wv_attempts :: int
  wv_status :: string
  wv_createdAt :: string

definition webhook_view :: "QueuedEvent \<Rightarrow> WebhookView" where
  "webhook_view e = \<lparr>wv_id = qe_id e, wv_eventType = ob_eventType e, wv_targetPlatform = ob_targetPlatform e,
     wv_attempts = ob_attempts e,
     wv_status = (if ob_deliveredAt e \<noteq> None then ''DELIVERED'' else if ob_deadLettered e then ''DEAD_LETTERED'' else ''PENDING''),
     wv_createdAt = toISOString (qe_createdAt e)\<rparr>"

definition listWebhooks :: "string option \<Rightarrow> nat \<Rightarrow> wst \<Rightarrow> WebhookView list" where
  "listWebhooks status limit s = map webhook_view
     (take (min limit 500) (sort_key (\<lambda>e. - qe_sequence e) (filter (status_filter status) (wk_events s))))"

record DeliveryView =
  dv_attempt :: int
  dv_statusCode :: "int option"
  dv_ok :: bool
  dv_error :: "string option"
  dv_at :: string

definition webhookDeliveries :: "string \<Rightarrow> wst \<Rightarrow> DeliveryView list" where
  "webhookDeliveries eventId s = map (\<lambda>d. \<lparr>dv_attempt = wd_attempt d, dv_statusCode = wd_statusCode d, dv_ok = wd_ok d,
     dv_error = wd_error d, dv_at = toISOString (wd_createdAt d)\<rparr>)
     (sort_key wd_createdAt (filter (\<lambda>d. wd_eventId d = eventId) (wk_deliveries s)))"

section \<open>Integration health\<close>

record Probe =
  pb_platform :: string
  pb_webhookUrl :: "string option"
  pb_httpStatus :: "int option"
  pb_state :: string
  pb_detail :: string

definition probe_state :: "int \<Rightarrow> string" where
  "probe_state status = (if status = 404 then ''MISSING''
     else if status = 503 then ''DEPLOYED_UNCONFIGURED''
     else if status = 401 \<or> status = 400 then ''CONFIGURED''
     else if 200 \<le> status \<and> status < 300 then ''ACCEPTING''
     else ''UNREACHABLE'')"

definition probe_detail :: "int \<Rightarrow> string" where
  "probe_detail status = (let state = probe_state status in
     if state = ''MISSING'' then ''endpoint not implemented''
     else if state = ''DEPLOYED_UNCONFIGURED'' then ''endpoint deployed, awaiting config (WEBHOOK key)''
     else if state = ''CONFIGURED'' then ''endpoint live, rejecting our unsigned probe (verifying)''
     else if state = ''ACCEPTING'' then ''endpoint accepting''
     else ''unexpected HTTP '' @ bigint_toString status)"

text \<open>\<open>fetch\<close> answers with a status or throws an error with a name and a message.\<close>

definition probe :: "(string \<Rightarrow> string \<times> string + int) \<Rightarrow> ClientApplication \<Rightarrow> Probe" where
  "probe fetch c = (if \<not> truthy (cl_webhookUrl c)
     then \<lparr>pb_platform = cl_platform c, pb_webhookUrl = None, pb_httpStatus = None, pb_state = ''NO_URL'',
           pb_detail = ''no webhook URL registered''\<rparr>
     else (case fetch (the (cl_webhookUrl c)) of
         Inr status \<Rightarrow> \<lparr>pb_platform = cl_platform c, pb_webhookUrl = cl_webhookUrl c, pb_httpStatus = Some status,
           pb_state = probe_state status, pb_detail = probe_detail status\<rparr>
       | Inl (name, message) \<Rightarrow> \<lparr>pb_platform = cl_platform c, pb_webhookUrl = cl_webhookUrl c, pb_httpStatus = None,
           pb_state = ''UNREACHABLE'', pb_detail = (if name = ''AbortError'' then ''timeout'' else message)\<rparr>))"

record Health =
  hl_checkedAt :: string
  hl_clients :: "Probe list"
  hl_deadLettered :: nat
  hl_pending :: nat
  hl_delivered :: nat

definition integrationHealth :: "(string \<Rightarrow> string \<times> string + int) \<Rightarrow> env \<Rightarrow> wst \<Rightarrow> Health" where
  "integrationHealth fetch e s = \<lparr>hl_checkedAt = nowIso e,
     hl_clients = map (probe fetch) (filter (\<lambda>c. cl_platform c \<in> {''PAYCHAIN'', ''PAYKH''}) (wk_clients s)),
     hl_deadLettered = length (filter ob_deadLettered (wk_events s)),
     hl_pending = length (filter is_pending (wk_events s)),
     hl_delivered = length (filter (\<lambda>x. ob_deliveredAt x \<noteq> None) (wk_events s))\<rparr>"

section \<open>The console shows the permissions the guard enforces\<close>

lemma set_insert_by [simp]: "set (insert_by le key x ys) = insert x (set ys)"
  by (induction ys) auto

lemma set_order_by [simp]: "set (order_by le key xs) = set xs"
  by (induction xs) (simp_all add: order_by_def)

lemma set_insert_member [simp]: "set (insert_member m ms) = insert m (set ms)"
  by (induction ms) auto

lemma set_sort_strings [simp]: "set (sort_strings xs) = set xs"
proof -
  have "set (sort_members ms) = set ms" for ms :: "(string \<times> unit) list"
    by (induction ms) (simp_all add: sort_members_def)
  then show ?thesis by (simp add: sort_strings_def image_image)
qed

lemma effective_permissions:
  assumes "find_row au_id i (gt_users s) = Some u"
  shows "\<exists>ps. effectivePermissions i g s = (Inr (au_roles u, ps), s) \<and> (\<forall>r. r \<in> set ps \<longleftrightarrow> holds_permission (gt_roles s) (au_roles u) r)"
  using assms by (auto simp: effectivePermissions_def prog_simps holds_permission_def list_ex_iff)

lemma guard_by_roles:
  assumes "up_roles who = strings roles" and "r \<noteq> []"
  shows "is_ok (fst (permissionGuard (Some r) (Some (UserP who)) g s)) \<longleftrightarrow> holds_permission (gt_roles s) roles r"
proof -
  have "str_list (map JStr roles) = Some roles" by (induction roles) simp_all
  with assms show ?thesis by (simp add: permissionGuard_def role_slugs_def strings_def truthy_def require_def prog_simps)
qed

section \<open>Counters and lists partition the outbox\<close>

datatype worker_step =
    Pass wenv
  | Replay wenv string string
  | ReplayDead wenv string

fun worker_act :: "worker_step \<Rightarrow> wst \<Rightarrow> wst" where
  "worker_act (Pass g) s = snd (deliverPending g s)"
| "worker_act (Replay g i actor) s = snd (replayWebhook i actor g s)"
| "worker_act (ReplayDead g actor) s = snd (replayDeadLettered actor g s)"

fun worker_limit :: "worker_step \<Rightarrow> int" where
  "worker_limit (Pass g) = MAX_ATTEMPTS g"
| "worker_limit (Replay g _ _) = MAX_ATTEMPTS g"
| "worker_limit (ReplayDead g _) = MAX_ATTEMPTS g"

definition outbox_ok :: "int \<Rightarrow> wst \<Rightarrow> bool" where
  "outbox_ok m s = (uniq qe_id (wk_events s) \<and> (\<forall>e \<in> set (wk_events s). event_ok m e))"

lemma uniq_requeue: "uniq qe_id (map (\<lambda>e. if P e then requeue e else e) es) = uniq qe_id es"
  by (simp add: uniq_def comp_def requeue_def if_distrib cong: if_cong)

lemma replay_keeps_ids:
  "keeps (\<lambda>s. uniq qe_id (wk_events s)) (replayWebhook i actor)"
  "keeps (\<lambda>s. uniq qe_id (wk_events s)) (replayDeadLettered actor)"
  unfolding replayWebhook_def replayDeadLettered_def update_event_def w_audit_def
  by (intro keeps_intros keeps_try_modify keeps_modify; auto simp: uniq_requeue uniq_set_row requeue_def split: if_splits)+

lemma worker_act_ok:
  assumes "outbox_ok m s" and "worker_limit step = m" and "0 < m"
  shows "outbox_ok m (worker_act step s)"
proof (cases step)
  case (Pass g)
  with pass_keeps [of s g m] assms show ?thesis by (simp add: outbox_ok_def)
next
  case (Replay g i actor)
  from assms(1) keepsD [OF replay_keeps_ids(1)] keepsD [OF replay_keeps_ok(1) [OF assms(3)]]
  have "uniq qe_id (wk_events (snd (replayWebhook i actor g s)))" "\<forall>e \<in> set (wk_events (snd (replayWebhook i actor g s))). event_ok m e"
    by (auto simp only: outbox_ok_def)
  with Replay show ?thesis by (simp add: outbox_ok_def)
next
  case (ReplayDead g actor)
  from assms(1) keepsD [OF replay_keeps_ids(2)] keepsD [OF replay_keeps_ok(2) [OF assms(3)]]
  have "uniq qe_id (wk_events (snd (replayDeadLettered actor g s)))" "\<forall>e \<in> set (wk_events (snd (replayDeadLettered actor g s))). event_ok m e"
    by (auto simp only: outbox_ok_def)
  with ReplayDead show ?thesis by (simp add: outbox_ok_def)
qed

lemma worker_run_ok:
  "outbox_ok m s \<Longrightarrow> \<forall>step \<in> set steps. worker_limit step = m \<Longrightarrow> 0 < m \<Longrightarrow> outbox_ok m (fold worker_act steps s)"
  by (induction steps arbitrary: s) (simp_all add: worker_act_ok)

lemma health_partition:
  assumes "outbox_ok m s"
  shows "let h = integrationHealth fetch e s in hl_deadLettered h + hl_pending h + hl_delivered h = length (wk_events s)"
proof -
  have "length (filter ob_deadLettered es) + length (filter is_pending es) + length (filter (\<lambda>x. ob_deliveredAt x \<noteq> None) es) = length es"
    if "\<forall>e \<in> set es. event_ok m e" for es
    using that by (induction es) (auto simp: event_ok_def is_pending_def)
  with assms show ?thesis by (simp add: integrationHealth_def outbox_ok_def Let_def)
qed

text \<open>A filtered list shows exactly the events with that status.\<close>

lemma listed_status:
  assumes "outbox_ok m s" and "v \<in> set (listWebhooks status limit s)"
  shows "status = Some ''dead'' \<Longrightarrow> wv_status v = ''DEAD_LETTERED''"
    and "status = Some ''delivered'' \<Longrightarrow> wv_status v = ''DELIVERED''"
    and "status = Some ''pending'' \<Longrightarrow> wv_status v = ''PENDING''"
proof -
  from assms(2) obtain e where "e \<in> set (wk_events s)" "status_filter status e" "v = webhook_view e"
    unfolding listWebhooks_def by (auto dest!: in_set_takeD)
  with assms(1) show "status = Some ''dead'' \<Longrightarrow> wv_status v = ''DEAD_LETTERED''"
    "status = Some ''delivered'' \<Longrightarrow> wv_status v = ''DELIVERED''" "status = Some ''pending'' \<Longrightarrow> wv_status v = ''PENDING''"
    by (auto simp: outbox_ok_def event_ok_def status_filter_def webhook_view_def)
qed

end
