(* ===== verification/Queries.thy ===== *)
theory Queries
  imports Console Operations
begin

text \<open>
  The routes of the guarded namespaces that only read (\<open>@Get\<close> methods of \<open>modules/*/*.controller.ts\<close>, and the policy
  evaluation): which controller offers which read model, and a read served end to end through the
  guards. No such route declares a permission. A program row has the columns of the model. The open
  routes (health, published keys, documentation, portal pages) are not among them. The lemmas show that a
  served read leaves every table as it was, that an answer is given only to a session or client of
  the platform the route belongs to, unless the path is respelled, and that no permission is needed for it.
\<close>

section \<open>The reads of each controller\<close>

datatype reserve_query =
    Current string | MintCapacityOf string | History string | RatioOf string | AccountsOf "string option"
  | AccountById string | AccountBalanceOf string | LatestSnapshot string | SnapshotById string

definition ser_money :: "Money \<Rightarrow> json" where
  "ser_money m = JObj [(''minor'', JStr (bigint_toString (minor m))), (''currency'', JStr (currency m))]"

definition position_json :: "ReservePosition \<Rightarrow> json" where
  "position_json pos = JObj [(''programId'', JStr (rp_programId pos)), (''currency'', JStr (rp_currency pos)),
     (''eligibleReserve'', ser_money (rp_eligibleReserve pos)), (''reserveObligation'', ser_money (rp_reserveObligation pos)),
     (''requiredReserve'', ser_money (rp_requiredReserve pos)), (''mintCapacity'', ser_money (rp_mintCapacity pos)),
     (''surplus'', ser_money (rp_surplus pos)), (''reserveRatioBps'', jint (rp_reserveRatioBps pos)),
     (''liabilityAgeSeconds'', jint (rp_liabilityAgeSeconds pos))]"

definition read_position :: "string \<Rightarrow> (ReservePosition \<Rightarrow> json) \<Rightarrow> json op" where
  "read_position programId view = bnd (reads (\<lambda>e s. position e s programId)) (\<lambda>pos. ret (view pos))"

fun reserve_query_path :: "reserve_query \<Rightarrow> string" where
  "reserve_query_path (Current p) = paychain (''reserves/'' @ p @ ''/current'')"
| "reserve_query_path (MintCapacityOf p) = paychain (''reserves/'' @ p @ ''/mint-capacity'')"
| "reserve_query_path (History p) = paychain (''reserves/'' @ p @ ''/history'')"
| "reserve_query_path (RatioOf p) = paychain (''reserves/'' @ p @ ''/ratio'')"
| "reserve_query_path (AccountsOf _) = paychain ''reserve-accounts''"
| "reserve_query_path (AccountById i) = paychain (''reserve-accounts/'' @ i)"
| "reserve_query_path (AccountBalanceOf i) = paychain (''reserve-accounts/'' @ i @ ''/balance'')"
| "reserve_query_path (LatestSnapshot p) = paychain (''proof-of-reserve/'' @ p @ ''/latest'')"
| "reserve_query_path (SnapshotById i) = paychain (''proof-of-reserve/snapshots/'' @ i)"

fun reserve_read :: "reserve_query \<Rightarrow> json op" where
  "reserve_read (Current p) = read_position p position_json"
| "reserve_read (MintCapacityOf p) = read_position p (\<lambda>pos. JObj [(''mintCapacity'', ser_money (rp_mintCapacity pos))])"
| "reserve_read (History p) = snapshotHistory p 50"
| "reserve_read (RatioOf p) = ratio p"
| "reserve_read (AccountsOf p) = listAccounts p"
| "reserve_read (AccountById i) = getAccount i"
| "reserve_read (AccountBalanceOf i) = reserveAccountBalance i"
| "reserve_read (LatestSnapshot p) = latestSnapshot p"
| "reserve_read (SnapshotById i) = getSnapshot i"

datatype bank_query = AdjustmentsOf string | ProgramAccounts string | BankConnections | DepositById string

fun bank_query_path :: "bank_query \<Rightarrow> string" where
  "bank_query_path (AdjustmentsOf p) = bank (''reserves/'' @ p @ ''/adjustments'')"
| "bank_query_path (ProgramAccounts p) = bank (''reserves/'' @ p @ ''/accounts'')"
| "bank_query_path BankConnections = bank ''bank-connections''"
| "bank_query_path (DepositById i) = bank (''deposits/'' @ i)"

fun bank_read :: "bank_query \<Rightarrow> json op" where
  "bank_read (AdjustmentsOf p) = listAdjustments p"
| "bank_read (ProgramAccounts p) = listProgramAccounts p"
| "bank_read BankConnections = listBanks"
| "bank_read (DepositById i) = deposit_get i"

datatype paychain_query = FundingById string | FundingStatus string | MintById string | RedemptionById string | PayoutOf string

fun paychain_query_path :: "paychain_query \<Rightarrow> string" where
  "paychain_query_path (FundingById i) = paychain (''funding-instructions/'' @ i)"
| "paychain_query_path (FundingStatus i) = paychain (''funding-instructions/'' @ i @ ''/status'')"
| "paychain_query_path (MintById i) = paychain (''mint-authorizations/'' @ i)"
| "paychain_query_path (RedemptionById i) = paychain (''redemptions/'' @ i)"
| "paychain_query_path (PayoutOf i) = paychain (''redemptions/'' @ i @ ''/payout'')"

fun paychain_read :: "paychain_query \<Rightarrow> json op" where
  "paychain_read (FundingById i) = funding_get i"
| "paychain_read (FundingStatus i) = funding_status i"
| "paychain_read (MintById i) = mint_get i"
| "paychain_read (RedemptionById i) = redemption_get i"
| "paychain_read (PayoutOf i) = payoutStatus i"

datatype paykh_query =
    MerchantById string | MerchantsOf string | ProfilesOf string | ProfileById string | OrderById string | OrderStatus string
  | FundById string | FundBalance string | SettlementById string | LoyaltyById string

fun paykh_query_path :: "paykh_query \<Rightarrow> string" where
  "paykh_query_path (MerchantById i) = paykh (''merchants/'' @ i)"
| "paykh_query_path (MerchantsOf t) = paykh (''tenants/'' @ t @ ''/merchants'')"
| "paykh_query_path (ProfilesOf t) = paykh (''tenants/'' @ t @ ''/payment-profiles'')"
| "paykh_query_path (ProfileById i) = paykh (''payment-profiles/'' @ i)"
| "paykh_query_path (OrderById i) = paykh (''payment-orders/'' @ i)"
| "paykh_query_path (OrderStatus i) = paykh (''payment-orders/'' @ i @ ''/status'')"
| "paykh_query_path (FundById i) = paykh (''program-funds/'' @ i)"
| "paykh_query_path (FundBalance i) = paykh (''program-funds/'' @ i @ ''/balance'')"
| "paykh_query_path (SettlementById i) = paykh (''settlements/'' @ i)"
| "paykh_query_path (LoyaltyById i) = paykh (''loyalty/'' @ i)"

fun paykh_read :: "paykh_query \<Rightarrow> json op" where
  "paykh_read (MerchantById i) = merchant_get i"
| "paykh_read (MerchantsOf t) = merchant_listByTenant t"
| "paykh_read (ProfilesOf t) = profile_listByTenant t"
| "paykh_read (ProfileById i) = profile_get i"
| "paykh_read (OrderById i) = order_get i"
| "paykh_read (OrderStatus i) = order_status i"
| "paykh_read (FundById i) = fund_get i"
| "paykh_read (FundBalance i) = fund_balance i"
| "paykh_read (SettlementById i) = settlement_get i"
| "paykh_read (LoyaltyById i) = loyalty_get i"

datatype loyalty_query = Liabilities | LiabilityById string

fun loyalty_query_path :: "loyalty_query \<Rightarrow> string" where
  "loyalty_query_path Liabilities = bank ''loyalty-liabilities''"
| "loyalty_query_path (LiabilityById i) = bank (''loyalty-liabilities/'' @ i)"

fun loyalty_read :: "loyalty_query \<Rightarrow> json op" where
  "loyalty_read Liabilities = listLiabilities"
| "loyalty_read (LiabilityById i) = loyalty_get i"

text \<open>Attestations and exceptions are offered to both clients, under their own namespaces.\<close>

datatype client = PaychainClient | PaykhClient

fun client_ns :: "client \<Rightarrow> string \<Rightarrow> string" where
  "client_ns PaychainClient p = paychain p"
| "client_ns PaykhClient p = paykh p"

datatype attestation_query = AttestationsOf client "string option" | AttestationById client string

fun attestation_query_path :: "attestation_query \<Rightarrow> string" where
  "attestation_query_path (AttestationsOf c _) = client_ns c ''attestations''"
| "attestation_query_path (AttestationById c i) = client_ns c (''attestations/'' @ i)"

fun attestation_read :: "attestation_query \<Rightarrow> json op" where
  "attestation_read (AttestationsOf _ p) = att_list p"
| "attestation_read (AttestationById _ i) = att_get i"

datatype recon_query = RunById string | Exceptions client "string option"

fun recon_query_path :: "recon_query \<Rightarrow> string" where
  "recon_query_path (RunById i) = paychain (''reconciliations/'' @ i)"
| "recon_query_path (Exceptions c _) = client_ns c ''reconciliation-exceptions''"

datatype program_query = Programs | ProgramById string | ProgramStatusOf string

definition trustee :: "string \<Rightarrow> string" where
  "trustee p = ''/api/v1/trustee/'' @ p"

fun program_query_path :: "program_query \<Rightarrow> string" where
  "program_query_path Programs = trustee ''programs''"
| "program_query_path (ProgramById i) = trustee (''programs/'' @ i)"
| "program_query_path (ProgramStatusOf i) = trustee (''programs/'' @ i @ ''/status'')"

datatype ops_query =
    OpsPrograms | OpsQueuesQ | TrialBalanceOf string | EntriesOf string "string option"
  | AuditOf "string option" "string option" "string option" "string option"
  | ReserveReportOf string | LiabilityReportOf string | ReconciliationsQ | OpsAttestations

fun ops_query_path :: "ops_query \<Rightarrow> string" where
  "ops_query_path OpsPrograms = admin ''ops/programs''"
| "ops_query_path OpsQueuesQ = admin ''ops/queues''"
| "ops_query_path (TrialBalanceOf p) = admin (''ledger/'' @ p @ ''/trial-balance'')"
| "ops_query_path (EntriesOf p _) = admin (''ledger/'' @ p @ ''/entries'')"
| "ops_query_path (AuditOf _ _ _ _) = admin ''audit''"
| "ops_query_path (ReserveReportOf p) = admin (''reports/reserve/'' @ p)"
| "ops_query_path (LiabilityReportOf p) = admin (''reports/liability/'' @ p)"
| "ops_query_path ReconciliationsQ = admin ''reconciliations''"
| "ops_query_path OpsAttestations = admin ''attestations''"

datatype admin_query =
    PermissionCatalog | ReservePositionOf string | UsersQ | EffectiveOf string | RolesQ | PoliciesQ | FlagsQ | ControlsQ | ClientsQ
  | EvaluateQ AbacTransaction | UsageQ nat | HealthQ | WebhooksQ "string option" | DeliveriesQ string

fun admin_query_path :: "admin_query \<Rightarrow> string" where
  "admin_query_path PermissionCatalog = admin ''permissions''"
| "admin_query_path (ReservePositionOf p) = admin (''reserve/'' @ p)"
| "admin_query_path UsersQ = admin ''users''"
| "admin_query_path (EffectiveOf i) = admin (''users/'' @ i @ ''/effective-permissions'')"
| "admin_query_path RolesQ = admin ''roles''"
| "admin_query_path PoliciesQ = admin ''policies''"
| "admin_query_path FlagsQ = admin ''feature-flags''"
| "admin_query_path ControlsQ = admin ''controls''"
| "admin_query_path ClientsQ = admin ''clients''"
| "admin_query_path (EvaluateQ _) = admin ''policies/evaluate''"
| "admin_query_path (UsageQ _) = admin ''usage''"
| "admin_query_path HealthQ = admin ''integration-health''"
| "admin_query_path (WebhooksQ _) = admin ''webhooks''"
| "admin_query_path (DeliveriesQ i) = admin (''webhooks/'' @ i @ ''/deliveries'')"

section \<open>Answers\<close>

datatype reply =
    Body json
  | Run ReconciliationRun
  | ExceptionRows "ReconciliationException list"
  | ProgramRows "Program list"
  | ProgramRow "Program option"
  | ProgramState "(string \<times> ProgramStatus) option"
  | OpsProgramRows "(string \<times> string \<times> string \<times> ProgramStatus) list"
  | Queues OpsQueues
  | Trial TrialBalance
  | EntryRows "LedgerEntry list"
  | AuditRows "AuditLog list"
  | Report ReserveReport
  | LiabilityRow "LiabilitySnapshot option"
  | Runs "(ReconciliationRun \<times> nat) list"
  | AttestationRows "Attestation list"
  | Catalog "Permission list"
  | UserRows "User list"
  | Effective "string list" "string list"
  | RoleRows "Role list"
  | PolicyRows "PolicyView list"
  | FlagRows "FeatureFlag list"
  | ControlRows "PlatformControl list"
  | ClientRows "ClientView list"
  | Decision AbacDecision
  | RegistryRows "RegistryEntry list"
  | UsageRows "UsageRow list"
  | HealthReport Health
  | WebhookRows "WebhookView list"
  | DeliveryRows "DeliveryView list"

definition map_res :: "('a \<Rightarrow> 'b) \<Rightarrow> 'a res \<Rightarrow> 'b res" where
  "map_res f r = bind_r r (\<lambda>a. Inr (f a))"

definition on_st :: "('a \<Rightarrow> reply) \<Rightarrow> 'a op \<Rightarrow> genv \<Rightarrow> api \<Rightarrow> reply res \<times> api" where
  "on_st f m g a = (case m (gv g) (ap_st a) of (r, s) \<Rightarrow> (map_res f r, a\<lparr>ap_st := s\<rparr>))"

text \<open>\<open>resolved === 'true'\<close>.\<close>

fun recon_answer :: "recon_query \<Rightarrow> genv \<Rightarrow> api \<Rightarrow> reply res \<times> api" where
  "recon_answer (RunById i) = on_st Run (recon_get i)"
| "recon_answer (Exceptions _ resolved) = on_st ExceptionRows (listExceptions (resolved = Some ''true''))"

fun program_answer :: "program_query \<Rightarrow> genv \<Rightarrow> api \<Rightarrow> reply res \<times> api" where
  "program_answer Programs = on_st ProgramRows (gets programs)"
| "program_answer (ProgramById i) = on_st ProgramRow (gets (\<lambda>s. find_program s i))"
| "program_answer (ProgramStatusOf i) = on_st ProgramState (gets (\<lambda>s. map_option (\<lambda>p. (pg_id p, pg_status p)) (find_program s i)))"

text \<open>\<open>limit ? Number(limit) : d\<close>; the database refuses a limit that is not an integer.\<close>

definition limit_of :: "genv \<Rightarrow> string option \<Rightarrow> int \<Rightarrow> int res" where
  "limit_of g limit d = (if \<not> truthy limit then Inr d
     else (case jsNumber g (the limit) of
         None \<Rightarrow> Inl (PlainError ''Invalid value for argument take'')
       | Some n \<Rightarrow> if Number_isInteger n then Inr (Math_trunc n) else Inl (PlainError ''Invalid value for argument take'')))"

fun ops_answer :: "ops_query \<Rightarrow> genv \<Rightarrow> api \<Rightarrow> reply res \<times> api" where
  "ops_answer OpsPrograms g a = (Inr (OpsProgramRows (ops_programs (ap_st a))), a)"
| "ops_answer OpsQueuesQ g a = (Inr (Queues (queues (ap_st a))), a)"
| "ops_answer (TrialBalanceOf p) g a = (map_res Trial (trialBalance (ap_st a) p), a)"
| "ops_answer (EntriesOf p limit) g a = (map_res (\<lambda>n. EntryRows (ledgerEntries (ap_st a) p n)) (limit_of g limit 50), a)"
| "ops_answer (AuditOf subjectType action actor limit) g a =
     (map_res (\<lambda>n. AuditRows (auditLogs (ap_st a) subjectType action actor (Some n))) (limit_of g limit 100), a)"
| "ops_answer (ReserveReportOf p) g a = (map_res Report (reserveReport (gv g) (ap_st a) p), a)"
| "ops_answer (LiabilityReportOf p) g a = (Inr (LiabilityRow (liabilityReport (ap_st a) p)), a)"
| "ops_answer ReconciliationsQ g a = (Inr (Runs (reconciliationRuns (ap_st a) 50)), a)"
| "ops_answer OpsAttestations g a = (Inr (AttestationRows (ops_attestations (ap_st a))), a)"

definition admin_position_json :: "ReservePosition \<Rightarrow> json" where
  "admin_position_json pos = JObj [(''programId'', JStr (rp_programId pos)), (''currency'', JStr (rp_currency pos)),
     (''eligibleReserve'', ser_money (rp_eligibleReserve pos)), (''reserveObligation'', ser_money (rp_reserveObligation pos)),
     (''mintCapacity'', ser_money (rp_mintCapacity pos)), (''reserveRatioBps'', jint (rp_reserveRatioBps pos))]"

text \<open>
  The collation of the database and the answers of the probed receivers. The probes read the same
  client table as the guards. The number of hours of the usage page is a whole number.
\<close>

record qenv =
  qv_le :: "string \<Rightarrow> string \<Rightarrow> bool"
  qv_fetch :: "string \<Rightarrow> string \<times> string + int"

fun admin_answer :: "qenv \<Rightarrow> admin_query \<Rightarrow> genv \<Rightarrow> api \<Rightarrow> reply res \<times> api" where
  "admin_answer w PermissionCatalog g a = (Inr (Catalog ALL_PERMISSIONS), a)"
| "admin_answer w (ReservePositionOf p) g a = on_st Body (read_position p admin_position_json) g a"
| "admin_answer w UsersQ g a = (Inr (UserRows (listUsers (ap_gate a))), a)"
| "admin_answer w (EffectiveOf i) g a = (map_res (\<lambda>(slugs, ps). Effective slugs ps) (fst (effectivePermissions i g (ap_gate a))), a)"
| "admin_answer w RolesQ g a = (Inr (RoleRows (listRoles (qv_le w) (ap_gate a))), a)"
| "admin_answer w PoliciesQ g a = (Inr (PolicyRows (listPolicies (qv_le w) (ap_policies a))), a)"
| "admin_answer w FlagsQ g a = (Inr (FlagRows (listFlags (qv_le w) (ap_st a))), a)"
| "admin_answer w ControlsQ g a = (Inr (ControlRows (listControls (qv_le w) (ap_st a))), a)"
| "admin_answer w ClientsQ g a = (Inr (ClientRows (listClients (ap_gate a))), a)"
| "admin_answer w (EvaluateQ tx) g a = (Inr (Decision (evaluate tx (ap_policies a))), a)"
| "admin_answer w (UsageQ hours) g a = (map_res UsageRows (usage_read g hours (ap_gate a)), a)"
| "admin_answer w HealthQ g a = (Inr (HealthReport (integrationHealth (qv_fetch w) (gv g)
     ((ap_queue a)\<lparr>wk_clients := gt_clients (ap_gate a)\<rparr>))), a)"
| "admin_answer w (WebhooksQ status) g a = (Inr (WebhookRows (listWebhooks status 100 (ap_queue a))), a)"
| "admin_answer w (DeliveriesQ i) g a = (Inr (DeliveryRows (webhookDeliveries i (ap_queue a))), a)"

datatype query =
    ReserveQ reserve_query | BankQ bank_query | PaychainQ paychain_query | PaykhQ paykh_query | LoyaltyQ loyalty_query
  | AttestationQ attestation_query | ReconQ recon_query | ProgramQ program_query | OpsQ ops_query | AdminQ admin_query
  | RegistryQ

fun query_path :: "query \<Rightarrow> string" where
  "query_path (ReserveQ x) = reserve_query_path x"
| "query_path (BankQ x) = bank_query_path x"
| "query_path (PaychainQ x) = paychain_query_path x"
| "query_path (PaykhQ x) = paykh_query_path x"
| "query_path (LoyaltyQ x) = loyalty_query_path x"
| "query_path (AttestationQ x) = attestation_query_path x"
| "query_path (ReconQ x) = recon_query_path x"
| "query_path (ProgramQ x) = program_query_path x"
| "query_path (OpsQ x) = ops_query_path x"
| "query_path (AdminQ x) = admin_query_path x"
| "query_path RegistryQ = trustee ''liability-registry''"

definition query_method :: "query \<Rightarrow> string" where
  "query_method x = (case x of AdminQ (EvaluateQ _) \<Rightarrow> ''POST'' | _ \<Rightarrow> ''GET'')"

fun answer :: "qenv \<Rightarrow> query \<Rightarrow> genv \<Rightarrow> api \<Rightarrow> reply res \<times> api" where
  "answer w (ReserveQ x) g a = on_st Body (reserve_read x) g a"
| "answer w (BankQ x) g a = on_st Body (bank_read x) g a"
| "answer w (PaychainQ x) g a = on_st Body (paychain_read x) g a"
| "answer w (PaykhQ x) g a = on_st Body (paykh_read x) g a"
| "answer w (LoyaltyQ x) g a = on_st Body (loyalty_read x) g a"
| "answer w (AttestationQ x) g a = on_st Body (attestation_read x) g a"
| "answer w (ReconQ x) g a = recon_answer x g a"
| "answer w (ProgramQ x) g a = program_answer x g a"
| "answer w (OpsQ x) g a = ops_answer x g a"
| "answer w (AdminQ x) g a = admin_answer w x g a"
| "answer w RegistryQ g a = (Inr (RegistryRows (registry_list (ap_registry a))), a)"

text \<open>A read served end to end; no read route declares a permission.\<close>

definition serve_query ::
  "(string \<Rightarrow> string \<Rightarrow> bool) \<Rightarrow> qenv \<Rightarrow> request \<Rightarrow> query \<Rightarrow> genv \<Rightarrow> api \<Rightarrow> reply res \<times> api" where
  "serve_query router w q x g a = (if hq_method q = query_method x \<and> router (query_path x) (hq_path q)
     then (case admit None q g (ap_gate a) of
         (Inl e, gs) \<Rightarrow> (Inl e, a\<lparr>ap_gate := gs\<rparr>)
       | (Inr _, gs) \<Rightarrow> answer w x g (a\<lparr>ap_gate := gs\<rparr>))
     else (Inl (NotFound ''Cannot''), a))"

section \<open>Reads change nothing\<close>

lemmas read_defs = read_position_def snapshotHistory_def ratio_def listAccounts_def getAccount_def reserveAccountBalance_def
  latestSnapshot_def getSnapshot_def listAdjustments_def listProgramAccounts_def listBanks_def deposit_get_def requireDeposit_def
  funding_get_def require_funding_def funding_status_def mint_get_def requireAuth_def redemption_get_def payoutStatus_def
  require_redemption_def merchant_get_def require_merchant_def merchant_listByTenant_def profile_listByTenant_def profile_get_def
  require_profile_def order_get_def order_status_def require_order_def fund_get_def fund_balance_def require_fund_def
  settlement_get_def require_settlement_def loyalty_get_def require_loyalty_def listLiabilities_def att_list_def att_get_def
  require_att_def recon_get_def listExceptions_def

lemma reserve_read_leaves: "leaves (\<lambda>s. s) (reserve_read r)"
  by (cases r; simp only: reserve_read.simps; unfold read_defs Let_def; intro leaves_intros)

lemma bank_read_leaves: "leaves (\<lambda>s. s) (bank_read b)"
  by (cases b; simp only: bank_read.simps; unfold read_defs Let_def; intro leaves_intros)

lemma paychain_read_leaves: "leaves (\<lambda>s. s) (paychain_read c)"
  by (cases c; simp only: paychain_read.simps; unfold read_defs Let_def; intro leaves_intros)

lemma paykh_read_leaves: "leaves (\<lambda>s. s) (paykh_read k)"
  by (cases k; simp only: paykh_read.simps; unfold read_defs Let_def; intro leaves_intros)

lemma loyalty_read_leaves: "leaves (\<lambda>s. s) (loyalty_read l)"
  by (cases l; simp only: loyalty_read.simps; unfold read_defs Let_def; intro leaves_intros)

lemma attestation_read_leaves: "leaves (\<lambda>s. s) (attestation_read t)"
  by (cases t; simp only: attestation_read.simps; unfold read_defs Let_def; intro leaves_intros)

lemma other_reads_leave:
  "leaves (\<lambda>s. s) (recon_get i)" "leaves (\<lambda>s. s) (listExceptions v)" "leaves (\<lambda>s. s) (read_position p view)" "leaves (\<lambda>s. s) (gets f)"
  by (simp_all add: read_defs leaves_intros)

lemmas read_leaves = reserve_read_leaves bank_read_leaves paychain_read_leaves paykh_read_leaves loyalty_read_leaves
  attestation_read_leaves other_reads_leave

lemma on_st_reads: "leaves (\<lambda>s. s) m \<Longrightarrow> snd (on_st f m g a) = a"
  by (auto simp: on_st_def leaves_def split: prod.splits) (metis api.surjective api.update_convs(2) snd_conv)

lemma answer_reads: "snd (answer w x g a) = a"
proof (cases x)
  case (ReconQ y)
  then show ?thesis by (cases y) (simp_all add: on_st_reads read_leaves)
next
  case (ProgramQ y)
  then show ?thesis by (cases y) (simp_all add: on_st_reads read_leaves)
next
  case (OpsQ y)
  then show ?thesis by (cases y) simp_all
next
  case (AdminQ y)
  then show ?thesis by (cases y) (simp_all add: on_st_reads read_leaves)
qed (simp_all add: on_st_reads read_leaves)

section \<open>Who gets an answer\<close>

lemma trustee_namespace [simp]: "requiredPlatform (trustee p) = Some ''TRUSTEE_BANK''"
  by (simp add: requiredPlatform_def startsWith_def trustee_def)

lemma client_namespace: "requiredPlatform (client_ns c p) = Some (case c of PaychainClient \<Rightarrow> ''PAYCHAIN'' | PaykhClient \<Rightarrow> ''PAYKH'')"
  by (cases c) simp_all

text \<open>The platform a read belongs to.\<close>

fun query_platform :: "query \<Rightarrow> string" where
  "query_platform (ReserveQ _) = ''PAYCHAIN''"
| "query_platform (PaychainQ _) = ''PAYCHAIN''"
| "query_platform (PaykhQ _) = ''PAYKH''"
| "query_platform (AttestationQ x) = (case x of AttestationsOf PaykhClient _ \<Rightarrow> ''PAYKH'' | AttestationById PaykhClient _ \<Rightarrow> ''PAYKH''
     | _ \<Rightarrow> ''PAYCHAIN'')"
| "query_platform (ReconQ x) = (case x of Exceptions PaykhClient _ \<Rightarrow> ''PAYKH'' | _ \<Rightarrow> ''PAYCHAIN'')"
| "query_platform _ = ''TRUSTEE_BANK''"

lemma query_namespace: "requiredPlatform (query_path x) = Some (query_platform x)"
proof (cases x)
  case (ReserveQ y) then show ?thesis by (cases y) simp_all
next
  case (BankQ y) then show ?thesis by (cases y) simp_all
next
  case (PaychainQ y) then show ?thesis by (cases y) simp_all
next
  case (PaykhQ y) then show ?thesis by (cases y) simp_all
next
  case (LoyaltyQ y) then show ?thesis by (cases y) simp_all
next
  case (AttestationQ y) then show ?thesis by (cases y) (auto simp: client_namespace split: client.splits)
next
  case (ReconQ y) then show ?thesis by (cases y) (auto simp: client_namespace split: client.splits)
next
  case (ProgramQ y) then show ?thesis by (cases y) simp_all
next
  case (OpsQ y) then show ?thesis by (cases y) simp_all
next
  case (AdminQ y) then show ?thesis by (cases y) simp_all
qed simp

lemma served_read_effect:
  "snd (serve_query router w q x g a) = a\<lparr>ap_gate := ap_gate (snd (serve_query router w q x g a))\<rparr>"
  by (auto simp: serve_query_def answer_reads split: prod.splits sum.splits)

lemma served_read_authorized:
  assumes "matches_literals router" and "fst (serve_query router w q x g a) = Inr v"
  shows "(requiredPlatform (hq_path q) = Some (query_platform x) \<and> authorized g (ap_gate a) q None (query_platform x))
    \<or> respelled (query_path x) (hq_path q)"
proof (cases "admit None q g (ap_gate a)")
  case (Pair r gs)
  from assms(2) Pair have path: "router (query_path x) (hq_path q)" and ok: "is_ok r"
    by (auto simp: serve_query_def split: if_splits sum.splits)
  from ok Pair obtain p where adm: "admit None q g (ap_gate a) = (Inr p, gs)" by (cases r) simp_all
  from routed_platform [OF assms(1) path query_namespace] admit_authorized [OF adm] show ?thesis by blast
qed

text \<open>
  The roles of a session play no part: any operator session reads everything of the trustee's
  namespaces, the audit log included, although \<open>audit.view\<close> and \<open>reserve.view\<close> are permissions that
  roles are granted.
\<close>

lemma session_admitted:
  assumes "user_session g q ''TRUSTEE_BANK'' u" and "requiredPlatform (hq_path q) = Some ''TRUSTEE_BANK''"
  shows "admit None q g s = (Inr (Some (UserP u)), s)"
  using assms
  by (simp add: admit_def clientSeparation_def user_session_def requestSignature_def rateLimit_def permissionGuard_def prog_simps truthy_def)

lemma any_session_reads_audit:
  assumes "user_session g q ''TRUSTEE_BANK'' u" and "hq_method q = ''GET''" and "hq_path q = admin ''audit''"
  shows "\<exists>rows. serve_query (=) w q (OpsQ (AuditOf None None None None)) g a = (Inr (AuditRows rows), a)"
  using session_admitted [OF assms(1)] assms(2,3)
  by (simp add: serve_query_def query_method_def limit_of_def truthy_def map_res_def)

end
