(* ===== verification/Stellar.thy ===== *)
theory Stellar
  imports Gate
begin

text \<open>
  The read side of the chain and the HTTP adapters: \<open>stellar-adapter.ts\<close>,
  \<open>paychain-issuance-adapter.ts\<close> and \<open>bank-adapter.ts\<close> of \<open>packages/adapters\<close>. The Stellar SDK,
  Horizon and \<open>fetch\<close> are parameters. The lemmas show that the conversion between minor units and
  Stellar's decimal amounts loses nothing, what the conversion back drops from a finer amount,
  and that an adapter without the issuing key never submits a transaction.
\<close>

section \<open>Amounts\<close>

definition minorToStellarAmount :: "int \<Rightarrow> int \<Rightarrow> string res" where
  "minorToStellarAmount amount decs = (if decs < 0 \<or> decs > 7 then Inl (PlainError ''Unsupported decimals for Stellar amount (max 7)'')
     else (let neg = amount < 0;
       ds = padStart (nat decs + 1) (CHR ''0'') (bigint_toString (if neg then - amount else amount));
       cut = length ds - nat decs;
       intPart = take cut ds;
       fracPart = (if decs > 0 then ''.'' @ drop cut ds else [])
     in Inr ((if neg then ''-'' else []) @ intPart @ fracPart)))"

text \<open>\<open>const [intRaw, fracRaw = ''] = ...split('.')\<close>; \<open>repeat\<close> raises on a negative count.\<close>

definition stellarAmountToMinor :: "string \<Rightarrow> int \<Rightarrow> int res" where
  "stellarAmountToMinor amount decs = (let neg = startsWith ''-'' (trim amount);
       parts = split_on (CHR ''.'') (remove1 (CHR ''-'') amount);
       intRaw = parts ! 0;
       fracRaw = (if 1 < length parts then parts ! 1 else []) in
     if decs < 0 then Inl (PlainError ''Invalid count value'')
     else (let frac = take (nat decs) (fracRaw @ replicate (nat decs) (CHR ''0'')) in
       bind_r (BigInt (if intRaw = [] then ''0'' else intRaw)) (\<lambda>i.
       bind_r (BigInt (if frac = [] then ''0'' else frac)) (\<lambda>f.
       let scaled = i * 10 ^ nat decs + f in Inr (if neg then - scaled else scaled)))))"

section \<open>The Horizon adapter\<close>

record HorizonStellarConfig =
  hz_networkPassphrase :: "string option"
  hz_issuerSecret :: "string option"
  hz_timeoutSeconds :: "int option"

record StellarOrder =
  so_assetCode :: string
  so_account :: string
  so_amountMinor :: string
  so_decimals :: int

datatype stellar_operation =
    Payment string string string string
  | Clawback string string string string

record StellarTxResult =
  tx_hash :: string
  tx_ledger :: int
  tx_successful :: bool

record HorizonRecord =
  hr_authorized :: "string option"
  hr_maintain_liabilities :: "string option"
  hr_unauthorized :: "string option"
  hr_claimable :: "string option"
  hr_liquidity_pools :: "string option"
  hr_contracts :: "string option"
  hr_paging_token :: "string option"

record StellarSupply =
  ss_assetCode :: string
  ss_issuer :: string
  ss_circulatingMinor :: string
  ss_decimals :: int
  ss_ledgerReference :: string
  ss_asOf :: string

text \<open>The SDK and the Horizon server: keys, assets, the account, a submitted transaction, the asset page.\<close>

record stellar_sdk =
  fromSecret :: "string \<Rightarrow> string res"
  newAsset :: "string \<Rightarrow> string \<Rightarrow> unit res"
  loadAccount :: "string \<Rightarrow> string res"
  submitTransaction :: "string \<Rightarrow> string \<Rightarrow> int \<Rightarrow> stellar_operation \<Rightarrow> StellarTxResult res"
  assetPage :: "string \<Rightarrow> string \<Rightarrow> HorizonRecord list res"

definition issuerPublicKey :: "stellar_sdk \<Rightarrow> HorizonStellarConfig \<Rightarrow> string option res" where
  "issuerPublicKey sdk cfg = (if truthy (hz_issuerSecret cfg)
     then bind_r (fromSecret sdk (the (hz_issuerSecret cfg))) (\<lambda>k. Inr (Some k)) else Inr None)"

definition requireIssuer :: "stellar_sdk \<Rightarrow> HorizonStellarConfig \<Rightarrow> (string \<times> string) res" where
  "requireIssuer sdk cfg = bind_r (issuerPublicKey sdk cfg) (\<lambda>issuer.
     if issuer = None \<or> \<not> truthy (hz_networkPassphrase cfg)
     then Inl (PlainError ''On-chain issuance is executed by PayChain (issuer of record)'')
     else Inr (the issuer, the (hz_networkPassphrase cfg)))"

definition submit_operation ::
  "stellar_sdk \<Rightarrow> HorizonStellarConfig \<Rightarrow> StellarOrder \<Rightarrow> (string \<Rightarrow> string \<Rightarrow> stellar_operation) \<Rightarrow> StellarTxResult res" where
  "submit_operation sdk cfg order mk = bind_r (requireIssuer sdk cfg) (\<lambda>(key, network).
     bind_r (newAsset sdk (so_assetCode order) key) (\<lambda>_.
     bind_r (BigInt (so_amountMinor order)) (\<lambda>m.
     bind_r (minorToStellarAmount m (so_decimals order)) (\<lambda>amount.
     bind_r (loadAccount sdk key) (\<lambda>account.
     submitTransaction sdk account network (case hz_timeoutSeconds cfg of None \<Rightarrow> 180 | Some t \<Rightarrow> t) (mk key amount))))))"

definition stellar_issue :: "stellar_sdk \<Rightarrow> HorizonStellarConfig \<Rightarrow> StellarOrder \<Rightarrow> StellarTxResult res" where
  "stellar_issue sdk cfg order = submit_operation sdk cfg order (\<lambda>key amount. Payment (so_account order) (so_assetCode order) key amount)"

definition stellar_burn :: "stellar_sdk \<Rightarrow> HorizonStellarConfig \<Rightarrow> StellarOrder \<Rightarrow> StellarTxResult res" where
  "stellar_burn sdk cfg order = submit_operation sdk cfg order (\<lambda>key amount. Clawback (so_assetCode order) key (so_account order) amount)"

fun sum_parts :: "int \<Rightarrow> int \<Rightarrow> string option list \<Rightarrow> int res" where
  "sum_parts decs acc [] = Inr acc"
| "sum_parts decs acc (a # as) = bind_r (stellarAmountToMinor (case a of None \<Rightarrow> ''0'' | Some t \<Rightarrow> t) decs) (\<lambda>m.
     sum_parts decs (acc + m) as)"

definition getSupply :: "stellar_sdk \<Rightarrow> env \<Rightarrow> string \<Rightarrow> string \<Rightarrow> int \<Rightarrow> StellarSupply res" where
  "getSupply sdk e assetCode issuer decs = bind_r (assetPage sdk assetCode issuer) (\<lambda>records.
     bind_r (case records of [] \<Rightarrow> Inr ''0''
       | r # _ \<Rightarrow> bind_r (sum_parts decs 0 [hr_authorized r, hr_maintain_liabilities r, hr_unauthorized r, hr_claimable r,
           hr_liquidity_pools r, hr_contracts r]) (\<lambda>total. Inr (bigint_toString total))) (\<lambda>circulatingMinor.
     Inr \<lparr>ss_assetCode = assetCode, ss_issuer = issuer, ss_circulatingMinor = circulatingMinor, ss_decimals = decs,
       ss_ledgerReference = (case records of [] \<Rightarrow> [] | r # _ \<Rightarrow> (case hr_paging_token r of None \<Rightarrow> [] | Some t \<Rightarrow> t)),
       ss_asOf = nowIso e\<rparr>))"

section \<open>The PayChain issuance and bank adapters\<close>

text \<open>\<open>fetch\<close> under its timeout: (ok, status, text), or the error it threw.\<close>

type_synonym http_get = "string \<Rightarrow> (string \<times> string) list \<Rightarrow> (bool \<times> int \<times> string) res"
type_synonym http_post = "string \<Rightarrow> (string \<times> string) list \<Rightarrow> string \<Rightarrow> (bool \<times> int \<times> string) res"

definition bearer_header :: "string option \<Rightarrow> (string \<times> string) list" where
  "bearer_header tok = (if truthy tok then [(''authorization'', ''Bearer '' @ the tok)] else [])"

definition paychain_execute ::
  "http_post \<Rightarrow> (string \<Rightarrow> IssuanceExecutionResult res) \<Rightarrow> (IssuanceExecutionRequest \<Rightarrow> string) \<Rightarrow> string \<Rightarrow> string \<Rightarrow> string option
     \<Rightarrow> IssuanceExecutionRequest \<Rightarrow> IssuanceExecutionResult res" where
  "paychain_execute fetch parse print baseUrl apiVersion authToken r =
     bind_r (fetch (baseUrl @ ''/api/v1/trustee/issuance/execute'')
       ([(''content-type'', ''application/json''), (''x-api-version'', apiVersion), (''x-idempotency-key'', ir_reference r)]
         @ bearer_header authToken) (print r)) (\<lambda>(ok, status, body).
     if \<not> ok then Inr \<lparr>ix_accepted = False, ix_status = ''REJECTED'', ix_paychainReference = None, ix_onChainTxHash = None\<rparr>
     else parse body)"

definition bank_getAccountBalance ::
  "http_get \<Rightarrow> (string \<Rightarrow> string) \<Rightarrow> (string \<Rightarrow> BankBalanceResponse res) \<Rightarrow> string \<Rightarrow> string option \<Rightarrow> string \<Rightarrow> BankBalanceResponse res" where
  "bank_getAccountBalance fetch encodeURIComponent parse baseUrl authToken accountRef =
     bind_r (fetch (baseUrl @ ''/accounts/'' @ encodeURIComponent accountRef @ ''/balance'') (bearer_header authToken)) (\<lambda>(ok, status, body).
     if \<not> ok then Inl (PlainError (''Bank balance fetch failed: '' @ bigint_toString status)) else parse body)"

section \<open>Digit strings\<close>

definition all_digits :: "string \<Rightarrow> bool" where
  "all_digits s = (\<forall>c \<in> set s. \<exists>d < 10. c = digit_char d)"

definition dval :: "string \<Rightarrow> nat" where
  "dval s = the (digits_acc 10 0 s)"

lemma all_digits_append [simp]: "all_digits (s @ t) \<longleftrightarrow> all_digits s \<and> all_digits t"
  by (auto simp: all_digits_def)

lemma all_digits_sub: "all_digits s \<Longrightarrow> all_digits (take n s)" "all_digits s \<Longrightarrow> all_digits (drop n s)"
  by (auto simp: all_digits_def dest: in_set_takeD in_set_dropD)

lemma all_digits_nat_str: "all_digits (nat_str n)"
  using nat_str_digits by (auto simp: all_digits_def)

lemma zero_digit: "CHR ''0'' = digit_char 0"
  by code_simp

lemma all_digits_zeros [simp]: "all_digits (replicate n (CHR ''0''))"
  unfolding all_digits_def zero_digit by (auto intro: exI [of _ 0])

lemma digits_acc_value: "all_digits s \<Longrightarrow> digits_acc 10 acc s = Some (acc * 10 ^ length s + dval s)"
proof (induction s arbitrary: acc rule: rev_induct)
  case (snoc c s)
  then obtain d where d: "d < 10" "c = digit_char d" and s: "all_digits s" by (auto simp: all_digits_def)
  from snoc.IH [OF s, of 0] have "digits_acc 10 0 s = Some (dval s)" by simp
  with d have "digits_acc 10 0 (s @ [c]) = Some (dval s * 10 + d)" by (simp add: digits_acc_append)
  then have "dval (s @ [c]) = dval s * 10 + d" by (simp add: dval_def)
  with snoc.IH [OF s, of acc] d show ?case by (simp add: digits_acc_append algebra_simps)
qed (simp add: dval_def)

lemma dval_append: "all_digits s \<Longrightarrow> all_digits t \<Longrightarrow> dval (s @ t) = dval s * 10 ^ length t + dval t"
  using digits_acc_value [of s 0] digits_acc_value [of t "dval s"] digits_acc_value [of "s @ t" 0]
  by (simp add: digits_acc_append)

lemma dval_zeros [simp]: "dval (replicate n (CHR ''0'')) = 0"
  by (induction n) (simp_all add: dval_def digit_val_def)

lemma dval_nat_str [simp]: "dval (nat_str n) = n"
  by (simp add: dval_def digits_acc_nat_str)

lemma digit_not_special:
  assumes "d < 10"
  shows "\<not> is_white (digit_char d)" "digit_char d \<noteq> CHR ''-''" "digit_char d \<noteq> CHR ''+''" "digit_char d \<noteq> CHR ''.''"
proof -
  from assms have n: "48 \<le> (of_char (digit_char d) :: nat)" "(of_char (digit_char d) :: nat) < 58" by simp_all
  then show "\<not> is_white (digit_char d)" by (auto simp: is_white_def)
  from n show "digit_char d \<noteq> CHR ''-''" "digit_char d \<noteq> CHR ''+''" "digit_char d \<noteq> CHR ''.''" by auto
qed

lemma all_digits_free:
  assumes "all_digits s"
  shows "\<forall>c \<in> set s. \<not> is_white c" "CHR ''-'' \<notin> set s" "CHR ''+'' \<notin> set s" "CHR ''.'' \<notin> set s"
  using assms digit_not_special by (fastforce simp: all_digits_def)+

lemma BigInt_digits:
  assumes "all_digits s" and "s \<noteq> []"
  shows "BigInt s = Inr (int (dval s))"
proof -
  note free = all_digits_free [OF assms(1)]
  have dec: "signed_decimal s = Some (int (dval s))"
    using free(2,3) assms digits_acc_value [OF assms(1), of 0] by (cases s) (auto simp: signed_decimal_def digits_def)
  have "int_literal s = signed_decimal s"
  proof (cases s rule: remdups_adj.cases)
    case (3 z p cs)
    with assms(1) obtain d where "d < 10" "p = digit_char d" by (auto simp: all_digits_def)
    then have "radix_of p = None" by (simp add: radix_of_digit)
    with 3 show ?thesis by (simp add: int_literal_def)
  qed (simp_all add: int_literal_def)
  with dec show ?thesis using assms(2) trim_no_white [OF free(1)] by (simp add: BigInt_def)
qed

section \<open>Nothing is lost between minor units and Stellar amounts\<close>

lemma toString_nat: "bigint_toString (if amount < 0 then - amount else amount) = nat_str (nat \<bar>amount\<bar>)"
  by (simp add: bigint_toString_def)

lemma padded:
  fixes n w :: nat
  defines "ds \<equiv> padStart (w + 1) (CHR ''0'') (nat_str n)"
  shows "all_digits ds" "dval ds = n" "w < length ds"
  by (auto simp: ds_def padStart_def all_digits_nat_str dval_append)

lemma toMinor_text:
  assumes "all_digits i" and "i \<noteq> []" and "all_digits f" and "0 \<le> decs" and "length f = nat decs"
  shows "stellarAmountToMinor ((if neg then ''-'' else []) @ i @ (if decs > 0 then ''.'' @ f else [])) decs =
    Inr ((if neg then -1 else 1) * int (dval i * 10 ^ nat decs + dval f))"
proof -
  let ?body = "i @ (if decs > 0 then ''.'' @ f else [])"
  let ?text = "(if neg then ''-'' else []) @ ?body"
  note fi = all_digits_free [OF assms(1)] and ff = all_digits_free [OF assms(3)]
  have "\<forall>c \<in> set ?text. \<not> is_white c" using fi(1) ff(1) by (auto simp: is_white_def)
  then have "trim ?text = ?text" by (rule trim_no_white)
  moreover have "startsWith ''-'' ?text = neg"
    using fi(2) assms(2) by (cases i) (auto simp: startsWith_def)
  ultimately have neg: "startsWith ''-'' (trim ?text) = neg" by simp
  have rem: "remove1 (CHR ''-'') ?text = ?body" using fi(2) ff(2) by (cases neg) (auto intro: remove1_idem)
  have parts: "split_on (CHR ''.'') ?body = i # (if decs > 0 then [f] else [])"
    using fi(4) ff(4) split_on_part [of "CHR ''.''" i f] by (auto simp: split_on_end)
  have f0: "decs = 0 \<Longrightarrow> f = []" using assms(5) by simp
  have "BigInt ''0'' = Inr 0" by code_simp
  then have frac: "BigInt (if f = [] then ''0'' else f) = Inr (int (dval f))"
    using BigInt_digits [OF assms(3)] by (auto simp: dval_def)
  show ?thesis
    unfolding stellarAmountToMinor_def neg rem parts Let_def
    using assms frac f0 BigInt_digits [OF assms(1,2)] by (cases "decs > 0") auto
qed

lemma stellar_amount_round_trip:
  assumes "0 \<le> decs" and "decs \<le> 7"
  shows "bind_r (minorToStellarAmount amount decs) (\<lambda>text. stellarAmountToMinor text decs) = Inr amount"
proof -
  let ?ds = "padStart (nat decs + 1) (CHR ''0'') (nat_str (nat \<bar>amount\<bar>))"
  let ?cut = "length ?ds - nat decs"
  note pad = padded [of "nat decs" "nat \<bar>amount\<bar>"]
  have i: "all_digits (take ?cut ?ds)" "take ?cut ?ds \<noteq> []" and f: "all_digits (drop ?cut ?ds)" "length (drop ?cut ?ds) = nat decs"
    using pad(1,3) all_digits_sub by auto
  have "dval (take ?cut ?ds @ drop ?cut ?ds) = dval (take ?cut ?ds) * 10 ^ nat decs + dval (drop ?cut ?ds)"
    using dval_append [OF i(1) f(1)] f(2) by simp
  with pad(2) have sum: "dval (take ?cut ?ds) * 10 ^ nat decs + dval (drop ?cut ?ds) = nat \<bar>amount\<bar>" by simp
  have "minorToStellarAmount amount decs = Inr ((if amount < 0 then ''-'' else []) @ take ?cut ?ds
      @ (if decs > 0 then ''.'' @ drop ?cut ?ds else []))"
    unfolding minorToStellarAmount_def Let_def toString_nat using assms by simp
  moreover have "(if amount < 0 then -1 else 1) * int (nat \<bar>amount\<bar>) = amount" by simp
  ultimately show ?thesis
    using toMinor_text [OF i f(1) assms(1) f(2), of "amount < 0"] unfolding sum by simp
qed

lemma toMinor_truncates:
  assumes "all_digits i" and "i \<noteq> []" and "all_digits f" and "all_digits g" and "0 < decs" and "length f = nat decs"
  shows "stellarAmountToMinor (i @ ''.'' @ f @ g) decs = stellarAmountToMinor (i @ ''.'' @ f) decs"
proof -
  note fi = all_digits_free [OF assms(1)] and ff = all_digits_free [OF assms(3)] and fg = all_digits_free [OF assms(4)]
  have neg: "startsWith ''-'' (trim (i @ ''.'' @ r)) = False" if "all_digits r" for r
  proof -
    have "\<forall>c \<in> set (i @ ''.'' @ r). \<not> is_white c" using fi(1) all_digits_free(1) [OF that] by (auto simp: is_white_def)
    then have "trim (i @ ''.'' @ r) = i @ ''.'' @ r" by (rule trim_no_white)
    then show ?thesis using fi(2) assms(2) by (cases i) (auto simp: startsWith_def)
  qed
  have rem: "remove1 (CHR ''-'') (i @ ''.'' @ r) = i @ ''.'' @ r" if "all_digits r" for r
    using fi(2) all_digits_free(2) [OF that] by (intro remove1_idem) auto
  have parts: "split_on (CHR ''.'') (i @ ''.'' @ r) = [i, r]" if "all_digits r" for r
    using fi(4) all_digits_free(4) [OF that] split_on_part [of "CHR ''.''" i r] by (simp add: split_on_end)
  have fg: "all_digits (f @ g)" using assms(3,4) by simp
  show ?thesis
    unfolding stellarAmountToMinor_def neg [OF fg] neg [OF assms(3)] rem [OF fg] rem [OF assms(3)] parts [OF fg] parts [OF assms(3)]
    using assms(5,6) by (cases "f = []") (simp_all add: Let_def)
qed

section \<open>The trustee reads the chain and never writes it\<close>

lemma no_key_no_transaction:
  assumes "\<not> truthy (hz_issuerSecret cfg)"
  shows "stellar_issue sdk cfg order = Inl (PlainError ''On-chain issuance is executed by PayChain (issuer of record)'')"
    and "stellar_burn sdk cfg order = Inl (PlainError ''On-chain issuance is executed by PayChain (issuer of record)'')"
  using assms by (simp_all add: stellar_issue_def stellar_burn_def submit_operation_def requireIssuer_def issuerPublicKey_def)

lemma sum_parts_total:
  assumes "list_all2 (\<lambda>a m. stellarAmountToMinor (case a of None \<Rightarrow> ''0'' | Some t \<Rightarrow> t) decs = Inr m) as ms"
  shows "sum_parts decs acc as = Inr (acc + sum_list ms)"
  using assms by (induction as ms arbitrary: acc rule: list_all2_induct) simp_all

lemma supply_is_sum:
  assumes "assetPage sdk code issuer = Inr (r # rs)"
    and "list_all2 (\<lambda>a m. stellarAmountToMinor (case a of None \<Rightarrow> ''0'' | Some t \<Rightarrow> t) decs = Inr m)
      [hr_authorized r, hr_maintain_liabilities r, hr_unauthorized r, hr_claimable r, hr_liquidity_pools r, hr_contracts r] ms"
  shows "\<exists>supply. getSupply sdk e code issuer decs = Inr supply \<and> BigInt (ss_circulatingMinor supply) = Inr (sum_list ms)"
  using assms(1) sum_parts_total [OF assms(2), of 0] by (simp add: getSupply_def BigInt_toString)

end
