(* ===== verification/Evidence.thy ===== *)
theory Evidence
  imports Stellar
begin

text \<open>
  The evidence of the end-to-end audit (\<open>apps/e2e-audit/src\<close>): the recorder with its summary,
  outcome and hash manifest (\<open>evidence.ts\<close>), the signature check against the published keys
  (\<open>checks/signatures.ts\<close>), the supply read from the chain (\<open>checks/onchain.ts\<close>) and what the report
  derives from the records (\<open>report.ts\<close>: the coverage of control objectives and the escaping).
  SHA-256, Ed25519, base64 and the key parser are parameters. Strings are the UTF-8 bytes that
  are hashed. The lemmas show that the summary partitions the records, when a run is a PASS,
  that the manifest's root hash determines every record, and that escaped text has no markup.
\<close>

section \<open>Answers as JavaScript values\<close>

text \<open>
  Answers are parsed JSON of any shape. \<open>dot v k\<close> is \<open>v.k\<close>, \<open>opt_dot v k\<close> is \<open>v?.k\<close>, \<open>nvl v d\<close> is
  \<open>v ?? d\<close>; none of the members the audit reads is inherited, \<open>length\<close> apart.
\<close>

definition TypeError :: err where
  "TypeError = PlainError ''TypeError''"

fun js_truth :: "json \<Rightarrow> bool" where
  "js_truth JNull = False"
| "js_truth JUndef = False"
| "js_truth (JBool b) = b"
| "js_truth (JNum i) = (i \<noteq> 0)"
| "js_truth (JBig i) = (i \<noteq> 0)"
| "js_truth (JStr s) = (s \<noteq> [])"
| "js_truth (JArr vs) = True"
| "js_truth (JObj ms) = True"

definition nullish :: "json \<Rightarrow> bool" where
  "nullish v = (v = JNull \<or> v = JUndef)"

definition nvl :: "json \<Rightarrow> json \<Rightarrow> json" where
  "nvl v d = (if nullish v then d else v)"

fun dot :: "json \<Rightarrow> string \<Rightarrow> json res" where
  "dot JNull k = Inl TypeError"
| "dot JUndef k = Inl TypeError"
| "dot (JObj ms) k = Inr (case map_of ms k of None \<Rightarrow> JUndef | Some v \<Rightarrow> v)"
| "dot (JArr vs) k = Inr (if k = ''length'' then JNum (int (length vs)) else JUndef)"
| "dot (JStr s) k = Inr (if k = ''length'' then JNum (int (length s)) else JUndef)"
| "dot v k = Inr JUndef"

definition opt_dot :: "json \<Rightarrow> string \<Rightarrow> json" where
  "opt_dot v k = (case dot v k of Inl _ \<Rightarrow> JUndef | Inr w \<Rightarrow> w)"

fun js_string :: "json \<Rightarrow> string" where
  "js_string JNull = ''null''"
| "js_string JUndef = ''undefined''"
| "js_string (JBool b) = (if b then ''true'' else ''false'')"
| "js_string (JNum i) = bigint_toString i"
| "js_string (JBig i) = bigint_toString i"
| "js_string (JStr s) = s"
| "js_string (JArr vs) = join '','' (map (\<lambda>v. if v = JNull \<or> v = JUndef then [] else js_string v) vs)"
| "js_string (JObj ms) = ''[object Object]''"

fun js_BigInt :: "json \<Rightarrow> int res" where
  "js_BigInt JNull = Inl TypeError"
| "js_BigInt JUndef = Inl TypeError"
| "js_BigInt (JBool b) = Inr (if b then 1 else 0)"
| "js_BigInt (JNum i) = Inr i"
| "js_BigInt (JBig i) = Inr i"
| "js_BigInt v = BigInt (js_string v)"

section \<open>Records\<close>

datatype Verdict = PASS | FAIL | NOT_READY

fun verdict_name :: "Verdict \<Rightarrow> string" where
  "verdict_name PASS = ''PASS''"
| "verdict_name FAIL = ''FAIL''"
| "verdict_name NOT_READY = ''NOT_READY''"

record IndependentCheck =
  ic_method :: string
  ic_result :: Verdict
  ic_note :: "string option"

record ArtifactSignature =
  xs_keyId :: json
  xs_alg :: json
  xs_value :: json

record Artifact =
  af_type :: string
  af_canonical :: string
  af_signature :: "ArtifactSignature option"

record EvidenceRecord =
  er_testId :: string
  er_title :: string
  er_controlObjective :: "string list"
  er_platform :: string
  er_detail :: json
  er_artifact :: "Artifact option"
  er_independentCheck :: "IndependentCheck option"
  er_verdict :: Verdict
  er_timestamp :: string
  er_evidenceHash :: string

definition artifact_json :: "Artifact option \<Rightarrow> json" where
  "artifact_json a = (case a of None \<Rightarrow> JUndef | Some a \<Rightarrow> JObj [(''type'', JStr (af_type a)),
     (''canonical'', JStr (af_canonical a)),
     (''signature'', (case af_signature a of None \<Rightarrow> JUndef
       | Some g \<Rightarrow> JObj [(''keyId'', xs_keyId g), (''alg'', xs_alg g), (''value'', xs_value g)]))])"

definition check_json :: "IndependentCheck option \<Rightarrow> json" where
  "check_json c = (case c of None \<Rightarrow> JUndef | Some c \<Rightarrow> JObj [(''method'', JStr (ic_method c)),
     (''result'', JStr (verdict_name (ic_result c))),
     (''note'', (case ic_note c of None \<Rightarrow> JUndef | Some n \<Rightarrow> JStr n))])"

text \<open>The record as it is hashed: the members in the order they are written, without the hash.\<close>

definition record_json :: "EvidenceRecord \<Rightarrow> json" where
  "record_json r = JObj [(''testId'', JStr (er_testId r)), (''title'', JStr (er_title r)),
     (''controlObjective'', JArr (map JStr (er_controlObjective r))), (''platform'', JStr (er_platform r)),
     (''detail'', er_detail r), (''artifact'', artifact_json (er_artifact r)),
     (''independentCheck'', check_json (er_independentCheck r)), (''verdict'', JStr (verdict_name (er_verdict r))),
     (''timestamp'', JStr (er_timestamp r))]"

definition evidence_hash :: "(string \<Rightarrow> string) \<Rightarrow> string \<Rightarrow> string" where
  "evidence_hash hex s = ''sha256:'' @ hex s"

definition record_evidence :: "(string \<Rightarrow> string) \<Rightarrow> string \<Rightarrow> EvidenceRecord \<Rightarrow> EvidenceRecord list \<Rightarrow> EvidenceRecord list" where
  "record_evidence hex stamp r rs = (let full = r\<lparr>er_timestamp := stamp\<rparr> in
     rs @ [full\<lparr>er_evidenceHash := evidence_hash hex (stringify (record_json full))\<rparr>])"

section \<open>Summary, outcome, manifest\<close>

record summary_counts =
  sc_total :: nat
  sc_pass :: nat
  sc_fail :: nat
  sc_notReady :: nat

definition summary :: "EvidenceRecord list \<Rightarrow> summary_counts" where
  "summary rs = \<lparr>sc_total = length rs,
     sc_pass = length (filter (\<lambda>r. er_verdict r = PASS) rs),
     sc_fail = length (filter (\<lambda>r. er_verdict r = FAIL) rs),
     sc_notReady = length (filter (\<lambda>r. er_verdict r = NOT_READY) rs)\<rparr>"

definition outcome :: "EvidenceRecord list \<Rightarrow> Verdict" where
  "outcome rs = (let s = summary rs in
     if 0 < sc_fail s then FAIL else if 0 < sc_notReady s then NOT_READY else PASS)"

record Manifest =
  mf_runId :: string
  mf_recordHashes :: "string list"
  mf_rootHash :: string

definition manifest :: "(string \<Rightarrow> string) \<Rightarrow> string \<Rightarrow> EvidenceRecord list \<Rightarrow> Manifest" where
  "manifest hex runId rs = (let recordHashes = map er_evidenceHash rs in
     \<lparr>mf_runId = runId, mf_recordHashes = recordHashes, mf_rootHash = evidence_hash hex (join ''|'' recordHashes)\<rparr>)"

section \<open>Checks\<close>

text \<open>Node's crypto: the hash, the key parser, Ed25519, base64. \<open>Inl\<close> is the message of the error thrown.\<close>

record auditor =
  hexDigest :: "string \<Rightarrow> string"
  createPublicKey :: "json \<Rightarrow> string + string"
  edVerify :: "string \<Rightarrow> string \<Rightarrow> string \<Rightarrow> string + bool"
  fromBase64 :: "json \<Rightarrow> string + string"
  toBase64 :: "string \<Rightarrow> string"

text \<open>The map is a list, the last pair first; key identifiers are compared by value.\<close>

definition jwksByKeyId :: "json list \<Rightarrow> (json \<times> json) list res" where
  "jwksByKeyId ks = bind_r (map_r (\<lambda>k. bind_r (dot k ''keyId'') (\<lambda>i. Inr (i, k))) ks) (\<lambda>ps. Inr (rev ps))"

definition verifyArtifact :: "auditor \<Rightarrow> string \<Rightarrow> ArtifactSignature option \<Rightarrow> (json \<times> json) list \<Rightarrow> bool \<times> string" where
  "verifyArtifact a canonicalBytes signature jwks = (case signature of None \<Rightarrow> (False, ''no signature present'')
     | Some g \<Rightarrow> (case map_of jwks (xs_keyId g) of
         None \<Rightarrow> (False, ''keyId '' @ js_string (xs_keyId g) @ '' not in JWKS'')
       | Some key \<Rightarrow> if \<not> js_truth key then (False, ''keyId '' @ js_string (xs_keyId g) @ '' not in JWKS'')
           else (case createPublicKey a (opt_dot key ''publicKeyPem'') of Inl m \<Rightarrow> (False, m)
             | Inr pub \<Rightarrow> (case fromBase64 a (xs_value g) of Inl m \<Rightarrow> (False, m)
               | Inr sig \<Rightarrow> (case edVerify a pub canonicalBytes sig of Inl m \<Rightarrow> (False, m)
                 | Inr ok \<Rightarrow> (ok, if ok then ''verified vs '' @ js_string (xs_keyId g) else ''signature mismatch''))))))"

text \<open>The member of the file that turns a parsed object back into the bytes a signature covers.\<close>

definition canonicalOf :: "json \<Rightarrow> string" where
  "canonicalOf v = canonicalize v"

record supply_check =
  su_ok :: bool
  su_circulatingMinor :: "string option"
  su_note :: string

definition ellipsis :: string where
  "ellipsis = [CHR 0xE2, CHR 0x80, CHR 0xA6]"

definition readOnChainSupplyMinor ::
  "(string \<Rightarrow> stellar_sdk) \<Rightarrow> (err \<Rightarrow> string) \<Rightarrow> env \<Rightarrow> string \<Rightarrow> string \<Rightarrow> string \<Rightarrow> int \<Rightarrow> supply_check" where
  "readOnChainSupplyMinor server message e horizonUrl assetCode issuer decs =
     (case getSupply (server horizonUrl) e assetCode issuer decs of
       Inl x \<Rightarrow> \<lparr>su_ok = False, su_circulatingMinor = None, su_note = message x\<rparr>
     | Inr s \<Rightarrow> \<lparr>su_ok = True, su_circulatingMinor = Some (ss_circulatingMinor s),
         su_note = ''read '' @ assetCode @ '':'' @ take 6 issuer @ ellipsis @ '' on '' @ horizonUrl\<rparr>)"

section \<open>The report\<close>

text \<open>Per control objective, the records of each verdict. The map keeps insertion order.\<close>

fun tally :: "string \<Rightarrow> Verdict \<Rightarrow> (string \<times> nat \<times> nat \<times> nat) list \<Rightarrow> (string \<times> nat \<times> nat \<times> nat) list" where
  "tally co v [] = [(co, if v = PASS then 1 else 0, if v = FAIL then 1 else 0, if v = NOT_READY then 1 else 0)]"
| "tally co v ((c, p, f, n) # cs) = (if c = co
     then (c, if v = PASS then p + 1 else p, if v = FAIL then f + 1 else f, if v = NOT_READY then n + 1 else n) # cs
     else (c, p, f, n) # tally co v cs)"

definition coverage :: "EvidenceRecord list \<Rightarrow> (string \<times> nat \<times> nat \<times> nat) list" where
  "coverage rs = foldl (\<lambda>cs r. foldl (\<lambda>cs co. tally co (er_verdict r) cs) cs (er_controlObjective r)) [] rs"

text \<open>The rows are sorted by their string form, \<open>"CO-1,[object Object]"\<close>.\<close>

definition coverage_rows :: "EvidenceRecord list \<Rightarrow> (string \<times> Verdict) list" where
  "coverage_rows rs = map (\<lambda>(_, co, p, f, n). (co, if 0 < f then FAIL else if 0 < n then NOT_READY else PASS))
     (sort_members (map (\<lambda>(co, c). (co @ '',[object Object]'', co, c)) (coverage rs)))"

definition esc_char :: "char \<Rightarrow> string" where
  "esc_char c = (if c = CHR ''&'' then ''&amp;'' else if c = CHR ''<'' then ''&lt;'' else if c = CHR ''>'' then ''&gt;'' else [c])"

definition esc :: "json \<Rightarrow> string" where
  "esc v = concat (map esc_char (if nullish v then [] else js_string v))"

section \<open>The summary partitions the records\<close>

lemma verdict_cases: "v = PASS \<or> v = FAIL \<or> v = NOT_READY"
  by (cases v) simp_all

lemma summary_partition: "sc_total (summary rs) = sc_pass (summary rs) + sc_fail (summary rs) + sc_notReady (summary rs)"
proof (induction rs)
  case (Cons r rs)
  then show ?case by (cases "er_verdict r") (simp_all add: summary_def)
qed (simp add: summary_def)

lemma outcome_PASS: "outcome rs = PASS \<longleftrightarrow> (\<forall>r \<in> set rs. er_verdict r = PASS)"
proof -
  have "outcome rs = PASS \<longleftrightarrow> (\<forall>r \<in> set rs. er_verdict r \<noteq> FAIL \<and> er_verdict r \<noteq> NOT_READY)"
    by (auto simp: outcome_def summary_def Let_def filter_empty_conv)
  also have "\<dots> \<longleftrightarrow> (\<forall>r \<in> set rs. er_verdict r = PASS)" by (metis Verdict.exhaust Verdict.distinct(1,3))
  finally show ?thesis .
qed

lemma outcome_FAIL: "outcome rs = FAIL \<longleftrightarrow> (\<exists>r \<in> set rs. er_verdict r = FAIL)"
  by (auto simp: outcome_def summary_def Let_def filter_empty_conv)

section \<open>The manifest determines the records\<close>

lemma takeWhile_front: "d \<notin> set x \<Longrightarrow> takeWhile (\<lambda>c. c \<noteq> d) (x @ (if e then [] else d # r)) = x"
  by (induction x) auto

lemma join_inj:
  assumes "join [d] xs = join [d] ys" and "\<forall>x \<in> set xs. d \<notin> set x \<and> x \<noteq> []" and "\<forall>y \<in> set ys. d \<notin> set y \<and> y \<noteq> []"
  shows "xs = ys"
  using assms
proof (induction xs arbitrary: ys)
  case Nil
  then show ?case by (cases ys; cases "tl ys") auto
next
  case (Cons x xs)
  then obtain y ys' where ys: "ys = y # ys'" by (cases ys) (cases xs; auto)+
  have step: "join [d] (z # zs) = z @ (if zs = [] then [] else d # join [d] zs)" for z zs
    by (cases zs) simp_all
  from Cons.prems ys have eq: "x @ (if xs = [] then [] else d # join [d] xs) = y @ (if ys' = [] then [] else d # join [d] ys')"
    by (simp only: step)
  have dx: "d \<notin> set x" and dy: "d \<notin> set y" using Cons.prems ys by auto
  have "takeWhile (\<lambda>c. c \<noteq> d) (x @ (if xs = [] then [] else d # join [d] xs)) = x" "takeWhile (\<lambda>c. c \<noteq> d) (y @ (if ys' = [] then [] else d # join [d] ys')) = y"
    by (rule takeWhile_front [OF dx], rule takeWhile_front [OF dy])
  with eq have xy: "x = y" by simp
  with eq have rest: "(if xs = [] then [] else d # join [d] xs) = (if ys' = [] then [] else d # join [d] ys')" by simp
  then have "xs = [] \<longleftrightarrow> ys' = []" by (auto split: if_splits)
  moreover have "xs = ys'" if "xs \<noteq> []"
    using Cons.IH [of ys'] Cons.prems ys rest that calculation by auto
  ultimately show ?case using xy ys by auto
qed

text \<open>The texts that are hashed for a pack; a hash that collides on none of them identifies the pack.\<close>

definition sealed :: "(string \<Rightarrow> string) \<Rightarrow> EvidenceRecord list \<Rightarrow> bool" where
  "sealed hex rs = list_all (\<lambda>r. er_evidenceHash r = evidence_hash hex (stringify (record_json r))) rs"

definition pack_texts :: "EvidenceRecord list \<Rightarrow> string list" where
  "pack_texts rs = join ''|'' (map er_evidenceHash rs) # map (\<lambda>r. stringify (record_json r)) rs"

definition no_collision :: "(string \<Rightarrow> string) \<Rightarrow> string list \<Rightarrow> bool" where
  "no_collision hex ts = list_all (\<lambda>t. CHR ''|'' \<notin> set (hex t) \<and> list_all (\<lambda>u. hex t = hex u \<longrightarrow> t = u) ts) ts"

lemma no_collisionD:
  assumes "no_collision hex ts"
  shows "t \<in> set ts \<Longrightarrow> CHR ''|'' \<notin> set (hex t)"
    and "t \<in> set ts \<Longrightarrow> u \<in> set ts \<Longrightarrow> hex t = hex u \<Longrightarrow> t = u"
  using assms unfolding no_collision_def by (simp_all add: list_all_iff)

lemma record_json_hash [simp]: "record_json (r\<lparr>er_evidenceHash := h\<rparr>) = record_json r"
  by (simp add: record_json_def)

lemma sealed_record: "sealed hex rs \<Longrightarrow> sealed hex (record_evidence hex stamp r rs)"
  by (simp add: sealed_def record_evidence_def Let_def)

lemma manifest_binds:
  assumes "sealed hex rs" and "sealed hex qs" and "no_collision hex (pack_texts rs @ pack_texts qs)"
    and "mf_rootHash (manifest hex i rs) = mf_rootHash (manifest hex j qs)"
  shows "map (\<lambda>r. stringify (record_json r)) rs = map (\<lambda>r. stringify (record_json r)) qs"
proof -
  let ?t = "\<lambda>r. stringify (record_json r)"
  let ?T = "pack_texts rs @ pack_texts qs"
  note inj = no_collisionD(2) [OF assms(3)] and bar = no_collisionD(1) [OF assms(3)]
  have hashes: "er_evidenceHash r = evidence_hash hex (?t r)" if "r \<in> set rs \<union> set qs" for r
    using assms(1,2) that by (auto simp: sealed_def list_all_iff)
  have texts: "?t r \<in> set ?T" if "r \<in> set rs \<union> set qs" for r using that by (auto simp: pack_texts_def)
  have ok: "CHR ''|'' \<notin> set (er_evidenceHash r) \<and> er_evidenceHash r \<noteq> []" if "r \<in> set rs \<union> set qs" for r
    using hashes [OF that] bar [OF texts [OF that]] by (simp add: evidence_hash_def)
  have "join ''|'' (map er_evidenceHash rs) = join ''|'' (map er_evidenceHash qs)"
    using assms(4) by - (rule inj; simp add: pack_texts_def manifest_def evidence_hash_def Let_def)
  then have eq: "map er_evidenceHash rs = map er_evidenceHash qs" by (rule join_inj) (use ok in auto)
  then have len: "length rs = length qs" by (metis length_map)
  show ?thesis
  proof (rule nth_equalityI)
    fix n assume "n < length (map ?t rs)"
    then have n: "n < length rs" "n < length qs" using len by simp_all
    from eq n have "er_evidenceHash (rs ! n) = er_evidenceHash (qs ! n)" by (metis nth_map)
    with n hashes [of "rs ! n"] hashes [of "qs ! n"] have "hex (?t (rs ! n)) = hex (?t (qs ! n))" by (simp add: evidence_hash_def)
    moreover have "?t (rs ! n) \<in> set ?T" "?t (qs ! n) \<in> set ?T" using n by (simp_all only: texts Un_iff nth_mem simp_thms)
    ultimately have "?t (rs ! n) = ?t (qs ! n)" by (rule inj [rotated 2])
    with n show "map ?t rs ! n = map ?t qs ! n" by simp
  qed (use len in simp)
qed

section \<open>Coverage and escaping\<close>

lemma esc_no_markup: "CHR ''<'' \<notin> set (esc v) \<and> CHR ''>'' \<notin> set (esc v)"
  by (auto simp: esc_def esc_char_def split: if_splits)

definition tallied :: "string \<Rightarrow> (string \<times> nat \<times> nat \<times> nat) list \<Rightarrow> nat \<times> nat \<times> nat" where
  "tallied co cs = (case map_of cs co of None \<Rightarrow> (0, 0, 0) | Some c \<Rightarrow> c)"

lemma tally_counts:
  "tallied c (tally co v cs) = (case tallied c cs of (p, f, n) \<Rightarrow> if c = co
     then (if v = PASS then p + 1 else p, if v = FAIL then f + 1 else f, if v = NOT_READY then n + 1 else n) else (p, f, n))"
  by (induction co v cs rule: tally.induct) (auto simp: tallied_def split: option.splits prod.splits)

lemma tally_keys: "set (map fst (tally co v cs)) = insert co (set (map fst cs))"
  by (induction co v cs rule: tally.induct) auto

lemma tallies_counts:
  assumes "distinct objs"
  shows "tallied c (foldl (\<lambda>cs co. tally co v cs) cs objs) = (case tallied c cs of (p, f, n) \<Rightarrow> if c \<in> set objs
     then (if v = PASS then p + 1 else p, if v = FAIL then f + 1 else f, if v = NOT_READY then n + 1 else n) else (p, f, n))"
  using assms by (induction objs arbitrary: cs) (auto simp: tally_counts split: prod.splits)

text \<open>The row of an objective counts the records that list it, by verdict.\<close>

lemma coverage_counts:
  assumes "list_all (\<lambda>r. distinct (er_controlObjective r)) rs"
  shows "tallied co (coverage rs) = (let cited = filter (\<lambda>r. co \<in> set (er_controlObjective r)) rs in
     (sc_pass (summary cited), sc_fail (summary cited), sc_notReady (summary cited)))"
  using assms
proof (induction rs rule: rev_induct)
  case (snoc r rs)
  have "coverage (rs @ [r]) = foldl (\<lambda>cs co. tally co (er_verdict r) cs) (coverage rs) (er_controlObjective r)"
    by (simp add: coverage_def)
  with snoc show ?case
    by (cases "er_verdict r") (simp_all add: tallies_counts Let_def summary_def split: prod.splits)
qed (simp add: coverage_def tallied_def summary_def Let_def)

end
