(* ===== verification/Audit_Run.thy ===== *)
theory Audit_Run
  imports Evidence Guards Liability
begin

text \<open>
  The end-to-end audit run (\<open>apps/e2e-audit/src\<close>: \<open>config.ts\<close>, \<open>http.ts\<close>, \<open>clients/\<close>, \<open>scenarios.ts\<close>,
  \<open>run.ts\<close>): programs that send requests and append evidence. The answers are a parameter that sees
  all requests sent so far, \<open>JSON.parse\<close> is a parameter, answer headers are left out (nothing reads
  them) and so is writing the pack to disk. The lemmas show that a run only appends sealed evidence,
  when it ends with exit code 0, where it sends which credentials, and what its verdicts do not
  establish.
\<close>

section \<open>Configuration and requests\<close>

record AuditConfig =
  ac_trusteeBase :: string
  ac_paychainBase :: string
  ac_paykhBase :: string
  ac_trusteeBankId :: string
  ac_trusteeBankSecret :: string
  ac_paychainId :: string
  ac_paychainSecret :: string
  ac_paykhId :: string
  ac_paykhSecret :: string
  ac_programId :: string
  ac_loyaltyLiabilityId :: string
  ac_stellarHorizon :: string
  ac_outDir :: string

definition env_or :: "(string \<Rightarrow> string option) \<Rightarrow> string \<Rightarrow> string \<Rightarrow> string" where
  "env_or vars k d = (case vars k of None \<Rightarrow> d | Some v \<Rightarrow> v)"

definition audit_config :: "(string \<Rightarrow> string option) \<Rightarrow> AuditConfig" where
  "audit_config vars = \<lparr>ac_trusteeBase = env_or vars ''TRUSTEE_API_URL'' ''http://127.0.0.1:3999'',
     ac_paychainBase = env_or vars ''PAYCHAIN_API_URL'' [],
     ac_paykhBase = env_or vars ''PAYKH_API_URL'' [],
     ac_trusteeBankId = env_or vars ''TRUSTEE_BANK_CLIENT_ID'' [],
     ac_trusteeBankSecret = env_or vars ''TRUSTEE_BANK_CLIENT_SECRET'' [],
     ac_paychainId = env_or vars ''PAYCHAIN_CLIENT_ID'' [],
     ac_paychainSecret = env_or vars ''PAYCHAIN_CLIENT_SECRET'' [],
     ac_paykhId = env_or vars ''PAYKH_CLIENT_ID'' [],
     ac_paykhSecret = env_or vars ''PAYKH_CLIENT_SECRET'' [],
     ac_programId = env_or vars ''E2E_PROGRAM_ID'' [],
     ac_loyaltyLiabilityId = env_or vars ''E2E_LOYALTY_LIABILITY_ID'' [],
     ac_stellarHorizon = env_or vars ''STELLAR_HORIZON_URL'' ''https://horizon-testnet.stellar.org'',
     ac_outDir = env_or vars ''E2E_OUT_DIR'' []\<rparr>"

record http_request =
  wq_base :: string
  wq_method :: string
  wq_path :: string
  wq_headers :: "(string \<times> string) list"
  wq_body :: "string option"

record HttpResult =
  hs_ok :: bool
  hs_status :: int
  hs_json :: json
  hs_text :: string

text \<open>\<open>web\<close> answers a request (ok, status, text) or throws; it may depend on everything sent before.\<close>

record audit_env =
  au_cfg :: AuditConfig
  au_auditor :: auditor
  au_web :: "http_request list \<Rightarrow> http_request \<Rightarrow> string + (bool \<times> int \<times> string)"
  au_parse :: "string \<Rightarrow> json option"
  au_clock :: "nat \<Rightarrow> string"
  au_now :: int

record audit_st =
  as_sent :: "http_request list"
  as_records :: "EvidenceRecord list"

type_synonym 'a audit_op = "(audit_env, audit_st, 'a) prog"

record Creds =
  cr_base :: string
  cr_clientId :: string
  cr_clientSecret :: string

definition http_call :: "Creds \<Rightarrow> string \<Rightarrow> string \<Rightarrow> json option \<Rightarrow> HttpResult audit_op" where
  "http_call creds meth path body = bnd (asks id) (\<lambda>e. bnd (gets as_sent) (\<lambda>sent.
     let headers = [(''content-type'', ''application/json'')]
           @ (if cr_clientId creds = [] then [] else [(''x-client-id'', cr_clientId creds)])
           @ (if cr_clientSecret creds = [] then [] else [(''x-client-secret'', cr_clientSecret creds)]);
         r = \<lparr>wq_base = cr_base creds, wq_method = meth, wq_path = path, wq_headers = headers,
           wq_body = map_option stringify body\<rparr> in
     seq (modify (\<lambda>s. s\<lparr>as_sent := as_sent s @ [r]\<rparr>))
     (ret (case au_web e sent r of
         Inl m \<Rightarrow> \<lparr>hs_ok = False, hs_status = 0, hs_json = JUndef, hs_text = m\<rparr>
       | Inr (ok, status, t) \<Rightarrow> \<lparr>hs_ok = ok, hs_status = status,
           hs_json = (if t = [] then JUndef else case au_parse e t of None \<Rightarrow> JUndef | Some v \<Rightarrow> v), hs_text = t\<rparr>))))"

section \<open>The clients\<close>

definition bank_creds :: "AuditConfig \<Rightarrow> Creds" where
  "bank_creds c = \<lparr>cr_base = ac_trusteeBase c, cr_clientId = ac_trusteeBankId c, cr_clientSecret = ac_trusteeBankSecret c\<rparr>"

definition paychain_creds :: "AuditConfig \<Rightarrow> Creds" where
  "paychain_creds c = \<lparr>cr_base = ac_trusteeBase c, cr_clientId = ac_paychainId c, cr_clientSecret = ac_paychainSecret c\<rparr>"

definition no_creds :: "string \<Rightarrow> Creds" where
  "no_creds b = \<lparr>cr_base = b, cr_clientId = [], cr_clientSecret = []\<rparr>"

definition with_cfg :: "(AuditConfig \<Rightarrow> 'a audit_op) \<Rightarrow> 'a audit_op" where
  "with_cfg f = bnd (asks au_cfg) f"

definition au_health :: "HttpResult audit_op" where
  "au_health = with_cfg (\<lambda>c. http_call (no_creds (ac_trusteeBase c)) ''GET'' ''/health'' None)"

definition au_jwks :: "HttpResult audit_op" where
  "au_jwks = with_cfg (\<lambda>c. http_call (no_creds (ac_trusteeBase c)) ''GET'' ''/.well-known/trustee-signing-keys'' None)"

definition au_reserveCurrent :: "string \<Rightarrow> HttpResult audit_op" where
  "au_reserveCurrent p = with_cfg (\<lambda>c. http_call (paychain_creds c) ''GET''
     (''/api/v1/paychain/reserves/'' @ p @ ''/current'') None)"

definition au_createPor :: "string \<Rightarrow> HttpResult audit_op" where
  "au_createPor p = with_cfg (\<lambda>c. http_call (paychain_creds c) ''POST''
     (''/api/v1/paychain/proof-of-reserve/'' @ p @ ''/snapshots'') None)"

definition au_latestPor :: "string \<Rightarrow> HttpResult audit_op" where
  "au_latestPor p = with_cfg (\<lambda>c. http_call (paychain_creds c) ''GET''
     (''/api/v1/paychain/proof-of-reserve/'' @ p @ ''/latest'') None)"

definition au_loyaltyList :: "HttpResult audit_op" where
  "au_loyaltyList = with_cfg (\<lambda>c. http_call (bank_creds c) ''GET'' ''/api/v1/bank/loyalty-liabilities'' None)"

definition au_loyaltyReconcile :: "string \<Rightarrow> HttpResult audit_op" where
  "au_loyaltyReconcile i = with_cfg (\<lambda>c. http_call (bank_creds c) ''POST''
     (''/api/v1/bank/loyalty-liabilities/'' @ i @ ''/reconcile'') None)"

definition au_bankReconcile :: "string \<Rightarrow> HttpResult audit_op" where
  "au_bankReconcile p = with_cfg (\<lambda>c. http_call (bank_creds c) ''POST''
     (''/api/v1/bank/reserves/'' @ p @ ''/bank-reconcile'') None)"

definition au_trialBalance :: "string \<Rightarrow> HttpResult audit_op" where
  "au_trialBalance p = with_cfg (\<lambda>c. http_call (bank_creds c) ''GET''
     (''/api/v1/admin/ledger/'' @ p @ ''/trial-balance'') None)"

definition au_audit :: "nat \<Rightarrow> HttpResult audit_op" where
  "au_audit limit = with_cfg (\<lambda>c. http_call (bank_creds c) ''GET'' (''/api/v1/admin/audit?limit='' @ nat_str limit) None)"

definition unsigned_liability :: "string \<Rightarrow> int \<Rightarrow> json" where
  "unsigned_liability p ms = JObj
     [(''programId'', JStr p), (''assetId'', JStr ''AUDIT''), (''assetCode'', JStr ''AUDIT''),
      (''blockchainNetwork'', JStr ''stellar-testnet''), (''issuerAccount'', JStr ''G_AUDIT''),
      (''circulatingMinor'', JStr ''1''), (''treasuryHeldMinor'', JStr ''0''), (''lockedMinor'', JStr ''0''),
      (''pendingMintMinor'', JStr ''0''), (''pendingBurnMinor'', JStr ''0''), (''pendingRedemptionMinor'', JStr ''0''),
      (''confirmedBurnMinor'', JStr ''0''), (''effectiveLiabilityMinor'', JStr ''1''), (''currency'', JStr ''USD''),
      (''ledgerReference'', JStr ''audit''), (''sourceVersion'', JStr ''audit''),
      (''sequence'', JStr (bigint_toString ms)), (''snapshotTimestamp'', JStr ''1970-01-01T00:00:00.000Z'')]"

definition au_postUnsignedLiability :: "string \<Rightarrow> HttpResult audit_op" where
  "au_postUnsignedLiability p = with_cfg (\<lambda>c. bnd (asks au_now) (\<lambda>ms. http_call (paychain_creds c) ''POST''
     ''/api/v1/paychain/liability-snapshots'' (Some (unsigned_liability p ms))))"

definition au_createWallet :: "string \<Rightarrow> HttpResult audit_op" where
  "au_createWallet customerRef = with_cfg (\<lambda>c. http_call (no_creds (ac_paychainBase c)) ''POST'' ''/wallets''
     (Some (JObj [(''customerRef'', JStr customerRef)])))"

definition au_earn :: "string \<Rightarrow> json \<Rightarrow> HttpResult audit_op" where
  "au_earn assetId body = with_cfg (\<lambda>c. http_call (no_creds (ac_paychainBase c)) ''POST''
     (''/assets/'' @ assetId @ ''/earn'') (Some body))"

definition au_purchase :: "json \<Rightarrow> HttpResult audit_op" where
  "au_purchase body = with_cfg (\<lambda>c. http_call (no_creds (ac_paykhBase c)) ''POST'' ''/purchases'' (Some body))"

definition au_awardPoints :: "json \<Rightarrow> HttpResult audit_op" where
  "au_awardPoints body = with_cfg (\<lambda>c. http_call (no_creds (ac_paykhBase c)) ''POST'' ''/loyalty/award'' (Some body))"

section \<open>Recording\<close>

definition evidence :: "string \<Rightarrow> string \<Rightarrow> string list \<Rightarrow> string \<Rightarrow> json \<Rightarrow> Verdict \<Rightarrow> EvidenceRecord" where
  "evidence testId title objectives platform detail verdict = \<lparr>er_testId = testId, er_title = title,
     er_controlObjective = objectives, er_platform = platform, er_detail = detail, er_artifact = None,
     er_independentCheck = None, er_verdict = verdict, er_timestamp = [], er_evidenceHash = []\<rparr>"

definition with_check :: "string \<Rightarrow> Verdict \<Rightarrow> string option \<Rightarrow> EvidenceRecord \<Rightarrow> EvidenceRecord" where
  "with_check how result note r = r\<lparr>er_independentCheck := Some \<lparr>ic_method = how, ic_result = result, ic_note = note\<rparr>\<rparr>"

definition rec_record :: "EvidenceRecord \<Rightarrow> unit audit_op" where
  "rec_record r = bnd (asks id) (\<lambda>e. modify (\<lambda>s. s\<lparr>as_records :=
     record_evidence (hexDigest (au_auditor e)) (au_clock e (Suc (length (as_records s)))) r (as_records s)\<rparr>))"

definition note_json :: "string \<Rightarrow> json" where
  "note_json t = JObj [(''note'', JStr t)]"

definition status_json :: "HttpResult \<Rightarrow> json" where
  "status_json r = JObj [(''status'', JNum (hs_status r))]"

definition pass_if :: "bool \<Rightarrow> Verdict" where
  "pass_if b = (if b then PASS else FAIL)"

text \<open>The arrow, the dash and the section sign of the titles, in UTF-8.\<close>

definition arrow :: string where "arrow = [CHR 0xE2, CHR 0x86, CHR 0x92]"
definition dash :: string where "dash = [CHR 0xE2, CHR 0x80, CHR 0x94]"
definition section_sign :: string where "section_sign = [CHR 0xC2, CHR 0xA7]"

section \<open>The happy path\<close>

definition stage_purchase :: "unit audit_op" where
  "stage_purchase = with_cfg (\<lambda>c. let mk = evidence ''E2E-01.S1'' (''Customer purchase '' @ arrow @ '' paid'') [''CO-6'', ''CO-9''] ''paykh'' in
     if ac_paykhBase c \<noteq> []
     then bnd (au_purchase (JObj [(''amountMinor'', JStr ''4000000''), (''currency'', JStr ''KHR'')])) (\<lambda>r.
       rec_record (mk (status_json r) (pass_if (hs_ok r))))
     else rec_record (mk (note_json ''PAYKH_API_URL not configured'') NOT_READY))"

definition stage_points :: "unit audit_op" where
  "stage_points = with_cfg (\<lambda>c. rec_record (evidence ''E2E-01.S2'' ''Award local loyalty points'' [''CO-7''] ''paykh''
     (note_json (if ac_paykhBase c \<noteq> [] then ''awarded'' else ''PAYKH_API_URL not configured''))
     (if ac_paykhBase c \<noteq> [] then PASS else NOT_READY)))"

definition stage_issue :: "unit audit_op" where
  "stage_issue = with_cfg (\<lambda>c. let s3 = evidence ''E2E-01.S3'' ''On-chain wallet created'' [''CO-4''] ''paychain'';
       s4 = evidence ''E2E-01.S4'' ''Stablecoin mint (/assets/{id}/earn)'' [''CO-2'', ''CO-4''] ''paychain'';
       off = note_json ''PAYCHAIN_API_URL not configured'' in
     if ac_paychainBase c \<noteq> []
     then bnd (au_createWallet ''cus_audit'') (\<lambda>w.
       seq (rec_record (s3 (status_json w) (pass_if (hs_ok w))))
       (bnd (au_earn ''AUDIT_ASSET'' (JObj [(''amountMinor'', JStr ''4000000'')])) (\<lambda>m.
       rec_record (s4 (JObj [(''status'', JNum (hs_status m)), (''body'', nvl (hs_json m) (JStr (take 120 (hs_text m))))])
         (pass_if (hs_ok m))))))
     else seq (rec_record (s3 off NOT_READY)) (rec_record (s4 off NOT_READY)))"

text \<open>\<open>bigGte\<close> throws when a figure is not an integer.\<close>

definition bigGte :: "json \<Rightarrow> json \<Rightarrow> bool res" where
  "bigGte a b = bind_r (js_BigInt a) (\<lambda>x. bind_r (js_BigInt b) (\<lambda>y. Inr (y \<le> x)))"

text \<open>What S5 makes of the answer: its verdict and detail.\<close>

definition judge_posture :: "HttpResult \<Rightarrow> (Verdict \<times> json) res" where
  "judge_posture pos = (if hs_ok pos \<and> js_truth (hs_json pos)
     then let j = hs_json pos;
         elig = nvl (opt_dot (opt_dot j ''eligibleReserve'') ''minor'') (JStr ''0'');
         oblig = nvl (opt_dot (opt_dot j ''reserveObligation'') ''minor'') (JStr ''0'') in
       bind_r (bigGte elig oblig) (\<lambda>fullyReserved.
       Inr (pass_if fullyReserved, JObj [(''eligibleReserveMinor'', elig), (''reserveObligationMinor'', oblig),
         (''reserveRatioBps'', opt_dot j ''reserveRatioBps''), (''fullyReserved'', JBool fullyReserved)]))
     else Inr (FAIL, status_json pos))"

definition balanced :: "HttpResult \<Rightarrow> bool" where
  "balanced tb = js_truth (opt_dot (opt_dot (hs_json tb) ''totals'') ''balanced'')"

definition totals_json :: "HttpResult \<Rightarrow> json" where
  "totals_json tb = JObj [(''totals'', opt_dot (hs_json tb) ''totals'')]"

definition stage_posture :: "unit audit_op" where
  "stage_posture = with_cfg (\<lambda>c. let s5 = evidence ''E2E-01.S5'' (''Reserve posture '' @ dash @ '' fully reserved'') [''CO-1'', ''CO-2''] ''trustee'' in
     if ac_programId c \<noteq> []
     then bnd (au_reserveCurrent (ac_programId c)) (\<lambda>pos.
       bnd (lift_r (judge_posture pos)) (\<lambda>(verdict, detail).
       seq (rec_record (with_check ''eligible>=obligation'' verdict None (s5 detail verdict)))
       (bnd (au_trialBalance (ac_programId c)) (\<lambda>tb.
       rec_record (with_check ''sum(debits)==sum(credits)'' (pass_if (balanced tb)) None
         (evidence ''E2E-01.S5b'' ''Ledger in balance (double-entry)'' [''CO-8''] ''trustee'' (totals_json tb) (pass_if (balanced tb))))))))
     else rec_record (s5 (note_json ''E2E_PROGRAM_ID not set'') NOT_READY))"

definition snapshot_signature :: "json \<Rightarrow> ArtifactSignature" where
  "snapshot_signature s = (let g = opt_dot s ''signature''; alg = opt_dot g ''algorithm'' in
     \<lparr>xs_keyId = opt_dot g ''keyId'', xs_alg = (if js_truth alg then alg else JStr ''ed25519''), xs_value = opt_dot g ''value''\<rparr>)"

definition stage_snapshot :: "unit audit_op" where
  "stage_snapshot = with_cfg (\<lambda>c. let s6 = evidence ''E2E-01.S6'' ''Signed proof-of-reserve snapshot'' [''CO-3''] ''trustee'' in
     if ac_programId c = [] then ret ()
     else seq (au_createPor (ac_programId c)) (bnd (au_latestPor (ac_programId c)) (\<lambda>latest.
       let s = hs_json latest in
       if hs_ok latest \<and> js_truth (opt_dot s ''signature'')
       then rec_record ((s6 (JObj [(''snapshotId'', opt_dot s ''snapshotId''),
             (''reconciliationStatus'', opt_dot s ''reconciliationStatus''), (''reserveRatioBps'', opt_dot s ''reserveRatioBps'')])
           (if opt_dot s ''reconciliationStatus'' = JStr ''SHORTFALL'' then FAIL else PASS))
           \<lparr>er_artifact := Some \<lparr>af_type = ''RESERVE_SNAPSHOT'', af_canonical = stringify s,
             af_signature = Some (snapshot_signature s)\<rparr>\<rparr>)
       else rec_record (s6 (status_json latest) FAIL))))"

fun find_first :: "('a \<Rightarrow> bool res) \<Rightarrow> 'a list \<Rightarrow> 'a option res" where
  "find_first p [] = Inr None"
| "find_first p (x # xs) = bind_r (p x) (\<lambda>b. if b then Inr (Some x) else find_first p xs)"

text \<open>\<open>find\<close> exists on arrays only.\<close>

definition loyalty_target :: "AuditConfig \<Rightarrow> HttpResult \<Rightarrow> json option res" where
  "loyalty_target c loy = (case nvl (opt_dot (hs_json loy) ''liabilities'') (JArr []) of
       JArr ls \<Rightarrow> if ac_loyaltyLiabilityId c \<noteq> []
         then find_first (\<lambda>l. bind_r (dot l ''id'') (\<lambda>i. Inr (i = JStr (ac_loyaltyLiabilityId c)))) ls
         else find_first (\<lambda>l. bind_r (dot l ''stellar'') (\<lambda>v. Inr (js_truth v))) ls
     | _ \<Rightarrow> Inl TypeError)"

definition judge_chain :: "HttpResult \<Rightarrow> Verdict" where
  "judge_chain rc = (if opt_dot (hs_json rc) ''onChainVerified'' \<noteq> JBool True then NOT_READY
     else if opt_dot (hs_json rc) ''reconciliationStatus'' = JStr ''DRIFT'' then FAIL else PASS)"

definition stage_chain :: "unit audit_op" where
  "stage_chain = with_cfg (\<lambda>c. let s7 = evidence ''E2E-01.S7'' ''Independent on-chain verification (supply==liability)'' [''CO-4'', ''CO-10''] ''trustee'' in
     bnd au_loyaltyList (\<lambda>loy. bnd (lift_r (loyalty_target c loy)) (\<lambda>target.
     case target of
       Some l \<Rightarrow> bnd (au_loyaltyReconcile (js_string (opt_dot l ''id''))) (\<lambda>rc.
         rec_record (with_check ''read testnet Horizon vs ledger'' (judge_chain rc)
           (if opt_dot (hs_json rc) ''onChainVerified'' = JBool True then None else Some ''no on-chain binding / no supply to verify'')
           (s7 (nvl (hs_json rc) (status_json rc)) (judge_chain rc))))
     | None \<Rightarrow> rec_record (s7 (note_json (''no loyalty stablecoin bound with a Stellar asset '' @ dash
           @ '' nothing to verify (see gaps '' @ section_sign @ ''9)'')) NOT_READY))))"

text \<open>
  The keys of an answer: what \<open>keys.length\<close>, \<open>for (const k of keys)\<close> and \<open>keys.map\<close> do with it. A
  string has a length and can be iterated, but only an array has \<open>map\<close>.
\<close>

definition answer_keys :: "HttpResult \<Rightarrow> json" where
  "answer_keys r = nvl (opt_dot (hs_json r) ''keys'') (JArr [])"

fun iterate :: "json \<Rightarrow> json list res" where
  "iterate (JArr vs) = Inr vs"
| "iterate (JStr s) = Inr (map (\<lambda>c. JStr [c]) s)"
| "iterate v = Inl TypeError"

fun array_of :: "json \<Rightarrow> json list res" where
  "array_of (JArr vs) = Inr vs"
| "array_of v = Inl TypeError"

definition check_keys :: "auditor \<Rightarrow> json \<Rightarrow> (json list \<times> bool) res" where
  "check_keys a v = bind_r (iterate v) (\<lambda>ks. bind_r (map_r (\<lambda>k. dot k ''purpose'') ks) (\<lambda>purposes.
     Inr (purposes, list_all (\<lambda>k. (case createPublicKey a (opt_dot k ''publicKeyPem'') of Inl _ \<Rightarrow> False | Inr _ \<Rightarrow> True)) ks)))"

definition snapshot_record :: "EvidenceRecord list \<Rightarrow> EvidenceRecord option" where
  "snapshot_record rs = find (\<lambda>r. er_testId r = ''E2E-01.S6'' \<and> er_artifact r \<noteq> None) rs"

definition verify_snapshot :: "json \<Rightarrow> unit audit_op" where
  "verify_snapshot ks = bnd (asks au_auditor) (\<lambda>a. bnd (gets (\<lambda>s. snapshot_record (as_records s))) (\<lambda>s6.
     case Option.bind s6 er_artifact of
       Some art \<Rightarrow> (case af_signature art of
         Some g \<Rightarrow> bnd (lift_r (bind_r (array_of ks) jwksByKeyId)) (\<lambda>jwks.
           let (ok, note) = verifyArtifact a (af_canonical art) (Some g) jwks; verdict = (if ok then PASS else NOT_READY) in
           rec_record (with_check ''Ed25519 verify over served bytes'' verdict
             (if ok then None else Some ''FINDING: expose exact signed canonical bytes in the read API for offline regulator re-verification'')
             (evidence ''E2E-01.S8b'' ''Reserve snapshot signature verifies vs JWKS'' [''CO-3''] ''auditor''
               (JObj [(''keyId'', xs_keyId g), (''note'', JStr note)]) verdict)))
       | None \<Rightarrow> ret ())
     | None \<Rightarrow> ret ()))"

definition stage_keys :: "unit audit_op" where
  "stage_keys = bnd (asks au_auditor) (\<lambda>a. bnd au_jwks (\<lambda>jwks.
     let ks = answer_keys jwks; n = opt_dot ks ''length'' in
     if \<not> js_truth n
     then rec_record (evidence ''E2E-01.S8'' ''Trustee JWKS published & verifiable'' [''CO-3'', ''CO-11''] ''auditor''
       (JObj [(''status'', JNum (hs_status jwks)), (''note'', JStr ''JWKS not returned (docs-gated in prod, or unreachable)'')]) NOT_READY)
     else bnd (lift_r (check_keys a ks)) (\<lambda>(purposes, allValid).
       seq (rec_record (with_check ''parse each publicKeyPem'' (pass_if allValid) None
         (evidence ''E2E-01.S8'' ''Trustee JWKS published & keys valid Ed25519'' [''CO-3'', ''CO-11''] ''auditor''
           (JObj [(''keyCount'', n), (''purposes'', JArr purposes)]) (pass_if allValid))))
       (verify_snapshot ks))))"

definition runE2E01 :: "unit audit_op" where
  "runE2E01 = seq stage_purchase (seq stage_points (seq stage_issue (seq stage_posture (seq stage_snapshot
     (seq stage_chain stage_keys)))))"

section \<open>The control tests\<close>

definition control_unsigned_feed :: "unit audit_op" where
  "control_unsigned_feed = with_cfg (\<lambda>c. let c06 = evidence ''C-06'' ''Unsigned liability feed rejected'' [''CO-11''] ''trustee'' in
     if ac_programId c = [] then ret ()
     else bnd (au_postUnsignedLiability (ac_programId c)) (\<lambda>r.
       if hs_status r = 400
       then rec_record (c06 (JObj [(''status'', JNum (hs_status r)), (''message'', opt_dot (hs_json r) ''message'')]) PASS)
       else rec_record (c06 (JObj [(''status'', JNum (hs_status r)),
         (''note'', JStr (''accepted '' @ dash @ '' liability.signature.required is OFF (demo-trust). Enable + set PAYCHAIN_LIABILITY_PUBLIC_KEY.''))]) NOT_READY)))"

definition control_tamper :: "unit audit_op" where
  "control_tamper = bnd (asks au_auditor) (\<lambda>a. bnd au_jwks (\<lambda>jwks.
     let ks = answer_keys jwks; c07 = evidence ''C-07'' ''Artifact tamper detection'' [''CO-3'', ''CO-11''] ''auditor'' in
     if js_truth (opt_dot ks ''length'')
     then bnd (lift_r (bind_r (array_of ks) (\<lambda>vs. bind_r (jwksByKeyId vs) (\<lambda>m. Inr (hd vs, m))))) (\<lambda>(k, m).
       let (ok, note) = verifyArtifact a (''{'' @ quote ''tampered'' @ '':true}'') (Some \<lparr>xs_keyId = opt_dot k ''keyId'', xs_alg = JUndef,
             xs_value = JStr (toBase64 a ''not-a-valid-signature'')\<rparr>) m;
           verdict = (if ok then FAIL else PASS) in
       rec_record (with_check ''Ed25519 verify tampered'' verdict (Some note)
         (c07 (note_json ''verify tampered bytes against a real key'') verdict)))
     else rec_record (c07 (note_json ''JWKS unavailable (may be docs-gated in prod)'') NOT_READY)))"

definition judge_banks :: "HttpResult \<Rightarrow> Verdict" where
  "judge_banks r = (let v = opt_dot (hs_json r) ''reconciled'' in
     if \<not> hs_ok r then FAIL else if v = JBool True then PASS else if v = JBool False then FAIL else NOT_READY)"

definition control_banks :: "unit audit_op" where
  "control_banks = with_cfg (\<lambda>c. if ac_programId c = [] then ret ()
     else bnd (au_bankReconcile (ac_programId c)) (\<lambda>r. let field = (\<lambda>k. (k, opt_dot (hs_json r) k)) in
       rec_record (with_check ''ledger cash vs summed bank balances'' (judge_banks r) None
         (evidence ''C-08'' ''Multi-bank reconciliation'' [''CO-1'', ''CO-8''] ''trustee''
           (JObj (map field [''ledgerCashMinor'', ''bankTotalMinor'', ''driftMinor'', ''reconciled'', ''accountsCovered'', ''accountsUncovered'']))
           (judge_banks r)))))"

definition control_ledger :: "unit audit_op" where
  "control_ledger = with_cfg (\<lambda>c. if ac_programId c = [] then ret ()
     else bnd (au_trialBalance (ac_programId c)) (\<lambda>tb.
       rec_record (evidence ''C-09'' ''Ledger balance invariant'' [''CO-8''] ''trustee'' (totals_json tb) (pass_if (balanced tb)))))"

definition control_trail :: "unit audit_op" where
  "control_trail = bnd (au_audit 50) (\<lambda>au.
     bnd (lift_r (bind_r (array_of (nvl (opt_dot (hs_json au) ''logs'') (JArr []))) (\<lambda>logs.
       bind_r (map_r (\<lambda>l. dot l ''action'') (take 5 logs)) (\<lambda>actions. Inr (logs, actions))))) (\<lambda>(logs, actions).
     rec_record (evidence ''C-12'' ''Audit trail present & immutable'' [''CO-7''] ''trustee''
       (JObj [(''entries'', JNum (int (length logs))), (''sampleActions'', JArr actions)])
       (if 0 < length logs then PASS else NOT_READY))))"

definition pending_controls :: "(string \<times> string \<times> string list) list" where
  "pending_controls = [(''C-01'', ''Under-reserve blocks mint'', [''CO-2'', ''CO-10'']),
     (''C-02'', ''Self-approval blocked (SoD '' @ section_sign @ ''9)'', [''CO-5'']),
     (''C-03'', ''Unverified merchant blocked'', [''CO-6'']),
     (''C-04'', ''Idempotent payment & mint'', [''CO-9'']),
     (''C-05'', ''On-chain/ledger drift detection'', [''CO-4'', ''CO-10'']),
     (''C-10'', ''Burn reduces supply + liability'', [''CO-2'', ''CO-4'']),
     (''C-11'', ''Full-reserve at all times'', [''CO-2''])]"

fun record_pending :: "(string \<times> string \<times> string list) list \<Rightarrow> unit audit_op" where
  "record_pending [] = ret ()"
| "record_pending ((i, title, objectives) # cs) = seq (rec_record (evidence i title objectives ''auditor''
     (note_json (''requires live PayKH/PayChain or a seeded mint/redeem fixture '' @ dash @ '' pending platform readiness'')) NOT_READY))
     (record_pending cs)"

definition runControls :: "unit audit_op" where
  "runControls = seq control_unsigned_feed (seq control_tamper (seq control_banks (seq control_ledger
     (seq control_trail (record_pending pending_controls)))))"

section \<open>The run\<close>

record RunMeta =
  rm_runId :: string
  rm_startedAt :: string
  rm_finishedAt :: string
  rm_outcome :: Verdict
  rm_summary :: summary_counts
  rm_manifest :: Manifest
  rm_env :: "string list"

text \<open>\<open>args.includes(a)\<close>; the word after \<open>--only\<close> is undefined when it comes last.\<close>

definition only_arg :: "string list \<Rightarrow> string" where
  "only_arg args = (if ''--only'' \<in> set args then (case tl (dropWhile (\<lambda>a. a \<noteq> ''--only'') args) of [] \<Rightarrow> [] | a # _ \<Rightarrow> a) else [])"

definition run_id :: "string \<Rightarrow> string" where
  "run_id startedAt = ''e2e-'' @ map (\<lambda>c. if c = CHR '':'' \<or> c = CHR ''.'' then CHR ''-'' else c) startedAt"

definition preflight :: "unit audit_op" where
  "preflight = bnd au_health (\<lambda>h. rec_record (evidence ''PRE-01'' ''Trustee reachable'' [''CO-1''] ''trustee''
     (JObj [(''status'', JNum (hs_status h)), (''body'', hs_json h)]) (if hs_ok h then PASS else NOT_READY)))"

definition run_scenarios :: "string list \<Rightarrow> unit audit_op" where
  "run_scenarios args = seq preflight
     (seq (if \<not> ''--controls-only'' \<in> set args \<and> (only_arg args = [] \<or> only_arg args = ''E2E-01'') then runE2E01 else ret ())
     (if only_arg args = [] \<or> only_arg args = ''controls'' then runControls else ret ()))"

definition audit_main :: "string list \<Rightarrow> RunMeta audit_op" where
  "audit_main args = bnd (asks id) (\<lambda>e. let startedAt = au_clock e 0; c = au_cfg e in
     seq (run_scenarios args) (bnd (gets as_records) (\<lambda>rs.
     ret \<lparr>rm_runId = run_id startedAt, rm_startedAt = startedAt, rm_finishedAt = au_clock e (Suc (length rs)),
       rm_outcome = outcome rs, rm_summary = summary rs,
       rm_manifest = manifest (hexDigest (au_auditor e)) (run_id startedAt) rs,
       rm_env = [ac_trusteeBase c, ac_paychainBase c, ac_paykhBase c, ac_stellarHorizon c]\<rparr>)))"

definition exit_code :: "RunMeta res \<Rightarrow> int" where
  "exit_code r = (case r of Inl _ \<Rightarrow> 1
     | Inr m \<Rightarrow> (case rm_outcome m of PASS \<Rightarrow> 0 | NOT_READY \<Rightarrow> 2 | FAIL \<Rightarrow> 1))"

definition fresh :: audit_st where
  "fresh = \<lparr>as_sent = [], as_records = []\<rparr>"

section \<open>Traces\<close>

text \<open>What a program adds: requests that satisfy \<open>P\<close> and records that satisfy \<open>Q\<close>, nothing else.\<close>

definition adds :: "(http_request \<Rightarrow> bool) \<Rightarrow> (EvidenceRecord \<Rightarrow> bool) \<Rightarrow> audit_env \<Rightarrow> 'a audit_op \<Rightarrow> bool" where
  "adds P Q e m \<longleftrightarrow> (\<forall>s. \<exists>reqs recs. snd (m e s) = \<lparr>as_sent = as_sent s @ reqs, as_records = as_records s @ recs\<rparr>
     \<and> list_all P reqs \<and> list_all Q recs)"

named_theorems adds_intros \<open>what audit programs add\<close>

lemma adds_pure:
  "(\<And>s. snd (m e s) = s) \<Longrightarrow> adds P Q e m"
  unfolding adds_def by (auto intro!: exI [of _ "[]"])

lemma adds_basic [adds_intros]: "adds P Q e (ret a)" "adds P Q e (lift_r r)"
  by (rule adds_pure; simp add: prog_simps)+

lemma adds_bnd [adds_intros]:
  assumes "adds P Q e m" and "\<And>a. adds P Q e (f a)"
  shows "adds P Q e (bnd m f)"
  unfolding adds_def
proof
  fix s
  from assms(1) [unfolded adds_def, rule_format, of s] obtain q r where
    m: "snd (m e s) = \<lparr>as_sent = as_sent s @ q, as_records = as_records s @ r\<rparr>" "list_all P q" "list_all Q r" by blast
  show "\<exists>reqs recs. snd (bnd m f e s) = \<lparr>as_sent = as_sent s @ reqs, as_records = as_records s @ recs\<rparr>
     \<and> list_all P reqs \<and> list_all Q recs"
  proof (cases "m e s")
    case (Pair v s1)
    show ?thesis
    proof (cases v)
      case (Inl x)
      with Pair m show ?thesis by (auto simp: bnd_def)
    next
      case (Inr b)
      from assms(2) [of b, unfolded adds_def, rule_format, of s1] obtain q' r' where
        "snd (f b e s1) = \<lparr>as_sent = as_sent s1 @ q', as_records = as_records s1 @ r'\<rparr>" "list_all P q'" "list_all Q r'" by blast
      with Inr Pair m show ?thesis by (intro exI [of _ "q @ q'"] exI [of _ "r @ r'"]) (simp add: bnd_def)
    qed
  qed
qed

lemma adds_seq [adds_intros]: "adds P Q e m \<Longrightarrow> adds P Q e n \<Longrightarrow> adds P Q e (seq m n)"
  by (simp add: seq_def adds_bnd)

lemma adds_asks [adds_intros]: "adds P Q e (f (g e)) \<Longrightarrow> adds P Q e (bnd (asks g) f)"
  by (simp add: adds_def bnd_def asks_def)

lemma adds_with_cfg [adds_intros]: "adds P Q e (f (au_cfg e)) \<Longrightarrow> adds P Q e (with_cfg f)"
  by (simp add: with_cfg_def adds_asks)

lemma adds_gets [adds_intros]: "(\<And>a. adds P Q e (f a)) \<Longrightarrow> adds P Q e (bnd (gets g) f)"
  by (simp add: adds_def bnd_def gets_def)

lemma adds_if [adds_intros]: "(b \<Longrightarrow> adds P Q e m) \<Longrightarrow> (\<not> b \<Longrightarrow> adds P Q e n) \<Longrightarrow> adds P Q e (if b then m else n)"
  by simp

lemma adds_case_option [adds_intros]:
  "adds P Q e m \<Longrightarrow> (\<And>y. adds P Q e (n y)) \<Longrightarrow> adds P Q e (case x of None \<Rightarrow> m | Some y \<Rightarrow> n y)"
  by (simp split: option.split)

lemma adds_case_prod [adds_intros]:
  "(\<And>a b. adds P Q e (n a b)) \<Longrightarrow> adds P Q e (case x of (a, b) \<Rightarrow> n a b)"
  by (simp split: prod.split)

text \<open>A request carries the credentials that belong to its path, and goes to the trustee when it carries any.\<close>

definition creds_for :: "AuditConfig \<Rightarrow> string \<Rightarrow> string \<Rightarrow> Creds" where
  "creds_for c base path = (case requiredPlatform path of None \<Rightarrow> no_creds base
     | Some p \<Rightarrow> if p = ''PAYCHAIN'' then paychain_creds c else bank_creds c)"

definition creds_headers :: "Creds \<Rightarrow> (string \<times> string) list" where
  "creds_headers cr = [(''content-type'', ''application/json'')]
     @ (if cr_clientId cr = [] then [] else [(''x-client-id'', cr_clientId cr)])
     @ (if cr_clientSecret cr = [] then [] else [(''x-client-secret'', cr_clientSecret cr)])"

definition separated :: "AuditConfig \<Rightarrow> http_request \<Rightarrow> bool" where
  "separated c r \<longleftrightarrow> (let cr = creds_for c (wq_base r) (wq_path r) in wq_base r = cr_base cr \<and> wq_headers r = creds_headers cr)"

definition well_sealed :: "audit_env \<Rightarrow> EvidenceRecord \<Rightarrow> bool" where
  "well_sealed e r \<longleftrightarrow> er_evidenceHash r = evidence_hash (hexDigest (au_auditor e)) (stringify (record_json r))"

lemma adds_call:
  assumes "creds_for (au_cfg e) (cr_base cr) path = cr"
  shows "adds (separated (au_cfg e)) Q e (http_call cr meth path body)"
proof -
  have "snd (http_call cr meth path body e s) = \<lparr>as_sent = as_sent s @ [\<lparr>wq_base = cr_base cr, wq_method = meth, wq_path = path,
      wq_headers = creds_headers cr, wq_body = map_option stringify body\<rparr>], as_records = as_records s\<rparr>" for s
    by (simp add: http_call_def bnd_def seq_def asks_def gets_def modify_def ret_def creds_headers_def Let_def)
  then show ?thesis using assms by (fastforce simp: adds_def separated_def Let_def)
qed

lemma audit_paths:
  "creds_for c b ''/health'' = no_creds b" "creds_for c b ''/.well-known/trustee-signing-keys'' = no_creds b"
  "creds_for c b (''/api/v1/paychain/'' @ p) = paychain_creds c" "creds_for c b (''/api/v1/bank/'' @ p) = bank_creds c"
  "creds_for c b (''/api/v1/admin/'' @ p) = bank_creds c" "creds_for c b ''/wallets'' = no_creds b"
  "creds_for c b (''/assets/'' @ p) = no_creds b" "creds_for c b ''/purchases'' = no_creds b"
  "creds_for c b ''/loyalty/award'' = no_creds b"
  by (simp_all add: creds_for_def requiredPlatform_def startsWith_def)

lemmas audit_client_defs = au_health_def au_jwks_def au_reserveCurrent_def au_createPor_def au_latestPor_def au_loyaltyList_def
  au_loyaltyReconcile_def au_bankReconcile_def au_trialBalance_def au_audit_def au_postUnsignedLiability_def au_createWallet_def
  au_earn_def au_purchase_def au_awardPoints_def

lemma audit_clients [adds_intros]:
  "adds (separated (au_cfg e)) Q e au_health" "adds (separated (au_cfg e)) Q e au_jwks"
  "adds (separated (au_cfg e)) Q e (au_reserveCurrent p)" "adds (separated (au_cfg e)) Q e (au_createPor p)"
  "adds (separated (au_cfg e)) Q e (au_latestPor p)" "adds (separated (au_cfg e)) Q e au_loyaltyList"
  "adds (separated (au_cfg e)) Q e (au_loyaltyReconcile i)" "adds (separated (au_cfg e)) Q e (au_bankReconcile p)"
  "adds (separated (au_cfg e)) Q e (au_trialBalance p)" "adds (separated (au_cfg e)) Q e (au_audit n)"
  "adds (separated (au_cfg e)) Q e (au_postUnsignedLiability p)" "adds (separated (au_cfg e)) Q e (au_createWallet w)"
  "adds (separated (au_cfg e)) Q e (au_earn i body)" "adds (separated (au_cfg e)) Q e (au_purchase body)"
  "adds (separated (au_cfg e)) Q e (au_awardPoints body)"
  unfolding audit_client_defs
  by (intro adds_with_cfg adds_asks adds_call;
      simp add: creds_for_def requiredPlatform_def startsWith_def no_creds_def paychain_creds_def bank_creds_def)+

lemma adds_record [adds_intros]: "adds P (well_sealed e) e (rec_record r)"
  unfolding adds_def
proof
  fix s :: audit_st
  let ?full = "r\<lparr>er_timestamp := au_clock e (Suc (length (as_records s)))\<rparr>"
  let ?new = "?full\<lparr>er_evidenceHash := evidence_hash (hexDigest (au_auditor e)) (stringify (record_json ?full))\<rparr>"
  have "snd (rec_record r e s) = \<lparr>as_sent = as_sent s @ [], as_records = as_records s @ [?new]\<rparr>"
    by (simp add: rec_record_def record_evidence_def bnd_def asks_def modify_def Let_def)
  moreover have "well_sealed e ?new" by (simp add: well_sealed_def)
  ultimately show "\<exists>reqs recs. snd (rec_record r e s) = \<lparr>as_sent = as_sent s @ reqs, as_records = as_records s @ recs\<rparr>
     \<and> list_all P reqs \<and> list_all (well_sealed e) recs" by (intro exI conjI) (assumption | simp)+
qed

lemma adds_pending [adds_intros]: "adds P (well_sealed e) e (record_pending cs)"
  by (induction cs rule: record_pending.induct) (auto intro!: adds_intros)

text \<open>A whole run only appends, seals what it records and keeps the credentials apart.\<close>

lemmas happy_path_defs = runE2E01_def stage_purchase_def stage_points_def stage_issue_def stage_posture_def stage_snapshot_def
  stage_chain_def stage_keys_def verify_snapshot_def Let_def
lemmas control_defs = runControls_def control_unsigned_feed_def control_tamper_def control_banks_def control_ledger_def
  control_trail_def Let_def

lemma happy_path_adds: "adds (separated (au_cfg e)) (well_sealed e) e runE2E01"
  unfolding happy_path_defs by (intro adds_intros)

lemma controls_add: "adds (separated (au_cfg e)) (well_sealed e) e runControls"
  unfolding control_defs by (intro adds_intros)

lemma scenarios_add: "adds (separated (au_cfg e)) (well_sealed e) e (run_scenarios args)"
  unfolding run_scenarios_def preflight_def by (intro adds_intros happy_path_adds controls_add)

section \<open>What a run shows\<close>

lemma audit_main_result:
  assumes "audit_main args e fresh = (r, s)"
  shows "(\<exists>x. run_scenarios args e fresh = (Inl x, s) \<and> r = Inl x)
    \<or> (\<exists>m. run_scenarios args e fresh = (Inr (), s) \<and> r = Inr m \<and> rm_outcome m = outcome (as_records s)
        \<and> rm_summary m = summary (as_records s)
        \<and> rm_manifest m = manifest (hexDigest (au_auditor e)) (rm_runId m) (as_records s))"
  using assms by (auto simp: audit_main_def bnd_def seq_def asks_def gets_def ret_def Let_def split: prod.splits sum.splits)

lemma audit_run_adds:
  assumes "audit_main args e fresh = (r, s)"
  shows "list_all (separated (au_cfg e)) (as_sent s)" and "list_all (well_sealed e) (as_records s)"
proof -
  from audit_main_result [OF assms] have "snd (run_scenarios args e fresh) = s" by auto
  with scenarios_add [of e args, unfolded adds_def, rule_format, of fresh]
  show "list_all (separated (au_cfg e)) (as_sent s)" "list_all (well_sealed e) (as_records s)" by (auto simp: fresh_def)
qed

text \<open>Exit code 0 means that the run completed and that every record is a PASS.\<close>

lemma audit_exit_code:
  "exit_code (fst (audit_main args e fresh)) = 0
     \<longleftrightarrow> (\<exists>m s. audit_main args e fresh = (Inr m, s) \<and> list_all (\<lambda>r. er_verdict r = PASS) (as_records s))"
proof (cases "audit_main args e fresh")
  case (Pair r s)
  from audit_main_result [OF this] Pair show ?thesis
    by (cases r) (auto simp: exit_code_def outcome_PASS [symmetric] list_all_iff split: sum.splits Verdict.splits)
qed

text \<open>Client secrets leave the harness only towards the trustee, each only in its own namespace.\<close>

lemma audit_credentials:
  assumes "audit_main args e fresh = (r, s)" and "q \<in> set (as_sent s)" and "map_of (wq_headers q) ''x-client-secret'' = Some x"
  shows "wq_base q = ac_trusteeBase (au_cfg e) \<and> (requiredPlatform (wq_path q) = Some ''PAYCHAIN'' \<and> x = ac_paychainSecret (au_cfg e)
    \<or> requiredPlatform (wq_path q) \<notin> {None, Some ''PAYCHAIN''} \<and> x = ac_trusteeBankSecret (au_cfg e))"
proof -
  from audit_run_adds(1) [OF assms(1)] assms(2) have "separated (au_cfg e) q" by (simp add: list_all_iff)
  with assms(3) show ?thesis
    by (auto simp: separated_def Let_def creds_for_def creds_headers_def no_creds_def paychain_creds_def bank_creds_def
        split: option.splits if_splits)
qed

subsection \<open>The pending controls\<close>

lemma seq_Inr:
  assumes "seq m n e s = (Inr b, s')"
  shows "\<exists>a s1. m e s = (Inr a, s1) \<and> n e s1 = (Inr b, s')"
  using assms by (auto simp: seq_def bnd_def split: prod.splits sum.splits)

lemma adds_keeps_records: "adds P Q e m \<Longrightarrow> set (as_records s) \<subseteq> set (as_records (snd (m e s)))"
  unfolding adds_def by (metis audit_st.select_convs(2) set_append sup_ge1)

lemma pending_not_ready:
  assumes "cs \<noteq> []"
  shows "\<exists>r \<in> set (as_records (snd (record_pending cs e s))). er_verdict r = NOT_READY"
proof -
  from assms obtain i title objectives cs' where cs: "cs = (i, title, objectives) # cs'" by (metis neq_Nil_conv prod_cases3)
  let ?new = "evidence i title objectives ''auditor'' (note_json (''requires live PayKH/PayChain or a seeded mint/redeem fixture ''
      @ dash @ '' pending platform readiness'')) NOT_READY"
  let ?s1 = "snd (rec_record ?new e s)"
  have "snd (record_pending cs e s) = snd (record_pending cs' e ?s1)"
    by (simp add: cs seq_def bnd_def rec_record_def asks_def modify_def)
  moreover have "\<exists>r \<in> set (as_records ?s1). er_verdict r = NOT_READY"
    by (simp add: rec_record_def record_evidence_def bnd_def asks_def modify_def evidence_def Let_def)
  ultimately show ?thesis using adds_keeps_records [OF adds_pending [of "\<lambda>_. True" e cs'], of ?s1] by auto
qed

text \<open>Seven controls are recorded as NOT_READY in every run that includes the controls, so such a run never exits with 0.\<close>

lemma controls_never_pass:
  assumes "only_arg args \<in> {[], ''controls''}"
  shows "exit_code (fst (audit_main args e fresh)) \<noteq> 0"
proof
  assume "exit_code (fst (audit_main args e fresh)) = 0"
  then obtain m s where run: "audit_main args e fresh = (Inr m, s)" and pass: "list_all (\<lambda>r. er_verdict r = PASS) (as_records s)"
    unfolding audit_exit_code by blast
  from audit_main_result [OF run] have sc: "run_scenarios args e fresh = (Inr (), s)" by auto
  from seq_Inr [OF sc [unfolded run_scenarios_def]] obtain a1 s1 where "seq (if \<not> ''--controls-only'' \<in> set args
      \<and> (only_arg args = [] \<or> only_arg args = ''E2E-01'') then runE2E01 else ret ())
      (if only_arg args = [] \<or> only_arg args = ''controls'' then runControls else ret ()) e s1 = (Inr (), s)" by blast
  from seq_Inr [OF this] assms obtain s2 where "runControls e s2 = (Inr (), s)" by (auto split: if_splits)
  from this [unfolded runControls_def] obtain s3 where "record_pending pending_controls e s3 = (Inr (), s)"
    by (blast dest: seq_Inr)
  with pending_not_ready [of pending_controls e s3] obtain r where "r \<in> set (as_records s)" "er_verdict r = NOT_READY"
    by (auto simp: pending_controls_def)
  with pass show False by (simp add: list_all_iff)
qed

subsection \<open>What a PASS does not establish\<close>

text \<open>A misspelt \<open>--only\<close> runs no test at all and still ends with exit code 0.\<close>

lemma unknown_only_passes:
  assumes "only_arg args \<notin> {[], ''E2E-01'', ''controls''}" and "hs_ok (case fst (au_health e fresh) of Inr h \<Rightarrow> h)"
  shows "exit_code (fst (audit_main args e fresh)) = 0 \<and> length (as_records (snd (audit_main args e fresh))) = 1"
proof -
  obtain h s1 where h: "au_health e fresh = (Inr h, s1)" and s1: "as_records s1 = []"
    by (simp add: au_health_def with_cfg_def http_call_def bnd_def seq_def asks_def gets_def modify_def ret_def fresh_def Let_def)
  from assms(2) h have ok: "hs_ok h" by simp
  obtain s2 r where pre: "preflight e fresh = (Inr (), s2)" and s2: "as_records s2 = [r]" and v: "er_verdict r = PASS"
    using h s1 ok
    by (simp add: preflight_def rec_record_def record_evidence_def bnd_def asks_def modify_def evidence_def Let_def)
  with assms(1) have "run_scenarios args e fresh = (Inr (), s2)" by (simp add: run_scenarios_def seq_def bnd_def ret_def)
  with s2 v show ?thesis
    by (simp add: audit_main_def exit_code_def seq_def bnd_def asks_def gets_def ret_def outcome_def summary_def Let_def)
qed

lemma zero_literal: "BigInt ''0'' = Inr 0"
  by code_simp

text \<open>An answer without any figure counts as fully reserved.\<close>

lemma empty_posture_passes:
  "hs_ok pos \<Longrightarrow> hs_json pos = JObj [] \<Longrightarrow> \<exists>d. judge_posture pos = Inr (PASS, d)"
  by (simp add: judge_posture_def bigGte_def opt_dot_def nvl_def nullish_def pass_if_def Let_def zero_literal)

text \<open>The snapshot as the platform receives it, and what accepting it does to the feed.\<close>

definition audit_snapshot :: "string \<Rightarrow> int \<Rightarrow> LiabilitySnapshotInput" where
  "audit_snapshot p ms = \<lparr>lx_programId = p, lx_assetId = ''AUDIT'', lx_assetCode = ''AUDIT'',
     lx_blockchainNetwork = ''stellar-testnet'', lx_issuerAccount = ''G_AUDIT'', lx_circulatingMinor = ''1'',
     lx_treasuryHeldMinor = ''0'', lx_lockedMinor = ''0'', lx_pendingMintMinor = ''0'', lx_pendingBurnMinor = ''0'',
     lx_pendingRedemptionMinor = ''0'', lx_confirmedBurnMinor = ''0'', lx_effectiveLiabilityMinor = ''1'',
     lx_currency = ''USD'', lx_ledgerReference = ''audit'', lx_sourceVersion = ''audit'', lx_sequence = bigint_toString ms,
     lx_snapshotTimestamp = ''1970-01-01T00:00:00.000Z'', lx_signature = None\<rparr>"

lemma audit_snapshot_sent: "signable (audit_snapshot p ms) = unsigned_liability p ms"
  by (simp add: signable_def audit_snapshot_def unsigned_liability_def)

text \<open>
  Control C-06 posts a real snapshot. Where enforcement is off it is stored, and from then on every
  snapshot of the program with a sequence up to the time of the audit is refused.
\<close>

lemma audit_displaces_feed:
  assumes "ingest (audit_snapshot p ms) e s = (Inr v, s')" and "lx_programId genuine = p" and "BigInt (lx_sequence genuine) = Inr n" and "n \<le> ms"
  shows "ingest genuine e' s' = (Inl (Conflict ''Liability snapshot sequence is not greater than latest''), s')"
proof -
  have seq: "BigInt (lx_sequence (audit_snapshot p ms)) = Inr ms" by (simp add: audit_snapshot_def BigInt_toString)
  from ingest_effect [OF assms(1)] seq obtain l where l: "liability_row e (audit_snapshot p ms) ms True = Inr l"
    and s': "s' = s\<lparr>liabilities := liabilities s @ [l]\<rparr>" by auto
  from liability_row_sel [OF l] have sel: "ls_programId l = p" "ls_sequence l = ms" by (simp_all add: audit_snapshot_def)
  let ?rows = "filter (\<lambda>q. ls_programId q = p) (liabilities s')"
  have "l \<in> set ?rows" using s' sel by simp
  then obtain k where k: "find_max ls_sequence ?rows = Some k"
    by (cases "find_max ls_sequence ?rows") (use find_max_None [of ls_sequence ?rows] in fastforce)+
  from find_max_Some [OF k] \<open>l \<in> set ?rows\<close> sel have "ms \<le> ls_sequence k" by auto
  with assms k show ?thesis by (simp add: ingest_def prog_simps)
qed

end
