(* ===== verification/Scenario_Audit.thy ===== *)
theory Scenario_Audit
  imports Scenario_Gate Queries Audit_Run
begin

text \<open>
  Concrete runs of the audit harness and a concrete read: two runs that record the same evidence
  under different run identifiers, and an operator who reads the audit log.
\<close>

section \<open>A short audit run\<close>

definition demo_auditor :: auditor where
  "demo_auditor = \<lparr>hexDigest = id, createPublicKey = (\<lambda>_. Inl ''bad key''), edVerify = (\<lambda>_ _ _. Inr False),
     fromBase64 = (\<lambda>_. Inr []), toBase64 = id\<rparr>"

definition demo_audit_env :: "string \<Rightarrow> audit_env" where
  "demo_audit_env start = \<lparr>au_cfg = audit_config (\<lambda>_. None), au_auditor = demo_auditor, au_web = (\<lambda>_ _. Inr (True, 200, ''x'')),
     au_parse = (\<lambda>_. Some (JObj [(''status'', JStr ''ok'')])), au_clock = (\<lambda>n. if n = 0 then start else ''t''), au_now = 0\<rparr>"

definition demo_evidence :: EvidenceRecord where
  "demo_evidence = (evidence ''PRE-01'' ''Trustee reachable'' [''CO-1''] ''trustee''
     (JObj [(''status'', JNum 200), (''body'', JObj [(''status'', JStr ''ok'')])]) PASS)\<lparr>er_timestamp := ''t''\<rparr>"

definition demo_sealed :: EvidenceRecord where
  "demo_sealed = demo_evidence\<lparr>er_evidenceHash := evidence_hash id (stringify (record_json demo_evidence))\<rparr>"

lemma demo_audit_run: "\<exists>m s. audit_main [''--only'', ''x''] (demo_audit_env start) fresh = (Inr m, s) \<and> as_records s = [demo_sealed]
    \<and> rm_runId m = run_id start \<and> rm_manifest m = manifest id (run_id start) [demo_sealed]"
  by (simp add: audit_main_def run_scenarios_def preflight_def only_arg_def au_health_def with_cfg_def http_call_def rec_record_def
      record_evidence_def seq_def bnd_def asks_def gets_def modify_def ret_def fresh_def demo_audit_env_def demo_auditor_def
      demo_evidence_def demo_sealed_def evidence_def Let_def)

lemma demo_text_no_bar: "CHR ''|'' \<notin> set (stringify (record_json demo_evidence))"
  by code_simp

lemma demo_no_collision: "no_collision id (pack_texts [demo_sealed] @ pack_texts [demo_sealed])"
  using demo_text_no_bar
  by (simp add: no_collision_def pack_texts_def demo_sealed_def evidence_hash_def)

section \<open>An operator reads the audit log\<close>

definition audit_request :: request where
  "audit_request = \<lparr>hq_method = ''GET'', hq_path = ''/api/v1/admin/audit'', hq_headers = [''authorization'' \<mapsto> ''Bearer b.m''],
     hq_body = None\<rparr>"

lemma demo_reader: "user_session (demo_genv 120000) audit_request ''TRUSTEE_BANK'' (session_of (demo_genv 60000) demo_operator)"
proof -
  have b: "bearer audit_request = Some ''b.m''" by (simp add: bearer_def audit_request_def startsWith_def demo_trim)
  from operator_admitted obtain s where "clientSeparation operator_request (demo_genv 120000) demo_gate
      = (Inr (Some (UserP (session_of (demo_genv 60000) demo_operator))), s)"
    by (auto simp: admit_def bnd_def seq_def ret_def split: prod.splits sum.splits)
  then show ?thesis using b operator_bearer operator_namespace
    by (auto simp: clientSeparation_def user_session_def truthy_def prog_simps split: sum.splits option.splits if_splits)
qed

end
