(* ===== verification/Flows.thy ===== *)
theory Flows
  imports System
begin

text \<open>
  Abstract life cycles and the refinement of them by the platform. Each life cycle is a
  step relation on statuses; \<open>evolves\<close> says that every row of a table still exists after a
  call and that its status either stayed or made one step, with the columns fixed at
  creation unchanged. The locale \<open>life_cycle\<close> is the contract of such a table: its lemmas
  (rows are never lost, statuses follow paths of the step relation over any sequence of
  calls) are proved once and interpreted on the mint, redemption, payment-order and
  settlement tables.
\<close>

section \<open>Rows that evolve\<close>

definition evolves :: "('r \<Rightarrow> string) \<Rightarrow> ('r \<Rightarrow> 'r \<Rightarrow> bool) \<Rightarrow> 'r list \<Rightarrow> 'r list \<Rightarrow> bool" where
  "evolves key R rows rows' \<longleftrightarrow> (\<forall>i r. find_row key i rows = Some r \<longrightarrow> (\<exists>r'. find_row key i rows' = Some r' \<and> R r r'))"

lemma evolvesD: "evolves key R rows rows' \<Longrightarrow> find_row key i rows = Some r \<Longrightarrow> \<exists>r'. find_row key i rows' = Some r' \<and> R r r'"
  by (simp add: evolves_def)

lemma evolves_same: "reflp R \<Longrightarrow> rows' = rows \<Longrightarrow> evolves key R rows rows'"
  by (simp add: evolves_def reflpD)

lemma evolves_snoc: "reflp R \<Longrightarrow> rows' = rows @ [r] \<Longrightarrow> evolves key R rows rows'"
  by (simp add: evolves_def find_row_append reflpD)

lemma evolves_set_row:
  assumes "reflp R" and "find_row key i rows = Some q" and "rows' = set_row key i f rows"
    and "\<And>r. key (f r) = key r" and "R q (f q)"
  shows "evolves key R rows rows'"
  using assms by (auto simp: evolves_def find_row_set_row reflpD)

locale life_cycle =
  fixes table :: "st \<Rightarrow> 'r list"
    and key :: "'r \<Rightarrow> string"
    and status :: "'r \<Rightarrow> 'x"
    and fixed :: "'r \<Rightarrow> 'f"
    and flow :: "'x \<Rightarrow> 'x \<Rightarrow> bool"
  assumes call_step: "reachable s \<Longrightarrow> evolves key (\<lambda>r r'. fixed r' = fixed r
      \<and> (status r' = status r \<or> flow (status r) (status r'))) (table s) (table (snd (run c e s)))"
    and reference_step: "table (with_reference us ps as cs ks s) = table s"
begin

lemma one_call:
  assumes "reachable s" and "find_row key i (table s) = Some r"
  shows "\<exists>r'. find_row key i (table (snd (run c e s))) = Some r' \<and> fixed r' = fixed r \<and> flow\<^sup>=\<^sup>= (status r) (status r')"
  using evolvesD [OF call_step [OF assms(1)] assms(2), of c e] by auto

lemma many_calls:
  assumes "reachable s" and "find_row key i (table s) = Some r"
  shows "\<exists>r'. find_row key i (table (run_all cs s)) = Some r' \<and> fixed r' = fixed r \<and> flow\<^sup>*\<^sup>* (status r) (status r')"
  using assms
proof (induction cs s arbitrary: r rule: run_all.induct)
  case (2 e c cs s)
  from one_call [OF 2(2,3), of c e] obtain r' where r': "find_row key i (table (snd (run c e s))) = Some r'"
    "fixed r' = fixed r" "flow\<^sup>=\<^sup>= (status r) (status r')" by blast
  with 2(1) [OF reach.call [OF 2(2)] r'(1)] show ?case
    by simp (metis rtranclp.rtrancl_refl converse_rtranclp_into_rtranclp)
qed auto

end

section \<open>The flows\<close>

inductive mint_flow :: "MintAuthorizationStatus \<Rightarrow> MintAuthorizationStatus \<Rightarrow> bool" where
  mf_review: "mint_flow MintAuthorizationStatus.PENDING_MAKER MintAuthorizationStatus.PENDING_CHECKER"
| mf_issue: "mint_flow MintAuthorizationStatus.PENDING_CHECKER MintAuthorizationStatus.ISSUED"
| mf_revoke: "mint_flow MintAuthorizationStatus.ISSUED MintAuthorizationStatus.REVOKED"
| mf_expire: "mint_flow MintAuthorizationStatus.ISSUED MintAuthorizationStatus.EXPIRED"
| mf_consume: "mint_flow MintAuthorizationStatus.ISSUED MintAuthorizationStatus.CONSUMED"
| mf_reject: "x \<noteq> MintAuthorizationStatus.PENDING_MAKER \<Longrightarrow> mint_flow x MintAuthorizationStatus.REJECTED"

code_pred mint_flow .

inductive redemption_flow :: "RedemptionStatus \<Rightarrow> RedemptionStatus \<Rightarrow> bool" where
  rf_approve: "redemption_flow RedemptionStatus.AWAITING_APPROVAL RedemptionStatus.APPROVED"
| rf_burn: "redemption_flow RedemptionStatus.APPROVED RedemptionStatus.BURN_CONFIRMED"
| rf_submit: "redemption_flow RedemptionStatus.BURN_CONFIRMED RedemptionStatus.PAYOUT_SUBMITTED"
| rf_complete: "redemption_flow RedemptionStatus.PAYOUT_SUBMITTED RedemptionStatus.COMPLETED"

code_pred redemption_flow .

inductive order_flow :: "PaymentOrderStatus \<Rightarrow> PaymentOrderStatus \<Rightarrow> bool" where
  of_confirm: "order_flow PaymentOrderStatus.AWAITING_PAYMENT PaymentOrderStatus.CONFIRMED"
| of_expire: "order_flow PaymentOrderStatus.AWAITING_PAYMENT PaymentOrderStatus.EXPIRED"
| of_refund: "order_flow PaymentOrderStatus.CONFIRMED PaymentOrderStatus.REFUNDED"
| of_cancel: "x \<noteq> PaymentOrderStatus.CONFIRMED \<Longrightarrow> order_flow x PaymentOrderStatus.CANCELLED"

code_pred order_flow .

inductive settlement_flow :: "SettlementStatus \<Rightarrow> SettlementStatus \<Rightarrow> bool" where
  sf_approve: "settlement_flow SettlementStatus.REQUESTED SettlementStatus.APPROVED"
| sf_confirm: "settlement_flow SettlementStatus.APPROVED SettlementStatus.CONFIRMED"
| sf_cancel: "x \<noteq> SettlementStatus.CONFIRMED \<Longrightarrow> settlement_flow x SettlementStatus.CANCELLED"

code_pred settlement_flow .

inductive_simps mint_flow_from: "mint_flow x MintAuthorizationStatus.CONSUMED" "mint_flow MintAuthorizationStatus.CONSUMED y"
inductive_simps redemption_flow_from: "redemption_flow x y"

section \<open>Mint authorizations\<close>

definition mint_fixed :: "MintAuthorization \<Rightarrow> string \<times> string \<times> int \<times> string \<times> string" where
  "mint_fixed a = (ma_programId a, ma_assetId a, ma_amountMinor a, ma_currency a, ma_nonce a)"

abbreviation mint_next :: "MintAuthorization \<Rightarrow> MintAuthorization \<Rightarrow> bool" where
  "mint_next a b \<equiv> mint_fixed b = mint_fixed a \<and> (ma_status b = ma_status a \<or> mint_flow (ma_status a) (ma_status b))"

lemma mint_next_refl: "reflp mint_next"
  by (simp add: reflp_def)

lemma mint_fixed_simps [simp]:
  "mint_fixed (a\<lparr>ma_status := x\<rparr>) = mint_fixed a" "mint_fixed (issue_auth t x' sig a) = mint_fixed a"
  by (simp_all add: mint_fixed_def issue_auth_def)

lemmas mint_evolves = evolves_same [OF mint_next_refl] evolves_snoc [OF mint_next_refl] evolves_set_row [OF mint_next_refl]

lemmas mint_same [simp] = evolves_same [OF mint_next_refl refl]

lemma mint_expire_evolves: "evolves ma_id mint_next (mintAuths s) (mintAuths (snd (mint_expire i actor e s)))"
  using mint_expire_effect [OF prod.collapse [symmetric], of i actor e s]
  by (elim disjE exE conjE)
     (rule mint_evolves, simp, rule mint_evolves(3), assumption, assumption, simp_all add: mint_flow.intros)

lemma mint_reject_evolves:
  assumes "mint_inv s"
  shows "evolves ma_id mint_next (mintAuths s) (mintAuths (snd (mint_reject i checker reason e s)))"
  using mint_reject_effect [OF prod.collapse [symmetric], of i checker reason e s]
proof (elim disjE exE conjE)
  fix a p assume a: "find_row ma_id i (mintAuths s) = Some a" "find_approval s i = Some p"
    and s': "mintAuths (snd (mint_reject i checker reason e s))
      = set_row ma_id i (\<lambda>a. a\<lparr>ma_status := MintAuthorizationStatus.REJECTED\<rparr>) (mintAuths s)"
  from mint_inv_auth [OF assms a(1)] a(2) have "ma_status a \<noteq> MintAuthorizationStatus.PENDING_MAKER"
    by (auto simp: auth_ok_def)
  then show ?thesis by (intro mint_evolves(3) [OF a(1) s']) (simp_all add: mint_flow.intros)
qed (rule mint_evolves, simp)

lemma run_mint_evolves:
  assumes "mint_inv s"
  shows "evolves ma_id mint_next (mintAuths s) (mintAuths (snd (run_mint c e s)))"
proof (cases c)
  case (RequestMint input)
  with mint_request_effect [OF prod.collapse [symmetric], of input e s] show ?thesis
    by (auto intro: mint_evolves)
next
  case (ReviewMint i maker)
  show ?thesis unfolding ReviewMint run_mint.simps
    using mint_review_effect [OF prod.collapse [symmetric], of i maker e s]
    by (elim disjE exE conjE) (simp, rule mint_evolves(3), assumption, assumption, simp_all add: mint_flow.intros)
next
  case (ApproveMint i checker reason)
  show ?thesis unfolding ApproveMint run_mint.simps
    using mint_approve_effect [OF prod.collapse [symmetric], of i checker reason e s] unfolding approvable_def
    by (elim disjE exE conjE)
       (simp, (rule mint_evolves(3), assumption, assumption, simp, simp add: mint_flow.intros)+)
next
  case (RevokeMint i actor reason)
  show ?thesis unfolding RevokeMint run_mint.simps
    using mint_revoke_effect [OF prod.collapse [symmetric], of i actor reason e s]
    by (elim disjE exE conjE) (simp, rule mint_evolves(3), assumption, assumption, simp_all add: mint_flow.intros)
next
  case (ConfirmMintCmd i input)
  show ?thesis unfolding ConfirmMintCmd run_mint.simps
    using mint_confirm_effect [OF prod.collapse [symmetric], of i input e s] unfolding confirmable_def
    by (elim disjE exE conjE)
       (simp, simp add: mint_expire_evolves, rule mint_evolves(3), assumption, assumption, simp_all add: mint_flow.intros)
qed (use mint_reject_evolves [OF assms] mint_expire_evolves in simp_all)

interpretation mint_cycle: life_cycle mintAuths ma_id ma_status mint_fixed mint_flow
proof
  fix s c e assume r: "reachable s"
  show "evolves ma_id mint_next (mintAuths s) (mintAuths (snd (run c e s)))"
  proof (cases "\<exists>x. c = Mint_op x")
    case False
    then have "leaves (\<lambda>s. (mintAuths s, approvals s, mintConfs s)) (run c)" by (intro run_leaves) blast
    then show ?thesis by (intro mint_evolves(1)) (simp add: leaves_def)
  qed (use run_mint_evolves [OF mint_life.in_reachable [OF r]] in \<open>auto simp: snd_void\<close>)
qed (simp add: with_reference_def)

section \<open>Redemptions\<close>

definition redemption_fixed :: "Redemption \<Rightarrow> string \<times> string \<times> int \<times> string \<times> string \<times> string" where
  "redemption_fixed r = (rd_programId r, rd_assetId r, rd_amountMinor r, rd_currency r, rd_beneficiaryName r,
     rd_beneficiaryAccountMasked r)"

abbreviation redemption_next :: "Redemption \<Rightarrow> Redemption \<Rightarrow> bool" where
  "redemption_next a b \<equiv> redemption_fixed b = redemption_fixed a
     \<and> (rd_status b = rd_status a \<or> redemption_flow (rd_status a) (rd_status b))"

lemma redemption_fixed_simps [simp]:
  "redemption_fixed (r\<lparr>rd_status := x\<rparr>) = redemption_fixed r" "redemption_fixed (r\<lparr>rd_approvedById := o1\<rparr>) = redemption_fixed r"
  "redemption_fixed (r\<lparr>rd_burnTxHash := o1\<rparr>) = redemption_fixed r" "redemption_fixed (r\<lparr>rd_burnConfirmedAt := o2\<rparr>) = redemption_fixed r"
  "redemption_fixed (r\<lparr>rd_payoutReference := o1\<rparr>) = redemption_fixed r" "redemption_fixed (r\<lparr>rd_payoutSubmittedAt := o2\<rparr>) = redemption_fixed r"
  "redemption_fixed (r\<lparr>rd_payoutConfirmedAt := o2\<rparr>) = redemption_fixed r" "redemption_fixed (r\<lparr>rd_completedAt := o2\<rparr>) = redemption_fixed r"
  by (simp_all add: redemption_fixed_def)

lemma redemption_next_refl: "reflp redemption_next"
  by (simp add: reflp_def)

lemmas redemption_evolves = evolves_same [OF redemption_next_refl] evolves_snoc [OF redemption_next_refl]
  evolves_set_row [OF redemption_next_refl]

lemmas redemption_same [simp] = evolves_same [OF redemption_next_refl refl]

lemma run_redemption_evolves:
  assumes "redemptions_inv s"
  shows "evolves rd_id redemption_next (redemptions s) (redemptions (snd (run_redemption c e s)))"
proof (cases c)
  case (RequestRedemptionCmd input)
  with redemption_request_effect [OF prod.collapse [symmetric], of input e s] show ?thesis
    by (auto intro: redemption_evolves)
next
  case (ApproveRedemption i approver reason)
  show ?thesis unfolding ApproveRedemption run_redemption.simps
    using redemption_approve_effect [OF prod.collapse [symmetric], of i approver reason e s]
    by (elim disjE exE conjE) (simp, rule redemption_evolves(3), assumption, assumption, simp_all add: redemption_flow.intros)
next
  case (ConfirmBurn i hash actor)
  from redemption_row_ok [OF assms, of i] have "find_row rd_id i (redemptions s) = Some q \<Longrightarrow>
      rd_status q \<noteq> RedemptionStatus.ASSET_LOCKED" for q by (auto simp: redemption_ok_def)
  then show ?thesis unfolding ConfirmBurn run_redemption.simps
    using confirmBurn_effect [OF prod.collapse [symmetric], of i hash actor e s]
    by (elim disjE exE conjE)
       (simp, rule redemption_evolves(3), assumption, assumption, simp, simp add: redemption_flow.intros, blast)
next
  case (SubmitPayout i actor)
  show ?thesis unfolding SubmitPayout run_redemption.simps
    using submitPayout_effect [OF prod.collapse [symmetric], of i actor e s]
    by (elim disjE exE conjE) (simp, rule redemption_evolves(3), assumption, assumption, simp_all add: redemption_flow.intros)
next
  case (ConfirmPayout i actor)
  show ?thesis unfolding ConfirmPayout run_redemption.simps
    using confirmPayout_effect [OF prod.collapse [symmetric], of i actor e s]
    by (elim disjE exE conjE) (simp, rule redemption_evolves(3), assumption, assumption, simp_all add: redemption_flow.intros)
qed

interpretation redemption_cycle: life_cycle redemptions rd_id rd_status redemption_fixed redemption_flow
proof
  fix s c e assume r: "reachable s"
  show "evolves rd_id redemption_next (redemptions s) (redemptions (snd (run c e s)))"
  proof (cases "\<exists>x. c = Redemption_op x")
    case False
    then have "leaves redemptions (run c)" by (intro run_leaves) blast
    then show ?thesis by (intro redemption_evolves(1)) (simp add: leaves_def)
  qed (use run_redemption_evolves [OF redemption_books.in_reachable [OF r]] in \<open>auto simp: snd_void\<close>)
qed (simp add: with_reference_def)

section \<open>Payment orders\<close>

definition order_fixed :: "PaykhPaymentOrder \<Rightarrow> string \<times> string \<times> int \<times> string \<times> string \<times> int" where
  "order_fixed x = (po_tenantId x, po_profileId x, po_amountMinor x, po_currency x, po_paymentReference x, po_expiresAt x)"

abbreviation order_next :: "PaykhPaymentOrder \<Rightarrow> PaykhPaymentOrder \<Rightarrow> bool" where
  "order_next a b \<equiv> order_fixed b = order_fixed a \<and> (po_status b = po_status a \<or> order_flow (po_status a) (po_status b))"

lemma order_fixed_simps [simp]:
  "order_fixed (x\<lparr>po_status := y\<rparr>) = order_fixed x" "order_fixed (x\<lparr>po_matchedBankTransactionId := o1\<rparr>) = order_fixed x"
  "order_fixed (x\<lparr>po_confirmedAt := o2\<rparr>) = order_fixed x"
  by (simp_all add: order_fixed_def)

lemma order_next_refl: "reflp order_next"
  by (simp add: reflp_def)

lemmas order_evolves = evolves_same [OF order_next_refl] evolves_snoc [OF order_next_refl] evolves_set_row [OF order_next_refl]
lemmas order_same [simp] = evolves_same [OF order_next_refl refl]

lemma order_not_detected:
  "orders_inv s \<Longrightarrow> find_row po_id i (orders s) = Some x \<Longrightarrow> po_status x \<noteq> PaymentOrderStatus.PAYMENT_DETECTED"
  by (drule orders_inv_row, assumption) (auto simp: order_ok_def)

lemma checkPayment_evolves:
  assumes "orders_inv s"
  shows "evolves po_id order_next (orders s) (orders (snd (checkPayment i input e s)))"
  using checkPayment_effect [OF prod.collapse [symmetric], of i input e s]
proof (elim disjE exE conjE)
  fix x assume x: "find_row po_id i (orders s) = Some x"
    and s': "orders (snd (checkPayment i input e s))
      = set_row po_id i (\<lambda>x. x\<lparr>po_status := PaymentOrderStatus.EXPIRED\<rparr>) (orders s)"
    and "po_status x = PaymentOrderStatus.AWAITING_PAYMENT"
  then show ?thesis by (intro order_evolves(3) [OF x s']) (simp_all add: order_flow.intros)
next
  fix x assume p: "payable_by e s i input x"
    and s': "orders (snd (checkPayment i input e s)) = set_row po_id i (\<lambda>y. y\<lparr>po_status := PaymentOrderStatus.CONFIRMED,
            po_matchedBankTransactionId := Some (cp_bankTransactionId input), po_confirmedAt := Some (now e)\<rparr>) (orders s)"
  from p have x: "find_row po_id i (orders s) = Some x" by (simp add: payable_by_def)
  from p order_not_detected [OF assms x] have "po_status x = PaymentOrderStatus.AWAITING_PAYMENT" by (auto simp: payable_by_def)
  then show ?thesis by (intro order_evolves(3) [OF x s']) (simp_all add: order_flow.intros)
qed (use order_not_detected [OF assms] in simp_all)

lemma run_payment_evolves:
  assumes "orders_inv s"
  shows "evolves po_id order_next (orders s) (orders (snd (run_payment c e s)))"
proof (cases c)
  case (CreateOrder input)
  with order_create_effect [OF prod.collapse [symmetric], of input e s] show ?thesis
    by (auto intro: order_evolves)
next
  case (CheckPayment i input)
  then show ?thesis by (simp add: checkPayment_evolves [OF assms])
next
  case (RefundOrder i actor reason)
  show ?thesis unfolding RefundOrder run_payment.simps
    using order_refund_effect [OF prod.collapse [symmetric], of i actor reason e s]
    by (elim disjE exE conjE) (simp, rule order_evolves(3), assumption, assumption, simp_all add: order_flow.intros)
next
  case (CancelOrder i actor)
  show ?thesis unfolding CancelOrder run_payment.simps
    using order_cancel_effect [OF prod.collapse [symmetric], of i actor e s]
    by (elim disjE exE conjE) (simp, rule order_evolves(3), assumption, assumption, simp_all add: order_flow.intros)
qed (simp_all add: profile_leaves_orders [THEN leavesD])

interpretation order_cycle: life_cycle orders po_id po_status order_fixed order_flow
proof
  fix s c e assume r: "reachable s"
  show "evolves po_id order_next (orders s) (orders (snd (run c e s)))"
  proof (cases "\<exists>x. c = Payment_op x")
    case False
    then have "leaves orders (run c)" by (intro run_leaves) blast
    then show ?thesis by (intro order_evolves(1)) (simp add: leaves_def)
  qed (use run_payment_evolves [OF order_life.in_reachable [OF r]] in \<open>auto simp: snd_void\<close>)
qed (simp add: with_reference_def)

section \<open>Settlements\<close>

definition settlement_fixed :: "PaykhSettlement \<Rightarrow> string \<times> string \<times> int \<times> string" where
  "settlement_fixed x = (sm_tenantId x, sm_merchantId x, sm_amountMinor x, sm_currency x)"

abbreviation settlement_next :: "PaykhSettlement \<Rightarrow> PaykhSettlement \<Rightarrow> bool" where
  "settlement_next a b \<equiv> settlement_fixed b = settlement_fixed a
     \<and> (sm_status b = sm_status a \<or> settlement_flow (sm_status a) (sm_status b))"

lemma settlement_fixed_simps [simp]:
  "settlement_fixed (x\<lparr>sm_status := y\<rparr>) = settlement_fixed x" "settlement_fixed (x\<lparr>sm_approvedById := o1\<rparr>) = settlement_fixed x"
  "settlement_fixed (x\<lparr>sm_confirmedAt := o2\<rparr>) = settlement_fixed x"
  by (simp_all add: settlement_fixed_def)

lemma settlement_next_refl: "reflp settlement_next"
  by (simp add: reflp_def)

lemmas settlement_evolves = evolves_same [OF settlement_next_refl] evolves_snoc [OF settlement_next_refl]
  evolves_set_row [OF settlement_next_refl]
lemmas settlement_same [simp] = evolves_same [OF settlement_next_refl refl]

lemma settlement_not_submitted:
  "settlements_inv s \<Longrightarrow> find_row sm_id i (settlements s) = Some x \<Longrightarrow> sm_status x \<noteq> SettlementStatus.SUBMITTED"
  by (drule find_row_Some) (auto simp: settlements_inv_def settlement_ok_def)

lemma run_settlement_evolves:
  assumes "settlements_inv s"
  shows "evolves sm_id settlement_next (settlements s) (settlements (snd (run_settlement c e s)))"
proof (cases c)
  case (CreateSettlementCmd input)
  with settlement_create_effect [OF prod.collapse [symmetric], of input e s] show ?thesis
    by (auto intro: settlement_evolves)
next
  case (ApproveSettlement i checker)
  show ?thesis unfolding ApproveSettlement run_settlement.simps
    using settlement_approve_effect [OF prod.collapse [symmetric], of i checker e s]
    by (elim disjE exE conjE) (simp, rule settlement_evolves(3), assumption, assumption, simp_all add: settlement_flow.intros)
next
  case (ConfirmSettlement i actor)
  show ?thesis unfolding ConfirmSettlement run_settlement.simps
    using settlement_confirm_effect [OF prod.collapse [symmetric], of i actor e s] settlement_not_submitted [OF assms, of i]
    by (elim disjE exE conjE)
       (simp, rule settlement_evolves(3), assumption, assumption, simp, simp add: settlement_flow.intros, blast)
next
  case (CancelSettlement i actor)
  show ?thesis unfolding CancelSettlement run_settlement.simps
    using settlement_cancel_effect [OF prod.collapse [symmetric], of i actor e s]
    by (elim disjE exE conjE) (simp, rule settlement_evolves(3), assumption, assumption, simp_all add: settlement_flow.intros)
qed (simp_all add: leavesD [OF merchant_ops(1)] leavesD [OF merchant_ops(2)])

interpretation settlement_cycle: life_cycle settlements sm_id sm_status settlement_fixed settlement_flow
proof
  fix s c e assume r: "reachable s"
  show "evolves sm_id settlement_next (settlements s) (settlements (snd (run c e s)))"
  proof (cases "\<exists>x. c = Settlement_op x")
    case False
    then have "leaves settlements (run c)" by (intro run_leaves) blast
    then show ?thesis by (intro settlement_evolves(1)) (simp add: leaves_def)
  qed (use run_settlement_evolves [OF settlement_life.in_reachable [OF r]] in \<open>auto simp: snd_void\<close>)
qed (simp add: with_reference_def)

section \<open>A redemption can always be completed\<close>

text \<open>
  A waiting redemption, a bank user to approve it and the payout flag on: the four calls of
  the workflow succeed one after the other, pay the amount out of the bank once and leave
  the row COMPLETED.
\<close>

lemma redemption_completes:
  assumes "find_row rd_id i (redemptions s) = Some q" and "rd_status q = RedemptionStatus.AWAITING_APPROVAL"
    and "0 < rd_amountMinor q" and "find_row u_id approver (users s) = Some u" and "u_institution u = ''TRUSTEE_BANK''"
    and "isEnabled ''bank.payout.enabled'' s"
    and "s' = run_all [(e1, Redemption_op (ApproveRedemption i approver why)), (e2, Redemption_op (ConfirmBurn i hash x)),
      (e3, Redemption_op (SubmitPayout i y)), (e4, Redemption_op (ConfirmPayout i z))] s"
  shows "\<exists>q'. find_row rd_id i (redemptions s') = Some q' \<and> rd_status q' = RedemptionStatus.COMPLETED
      \<and> rd_burnTxHash q' = Some hash \<and> rd_approvedById q' = Some approver \<and> rd_payoutReference q' \<noteq> None
      \<and> entries s' = entries s @ [obligation_row q approver, payout_row q' z] \<and> redemption_fixed q' = redemption_fixed q"
  using assms(1-6) find_row_Some [OF assms(1)]
  by (simp add: assms(7) snd_void redemption_approve_def confirmBurn_def submitPayout_def confirmPayout_def
      require_redemption_def set_redemption_def prog_simps isEnabled_def find_row_set_row has_row_find Let_def
      obligation_row_def payout_row_def redemption_fixed_def)

end
