(* ===== verification/Configuration.thy ===== *)
theory Configuration
  imports Api
begin

text \<open>
  Start-up of the API and what is decided by environment variables: \<open>config/configuration.ts\<close>,
  the checks, the documentation gate and the published contracts of \<open>main.ts\<close>, and
  \<open>infra/notification.service.ts\<close>. \<open>vars\<close> is \<open>process.env\<close>; \<open>Number\<close>, base64 and \<open>fetch\<close> are
  parameters. The lemmas say when start-up is refused, that the documentation is closed unless a
  password is configured and given, and that the published contract names no internal route.
\<close>

section \<open>Configuration\<close>

type_synonym vars = "string \<Rightarrow> string option"

definition req :: "vars \<Rightarrow> string \<Rightarrow> string \<Rightarrow> string res" where
  "req vars name fallback = (let v = or_default (vars name) fallback in
     if v = [] then Inl (PlainError (''Missing required environment variable: '' @ name)) else Inr v)"

record Urls =
  ul_trusteePublic :: string
  ul_trusteeApi :: string
  ul_trusteeOps :: string
  ul_trusteeTreasury :: string
  ul_trusteeCompliance :: string
  ul_trusteeAudit :: string
  ul_paychainPublic :: string
  ul_paychainApi :: string
  ul_paykhPublic :: string
  ul_paykhApi :: string

record PlatformConfig =
  pc_nodeEnv :: string
  pc_port :: "js_number option"
  pc_urls :: Urls
  pc_corsAllowedOrigins :: "string list"
  pc_paychainCallback :: string
  pc_paykhCallback :: string
  pc_swaggerEnabled :: bool

text \<open>\<open>text.split(',').map(trim).filter(Boolean)\<close>\<close>

definition comma_list :: "string \<Rightarrow> string list" where
  "comma_list t = filter (\<lambda>s. s \<noteq> []) (map trim (split_on (CHR '','') t))"

definition URL_VARS :: "(string \<times> string) list" where
  "URL_VARS = [
     (''TRUSTEE_PUBLIC_URL'', ''https://trustee.cambobia.com''),
     (''TRUSTEE_API_URL'', ''https://api.trustee.cambobia.com''),
     (''TRUSTEE_OPS_URL'', ''https://ops.trustee.cambobia.com''),
     (''TRUSTEE_TREASURY_URL'', ''https://treasury.trustee.cambobia.com''),
     (''TRUSTEE_COMPLIANCE_URL'', ''https://compliance.trustee.cambobia.com''),
     (''TRUSTEE_AUDIT_URL'', ''https://audit.trustee.cambobia.com''),
     (''PAYCHAIN_PUBLIC_URL'', ''https://paychain.cambobia.com''),
     (''PAYCHAIN_API_URL'', ''https://api.paychain.cambobia.com''),
     (''PAYKH_PUBLIC_URL'', ''https://paykh.cambobia.com''),
     (''PAYKH_API_URL'', ''https://api.paykh.cambobia.com'')]"

definition urls_of :: "string list \<Rightarrow> Urls" where
  "urls_of us = \<lparr>ul_trusteePublic = us ! 0, ul_trusteeApi = us ! 1, ul_trusteeOps = us ! 2, ul_trusteeTreasury = us ! 3,
     ul_trusteeCompliance = us ! 4, ul_trusteeAudit = us ! 5, ul_paychainPublic = us ! 6, ul_paychainApi = us ! 7,
     ul_paykhPublic = us ! 8, ul_paykhApi = us ! 9\<rparr>"

definition loadConfig :: "vars \<Rightarrow> (string \<Rightarrow> js_number option) \<Rightarrow> PlatformConfig res" where
  "loadConfig vars number = bind_r (map_r (\<lambda>(name, fallback). req vars name fallback) URL_VARS) (\<lambda>us. let u = urls_of us in
     Inr \<lparr>pc_nodeEnv = or_default (vars ''NODE_ENV'') ''development'',
       pc_port = (case vars ''PORT'' of None \<Rightarrow> Some 3000 | Some p \<Rightarrow> number p),
       pc_urls = u,
       pc_corsAllowedOrigins = comma_list (or_default (vars ''CORS_ALLOWED_ORIGINS'')
         (join '','' [ul_trusteePublic u, ul_trusteeOps u, ul_trusteeTreasury u, ul_trusteeCompliance u, ul_trusteeAudit u,
            ul_paychainPublic u, ul_paykhPublic u])),
       pc_paychainCallback = ul_paychainApi u @ ''/api/v1/trustee/events'',
       pc_paykhCallback = ul_paykhApi u @ ''/api/v1/trustee/events'',
       pc_swaggerEnabled = (or_default (vars ''SWAGGER_ENABLED'') ''true'' = ''true'')\<rparr>)"

section \<open>Start-up\<close>

definition DEFAULT_SALT :: string where
  "DEFAULT_SALT = ''cambobia-trustee-pilot''"

text \<open>The part of \<open>bootstrap\<close> before the application is created.\<close>

definition bootstrap :: "vars \<Rightarrow> (string \<Rightarrow> js_number option) \<Rightarrow> PlatformConfig res" where
  "bootstrap vars number = bind_r (loadConfig vars number) (\<lambda>config. let salt = vars ''CLIENT_SECRET_SALT'' in
     if pc_nodeEnv config = ''production'' \<and> (\<not> truthy salt \<or> salt = Some DEFAULT_SALT)
     then Inl (PlainError ''CLIENT_SECRET_SALT must be a non-default secret in production'') else Inr config)"

section \<open>The documentation gate\<close>

text \<open>The five patterns of \<open>docsPaths\<close>.\<close>

definition docs_path :: "string \<Rightarrow> bool" where
  "docs_path p = (p = ''/'' \<or> p \<in> {''/developers'', ''/developers/''} \<or> p \<in> {''/status'', ''/status/''}
     \<or> p = ''/docs'' \<or> startsWith ''/docs/'' p \<or> startsWith ''/api/v1/openapi'' p)"

datatype docs_answer = Next | Status nat

definition safeEqual :: "string \<Rightarrow> string \<Rightarrow> bool" where
  "safeEqual a b = (utf8_length a = utf8_length b \<and> a = b)"

definition docs_gate :: "vars \<Rightarrow> (string \<Rightarrow> string) \<Rightarrow> request \<Rightarrow> docs_answer" where
  "docs_gate vars base64 q = (let docsUser = or_default (vars ''DOCS_ACCESS_USER'') [];
       docsPass = or_default (vars ''DOCS_ACCESS_PASSWORD'') [] in
     if \<not> docs_path (hq_path q) then Next
     else if docsPass = [] then Status 503
     else (let header = or_default (hq_headers q ''authorization'') []; parts = split_on (CHR '':'') (base64 (drop 6 header));
         u = parts ! 0; p = (if 1 < length parts then parts ! 1 else []) in
       if startsWith ''Basic '' header \<and> safeEqual u docsUser \<and> safeEqual p docsPass then Next else Status 401))"

section \<open>The published contracts\<close>

definition filterPaths :: "(string \<times> 'a) list \<Rightarrow> string list \<Rightarrow> (string \<times> 'a) list" where
  "filterPaths paths ps = filter (\<lambda>(route, _). list_ex (\<lambda>p. startsWith p route) ps) paths"

definition clientDoc :: "(string \<times> 'a) list \<Rightarrow> (string \<times> 'a) list" where
  "clientDoc full = filterPaths full [''/api/v1/paychain'', ''/api/v1/paykh'']"

section \<open>Notifications\<close>

text \<open>\<open>send\<close> posts the body to Resend: whether the response is ok, or nothing when it throws.\<close>

definition notify :: "vars \<Rightarrow> (json \<Rightarrow> bool option) \<Rightarrow> string \<Rightarrow> string \<Rightarrow> string option \<Rightarrow> bool" where
  "notify vars send subject text toOverride =
     (let sender = or_default (vars ''NOTIFY_FROM'') ''Cambobia Trustee <contact@cambobia.com>'';
          recipients = (if truthy toOverride then [the toOverride]
            else comma_list (or_default (vars ''NOTIFY_TO'') ''contact@cambobia.com'')) in
      if \<not> truthy (vars ''RESEND_API_KEY'') then False
      else send (JObj [(''from'', JStr sender), (''to'', strings recipients), (''subject'', JStr (''[Trustee] '' @ subject)),
             (''text'', JStr text)]) = Some True)"

section \<open>When start-up is refused\<close>

lemma req_fails: "is_ok (req vars name fallback) \<longleftrightarrow> or_default (vars name) fallback \<noteq> []"
  by (simp add: req_def Let_def)

lemma map_r_ok: "is_ok (map_r f xs) \<longleftrightarrow> (\<forall>x \<in> set xs. is_ok (f x))"
proof (induction xs)
  case (Cons x xs)
  then show ?case by (cases "f x"; cases "map_r f xs") auto
qed simp

text \<open>Only a URL variable that is set to the empty string is missing.\<close>

lemma fallbacks_nonempty: "(name, fallback) \<in> set URL_VARS \<Longrightarrow> fallback \<noteq> []"
proof -
  have "list_all (\<lambda>(n, f). f \<noteq> []) URL_VARS" by (simp add: URL_VARS_def)
  then show "(name, fallback) \<in> set URL_VARS \<Longrightarrow> fallback \<noteq> []" by (auto simp: list_all_iff)
qed

lemma is_ok_then: "is_ok (bind_r r (\<lambda>x. Inr (f x))) = is_ok r"
  by (cases r) simp_all

lemma loadConfig_ok: "is_ok (loadConfig vars number) \<longleftrightarrow> (\<forall>(name, fallback) \<in> set URL_VARS. vars name \<noteq> Some [])"
proof -
  have "is_ok (loadConfig vars number) = is_ok (map_r (\<lambda>(name, fallback). req vars name fallback) URL_VARS)"
    unfolding loadConfig_def Let_def by (rule is_ok_then)
  also have "\<dots> \<longleftrightarrow> (\<forall>(name, fallback) \<in> set URL_VARS. or_default (vars name) fallback \<noteq> [])"
    unfolding map_r_ok by (auto simp: req_fails)
  also have "\<dots> \<longleftrightarrow> (\<forall>(name, fallback) \<in> set URL_VARS. vars name \<noteq> Some [])"
    using fallbacks_nonempty by (auto simp: or_default_def split: option.splits)
  finally show ?thesis .
qed

lemma production_salt:
  assumes "bootstrap vars number = Inr config" and "vars ''NODE_ENV'' = Some ''production''"
  shows "truthy (vars ''CLIENT_SECRET_SALT'') \<and> vars ''CLIENT_SECRET_SALT'' \<noteq> Some DEFAULT_SALT"
proof -
  from assms(1) have "pc_nodeEnv config = or_default (vars ''NODE_ENV'') ''development''"
    "\<not> (pc_nodeEnv config = ''production'' \<and> (\<not> truthy (vars ''CLIENT_SECRET_SALT'') \<or> vars ''CLIENT_SECRET_SALT'' = Some DEFAULT_SALT))"
    by (auto simp: bootstrap_def loadConfig_def bind_r_eq_Inr Let_def split: if_splits)
  with assms(2) show ?thesis by (auto simp: or_default_def)
qed

section \<open>The gate fails closed\<close>

lemma docs_need_password:
  assumes "docs_gate vars base64 q = Next" and "docs_path (hq_path q)"
  shows "\<exists>pass header. vars ''DOCS_ACCESS_PASSWORD'' = Some pass \<and> pass \<noteq> [] \<and> hq_headers q ''authorization'' = Some header
    \<and> startsWith ''Basic '' header"
  using assms
  by (auto simp: docs_gate_def Let_def or_default_def startsWith_def split: option.splits if_splits)

text \<open>\<open>split(':')\<close> cuts the password at its first colon: one that contains a colon is never accepted.\<close>

lemma split_on_plain: "p \<in> set (split_on d t) \<Longrightarrow> d \<notin> set p"
  by (induction d t arbitrary: p rule: split_on.induct) (auto split: if_splits list.splits)

lemma colon_password_locks_out:
  assumes "vars ''DOCS_ACCESS_PASSWORD'' = Some pass" and "CHR '':'' \<in> set pass" and "docs_path (hq_path q)"
  shows "docs_gate vars base64 q = Status 401"
proof -
  have "pass \<noteq> []" using assms(2) by auto
  moreover have "parts ! 1 \<noteq> pass" if "parts = split_on (CHR '':'') t" "1 < length parts" for parts t
    using split_on_plain [of "parts ! 1" "CHR '':''" t] that assms(2) by (metis nth_mem)
  ultimately show ?thesis using assms by (auto simp: docs_gate_def Let_def or_default_def safeEqual_def)
qed

section \<open>The contract names no internal route\<close>

lemma published_namespace:
  assumes "(route, x) \<in> set (clientDoc full)"
  shows "requiredPlatform route \<in> {Some ''PAYCHAIN'', Some ''PAYKH''}"
proof -
  have starts: "startsWith p route \<Longrightarrow> \<exists>rest. route = p @ rest" for p
    by (metis startsWith_def append_take_drop_id)
  from assms consider "startsWith ''/api/v1/paychain'' route" | "startsWith ''/api/v1/paykh'' route"
    by (auto simp: clientDoc_def filterPaths_def)
  then show ?thesis
  proof cases
    case 1
    from starts [OF this] obtain rest where "route = ''/api/v1/paychain'' @ rest" by blast
    then show ?thesis by (simp add: requiredPlatform_def startsWith_def)
  next
    case 2
    from starts [OF this] obtain rest where "route = ''/api/v1/paykh'' @ rest" by blast
    then show ?thesis by (simp add: requiredPlatform_def startsWith_def)
  qed
qed

end
