(* ===== verification/Seed.thy ===== *)
theory Seed
  imports Api
begin

text \<open>
  \<open>packages/database/prisma/seed.ts\<close>: the reference data that every deployment starts from and that
  is written again on a re-seed: feature flags, client applications, built-in roles, the super
  administrator, approval policies, emergency controls, two demo operators, a program and its
  trustee account. Digests and the ids of new rows are parameters; the columns that no modelled
  operation reads (descriptions of flags, most columns of program and account) and the printed
  credentials are left out. The lemmas say what a first seed grants, and what a re-seed keeps and
  what it resets.
\<close>

section \<open>Seed data\<close>

record seedenv =
  se_gate :: genv
  se_digest :: "string \<Rightarrow> 8 word list"
  se_salt :: string
  se_newId :: "string \<Rightarrow> string"

definition deterministicMfaSecret :: "seedenv \<Rightarrow> string \<Rightarrow> string" where
  "deterministicMfaSecret e account = base32Encode (take 20 (se_digest e (se_salt e @ '':'' @ account @ '':mfa'')))"

definition deterministicPassword :: "seedenv \<Rightarrow> string \<Rightarrow> string" where
  "deterministicPassword e account =
     ''Tr!'' @ take 20 (base64url (se_gate e) (se_digest e (se_salt e @ '':'' @ account @ '':password'')))"

definition pilotSecret :: "seedenv \<Rightarrow> string \<Rightarrow> string" where
  "pilotSecret e platform =
     take 40 (base64url (se_gate e) (se_digest e (se_salt e @ '':'' @ platform @ '':client-secret'')))"

definition hashSecret :: "seedenv \<Rightarrow> string \<Rightarrow> string" where
  "hashSecret e secret = sha256Hex (gv (se_gate e)) secret"

definition FEATURE_FLAGS :: "(string \<times> bool) list" where
  "FEATURE_FLAGS = [
     (''trustee.platform.enabled'', True), (''trustee.paychain.enabled'', True), (''trustee.paykh.enabled'', True),
     (''paychain.funding.enabled'', True), (''paychain.reserve.enabled'', True), (''paychain.mint-authorization.enabled'', True),
     (''paychain.redemption.enabled'', True), (''paychain.proof-of-reserve.enabled'', True),
     (''paykh.payment-confirmation.enabled'', True), (''paykh.khqr.enabled'', True), (''paykh.merchant-settlement.enabled'', True),
     (''paykh.program-funding.enabled'', True), (''paykh.cashback-funding.enabled'', False), (''paykh.giftcard-funding.enabled'', False),
     (''paykh.proof-of-safeguarding.enabled'', True),
     (''bank.core-api.enabled'', False), (''bank.statement-import.enabled'', True), (''bank.payout.enabled'', False),
     (''mint.authorization.enabled'', True),
     (''production.real-funds.enabled'', False), (''production.automatic-approval.enabled'', False)]"

text \<open>Platform, display name, client id and webhook URL.\<close>

definition CLIENT_APPS :: "(string \<times> string \<times> string \<times> string) list" where
  "CLIENT_APPS = [
     (''PAYCHAIN'', ''PayChain (paychain.cambobia.com)'', ''client_paychain_demo'', ''https://api.paychain.cambobia.com/api/v1/trustee/events''),
     (''PAYKH'', ''PayKH (paykh.cambobia.com)'', ''client_paykh_demo'', ''https://api.paykh.cambobia.com/api/v1/trustee/events''),
     (''TRUSTEE_BANK'', ''Trustee Bank Admin Console'', ''client_trustee_bank'', ''https://trustee.cambobia.com/api/v1/trustee/events'')]"

text \<open>Name, transaction type, minimal amount, approvals and roles; effect \<open>REQUIRE\<close>, priority 200.\<close>

definition ABAC_POLICIES :: "(string \<times> string \<times> int \<times> int \<times> string list) list" where
  "ABAC_POLICIES = [
     (''High-value mint requires treasury approval'', ''MINT_AUTHORIZATION'', 100000000, 3, [''trustee_operations_checker'', ''treasury_checker'']),
     (''High-value payout requires treasury approval'', ''PAYOUT'', 50000000, 3, [''treasury_checker''])]"

definition PLATFORM_CONTROLS :: "string list" where
  "PLATFORM_CONTROLS = [''platform.read-only'', ''mint.global-suspend'', ''redemption.global-suspend'', ''payout.global-suspend'',
     ''paychain.api-suspend'', ''paykh.api-suspend'']"

section \<open>Writing it\<close>

definition upsert :: "('r \<Rightarrow> 'k) \<Rightarrow> ('r \<Rightarrow> 'r) \<Rightarrow> 'r \<Rightarrow> 'r list \<Rightarrow> 'r list" where
  "upsert key update new rs = (if has_row key (key new) rs then set_row key (key new) update rs else rs @ [new])"

type_synonym seeder = "(seedenv, api, unit) prog"

definition on_platform :: "(seedenv \<Rightarrow> st \<Rightarrow> st) \<Rightarrow> seeder" where
  "on_platform f = bnd (asks id) (\<lambda>e. modify (\<lambda>a. a\<lparr>ap_st := f e (ap_st a)\<rparr>))"

definition on_users :: "(AuthUser list \<Rightarrow> AuthUser list) \<Rightarrow> seeder" where
  "on_users f = modify (\<lambda>a. let us = f (gt_users (ap_gate a)) in
     a\<lparr>ap_gate := (ap_gate a)\<lparr>gt_users := us\<rparr>, ap_st := (ap_st a)\<lparr>users := map user_row us\<rparr>\<rparr>)"

definition seed_flags :: seeder where
  "seed_flags = on_platform (\<lambda>_ s. s\<lparr>flags := fold (\<lambda>(k, on). upsert ff_key id \<lparr>ff_key = k, ff_enabled = on, ff_updatedBy = None\<rparr>)
     FEATURE_FLAGS (flags s)\<rparr>)"

definition seed_client :: "seedenv \<Rightarrow> string \<times> string \<times> string \<times> string \<Rightarrow> ClientApplication list \<Rightarrow> ClientApplication list" where
  "seed_client e c = (case c of (platform, name, clientId, url) \<Rightarrow> let hash = Some (hashSecret e (pilotSecret e platform)) in
     upsert cl_platform (\<lambda>k. k\<lparr>cl_webhookUrl := Some url, cl_displayName := name, cl_clientSecretHash := hash\<rparr>)
       \<lparr>cl_platform = platform, cl_displayName = name, cl_oauthClientId = clientId, cl_clientSecretHash = hash, cl_publicKeyPem = None,
        cl_requireSignature = False, cl_rateLimitPerMin = 600, cl_disabled = False, cl_webhookUrl = Some url\<rparr>)"

definition seed_clients :: seeder where
  "seed_clients = bnd (asks id) (\<lambda>e. modify (\<lambda>a. a\<lparr>ap_gate := (ap_gate a)\<lparr>gt_clients := fold (seed_client e) CLIENT_APPS (gt_clients (ap_gate a))\<rparr>\<rparr>))"

definition seed_role :: "RoleDefinition \<Rightarrow> Role list \<Rightarrow> Role list" where
  "seed_role r = (let permissions = map Permission_slug (rd_permissions r) in
     upsert role_slug (\<lambda>x. x\<lparr>role_name := rd_name r, role_institution := rd_institution r, role_permissions := permissions, role_builtin := True\<rparr>)
       \<lparr>role_slug = rd_slug r, role_name = rd_name r, role_institution = rd_institution r, role_description = None,
        role_permissions = permissions, role_builtin = True\<rparr>)"

definition seed_roles :: seeder where
  "seed_roles = modify (\<lambda>a. a\<lparr>ap_gate := (ap_gate a)\<lparr>gt_roles := fold seed_role BUILTIN_ROLES (gt_roles (ap_gate a))\<rparr>\<rparr>)"

definition new_user :: "string \<Rightarrow> string \<Rightarrow> string \<Rightarrow> string \<Rightarrow> string option \<Rightarrow> AuthUser" where
  "new_user i email name r hash = \<lparr>au_id = i, au_email = email, au_displayName = name, au_institution = ''TRUSTEE_BANK'',
     au_roles = [r], au_disabled = False, au_passwordHash = hash, au_mfaSecret = None, au_mfaEnabled = False, au_attributes = None\<rparr>"

definition superEmail :: string where
  "superEmail = ''contact@cambobia.com''"

definition seed_super :: seeder where
  "seed_super = bnd (asks id) (\<lambda>e. bnd (lift_r (hashPassword (se_gate e) (deterministicPassword e superEmail))) (\<lambda>h.
     on_users (upsert au_email
       (\<lambda>u. u\<lparr>au_roles := [''trustee_super_admin''], au_institution := ''TRUSTEE_BANK'', au_passwordHash := Some h\<rparr>)
       (new_user (se_newId e superEmail) superEmail ''Cambobia Super Admin'' ''trustee_super_admin'' (Some h)))))"

definition seed_policy :: "seedenv \<Rightarrow> string \<times> string \<times> int \<times> int \<times> string list \<Rightarrow> PolicyRow list \<Rightarrow> PolicyRow list" where
  "seed_policy e p ps = (case p of (name, kind, amount, n, rs) \<Rightarrow>
     if has_row pr_name name ps then ps
     else ps @ [\<lparr>pr_id = se_newId e name, pr_transactionType = kind, pr_minAmountMinor = Some amount, pr_maxAmountMinor = None,
       pr_currency = None, pr_riskLevel = None, pr_programId = None, pr_assetId = None, pr_jurisdiction = None,
       pr_requiredApprovals = n, pr_requiredRoles = rs, pr_effect = ''REQUIRE'', pr_priority = 200, pr_enabled = True,
       pr_name = name, pr_description = None\<rparr>])"

definition seed_policies :: seeder where
  "seed_policies = bnd (asks id) (\<lambda>e. modify (\<lambda>a.
     a\<lparr>ap_policies := (ap_policies a)\<lparr>pl_policies := fold (seed_policy e) ABAC_POLICIES (pl_policies (ap_policies a))\<rparr>\<rparr>))"

definition seed_controls :: seeder where
  "seed_controls = on_platform (\<lambda>_ s. s\<lparr>controls := fold (\<lambda>k. upsert pc_key id \<lparr>pc_key = k, pc_value = False\<rparr>) PLATFORM_CONTROLS (controls s)\<rparr>)"

definition seed_operators :: seeder where
  "seed_operators = bnd (asks id) (\<lambda>e. seq
     (on_users (upsert au_email id (new_user (se_newId e ''maker'') ''ops.maker@trustee.demo'' ''Demo Ops Maker'' ''trustee_operations_maker'' None)))
     (on_users (upsert au_email id (new_user (se_newId e ''checker'') ''ops.checker@trustee.demo'' ''Demo Ops Checker''
       ''trustee_operations_checker'' None))))"

definition demo_code :: string where
  "demo_code = ''DEMO-PUSD''"

definition seed_program :: seeder where
  "seed_program = on_platform (\<lambda>e s. s\<lparr>programs := upsert pg_code id \<lparr>pg_id = se_newId e demo_code, pg_code = demo_code,
     pg_issuerId = ''issuer_paychain_demo'', pg_assetId = ''PUSD'', pg_referenceCurrency = ''USD'', pg_requiredRatioBps = 10000,
     pg_safetyBufferBps = 0, pg_status = ProgramStatus.ACTIVE\<rparr> (programs s)\<rparr>)"

definition seed_account :: seeder where
  "seed_account = on_platform (\<lambda>_ s. s\<lparr>accounts := upsert ta_id id \<lparr>ta_id = ''demo-reserve-account'',
     ta_programId = (case find_row pg_code demo_code (programs s) of Some p \<Rightarrow> pg_id p | None \<Rightarrow> []),
     ta_maskedAccountNumber = ''****-****-4321'', ta_coreBankingRef = ''CBS-RES-0001'', ta_accountName = ''Demo Trustee Reserve Account'',
     ta_bankLegalEntity = ''Demo Trustee Bank Ltd'', ta_currency = ''USD'', ta_classification = ''RESERVE_ACCOUNT'',
     ta_supportedAssetId = ''PUSD'', ta_status = AccountStatus.ACTIVE, ta_bankId = None, ta_mockClearedMinor = 0\<rparr> (accounts s)\<rparr>)"

definition seed_main :: seeder where
  "seed_main = seq seed_flags (seq seed_clients (seq seed_roles (seq seed_super (seq seed_policies (seq seed_controls
     (seq seed_operators (seq seed_program seed_account)))))))"

section \<open>What upserting keeps\<close>

lemma upsert_id: "set rs \<subseteq> set (upsert key id new rs)"
  by (auto simp: upsert_def set_row_def)

lemma fold_subset: "(\<And>x ys. set ys \<subseteq> set (f x ys)) \<Longrightarrow> set ys \<subseteq> set (fold f xs ys)"
proof (induction xs arbitrary: ys)
  case (Cons x xs)
  from Cons.prems [of ys x] Cons.IH [OF Cons.prems, of "f x ys"] show ?case by simp
qed simp

lemma upsert_other: "r \<in> set rs \<Longrightarrow> key r \<noteq> key new \<Longrightarrow> r \<in> set (upsert key f new rs)"
  by (auto simp: upsert_def mem_set_row)

lemma upsert_hit: "r \<in> set rs \<Longrightarrow> key r = key new \<Longrightarrow> f r \<in> set (upsert key f new rs)"
  by (auto simp: upsert_def has_row_def list_ex_iff set_row_def)

lemma upsert_cases: "x \<in> set (upsert key f new rs) \<Longrightarrow> x = new \<or> x \<in> set rs \<or> (\<exists>r \<in> set rs. x = f r)"
  by (auto simp: upsert_def mem_set_row split: if_splits)

section \<open>A re-seed keeps what operators have set\<close>

text \<open>
  \<open>kept a b\<close>: every flag, emergency control, policy, program, account and user of \<open>a\<close> but the super
  administrator is in \<open>b\<close> as it was.
\<close>

definition kept :: "api \<Rightarrow> api \<Rightarrow> bool" where
  "kept a b \<longleftrightarrow> set (flags (ap_st a)) \<subseteq> set (flags (ap_st b)) \<and> set (controls (ap_st a)) \<subseteq> set (controls (ap_st b))
     \<and> set (programs (ap_st a)) \<subseteq> set (programs (ap_st b)) \<and> set (accounts (ap_st a)) \<subseteq> set (accounts (ap_st b))
     \<and> set (pl_policies (ap_policies a)) \<subseteq> set (pl_policies (ap_policies b))
     \<and> {u \<in> set (gt_users (ap_gate a)). au_email u \<noteq> superEmail} \<subseteq> set (gt_users (ap_gate b))"

definition keeping :: "seeder \<Rightarrow> bool" where
  "keeping m \<longleftrightarrow> (\<forall>e a. kept a (snd (m e a)))"

lemma kept_refl: "kept a a"
  by (auto simp: kept_def)

lemma kept_trans: "kept a b \<Longrightarrow> kept b c \<Longrightarrow> kept a c"
  unfolding kept_def by blast

lemma keeping_seq: "keeping m \<Longrightarrow> keeping n \<Longrightarrow> keeping (seq m n)"
  unfolding keeping_def
proof (intro allI)
  fix e a
  assume m: "\<forall>e a. kept a (snd (m e a))" and n: "\<forall>e a. kept a (snd (n e a))"
  obtain r b where run: "m e a = (r, b)" by (cases "m e a")
  with m have "kept a b" by (metis snd_conv)
  with n run show "kept a (snd (seq m n e a))" by (cases r) (auto simp: seq_def bnd_def intro: kept_trans)
qed

lemma flags_kept: "set fs \<subseteq> set (fold (\<lambda>(k, on). upsert ff_key id \<lparr>ff_key = k, ff_enabled = on, ff_updatedBy = None\<rparr>) xs fs)"
  by (rule fold_subset) (auto dest: subsetD [OF upsert_id])

lemma controls_kept: "set cs \<subseteq> set (fold (\<lambda>k. upsert pc_key id \<lparr>pc_key = k, pc_value = False\<rparr>) ks cs)"
  by (rule fold_subset) (rule upsert_id)

lemma policies_kept: "set ps \<subseteq> set (fold (seed_policy e) xs ps)"
  by (rule fold_subset) (auto simp: seed_policy_def split: prod.split)

lemmas seed_step_defs = on_platform_def on_users_def keeping_def bnd_def asks_def modify_def Let_def kept_def

lemma seed_steps_keep:
  "keeping seed_flags" "keeping seed_clients" "keeping seed_roles" "keeping seed_policies" "keeping seed_controls"
  "keeping seed_program" "keeping seed_account"
  by (simp_all add: seed_flags_def seed_clients_def seed_roles_def seed_policies_def seed_controls_def seed_program_def
      seed_account_def seed_step_defs flags_kept controls_kept policies_kept upsert_id)

lemma super_keeps: "keeping seed_super"
  by (auto simp: seed_super_def seed_step_defs lift_r_def new_user_def intro: upsert_other split: sum.split)

lemma operators_keep: "keeping seed_operators"
proof -
  have "keeping (on_users (upsert au_email id u))" for u
    by (auto simp: seed_step_defs dest: subsetD [OF upsert_id])
  then have "keeping (seq (on_users (upsert au_email id u)) (on_users (upsert au_email id v)))" for u v
    by (intro keeping_seq)
  then show ?thesis by (simp add: keeping_def seed_operators_def bnd_asks)
qed

lemma seed_keeps: "kept a (snd (seed_main e a))"
  using seed_steps_keep super_keeps operators_keep keeping_seq unfolding seed_main_def by (metis keeping_def)

text \<open>The super administrator keeps an enrolled second factor.\<close>

lemma super_factor_kept:
  assumes "u \<in> set us" and "au_email u = superEmail"
  shows "\<exists>v \<in> set (upsert au_email (\<lambda>u. u\<lparr>au_roles := rs, au_institution := i, au_passwordHash := Some h\<rparr>) (new_user j superEmail n r x) us).
    au_id v = au_id u \<and> au_mfaSecret v = au_mfaSecret u \<and> au_mfaEnabled v = au_mfaEnabled u \<and> au_disabled v = au_disabled u"
proof -
  let ?f = "\<lambda>u. u\<lparr>au_roles := rs, au_institution := i, au_passwordHash := Some h\<rparr>"
  have "?f u \<in> set (upsert au_email ?f (new_user j superEmail n r x) us)"
    using assms by (intro upsert_hit) (simp_all add: new_user_def)
  then show ?thesis by (intro bexI [of _ "?f u"]) simp_all
qed

section \<open>What a seed grants and resets\<close>

lemma seeded_roles_catalogued:
  assumes "\<forall>r \<in> set rs. \<forall>p \<in> set (role_permissions r). catalogued p"
  shows "\<forall>r \<in> set (fold seed_role ds rs). \<forall>p \<in> set (role_permissions r). catalogued p"
  using assms
proof (induction ds arbitrary: rs)
  case (Cons d ds)
  have "catalogued (Permission_slug p)" for p
    using ALL_PERMISSIONS_complete [of p] by (simp add: catalogued_def)
  with Cons.prems have "\<forall>r \<in> set (seed_role d rs). \<forall>p \<in> set (role_permissions r). catalogued p"
    by (auto simp: seed_role_def Let_def dest!: upsert_cases)
  with Cons.IH show ?case by simp
qed simp

text \<open>High-risk flags start disabled, and a re-seed never enables one.\<close>

definition HIGH_RISK :: "string list" where
  "HIGH_RISK = [''production.real-funds.enabled'', ''production.automatic-approval.enabled'', ''bank.payout.enabled'',
     ''bank.core-api.enabled'', ''paykh.cashback-funding.enabled'', ''paykh.giftcard-funding.enabled'']"

lemma high_risk_flags_off: "(k, True) \<in> set FEATURE_FLAGS \<Longrightarrow> k \<notin> set HIGH_RISK"
proof -
  have "list_all (\<lambda>(k, on). on \<longrightarrow> list_all (\<lambda>h. h \<noteq> k) HIGH_RISK) FEATURE_FLAGS" by code_simp
  then show "(k, True) \<in> set FEATURE_FLAGS \<Longrightarrow> k \<notin> set HIGH_RISK" by (auto simp: list_all_iff)
qed

text \<open>A re-seed puts the pilot secret back, also for a client whose secret was rotated.\<close>

lemma reseed_resets_secret:
  assumes "c \<in> set cs" and "cl_platform c = platform"
  shows "\<exists>k \<in> set (seed_client e (platform, name, i, url) cs). cl_oauthClientId k = cl_oauthClientId c
    \<and> cl_clientSecretHash k = Some (hashSecret e (pilotSecret e platform))"
proof -
  let ?f = "\<lambda>k. k\<lparr>cl_webhookUrl := Some url, cl_displayName := name, cl_clientSecretHash := Some (hashSecret e (pilotSecret e platform))\<rparr>"
  have "?f c \<in> set (seed_client e (platform, name, i, url) cs)"
    unfolding seed_client_def prod.case Let_def using assms by (intro upsert_hit) simp_all
  then show ?thesis by (intro bexI [of _ "?f c"]) simp_all
qed

end
