(* ===== verification/Events.thy ===== *)
theory Events
  imports System
begin

text \<open>
  The event names of \<open>events/events.service.ts\<close> and what the services publish under them. The lemmas
  show that every event in the outbox of a reachable state was published under a declared name of
  the platform it is addressed to, and list the declared names that no service ever publishes.
\<close>

section \<open>The declared names\<close>

definition PlatformEvent :: "(string \<times> string) list" where
  "PlatformEvent = [(''FUNDING_INSTRUCTION_CREATED'', ''funding.instruction.created''), (''DEPOSIT_DETECTED'', ''deposit.detected''),
     (''DEPOSIT_CLEARED'', ''deposit.cleared''), (''DEPOSIT_MATCHED'', ''deposit.matched''),
     (''DEPOSIT_HELD'', ''deposit.held''), (''DEPOSIT_REJECTED'', ''deposit.rejected''),
     (''RESERVE_SNAPSHOT_CREATED'', ''reserve.snapshot.created''),
     (''RESERVE_SHORTFALL_DETECTED'', ''reserve.shortfall.detected''), (''RESERVE_RESTORED'', ''reserve.restored''),
     (''MINT_AUTHORIZATION_APPROVED'', ''mint.authorization.approved''),
     (''MINT_AUTHORIZATION_REJECTED'', ''mint.authorization.rejected''),
     (''MINT_AUTHORIZATION_EXPIRED'', ''mint.authorization.expired''), (''MINT_CONFIRMED'', ''mint.confirmed''),
     (''REDEMPTION_APPROVED'', ''redemption.approved''),
     (''REDEMPTION_BURN_CONFIRMED'', ''redemption.burn.confirmed''),
     (''REDEMPTION_PAYOUT_SUBMITTED'', ''redemption.payout.submitted''),
     (''REDEMPTION_PAYOUT_CONFIRMED'', ''redemption.payout.confirmed''),
     (''REDEMPTION_COMPLETED'', ''redemption.completed''),
     (''RECONCILIATION_EXCEPTION_CREATED'', ''reconciliation.exception.created''),
     (''COMPLIANCE_HOLD_CREATED'', ''compliance.hold.created''), (''PROGRAM_SUSPENDED'', ''program.suspended''),
     (''ASSET_SUSPENDED'', ''asset.suspended'')]"

definition PaykhEvent :: "(string \<times> string) list" where
  "PaykhEvent = [(''PAYMENT_DETECTED'', ''paykh.payment.detected''), (''PAYMENT_CONFIRMED'', ''paykh.payment.confirmed''),
     (''PAYMENT_REJECTED'', ''paykh.payment.rejected''), (''PAYMENT_DUPLICATE'', ''paykh.payment.duplicate''),
     (''PAYMENT_REFUNDED'', ''paykh.payment.refunded''), (''PROFILE_VERIFIED'', ''paykh.payment-profile.verified''),
     (''PROFILE_SUSPENDED'', ''paykh.payment-profile.suspended''),
     (''PROGRAM_FUND_CLEARED'', ''paykh.program-fund.cleared''), (''PROGRAM_FUND_LOW'', ''paykh.program-fund.low''),
     (''PROGRAM_FUND_EXHAUSTED'', ''paykh.program-fund.exhausted''),
     (''SETTLEMENT_APPROVED'', ''paykh.settlement.approved''),
     (''SETTLEMENT_SUBMITTED'', ''paykh.settlement.submitted''),
     (''SETTLEMENT_CONFIRMED'', ''paykh.settlement.confirmed''),
     (''RECONCILIATION_EXCEPTION'', ''paykh.reconciliation.exception''),
     (''TENANT_SUSPENDED'', ''paykh.tenant.suspended''), (''LOYALTY_ISSUED'', ''paykh.loyalty.issued''),
     (''LOYALTY_REDEEMED'', ''paykh.loyalty.redeemed''), (''LOYALTY_RECONCILED'', ''paykh.loyalty.reconciled''),
     (''LOYALTY_RESERVE_DRIFT'', ''paykh.loyalty.reserve-drift'')]"

text \<open>The target platforms and the names that may be addressed to each.\<close>

definition TargetPlatform :: "string \<Rightarrow> string list" where
  "TargetPlatform p = (if p = ''PAYCHAIN'' then map snd PlatformEvent @ map snd PaykhEvent
     else if p = ''PAYKH'' then map snd PaykhEvent else [])"

definition declared :: "OutboxEvent \<Rightarrow> bool" where
  "declared ev \<longleftrightarrow> ob_eventType ev \<in> set (TargetPlatform (ob_targetPlatform ev))"

text \<open>Names that are declared and that no service publishes.\<close>

definition unpublished :: "string list" where
  "unpublished = [''deposit.held'', ''deposit.rejected'', ''reserve.restored'', ''compliance.hold.created'', ''program.suspended'',
     ''asset.suspended'', ''paykh.payment.detected'', ''paykh.program-fund.low'', ''paykh.settlement.submitted'',
     ''paykh.reconciliation.exception'', ''paykh.tenant.suspended'']"

definition publishable :: "OutboxEvent \<Rightarrow> bool" where
  "publishable ev \<longleftrightarrow> declared ev \<and> ob_eventType ev \<notin> set unpublished
     \<and> ob_deliveredAt ev = None \<and> ob_attempts ev = 0 \<and> \<not> ob_deadLettered ev"

section \<open>Programs that publish\<close>

definition emits :: "(OutboxEvent \<Rightarrow> bool) \<Rightarrow> 'a op \<Rightarrow> bool" where
  "emits P m \<longleftrightarrow> (\<forall>e s. \<exists>new. outbox (snd (m e s)) = outbox s @ new \<and> list_all P new)"

named_theorems emits_intros \<open>programs that publish events of some kind only\<close>

lemma emitsD: "emits P m \<Longrightarrow> \<exists>new. outbox (snd (m e s)) = outbox s @ new \<and> list_all P new"
  by (simp add: emits_def)

lemma leaves_emits: "leaves outbox m \<Longrightarrow> emits P m"
  by (simp add: leaves_def emits_def)

lemma emits_bnd [emits_intros]:
  assumes "emits P m" and "\<And>a. emits P (f a)"
  shows "emits P (bnd m f)"
  unfolding emits_def
proof (intro allI)
  fix e s
  obtain r s' where m: "m e s = (r, s')" by fastforce
  with emitsD [OF assms(1), of e s] obtain new where new: "outbox s' = outbox s @ new" "list_all P new" by auto
  show "\<exists>new. outbox (snd (bnd m f e s)) = outbox s @ new \<and> list_all P new"
  proof (cases r)
    case (Inl x)
    with m new show ?thesis by (auto simp: bnd_def)
  next
    case (Inr a)
    from emitsD [OF assms(2), of a e s'] obtain new' where "outbox (snd (f a e s')) = outbox s' @ new'" "list_all P new'" by auto
    with m Inr new show ?thesis by (intro exI [of _ "new @ new'"]) (auto simp: bnd_def)
  qed
qed

lemma emits_seq [emits_intros]: "emits P m \<Longrightarrow> emits P n \<Longrightarrow> emits P (seq m n)"
  by (simp add: seq_def emits_bnd)

lemma emits_void [emits_intros]: "emits P m \<Longrightarrow> emits P (void m)"
  by (simp add: emits_def snd_void)

lemma emits_basic [emits_intros]:
  "emits P (ret a)" "emits P (raise x)" "emits P (check b x)" "emits P (lift_r r)"
  "emits P (asks h)" "emits P (gets k)" "emits P (find_or l x)" "emits P (reads v)" "emits P (requireEnabled key)"
  by (intro leaves_emits leaves_intros)+

lemma emits_audit [emits_intros]: "emits P (audit r)" "emits P (post_res j)"
  by (intro leaves_emits leaves_intros; simp)+

lemma emits_rows [emits_intros]:
  "(\<And>s x. outbox (upd (\<lambda>_. x) s) = outbox s) \<Longrightarrow> emits P (create_row get upd clash n row)"
  "(\<And>s x. outbox (upd (\<lambda>_. x) s) = outbox s) \<Longrightarrow> emits P (update_row get upd key n k h)"
  by (intro leaves_emits leaves_intros; simp)+

lemma emits_modify [emits_intros]: "(\<And>s. outbox (g s) = outbox s) \<Longrightarrow> emits P (modify g)"
  by (intro leaves_emits leaves_modify)

lemma emits_if [emits_intros]: "emits P m \<Longrightarrow> emits P n \<Longrightarrow> emits P (if b then m else n)"
  by simp

lemma emits_case_option [emits_intros]:
  "emits P m \<Longrightarrow> (\<And>y. emits P (n y)) \<Longrightarrow> emits P (case x of None \<Rightarrow> m | Some y \<Rightarrow> n y)"
  by (simp split: option.split)

lemma emits_case_prod [emits_intros]:
  "(\<And>a b. emits P (n a b)) \<Longrightarrow> emits P (case x of (a, b) \<Rightarrow> n a b)"
  by (simp split: prod.split)

lemma emits_publish [emits_intros]:
  "(\<And>e. P (webhook_event e ''PAYCHAIN'' ty p)) \<Longrightarrow> emits P (publish ty p)"
  "(\<And>e. P (webhook_event e ''PAYKH'' ty p)) \<Longrightarrow> emits P (publishToPaykh ty p)"
  "(\<And>e. P (artifact_event e ty p art q)) \<Longrightarrow> emits P (publishWithArtifact ty p art q)"
  by (simp_all add: emits_def prog_simps)

lemma publishable_event:
  "publishable (webhook_event e t ty p) \<longleftrightarrow> ty \<in> set (TargetPlatform t) \<and> ty \<notin> set unpublished"
  "publishable (artifact_event e ty p art q) \<longleftrightarrow> ty \<in> set (TargetPlatform ''PAYCHAIN'') \<and> ty \<notin> set unpublished"
  by (simp_all add: publishable_def declared_def webhook_event_def artifact_event_def Let_def)

lemmas event_tables = publishable_event TargetPlatform_def PlatformEvent_def PaykhEvent_def unpublished_def

section \<open>What the services publish\<close>

lemma deposit_emits: "emits publishable (run_deposit c)"
  by (cases c; simp only: run_deposit.simps; unfold deposit_op_defs Let_def; intro emits_intros; simp add: event_tables)

lemma mint_emits: "emits publishable (run_mint c)"
  by (cases c; simp only: run_mint.simps; unfold mint_op_defs Let_def; intro emits_intros; simp add: event_tables)

lemma redemption_emits: "emits publishable (run_redemption c)"
  by (cases c; simp only: run_redemption.simps; unfold redemption_op_defs Let_def; intro emits_intros; simp add: event_tables)

lemma emits_match_order [emits_intros]: "emits publishable (match_order x input)"
  unfolding match_order_def confirm_order_def set_order_def Let_def by (intro emits_intros; simp add: event_tables)

lemma payment_emits: "emits publishable (run_payment c)"
  by (cases c; simp only: run_payment.simps; unfold payment_op_defs Let_def; intro emits_intros; simp add: event_tables)

lemma settlement_emits: "emits publishable (run_settlement c)"
  by (cases c; simp only: run_settlement.simps; unfold settlement_op_defs Let_def; intro emits_intros; simp add: event_tables)

lemma emits_parts [emits_intros]:
  "emits P (issue_tx f l n r)" "emits P (redeem_tx l n q)" "emits P (bank_loop accs acc)"
  by (intro leaves_emits leaves_intros; simp)+

lemma loyalty_emits: "emits publishable (run_loyalty c)"
  by (cases c; simp only: run_loyalty.simps; unfold loyalty_op_defs Let_def; intro emits_intros; simp add: event_tables)

lemma oversight_emits: "emits publishable (run_oversight c)"
  by (cases c; simp only: run_oversight.simps; unfold oversight_op_defs Let_def; intro emits_intros; simp add: event_tables)

lemma reserve_emits: "emits publishable (run_reserve c)"
  by (cases c; simp only: run_reserve.simps; unfold reserve_op_defs Let_def; intro emits_intros; simp add: event_tables)

lemma run_emits: "emits publishable (run c)"
  by (cases c)
     (simp_all add: emits_void deposit_emits mint_emits redemption_emits payment_emits settlement_emits loyalty_emits oversight_emits
       reserve_emits leaves_emits leaves_mask [OF liability_frame] leaves_mask [OF flag_frame] leaves_mask [OF platform_frame] masks)

definition outbox_published :: "st \<Rightarrow> bool" where
  "outbox_published s \<longleftrightarrow> list_all publishable (outbox s)"

interpretation published_events: invariant outbox_published
proof
  show "outbox_published empty_state" by (simp add: outbox_published_def empty_state_def)
  show "outbox_published s \<Longrightarrow> outbox_published (with_reference us ps as cs ks s)" for us ps as cs ks s
    by (simp add: outbox_published_def with_reference_def)
  show "keeps outbox_published (run c)" for c
    unfolding keeps_def outbox_published_def
  proof (intro allI impI)
    fix e and s :: st
    assume "list_all publishable (outbox s)"
    with emitsD [OF run_emits, of c e s] show "list_all publishable (outbox (snd (run c e s)))" by auto
  qed
qed

lemma published_event:
  assumes "reachable s" and "ev \<in> set (outbox s)"
  shows "ob_eventType ev \<in> set (TargetPlatform (ob_targetPlatform ev))" and "ob_eventType ev \<notin> set unpublished"
  using published_events.in_reachable [OF assms(1)] assms(2)
  by (auto simp: outbox_published_def list_all_iff publishable_def declared_def)

text \<open>The names that are never published are declared ones.\<close>

lemma unpublished_declared: "set unpublished \<subseteq> snd ` (set PlatformEvent \<union> set PaykhEvent)"
  by (simp add: unpublished_def PlatformEvent_def PaykhEvent_def)

end
