(* ===== verification/Integrations.thy ===== *)
theory Integrations
  imports Keyring Worker Stellar
begin

text \<open>
  How the platform and the worker are connected to the outside: the health probes and supply read of
  the HTTP adapters (\<open>packages/adapters\<close>), the pilot adapters (\<open>pilot-adapters.ts\<close>), the construction
  of the issuance gateway from the environment (\<open>issuance-gateway.service.ts\<close>) and the worker's own
  key and adapters (\<open>webhook-delivery.ts\<close>). \<open>fetch\<close>, \<open>JSON.parse\<close> at the type the code casts to, the
  Stellar SDK and SHA-256 are parameters. The lemmas show that the gateway simulates exactly when no
  PayChain address is configured, that it can never submit a Stellar transaction itself, and that
  worker and platform sign with the same webhook key whenever both load one from the same secret.
\<close>

section \<open>Health probes and reads\<close>

record IntegrationHealth =
  ih_healthy :: bool
  ih_detail :: "string option"

definition adapter_health :: "string + bool \<Rightarrow> IntegrationHealth" where
  "adapter_health r = (case r of Inr ok \<Rightarrow> \<lparr>ih_healthy = ok, ih_detail = None\<rparr>
     | Inl message \<Rightarrow> \<lparr>ih_healthy = False, ih_detail = Some message\<rparr>)"

text \<open>\<open>fetch\<close> of an address without options: whether the status is a success, or the message thrown.\<close>

definition paychain_health :: "(string \<Rightarrow> string + bool) \<Rightarrow> string \<Rightarrow> IntegrationHealth" where
  "paychain_health fetch baseUrl = adapter_health (fetch (baseUrl @ ''/health''))"

definition paykh_health :: "(string \<Rightarrow> string + bool) \<Rightarrow> string \<Rightarrow> IntegrationHealth" where
  "paykh_health fetch baseUrl = adapter_health (fetch (baseUrl @ ''/health''))"

definition issuance_health :: "(string \<Rightarrow> string + bool) \<Rightarrow> string \<Rightarrow> IntegrationHealth" where
  "issuance_health fetch baseUrl = adapter_health (fetch (baseUrl @ ''/health''))"

definition bank_health :: "(string \<Rightarrow> string + bool) \<Rightarrow> string \<Rightarrow> IntegrationHealth" where
  "bank_health fetch baseUrl = adapter_health (fetch (baseUrl @ ''/health''))"

text \<open>Horizon is healthy when its last ledger can be read.\<close>

definition stellar_health :: "string + unit \<Rightarrow> IntegrationHealth" where
  "stellar_health lastLedger = adapter_health (case lastLedger of Inl m \<Rightarrow> Inl m | Inr _ \<Rightarrow> Inr True)"

record HttpAdapterConfig =
  hc_baseUrl :: string
  hc_webhookUrl :: string
  hc_apiVersion :: string
  hc_authToken :: "string option"
  hc_timeoutMs :: "int option"

record AssetSupply =
  sp_assetId :: string
  sp_circulatingMinor :: string
  sp_currency :: string
  sp_ledgerReference :: string

definition getAssetSupply :: "http_get \<Rightarrow> (string \<Rightarrow> AssetSupply res) \<Rightarrow> HttpAdapterConfig \<Rightarrow> string \<Rightarrow> AssetSupply res" where
  "getAssetSupply fetch parse c assetId =
     bind_r (fetch (hc_baseUrl c @ ''/api/v1/trustee/assets/'' @ assetId @ ''/supply'') (bearer_header (hc_authToken c)))
       (\<lambda>(ok, status, body). if \<not> ok then Inl (PlainError (''PayChain supply fetch failed: '' @ bigint_toString status)) else parse body)"

section \<open>The pilot adapters\<close>

record BankAccountBalance =
  bl_accountRef :: string
  bl_clearedMinor :: string
  bl_currency :: string
  bl_asOf :: string

type_synonym manual_bank = "string \<Rightarrow> BankAccountBalance option"

definition setBalance :: "BankAccountBalance \<Rightarrow> manual_bank \<Rightarrow> manual_bank" where
  "setBalance b m = m(bl_accountRef b \<mapsto> b)"

definition manual_getAccountBalance :: "manual_bank \<Rightarrow> string \<Rightarrow> BankAccountBalance res" where
  "manual_getAccountBalance m accountRef = require (m accountRef) (PlainError (''No manual balance recorded for '' @ accountRef))"

record KhqrPaymentRef =
  kq_reference :: string
  kq_khqrString :: string

definition pilot_createPaymentReference :: "env \<Rightarrow> string \<Rightarrow> string \<Rightarrow> string \<Rightarrow> KhqrPaymentRef" where
  "pilot_createPaymentReference e recipientPayload amountMinor cur =
     (let reference = ''KHQR-'' @ toUpperCase (take 12 (sha256Hex e (recipientPayload @ '':'' @ amountMinor @ '':'' @ cur))) in
     \<lparr>kq_reference = reference, kq_khqrString = recipientPayload @ ''|amt='' @ amountMinor @ ''|ref='' @ reference\<rparr>)"

datatype RiskLevel = LOW | MEDIUM | HIGH | CRITICAL

record ScreeningResult =
  sr_cleared :: bool
  sr_riskLevel :: RiskLevel
  sr_caseId :: "string option"

definition screenPerson :: "string \<Rightarrow> ScreeningResult" where
  "screenPerson fullName = (let cleared = 0 < length (trim fullName) in
     \<lparr>sr_cleared = cleared, sr_riskLevel = (if cleared then LOW else HIGH), sr_caseId = None\<rparr>)"

definition screenDeposit :: "string \<Rightarrow> ScreeningResult res" where
  "screenDeposit amountMinor = bind_r (BigInt amountMinor) (\<lambda>amount.
     Inr \<lparr>sr_cleared = True, sr_riskLevel = (if 100000000 \<le> amount then MEDIUM else LOW), sr_caseId = None\<rparr>)"

definition pilot_health :: "string \<Rightarrow> IntegrationHealth" where
  "pilot_health mode = \<lparr>ih_healthy = True, ih_detail = Some mode\<rparr>"

section \<open>The issuance gateway\<close>

record PayChainIssuanceConfig =
  pi_baseUrl :: string
  pi_apiVersion :: string
  pi_authToken :: "string option"

record IssuanceGateway =
  gw_paychain :: "PayChainIssuanceConfig option"
  gw_horizon :: "(string \<times> HorizonStellarConfig) option"
  gw_liveExecution :: bool
  gw_onChainVerification :: bool

definition issuance_gateway :: "(string \<Rightarrow> string option) \<Rightarrow> IssuanceGateway" where
  "issuance_gateway vars = (let issuanceUrl = vars ''PAYCHAIN_ISSUANCE_URL''; horizonUrl = vars ''STELLAR_HORIZON_URL'' in
     \<lparr>gw_paychain = (if truthy issuanceUrl then Some \<lparr>pi_baseUrl = the issuanceUrl,
         pi_apiVersion = (case vars ''PAYCHAIN_API_VERSION'' of None \<Rightarrow> ''v1'' | Some v \<Rightarrow> v),
         pi_authToken = vars ''PAYCHAIN_ISSUANCE_TOKEN''\<rparr> else None),
      gw_horizon = (if truthy horizonUrl then Some (the horizonUrl, \<lparr>hz_networkPassphrase = None, hz_issuerSecret = None,
         hz_timeoutSeconds = None\<rparr>) else None),
      gw_liveExecution = truthy issuanceUrl,
      gw_onChainVerification = truthy horizonUrl\<rparr>)"

text \<open>The environment of a process whose gateway is this one, over \<open>fetch\<close> and the Stellar SDK of an address.\<close>

definition with_gateway ::
  "http_post \<Rightarrow> (string \<Rightarrow> IssuanceExecutionResult res) \<Rightarrow> (IssuanceExecutionRequest \<Rightarrow> string) \<Rightarrow> (string \<Rightarrow> stellar_sdk)
     \<Rightarrow> IssuanceGateway \<Rightarrow> env \<Rightarrow> env" where
  "with_gateway fetch parse print server g e = e\<lparr>
     paychainExecute := map_option (\<lambda>c. paychain_execute fetch parse print (pi_baseUrl c) (pi_apiVersion c) (pi_authToken c)) (gw_paychain g),
     horizonSupply := map_option (\<lambda>(url, _). \<lambda>code issuer decs.
       bind_r (getSupply (server url) e code issuer decs) (\<lambda>s. Inr (Some (ss_circulatingMinor s)))) (gw_horizon g)\<rparr>"

section \<open>The worker's key and adapters\<close>

definition loadWebhookKey :: "kenv \<Rightarrow> string option \<Rightarrow> SigningKey option" where
  "loadWebhookKey g raw = (if \<not> truthy raw then None
     else (case parseKeys g (key_json g (the raw)) of None \<Rightarrow> None
       | Some parsed \<Rightarrow> map_option (signing_key WEBHOOK) (parsed ''WEBHOOK'')))"

definition paychainAdapter :: "(string \<Rightarrow> string option) \<Rightarrow> string \<Rightarrow> HttpAdapterConfig" where
  "paychainAdapter vars webhookUrl = \<lparr>hc_baseUrl = (case vars ''PAYCHAIN_API_URL'' of
       None \<Rightarrow> ''https://api.paychain.cambobia.com'' | Some u \<Rightarrow> u),
     hc_webhookUrl = webhookUrl, hc_apiVersion = ''v1'', hc_authToken = None, hc_timeoutMs = None\<rparr>"

definition paykhAdapter :: "(string \<Rightarrow> string option) \<Rightarrow> string \<Rightarrow> HttpAdapterConfig" where
  "paykhAdapter vars webhookUrl = \<lparr>hc_baseUrl = (case vars ''PAYKH_API_URL'' of
       None \<Rightarrow> ''https://api.paykh.cambobia.com'' | Some u \<Rightarrow> u),
     hc_webhookUrl = webhookUrl, hc_apiVersion = ''v1'', hc_authToken = None, hc_timeoutMs = None\<rparr>"

section \<open>Lemmas\<close>

text \<open>The last recorded balance of an account is the one read; the others stay.\<close>

lemma manual_balance_set:
  "manual_getAccountBalance (setBalance b m) r = (if r = bl_accountRef b then Inr b else manual_getAccountBalance m r)"
  by (simp add: manual_getAccountBalance_def setBalance_def require_def)

text \<open>The pilot clears every deposit whose amount is an integer, whatever it is.\<close>

lemma pilot_clears_all: "is_ok (screenDeposit a) \<longleftrightarrow> is_ok (BigInt a)"
  "screenDeposit a = Inr r \<Longrightarrow> sr_cleared r"
  by (cases "BigInt a"; auto simp: screenDeposit_def bind_r_eq_Inr)+

text \<open>
  Execution is simulated exactly when no PayChain address is configured. A live one reports
  \<open>simulated = false\<close> and takes its status from PayChain.
\<close>

lemma gateway_simulates:
  assumes "execute (with_gateway fetch parse print server (issuance_gateway vars) e) req = Inr r"
  shows "ix_simulated r \<longleftrightarrow> \<not> truthy (vars ''PAYCHAIN_ISSUANCE_URL'')"
    and "ix_simulated r \<Longrightarrow> ix_accepted r"
  using assms by (auto simp: execute_def with_gateway_def issuance_gateway_def Let_def bind_r_eq_Inr split: if_splits)

lemma gateway_flags:
  "gw_liveExecution (issuance_gateway vars) \<longleftrightarrow> gw_paychain (issuance_gateway vars) \<noteq> None"
  "gw_onChainVerification (issuance_gateway vars) \<longleftrightarrow> gw_horizon (issuance_gateway vars) \<noteq> None"
  by (simp_all add: issuance_gateway_def Let_def)

text \<open>The adapter that the gateway builds holds no issuing key, so it submits no transaction.\<close>

lemma gateway_cannot_issue:
  assumes "gw_horizon (issuance_gateway vars) = Some (url, cfg)"
  shows "\<not> is_ok (stellar_issue sdk cfg order) \<and> \<not> is_ok (stellar_burn sdk cfg order)"
  using assms no_key_no_transaction [of cfg sdk order]
  by (auto simp: issuance_gateway_def Let_def truthy_def split: if_splits)

text \<open>Where the platform loads its keys from a secret, the worker signs with the platform's webhook key.\<close>

lemma worker_signs_with_platform_key:
  assumes "load_keyring g vars = Inr r" and "truthy (vars ''TRUSTEE_SIGNING_KEYS'')"
  shows "loadWebhookKey g (vars ''TRUSTEE_SIGNING_KEYS'') = kr_keys r WEBHOOK"
  using assms by (auto simp: load_keyring_def load_secret_def loadWebhookKey_def bind_r_eq_Inr split: option.splits if_splits)

text \<open>A secret that stops the platform is no error for the worker, which delivers without a key of its own.\<close>

lemma worker_ignores_bad_secret:
  assumes "parseKeys g (key_json g raw) = None"
  shows "loadWebhookKey g (Some raw) = None" and "raw \<noteq> [] \<Longrightarrow> \<not> is_ok (load_secret g raw)"
  using assms by (simp_all add: loadWebhookKey_def load_secret_def)

lemma keyless_header:
  assumes "webhookKey g = None"
  shows "stripeSignature g ts body = JUndef"
  using assms by (simp add: stripeSignature_def)

end
