(* ===== verification/Portal.thy ===== *)
theory Portal
  imports Configuration "HOL-Library.Sublist"
begin

text \<open>
  The portal pages (\<open>packages/portal-ui/src/index.ts\<close>) and the two services that send them
  (\<open>trustee-admin-portal\<close> and the portal controller of the API). The page texts are arguments
  (\<open>pages\<close>); what the code does with them is the substitution of a configured address. The lemmas
  show which texts are replaced, and which configured addresses are not inserted as they stand.
\<close>

section \<open>Substitution in strings\<close>

text \<open>The first occurrence of \<open>p\<close>: the text before it and the text after it.\<close>

fun find_sub :: "string \<Rightarrow> string \<Rightarrow> (string \<times> string) option" where
  "find_sub p [] = (if p = [] then Some ([], []) else None)"
| "find_sub p (c # cs) =
     (if take (length p) (c # cs) = p then Some ([], drop (length p) (c # cs))
      else map_option (\<lambda>(b, a). (c # b, a)) (find_sub p cs))"

lemma take_is: "take (length p) s = p \<longleftrightarrow> prefix p s"
  by (metis append_eq_conv_conj append_take_drop_id prefix_def)

lemma find_sub_Some: "find_sub p s = Some (b, a) \<Longrightarrow> s = b @ p @ a"
proof (induction p s arbitrary: b rule: find_sub.induct)
  case (2 p c cs)
  show ?case
  proof (cases "prefix p (c # cs)")
    case True
    then obtain r where "c # cs = p @ r" by (auto simp: prefix_def)
    moreover from 2(2) True have "b = []" "a = drop (length p) (c # cs)" by (simp_all only: find_sub.simps take_is) simp_all
    ultimately show ?thesis by (simp only:) simp
  next
    case False
    then have "take (length p) (c # cs) \<noteq> p" by (metis take_is)
    with 2 show ?thesis by auto
  qed
qed (simp split: if_splits)

lemma find_sub_None: "find_sub p s = None \<Longrightarrow> \<not> sublist p s"
proof (induction p s rule: find_sub.induct)
  case (2 p c cs)
  then have "take (length p) (c # cs) \<noteq> p" by auto
  with 2 show ?case by (simp only: take_is find_sub.simps) (simp add: sublist_Cons_right)
qed (simp split: if_splits)

lemma find_sub_first: "find_sub p s = Some (b, a) \<Longrightarrow> p \<noteq> [] \<Longrightarrow> \<not> sublist p b"
proof (induction p s arbitrary: b rule: find_sub.induct)
  case (2 p c cs)
  show ?case
  proof (cases "prefix p (c # cs)")
    case True
    with 2(2,3) show ?thesis by (simp only: find_sub.simps take_is) simp
  next
    case False
    then have no: "take (length p) (c # cs) \<noteq> p" by (metis take_is)
    with 2(2) obtain b' where b': "b = c # b'" "find_sub p cs = Some (b', a)" by auto
    have "c # cs = (c # b') @ p @ a" using find_sub_Some [OF b'(2)] by simp
    with False have "\<not> prefix p (c # b')" by (metis prefix_prefix)
    with 2(1) [OF no b'(2) 2(3)] b'(1) show ?thesis by (simp add: sublist_Cons_right)
  qed
qed (simp split: if_splits)

text \<open>\<open>s.split(sep)\<close>; the empty separator splits between all characters.\<close>

function js_split :: "string \<Rightarrow> string \<Rightarrow> string list" where
  "js_split sep s =
     (if sep = [] then map (\<lambda>c. [c]) s
      else case find_sub sep s of None \<Rightarrow> [s] | Some (b, a) \<Rightarrow> b # js_split sep a)"
  by auto
termination
  by (relation "measure (\<lambda>(sep, s). length s)") (auto dest: find_sub_Some)

declare js_split.simps [simp del]

lemma js_split_not_Nil: "sep \<noteq> [] \<Longrightarrow> js_split sep s \<noteq> []"
  by (subst js_split.simps) (auto split: option.splits)

text \<open>Splitting and joining with the separator gives the text back.\<close>

lemma join_split: "sep \<noteq> [] \<Longrightarrow> join sep (js_split sep s) = s"
proof (induction sep s rule: js_split.induct)
  case (1 sep s)
  show ?case
  proof (cases "find_sub sep s")
    case None
    with 1 show ?thesis by (subst js_split.simps) simp
  next
    case (Some ba)
    obtain b a where ba: "ba = (b, a)" by (cases ba)
    from 1(1) [OF 1(2) Some ba [symmetric] 1(2)] have "join sep (js_split sep a) = a" by blast
    moreover obtain x xs where "js_split sep a = x # xs" using js_split_not_Nil [OF 1(2), of a] by (cases "js_split sep a") auto
    ultimately show ?thesis using 1(2) Some ba find_sub_Some [of sep s b a] by (subst js_split.simps) simp
  qed
qed

text \<open>
  \<open>s.replace(pattern, replacement)\<close> with two strings: the first occurrence only, and in the
  replacement \<open>$$\<close>, \<open>$&\<close>, \<open>$`\<close> and \<open>$'\<close> stand for a dollar sign, the matched text, the text
  before and the text after. A pattern string has no groups, so \<open>$1\<close> stays as it is.
\<close>

fun expand :: "string \<Rightarrow> string \<Rightarrow> string \<Rightarrow> string \<Rightarrow> string" where
  "expand m b a (c # d # cs) =
     (if c \<noteq> CHR ''$'' then c # expand m b a (d # cs)
      else if d = CHR ''$'' then d # expand m b a cs
      else if d = CHR ''&'' then m @ expand m b a cs
      else if d = CHR 0x60 then b @ expand m b a cs
      else if d = CHR 0x27 then a @ expand m b a cs
      else c # expand m b a (d # cs))"
| "expand m b a cs = cs"

definition js_replace :: "string \<Rightarrow> string \<Rightarrow> string \<Rightarrow> string" where
  "js_replace p r s = (case find_sub p s of None \<Rightarrow> s | Some (b, a) \<Rightarrow> b @ expand p b a r @ a)"

lemma expand_plain: "CHR ''$'' \<notin> set r \<Longrightarrow> expand m b a r = r"
  by (induction m b a r rule: expand.induct) auto

section \<open>The pages\<close>

record pages =
  pg_DEVELOPER_HUB_TEMPLATE :: string
  pg_LANDING_HTML :: string
  pg_ADMIN_CONSOLE_TEMPLATE :: string

definition dq :: string where
  "dq = [CHR 0x22]"

definition developerHubHtml :: "pages \<Rightarrow> string \<Rightarrow> string" where
  "developerHubHtml p apiBase = join apiBase (js_split ''{{API_BASE}}'' (pg_DEVELOPER_HUB_TEMPLATE p))"

definition landingHtml :: "pages \<Rightarrow> string \<Rightarrow> string" where
  "landingHtml p adminUrl = js_replace (''href='' @ dq @ ''/admin'' @ dq) (''href='' @ dq @ adminUrl @ dq) (pg_LANDING_HTML p)"

definition inject :: "string \<Rightarrow> string" where
  "inject apiBase = ''<script>window.__API_BASE__='' @ stringify (JStr apiBase) @ '';</script>''"

definition adminConsoleHtml :: "pages \<Rightarrow> string \<Rightarrow> string" where
  "adminConsoleHtml p apiBase = js_replace ''</head>'' (inject apiBase @ ''</head>'') (pg_ADMIN_CONSOLE_TEMPLATE p)"

section \<open>The services that send them\<close>

datatype page = Html string | HealthJson "(string \<times> string) list"

definition admin_portal :: "pages \<Rightarrow> vars \<Rightarrow> string \<Rightarrow> page option" where
  "admin_portal p vars path =
     (let apiBase = (case vars ''TRUSTEE_API_URL'' of None \<Rightarrow> ''https://api.trustee.cambobia.com'' | Some u \<Rightarrow> u);
          adminUrl = (case vars ''TRUSTEE_PUBLIC_URL'' of None \<Rightarrow> ''https://trustee.cambobia.com'' | Some u \<Rightarrow> u)
      in if path = ''/health'' then Some (HealthJson [(''status'', ''ok''), (''service'', ''trustee-admin-portal'')])
         else if path \<in> {''/'', ''/admin''} then Some (Html (adminConsoleHtml p apiBase))
         else if path = ''/status'' then Some (Html (landingHtml p adminUrl))
         else None)"

text \<open>The controller renders its pages when the module is loaded, with the configured public address.\<close>

definition portal_controller :: "pages \<Rightarrow> PlatformConfig \<Rightarrow> string \<Rightarrow> page option" where
  "portal_controller p cfg path =
     (if path \<in> {''/'', ''/developers''} then Some (Html (developerHubHtml p []))
      else if path = ''/status'' then Some (Html (landingHtml p (ul_trusteePublic (pc_urls cfg))))
      else None)"

section \<open>What is replaced\<close>

text \<open>The pieces between two inserted addresses hold no placeholder any more.\<close>

lemma split_pieces: "sep \<noteq> [] \<Longrightarrow> x \<in> set (js_split sep s) \<Longrightarrow> \<not> sublist sep x"
proof (induction sep s rule: js_split.induct)
  case (1 sep s)
  show ?case
  proof (cases "find_sub sep s")
    case None
    then have "js_split sep s = [s]" using 1(2) by (subst js_split.simps) simp
    with 1(3) find_sub_None [OF None] show ?thesis by simp
  next
    case (Some ba)
    obtain b a where ba: "ba = (b, a)" by (cases ba)
    have "js_split sep s = b # js_split sep a" using 1(2) Some ba by (subst js_split.simps) simp
    with 1(3) find_sub_first [of sep s b a] 1(1) [OF 1(2) Some ba [symmetric] 1(2)] 1(2) Some ba
    show ?thesis by auto
  qed
qed

lemma developer_hub_text:
  obtains pieces where "pg_DEVELOPER_HUB_TEMPLATE p = join ''{{API_BASE}}'' pieces" "developerHubHtml p apiBase = join apiBase pieces"
    "\<And>x. x \<in> set pieces \<Longrightarrow> \<not> sublist ''{{API_BASE}}'' x"
proof (rule that [of "js_split ''{{API_BASE}}'' (pg_DEVELOPER_HUB_TEMPLATE p)"])
  show "pg_DEVELOPER_HUB_TEMPLATE p = join ''{{API_BASE}}'' (js_split ''{{API_BASE}}'' (pg_DEVELOPER_HUB_TEMPLATE p))"
    by (simp only: join_split not_Cons_self list.distinct simp_thms)
qed (auto simp: developerHubHtml_def dest: split_pieces [rotated])

lemma replace_plain:
  assumes "find_sub p s = Some (b, a)" and "CHR ''$'' \<notin> set r"
  shows "js_replace p r s = b @ r @ a"
  by (simp add: js_replace_def assms(1) expand_plain [OF assms(2)])

lemma dollar_char: "CHR ''$'' = char_of (n :: nat) \<longleftrightarrow> n mod 256 = 36"
  by (auto simp: eq_commute [of _ "char_of n"] char_of_eq_iff take_bit_eq_mod)

lemma hex_not_dollar: "n < 16 \<Longrightarrow> CHR ''$'' \<noteq> hex_digit n"
  by (simp add: hex_digit_def dollar_char)

lemma quoted_dollar: "CHR ''$'' \<in> set (quote_char c) \<Longrightarrow> c = CHR ''$''"
  using hex_not_dollar [of "of_char c div 16"] hex_not_dollar [of "of_char c mod 16"]
  by (auto simp: quote_char_def Let_def dollar_char split: if_splits)

lemma inject_dollar: "CHR ''$'' \<notin> set apiBase \<Longrightarrow> CHR ''$'' \<notin> set (inject apiBase @ ''</head>'')"
  by (auto simp: inject_def quote_def dollar_char dest: quoted_dollar)

text \<open>
  An address without a dollar sign is inserted once, before the end of the head, as a JSON string;
  the rest of the page is as the template has it.
\<close>

lemma admin_console_text:
  assumes "find_sub ''</head>'' (pg_ADMIN_CONSOLE_TEMPLATE p) = Some (b, a)" and "CHR ''$'' \<notin> set apiBase"
  shows "adminConsoleHtml p apiBase = b @ inject apiBase @ ''</head>'' @ a"
  using replace_plain [OF assms(1) inject_dollar [OF assms(2)]] by (simp add: adminConsoleHtml_def)

lemma landing_text:
  assumes "find_sub (''href='' @ dq @ ''/admin'' @ dq) (pg_LANDING_HTML p) = Some (b, a)" and "CHR ''$'' \<notin> set adminUrl"
  shows "landingHtml p adminUrl = b @ ''href='' @ dq @ adminUrl @ dq @ a"
proof -
  from assms(2) have "CHR ''$'' \<notin> set (''href='' @ dq @ adminUrl @ dq)" by (simp add: dq_def)
  from replace_plain [OF assms(1) this] show ?thesis by (simp add: landingHtml_def)
qed

text \<open>With a dollar sign the address is not inserted as it stands.\<close>

lemma landing_dollar:
  "landingHtml \<lparr>pg_DEVELOPER_HUB_TEMPLATE = [], pg_LANDING_HTML = ''<a href='' @ dq @ ''/admin'' @ dq @ ''>'', pg_ADMIN_CONSOLE_TEMPLATE = []\<rparr> ''u?a=$$b''
   = ''<a href='' @ dq @ ''u?a=$b'' @ dq @ ''>''"
  by code_simp

text \<open>
  \<open>JSON.stringify\<close> leaves angle brackets and slashes alone, so an address that holds the end tag of
  a script ends the injected script.
\<close>

lemma quote_keeps: "list_all (\<lambda>c. quote_char c = [c]) t \<Longrightarrow> concat (map quote_char t) = t"
  by (induction t) auto

lemma inject_script_end:
  assumes "sublist ''</script>'' apiBase"
  shows "\<exists>u v. inject apiBase = ''<script>window.__API_BASE__='' @ u @ ''</script>'' @ v @ '';</script>''"
proof -
  have quoted: "stringify (JStr (u @ t @ v)) = (char_of (34::nat) # concat (map quote_char u)) @ t @ concat (map quote_char v) @ [char_of (34::nat)]"
    if "concat (map quote_char t) = t" for u t v using that by (simp add: quote_def)
  obtain u v where uv: "apiBase = u @ ''</script>'' @ v" using assms by (auto simp: sublist_def)
  have "concat (map quote_char ''</script>'') = ''</script>''" by (rule quote_keeps) code_simp
  from quoted [OF this, of u v] show ?thesis unfolding inject_def uv by (metis append_assoc)
qed

text \<open>Neither service answers with anything but a page, and no answer depends on who asks.\<close>

lemma admin_portal_pages:
  "admin_portal p vars path \<noteq> None \<longleftrightarrow> path \<in> {''/'', ''/admin'', ''/status'', ''/health''}"
  by (auto simp: admin_portal_def Let_def)

end
