(* ===== verification/Spec2Isabelle.thy ===== *)
theory Spec2Isabelle
  imports Scenario_Audit Flows Infra_Laws Permissions Stellar Console Configuration Keyring Seed Events Integrations Portal
begin

text \<open>
  Verification development for the Cambobia trustee banking platform: the system that decides
  whether bank money is there, cleared and safeguarded before PayChain issues tokens or PayKH
  moves value. The program is a NestJS API (\<open>apps/trustee-api\<close>), a webhook worker
  (\<open>apps/trustee-worker\<close>) and pure packages (\<open>packages/\<close>). Every service method is translated
  into a program \<open>env \<Rightarrow> state \<Rightarrow> error + value \<times> state\<close> (Prelude): the state is returned in the
  error case too, because a method that throws after a write keeps the write. Tables are lists of
  row records in creation order (Database, from \<open>schema.prisma\<close>); unique indexes and missing rows
  raise as the database does. Amounts are integers, as \<open>BigInt\<close> is; words occur where JavaScript
  computes on 32-bit values (Totp).

  \<^bold>\<open>Pure packages.\<close>
  \<^item> Js\_Values, Json: the parts of JavaScript the code relies on (\<open>BigInt(string)\<close>, \<open>toUpperCase\<close>,
    truncating division, \<open>JSON.stringify\<close>, the canonical form that is signed).
  \<^item> Money (\<open>domain/money.ts\<close>, \<open>peg.ts\<close>), Enums (\<open>enums.ts\<close>, \<open>fund-classification.ts\<close>), Abac
    (\<open>abac.ts\<close>), Permissions (\<open>permissions.ts\<close>).
  \<^item> Accounts, Journal, Entries (\<open>ledger/\<close>): chart of accounts, double entry, entry templates.
  \<^item> Reserve\_Calc, Mint\_Guard (\<open>reserves/\<close>): reserve figures and the decision to allow a mint.
  \<^item> Totp (\<open>cryptography/totp.ts\<close>): base32 and one-time codes. Gate also holds \<open>password.ts\<close> and
    \<open>hashing.ts\<close>; \<open>signing.ts\<close> is in Infra.

  \<^bold>\<open>Platform services\<close>, over the state \<open>st\<close>.
  \<^item> Infra (\<open>infra/\<close>, \<open>events/\<close>): clock, audit, flags, signing, outbox, banks, issuance gateway,
    idempotency; Infra\_Laws has their laws. Keyring is the key ring of \<open>signing.service.ts\<close>: how keys are
    loaded, rotated and published. Configuration has \<open>config.service.ts\<close>, the checks and switches of
    \<open>main.ts\<close>, the published API contracts and \<open>notification.service.ts\<close>. Events has the declared event
    names and shows which of them are ever published.
  \<^item> Reserve\_Ledger, Reserve (\<open>modules/reserve\<close>), Deposits (\<open>deposits\<close>, \<open>funding\<close>), Mint and
    Mint\_Life (\<open>mint\<close>), Redemption, Liability, Payments, Settlements, Loyalty and Loyalty\_Books
    (\<open>paykh\<close>), Oversight (\<open>reconciliation\<close>, \<open>attestation\<close>), Platform\_Admin (flags, controls,
    programs and accounts of \<open>modules/admin\<close>), Operations (the read models), Registry
    (\<open>registry.controller.ts\<close>).
  \<^item> System: the services as one transition system. \<open>run\<close> dispatches a call, \<open>reach G\<close> are the states
    reached from the empty database by calls that satisfy \<open>G\<close>, failing calls included, reference data
    (users, and the idempotency keys that other endpoints use) changing at will in between; \<open>reachable\<close> puts no condition on the calls. Flows: abstract life
    cycles that the platform refines.

  \<^bold>\<open>Admission\<close>, over the state \<open>gate\<close> (users, clients, roles, nonces, resets, counters).
  \<^item> Gate (\<open>user-auth.service.ts\<close>), Guards (the four guards of \<open>common/\<close> in the order of
    \<open>app.module.ts\<close>, \<open>client-auth.service.ts\<close>, \<open>rate-limit.service.ts\<close>, the error filter), Sessions
    (tokens from login to admission), Admin (users, clients, roles and policies of \<open>admin.service.ts\<close>).
    \<open>run_directory\<close> is any request, login or administrative call. Console is the read side of the
    administration (listings, effective permissions, usage, the outbox, integration health), and Seed
    what \<open>prisma/seed.ts\<close> writes into the same tables.

  \<^bold>\<open>The HTTP surface.\<close> Api joins the two states in the record \<open>api\<close>. It has the routes of the
  controllers (\<open>modules/*/*.controller.ts\<close>), with the permission each declares, and the idempotency
  wrapper that some of them use; \<open>serve\<close> is one request from the route to the service, \<open>serve_all\<close> a
  sequence of them. Queries has the routes of the guarded namespaces that only read and \<open>serve_query\<close>, one read end to end. Which route a path matches is the framework's, hence the parameter \<open>router\<close>;
  what is relied on is \<open>matches_literals\<close>, and \<open>express_match\<close> is the framework's default.
  Dtos has the validation decorators of the request classes and the global pipe: \<open>submit\<close> is a request
  with a body as it was sent, which \<open>serve\<close> sees only when the declared class accepts it; bodies that the
  controllers declare by an interface are not checked, as in the code.
  A user is one row: its columns in the platform state follow the admission state. Scenario and
  Scenario\_Gate hold the concrete runs the witnesses use.

  \<^bold>\<open>Delivery and jobs.\<close> Worker (\<open>webhook-delivery.ts\<close>, \<open>main.ts\<close> of the worker, \<open>signed-envelope.ts\<close>,
  \<open>http-client-adapters.ts\<close>), Stellar (\<open>stellar-adapter.ts\<close>, \<open>paychain-issuance-adapter.ts\<close>,
  \<open>bank-adapter.ts\<close>), Integrations (the health probes, \<open>pilot-adapters.ts\<close>, the gateway and worker as they
  are built from the environment), Scheduler (\<open>scheduler.service.ts\<close>, over the platform state, the queue and Redis).
  Portal has how the pages of \<open>packages/portal-ui\<close> get their addresses and who sends them.

  \<^bold>\<open>The end-to-end audit\<close> (\<open>apps/e2e-audit\<close>). Evidence has the recorder, its manifest, the signature
  check and the coverage of the report; Audit\_Run the scenarios as programs that send requests to an
  arbitrary web and append evidence, up to the exit code. Their lemmas say what a run establishes and,
  with the model of the liability feed, what it does to a platform that does not enforce signatures.
  Scenario\_Audit has its concrete runs.

  \<^bold>\<open>How the parts interact.\<close> A request passes the guards (\<open>admit\<close>) before it reaches a service; a
  service posts through the reserve ledger and appends audit records and signed events; the worker
  delivers the events; the scheduler calls snapshots and reconciliation. Interfaces are locales:
  \<open>earmark_ledger\<close> is what a service relies on of the ledger (a transfer moves two balances and no
  other) and \<open>earmark_table\<close> ties a table of pending items to one liability account (interpreted
  for deposits, mints and redemptions); \<open>invariant\<close> and \<open>guarded_invariant\<close> are the contract of a
  component invariant in the whole system; \<open>life_cycle\<close> is the refinement of a status machine;
  \<open>call_run\<close> lifts facts on one call to sequences of calls.

  \<^bold>\<open>What is shown\<close> (the properties C1 to C40 below): minting is backed, four-eyed,
  single use and booked; redemptions pay after the burn; deposits are booked once; the journal is
  balanced and append-only; payments, settlements and the loyalty coin agree with the books; the
  liability feed is monotone; attestations are approved; life cycles refine their abstractions; the
  pure packages meet their specifications; signatures, idempotency and policies do what they
  promise, a rotation of keys included; changes made through the API are authorized unless the path is
  respelled, sessions of a login are two-factor, signed requests are not replayed and clients are rate limited; the
  outbox drains and its counters partition it; bodies that pass the pipe are typed; the console shows the
  permissions that are enforced; reads change nothing and are private to their platform; an audit's
  manifest determines its evidence; the trial balance agrees with the ledger; shortfalls are reported.

  \<^bold>\<open>Conditions.\<close> Some invariants hold only under orderly use, because the code does not enforce
  it: \<open>orderly_mint\<close> (nobody rejects an issued authorization, confirmations can be stored),
  \<open>recorded_loyalty\<close> (a posted loyalty movement is also recorded) and \<open>safe_funds\<close> (reservations and
  releases are not negative, releases leave issued coin covered). Each has a run that satisfies it
  in Scenario. The last theorem shows what happens to the earmark when the first one is broken.
  The guards compare paths with case and the router does not: a path that spells its namespace in
  other letters is \<open>respelled\<close> and passes all guards (\<open>respelled_bypass\<close> in Api), which C28 and C34 state as their exception.

  \<^bold>\<open>Parameters\<close> stand for code outside the repository: Ed25519, SHA-256, HMAC and scrypt, date and
  base64 codecs, \<open>fetch\<close>, the HTTP router, the Stellar SDK, the bank and PayChain. What is assumed of them is
  stated where it is used (\<open>codec_ok\<close>, \<open>matches_literals\<close>, key pairs that match). Redis is the tables the code
  keeps there (rate and usage counters, locks, reported dead letters) with atomic commands that may fail. No fuel is used: all loops recurse on
  finite data, and the endless loops of worker and scheduler are sequences of passes and ticks, with
  the number of passes that suffices in C38.

  \<^bold>\<open>Bounds.\<close> Strings are 8-bit characters and case mapping is the ASCII one. Calls of the services
  are sequential: interleavings inside one method are not modelled, so races between replicas on
  one row are out of scope (locks, nonces and unique indexes are modelled as atomic). Integer columns
  are unbounded: the overflow errors of PostgreSQL's 64-bit and 32-bit columns, and the rounding of
  \<open>Number\<close> beyond \<open>2^53\<close> in the reserve ratio, are not modelled; nor are texts that the database refuses
  (a NUL character in the error text of a webhook receiver). A notice is a call of the notification
  service, which sends an e-mail only with an API key.

  \<^bold>\<open>Not modelled.\<close> The open routes (health, published keys, documentation) as routes; module declarations,
  the HTTP server and its response headers; the texts of the portal pages (HTML and browser scripts in
  string constants) and the HTML of the audit report; writing the evidence pack to disk; the
  credentials the seed prints; the QR code of MFA enrolment; the text of e-mails (their contents are data).
\<close>

section \<open>Shared facts\<close>

lemma uniq_filter:
  "uniq key rs \<Longrightarrow> filter (\<lambda>r. key r = k) rs = (case find_row key k rs of None \<Rightarrow> [] | Some r \<Rightarrow> [r])"
proof (induction rs)
  case (Cons r rs)
  then have "key r \<notin> key ` set rs" "uniq key rs" by (simp_all add: uniq_def)
  moreover have "find_row key (key r) rs = None"
    using \<open>key r \<notin> key ` set rs\<close> by (intro no_row_find) (auto simp: has_row_def list_ex_iff image_iff)
  ultimately show ?case using Cons.IH by (auto simp: find_row_Cons)
qed (simp add: find_row_def)

lemma settlement_audits: "logs (\<lambda>_. True) (run_settlement c)"
  by (cases c; simp only: run_settlement.simps; unfold settlement_op_defs Let_def; intro logs_intros; simp add: logs_def modify_def)

lemma run_audits: "grows audits (run c)"
proof (cases "\<exists>x. c = Settlement_op x")
  case True
  then show ?thesis using logs_grows [OF settlement_audits] by (auto simp: grows_def snd_void)
next
  case False
  then have "\<forall>x. c \<noteq> Settlement_op x" by blast
  from logs_grows [OF run_logs [OF this]] show ?thesis .
qed

lemma reachable_auth_ok:
  "reachable s \<Longrightarrow> find_row ma_id i (mintAuths s) = Some a \<Longrightarrow> auth_ok (find_approval s i) (find_conf s i) a"
  using mint_inv_auth [OF mint_life.in_reachable] by blast

lemma reachable_redemption_ok:
  "reachable s \<Longrightarrow> find_row rd_id i (redemptions s) = Some r \<Longrightarrow> redemption_ok r"
  by (rule redemption_row_ok [OF redemption_books.in_reachable])

section \<open>Minting\<close>

text \<open>
  C1. Backing. When \<open>MintService.approve\<close> issues an authorization, the eligible reserve of the
  program still covers the reserve obligation, the safety buffer and every pending mint, the
  new one included (for a program whose reference currency is stored in upper case).
\<close>

theorem mint_approval_stays_backed:
  assumes "mint_approve i checker reason e s = (Inr v, s')" and "find_row ma_id i (mintAuths s) = Some a"
    and "find_program s (ma_programId a) = Some pg" and "toUpperCase (pg_referenceCurrency pg) = pg_referenceCurrency pg"
  shows "pos_obligation s' pg + pos_buffer s' pg
      + liab LIABILITY_PENDING_MINT (pg_id pg) (pg_referenceCurrency pg) (entries s') \<le> pos_eligible s' pg"
  using assms by (rule approve_covered)

theorem mint_approval_stays_backed_witness:
  "\<exists>v s'. mint_approve ''a'' ''c'' ''ok'' (demo_env '''') reviewed_state = (Inr v, s')
     \<and> pos_obligation s' demo_program + pos_buffer s' demo_program
         + liab LIABILITY_PENDING_MINT ''P'' ''USD'' (entries s') \<le> pos_eligible s' demo_program"
proof -
  from approve_value obtain v s' where run: "mint_approve ''a'' ''c'' ''ok'' (demo_env '''') reviewed_state = (Inr v, s')" by blast
  moreover have "find_row ma_id ''a'' (mintAuths reviewed_state) = Some demo_auth"
    by (simp add: reviewed_fields find_row_Cons demo_auth_def)
  moreover have "find_program reviewed_state (ma_programId demo_auth) = Some demo_program"
    by (simp add: reviewed_fields find_program_def find_row_Cons demo_program_def demo_auth_def)
  ultimately show ?thesis
    using mint_approval_stays_backed [of "''a''" "''c''" "''ok''" "demo_env ''''" reviewed_state v s' demo_auth demo_program]
    by (auto simp: demo_program_def toUpperCase_def upper_char_def)
qed

text \<open>
  C2. What an approval takes. \<open>MintService.approve\<close> issues only an authorization that awaits its
  checker, for a checker other than the maker who reviewed it, with every fact of the mint
  guard in order, all funding deposits cleared and the amount within the program's mint
  capacity.
\<close>

theorem mint_approval_requirements:
  assumes "mint_approve i checker reason e s = (Inr v, s')"
  shows "\<exists>a p pg f. find_row ma_id i (mintAuths s) = Some a \<and> ma_status a = MintAuthorizationStatus.PENDING_CHECKER
    \<and> find_approval s i = Some p \<and> ap_makerId p \<noteq> checker
    \<and> gatherGuardFacts e s i True = Inr f \<and> guard_facts_ok f \<and> deposits_cleared s (ma_fundingDepositIds a)
    \<and> find_program s (ma_programId a) = Some pg \<and> 0 < ma_amountMinor a \<and> ma_amountMinor a \<le> pos_capacity s pg"
proof -
  from mint_approve_effect [OF assms] obtain a p f d where ap: "approvable e s i checker a p f d" and al: "gd_allowed d"
    by (auto simp: approvable_def)
  from approvable_capacity [OF this] approvable_deposits [OF this] ap show ?thesis
    by (auto simp: approvable_def)
qed

theorem mint_approval_requirements_witness:
  "\<exists>v s'. mint_approve ''a'' ''c'' ''ok'' (demo_env '''') reviewed_state = (Inr v, s')
     \<and> deposits_cleared reviewed_state [''d''] \<and> 500 \<le> pos_capacity reviewed_state demo_program"
proof -
  from approve_value obtain v s' where run: "mint_approve ''a'' ''c'' ''ok'' (demo_env '''') reviewed_state = (Inr v, s')" by blast
  from mint_approval_requirements [OF run] run show ?thesis
    by (auto simp: reviewed_fields find_row_Cons demo_auth_def find_program_def demo_program_def split: if_splits)
qed

text \<open>
  C3. Four eyes. In every reachable state, an authorization that was ever issued (it is ISSUED,
  CONSUMED, REVOKED or EXPIRED) was approved by a checker who is not its maker, has a positive
  amount and may be minted up to that amount only.
\<close>

theorem issued_mint_was_approved_by_another:
  assumes "reachable s" and "find_row ma_id i (mintAuths s) = Some a"
    and "ma_status a \<in> {MintAuthorizationStatus.ISSUED, MintAuthorizationStatus.CONSUMED,
           MintAuthorizationStatus.REVOKED, MintAuthorizationStatus.EXPIRED}"
  shows "approved_by_other (find_approval s i) \<and> 0 < ma_amountMinor a \<and> ma_maxMintAmountMinor a = ma_amountMinor a"
  using reachable_auth_ok [OF assms(1,2)] assms(3) by (auto simp: auth_ok_def)

theorem issued_mint_was_approved_by_another_witness:
  "reachable issued_state \<and> approved_by_other (find_approval issued_state ''a'')"
proof -
  from issued_fields(7) obtain sig where "mintAuths issued_state = [issue_auth 0 900000 sig demo_auth]" by blast
  then have "find_row ma_id ''a'' (mintAuths issued_state) = Some (issue_auth 0 900000 sig demo_auth)"
    by (simp add: find_row_Cons demo_auth_def)
  from issued_mint_was_approved_by_another [OF issued_state_reach this] issued_state_reach show ?thesis by simp
qed

text \<open>
  C4. Single use. In every reachable state a CONSUMED authorization has exactly one confirmed
  mint, of the authorized amount; an authorization that is pending, ISSUED, EXPIRED or REVOKED
  has none.
\<close>

theorem mint_authorization_single_use:
  assumes "reachable s" and "find_row ma_id i (mintAuths s) = Some a" and "ma_status a \<noteq> MintAuthorizationStatus.REJECTED"
  shows "if ma_status a = MintAuthorizationStatus.CONSUMED
    then \<exists>c. filter (\<lambda>c. mf_mintAuthorizationId c = i) (mintConfs s) = [c] \<and> mf_amountMinor c = ma_amountMinor a
    else filter (\<lambda>c. mf_mintAuthorizationId c = i) (mintConfs s) = []"
proof -
  from mint_life.in_reachable [OF assms(1)] have "uniq mf_mintAuthorizationId (mintConfs s)" by (simp add: mint_inv_def)
  from uniq_filter [OF this] reachable_auth_ok [OF assms(1,2)] assms(3) show ?thesis
    by (cases "ma_status a") (auto simp: auth_ok_def find_conf_def)
qed

theorem mint_authorization_single_use_witness:
  "\<exists>c. filter (\<lambda>c. mf_mintAuthorizationId c = ''a'') (mintConfs redeemed_state) = [c]"
proof -
  from redeemed_value(1) obtain a where "mintAuths redeemed_state = [a]" "ma_id a = ''a''"
    "ma_status a = MintAuthorizationStatus.CONSUMED" by auto
  then have "find_row ma_id ''a'' (mintAuths redeemed_state) = Some a" "ma_status a = MintAuthorizationStatus.CONSUMED"
    by (simp_all add: find_row_Cons)
  with mint_authorization_single_use [OF redeemed_state_reach this(1)] show ?thesis by auto
qed

text \<open>
  C5. The earmark. As long as no issued authorization is rejected and every accepted
  confirmation can be stored, the balance of LIABILITY:PENDING_MINT that
  \<open>ReserveLedgerService.accountBalance\<close> computes is the sum of the amounts of the issued
  authorizations of the program.
\<close>

theorem pending_mint_balance:
  assumes "reach orderly_mint s"
  shows "accountBalance s scope LIABILITY_PENDING_MINT cur = Inr (money_big (\<Sum>a\<leftarrow>mintAuths s.
      if ma_programId a = scope \<and> toUpperCase (ma_currency a) = cur \<and> ma_status a = MintAuthorizationStatus.ISSUED
      then ma_amountMinor a else 0) cur)"
proof -
  from reach_reachable [OF assms] have "mint_inv s" by (rule mint_life.in_reachable)
  then have pos: "0 < ma_amountMinor a" if "a \<in> set (mintAuths s)" for a
    using that by (auto simp: mint_inv_def auth_ok_def)
  from pending_books.holds [OF assms] have "liab LIABILITY_PENDING_MINT scope cur (entries s) = (\<Sum>a\<leftarrow>mintAuths s. pending_weight scope cur a)"
    by (simp add: in_step_def)
  also have "\<dots> = (\<Sum>a\<leftarrow>mintAuths s. if ma_programId a = scope \<and> toUpperCase (ma_currency a) = cur
      \<and> ma_status a = MintAuthorizationStatus.ISSUED then ma_amountMinor a else 0)"
    using pos by (intro arg_cong [where f = sum_list] map_cong) (auto simp: pending_weight_def)
  finally show ?thesis by (simp add: accountBalance_simps)
qed

theorem pending_mint_balance_witness:
  "accountBalance issued_state ''P'' LIABILITY_PENDING_MINT ''USD'' = Inr (money_big 500 ''USD'')"
proof -
  have "reach orderly_mint reviewed_state"
    unfolding reviewed_state_def by (rule reach_run_all [OF demo_base_reach demo_scripts_guarded(1)])
  then have "reach orderly_mint issued_state"
    unfolding issued_state_def by (rule reach_run_all) (simp add: orderly_mint_def)
  moreover from issued_fields(7) obtain sig where "mintAuths issued_state = [issue_auth 0 900000 sig demo_auth]" by blast
  ultimately show ?thesis using pending_mint_balance [of issued_state "''P''" "''USD''"]
    by (simp add: issue_auth_def demo_auth_def toUpperCase_def upper_char_def)
qed

section \<open>Redemptions and deposits\<close>

text \<open>
  C6. Payout only after burn. In every reachable state a redemption that was submitted for
  payout or completed has been approved and its tokens are confirmed burnt; a completed one
  also has a payout reference and a completion time, and no other redemption has one.
\<close>

theorem payout_only_after_burn:
  assumes "reachable s" and "find_row rd_id i (redemptions s) = Some r"
  shows "(rd_status r \<in> {RedemptionStatus.PAYOUT_SUBMITTED, RedemptionStatus.COMPLETED} \<longrightarrow>
      rd_approvedById r \<noteq> None \<and> rd_burnTxHash r \<noteq> None \<and> rd_payoutReference r \<noteq> None)
    \<and> (rd_completedAt r \<noteq> None \<longleftrightarrow> rd_status r = RedemptionStatus.COMPLETED)"
  using reachable_redemption_ok [OF assms] by (cases "rd_status r") (auto simp: redemption_ok_def)

theorem payout_only_after_burn_witness:
  "\<exists>r. find_row rd_id ''r'' (redemptions redeemed_state) = Some r \<and> rd_burnTxHash r \<noteq> None \<and> rd_completedAt r \<noteq> None"
proof -
  from redeemed_value(2) obtain r where r: "redemptions redeemed_state = [r]" "rd_id r = ''r''"
    "rd_status r = RedemptionStatus.COMPLETED" by auto
  then have "find_row rd_id ''r'' (redemptions redeemed_state) = Some r" by (simp add: find_row_Cons)
  with payout_only_after_burn [OF redeemed_state_reach this] r show ?thesis by auto
qed

text \<open>
  C7. In every reachable state the balance of LIABILITY:PENDING_REDEMPTION of a program is the
  sum of its redemptions that are approved and not yet paid out.
\<close>

theorem pending_redemption_balance:
  assumes "reachable s"
  shows "accountBalance s scope LIABILITY_PENDING_REDEMPTION cur = Inr (money_big (\<Sum>r\<leftarrow>redemptions s.
      if rd_programId r = scope \<and> toUpperCase (rd_currency r) = cur \<and> rd_status r \<in> {RedemptionStatus.APPROVED,
          RedemptionStatus.BURN_CONFIRMED, RedemptionStatus.PAYOUT_SUBMITTED}
      then rd_amountMinor r else 0) cur)"
proof -
  note inv = redemption_books.in_reachable [OF assms]
  then have pos: "0 < rd_amountMinor r" if "r \<in> set (redemptions s)" for r
    using that by (auto simp: redemptions_inv_def list_all_iff redemption_ok_def)
  from inv have "liab LIABILITY_PENDING_REDEMPTION scope cur (entries s) = (\<Sum>r\<leftarrow>redemptions s. outgoing_weight scope cur r)"
    by (simp add: redemptions_inv_def in_step_def)
  also have "\<dots> = (\<Sum>r\<leftarrow>redemptions s. if rd_programId r = scope \<and> toUpperCase (rd_currency r) = cur \<and> rd_status r \<in>
      {RedemptionStatus.APPROVED, RedemptionStatus.BURN_CONFIRMED, RedemptionStatus.PAYOUT_SUBMITTED} then rd_amountMinor r else 0)"
    using pos by (intro arg_cong [where f = sum_list] map_cong) (auto simp: outgoing_weight_def)
  finally show ?thesis by (simp add: accountBalance_simps)
qed

theorem pending_redemption_balance_witness:
  "accountBalance redeemed_state ''P'' LIABILITY_PENDING_REDEMPTION ''USD'' = Inr (money_big 0 ''USD'')"
proof -
  from redeemed_value(2) obtain r where "redemptions redeemed_state = [r]" "rd_status r = RedemptionStatus.COMPLETED" by auto
  with pending_redemption_balance [OF redeemed_state_reach, of "''P''" "''USD''"] show ?thesis by simp
qed

text \<open>
  C8. Liveness. A redemption that awaits approval is completed by the four calls of the
  workflow, given a user of the trustee bank to approve it and the payout flag on; the bank
  pays its amount once, and its program, amount, currency and beneficiary stay as requested.
\<close>

theorem redemption_reaches_completed:
  assumes "reachable s" and "find_row rd_id i (redemptions s) = Some q" and "rd_status q = RedemptionStatus.AWAITING_APPROVAL"
    and "find_row u_id approver (users s) = Some u" and "u_institution u = ''TRUSTEE_BANK''"
    and "isEnabled ''bank.payout.enabled'' s"
    and "s' = run_all [(e1, Redemption_op (ApproveRedemption i approver why)), (e2, Redemption_op (ConfirmBurn i hash x)),
      (e3, Redemption_op (SubmitPayout i y)), (e4, Redemption_op (ConfirmPayout i z))] s"
  shows "\<exists>q'. find_row rd_id i (redemptions s') = Some q' \<and> rd_status q' = RedemptionStatus.COMPLETED
      \<and> rd_burnTxHash q' = Some hash \<and> rd_approvedById q' = Some approver \<and> redemption_fixed q' = redemption_fixed q
      \<and> cash (rd_programId q) (toUpperCase (rd_currency q)) (entries s')
          = cash (rd_programId q) (toUpperCase (rd_currency q)) (entries s) - rd_amountMinor q"
proof -
  from reachable_redemption_ok [OF assms(1,2)] have pos: "0 < rd_amountMinor q" by (simp add: redemption_ok_def)
  from redemption_completes [OF assms(2,3) pos assms(4-7)] obtain q' where
    q': "find_row rd_id i (redemptions s') = Some q'" "rd_status q' = RedemptionStatus.COMPLETED" "rd_burnTxHash q' = Some hash"
      "rd_approvedById q' = Some approver" "redemption_fixed q' = redemption_fixed q"
    and en: "entries s' = entries s @ [obligation_row q approver, payout_row q' z]" by blast
  have "cash (rd_programId q) (toUpperCase (rd_currency q)) (entries s')
      = cash (rd_programId q) (toUpperCase (rd_currency q)) (entries s) - rd_amountMinor q"
    using q'(5) bal_payout_row(2) [of _ _ "entries s @ [obligation_row q approver]" q' z]
    by (simp add: en obligation_row_def bal_transfer redemption_fixed_def)
  with q' show ?thesis by blast
qed

theorem redemption_reaches_completed_witness:
  "\<exists>q'. find_row rd_id ''r'' (redemptions redeemed_state) = Some q' \<and> rd_status q' = RedemptionStatus.COMPLETED
     \<and> rd_burnTxHash q' = Some ''hash'' \<and> rd_approvedById q' = Some ''c''"
proof -
  from waiting_fields obtain q where w: "find_row rd_id ''r'' (redemptions waiting_state) = Some q"
    "rd_status q = RedemptionStatus.AWAITING_APPROVAL" "find_row u_id ''c'' (users waiting_state) = Some (demo_user ''c'')"
    "u_institution (demo_user ''c'') = ''TRUSTEE_BANK''" "isEnabled ''bank.payout.enabled'' waiting_state"
    by (auto simp: find_row_Cons demo_user_def)
  from redemption_reaches_completed [OF waiting_state_reach w waiting_redeemed] show ?thesis by blast
qed

text \<open>
  C9. In every reachable state no bank transaction is registered as two deposits, and the
  balance of LIABILITY:UNMATCHED_DEPOSIT of a program is the sum of its booked deposits that
  are detected, unmatched or matched and not yet cleared.
\<close>

theorem unmatched_deposit_balance:
  assumes "reachable s"
  shows "distinct (map dp_bankTransactionId (deposits s))
    \<and> accountBalance s scope LIABILITY_UNMATCHED_DEPOSIT cur = Inr (money_big (\<Sum>d\<leftarrow>deposits s. unmatched_weight scope cur d) cur)"
  using deposit_books.in_reachable [OF assms]
  by (simp add: deposits_inv_def in_step_def uniq_def accountBalance_simps)

theorem unmatched_deposit_balance_witness:
  "accountBalance reviewed_state ''P'' LIABILITY_UNMATCHED_DEPOSIT ''USD'' = Inr (money_big 0 ''USD'')"
  using unmatched_deposit_balance [OF reviewed_state_reach, of "''P''" "''USD''"]
  by (simp add: reviewed_fields unmatched_weight_def demo_deposit_def)

section \<open>The ledger\<close>

text \<open>
  C10. In every reachable state every journal entry has at least two one-sided postings and
  equal debit and credit totals that are the sums of its postings, and \<open>subledgerBalances\<close>
  reports a net of zero for every program.
\<close>

theorem ledger_always_balanced:
  assumes "reachable s"
  shows "list_all entry_ok (entries s) \<and> subledgerBalances s scope = (True, 0)"
  using ledger.in_reachable [OF assms] subledger_zero [of s scope] by (simp add: ledger_ok_def)

theorem ledger_always_balanced_witness:
  "entries issued_state \<noteq> [] \<and> list_all entry_ok (entries issued_state) \<and> subledgerBalances issued_state ''P'' = (True, 0)"
  using ledger_always_balanced [OF issued_state_reach, of "''P''"] by (simp add: issued_fields(9))

text \<open>
  C11. Append-only. No call of the platform changes or removes a journal entry or an audit
  record, whatever its outcome: both logs after the call extend the logs before it.
\<close>

theorem journal_and_audit_append_only:
  "prefix (entries s) (entries (snd (run c e s))) \<and> prefix (audits s) (audits (snd (run c e s)))"
  using appendsD [OF run_appends, of c e s] growsD [OF run_audits, of s c e]
  by (auto simp: prefix_def)

text \<open>
  C12. \<open>ReserveLedgerService.accountBalance\<close>, which filters the postings of a program, currency
  and account and adds them up in a loop, returns the sum over all journal entries of the
  program and currency of the entry's net effect on the account, on the account's normal side;
  it fails exactly for a code that is not of a known account type.
\<close>

theorem account_balance_is_sum:
  "accountBalance s scope acc cur = (case ledgerAccountTypeOf acc of Inl x \<Rightarrow> Inl x
     | Inr t \<Rightarrow> Inr (money_big (\<Sum>en\<leftarrow>entries s. if le_programId en = scope \<and> le_currency en = cur
         then \<Sum>p\<leftarrow>le_postings en. if lp_account p = acc then (if t = ASSET \<or> t = EXPENSE
            then lp_debitMinor p - lp_creditMinor p else lp_creditMinor p - lp_debitMinor p) else 0 else 0) cur))"
  by (cases "ledgerAccountTypeOf acc")
     (simp add: accountBalance_def, simp add: accountBalance_value bal_def acc_net_def debit_positive_def cong: if_cong)

section \<open>PayKH payments and settlements\<close>

text \<open>
  C13. In every reachable state one bank transaction has confirmed at most one payment order,
  and an order is confirmed or refunded only with a bank transaction behind it.
\<close>

theorem one_bank_transaction_one_order:
  assumes "reachable s" and "x \<in> set (orders s)"
  shows "(po_status x \<in> {PaymentOrderStatus.CONFIRMED, PaymentOrderStatus.REFUNDED}
        \<longrightarrow> po_matchedBankTransactionId x \<noteq> None \<and> 0 < po_amountMinor x)
    \<and> (\<forall>y \<in> set (orders s). po_matchedBankTransactionId x \<noteq> None
        \<and> po_matchedBankTransactionId x = po_matchedBankTransactionId y \<longrightarrow> x = y)"
proof -
  from order_life.in_reachable [OF assms(1)] have one: "one_order_each (orders s)" and "list_all order_ok (orders s)"
    by (simp_all add: orders_inv_def)
  with assms(2) have "order_ok x" by (simp add: list_all_iff)
  with one_order_eachD [OF one assms(2)] show ?thesis by (auto simp: order_ok_def)
qed

theorem one_bank_transaction_one_order_witness:
  "\<exists>x. x \<in> set (orders settled_state) \<and> po_matchedBankTransactionId x = Some ''b'' \<and> 0 < po_amountMinor x"
proof -
  from settled_rows(1) obtain x where "orders settled_state = [x]" "po_status x = PaymentOrderStatus.CONFIRMED"
    "po_matchedBankTransactionId x = Some ''b''" by blast
  with one_bank_transaction_one_order [OF demo_states_reach(1), of x] show ?thesis by auto
qed

text \<open>
  C14. Reconciliation agrees with the services. In a reachable state in which no order was
  matched with an empty bank transaction id, \<open>reconcilePaymentOrders\<close> reports no exception for
  any tenant; \<open>reconcileSettlements\<close> never does.
\<close>

theorem reconciliation_finds_no_exception:
  assumes "reachable s" and "\<forall>x \<in> set (orders s). po_matchedBankTransactionId x \<noteq> Some []"
  shows "(reconcilePaymentOrders t actor e s = (Inr r, s') \<longrightarrow> rr_status r = ''OK'')
    \<and> (reconcileSettlements t actor e s = (Inr r, s') \<longrightarrow> rr_status r = ''OK'')"
proof -
  note inv = order_life.in_reachable [OF assms(1)]
  let ?os = "filter (\<lambda>x. po_tenantId x = t) (orders s)"
  have "order_exceptions ?os = []"
  proof (rule order_exceptions_Nil)
    show "truthy (po_matchedBankTransactionId x)" if "x \<in> set ?os" "po_status x = PaymentOrderStatus.CONFIRMED" for x
      using that assms(2) inv by (cases "po_matchedBankTransactionId x")
        (auto simp: orders_inv_def list_all_iff order_ok_def truthy_def)
    show "length (txn_ids ?os b) \<le> 1" for b
      using inv by (intro txn_ids_single) (simp_all add: orders_inv_def)
  qed
  moreover have "settlement_exceptions (filter (\<lambda>x. sm_tenantId x = t) (settlements s)) = []"
    using settlement_life.in_reachable [OF assms(1)]
    by (auto simp: settlement_exceptions_def settlements_inv_def settlement_ok_def filter_empty_conv)
  ultimately show ?thesis
    by (auto simp: reconcilePaymentOrders_def reconcileSettlements_def prog_simps run_row_status dest!: record_run_ok)
qed

theorem reconciliation_finds_no_exception_witness:
  "\<exists>r s'. reconcilePaymentOrders ''N'' ''m'' (demo_env ''R'') settled_state = (Inr r, s') \<and> rr_status r = ''OK''"
proof -
  from settled_rows(1) have "\<forall>x \<in> set (orders settled_state). po_matchedBankTransactionId x \<noteq> Some []" by auto
  note ok = reconciliation_finds_no_exception [OF demo_states_reach(1) this]
  from settled_fields(7) have "\<exists>r s'. reconcilePaymentOrders ''N'' ''m'' (demo_env ''R'') settled_state = (Inr r, s')"
    by (simp add: reconcilePaymentOrders_def record_run_def prog_simps Let_def)
  with ok show ?thesis by blast
qed

text \<open>
  C15. In every reachable state a settlement that is approved or confirmed was approved by
  someone other than the actor of its maker record in the audit log, and is confirmed only
  with a positive amount.
\<close>

theorem settlement_checked_by_another:
  assumes "reachable s" and "x \<in> set (settlements s)"
    and "sm_status x \<in> {SettlementStatus.APPROVED, SettlementStatus.CONFIRMED}"
  shows "\<exists>l checker. maker_of s (sm_id x) = Some l \<and> sm_approvedById x = Some checker \<and> al_actor l \<noteq> checker
    \<and> (sm_status x = SettlementStatus.CONFIRMED \<longrightarrow> sm_confirmedAt x \<noteq> None \<and> 0 < sm_amountMinor x)"
proof -
  from settlement_life.in_reachable [OF assms(1)] assms(2) have "settlement_ok (maker_of s (sm_id x)) x"
    by (simp add: settlements_inv_def)
  with assms(3) show ?thesis by (auto simp: settlement_ok_def)
qed

theorem settlement_checked_by_another_witness:
  "\<exists>l. maker_of settled_state ''S'' = Some l \<and> al_actor l \<noteq> ''c''"
  using settlement_checked_by_another [OF demo_states_reach(1), of demo_settlement]
  by (auto simp: settled_fields(6) demo_settlement_def)

text \<open>
  C16. Merchant payable. As long as loyalty calls that reach the ledger are also recorded, the
  balance of LIABILITY:PAYKH_MERCHANT_PAYABLE of a tenant is what was collected by confirmed
  payment orders and redeemed loyalty coin, less what was paid out by confirmed settlements.
\<close>

theorem merchant_payable_balance:
  assumes "reach recorded_loyalty s"
  shows "liab LIABILITY_PAYKH_MERCHANT_PAYABLE scope cur (entries s)
    = (\<Sum>x\<leftarrow>orders s. collected_weight scope cur x) + (\<Sum>q\<leftarrow>loyRedemptions s. swapped_weight scope cur q)
      - (\<Sum>x\<leftarrow>settlements s. settled_weight scope cur x)"
proof -
  from paykh_ledger.holds [OF assms] have "payable_gap scope cur s = 0" by (simp add: paykh_books_def)
  then show ?thesis by (simp add: payable_gap_def)
qed

theorem merchant_payable_balance_witness:
  "liab LIABILITY_PAYKH_MERCHANT_PAYABLE ''N'' ''USD'' (entries settled_state) = 40"
proof -
  have "reach recorded_loyalty settled_state"
    unfolding settled_state_def by (rule reach_run_all [OF demo_base_reach demo_scripts_guarded(2)])
  note payable = merchant_payable_balance [OF this, of "''N''" "''USD''"]
  from settled_rows(1) obtain x where "orders settled_state = [x]" "po_tenantId x = ''N''" "po_amountMinor x = 70"
    "po_currency x = ''USD''" "po_status x = PaymentOrderStatus.CONFIRMED" by blast
  then show ?thesis
    using payable by (simp add: settled_fields(4,6) demo_settlement_def collected_weight_def settled_weight_def toUpperCase_def upper_char_def)
qed

section \<open>Loyalty coin\<close>

text \<open>
  C17. In every reachable state the counters of a loyalty liability agree with its rows: issued
  and redeemed totals are the sums of the issuance and redemption rows, their difference is
  what is outstanding, and that is never negative; the liability is bound to one existing fund
  of its tenant and currency whose classification requires fiat backing.
\<close>

theorem loyalty_counters_agree:
  assumes "reachable s" and "l \<in> set (loyalties s)"
  shows "ll_issuedTotalMinor l = issued_sum (loyIssuances s) (ll_id l)
    \<and> ll_redeemedTotalMinor l = redeemed_sum (loyRedemptions s) (ll_id l)
    \<and> ll_outstandingMinor l = ll_issuedTotalMinor l - ll_redeemedTotalMinor l \<and> 0 \<le> ll_outstandingMinor l
    \<and> (\<exists>f. find_row pf_id (ll_programFundId l) (funds s) = Some f \<and> pf_tenantId f = ll_tenantId l
        \<and> pf_currency f = ll_pegCurrency l \<and> fiat_backed (pf_classification f) = Inr True)"
proof -
  from loyalty_books.in_reachable [OF assms(1)] assms(2)
  have "counters_ok (loyIssuances s) (loyRedemptions s) l" "fund_ok (funds s) l" by (simp_all add: loyalty_inv_def)
  then show ?thesis by (simp add: counters_ok_def fund_ok_def)
qed

theorem loyalty_counters_agree_witness:
  "\<exists>l. l \<in> set (loyalties loyal_state) \<and> ll_outstandingMinor l = 40 \<and> issued_sum (loyIssuances loyal_state) ''L'' = 60
     \<and> redeemed_sum (loyRedemptions loyal_state) ''L'' = 20"
proof -
  from loyal_value(1) obtain l where "loyalties loyal_state = [l]" "ll_id l = ''L''" "ll_outstandingMinor l = 40"
    "ll_issuedTotalMinor l = 60" by auto
  with loyalty_counters_agree [OF demo_states_reach(2), of l] show ?thesis by auto
qed

text \<open>
  C18. As long as loyalty calls that reach the ledger are also recorded, the ledger carries the
  outstanding coin of a tenant as LIABILITY:PAYKH_LOYALTY_STABLECOIN, and its program-fund
  liability is what was funded less what was issued.
\<close>

theorem loyalty_ledger_agrees:
  assumes "reach recorded_loyalty s"
  shows "liab LIABILITY_PAYKH_LOYALTY_STABLECOIN scope cur (entries s) = (\<Sum>l\<leftarrow>loyalties s. out_weight scope cur l)
    \<and> liab LIABILITY_PAYKH_PROGRAM_FUND scope cur (entries s)
        = (\<Sum>f\<leftarrow>funds s. funded_weight scope cur f) - (\<Sum>l\<leftarrow>loyalties s. issued_weight scope cur l)"
proof -
  from paykh_ledger.holds [OF assms] have "loyalty_gap scope cur s = 0" "fund_gap scope cur s = 0"
    by (simp_all add: paykh_books_def)
  then show ?thesis by (simp add: loyalty_gap_def fund_gap_def)
qed

theorem loyalty_ledger_agrees_witness:
  "\<exists>l. loyalties loyal_state = [l]
     \<and> liab LIABILITY_PAYKH_LOYALTY_STABLECOIN ''N'' ''USD'' (entries loyal_state) = out_weight ''N'' ''USD'' l"
proof -
  have "reach recorded_loyalty settled_state"
    unfolding settled_state_def by (rule reach_run_all [OF demo_base_reach demo_scripts_guarded(2)])
  then have "reach recorded_loyalty loyal_state"
    unfolding loyal_state_def by (rule reach_run_all [OF _ loyal_value(4)])
  from loyalty_ledger_agrees [OF this, of "''N''" "''USD''"] loyal_value(1) show ?thesis by auto
qed

text \<open>
  C19. Full backing. As long as reservations and releases are not negative and a release leaves
  the issued coin reserved, every fund keeps its reservation between zero and its funding, and
  the coin outstanding on a liability is covered by the funding of its fund.
\<close>

theorem loyalty_fully_backed:
  assumes "reach safe_funds s" and "l \<in> set (loyalties s)"
  shows "\<exists>f. find_row pf_id (ll_programFundId l) (funds s) = Some f \<and> ll_outstandingMinor l \<le> pf_fundedMinor f
    \<and> 0 \<le> pf_reservedMinor f \<and> pf_reservedMinor f \<le> pf_fundedMinor f"
proof -
  note inv = loyalty_books.in_reachable [OF reach_reachable [OF assms(1)]] backing.holds [OF assms(1)]
  from backed_outstanding [OF inv assms(2)] obtain f where f: "find_row pf_id (ll_programFundId l) (funds s) = Some f"
    "ll_outstandingMinor l \<le> pf_fundedMinor f" by blast
  with backed_bounds [OF inv(2) f(1)] show ?thesis by (simp add: fund_bounds_def)
qed

theorem loyalty_fully_backed_witness:
  "\<exists>l f. l \<in> set (loyalties loyal_state) \<and> find_row pf_id (ll_programFundId l) (funds loyal_state) = Some f
     \<and> ll_outstandingMinor l = 40 \<and> 40 \<le> pf_fundedMinor f"
proof -
  from loyal_value(1) obtain l where l: "loyalties loyal_state = [l]" "ll_outstandingMinor l = 40" by auto
  have "reach safe_funds loyal_state"
    using reach_run_all [OF demo_base_reach demo_scripts_guarded(3)]
    by (simp add: loyal_state_def settled_state_def run_all_append)
  from loyalty_fully_backed [OF this, of l] l show ?thesis by auto
qed

section \<open>The liability feed and attestations\<close>

text \<open>
  C20. In every reachable state the liability snapshots of a program have strictly increasing
  sequence numbers, and the latest snapshot of the program (the one with the highest sequence,
  which \<open>ReserveService.position\<close> and \<open>ingest\<close> read) is the one ingested last.
\<close>

theorem liability_feed_monotone:
  assumes "reachable s"
  shows "sorted_wrt (<) (map ls_sequence (feed s pid))
    \<and> latestLiability s pid = (if feed s pid = [] then None else Some (last (feed s pid)))"
  using supply_feed.in_reachable [OF assms] latestLiability_last by (simp add: liabilities_inv_def)

theorem liability_feed_monotone_witness:
  "latestLiability reviewed_state ''P'' = Some (demo_liability ''l1'' 1 100)"
  using liability_feed_monotone [OF reviewed_state_reach, of "''P''"]
  by (simp add: feed_def reviewed_fields demo_liability_def)

text \<open>
  Ingestion: either the call fails and changes nothing, or the snapshot's sequence number
  exceeds all earlier ones of the program, its signature was accepted, and from then on the
  program's circulating supply is the one it reports, while other programs keep theirs.
\<close>

theorem ingest_sets_circulating:
  assumes "reachable s"
  shows "(\<exists>x. ingest input e s = (Inl x, s))
    \<or> (\<exists>v s' n c. ingest input e s = (Inr v, s') \<and> BigInt (lx_sequence input) = Inr n
        \<and> (\<forall>q \<in> set (liabilities s). ls_programId q = lx_programId input \<longrightarrow> ls_sequence q < n) \<and> feed_trusted e s input
        \<and> BigInt (lx_circulatingMinor input) = Inr c \<and> circulating s' (lx_programId input) = c
        \<and> (\<forall>pid. pid \<noteq> lx_programId input \<longrightarrow> circulating s' pid = circulating s pid))"
proof -
  obtain r s' where run: "ingest input e s = (r, s')" by fastforce
  from ingest_effect [OF run] show ?thesis
  proof (elim disjE exE conjE)
    fix n l assume "BigInt (lx_sequence input) = Inr n" "feed_trusted e s input" "is_ok r"
      "\<forall>q \<in> set (liabilities s). ls_programId q = lx_programId input \<longrightarrow> ls_sequence q < n"
    moreover from \<open>is_ok r\<close> obtain v where "r = Inr v" by (cases r) auto
    ultimately show ?thesis using ingest_circulating [OF supply_feed.in_reachable [OF assms]] run by blast
  qed (use run in blast)
qed

theorem ingest_sets_circulating_witness:
  "circulating (snd (ingest (demo_feed ''2'' ''300'') (demo_env ''l2'') reviewed_state)) ''P'' = 300
    \<and> (\<exists>x. ingest (demo_feed ''1'' ''300'') (demo_env ''l2'') reviewed_state = (Inl x, reviewed_state))"
proof -
  have n: "BigInt ''2'' = Inr 2" "BigInt ''1'' = Inr 1" "BigInt ''300'' = Inr 300"
    by (simp_all add: demo_values)
  have "is_ok (fst (ingest (demo_feed ''2'' ''300'') (demo_env ''l2'') reviewed_state))"
    by (simp add: demo_data demo_calls demo_values demo_feeds reviewed_fields demo_liability_def)
  with ingest_sets_circulating [OF reviewed_state_reach, of "demo_feed ''2'' ''300''" "demo_env ''l2''"]
    ingest_sets_circulating [OF reviewed_state_reach, of "demo_feed ''1'' ''300''" "demo_env ''l2''"]
  show ?thesis by (auto simp: demo_feed_def n reviewed_fields demo_liability_def)
qed

text \<open>
  In every reachable state an attestation that is approved or published names its
  approver, and a published one its issue date.
\<close>

theorem published_attestation_was_approved:
  assumes "reachable s" and "a \<in> set (attestations s)" and "at_status a \<in> {''APPROVED'', ''PUBLISHED''}"
  shows "at_approvedBy a \<noteq> None \<and> (at_status a = ''PUBLISHED'' \<longrightarrow> at_issueDate a \<noteq> None)"
  using attestation_life.in_reachable [OF assms(1)] assms(2,3) by (auto simp: att_inv_def list_all_iff att_ok_def)

theorem published_attestation_was_approved_witness:
  "\<exists>a. attestations attested_state = [a] \<and> at_approvedBy a \<noteq> None \<and> at_issueDate a \<noteq> None"
proof -
  from attested_value obtain a where "attestations attested_state = [a]" "at_status a = ''PUBLISHED''" by auto
  with published_attestation_was_approved [OF demo_states_reach(3), of a] show ?thesis by auto
qed

section \<open>Life cycles refined by the platform\<close>

text \<open>
  C23. Over any sequence of calls to any service, a mint authorization is never lost, its
  program, asset, amount, currency and nonce never change, and its status follows the life
  cycle \<open>mint_flow\<close>.
\<close>

theorem mint_authorization_life_cycle:
  assumes "reachable s" and "find_row ma_id i (mintAuths s) = Some a"
  shows "\<exists>a'. find_row ma_id i (mintAuths (run_all cs s)) = Some a' \<and> mint_fixed a' = mint_fixed a
    \<and> mint_flow\<^sup>*\<^sup>* (ma_status a) (ma_status a')"
  using assms by (rule mint_cycle.many_calls)

theorem mint_authorization_life_cycle_witness:
  "\<exists>a'. find_row ma_id ''a'' (mintAuths issued_state) = Some a' \<and> mint_fixed a' = mint_fixed demo_auth
    \<and> mint_flow\<^sup>*\<^sup>* (ma_status demo_auth) (ma_status a')"
proof -
  have a: "find_row ma_id ''a'' (mintAuths reviewed_state) = Some demo_auth"
    by (simp add: reviewed_fields find_row_Cons demo_auth_def)
  show ?thesis unfolding issued_state_def by (rule mint_authorization_life_cycle [OF reviewed_state_reach a])
qed

text \<open>
  Over any sequence of calls, a redemption is never lost, its program, asset, amount,
  currency and beneficiary never change, and its status follows the life cycle approval, burn,
  payout submission, payout confirmation, one step at a time and never back.
\<close>

theorem redemption_life_cycle:
  assumes "reachable s" and "find_row rd_id i (redemptions s) = Some r"
  shows "\<exists>r'. find_row rd_id i (redemptions (run_all cs s)) = Some r' \<and> redemption_fixed r' = redemption_fixed r
    \<and> redemption_flow\<^sup>*\<^sup>* (rd_status r) (rd_status r')"
  using assms by (rule redemption_cycle.many_calls)

theorem redemption_life_cycle_witness:
  "\<exists>r'. find_row rd_id ''r'' (redemptions (run_all mint_script waiting_state)) = Some r'
    \<and> redemption_flow\<^sup>*\<^sup>* RedemptionStatus.AWAITING_APPROVAL (rd_status r')"
proof -
  from waiting_fields(3) obtain q where "find_row rd_id ''r'' (redemptions waiting_state) = Some q"
    "rd_status q = RedemptionStatus.AWAITING_APPROVAL" by (auto simp: find_row_Cons)
  with redemption_life_cycle [OF waiting_state_reach this(1), of mint_script] show ?thesis by auto
qed

text \<open>
  Over any sequence of calls, a payment order is never lost, its tenant, profile, amount,
  currency, reference and expiry never change, and its status follows the life cycle
  \<open>order_flow\<close>.
\<close>

theorem payment_order_life_cycle:
  assumes "reachable s" and "find_row po_id i (orders s) = Some x"
  shows "\<exists>x'. find_row po_id i (orders (run_all cs s)) = Some x' \<and> order_fixed x' = order_fixed x
    \<and> order_flow\<^sup>*\<^sup>* (po_status x) (po_status x')"
  using assms by (rule order_cycle.many_calls)

theorem payment_order_life_cycle_witness:
  "\<exists>x'. find_row po_id ''o'' (orders loyal_state) = Some x' \<and> order_flow\<^sup>*\<^sup>* PaymentOrderStatus.CONFIRMED (po_status x')"
proof -
  from settled_rows(1) obtain x where "find_row po_id ''o'' (orders settled_state) = Some x" "po_status x = PaymentOrderStatus.CONFIRMED"
    by (auto simp: find_row_Cons)
  with payment_order_life_cycle [OF demo_states_reach(1) this(1), of loyalty_script] show ?thesis
    by (auto simp: loyal_state_def)
qed

section \<open>Guard, journal and position\<close>

text \<open>
  C26. The mint guard. With all capacity inputs in one currency \<open>evaluateMintGuard\<close> decides; it
  allows the mint exactly when it lists no reason, and that is exactly when the feature is on,
  no fact is stale, suspended, held or unresolved, deposits and approvals are complete, and the
  requested amount is positive, in the capacity's currency and at most the eligible reserve
  less obligation, buffer and pending mints.
\<close>

theorem mint_guard_decides:
  assumes "mc_uniform (gf_capacityInput f)"
  shows "\<exists>d. evaluateMintGuard f = Inr d \<and> (gd_allowed d \<longleftrightarrow> gd_reasons d = [])
    \<and> (gd_allowed d \<longleftrightarrow> guard_facts_ok f \<and> 0 < minor (gf_requested f)
        \<and> currency (gf_requested f) = toUpperCase (mc_currency (gf_capacityInput f))
        \<and> minor (gf_requested f) \<le> minor (mc_eligibleReserve (gf_capacityInput f))
            - minor (mc_existingReserveObligation (gf_capacityInput f)) - minor (mc_requiredSafetyBuffer (gf_capacityInput f))
            - minor (mc_pendingMintAuthorizations (gf_capacityInput f)))"
proof -
  from evaluateMintGuard_total [OF assms] obtain d where d: "evaluateMintGuard f = Inr d" by blast
  from evaluateMintGuard_Inr(1) [OF d] have "gd_capacity d = \<lparr>minor = max 0 (minor (mc_eligibleReserve (gf_capacityInput f))
      - minor (mc_existingReserveObligation (gf_capacityInput f)) - minor (mc_requiredSafetyBuffer (gf_capacityInput f))
      - minor (mc_pendingMintAuthorizations (gf_capacityInput f))), currency = toUpperCase (mc_currency (gf_capacityInput f))\<rparr>"
    by (simp add: mintCapacity_value [OF assms])
  with d evaluateMintGuard_Inr(2,3) [OF d] show ?thesis by auto
qed

theorem mint_guard_decides_witness:
  "(\<exists>d. evaluateMintGuard (demo_facts 798) = Inr d \<and> gd_allowed d)
    \<and> (\<exists>d. evaluateMintGuard (demo_facts 799) = Inr d \<and> \<not> gd_allowed d)"
  using mint_guard_decides [of "demo_facts 798"] mint_guard_decides [of "demo_facts 799"]
  by (auto simp: demo_facts_def mc_uniform_def guard_facts_ok_def por_expired_def)

text \<open>
  C27. \<open>buildJournalEntry\<close> accepts exactly the valid inputs (at least two postings, each on a
  known account, in the entry's currency, one-sided and not negative; debits equal credits)
  and returns the entry with its totals.
\<close>

theorem journal_built_iff_valid:
  "buildJournalEntry i = Inr j \<longleftrightarrow> valid_input i \<and> j = built i"
  by (rule buildJournalEntry_iff)

text \<open>
  \<open>reverse\<close> succeeds on every valid entry, and entry and reversal cancel on every account;
  the reversal is itself valid and names the entry it reverses.
\<close>

theorem reversal_cancels:
  assumes "valid_input j"
  shows "\<exists>r. reverse j ref act reason = Inr r \<and> valid_input r \<and> je_reversalOf r = Some (ref_source (je_references j))
    \<and> (\<forall>acc t. ledgerAccountTypeOf acc = Inr t \<longrightarrow> (\<exists>m n. accountEffect j acc = Inr m \<and> accountEffect r acc = Inr n
        \<and> minor n = - minor m \<and> currency n = currency m))"
  using reverse_valid [OF assms] reverse_cancels_effect [OF assms] by metis

theorem reversal_cancels_witness:
  "\<exists>j r. clearedDepositEntry (money_big 900 ''USD'') (refs_of ''s'' ''P'' ''A'' ''m'') = Inr j
     \<and> reverse j ''x'' ''m'' ''why'' = Inr r \<and> valid_input r"
proof -
  let ?i = "two_sided ''Cleared reserve deposit allocated to PayChain obligation'' ASSET_TRUSTEE_BANK_CASH
    LIABILITY_PAYCHAIN_RESERVE_OBLIGATION (money_big 900 ''USD'') (refs_of ''s'' ''P'' ''A'' ''m'')"
  have "valid_input ?i" by (simp add: valid_two_sided)
  then have "valid_input (built ?i)" "clearedDepositEntry (money_big 900 ''USD'') (refs_of ''s'' ''P'' ''A'' ''m'') = Inr (built ?i)"
    by (simp_all add: template_two_sided buildJournalEntry_valid)
  with reversal_cancels [OF this(1)] show ?thesis by blast
qed

text \<open>
  C29. \<open>ReserveService.position\<close> fails for an unknown program and for a negative buffer, and
  otherwise returns the closed form: the eligible reserve is bank cash less adjustments,
  unmatched deposits and pending redemptions; the obligation is the circulating supply of the
  latest liability snapshot and the pending redemptions; required reserve, buffer, surplus,
  ratio and mint capacity follow from them.
\<close>

theorem reserve_position_formula:
  "position e s pid = (case find_program s pid of None \<Rightarrow> Inl (NotFound ''Program'')
     | Some pg \<Rightarrow> if pg_safetyBufferBps pg < 0 then Inl (PlainError ''Buffer basis points cannot be negative'')
         else Inr (position_of e s pg))"
  using position_missing [of s pid e] position_value [of s pid _ e] by (auto split: option.split)



section \<open>Signatures, idempotency and approval policies\<close>

text \<open>
  Signatures survive reordering. A payload object signed with the current or a
  previous key of a purpose verifies under \<open>KeyManager.verify\<close> for any order of its members, if
  the key's halves belong together (the law of the signature primitive).
\<close>

theorem signature_verifies_reordered:
  assumes "k = signingKeys e p \<or> k \<in> set (previousKeys e p)" and "key_pair e k"
    and "distinct (map fst xs)" and "mset xs = mset ys"
  shows "verify e p (JObj ys) (signPayload e k (JObj xs))"
  using assms by (rule verify_signed)

theorem signature_verifies_reordered_witness:
  "let e = (demo_env [])\<lparr>nodeSign := \<lambda>_ m. m, nodeVerify := \<lambda>_ m sig. sig = m\<rparr> in
     verify e WEBHOOK (JObj [(''b'', JNull), (''a'', JNum 1)]) (signPayload e demo_key (JObj [(''a'', JNum 1), (''b'', JNull)]))"
proof -
  let ?e = "(demo_env [])\<lparr>nodeSign := \<lambda>_ m. m, nodeVerify := \<lambda>_ m sig. sig = m\<rparr>"
  have "demo_key = signingKeys ?e WEBHOOK \<or> demo_key \<in> set (previousKeys ?e WEBHOOK)" by (simp add: demo_env_def)
  moreover have "key_pair ?e demo_key" by (simp add: key_pair_def)
  ultimately have "verify ?e WEBHOOK (JObj [(''b'', JNull), (''a'', JNum 1)])
      (signPayload ?e demo_key (JObj [(''a'', JNum 1), (''b'', JNull)]))"
    by (rule signature_verifies_reordered) simp_all
  then show ?thesis unfolding Let_def .
qed

text \<open>
  C31. Rotation. When the secret that was active becomes the previous one, everything signed before
  verifies under the new key ring, for any order of the payload's members, if the old key's halves
  belong together (the law of the signature primitive), and the old public key stays published.
\<close>

theorem rotation_keeps_signatures:
  assumes "load_keyring g before = Inr r" and "load_keyring g after = Inr r'" and "rotated before after"
    and "kr_keys r p = Some k" and "key_pair e k" and "distinct (map fst xs)" and "mset xs = mset ys"
  shows "verify (with_keyring r' e) p (JObj ys) (sign (with_keyring r e) p (JObj xs))
    \<and> (p, sk_keyId k, sk_publicKeyPem k, ''superseded'') \<in> set (allPublicKeys r')"
  using rotation_verifies [OF assms] rotation_publishes [OF assms(1-4)] by blast

theorem rotation_keeps_signatures_witness:
  "\<exists>r r'. load_keyring demo_kenv (vars_of [(''TRUSTEE_SIGNING_KEYS'', ''{1'')]) = Inr r
     \<and> load_keyring demo_kenv (vars_of [(''TRUSTEE_SIGNING_KEYS'', ''{2''), (''TRUSTEE_SIGNING_KEYS_PREVIOUS'', ''{1'')]) = Inr r'
     \<and> verify (with_keyring r' echo_env) WEBHOOK (JObj [(''b'', JNull), (''a'', JNum 1)])
         (sign (with_keyring r echo_env) WEBHOOK (JObj [(''a'', JNum 1), (''b'', JNull)]))"
proof -
  obtain r where r: "load_keyring demo_kenv (vars_of [(''TRUSTEE_SIGNING_KEYS'', ''{1'')]) = Inr r"
    "kr_keys r WEBHOOK = Some (signing_key WEBHOOK (demo_entry ''{1''))" using demo_ring_old by blast
  obtain r' where r': "load_keyring demo_kenv (vars_of [(''TRUSTEE_SIGNING_KEYS'', ''{2''), (''TRUSTEE_SIGNING_KEYS_PREVIOUS'', ''{1'')]) = Inr r'"
    using demo_ring_new by blast
  from rotation_keeps_signatures [OF r(1) r' demo_rotated r(2) echo_pair, of "[(''a'', JNum 1), (''b'', JNull)]" "[(''b'', JNull), (''a'', JNum 1)]"]
  have "verify (with_keyring r' echo_env) WEBHOOK (JObj [(''b'', JNull), (''a'', JNum 1)])
      (sign (with_keyring r echo_env) WEBHOOK (JObj [(''a'', JNum 1), (''b'', JNull)]))" by simp
  with r(1) r' show ?thesis by blast
qed



text \<open>
  C33. Approval policies. \<open>evaluateAbac\<close> denies exactly when some enabled policy with effect DENY
  matches, whatever its priority; otherwise it takes the approvals and roles of a matching
  REQUIRE policy of the highest priority, and two approvals when there is none.
\<close>

theorem abac_deny_overrides:
  "if \<exists>p \<in> set ps. matches p tx \<and> pr_effect p = ''DENY'' then ad_denied (evaluateAbac ps tx)
   else \<not> ad_denied (evaluateAbac ps tx) \<and>
     (if \<exists>p \<in> set ps. matches p tx \<and> pr_effect p = ''REQUIRE''
      then \<exists>p \<in> set ps. matches p tx \<and> pr_effect p = ''REQUIRE''
        \<and> ad_requiredApprovals (evaluateAbac ps tx) = pr_requiredApprovals p
        \<and> ad_requiredRoles (evaluateAbac ps tx) = pr_requiredRoles p
        \<and> (\<forall>q \<in> set ps. matches q tx \<and> pr_effect q = ''REQUIRE'' \<longrightarrow> pr_priority q \<le> pr_priority p)
      else ad_requiredApprovals (evaluateAbac ps tx) = 2 \<and> ad_requiredRoles (evaluateAbac ps tx) = [])"
  using abac_denied_iff [of ps tx] abac_not_denied [of ps tx] by auto

theorem abac_deny_overrides_witness:
  "let r = \<lparr>pr_id = ''1'', pr_transactionType = ''MINT'', pr_minAmountMinor = Some 100, pr_maxAmountMinor = None,
       pr_currency = None, pr_riskLevel = None, pr_programId = None, pr_assetId = None, pr_jurisdiction = None,
       pr_requiredApprovals = 3, pr_requiredRoles = [], pr_effect = ''REQUIRE'', pr_priority = 5, pr_enabled = True\<rparr>;
     tx = \<lparr>tx_transactionType = ''MINT'', tx_amountMinor = Some 500, tx_currency = None, tx_riskLevel = None,
       tx_programId = None, tx_assetId = None, tx_jurisdiction = None\<rparr> in
   ad_requiredApprovals (evaluateAbac [r] tx) = 3 \<and> ad_denied (evaluateAbac [r, r\<lparr>pr_effect := ''DENY'', pr_priority := 0\<rparr>] tx)"
proof -
  let ?r = "\<lparr>pr_id = ''1'', pr_transactionType = ''MINT'', pr_minAmountMinor = Some 100, pr_maxAmountMinor = None,
       pr_currency = None, pr_riskLevel = None, pr_programId = None, pr_assetId = None, pr_jurisdiction = None,
       pr_requiredApprovals = 3, pr_requiredRoles = [], pr_effect = ''REQUIRE'', pr_priority = 5, pr_enabled = True\<rparr>"
  let ?tx = "\<lparr>tx_transactionType = ''MINT'', tx_amountMinor = Some 500, tx_currency = None, tx_riskLevel = None,
       tx_programId = None, tx_assetId = None, tx_jurisdiction = None\<rparr>"
  have "matches ?r ?tx" "matches (?r\<lparr>pr_effect := ''DENY'', pr_priority := 0\<rparr>) ?tx"
    by (simp_all add: matches_def attr_ok_def truthy_def)
  with abac_deny_overrides [of "[?r]" ?tx] abac_deny_overrides [of "[?r, ?r\<lparr>pr_effect := ''DENY'', pr_priority := 0\<rparr>]" ?tx]
  show ?thesis by simp
qed

section \<open>Admission\<close>

text \<open>
  C34. Who acts. Take any router that matches the literal text of the routes, the case of letters
  aside, as Express does. If a served request that is not one of the account routes (login, MFA and
  password) changes the platform, the policies, the registry, the outbox, or the users, clients or
  roles, then a route of that call matched it, and either the request carries a live operator
  session of the trustee bank that is not limited to MFA enrolment, whose roles grant the permission
  the route declares, or the credentials of an enabled client of a platform the call is meant for,
  and when that client must sign, the request is fresh, signed with its registered key over method,
  path, nonce and body, and its nonce was never used; or else the path spells the namespace of the
  route with other letters (\<open>/API/v1/...\<close>): the router serves it, and the guards, which compare
  letter by letter, ask for nothing.
\<close>

theorem served_change_is_authorized:
  assumes "matches_literals router" and "\<nexists>x. c = Account x" and "business (snd (serve router q c g a)) \<noteq> business a"
  shows "\<exists>p permission plat. (hq_method q, p, permission) \<in> set (endpoints c) \<and> router p (hq_path q) \<and> plat \<in> set (offered c)
    \<and> (authorized g (ap_gate a) q permission plat \<or> respelled p (hq_path q))"
  using assms(1,3,2) by (rule effect_authorized)

theorem served_change_is_authorized_witness:
  "business (snd (serve express_match demo_request demo_call (demo_genv 60000) demo_api)) \<noteq> business demo_api
     \<and> (authorized (demo_genv 60000) demo_gate demo_request None ''PAYKH'' \<or> authorized (demo_genv 60000) demo_gate demo_request None ''TRUSTEE_BANK'')"
proof -
  have change: "business (snd (serve express_match demo_request demo_call (demo_genv 60000) demo_api)) \<noteq> business demo_api"
    using demo_served by (auto simp: business_def)
  have "\<nexists>x. demo_call = Account x" by (simp add: demo_call_def)
  from served_change_is_authorized [OF express_matches_literals this change] obtain p permission plat where
    auth: "(hq_method demo_request, p, permission) \<in> set (endpoints demo_call)" "plat \<in> set [''PAYKH'', ''TRUSTEE_BANK'']"
      "authorized (demo_genv 60000) demo_gate demo_request permission plat \<or> respelled p (hq_path demo_request)"
    by (auto simp: demo_api_gate demo_call_def)
  from auth(1) have "permission = None" by (auto simp: demo_call_def)
  moreover have "\<not> respelled p (hq_path demo_request)" using demo_request_fields(1) by (auto simp: respelled_def)
  ultimately show ?thesis using change auth by auto
qed

text \<open>The admission of a single request, for any route.\<close>

theorem admitted_request_is_authenticated:
  assumes "admit required q g s = (Inr p, s')" and "requiredPlatform (hq_path q) = Some plat"
  shows "(\<exists>u. p = Some (UserP u) \<and> user_session g q plat u \<and> (\<forall>perm. required = Some perm \<and> perm \<noteq> [] \<longrightarrow>
          (\<exists>slugs. role_slugs (up_roles u) = Inr slugs \<and> holds_permission (gt_roles s) slugs perm)))
    \<or> (\<exists>k \<in> set (gt_clients s). p = Some (ClientP (client_principal k)) \<and> client_session g q plat k
         \<and> (cl_requireSignature k \<and> value_changing q \<longrightarrow> signed_request g k q \<and> \<not> nonce_used (hq_headers q ''x-nonce'') s))"
  using assms by (rule admitted_authenticated)

theorem admitted_request_is_authenticated_witness:
  "is_ok (fst (admit None demo_request (demo_genv 60000) demo_gate))
     \<and> client_session (demo_genv 60000) demo_request ''PAYKH'' demo_client \<and> signed_request (demo_genv 60000) demo_client demo_request"
proof -
  from demo_admitted obtain s' where run:
    "admit None demo_request (demo_genv 60000) demo_gate = (Inr (Some (ClientP (client_principal demo_client))), s')" by blast
  have "gt_clients demo_gate = [demo_client]" "cl_requireSignature demo_client" by (simp_all add: demo_gate_def demo_client_def)
  with admitted_request_is_authenticated [OF run demo_request_fields(1)] demo_request_fields(2) run show ?thesis by auto
qed

text \<open>
  C35. Two factors. With MFA enforced, a session token that \<open>login\<close> issued admits a request to a
  protected namespace only while it is alive, and only if the login gave the password of an
  enabled account and a TOTP code that matches the account's enrolled secret (Node's codecs
  round-trip the token, see \<open>codec_ok\<close>).
\<close>

theorem operator_session_had_totp:
  assumes "login email password code g s = (Inr (Session tok pending), s')" and "ENFORCE_OPERATOR_MFA g"
    and "bearer q = Some tok" and "requiredPlatform (hq_path q) = Some plat"
    and "\<And>u. find_row au_email email (gt_users s) = Some u \<Longrightarrow> codec_ok g g' (session_of g u)"
    and "is_ok (fst (admit required q g' s2))"
  shows "\<exists>u secret c. find_row au_email email (gt_users s) = Some u \<and> \<not> au_disabled u \<and> password_ok g password u = Inr True
    \<and> au_mfaSecret u = Some secret \<and> code = Some c \<and> verifyTotp (hmacSha1 g) secret c (g_now g) = Inr True
    \<and> g_now g' \<le> (g_now g div 1000 + SESSION_TTL_SECONDS g) * 1000"
  using assms by (rule admitted_session_had_totp)

theorem operator_session_had_totp_witness:
  "is_ok (fst (admit None operator_request (demo_genv 120000) demo_gate))
     \<and> verifyTotp (hmacSha1 (demo_genv 60000)) ''AA'' ''000000'' 60000 = Inr True"
proof -
  have ok: "is_ok (fst (admit None operator_request (demo_genv 120000) demo_gate))" by (simp add: operator_admitted)
  have user: "find_row au_email ''e'' (gt_users demo_gate) = Some demo_operator"
    by (simp add: demo_gate_def demo_operator_def find_row_Cons)
  have "ENFORCE_OPERATOR_MFA (demo_genv 60000)" "g_now (demo_genv 60000) = 60000" "au_mfaSecret demo_operator = Some ''AA''"
    by (simp_all add: demo_genv_def g_now_def demo_operator_def)
  with operator_session_had_totp [OF demo_login _ operator_bearer operator_namespace _ ok] user demo_codec ok
  show ?thesis by auto
qed

text \<open>
  C36. No replay. After a request that had to be signed was admitted, no later request with its
  nonce that has to be signed too (\<open>must_sign\<close>: a value-changing request to a guarded namespace with the
  credentials of a client that has signing switched on) is admitted, whatever requests, logins,
  resets and administrative calls come in between.
\<close>

theorem replayed_request_refused:
  assumes "admit required q g s = (Inr p, s')" and "must_sign g s q"
    and "hq_headers q' ''x-nonce'' = hq_headers q ''x-nonce''" and "must_sign g' (run_directories cs s') q'"
  shows "\<not> is_ok (fst (admit required' q' g' (run_directories cs s')))"
  using assms by (rule directory_replay_refused)

theorem replayed_request_refused_witness:
  "\<exists>s'. is_ok (fst (admit None demo_request (demo_genv 60000) demo_gate))
     \<and> s' = snd (admit None demo_request (demo_genv 60000) demo_gate)
     \<and> \<not> is_ok (fst (admit None demo_request (demo_genv 60000) s'))"
proof -
  from demo_admitted obtain s' where run:
    "admit None demo_request (demo_genv 60000) demo_gate = (Inr (Some (ClientP (client_principal demo_client))), s')" by blast
  have "gt_clients demo_gate = [demo_client]" by (simp add: demo_gate_def)
  moreover from this have "gt_clients s' = [demo_client]"
    using gates_leave_clients [of None demo_request "demo_genv 60000" demo_gate] run by simp
  ultimately have "\<not> is_ok (fst (admit None demo_request (demo_genv 60000) (run_directories [] s')))"
    by (intro replayed_request_refused [OF run]) (simp_all add: demo_must_sign)
  with run show ?thesis by simp
qed

text \<open>
  C37. Rate limit. From the first request of a client in a clock minute on, at most as many of its
  requests of that minute are admitted as its \<open>rateLimitPerMin\<close>, whatever requests of others come in
  between: with Redis configured, of the requests to all replicas together, even if Redis fails for
  some of them (their counters are shared, and a request is refused when a command fails); without
  it, of the requests to one replica. The limit and the client are the same throughout the minute.
\<close>

theorem requests_within_rate_limit:
  assumes "\<And>g required q. (g, required, q) \<in> set cs \<Longrightarrow> (redisLink g \<noteq> NoRedis) = shared \<and> minute g = m \<and> 0 \<le> g_now g"
    and "find_row cl_oauthClientId i (gt_clients s) = Some k" and "i \<noteq> []"
    and "find_row fst (rlKey i m) (window shared s) = None"
  shows "int (admitted_as i cs s) \<le> max 0 (cl_rateLimitPerMin k)"
  using admitted_within_limit [of cs shared m i s k 0] assms by (simp add: counted_def)

theorem requests_within_rate_limit_witness:
  "admitted_as ''c'' [(demo_genv 60000, None, demo_request), (demo_genv 60000, None, operator_request),
     (demo_genv 61000, None, demo_request)] demo_gate = 1"
proof -
  let ?cs = "[(demo_genv 60000, None, demo_request), (demo_genv 60000, None, operator_request), (demo_genv 61000, None, demo_request)]"
  have "find_row cl_oauthClientId ''c'' (gt_clients demo_gate) = Some demo_client"
    by (simp add: demo_gate_def demo_client_def find_row_Cons)
  then have "int (admitted_as ''c'' ?cs demo_gate) \<le> max 0 (cl_rateLimitPerMin demo_client)"
    by (rule requests_within_rate_limit [of ?cs True 1, rotated])
      (auto simp: demo_genv_def minute_def g_now_def demo_gate_def window_def find_row_def)
  moreover from demo_admitted have "1 \<le> admitted_as ''c'' ?cs demo_gate"
    by (auto simp: client_principal_def demo_client_def)
  ultimately show ?thesis by (simp add: demo_client_def)
qed

text \<open>
  C21. Typed bodies. When a request to a route that takes a DTO changes the platform, its body has
  passed the validation pipe: it has no member that the DTO does not declare, every member has its
  declared type (the two fund classifications apart, which are only checked to be strings), and
  what ran is the service call that the body spells, under the permission of a route of that call.
  The decorators are assumed to check the types they document.
\<close>

theorem validated_body_is_typed:
  assumes "documented lib" and "ap_st (snd (submit lib router q ep g a)) \<noteq> ap_st a"
  shows "typed_body (dto_of ep) (body_or_empty (hq_body q))
    \<and> (\<exists>m p permission. (m, p, permission) \<in> set (endpoints (call_of ep (body_or_empty (hq_body q)))) \<and> hq_method q = m \<and> router p (hq_path q)
        \<and> is_ok (fst (admit permission q g (ap_gate a)))
        \<and> submit lib router q ep g a = perform q (call_of ep (body_or_empty (hq_body q))) g
            (a\<lparr>ap_gate := snd (admit permission q g (ap_gate a))\<rparr>))"
  using submit_serve [OF assms(2)] accepted_typed [OF assms(1)] by blast

theorem validated_body_is_typed_witness:
  "ap_st (snd (submit demo_lib (=) demo_request EpReconcileOrders (demo_genv 60000) demo_api)) \<noteq> ap_st demo_api
     \<and> typed_body TenantReconDto (body_or_empty (hq_body demo_request))"
  using validated_body_is_typed [OF demo_lib_documented demo_submitted] demo_submitted by simp

text \<open>
  C24. The permissions that the console lists for a user are exactly the ones that the permission
  guard grants to a session that carries the user's present roles. (A session carries the roles
  of its login: one issued before a change of roles is not covered.)
\<close>

theorem console_shows_enforced_permissions:
  assumes "find_row au_id i (gt_users s) = Some u" and "r \<noteq> []" and "up_roles who = strings (au_roles u)"
  shows "\<exists>ps. effectivePermissions i g s = (Inr (au_roles u, ps), s)
    \<and> (is_ok (fst (permissionGuard (Some r) (Some (UserP who)) g s)) \<longleftrightarrow> r \<in> set ps)"
proof -
  note guard = guard_by_roles [OF assms(3,2), of g s]
  from effective_permissions [OF assms(1), of g] obtain ps where ps: "effectivePermissions i g s = (Inr (au_roles u, ps), s)"
    "\<forall>r. r \<in> set ps \<longleftrightarrow> holds_permission (gt_roles s) (au_roles u) r" by blast
  from guard ps(2) have "is_ok (fst (permissionGuard (Some r) (Some (UserP who)) g s)) \<longleftrightarrow> r \<in> set ps" by simp
  with ps(1) show ?thesis by blast
qed

theorem console_shows_enforced_permissions_witness:
  "let u = demo_operator\<lparr>au_roles := [''auditor'']\<rparr>; s = demo_gate\<lparr>gt_users := [u], gt_roles := [demo_role]\<rparr>;
     who = session_of (demo_genv 60000) u in
   \<exists>ps. effectivePermissions ''u'' (demo_genv 0) s = (Inr ([''auditor''], ps), s) \<and> ''audit.view'' \<in> set ps \<and> ''admin.users'' \<notin> set ps
     \<and> is_ok (fst (permissionGuard (Some ''audit.view'') (Some (UserP who)) (demo_genv 0) s))"
proof -
  let ?u = "demo_operator\<lparr>au_roles := [''auditor'']\<rparr>" and ?g = "demo_genv 0"
  let ?s = "demo_gate\<lparr>gt_users := [?u], gt_roles := [demo_role]\<rparr>"
  let ?who = "session_of (demo_genv 60000) ?u"
  have u: "find_row au_id ''u'' (gt_users ?s) = Some ?u" by (simp add: demo_operator_def find_row_Cons)
  have who: "up_roles ?who = strings (au_roles ?u)" by (simp add: session_of_def strings_def)
  have held: "is_ok (fst (permissionGuard (Some ''audit.view'') (Some (UserP ?who)) ?g ?s))"
    "\<not> is_ok (fst (permissionGuard (Some ''admin.users'') (Some (UserP ?who)) ?g ?s))"
    using guard_by_roles [OF who, of _ ?g ?s] by (simp_all add: holds_permission_def demo_role_def)
  from console_shows_enforced_permissions [OF u _ who, of "''audit.view''" ?g]
    console_shows_enforced_permissions [OF u _ who, of "''admin.users''" ?g] held
  show ?thesis unfolding Let_def by auto
qed

section \<open>Reads and the end-to-end audit\<close>

text \<open>
  C28. Reads. A served read of a route of the guarded namespaces changes no table but those of the
  guards (nonces and rate counters), and is answered only to a live operator session or an enabled
  client of the platform that the route belongs to, under any router that matches the literal text
  of the routes, the case of letters aside; except that a path which spells the namespace with
  other letters is answered to anyone. The open routes (health, published keys, documentation and
  portal pages) are not concerned.
\<close>

theorem served_read_is_private:
  assumes "matches_literals router" and "fst (serve_query router w q x g a) = Inr v"
  shows "snd (serve_query router w q x g a) = a\<lparr>ap_gate := snd (admit None q g (ap_gate a))\<rparr>
    \<and> ((requiredPlatform (hq_path q) = Some (query_platform x) \<and> authorized g (ap_gate a) q None (query_platform x))
      \<or> respelled (query_path x) (hq_path q))"
proof
  show "snd (serve_query router w q x g a) = a\<lparr>ap_gate := snd (admit None q g (ap_gate a))\<rparr>"
    using assms(2) by (auto simp: serve_query_def answer_reads split: prod.splits sum.splits if_splits)
qed (rule served_read_authorized [OF assms])

theorem served_read_is_private_witness:
  "\<exists>rows. fst (serve_query (=) \<lparr>qv_le = (\<lambda>_ _. True), qv_fetch = (\<lambda>_. Inr 200)\<rparr> audit_request (OpsQ (AuditOf None None None None))
         (demo_genv 120000) demo_api) = Inr (AuditRows rows)
     \<and> authorized (demo_genv 120000) (ap_gate demo_api) audit_request None ''TRUSTEE_BANK''"
proof -
  let ?w = "\<lparr>qv_le = (\<lambda>_ _. True), qv_fetch = (\<lambda>_. Inr 200)\<rparr>" and ?x = "OpsQ (AuditOf None None None None)"
  have req: "hq_method audit_request = ''GET''" "hq_path audit_request = admin ''audit''"
    by (simp_all add: audit_request_def admin_def)
  from any_session_reads_audit [OF demo_reader this, of ?w demo_api] obtain rows where
    run: "fst (serve_query (=) ?w audit_request ?x (demo_genv 120000) demo_api) = Inr (AuditRows rows)" by (metis fst_conv)
  have "requiredPlatform (hq_path audit_request) \<noteq> None" by (simp add: req)
  then have "\<not> respelled (query_path ?x) (hq_path audit_request)" by (auto simp: respelled_def)
  with served_read_is_private [OF exact_matches_literals run] run show ?thesis by auto
qed

text \<open>
  C22. Evidence. Two runs of the end-to-end audit whose manifests have the same root hash recorded
  the same evidence, record by record and byte by byte, as long as the hash has no collision
  among the texts of the two packs; and the first ends with exit code 0 exactly when every record
  it made is a PASS.
\<close>

theorem audit_pack_is_bound:
  assumes "audit_main args e fresh = (Inr m, s)" and "audit_main args' e' fresh = (Inr m', s')"
    and "hexDigest (au_auditor e') = hexDigest (au_auditor e)"
    and "no_collision (hexDigest (au_auditor e)) (pack_texts (as_records s) @ pack_texts (as_records s'))"
    and "mf_rootHash (rm_manifest m) = mf_rootHash (rm_manifest m')"
  shows "map (\<lambda>r. stringify (record_json r)) (as_records s) = map (\<lambda>r. stringify (record_json r)) (as_records s')
    \<and> (exit_code (Inr m) = 0 \<longleftrightarrow> list_all (\<lambda>r. er_verdict r = PASS) (as_records s))"
proof
  have sealed: "sealed (hexDigest (au_auditor e)) (as_records s)" "sealed (hexDigest (au_auditor e)) (as_records s')"
    using audit_run_adds(2) [OF assms(1)] audit_run_adds(2) [OF assms(2)] assms(3) by (simp_all add: sealed_def list_all_iff well_sealed_def)
  from audit_main_result [OF assms(1)] audit_main_result [OF assms(2)] assms(3,5)
  have "mf_rootHash (manifest (hexDigest (au_auditor e)) (rm_runId m) (as_records s))
    = mf_rootHash (manifest (hexDigest (au_auditor e)) (rm_runId m') (as_records s'))" by auto
  from manifest_binds [OF sealed assms(4) this]
  show "map (\<lambda>r. stringify (record_json r)) (as_records s) = map (\<lambda>r. stringify (record_json r)) (as_records s')" .
  show "exit_code (Inr m) = 0 \<longleftrightarrow> list_all (\<lambda>r. er_verdict r = PASS) (as_records s)"
    using audit_exit_code [of args e] assms(1) by simp
qed

theorem audit_pack_is_bound_witness:
  "\<exists>m s m' s'. audit_main [''--only'', ''x''] (demo_audit_env ''1'') fresh = (Inr m, s)
     \<and> audit_main [''--only'', ''x''] (demo_audit_env ''2'') fresh = (Inr m', s')
     \<and> rm_runId m \<noteq> rm_runId m' \<and> map (\<lambda>r. stringify (record_json r)) (as_records s) = map (\<lambda>r. stringify (record_json r)) (as_records s')
     \<and> exit_code (Inr m) = 0"
proof -
  from demo_audit_run [of "''1''"] obtain m s where r1: "audit_main [''--only'', ''x''] (demo_audit_env ''1'') fresh = (Inr m, s)"
    "as_records s = [demo_sealed]" "rm_runId m = run_id ''1''" "rm_manifest m = manifest id (run_id ''1'') [demo_sealed]" by blast
  from demo_audit_run [of "''2''"] obtain m' s' where r2: "audit_main [''--only'', ''x''] (demo_audit_env ''2'') fresh = (Inr m', s')"
    "as_records s' = [demo_sealed]" "rm_runId m' = run_id ''2''" "rm_manifest m' = manifest id (run_id ''2'') [demo_sealed]" by blast
  have hex: "hexDigest (au_auditor (demo_audit_env t)) = id" for t by (simp add: demo_audit_env_def demo_auditor_def)
  have root: "mf_rootHash (rm_manifest m) = mf_rootHash (rm_manifest m')" by (simp add: r1(4) r2(4) manifest_def Let_def)
  have "no_collision (hexDigest (au_auditor (demo_audit_env ''1''))) (pack_texts (as_records s) @ pack_texts (as_records s'))"
    using demo_no_collision by (simp add: hex r1(2) r2(2))
  from audit_pack_is_bound [OF r1(1) r2(1) _ this root] hex have
    "map (\<lambda>r. stringify (record_json r)) (as_records s) = map (\<lambda>r. stringify (record_json r)) (as_records s')"
    "exit_code (Inr m) = 0 \<longleftrightarrow> list_all (\<lambda>r. er_verdict r = PASS) (as_records s)" by auto
  moreover have "list_all (\<lambda>r. er_verdict r = PASS) (as_records s)"
    by (simp add: r1(2) demo_sealed_def demo_evidence_def evidence_def)
  moreover have "rm_runId m \<noteq> rm_runId m'" by (simp add: r1(3) r2(3) run_id_def)
  ultimately show ?thesis using r1(1) r2(1) by blast
qed

section \<open>Delivery, books and alerts\<close>

text \<open>
  C38. The outbox drains. Whatever the receivers answer, after at most \<open>MAX_ATTEMPTS\<close> passes for
  each pending event the worker loop has settled every event: it is delivered, or dead-lettered
  after exactly \<open>MAX_ATTEMPTS\<close> failed attempts, and no event was tried more often than that.
\<close>

theorem outbox_settles:
  assumes "uniq qe_id (wk_events s)" and "\<forall>e \<in> set (wk_events s). event_ok m e"
    and "\<forall>g \<in> set gs. MAX_ATTEMPTS g = m \<and> 0 < BATCH_SIZE g"
    and "nat m * length (filter is_pending (wk_events s)) \<le> length gs"
  shows "\<forall>e \<in> set (wk_events (worker_loop gs s)). ob_attempts e \<le> m
    \<and> (if ob_deadLettered e then ob_attempts e = m \<and> ob_deliveredAt e = None else ob_deliveredAt e \<noteq> None)"
  using loop_drains [OF assms(1,3)] loop_events_ok [OF assms(1) _ assms(2), of gs] assms(3,4) backlog_bound [OF assms(2)]
  by (fastforce simp: event_ok_def)

theorem outbox_settles_witness:
  "length (wk_events demo_queue) = 2 \<and> list_all (\<lambda>e. ob_attempts e \<le> 2
     \<and> (if ob_deadLettered e then ob_attempts e = 2 \<and> ob_deliveredAt e = None else ob_deliveredAt e \<noteq> None))
     (wk_events (worker_loop (replicate 4 demo_wenv) demo_queue))"
  using outbox_settles [OF demo_queue_facts(1,2), of "replicate 4 demo_wenv"] demo_queue_facts(3-)
  by (simp add: demo_queue_def list_all_iff)

text \<open>
  C39. Trial balance. In every reachable state the trial balance of a scope is computed without an
  error, its columns agree, each posted account has one row, and where the scope has one
  currency a row's balance is what \<open>ReserveLedgerService.accountBalance\<close> returns for it.
\<close>

theorem trial_balance_agrees:
  assumes "reachable s"
  shows "\<exists>tb. trialBalance s scope = Inr tb \<and> tb_balanced tb \<and> tb_debitMinor tb = tb_creditMinor tb
    \<and> distinct (map tr_account (tb_accounts tb)) \<and> tr_account ` set (tb_accounts tb) = lp_account ` set (scope_postings s scope)
    \<and> (\<forall>r \<in> set (tb_accounts tb). \<forall>cur. (\<forall>en \<in> set (entries s). le_programId en = scope \<longrightarrow> le_currency en = cur)
         \<longrightarrow> accountBalance s scope (tr_account r) cur = Inr (money_big (tr_balanceMinor r) cur))"
  using trial_balance_ok [OF ledger.in_reachable [OF assms], of scope]
    trial_row_is_account_balance [OF ledger.in_reachable [OF assms], of scope]
  by auto

theorem trial_balance_agrees_witness:
  "\<exists>tb. trialBalance issued_state ''P'' = Inr tb \<and> tb_balanced tb
     \<and> LIABILITY_PENDING_MINT \<in> tr_account ` set (tb_accounts tb)"
proof -
  have "LIABILITY_PENDING_MINT \<in> lp_account ` set (scope_postings issued_state ''P'')"
    by (auto simp: issued_fields(9) scope_postings_def demo_entries_def reservation_row_def demo_auth_def image_iff
        ledger_posting_def debit_def credit_def)
  with trial_balance_agrees [OF issued_state_reach, of "''P''"] show ?thesis by auto
qed

text \<open>
  C40. Shortfalls are reported. When the reserve position of an active program shows a negative
  surplus, the scheduler's reserve cycle hands one digest to the notification service that holds
  the program's shortfall with its figures or, when its own snapshot or reconciliation threw, that
  error instead, whatever happens to the cycles of the other programs. (Whether the service sends
  the digest by e-mail or only logs it depends on its API key and on Resend.)
\<close>

theorem shortfall_reported:
  assumes "p \<in> set (programs (sc_st s))" and "pg_status p = ProgramStatus.ACTIVE"
    and "position (sv_env g (pg_id p)) (sc_st s) (pg_id p) = Inr pos" and "minor (rp_surplus pos) < 0"
  shows "\<exists>as. sc_notices (reserveCycle g s) = sc_notices s @ [ReserveAlerts (sv_now g) as]
    \<and> ((\<exists>snap. Shortfall (pg_code p) (pg_id p) (minor (rp_eligibleReserve pos)) (minor (rp_requiredReserve pos))
          (minor (rp_surplus pos)) (rp_currency pos) (rp_reserveRatioBps pos) snap \<in> set as)
       \<or> (\<exists>x t. CycleError (pg_code p) (pg_id p) x \<in> set as \<and> position_part t = position_part (sc_st s)
            \<and> fst (cycle_steps (feedStaleSeconds g) p (sv_env g (pg_id p)) t) = Inl x))"
  using assms by (rule shortfall_noticed)

theorem shortfall_reported_witness:
  "\<exists>as. sc_notices (reserveCycle demo_senv demo_sched) = [ReserveAlerts 0 as] \<and> as \<noteq> []"
proof -
  from uncovered_position obtain pos where pos: "position (demo_env ''i'') uncovered_state ''P'' = Inr pos"
    "minor (rp_surplus pos) = -100" by blast
  have "demo_program \<in> set (programs (sc_st demo_sched))" "pg_status demo_program = ProgramStatus.ACTIVE" "pg_id demo_program = ''P''"
    by (simp_all add: demo_sched_def uncovered_state_def demo_base_def with_reference_def demo_program_def)
  with shortfall_reported [of demo_program demo_sched demo_senv pos] pos show ?thesis
    by (fastforce simp: demo_sched_def demo_senv_def)
qed

text \<open>
  C25. The console's event counters. In every state that delivery passes and replays lead to, in any
  order and number, every queued event is counted exactly once by \<open>integrationHealth\<close>, as
  dead-lettered, pending or delivered, and each filtered list shows only events of its status.
\<close>

theorem outbox_counters_partition:
  assumes "outbox_ok m s" and "\<forall>step \<in> set steps. worker_limit step = m" and "0 < m"
  shows "let t = fold worker_act steps s; h = integrationHealth fetch e t in
    hl_deadLettered h + hl_pending h + hl_delivered h = length (wk_events t)
    \<and> list_all (\<lambda>v. wv_status v = ''DEAD_LETTERED'') (listWebhooks (Some ''dead'') limit t)
    \<and> list_all (\<lambda>v. wv_status v = ''DELIVERED'') (listWebhooks (Some ''delivered'') limit t)
    \<and> list_all (\<lambda>v. wv_status v = ''PENDING'') (listWebhooks (Some ''pending'') limit t)"
proof -
  from worker_run_ok [OF assms] have ok: "outbox_ok m (fold worker_act steps s)" .
  from health_partition [OF this] listed_status [OF ok] show ?thesis by (simp add: Let_def list_all_iff)
qed

theorem outbox_counters_partition_witness:
  "let h = integrationHealth (\<lambda>_. Inr 200) (demo_env []) (fold worker_act [Pass demo_wenv, ReplayDead demo_wenv ''o''] demo_queue) in
     hl_deadLettered h + hl_pending h + hl_delivered h = length (wk_events (fold worker_act [Pass demo_wenv, ReplayDead demo_wenv ''o''] demo_queue))"
proof -
  have "outbox_ok 2 demo_queue" using demo_queue_facts(1,2) by (simp add: outbox_ok_def)
  moreover have "\<forall>step \<in> set [Pass demo_wenv, ReplayDead demo_wenv ''o'']. worker_limit step = 2" by (simp add: demo_wenv_def)
  ultimately have ok: "outbox_ok 2 demo_queue" "\<forall>step \<in> set [Pass demo_wenv, ReplayDead demo_wenv ''o'']. worker_limit step = 2" .
  from outbox_counters_partition [OF ok, of "\<lambda>_. Inr 200" "demo_env []"] show ?thesis by (simp only: Let_def)
qed

section \<open>Amounts, and a gap in the services\<close>

text \<open>
  Money survives its JSON form: \<open>fromJSON (toJSON m)\<close> is \<open>m\<close> for every amount, negative and
  beyond 53 bits included, with the currency in upper case.
\<close>

theorem money_json_round_trip:
  "fromJSON (toJSON m) = Inr \<lparr>minor = minor m, currency = toUpperCase (currency m)\<rparr>"
  by (rule fromJSON_toJSON)

text \<open>
  The peg. Token units and their backing convert into each other without loss:
  \<open>backingForUnits\<close> followed by \<open>unitsForBacking\<close> returns the units, and a backing converts to
  units only when it is the exact multiple of the denomination.
\<close>

theorem peg_round_trip:
  assumes "makePeg cur d = Inr peg"
  shows "(0 \<le> n \<longrightarrow> (\<exists>b. backingForUnits n peg = Inr b \<and> minor b = n * d \<and> unitsForBacking b peg = Inr (Some n)))
    \<and> (unitsForBacking m peg = Inr (Some k) \<longrightarrow> minor m = k * d)"
  using units_of_backing [OF assms] backing_of_units [OF assms] by blast

theorem peg_round_trip_witness:
  "\<exists>peg b. makePeg ''usd'' 25 = Inr peg \<and> backingForUnits 4 peg = Inr b \<and> minor b = 100 \<and> unitsForBacking b peg = Inr (Some 4)"
proof -
  have "makePeg ''usd'' 25 = Inr \<lparr>pegCurrency = toUpperCase ''usd'', denominationMinor = 25\<rparr>" by (simp add: makePeg_def)
  with peg_round_trip [OF this, of 4] show ?thesis by auto
qed

text \<open>
  \<open>MintService.reject\<close> has no status guard: in a reachable state it turns an ISSUED
  authorization into a REJECTED one and posts nothing, so the reserve earmarked for it stays
  in LIABILITY:PENDING_MINT with no authorization left that could release it.
\<close>

theorem reject_strands_the_earmark:
  assumes "reachable s" and "find_row ma_id i (mintAuths s) = Some a" and "ma_status a = MintAuthorizationStatus.ISSUED"
    and "find_approval s i = Some p" and "ap_makerId p \<noteq> checker" and "find_row u_id checker (users s) \<noteq> None"
  shows "\<exists>v s'. mint_reject i checker reason e s = (Inr v, s')
    \<and> find_row ma_id i (mintAuths s') = Some (a\<lparr>ma_status := MintAuthorizationStatus.REJECTED\<rparr>)
    \<and> accountBalance s' scope LIABILITY_PENDING_MINT cur = accountBalance s scope LIABILITY_PENDING_MINT cur"
proof -
  obtain r s' where run: "mint_reject i checker reason e s = (r, s')" by fastforce
  have "is_ok r" using assms(2,4-6) found_has_row [OF assms(4) [unfolded find_approval_def], of ap_id] run
    by (auto simp: mint_reject_def requireAuth_def set_auth_def set_approval_def prog_simps has_row_find)
  then obtain v where v: "r = Inr v" by (cases r) auto
  from mint_reject_effect [OF run] v have "entries s' = entries s"
    "mintAuths s' = set_row ma_id i (\<lambda>a. a\<lparr>ma_status := MintAuthorizationStatus.REJECTED\<rparr>) (mintAuths s)"
    by auto
  with run v assms(2) show ?thesis by (simp add: find_row_set_row accountBalance_simps)
qed

theorem reject_strands_the_earmark_witness:
  "\<exists>v s'. mint_reject ''a'' ''c'' ''no'' (demo_env []) issued_state = (Inr v, s')
     \<and> map_option ma_status (find_row ma_id ''a'' (mintAuths s')) = Some MintAuthorizationStatus.REJECTED
     \<and> accountBalance s' ''P'' LIABILITY_PENDING_MINT ''USD'' = accountBalance issued_state ''P'' LIABILITY_PENDING_MINT ''USD''"
proof -
  from issued_fields(7) obtain sig where "mintAuths issued_state = [issue_auth 0 900000 sig demo_auth]" by blast
  then have a: "find_row ma_id ''a'' (mintAuths issued_state) = Some (issue_auth 0 900000 sig demo_auth)"
    by (simp add: find_row_Cons demo_auth_def)
  obtain p where p: "find_approval issued_state ''a'' = Some p" "ap_makerId p \<noteq> ''c''"
    using issued_fields(8) by (auto simp: find_approval_def find_row_Cons approve_with_def new_approval_def)
  have u: "find_row u_id ''c'' (users issued_state) \<noteq> None"
    by (simp add: issued_fields(3) reviewed_fields find_row_Cons demo_user_def)
  from reject_strands_the_earmark [OF issued_state_reach a _ p u, of "''no''" "demo_env []" "''P''" "''USD''"]
  show ?thesis by auto
qed

end
